(* ===== verification/Prelude.thy ===== *)
theory Prelude
  imports Complex_Main "HOL-Library.Word" "HOL-Library.Multiset" "HOL-Library.AList"
    "HOL-Library.List_Lexorder"
begin

text \<open>
  Shared vocabulary of the development: the machine integer types of the Rust and C sources, the
  sum type that stands for \<open>Result\<close>, big-endian byte encodings of machine integers, hash maps as
  association lists with distinct keys, and the list lemmas that the component theories use.
\<close>

named_theorems wire_simps \<open>evaluation and round-trip rules of the byte encodings\<close>
named_theorems fib_simps \<open>facts on forwarding entries and the maps that hold them\<close>
named_theorems inv_intros \<open>preservation of the components' invariants\<close>

section \<open>Machine integers and results\<close>

type_synonym u8 = "8 word"
type_synonym u16 = "16 word"
type_synonym u32 = "32 word"
type_synonym u64 = "64 word"
type_synonym u128 = "128 word"

type_synonym bytes = "u8 list"

text \<open>\<open>Result<T, E>\<close> is \<open>'e + 'a\<close> with \<open>Inl\<close> for \<open>Err\<close>; \<open>res_bind\<close> is the \<open>?\<close> operator.\<close>

definition res_bind :: "('e + 'a) \<Rightarrow> ('a \<Rightarrow> 'e + 'b) \<Rightarrow> 'e + 'b" where
  "res_bind r f = (case r of Inl e \<Rightarrow> Inl e | Inr a \<Rightarrow> f a)"

lemma res_bind_simps [simp]:
  "res_bind (Inl e) f = Inl e"
  "res_bind (Inr a) f = f a"
  by (simp_all add: res_bind_def)

lemma res_bind_Inr_iff:
  "res_bind r f = Inr b \<longleftrightarrow> (\<exists>a. r = Inr a \<and> f a = Inr b)"
  by (cases r) auto

lemma res_bind_Inl_iff:
  "res_bind r f = Inl e \<longleftrightarrow> r = Inl e \<or> (\<exists>a. r = Inr a \<and> f a = Inl e)"
  by (cases r) auto

text \<open>Rust's \<open>saturating_sub\<close> on unsigned integers.\<close>

definition saturating_sub :: "'a::len word \<Rightarrow> 'a word \<Rightarrow> 'a word" where
  "saturating_sub a b = (if a < b then 0 else a - b)"

lemma unat_saturating_sub: "unat (saturating_sub a b) = unat a - unat b"
  by (auto simp: saturating_sub_def unat_sub word_le_nat_alt word_less_nat_alt not_less)

lemma unat_less_power: "unat (w :: 'a::len word) < 2 ^ LENGTH('a)"
  by (rule unsigned_less)

lemma unat_u8_less: "unat (b :: u8) < 256"
  using unat_less_power [of b] by simp

section \<open>Big-endian byte encodings\<close>

fun nat_to_be :: "nat \<Rightarrow> nat \<Rightarrow> bytes" where
  "nat_to_be 0 k = []"
| "nat_to_be (Suc n) k = nat_to_be n (k div 256) @ [of_nat k]"

definition nat_of_be :: "bytes \<Rightarrow> nat" where
  "nat_of_be bs = foldl (\<lambda>a b. a * 256 + unat b) 0 bs"

lemma nat_of_be_Nil [simp]: "nat_of_be [] = 0"
  by (simp add: nat_of_be_def)

lemma nat_of_be_snoc [simp]: "nat_of_be (bs @ [b]) = nat_of_be bs * 256 + unat b"
  by (simp add: nat_of_be_def)

lemma length_nat_to_be [simp, wire_simps]: "length (nat_to_be n k) = n"
  by (induction n arbitrary: k) auto

lemma unat_of_nat_u8: "unat (of_nat k :: u8) = k mod 256"
  by (simp add: unat_of_nat)

lemma nat_of_be_to_be: "nat_of_be (nat_to_be n k) = k mod 256 ^ n"
proof (induction n arbitrary: k)
  case 0
  then show ?case by simp
next
  case (Suc n)
  have "nat_of_be (nat_to_be (Suc n) k) = (k div 256) mod 256 ^ n * 256 + k mod 256"
    by (simp add: Suc.IH unat_of_nat_u8)
  also have "\<dots> = k mod 256 ^ Suc n"
    using mod_mult2_eq [of k 256 "256 ^ n"] by simp
  finally show ?case .
qed

lemma nat_of_be_bound: "nat_of_be bs < 256 ^ length bs"
proof (induction bs rule: rev_induct)
  case Nil
  then show ?case by simp
next
  case (snoc b bs)
  have b: "unat b < 256" by (rule unat_u8_less)
  from snoc have "nat_of_be bs + 1 \<le> 256 ^ length bs" by simp
  then have "(nat_of_be bs + 1) * 256 \<le> 256 ^ length bs * 256" by (rule mult_le_mono1)
  with b show ?case by simp
qed

lemma nat_to_be_of_be: "length bs = n \<Longrightarrow> nat_to_be n (nat_of_be bs) = bs"
proof (induction bs arbitrary: n rule: rev_induct)
  case Nil
  then show ?case by simp
next
  case (snoc b bs)
  then obtain m where n: "n = Suc m" and m: "length bs = m" by auto
  have b: "unat b < 256" by (rule unat_u8_less)
  have "unat (of_nat (nat_of_be bs * 256 + unat b) :: u8) = (nat_of_be bs * 256 + unat b) mod 256"
    by (rule unat_of_nat_u8)
  also have "\<dots> = unat b" using b by simp
  finally have "of_nat (nat_of_be bs * 256 + unat b) = b"
    by (rule unsigned_word_eqI)
  with b show ?case
    using snoc.IH [OF m] by (simp add: n)
qed

text \<open>\<open>to_be_bytes\<close> and \<open>from_be_bytes\<close> of the unsigned integer types.\<close>

definition to_be_bytes :: "'a::len word \<Rightarrow> bytes" where
  "to_be_bytes w = nat_to_be (LENGTH('a) div 8) (unat w)"

definition from_be_bytes :: "bytes \<Rightarrow> 'a::len word" where
  "from_be_bytes bs = of_nat (nat_of_be bs)"

lemma length_to_be_bytes [simp, wire_simps]:
  "length (to_be_bytes (w :: 'a::len word)) = LENGTH('a) div 8"
  by (simp add: to_be_bytes_def)

lemma from_to_be_bytes:
  fixes w :: "'a::len word"
  assumes "8 dvd LENGTH('a)"
  shows "from_be_bytes (to_be_bytes w) = w"
proof -
  from assms obtain k where k: "LENGTH('a) = 8 * k" by (auto elim: dvdE)
  have "(256::nat) ^ k = 2 ^ LENGTH('a)"
    by (simp add: k power_mult)
  then have "nat_of_be (to_be_bytes w) = unat w"
    using unat_less_power [of w] by (simp add: to_be_bytes_def nat_of_be_to_be k)
  then show ?thesis by (simp add: from_be_bytes_def)
qed

lemma to_from_be_bytes:
  assumes "length bs * 8 = LENGTH('a::len)"
  shows "to_be_bytes (from_be_bytes bs :: 'a word) = bs"
proof -
  from assms have len: "LENGTH('a) div 8 = length bs" by presburger
  have "(256::nat) ^ length bs = 2 ^ LENGTH('a)"
    by (simp add: power_mult mult.commute [of _ 8] flip: assms)
  then have "unat (from_be_bytes bs :: 'a word) = nat_of_be bs"
    using nat_of_be_bound [of bs] by (simp add: from_be_bytes_def unat_of_nat)
  then show ?thesis by (simp add: to_be_bytes_def len nat_to_be_of_be)
qed

lemma from_to_be_bytes_widths [simp, wire_simps]:
  "from_be_bytes (to_be_bytes (a :: u8)) = a"
  "from_be_bytes (to_be_bytes (b :: u16)) = b"
  "from_be_bytes (to_be_bytes (c :: u32)) = c"
  "from_be_bytes (to_be_bytes (d :: u64)) = d"
  "from_be_bytes (to_be_bytes (e :: u128)) = e"
  by (rule from_to_be_bytes, simp)+

text \<open>Evaluation of the short encodings.\<close>

lemma to_be_bytes_u8: "to_be_bytes (w :: u8) = [w]"
  by (simp add: to_be_bytes_def)

lemma to_be_bytes_u16: "to_be_bytes (w :: u16) = [of_nat (unat w div 256), of_nat (unat w)]"
  by (simp add: to_be_bytes_def numeral_2_eq_2)

lemma to_be_bytes_u32:
  "to_be_bytes (w :: u32) =
     [of_nat (unat w div 16777216), of_nat (unat w div 65536), of_nat (unat w div 256), of_nat (unat w)]"
proof -
  have d: "k div 256 div 256 = k div 65536" "k div 65536 div 256 = k div 16777216" for k :: nat
    using div_mult2_eq [of k 256 256] div_mult2_eq [of k 65536 256] by simp_all
  have "LENGTH(32) div 8 = Suc (Suc (Suc (Suc 0)))" by simp
  then show ?thesis unfolding to_be_bytes_def by (simp only: nat_to_be.simps d append.simps)
qed

lemma to_be_bytes_inj:
  fixes a b :: "'a::len word"
  assumes "8 dvd LENGTH('a)" "to_be_bytes a = to_be_bytes b"
  shows "a = b"
  using assms from_to_be_bytes by metis

section \<open>Hash maps\<close>

text \<open>
  A \<open>HashMap<K, V>\<close> is an association list whose keys are distinct (\<open>hm_wf\<close>). Rust leaves the
  iteration order of a hash map unspecified: a definition that iterates over one where the order
  can be seen in its result takes the order as a parameter \<open>it\<close>, a function that permutes the
  entries (\<open>iteration_order\<close>).
\<close>

type_synonym ('k, 'v) hashmap = "('k \<times> 'v) list"

definition hm_wf :: "('k, 'v) hashmap \<Rightarrow> bool" where
  "hm_wf m \<longleftrightarrow> distinct (map fst m)"

abbreviation hm_get :: "('k, 'v) hashmap \<Rightarrow> 'k \<Rightarrow> 'v option" where
  "hm_get m k \<equiv> map_of m k"

abbreviation hm_insert :: "'k \<Rightarrow> 'v \<Rightarrow> ('k, 'v) hashmap \<Rightarrow> ('k, 'v) hashmap" where
  "hm_insert k v m \<equiv> AList.update k v m"

abbreviation hm_remove :: "'k \<Rightarrow> ('k, 'v) hashmap \<Rightarrow> ('k, 'v) hashmap" where
  "hm_remove k m \<equiv> AList.delete k m"

definition iteration_order :: "(('k \<times> 'v) list \<Rightarrow> ('k \<times> 'v) list) \<Rightarrow> bool" where
  "iteration_order it \<longleftrightarrow> (\<forall>m. mset (it m) = mset m)"

lemma hm_wf_Nil [simp, intro]: "hm_wf []"
  by (simp add: hm_wf_def)

lemma hm_wf_insert [simp, intro]: "hm_wf m \<Longrightarrow> hm_wf (hm_insert k v m)"
  by (simp add: hm_wf_def distinct_update)

lemma hm_wf_remove [simp, intro]: "hm_wf m \<Longrightarrow> hm_wf (hm_remove k m)"
  by (simp add: hm_wf_def distinct_delete)

lemma hm_wf_map_values [simp]: "hm_wf (map (\<lambda>(k, v). (k, f k v)) m) \<longleftrightarrow> hm_wf m"
  by (simp add: hm_wf_def o_def split_def)

lemma hm_wf_filter [simp, intro]: "hm_wf m \<Longrightarrow> hm_wf (filter P m)"
  by (simp add: hm_wf_def distinct_map_filter)

lemma hm_get_insert: "hm_get (hm_insert k v m) = (hm_get m)(k \<mapsto> v)"
  by (rule update_conv')

lemma hm_get_remove: "hm_get (hm_remove k m) = (hm_get m)(k := None)"
  by (rule delete_conv')

lemma insert_keys: "fst ` set (hm_insert k v m) = insert k (fst ` set m)"
  by (simp add: hm_get_insert flip: dom_map_of_conv_image_fst)

lemma remove_keys: "fst ` set (hm_remove k m) = fst ` set m - {k}"
  by (simp add: hm_get_remove flip: dom_map_of_conv_image_fst)

lemma hm_get_map_values: "hm_get (map (\<lambda>(k, v). (k, f k v)) m) k = map_option (f k) (hm_get m k)"
  by (induction m) auto

lemma hm_get_filter:
  assumes "hm_wf m"
  shows "hm_get (filter P m) k =
    (case hm_get m k of None \<Rightarrow> None | Some v \<Rightarrow> if P (k, v) then Some v else None)"
  using assms
proof (induction m)
  case (Cons a m)
  have "hm_get (filter P m) (fst a) = None" if "fst a \<notin> fst ` set m"
    using that by (auto simp: map_of_eq_None_iff)
  with Cons show ?case
    by (cases a) (auto simp: hm_wf_def split: option.splits)
qed simp

lemma iteration_orderD:
  assumes "iteration_order it"
  shows "mset (it m) = mset m" "set (it m) = set m" "length (it m) = length m"
proof -
  show m: "mset (it m) = mset m" using assms by (simp add: iteration_order_def)
  then show "set (it m) = set m" by (metis set_mset_mset)
  from m show "length (it m) = length m" by (metis size_mset)
qed

lemma iteration_order_wf:
  assumes "iteration_order it" "hm_wf m"
  shows "hm_wf (it m)"
proof -
  have "mset (map fst (it m)) = mset (map fst m)"
    using iteration_orderD(1) [OF assms(1), of m] by (metis mset_map)
  then have "distinct (map fst (it m)) = distinct (map fst m)"
    by (rule mset_eq_imp_distinct_iff)
  then show ?thesis using assms(2) by (simp add: hm_wf_def)
qed

lemma iteration_order_get:
  assumes "iteration_order it" "hm_wf m"
  shows "hm_get (it m) = hm_get m"
  using assms iteration_order_wf [OF assms] iteration_orderD(2) [OF assms(1)]
  by (metis hm_wf_def map_of_inject_set)

section \<open>Lists\<close>

lemma mset_sort_key_eq [simp]: "mset (sort_key f xs) = mset xs"
  by simp

lemma sum_list_mset_cong: "mset xs = mset ys \<Longrightarrow> sum_list (map f xs) = (sum_list (map f ys) :: 'b::comm_monoid_add)"
  by (metis mset_map sum_mset_sum_list)

lemma sum_list_map_fst_zip:
  "length xs = length ys \<Longrightarrow> sum_list (map (\<lambda>(x, y). f x) (zip xs ys)) = sum_list (map f xs)"
  by (induction xs ys rule: list_induct2) auto

end
