(* ===== verification/Bpf_Abi.thy ===== *)
theory Bpf_Abi
  imports Prelude
begin

text \<open>
  The structures shared between the daemon and the eBPF programs
  (\<open>src/erezd/src/bpf_abi.rs\<close>): IPv6-shaped addresses, network prefixes, forwarding entries, RTT
  events and the counters of the eBPF side, with the conversions from and to the address types of
  \<open>std::net\<close> and \<open>ipnet\<close>. An IPv4 address is a 32-bit word and an IPv6 address a 128-bit word, the
  big-endian reading of its octets.
\<close>

section \<open>Addresses and prefixes of std::net and ipnet\<close>

type_synonym ipv4addr = u32
type_synonym ipv6addr = u128

datatype IpAddr = IpV4 ipv4addr | IpV6 ipv6addr

text \<open>
  \<open>IpNet\<close> keeps the address as given and a prefix length; its constructor refuses a length above 32
  or 128 bits.
\<close>

datatype IpNet = NetV4 ipv4addr u8 | NetV6 ipv6addr u8

fun ipnet_wf :: "IpNet \<Rightarrow> bool" where
  "ipnet_wf (NetV4 a p) \<longleftrightarrow> p \<le> 32"
| "ipnet_wf (NetV6 a p) \<longleftrightarrow> p \<le> 128"

fun IpNet_new :: "IpAddr \<Rightarrow> u8 \<Rightarrow> IpNet option" where
  "IpNet_new (IpV4 a) p = (if p \<le> 32 then Some (NetV4 a p) else None)"
| "IpNet_new (IpV6 a) p = (if p \<le> 128 then Some (NetV6 a p) else None)"

fun ipnet_addr :: "IpNet \<Rightarrow> IpAddr" where
  "ipnet_addr (NetV4 a p) = IpV4 a"
| "ipnet_addr (NetV6 a p) = IpV6 a"

fun ipnet_prefix_len :: "IpNet \<Rightarrow> u8" where
  "ipnet_prefix_len (NetV4 a p) = p"
| "ipnet_prefix_len (NetV6 a p) = p"

text \<open>
  \<open>Ipv6Addr::to_ipv4_mapped\<close>: the last four octets of an address whose first twelve are those of
  the prefix \<open>::ffff:0:0/96\<close>.
\<close>

definition ipv4_mapped_prefix :: bytes where
  "ipv4_mapped_prefix = [0, 0, 0, 0, 0, 0, 0, 0, 0, 0, 0xFF, 0xFF]"

definition to_ipv4_mapped :: "ipv6addr \<Rightarrow> ipv4addr option" where
  "to_ipv4_mapped a =
     (let os = to_be_bytes a in
      if take 12 os = ipv4_mapped_prefix then Some (from_be_bytes (drop 12 os)) else None)"

section \<open>CIpv6Addr\<close>

definition IPV6_ADDR_SIZE :: nat where
  "IPV6_ADDR_SIZE = 16"

datatype CIpv6Addr = CIpv6Addr (octets: bytes)

definition CIpv6Addr_UNSPECIFIED :: CIpv6Addr where
  "CIpv6Addr_UNSPECIFIED = CIpv6Addr (replicate IPV6_ADDR_SIZE 0)"

definition cipv6_wf :: "CIpv6Addr \<Rightarrow> bool" where
  "cipv6_wf a \<longleftrightarrow> length (octets a) = IPV6_ADDR_SIZE"

text \<open>\<open>From<IpAddr> for CIpv6Addr\<close>: an IPv4 address is written behind the mapped prefix.\<close>

fun CIpv6Addr_from :: "IpAddr \<Rightarrow> CIpv6Addr" where
  "CIpv6Addr_from (IpV4 addr) =
     (let v6 = replicate IPV6_ADDR_SIZE (0 :: u8);
          v6 = v6[10 := 0xFF];
          v6 = v6[11 := 0xFF];
          v6 = take 12 v6 @ to_be_bytes addr
      in CIpv6Addr v6)"
| "CIpv6Addr_from (IpV6 addr) = CIpv6Addr (to_be_bytes addr)"

text \<open>\<open>From<CIpv6Addr> for IpAddr\<close>.\<close>

definition IpAddr_from_CIpv6Addr :: "CIpv6Addr \<Rightarrow> IpAddr" where
  "IpAddr_from_CIpv6Addr c =
     (let addr = from_be_bytes (octets c) :: ipv6addr in
      case to_ipv4_mapped addr of Some v4 \<Rightarrow> IpV4 v4 | None \<Rightarrow> IpV6 addr)"

section \<open>CNlri\<close>

record CNlri =
  cn_prefix_len :: u32
  cn_address :: CIpv6Addr

definition CNlri_from :: "IpNet \<Rightarrow> CNlri" where
  "CNlri_from prefix =
     (let addr = ipnet_addr prefix;
          prefix_len = ucast (ipnet_prefix_len prefix) :: u32
      in \<lparr> cn_prefix_len = (case addr of IpV4 _ \<Rightarrow> prefix_len + 96 | IpV6 _ \<Rightarrow> prefix_len),
           cn_address = CIpv6Addr_from addr \<rparr>)"

datatype cnlri_error =
    Ipv4MappedInvalidPrefixLength u32
  | Ipv6InvalidPrefixLength u32
  | PrefixLenError

definition IpNet_try_from :: "CNlri \<Rightarrow> cnlri_error + IpNet" where
  "IpNet_try_from nlri =
     (let addr = from_be_bytes (octets (cn_address nlri)) :: ipv6addr in
      case to_ipv4_mapped addr of
        Some v4 \<Rightarrow>
          if cn_prefix_len nlri < 96 \<or> cn_prefix_len nlri - 96 > 32
          then Inl (Ipv4MappedInvalidPrefixLength (cn_prefix_len nlri))
          else (case IpNet_new (IpV4 v4) (ucast (cn_prefix_len nlri - 96)) of
                  Some n \<Rightarrow> Inr n | None \<Rightarrow> Inl PrefixLenError)
      | None \<Rightarrow>
          if cn_prefix_len nlri > 128
          then Inl (Ipv6InvalidPrefixLength (cn_prefix_len nlri))
          else (case IpNet_new (IpV6 addr) (ucast (cn_prefix_len nlri)) of
                  Some n \<Rightarrow> Inr n | None \<Rightarrow> Inl PrefixLenError))"

section \<open>CFibEntry\<close>

definition MAX_NEXTHOPS :: nat where
  "MAX_NEXTHOPS = 4"

definition WEIGHT_DENOMINATOR :: u16 where
  "WEIGHT_DENOMINATOR = 10000"

record CFibEntry =
  cf_matched_nlri :: CNlri
  cf_nexthop_count :: u32
  cf_nexthops :: "CIpv6Addr list"
  cf_weights :: "u16 list"

text \<open>
  The loop over \<open>nexthops.iter_mut().zip(nexthop_addrs)\<close> overwrites the array position by position
  and leaves the positions without an address unspecified.
\<close>

definition CFibEntry_new :: "IpNet \<Rightarrow> nat \<Rightarrow> IpAddr list \<Rightarrow> u16 list \<Rightarrow> CFibEntry" where
  "CFibEntry_new matched_nlri nexthop_count nexthop_addrs weights =
     (let nexthops = replicate MAX_NEXTHOPS CIpv6Addr_UNSPECIFIED;
          nexthops = map (\<lambda>(_, nexthop). CIpv6Addr_from nexthop) (zip nexthops nexthop_addrs)
                     @ drop (length nexthop_addrs) nexthops
      in \<lparr> cf_matched_nlri = CNlri_from matched_nlri,
           cf_nexthop_count = of_nat nexthop_count,
           cf_nexthops = nexthops,
           cf_weights = weights \<rparr>)"

section \<open>CTcpRttEvent\<close>

record CTcpRttEvent =
  ev_matched_nlri :: CNlri
  ev_nexthop :: CIpv6Addr
  ev_padding :: u32
  ev_ts_ns :: u64
  ev_srtt_us :: u32
  ev_rtt_min :: u32

section \<open>Laws of the address conversions\<close>

lemma length_ipv4_mapped_prefix [simp]: "length ipv4_mapped_prefix = 12"
  by (simp add: ipv4_mapped_prefix_def)

lemma octets_from_v4 [wire_simps]:
  "octets (CIpv6Addr_from (IpV4 a)) = ipv4_mapped_prefix @ to_be_bytes a"
  by (simp add: IPV6_ADDR_SIZE_def ipv4_mapped_prefix_def Let_def numeral_eq_Suc)

lemma cipv6_wf_from [simp, intro]: "cipv6_wf (CIpv6Addr_from a)"
  by (cases a) (simp_all add: cipv6_wf_def octets_from_v4 IPV6_ADDR_SIZE_def del: CIpv6Addr_from.simps(1))

lemma cipv6_wf_UNSPECIFIED [simp, intro]: "cipv6_wf CIpv6Addr_UNSPECIFIED"
  by (simp add: cipv6_wf_def CIpv6Addr_UNSPECIFIED_def)

lemma to_ipv4_mapped_Some_iff:
  "to_ipv4_mapped a = Some v4 \<longleftrightarrow> to_be_bytes a = ipv4_mapped_prefix @ to_be_bytes v4"
proof
  assume "to_ipv4_mapped a = Some v4"
  then have pre: "take 12 (to_be_bytes a) = ipv4_mapped_prefix"
    and v4: "v4 = from_be_bytes (drop 12 (to_be_bytes a))"
    by (auto simp: to_ipv4_mapped_def Let_def split: if_splits)
  have "to_be_bytes v4 = drop 12 (to_be_bytes a)"
    unfolding v4 by (rule to_from_be_bytes) simp
  with pre show "to_be_bytes a = ipv4_mapped_prefix @ to_be_bytes v4"
    by (metis append_take_drop_id)
qed (simp add: to_ipv4_mapped_def Let_def)

text \<open>The IPv6 addresses that read back as IPv4: those under the mapped prefix.\<close>

definition is_mapped_v6 :: "IpAddr \<Rightarrow> bool" where
  "is_mapped_v6 a = (case a of IpV4 _ \<Rightarrow> False | IpV6 b \<Rightarrow> to_ipv4_mapped b \<noteq> None)"

lemma from_be_octets_v6 [simp]: "from_be_bytes (octets (CIpv6Addr_from (IpV6 a))) = a"
  by simp

lemma to_be_octets: "cipv6_wf c \<Longrightarrow> to_be_bytes (from_be_bytes (octets c) :: ipv6addr) = octets c"
  by (rule to_from_be_bytes) (simp add: cipv6_wf_def IPV6_ADDR_SIZE_def)

lemma to_ipv4_mapped_of_v4 [simp]:
  "to_ipv4_mapped (from_be_bytes (octets (CIpv6Addr_from (IpV4 a)))) = Some a"
  using to_be_octets [OF cipv6_wf_from, of "IpV4 a"]
  by (simp add: to_ipv4_mapped_Some_iff octets_from_v4 del: CIpv6Addr_from.simps)

lemma IpAddr_from_CIpv6Addr_v4 [simp]: "IpAddr_from_CIpv6Addr (CIpv6Addr_from (IpV4 a)) = IpV4 a"
  by (simp add: IpAddr_from_CIpv6Addr_def del: CIpv6Addr_from.simps)

lemma IpAddr_from_CIpv6Addr_v6:
  "IpAddr_from_CIpv6Addr (CIpv6Addr_from (IpV6 a)) =
     (case to_ipv4_mapped a of Some v4 \<Rightarrow> IpV4 v4 | None \<Rightarrow> IpV6 a)"
  by (simp add: IpAddr_from_CIpv6Addr_def)

lemma IpAddr_CIpv6Addr_roundtrip:
  "IpAddr_from_CIpv6Addr (CIpv6Addr_from a) = a \<longleftrightarrow> \<not> is_mapped_v6 a"
  by (cases a) (auto simp: is_mapped_v6_def IpAddr_from_CIpv6Addr_v6 simp del: CIpv6Addr_from.simps
      split: option.splits)

lemma CIpv6Addr_from_of_IpAddr:
  assumes "cipv6_wf c"
  shows "CIpv6Addr_from (IpAddr_from_CIpv6Addr c) = c"
proof (cases "to_ipv4_mapped (from_be_bytes (octets c))")
  case None
  with to_be_octets [OF assms] show ?thesis by (cases c) (simp add: IpAddr_from_CIpv6Addr_def)
next
  case (Some v4)
  then have "octets c = ipv4_mapped_prefix @ to_be_bytes v4"
    using assms by (simp add: to_ipv4_mapped_Some_iff to_be_octets)
  with Some show ?thesis
    by (cases c) (simp add: IpAddr_from_CIpv6Addr_def octets_from_v4 CIpv6Addr.expand
        del: CIpv6Addr_from.simps)
qed

lemma CIpv6Addr_from_inj:
  assumes "CIpv6Addr_from a = CIpv6Addr_from b" "\<not> is_mapped_v6 a" "\<not> is_mapped_v6 b"
  shows "a = b"
  using assms IpAddr_CIpv6Addr_roundtrip by metis

section \<open>Laws of the prefix conversions\<close>

lemma ucast_prefix_len: "unat (ucast (p :: u8) :: u32) = unat p"
proof -
  have "unat p < 2 ^ 32" using unat_u8_less [of p] by simp
  then show ?thesis by (simp add: unsigned_ucast_eq take_bit_nat_eq_self)
qed

lemma ucast_u8_u32_u8 [simp]: "ucast (ucast (p :: u8) :: u32) = p"
  by (rule unsigned_word_eqI [where ?'a = nat])
     (simp only: unsigned_ucast_eq [where ?'a = nat and w = "ucast p :: u32"] ucast_prefix_len,
      simp add: take_bit_nat_eq_self unat_u8_less)

lemma IpNet_try_from_v4:
  assumes "ipnet_wf (NetV4 a p)"
  shows "IpNet_try_from (CNlri_from (NetV4 a p)) = Inr (NetV4 a p)"
proof -
  have p: "unat p \<le> 32" using assms by (simp add: word_le_nat_alt)
  have sum: "unat (ucast p + 96 :: u32) = unat p + 96"
    using p by (simp add: unat_word_ariths ucast_prefix_len)
  have "\<not> (ucast p + 96 :: u32) < 96" "\<not> (ucast p + 96 - 96 :: u32) > 32"
    using p sum by (auto simp: word_less_nat_alt ucast_prefix_len)
  with assms show ?thesis
    by (simp add: IpNet_try_from_def CNlri_from_def Let_def del: CIpv6Addr_from.simps)
qed

lemma IpNet_try_from_v6:
  assumes "ipnet_wf (NetV6 a p)" "to_ipv4_mapped a = None"
  shows "IpNet_try_from (CNlri_from (NetV6 a p)) = Inr (NetV6 a p)"
proof -
  have "unat (ucast p :: u32) \<le> 128"
    using assms(1) by (simp add: word_le_nat_alt ucast_prefix_len)
  then have "\<not> (ucast p :: u32) > 128" by (simp add: word_less_nat_alt)
  with assms show ?thesis by (simp add: IpNet_try_from_def CNlri_from_def Let_def)
qed

lemma IpNet_try_from_mapped:
  assumes "to_ipv4_mapped a = Some v4"
  shows "IpNet_try_from (CNlri_from (NetV6 a p)) =
    (if p < 96 \<or> 128 < p then Inl (Ipv4MappedInvalidPrefixLength (ucast p))
     else Inr (NetV4 v4 (p - 96)))"
proof -
  have u: "unat (ucast p :: u32) = unat p" by (rule ucast_prefix_len)
  have lt: "(ucast p :: u32) < 96 \<longleftrightarrow> p < 96" by (simp add: word_less_nat_alt u)
  show ?thesis
  proof (cases "p < 96")
    case True
    with lt assms show ?thesis by (simp add: IpNet_try_from_def CNlri_from_def Let_def)
  next
    case False
    then have ge: "96 \<le> unat p" by (simp add: word_less_nat_alt)
    then have d: "unat (ucast p - 96 :: u32) = unat p - 96" "unat (p - 96) = unat p - 96"
      by (simp_all add: unat_sub word_le_nat_alt u)
    have gt: "(ucast p - 96 :: u32) > 32 \<longleftrightarrow> 128 < p"
      using ge by (simp add: word_less_nat_alt d(1)) linarith
    have c: "ucast (ucast p - 96 :: u32) = p - 96"
      by (rule unsigned_word_eqI [where ?'a = nat])
         (simp add: unsigned_ucast_eq d take_bit_nat_eq_self less_imp_diff_less unat_u8_less)
    have le: "p - 96 \<le> 32" if "\<not> 128 < p"
      using that ge by (simp add: word_le_nat_alt word_less_nat_alt d(2))
    from False lt gt c le assms show ?thesis
      by (simp add: IpNet_try_from_def CNlri_from_def Let_def)
  qed
qed

lemma CNlri_roundtrip:
  assumes "ipnet_wf n"
  shows "IpNet_try_from (CNlri_from n) = Inr n \<longleftrightarrow> \<not> is_mapped_v6 (ipnet_addr n)"
proof (cases n)
  case (NetV4 a p)
  with assms show ?thesis by (simp add: IpNet_try_from_v4 is_mapped_v6_def)
next
  case (NetV6 a p)
  with assms show ?thesis
    by (cases "to_ipv4_mapped a")
       (auto simp: IpNet_try_from_v6 IpNet_try_from_mapped is_mapped_v6_def)
qed

lemma CNlri_from_inj:
  assumes "CNlri_from m = CNlri_from n" "ipnet_wf m" "ipnet_wf n"
    "\<not> is_mapped_v6 (ipnet_addr m)" "\<not> is_mapped_v6 (ipnet_addr n)"
  shows "m = n"
  using assms CNlri_roundtrip by (metis Inr_inject)

section \<open>Layout of a forwarding entry\<close>

lemma CFibEntry_new_nexthops:
  assumes "length as \<le> MAX_NEXTHOPS"
  shows "cf_nexthops (CFibEntry_new n c as ws) =
    map CIpv6Addr_from as @ replicate (MAX_NEXTHOPS - length as) CIpv6Addr_UNSPECIFIED"
proof -
  have "map (\<lambda>(_, nexthop). CIpv6Addr_from nexthop) (zip (replicate m x) as) = map CIpv6Addr_from as"
    if "length as \<le> m" for m x
    using that
  proof (induction as arbitrary: m)
    case (Cons a as)
    then show ?case by (cases m) auto
  qed simp
  then show ?thesis using assms by (simp add: CFibEntry_new_def)
qed

end
