(* ===== verification/Bpf_Fib.thy ===== *)
theory Bpf_Fib
  imports Bpf_Abi
begin

text \<open>
  Forwarding entries and the forwarding map of the daemon (\<open>src/erezd/src/bpf.rs\<close>): the checked
  constructor \<open>FibEntry::new\<close>, the map operations \<open>Fib::insert\<close> and \<open>Fib::delete\<close>, and the collector
  that reports the installed weights. The kernel's map itself is not part of the repository: its
  operations are arguments of the definitions, and the locale \<open>bpf_map\<close> states what the daemon
  relies on.
\<close>

section \<open>Weighted nexthops and entries\<close>

record WeightedNexthop =
  wn_nexthop :: IpAddr
  wn_weight :: u16

record FibEntry =
  fe_nexthop_count :: nat
  fe_nexthops :: "IpAddr list"
  fe_weights :: "u16 list"

datatype fib_error =
    RequiresNexthop
  | TooManyNexthops
  | WeightsMustSum
  | ZeroWeight

text \<open>The packing loop of \<open>FibEntry::new\<close> writes entry \<open>i\<close> of the sorted vector to slot \<open>i\<close>.\<close>

fun pack_entries :: "nat \<Rightarrow> WeightedNexthop list \<Rightarrow> IpAddr list \<times> u16 list \<Rightarrow> IpAddr list \<times> u16 list" where
  "pack_entries i [] (ns, ws) = (ns, ws)"
| "pack_entries i (w # xs) (ns, ws) =
     pack_entries (Suc i) xs (ns[i := wn_nexthop w], ws[i := wn_weight w])"

definition weight_sum :: "WeightedNexthop list \<Rightarrow> u32" where
  "weight_sum nexthops = sum_list (map (\<lambda>weighted. ucast (wn_weight weighted)) nexthops)"

definition FibEntry_new :: "WeightedNexthop list \<Rightarrow> fib_error + FibEntry" where
  "FibEntry_new nexthops =
     (if nexthops = [] then Inl RequiresNexthop
      else if length nexthops > MAX_NEXTHOPS then Inl TooManyNexthops
      else if weight_sum nexthops \<noteq> ucast WEIGHT_DENOMINATOR then Inl WeightsMustSum
      else if list_ex (\<lambda>weighted. wn_weight weighted = 0) nexthops then Inl ZeroWeight
      else
        (let nexthops = sort_key (\<lambda>weighted. octets (CIpv6Addr_from (wn_nexthop weighted))) nexthops;
             (packed_nexthops, packed_weights) =
               pack_entries 0 nexthops
                 (replicate MAX_NEXTHOPS (IpV6 0), replicate MAX_NEXTHOPS 0)
         in Inr \<lparr> fe_nexthop_count = length nexthops,
                  fe_nexthops = packed_nexthops,
                  fe_weights = packed_weights \<rparr>))"

text \<open>\<open>FibEntry::nexthops\<close>: the first \<open>nexthop_count\<close> slots, paired.\<close>

definition FibEntry_nexthops :: "FibEntry \<Rightarrow> WeightedNexthop list" where
  "FibEntry_nexthops e =
     map (\<lambda>(nexthop, weight). \<lparr> wn_nexthop = nexthop, wn_weight = weight \<rparr>)
       (zip (take (fe_nexthop_count e) (fe_nexthops e)) (take (fe_nexthop_count e) (fe_weights e)))"

section \<open>The forwarding map\<close>

text \<open>
  \<open>upd\<close> and \<open>del\<close> are the kernel's update and delete calls; \<open>None\<close> is an error return, in which case
  the map is unchanged and \<open>Fib::insert\<close> and \<open>Fib::delete\<close> fail.
\<close>

definition Fib_insert :: "('m \<Rightarrow> CNlri \<Rightarrow> CFibEntry \<Rightarrow> 'm option) \<Rightarrow> 'm \<Rightarrow> IpNet \<Rightarrow> FibEntry \<Rightarrow> 'm option" where
  "Fib_insert upd m nlri fib_entry =
     (let cnlri = CNlri_from nlri;
          cfib_entry = CFibEntry_new nlri (fe_nexthop_count fib_entry)
                         (fe_nexthops fib_entry) (fe_weights fib_entry)
      in upd m cnlri cfib_entry)"

definition Fib_delete :: "('m \<Rightarrow> CNlri \<Rightarrow> 'm option) \<Rightarrow> 'm \<Rightarrow> IpNet \<Rightarrow> 'm option" where
  "Fib_delete del m nlri = del m (CNlri_from nlri)"

text \<open>
  The collector's \<open>encode\<close>: one gauge per nexthop of every entry whose key reads back as a prefix.
\<close>

definition Fib_encode :: "CNlri list \<Rightarrow> (CNlri \<Rightarrow> CFibEntry option) \<Rightarrow> (IpNet \<times> IpAddr \<times> u64) list" where
  "Fib_encode keys lookup =
     concat (map (\<lambda>cnlri.
       case IpNet_try_from cnlri of
         Inl _ \<Rightarrow> []
       | Inr nlri \<Rightarrow>
           (case lookup cnlri of
              None \<Rightarrow> []
            | Some cfib \<Rightarrow>
                (let count = min (unat (cf_nexthop_count cfib)) MAX_NEXTHOPS
                 in map (\<lambda>i. (nlri, IpAddr_from_CIpv6Addr (cf_nexthops cfib ! i),
                              ucast (cf_weights cfib ! i))) [0..<count]))) keys)"

section \<open>Validity of entries\<close>

text \<open>
  What the data plane expects of an entry: between one and four nexthops, each with a positive
  weight, the weights summing to the denominator, and the unused slots cleared.
\<close>

definition weights_ok :: "nat \<Rightarrow> u16 list \<Rightarrow> bool" where
  "weights_ok n ws \<longleftrightarrow>
     length ws = MAX_NEXTHOPS \<and> 1 \<le> n \<and> n \<le> MAX_NEXTHOPS \<and>
     list_all (\<lambda>w. w \<noteq> 0) (take n ws) \<and> sum_list (map unat (take n ws)) = unat WEIGHT_DENOMINATOR"

definition FibEntry_valid :: "FibEntry \<Rightarrow> bool" where
  "FibEntry_valid e \<longleftrightarrow>
     weights_ok (fe_nexthop_count e) (fe_weights e) \<and> length (fe_nexthops e) = MAX_NEXTHOPS"

definition CFibEntry_valid :: "CFibEntry \<Rightarrow> bool" where
  "CFibEntry_valid c \<longleftrightarrow>
     weights_ok (unat (cf_nexthop_count c)) (cf_weights c) \<and> length (cf_nexthops c) = MAX_NEXTHOPS \<and>
     list_all cipv6_wf (cf_nexthops c)"

lemma MAX_NEXTHOPS_unat: "n \<le> MAX_NEXTHOPS \<Longrightarrow> unat (of_nat n :: u32) = n"
  by (simp add: MAX_NEXTHOPS_def unat_of_nat)

lemma pack_entries_eq:
  assumes "i + length xs \<le> length ns" "length ws = length ns"
  shows "pack_entries i xs (ns, ws) =
    (take i ns @ map wn_nexthop xs @ drop (i + length xs) ns,
     take i ws @ map wn_weight xs @ drop (i + length xs) ws)"
  using assms
proof (induction xs arbitrary: i ns ws)
  case (Cons x xs)
  then have "i < length ns" "i < length ws" by simp_all
  with Cons show ?case
    by (simp add: take_Suc_conv_app_nth)
qed simp

lemma weight_sum_nat:
  assumes "length ws \<le> MAX_NEXTHOPS"
  shows "unat (weight_sum ws) = sum_list (map (unat \<circ> wn_weight) ws)"
proof -
  have bound: "sum_list (map (unat \<circ> wn_weight) xs) \<le> length xs * 65535" for xs :: "WeightedNexthop list"
  proof (induction xs)
    case (Cons x xs)
    have "unat (wn_weight x) < 65536" using unat_less_power [of "wn_weight x"] by simp
    with Cons show ?case by simp
  qed simp
  have *: "weight_sum xs = of_nat (sum_list (map (unat \<circ> wn_weight) xs))" for xs :: "WeightedNexthop list"
    by (induction xs) (simp_all add: weight_sum_def)
  have "sum_list (map (unat \<circ> wn_weight) ws) \<le> 4 * 65535"
    using bound [of ws] assms by (auto simp: MAX_NEXTHOPS_def elim!: order_trans)
  then show ?thesis by (simp add: * unat_of_nat)
qed

lemma FibEntry_new_Inr:
  assumes "FibEntry_new ws = Inr e"
  defines "s \<equiv> sort_key (\<lambda>weighted. octets (CIpv6Addr_from (wn_nexthop weighted))) ws"
  shows "fe_nexthop_count e = length ws"
    and "fe_nexthops e = map wn_nexthop s @ replicate (MAX_NEXTHOPS - length ws) (IpV6 0)"
    and "fe_weights e = map wn_weight s @ replicate (MAX_NEXTHOPS - length ws) 0"
    and "1 \<le> length ws" "length ws \<le> MAX_NEXTHOPS"
    and "list_all (\<lambda>w. wn_weight w \<noteq> 0) ws"
    and "sum_list (map (unat \<circ> wn_weight) ws) = unat WEIGHT_DENOMINATOR"
proof -
  have ne: "ws \<noteq> []" and le: "length ws \<le> MAX_NEXTHOPS"
    and sum: "weight_sum ws = ucast WEIGHT_DENOMINATOR"
    and nz: "\<not> list_ex (\<lambda>weighted. wn_weight weighted = 0) ws"
    using assms(1) by (auto simp: FibEntry_new_def split: if_splits)
  have pack: "pack_entries 0 s (replicate MAX_NEXTHOPS (IpV6 0), replicate MAX_NEXTHOPS 0) =
    (map wn_nexthop s @ replicate (MAX_NEXTHOPS - length ws) (IpV6 0),
     map wn_weight s @ replicate (MAX_NEXTHOPS - length ws) 0)"
    using le by (subst pack_entries_eq) (simp_all add: s_def)
  from assms(1) ne le sum nz pack show "fe_nexthop_count e = length ws"
    "fe_nexthops e = map wn_nexthop s @ replicate (MAX_NEXTHOPS - length ws) (IpV6 0)"
    "fe_weights e = map wn_weight s @ replicate (MAX_NEXTHOPS - length ws) 0"
    by (auto simp: FibEntry_new_def Let_def s_def)
  show "1 \<le> length ws" using ne by (cases ws) auto
  show "length ws \<le> MAX_NEXTHOPS" by (rule le)
  show "list_all (\<lambda>w. wn_weight w \<noteq> 0) ws"
    using nz by (simp add: list_ex_iff list_all_iff)
  have "unat (ucast WEIGHT_DENOMINATOR :: u32) = unat WEIGHT_DENOMINATOR"
    by (simp add: WEIGHT_DENOMINATOR_def)
  then show "sum_list (map (unat \<circ> wn_weight) ws) = unat WEIGHT_DENOMINATOR"
    using weight_sum_nat [OF le] sum by simp
qed

lemma FibEntry_new_succeeds_iff:
  "(\<exists>e. FibEntry_new ws = Inr e) \<longleftrightarrow>
     1 \<le> length ws \<and> length ws \<le> MAX_NEXTHOPS \<and> list_all (\<lambda>w. wn_weight w \<noteq> 0) ws \<and>
     sum_list (map (unat \<circ> wn_weight) ws) = unat WEIGHT_DENOMINATOR"
proof
  assume "\<exists>e. FibEntry_new ws = Inr e"
  then show "1 \<le> length ws \<and> length ws \<le> MAX_NEXTHOPS \<and> list_all (\<lambda>w. wn_weight w \<noteq> 0) ws \<and>
     sum_list (map (unat \<circ> wn_weight) ws) = unat WEIGHT_DENOMINATOR"
    using FibEntry_new_Inr(4-7) by blast
next
  assume *: "1 \<le> length ws \<and> length ws \<le> MAX_NEXTHOPS \<and> list_all (\<lambda>w. wn_weight w \<noteq> 0) ws \<and>
     sum_list (map (unat \<circ> wn_weight) ws) = unat WEIGHT_DENOMINATOR"
  have "weight_sum ws = ucast WEIGHT_DENOMINATOR"
    by (rule unsigned_word_eqI [where ?'a = nat]) (use * weight_sum_nat in \<open>simp add: WEIGHT_DENOMINATOR_def\<close>)
  moreover have "ws \<noteq> []" "\<not> length ws > MAX_NEXTHOPS"
    "\<not> list_ex (\<lambda>weighted. wn_weight weighted = 0) ws"
    using * by (auto simp: list_ex_iff list_all_iff)
  ultimately show "\<exists>e. FibEntry_new ws = Inr e"
    by (simp add: FibEntry_new_def Let_def split: prod.split)
qed

lemma sum_list_perm_nat: "mset xs = mset ys \<Longrightarrow> sum_list xs = (sum_list ys :: nat)"
  by (metis sum_mset_sum_list)

lemma FibEntry_new_valid [fib_simps, inv_intros]:
  assumes "FibEntry_new ws = Inr e"
  shows "FibEntry_valid e"
proof -
  note * = FibEntry_new_Inr [OF assms]
  let ?s = "sort_key (\<lambda>weighted. octets (CIpv6Addr_from (wn_nexthop weighted))) ws"
  have len: "length ?s = length ws" by simp
  have set: "set ?s = set ws" by simp
  have "mset (map (unat \<circ> wn_weight) ?s) = mset (map (unat \<circ> wn_weight) ws)" by simp
  then have "sum_list (map (unat \<circ> wn_weight) ?s) = unat WEIGHT_DENOMINATOR"
    using *(7) sum_list_perm_nat by metis
  moreover have "take (fe_nexthop_count e) (fe_weights e) = map wn_weight ?s"
    by (simp add: * len)
  ultimately show ?thesis
    using * set by (simp add: FibEntry_valid_def weights_ok_def list_all_iff)
qed

text \<open>\<open>FibEntry::nexthops\<close> gives back the weighted nexthops of the constructor, sorted.\<close>

lemma FibEntry_nexthops_new [fib_simps]:
  assumes "FibEntry_new ws = Inr e"
  shows "FibEntry_nexthops e =
    sort_key (\<lambda>weighted. octets (CIpv6Addr_from (wn_nexthop weighted))) ws"
proof -
  note * = FibEntry_new_Inr [OF assms]
  let ?s = "sort_key (\<lambda>weighted. octets (CIpv6Addr_from (wn_nexthop weighted))) ws"
  have len: "length ?s = length ws" by simp
  have "map (\<lambda>(nexthop, weight). \<lparr> wn_nexthop = nexthop, wn_weight = weight \<rparr>)
      (zip (map wn_nexthop ys) (map wn_weight ys)) = ys" for ys :: "WeightedNexthop list"
    by (induction ys) auto
  then show ?thesis by (simp add: FibEntry_nexthops_def * len)
qed

lemma CFibEntry_new_valid [inv_intros]:
  assumes "FibEntry_valid e"
  shows "CFibEntry_valid (CFibEntry_new n (fe_nexthop_count e) (fe_nexthops e) (fe_weights e))"
proof -
  have len: "length (fe_nexthops e) = MAX_NEXTHOPS" and cnt: "fe_nexthop_count e \<le> MAX_NEXTHOPS"
    using assms by (auto simp: FibEntry_valid_def weights_ok_def)
  have "cf_nexthops (CFibEntry_new n (fe_nexthop_count e) (fe_nexthops e) (fe_weights e)) =
    map CIpv6Addr_from (fe_nexthops e)"
    by (subst CFibEntry_new_nexthops) (simp_all add: len)
  moreover have "cf_weights (CFibEntry_new n (fe_nexthop_count e) (fe_nexthops e) (fe_weights e)) = fe_weights e"
    and "cf_nexthop_count (CFibEntry_new n (fe_nexthop_count e) (fe_nexthops e) (fe_weights e)) =
      of_nat (fe_nexthop_count e)"
    by (simp_all add: CFibEntry_new_def Let_def)
  ultimately show ?thesis
    using assms MAX_NEXTHOPS_unat [OF cnt] len
    by (simp add: CFibEntry_valid_def FibEntry_valid_def list_all_iff)
qed

section \<open>The contract of the kernel map\<close>

text \<open>
  \<open>e_fib\<close> is a longest-prefix-match trie: two keys denote the same entry when they have the same
  prefix length and agree on the bits under it.
\<close>

definition lpm_key :: "CNlri \<Rightarrow> nat \<times> u128" where
  "lpm_key k = (unat (cn_prefix_len k),
     drop_bit (128 - unat (cn_prefix_len k)) (from_be_bytes (octets (cn_address k))))"

text \<open>Every entry that can be looked up is valid and names the key it was stored under.\<close>

definition fib_sound :: "('m \<Rightarrow> CNlri \<Rightarrow> CFibEntry option) \<Rightarrow> 'm \<Rightarrow> bool" where
  "fib_sound look m \<longleftrightarrow> (\<forall>k c. look m k = Some c \<longrightarrow>
     CFibEntry_valid c \<and> lpm_key (cf_matched_nlri c) = lpm_key k)"

locale bpf_map =
  fixes upd :: "'m \<Rightarrow> CNlri \<Rightarrow> CFibEntry \<Rightarrow> 'm option"
    and del :: "'m \<Rightarrow> CNlri \<Rightarrow> 'm option"
    and look :: "'m \<Rightarrow> CNlri \<Rightarrow> CFibEntry option"
  assumes upd_look: "upd m k c = Some m' \<Longrightarrow>
      look m' k' = (if lpm_key k' = lpm_key k then Some c else look m k')"
    and del_look: "del m k = Some m' \<Longrightarrow>
      look m' k' = (if lpm_key k' = lpm_key k then None else look m k')"
    and del_present: "look m k \<noteq> None \<Longrightarrow> del m k \<noteq> None"
    and look_key: "lpm_key k = lpm_key k' \<Longrightarrow> look m k = look m k'"
begin

lemma insert_look:
  assumes "Fib_insert upd m nlri e = Some m'"
  shows "look m' k = (if lpm_key k = lpm_key (CNlri_from nlri)
      then Some (CFibEntry_new nlri (fe_nexthop_count e) (fe_nexthops e) (fe_weights e))
      else look m k)"
  using assms upd_look by (simp add: Fib_insert_def Let_def)

lemma delete_look:
  assumes "Fib_delete del m nlri = Some m'"
  shows "look m' k = (if lpm_key k = lpm_key (CNlri_from nlri) then None else look m k)"
  using assms del_look by (simp add: Fib_delete_def)

lemma insert_sound [inv_intros]:
  assumes "fib_sound look m" "FibEntry_valid e" "Fib_insert upd m nlri e = Some m'"
  shows "fib_sound look m'"
proof -
  have "CFibEntry_valid (CFibEntry_new nlri (fe_nexthop_count e) (fe_nexthops e) (fe_weights e))"
    using assms(2) by (rule CFibEntry_new_valid)
  moreover have "cf_matched_nlri (CFibEntry_new nlri (fe_nexthop_count e) (fe_nexthops e) (fe_weights e))
      = CNlri_from nlri"
    by (simp add: CFibEntry_new_def Let_def)
  ultimately show ?thesis
    using assms(1) insert_look [OF assms(3)] by (auto simp: fib_sound_def split: if_splits)
qed

lemma delete_sound [inv_intros]:
  assumes "fib_sound look m" "Fib_delete del m nlri = Some m'"
  shows "fib_sound look m'"
  using assms(1) delete_look [OF assms(2)] by (auto simp: fib_sound_def split: if_splits)

end

text \<open>
  A map with room for \<open>cap\<close> prefixes accepts an update as long as the prefixes it holds, with the new
  one, are no more than that.
\<close>

locale bpf_map_sized = bpf_map upd del look
  for upd :: "'m \<Rightarrow> CNlri \<Rightarrow> CFibEntry \<Rightarrow> 'm option" and del :: "'m \<Rightarrow> CNlri \<Rightarrow> 'm option"
    and look :: "'m \<Rightarrow> CNlri \<Rightarrow> CFibEntry option" +
  fixes ok :: "'m \<Rightarrow> bool" and cap :: nat
  assumes ok_upd: "ok m \<Longrightarrow> upd m k c = Some m' \<Longrightarrow> ok m'"
    and ok_del: "ok m \<Longrightarrow> del m k = Some m' \<Longrightarrow> ok m'"
    and room: "ok m \<Longrightarrow> finite K \<Longrightarrow> card K \<le> cap \<Longrightarrow> \<forall>k. look m k \<noteq> None \<longrightarrow> lpm_key k \<in> K \<Longrightarrow>
      lpm_key k \<in> K \<Longrightarrow> upd m k c \<noteq> None"

text \<open>
  A map with the capacity that \<open>erez.bpf.c\<close> declares for \<open>e_fib\<close> satisfies the contract: an update
  of a new key fails when the map is full, and deleting an absent key fails.
\<close>

type_synonym e_fib_map = "(nat \<times> u128, CFibEntry) hashmap"

definition e_fib_max_entries :: nat where
  "e_fib_max_entries = 1024"

definition e_fib_update :: "e_fib_map \<Rightarrow> CNlri \<Rightarrow> CFibEntry \<Rightarrow> e_fib_map option" where
  "e_fib_update m k c =
     (if hm_get m (lpm_key k) = None \<and> length m \<ge> e_fib_max_entries then None
      else Some (hm_insert (lpm_key k) c m))"

definition e_fib_delete :: "e_fib_map \<Rightarrow> CNlri \<Rightarrow> e_fib_map option" where
  "e_fib_delete m k =
     (if hm_get m (lpm_key k) = None then None else Some (hm_remove (lpm_key k) m))"

definition e_fib_look :: "e_fib_map \<Rightarrow> CNlri \<Rightarrow> CFibEntry option" where
  "e_fib_look m k = hm_get m (lpm_key k)"

interpretation e_fib: bpf_map e_fib_update e_fib_delete e_fib_look
  by unfold_locales
     (auto simp: e_fib_update_def e_fib_delete_def e_fib_look_def hm_get_insert hm_get_remove
       split: if_splits)

definition e_fib_ok :: "e_fib_map \<Rightarrow> bool" where
  "e_fib_ok m \<longleftrightarrow> hm_wf m \<and> fst ` set m \<subseteq> range lpm_key"

lemma e_fib_room:
  assumes "e_fib_ok m" "finite K" "card K \<le> e_fib_max_entries"
    "\<forall>k. e_fib_look m k \<noteq> None \<longrightarrow> lpm_key k \<in> K" "lpm_key k \<in> K"
  shows "e_fib_update m k c \<noteq> None"
proof (cases "hm_get m (lpm_key k) = None")
  case True
  have "fst ` set m \<subseteq> K - {lpm_key k}"
  proof
    fix x
    assume x: "x \<in> fst ` set m"
    then obtain k' where k': "x = lpm_key k'" using assms(1) by (auto simp: e_fib_ok_def)
    have "hm_get m x \<noteq> None" using x by (simp add: map_of_eq_None_iff)
    then show "x \<in> K - {lpm_key k}" using assms(4) True by (auto simp: k' e_fib_look_def)
  qed
  then have "card (fst ` set m) \<le> card (K - {lpm_key k})" using assms(2) by (intro card_mono) auto
  moreover have "card (fst ` set m) = length m"
    using assms(1) by (simp add: e_fib_ok_def hm_wf_def distinct_card flip: set_map)
  moreover have "card (K - {lpm_key k}) < card K" using assms(2,5) by (rule card_Diff1_less)
  ultimately have "length m < e_fib_max_entries" using assms(3) by linarith
  then show ?thesis by (simp add: e_fib_update_def)
qed (simp add: e_fib_update_def)

interpretation e_fib_sized: bpf_map_sized e_fib_update e_fib_delete e_fib_look e_fib_ok e_fib_max_entries
proof unfold_locales
  show "e_fib_ok m'" if "e_fib_ok m" "e_fib_update m k c = Some m'" for m k c m'
  proof -
    have m': "m' = hm_insert (lpm_key k) c m" using that(2) by (simp add: e_fib_update_def split: if_splits)
    show ?thesis using that(1) unfolding m' e_fib_ok_def insert_keys by simp
  qed
  show "e_fib_ok m'" if "e_fib_ok m" "e_fib_delete m k = Some m'" for m k m'
  proof -
    have m': "m' = hm_remove (lpm_key k) m" using that(2) by (simp add: e_fib_delete_def split: if_splits)
    have "hm_wf m'" using that(1) by (simp add: m' e_fib_ok_def hm_wf_remove)
    then show ?thesis using that(1) remove_keys [of "lpm_key k" m] by (auto simp: m' e_fib_ok_def)
  qed
qed (rule e_fib_room)

section \<open>What the collector reports\<close>

lemma Fib_encode_entry:
  assumes "ipnet_wf nlri" "\<not> is_mapped_v6 (ipnet_addr nlri)" "FibEntry_valid e"
    "list_all (\<lambda>a. \<not> is_mapped_v6 a) (fe_nexthops e)"
    "lookup (CNlri_from nlri) =
      Some (CFibEntry_new nlri (fe_nexthop_count e) (fe_nexthops e) (fe_weights e))"
  shows "Fib_encode [CNlri_from nlri] lookup =
    map (\<lambda>w. (nlri, wn_nexthop w, ucast (wn_weight w))) (FibEntry_nexthops e)"
proof -
  let ?c = "CFibEntry_new nlri (fe_nexthop_count e) (fe_nexthops e) (fe_weights e)"
  let ?n = "fe_nexthop_count e"
  have len: "length (fe_nexthops e) = MAX_NEXTHOPS" "length (fe_weights e) = MAX_NEXTHOPS"
    and cnt: "?n \<le> MAX_NEXTHOPS"
    using assms(3) by (auto simp: FibEntry_valid_def weights_ok_def)
  have nhs: "cf_nexthops ?c = map CIpv6Addr_from (fe_nexthops e)"
    by (subst CFibEntry_new_nexthops) (simp_all add: len)
  have c: "cf_weights ?c = fe_weights e" "unat (cf_nexthop_count ?c) = ?n"
    using MAX_NEXTHOPS_unat [OF cnt] by (simp_all add: CFibEntry_new_def Let_def)
  have rt: "IpNet_try_from (CNlri_from nlri) = Inr nlri"
    using assms(1,2) CNlri_roundtrip by blast
  have "IpAddr_from_CIpv6Addr (cf_nexthops ?c ! i) = fe_nexthops e ! i" if "i < ?n" for i
    using that cnt len assms(4) by (simp add: nhs IpAddr_CIpv6Addr_roundtrip list_all_length)
  then have "map (\<lambda>i. (nlri, IpAddr_from_CIpv6Addr (cf_nexthops ?c ! i), ucast (cf_weights ?c ! i) :: u64)) [0..<?n]
    = map (\<lambda>i. (nlri, fe_nexthops e ! i, ucast (fe_weights e ! i))) [0..<?n]"
    by (simp add: c)
  also have "\<dots> = map (\<lambda>w. (nlri, wn_nexthop w, ucast (wn_weight w))) (FibEntry_nexthops e)"
    using cnt len by (intro nth_equalityI) (simp_all add: FibEntry_nexthops_def)
  finally show ?thesis
    using cnt by (simp add: Fib_encode_def rt assms(5) Let_def c min_absorb1)
qed

end
