(* ===== verification/Bpf_Metrics.thy ===== *)
theory Bpf_Metrics
  imports Prelude
begin

text \<open>
  The counters of the eBPF programs and their export (\<open>src/erezd/src/bpf_abi.rs\<close>, \<open>bpf.rs\<close>): the
  struct of counters, its view as a slice, the sum over the per-CPU copies, and the tables that say
  under which name and labels each counter is published.
\<close>

section \<open>The counters\<close>

record CEbpfMetrics =
  decap_decapsulated_packets_total :: u64
  decap_errors_total_decap_failed :: u64
  decap_errors_total_decrement_inner_ttl_failed :: u64
  decap_errors_total_fib_lookup_failed :: u64
  decap_errors_total_redirect_failed :: u64
  decap_errors_total_same_ifindex :: u64
  decap_parse_errors_total_short_packet :: u64
  decap_processed_packets_total :: u64
  decap_redirected_packets_total :: u64
  decap_skipped_packets_total_unsupported_inner_l3_proto :: u64
  decap_skipped_packets_total_unsupported_outer_l3_proto :: u64
  decap_skipped_packets_total_unsupported_outer_l4_proto :: u64
  encap_encapsulated_packets_total :: u64
  encap_errors_total_encap_failed :: u64
  encap_fib_entry_validation_errors_total_invalid_nexthop_count :: u64
  encap_fib_entry_validation_errors_total_zero_weight :: u64
  encap_fib_entry_validation_errors_total_invalid_weight_sum :: u64
  encap_fib_hits_total :: u64
  encap_fib_misses_total :: u64
  encap_parse_errors_total_dest_nlri_load :: u64
  encap_parse_errors_total_l4_proto_load :: u64
  encap_processed_packets_total :: u64
  encap_skipped_packets_total_unsupported_l3_proto :: u64
  encap_skipped_packets_total_unsupported_l4_proto :: u64
  encap_sticky_nexthop_total_hit :: u64
  encap_sticky_nexthop_total_miss :: u64
  encap_sticky_nexthop_total_store :: u64
  sockops_rtt_callback_registrations_total_success :: u64
  sockops_rtt_callback_registrations_total_failed :: u64
  sockops_rtt_callbacks_total :: u64
  sockops_rtt_events_total :: u64
  sockops_rtt_event_drops_total_ringbuf_full :: u64
  sockops_rtt_skipped_total_sticky_nexthop_miss :: u64
  sockops_rtt_skipped_total_unsupported_family :: u64

text \<open>\<open>as_counter_slice\<close> is the struct read as an array of \<open>u64\<close>, in field order.\<close>

definition as_counter_slice :: "CEbpfMetrics \<Rightarrow> u64 list" where
  "as_counter_slice m =
    [decap_decapsulated_packets_total m,
     decap_errors_total_decap_failed m,
     decap_errors_total_decrement_inner_ttl_failed m,
     decap_errors_total_fib_lookup_failed m,
     decap_errors_total_redirect_failed m,
     decap_errors_total_same_ifindex m,
     decap_parse_errors_total_short_packet m,
     decap_processed_packets_total m,
     decap_redirected_packets_total m,
     decap_skipped_packets_total_unsupported_inner_l3_proto m,
     decap_skipped_packets_total_unsupported_outer_l3_proto m,
     decap_skipped_packets_total_unsupported_outer_l4_proto m,
     encap_encapsulated_packets_total m,
     encap_errors_total_encap_failed m,
     encap_fib_entry_validation_errors_total_invalid_nexthop_count m,
     encap_fib_entry_validation_errors_total_zero_weight m,
     encap_fib_entry_validation_errors_total_invalid_weight_sum m,
     encap_fib_hits_total m,
     encap_fib_misses_total m,
     encap_parse_errors_total_dest_nlri_load m,
     encap_parse_errors_total_l4_proto_load m,
     encap_processed_packets_total m,
     encap_skipped_packets_total_unsupported_l3_proto m,
     encap_skipped_packets_total_unsupported_l4_proto m,
     encap_sticky_nexthop_total_hit m,
     encap_sticky_nexthop_total_miss m,
     encap_sticky_nexthop_total_store m,
     sockops_rtt_callback_registrations_total_success m,
     sockops_rtt_callback_registrations_total_failed m,
     sockops_rtt_callbacks_total m,
     sockops_rtt_events_total m,
     sockops_rtt_event_drops_total_ringbuf_full m,
     sockops_rtt_skipped_total_sticky_nexthop_miss m,
     sockops_rtt_skipped_total_unsupported_family m]"

text \<open>The same memory read back as the struct.\<close>

definition of_counter_slice :: "u64 list \<Rightarrow> CEbpfMetrics" where
  "of_counter_slice s =
    \<lparr> decap_decapsulated_packets_total = s ! 0,
     decap_errors_total_decap_failed = s ! 1,
     decap_errors_total_decrement_inner_ttl_failed = s ! 2,
     decap_errors_total_fib_lookup_failed = s ! 3,
     decap_errors_total_redirect_failed = s ! 4,
     decap_errors_total_same_ifindex = s ! 5,
     decap_parse_errors_total_short_packet = s ! 6,
     decap_processed_packets_total = s ! 7,
     decap_redirected_packets_total = s ! 8,
     decap_skipped_packets_total_unsupported_inner_l3_proto = s ! 9,
     decap_skipped_packets_total_unsupported_outer_l3_proto = s ! 10,
     decap_skipped_packets_total_unsupported_outer_l4_proto = s ! 11,
     encap_encapsulated_packets_total = s ! 12,
     encap_errors_total_encap_failed = s ! 13,
     encap_fib_entry_validation_errors_total_invalid_nexthop_count = s ! 14,
     encap_fib_entry_validation_errors_total_zero_weight = s ! 15,
     encap_fib_entry_validation_errors_total_invalid_weight_sum = s ! 16,
     encap_fib_hits_total = s ! 17,
     encap_fib_misses_total = s ! 18,
     encap_parse_errors_total_dest_nlri_load = s ! 19,
     encap_parse_errors_total_l4_proto_load = s ! 20,
     encap_processed_packets_total = s ! 21,
     encap_skipped_packets_total_unsupported_l3_proto = s ! 22,
     encap_skipped_packets_total_unsupported_l4_proto = s ! 23,
     encap_sticky_nexthop_total_hit = s ! 24,
     encap_sticky_nexthop_total_miss = s ! 25,
     encap_sticky_nexthop_total_store = s ! 26,
     sockops_rtt_callback_registrations_total_success = s ! 27,
     sockops_rtt_callback_registrations_total_failed = s ! 28,
     sockops_rtt_callbacks_total = s ! 29,
     sockops_rtt_events_total = s ! 30,
     sockops_rtt_event_drops_total_ringbuf_full = s ! 31,
     sockops_rtt_skipped_total_sticky_nexthop_miss = s ! 32,
     sockops_rtt_skipped_total_unsupported_family = s ! 33 \<rparr>"

definition CEbpfMetrics_default :: CEbpfMetrics where
  "CEbpfMetrics_default = of_counter_slice (replicate 34 0)"

text \<open>\<open>AddAssign\<close>: counter by counter, with the wrap-around of a release build.\<close>

definition CEbpfMetrics_add_assign :: "CEbpfMetrics \<Rightarrow> CEbpfMetrics \<Rightarrow> CEbpfMetrics" where
  "CEbpfMetrics_add_assign self other =
     of_counter_slice (map (\<lambda>(value, other_value). value + other_value)
       (zip (as_counter_slice self) (as_counter_slice other)))"

text \<open>
  \<open>MetricsMap::read\<close>: the per-CPU values of the single map entry, summed. The kernel lookup can fail
  (\<open>lookup = None\<close>), find no entry (\<open>Some None\<close>), or return raw values, each of which is decoded
  (\<open>pod_read\<close>) before it is added.
\<close>

datatype metrics_error = LookupFailed | NoEntry | DeserialiseFailed

fun sum_cpus :: "(bytes \<Rightarrow> CEbpfMetrics option) \<Rightarrow> CEbpfMetrics \<Rightarrow> bytes list \<Rightarrow> metrics_error + CEbpfMetrics" where
  "sum_cpus pod_read acc [] = Inr acc"
| "sum_cpus pod_read acc (value # values) =
     (case pod_read value of
        None \<Rightarrow> Inl DeserialiseFailed
      | Some cpu_metrics \<Rightarrow> sum_cpus pod_read (CEbpfMetrics_add_assign acc cpu_metrics) values)"

definition MetricsMap_read ::
    "(bytes \<Rightarrow> CEbpfMetrics option) \<Rightarrow> bytes list option option \<Rightarrow> metrics_error + CEbpfMetrics" where
  "MetricsMap_read pod_read lookup =
     (case lookup of
        None \<Rightarrow> Inl LookupFailed
      | Some None \<Rightarrow> Inl NoEntry
      | Some (Some values) \<Rightarrow> sum_cpus pod_read CEbpfMetrics_default values)"

section \<open>Published families\<close>

record BpfMetricSeries =
  bms_index :: nat
  bms_labels :: "(string \<times> string) list"

record BpfMetricFamily =
  bmf_name :: string
  bmf_help :: string
  bmf_series :: "BpfMetricSeries list"

datatype MetricsSet = Encap | Decap

definition DECAP_METRIC_FAMILIES :: "BpfMetricFamily list" where
  "DECAP_METRIC_FAMILIES = [
    \<lparr> bmf_name = ''erez_decap_decapsulated_packets'',
      bmf_help = ''Total number of packets successfully decapsulated by erez_decap'',
      bmf_series = [\<lparr> bms_index = 0, bms_labels = [] \<rparr>] \<rparr>,
    \<lparr> bmf_name = ''erez_decap_errors'',
      bmf_help = ''Total number of errors encountered by erez_decap'',
      bmf_series = [\<lparr> bms_index = 1, bms_labels = [(''reason'', ''decap-failed'')] \<rparr>,
        \<lparr> bms_index = 2, bms_labels = [(''reason'', ''decrement-inner-ttl-failed'')] \<rparr>,
        \<lparr> bms_index = 3, bms_labels = [(''reason'', ''fib-lookup-failed'')] \<rparr>,
        \<lparr> bms_index = 4, bms_labels = [(''reason'', ''redirect-failed'')] \<rparr>,
        \<lparr> bms_index = 5, bms_labels = [(''reason'', ''same-ifindex'')] \<rparr>] \<rparr>,
    \<lparr> bmf_name = ''erez_decap_parse_errors'',
      bmf_help = ''Total number of parse errors encountered by erez_decap'',
      bmf_series = [\<lparr> bms_index = 6, bms_labels = [(''reason'', ''short-packet'')] \<rparr>] \<rparr>,
    \<lparr> bmf_name = ''erez_decap_processed_packets'',
      bmf_help = ''Total number of packets processed by erez_decap'',
      bmf_series = [\<lparr> bms_index = 7, bms_labels = [] \<rparr>] \<rparr>,
    \<lparr> bmf_name = ''erez_decap_redirected_packets'',
      bmf_help = ''Total number of packets redirected by erez_decap'',
      bmf_series = [\<lparr> bms_index = 8, bms_labels = [] \<rparr>] \<rparr>,
    \<lparr> bmf_name = ''erez_decap_skipped_packets'',
      bmf_help = ''Total number of packets skipped by erez_decap'',
      bmf_series = [\<lparr> bms_index = 9, bms_labels = [(''reason'', ''unsupported-inner-l3-proto'')] \<rparr>,
        \<lparr> bms_index = 10, bms_labels = [(''reason'', ''unsupported-outer-l3-proto'')] \<rparr>,
        \<lparr> bms_index = 11, bms_labels = [(''reason'', ''unsupported-outer-l4-proto'')] \<rparr>] \<rparr>]"

definition ENCAP_METRIC_FAMILIES :: "BpfMetricFamily list" where
  "ENCAP_METRIC_FAMILIES = [
    \<lparr> bmf_name = ''erez_encap_encapsulated_packets'',
      bmf_help = ''Total number of packets successfully encapsulated by erez_encap'',
      bmf_series = [\<lparr> bms_index = 12, bms_labels = [] \<rparr>] \<rparr>,
    \<lparr> bmf_name = ''erez_encap_errors'',
      bmf_help = ''Total number of errors encountered by erez_encap'',
      bmf_series = [\<lparr> bms_index = 13, bms_labels = [(''reason'', ''encap-failed'')] \<rparr>] \<rparr>,
    \<lparr> bmf_name = ''erez_encap_fib_entry_validation_errors'',
      bmf_help = ''Total number of invalid FIB entries observed by erez_encap'',
      bmf_series = [\<lparr> bms_index = 14, bms_labels = [(''reason'', ''invalid-nexthop-count'')] \<rparr>,
        \<lparr> bms_index = 15, bms_labels = [(''reason'', ''zero-weight'')] \<rparr>,
        \<lparr> bms_index = 16, bms_labels = [(''reason'', ''invalid-weight-sum'')] \<rparr>] \<rparr>,
    \<lparr> bmf_name = ''erez_encap_fib_hits'',
      bmf_help = ''Total number of e_fib hits encountered by erez_encap'',
      bmf_series = [\<lparr> bms_index = 17, bms_labels = [] \<rparr>] \<rparr>,
    \<lparr> bmf_name = ''erez_encap_fib_misses'',
      bmf_help = ''Total number of e_fib misses encountered by erez_encap'',
      bmf_series = [\<lparr> bms_index = 18, bms_labels = [] \<rparr>] \<rparr>,
    \<lparr> bmf_name = ''erez_encap_parse_errors'',
      bmf_help = ''Total number of parse errors encountered by erez_encap'',
      bmf_series = [\<lparr> bms_index = 19, bms_labels = [(''reason'', ''dest-nlri-load'')] \<rparr>,
        \<lparr> bms_index = 20, bms_labels = [(''reason'', ''l4-proto-load'')] \<rparr>] \<rparr>,
    \<lparr> bmf_name = ''erez_encap_processed_packets'',
      bmf_help = ''Total number of packets processed by erez_encap'',
      bmf_series = [\<lparr> bms_index = 21, bms_labels = [] \<rparr>] \<rparr>,
    \<lparr> bmf_name = ''erez_encap_skipped_packets'',
      bmf_help = ''Total number of packets skipped by erez_encap'',
      bmf_series = [\<lparr> bms_index = 22, bms_labels = [(''reason'', ''unsupported-l3-proto'')] \<rparr>,
        \<lparr> bms_index = 23, bms_labels = [(''reason'', ''unsupported-l4-proto'')] \<rparr>] \<rparr>,
    \<lparr> bmf_name = ''erez_encap_sticky_nexthop'',
      bmf_help = ''Total number of sticky nexthop lookups and stores by erez_encap'',
      bmf_series = [\<lparr> bms_index = 24, bms_labels = [(''result'', ''hit'')] \<rparr>,
        \<lparr> bms_index = 25, bms_labels = [(''result'', ''miss'')] \<rparr>,
        \<lparr> bms_index = 26, bms_labels = [(''result'', ''store'')] \<rparr>] \<rparr>,
    \<lparr> bmf_name = ''erez_sockops_rtt_callback_registrations'',
      bmf_help = ''Total number of RTT callback registration attempts by erez_sockops'',
      bmf_series = [\<lparr> bms_index = 27, bms_labels = [(''result'', ''success'')] \<rparr>,
        \<lparr> bms_index = 28, bms_labels = [(''result'', ''failed'')] \<rparr>] \<rparr>,
    \<lparr> bmf_name = ''erez_sockops_rtt_callbacks'',
      bmf_help = ''Total number of RTT callbacks processed by erez_sockops'',
      bmf_series = [\<lparr> bms_index = 29, bms_labels = [] \<rparr>] \<rparr>,
    \<lparr> bmf_name = ''erez_sockops_rtt_events'',
      bmf_help = ''Total number of RTT events emitted by erez_sockops'',
      bmf_series = [\<lparr> bms_index = 30, bms_labels = [] \<rparr>] \<rparr>,
    \<lparr> bmf_name = ''erez_sockops_rtt_event_drops'',
      bmf_help = ''Total number of RTT events dropped by erez_sockops'',
      bmf_series = [\<lparr> bms_index = 31, bms_labels = [(''reason'', ''ringbuf-full'')] \<rparr>] \<rparr>,
    \<lparr> bmf_name = ''erez_sockops_rtt_skipped'',
      bmf_help = ''Total number of RTT callbacks skipped by erez_sockops'',
      bmf_series = [\<lparr> bms_index = 32, bms_labels = [(''reason'', ''sticky-nexthop-miss'')] \<rparr>,
        \<lparr> bms_index = 33, bms_labels = [(''reason'', ''unsupported-family'')] \<rparr>] \<rparr>]"

fun families_of :: "MetricsSet \<Rightarrow> BpfMetricFamily list" where
  "families_of Encap = ENCAP_METRIC_FAMILIES"
| "families_of Decap = DECAP_METRIC_FAMILIES"

text \<open>
  \<open>encode_counter_family\<close>: one sample per series, its name, labels and value. Indexing the slice out
  of range would panic, here \<open>None\<close>.
\<close>

type_synonym sample = "string \<times> (string \<times> string) list \<times> u64"

definition encode_counter_family :: "CEbpfMetrics \<Rightarrow> BpfMetricFamily \<Rightarrow> sample list option" where
  "encode_counter_family metrics family =
     (let counters = as_counter_slice metrics in
      if list_all (\<lambda>series. bms_index series < length counters) (bmf_series family)
      then Some (map (\<lambda>series. (bmf_name family, bms_labels series, counters ! bms_index series))
                   (bmf_series family))
      else None)"

fun encode_families :: "CEbpfMetrics \<Rightarrow> BpfMetricFamily list \<Rightarrow> sample list option" where
  "encode_families metrics [] = Some []"
| "encode_families metrics (family # families) =
     (case encode_counter_family metrics family of
        None \<Rightarrow> None
      | Some samples \<Rightarrow> map_option (append samples) (encode_families metrics families))"

definition MetricsMap_encode :: "MetricsSet \<Rightarrow> (metrics_error + CEbpfMetrics) \<Rightarrow> metrics_error + sample list option" where
  "MetricsMap_encode which read =
     (case read of Inl e \<Rightarrow> Inl e | Inr metrics \<Rightarrow> Inr (encode_families metrics (families_of which)))"

section \<open>Laws\<close>

lemma length_as_counter_slice [simp]: "length (as_counter_slice m) = 34"
  by (simp add: as_counter_slice_def)

lemma of_counter_slice_inverse [simp]: "of_counter_slice (as_counter_slice m) = m"
  by (simp add: of_counter_slice_def as_counter_slice_def)

lemma as_counter_slice_inverse:
  assumes "length s = 34"
  shows "as_counter_slice (of_counter_slice s) = s"
proof -
  have "map (nth s) [0..<34] = s" using assms map_nth [of s] by simp
  then show ?thesis by (simp add: of_counter_slice_def as_counter_slice_def upt_rec numeral_eq_Suc)
qed

lemma as_counter_slice_add [simp]:
  "as_counter_slice (CEbpfMetrics_add_assign a b) =
     map (\<lambda>(x, y). x + y) (zip (as_counter_slice a) (as_counter_slice b))"
  by (simp add: CEbpfMetrics_add_assign_def as_counter_slice_inverse)

lemma as_counter_slice_default: "as_counter_slice CEbpfMetrics_default = replicate 34 0"
  by (simp add: CEbpfMetrics_default_def as_counter_slice_inverse)

lemma sum_cpus_counter:
  assumes "i < 34" "sum_cpus pod_read acc vals = Inr t"
  shows "as_counter_slice t ! i =
    as_counter_slice acc ! i + (\<Sum>v\<leftarrow>vals. as_counter_slice (the (pod_read v)) ! i)"
  using assms(2)
proof (induction vals arbitrary: acc)
  case (Cons v vals)
  then obtain c where c: "pod_read v = Some c"
    and rest: "sum_cpus pod_read (CEbpfMetrics_add_assign acc c) vals = Inr t"
    by (auto split: option.splits)
  show ?case using Cons.IH [OF rest] assms(1) by (simp add: c algebra_simps)
qed simp

lemma sum_cpus_Inr_iff:
  "(\<exists>t. sum_cpus pod_read acc vals = Inr t) \<longleftrightarrow> list_all (\<lambda>v. pod_read v \<noteq> None) vals"
  by (induction vals arbitrary: acc) (auto split: option.splits)

abbreviation family_indices :: "BpfMetricFamily list \<Rightarrow> nat list" where
  "family_indices fs \<equiv> concat (map (\<lambda>f. map bms_index (bmf_series f)) fs)"

lemma encode_families_values:
  assumes "list_all (\<lambda>i. i < 34) (family_indices fs)"
  shows "\<exists>ss. encode_families m fs = Some ss \<and>
    map (\<lambda>(_, _, v). v) ss = map (nth (as_counter_slice m)) (family_indices fs)"
  using assms
proof (induction fs)
  case (Cons f fs)
  then obtain ss where ss: "encode_families m fs = Some ss"
    "map (\<lambda>(_, _, v). v) ss = map (nth (as_counter_slice m)) (family_indices fs)"
    by auto
  have "encode_counter_family m f =
      Some (map (\<lambda>s. (bmf_name f, bms_labels s, as_counter_slice m ! bms_index s)) (bmf_series f))"
    using Cons.prems by (simp add: encode_counter_family_def Let_def list_all_iff)
  with ss show ?case by (simp add: comp_def)
qed simp

lemma family_indices_sets:
  "family_indices (families_of Decap) = [0..<12]"
  "family_indices (families_of Encap) = [12..<34]"
  by (simp_all add: DECAP_METRIC_FAMILIES_def ENCAP_METRIC_FAMILIES_def upt_rec)

text \<open>
  Exporting the counters never indexes out of range: for both daemons the encoder succeeds, and
  the vals it publishes are, in order, exactly the counters of that daemon's half of the struct
  (positions 0 to 11 for decapsulation, 12 to 33 for encapsulation), each one once.
\<close>

theorem metrics_export_partition:
  "\<exists>ds es. encode_families m (families_of Decap) = Some ds \<and>
     encode_families m (families_of Encap) = Some es \<and>
     map (\<lambda>(_, _, v). v) ds @ map (\<lambda>(_, _, v). v) es = as_counter_slice m"
proof -
  have small: "list_all (\<lambda>i. i < 34) (family_indices (families_of which))" for which
    by (cases which) (simp_all only: family_indices_sets, simp_all add: list_all_iff)
  obtain ds where ds: "encode_families m (families_of Decap) = Some ds"
    "map (\<lambda>(_, _, v). v) ds = map (nth (as_counter_slice m)) [0..<12]"
    using encode_families_values [OF small [of Decap]] unfolding family_indices_sets by blast
  obtain es where es: "encode_families m (families_of Encap) = Some es"
    "map (\<lambda>(_, _, v). v) es = map (nth (as_counter_slice m)) [12..<34]"
    using encode_families_values [OF small [of Encap]] unfolding family_indices_sets by blast
  have "map (nth (as_counter_slice m)) ([0..<12] @ [12..<34]) = map (nth (as_counter_slice m)) [0..<34]"
    by (simp add: upt_add_eq_append [of 0 12 22, simplified])
  also have "\<dots> = as_counter_slice m"
    using map_nth [of "as_counter_slice m"] by simp
  finally show ?thesis using ds es by simp
qed

end
