(* ===== verification/Bpf_Dataplane.thy ===== *)
theory Bpf_Dataplane
  imports Bpf_Fib Bpf_Metrics
begin

text \<open>
  The eBPF programs of the data plane (\<open>src/erezd/src/bpf/erez.bpf.c\<close>, \<open>erez.bpf.h\<close>): nexthop
  selection, IPv6/GRE encapsulation on egress (\<open>erez_encap\<close>), decapsulation and forwarding on ingress
  (\<open>erez_decap\<close>) and the RTT callback (\<open>erez_sockops\<close>). A packet is its list of bytes; the per-CPU
  counters and the per-socket storage are passed explicitly. The kernel helpers the programs call
  are fields of the record \<open>bpf_helpers\<close>; the locale \<open>kernel_helpers\<close> states the part of their
  documented behaviour that the proofs use.
\<close>

section \<open>Constants and packet access\<close>

datatype tc_act = TC_ACT_OK | TC_ACT_SHOT

datatype xdp_action = XDP_ABORTED | XDP_DROP | XDP_PASS | XDP_TX | XDP_REDIRECT

definition ETH_P_IP :: u16 where "ETH_P_IP = 0x0800"
definition ETH_P_IPV6 :: u16 where "ETH_P_IPV6 = 0x86DD"
definition IPPROTO_ICMP :: u8 where "IPPROTO_ICMP = 1"
definition IPPROTO_TCP :: u8 where "IPPROTO_TCP = 6"
definition IPPROTO_UDP :: u8 where "IPPROTO_UDP = 17"
definition IPPROTO_GRE :: u8 where "IPPROTO_GRE = 47"

definition ETH_HLEN :: nat where "ETH_HLEN = 14"
definition IPV6_HLEN :: nat where "IPV6_HLEN = 40"
definition IPV4_HLEN :: nat where "IPV4_HLEN = 20"
definition GRE_HLEN :: nat where "GRE_HLEN = 4"

definition ENCAP_LEN :: nat where
  "ENCAP_LEN = IPV6_HLEN + GRE_HLEN"

lemmas hlen_defs = ETH_HLEN_def IPV6_HLEN_def IPV4_HLEN_def GRE_HLEN_def ENCAP_LEN_def

text \<open>Reading and overwriting the bytes of a packet through a checked pointer.\<close>

definition read_at :: "bytes \<Rightarrow> nat \<Rightarrow> nat \<Rightarrow> bytes" where
  "read_at pkt off n = take n (drop off pkt)"

definition write_at :: "bytes \<Rightarrow> nat \<Rightarrow> bytes \<Rightarrow> bytes" where
  "write_at pkt off bs = take off pkt @ bs @ drop (off + length bs) pkt"

section \<open>Helpers of the kernel\<close>

text \<open>Result of \<open>bpf_fib_lookup\<close>: whether it succeeded, and the output interface and link addresses.\<close>

record fib_lookup_result =
  fl_success :: bool
  fl_ifindex :: u32
  fl_dmac :: bytes
  fl_smac :: bytes

record bpf_helpers =
  skb_load_bytes :: "bytes \<Rightarrow> nat \<Rightarrow> nat \<Rightarrow> bytes option"
  skb_adjust_room :: "bytes \<Rightarrow> nat \<Rightarrow> bool \<Rightarrow> bytes option"
  xdp_adjust_head :: "bytes \<Rightarrow> nat \<Rightarrow> bytes option"
  fib_lookup :: "IpAddr \<Rightarrow> u32 \<Rightarrow> fib_lookup_result"
  redirect :: "u32 \<Rightarrow> xdp_action"
  sk_storage_create :: "nat \<Rightarrow> bool"
  cb_flags_set :: "u32 \<Rightarrow> bool"
  ringbuf_reserve :: bool
  ktime_get_ns :: u64

section \<open>Nexthop selection\<close>

text \<open>
  The unrolled loop of \<open>fib_entry_select_nexthop\<close>. Its state is the sum of the weights so far, the
  nexthop selected so far, and whether a zero weight was seen.
\<close>

fun select_loop :: "u32 \<Rightarrow> (CIpv6Addr \<times> u16) list \<Rightarrow> u32 \<Rightarrow> CIpv6Addr option \<Rightarrow> bool
    \<Rightarrow> u32 \<times> CIpv6Addr option \<times> bool" where
  "select_loop ticket [] total_weight selected zero_weight = (total_weight, selected, zero_weight)"
| "select_loop ticket ((nexthop, w) # rest) total_weight selected zero_weight =
     (let weight = ucast w :: u32 in
      if weight = 0 then select_loop ticket rest total_weight selected True
      else
        (let total_weight = total_weight + weight in
         if selected = None \<and> ticket < total_weight
         then select_loop ticket rest total_weight (Some nexthop) zero_weight
         else select_loop ticket rest total_weight selected zero_weight))"

text \<open>
  \<open>rnd\<close> is the value of \<open>bpf_get_prandom_u32\<close>. The result is the selected nexthop, if the entry
  validates, and the counters. When no ticket range matched, the copied nexthop is the zeroed one.
\<close>

definition fib_entry_select_nexthop :: "u32 \<Rightarrow> CFibEntry \<Rightarrow> CEbpfMetrics \<Rightarrow> CIpv6Addr option \<times> CEbpfMetrics" where
  "fib_entry_select_nexthop rnd entry m =
     (let nexthop_count = cf_nexthop_count entry in
      if nexthop_count = 0 \<or> nexthop_count > of_nat MAX_NEXTHOPS then
        (None, m\<lparr>encap_fib_entry_validation_errors_total_invalid_nexthop_count :=
                   encap_fib_entry_validation_errors_total_invalid_nexthop_count m + 1\<rparr>)
      else
        (let ticket = rnd mod ucast WEIGHT_DENOMINATOR;
             (total_weight, selected, zero_weight) =
               select_loop ticket (take (unat nexthop_count) (zip (cf_nexthops entry) (cf_weights entry)))
                 0 None False
         in
           if zero_weight then
             (None, m\<lparr>encap_fib_entry_validation_errors_total_zero_weight :=
                        encap_fib_entry_validation_errors_total_zero_weight m + 1\<rparr>)
           else if total_weight \<noteq> ucast WEIGHT_DENOMINATOR then
             (None, m\<lparr>encap_fib_entry_validation_errors_total_invalid_weight_sum :=
                        encap_fib_entry_validation_errors_total_invalid_weight_sum m + 1\<rparr>)
           else (Some (case selected of Some n \<Rightarrow> n | None \<Rightarrow> CIpv6Addr_UNSPECIFIED), m)))"

section \<open>Encapsulation\<close>

record sk_buff =
  skb_data :: bytes
  skb_protocol :: u16
  skb_sk :: "nat option"

record encap_packet =
  ep_l3_proto :: u16
  ep_l4_proto :: u8
  ep_nlri :: CNlri

definition valid_encap_l3_proto :: "u16 \<Rightarrow> bool" where
  "valid_encap_l3_proto proto \<longleftrightarrow> proto = ETH_P_IP \<or> proto = ETH_P_IPV6"

definition valid_encap_l4_proto :: "u8 \<Rightarrow> bool" where
  "valid_encap_l4_proto proto \<longleftrightarrow> proto = IPPROTO_TCP \<or> proto = IPPROTO_UDP \<or> proto = IPPROTO_ICMP"

definition encap_pkt_load_l4_proto :: "bpf_helpers \<Rightarrow> bytes \<Rightarrow> u16 \<Rightarrow> u8 option" where
  "encap_pkt_load_l4_proto h pkt l3_proto =
     (if l3_proto = ETH_P_IP then map_option hd (skb_load_bytes h pkt (ETH_HLEN + 9) 1)
      else if l3_proto = ETH_P_IPV6 then map_option hd (skb_load_bytes h pkt (ETH_HLEN + 6) 1)
      else None)"

text \<open>
  The shared body of the two address loads: four bytes of an IPv4 header go behind the mapped prefix
  of the zeroed address, sixteen bytes of an IPv6 header are the address.
\<close>

definition load_addr :: "bpf_helpers \<Rightarrow> bytes \<Rightarrow> u16 \<Rightarrow> nat \<Rightarrow> nat \<Rightarrow> CIpv6Addr option" where
  "load_addr h pkt l3_proto off4 off6 =
     (if l3_proto = ETH_P_IP then
        map_option (\<lambda>b. CIpv6Addr (replicate 10 0 @ [0xFF, 0xFF] @ b)) (skb_load_bytes h pkt (ETH_HLEN + off4) 4)
      else if l3_proto = ETH_P_IPV6 then map_option CIpv6Addr (skb_load_bytes h pkt (ETH_HLEN + off6) 16)
      else None)"

definition encap_pkt_load_dest_nlri :: "bpf_helpers \<Rightarrow> bytes \<Rightarrow> u16 \<Rightarrow> CNlri option" where
  "encap_pkt_load_dest_nlri h pkt l3_proto =
     map_option (\<lambda>a. \<lparr> cn_prefix_len = 128, cn_address = a \<rparr>) (load_addr h pkt l3_proto 16 24)"

definition encap_pkt_load_saddr :: "bpf_helpers \<Rightarrow> bytes \<Rightarrow> u16 \<Rightarrow> CIpv6Addr option" where
  "encap_pkt_load_saddr h pkt l3_proto = load_addr h pkt l3_proto 12 8"

text \<open>\<open>encap_pkt_parse\<close>: \<open>Inl\<close> is an early verdict, \<open>Inr\<close> stands for \<open>CONTINUE_PROCESSING\<close>.\<close>

definition encap_pkt_parse :: "bpf_helpers \<Rightarrow> sk_buff \<Rightarrow> CEbpfMetrics \<Rightarrow> (tc_act + encap_packet) \<times> CEbpfMetrics" where
  "encap_pkt_parse h skb m =
     (let l3_proto = skb_protocol skb in
      if \<not> valid_encap_l3_proto l3_proto then
        (Inl TC_ACT_OK, m\<lparr>encap_skipped_packets_total_unsupported_l3_proto :=
                            encap_skipped_packets_total_unsupported_l3_proto m + 1\<rparr>)
      else case encap_pkt_load_l4_proto h (skb_data skb) l3_proto of
        None \<Rightarrow> (Inl TC_ACT_OK, m\<lparr>encap_parse_errors_total_l4_proto_load :=
                                    encap_parse_errors_total_l4_proto_load m + 1\<rparr>)
      | Some l4_proto \<Rightarrow>
          if \<not> valid_encap_l4_proto l4_proto then
            (Inl TC_ACT_OK, m\<lparr>encap_skipped_packets_total_unsupported_l4_proto :=
                                encap_skipped_packets_total_unsupported_l4_proto m + 1\<rparr>)
          else (case encap_pkt_load_dest_nlri h (skb_data skb) l3_proto of
              None \<Rightarrow> (Inl TC_ACT_OK, m\<lparr>encap_parse_errors_total_dest_nlri_load :=
                                          encap_parse_errors_total_dest_nlri_load m + 1\<rparr>)
            | Some nlri \<Rightarrow>
                (Inr \<lparr> ep_l3_proto = l3_proto, ep_l4_proto = l4_proto, ep_nlri = nlri \<rparr>, m)))"

text \<open>
  The header writes of \<open>encap_pkt_encapsulate_ip6_gre\<close> into the room behind the Ethernet header.
  \<open>ip6->version\<close> is the high nibble of its byte; \<open>payload_len\<close> is truncated to 16 bits.
\<close>

definition write_outer_headers :: "bytes \<Rightarrow> u16 \<Rightarrow> CIpv6Addr \<Rightarrow> CIpv6Addr \<Rightarrow> bytes" where
  "write_outer_headers pkt l3_proto saddr nexthop =
     (let len = length pkt;
          pkt = write_at pkt 12 (to_be_bytes ETH_P_IPV6);
          pkt = write_at pkt ETH_HLEN [and (pkt ! ETH_HLEN) 0x0F + 0x60];
          pkt = write_at pkt (ETH_HLEN + 7) [255];
          pkt = write_at pkt (ETH_HLEN + 6) [IPPROTO_GRE];
          pkt = write_at pkt (ETH_HLEN + 8) (octets saddr);
          pkt = write_at pkt (ETH_HLEN + 24) (octets nexthop);
          pkt = write_at pkt (ETH_HLEN + 4) (to_be_bytes (of_nat (len - ETH_HLEN - IPV6_HLEN) :: u16));
          pkt = write_at pkt (ETH_HLEN + IPV6_HLEN) [0, 0];
          pkt = write_at pkt (ETH_HLEN + IPV6_HLEN + 2) (to_be_bytes l3_proto)
      in pkt)"

definition encap_pkt_encapsulate_ip6_gre ::
    "bpf_helpers \<Rightarrow> bytes \<Rightarrow> encap_packet \<Rightarrow> CIpv6Addr \<Rightarrow> bytes option" where
  "encap_pkt_encapsulate_ip6_gre h pkt ep nexthop =
     (case encap_pkt_load_saddr h pkt (ep_l3_proto ep) of
        None \<Rightarrow> None
      | Some saddr \<Rightarrow>
          (case skb_adjust_room h pkt ENCAP_LEN (ep_l4_proto ep = IPPROTO_UDP) of
             None \<Rightarrow> None
           | Some pkt' \<Rightarrow>
               if ETH_HLEN + ENCAP_LEN > length pkt' then None
               else Some (write_outer_headers pkt' (ep_l3_proto ep) saddr nexthop)))"

text \<open>Sticky nexthops: socket storage maps a socket to the matched prefix and the chosen nexthop.\<close>

record sticky_nexthop =
  sn_matched_nlri :: CNlri
  sn_nexthop :: CIpv6Addr

type_synonym sticky_map = "nat \<rightharpoonup> sticky_nexthop"

definition socket_sticky_nexthop_lookup :: "sticky_map \<Rightarrow> nat option \<Rightarrow> CIpv6Addr option" where
  "socket_sticky_nexthop_lookup st sk =
     (case sk of None \<Rightarrow> None | Some s \<Rightarrow> map_option sn_nexthop (st s))"

text \<open>
  \<open>bpf_sk_storage_get\<close> with the create flag keeps a value that is already there and may fail to
  create one (\<open>sk_storage_create\<close>).
\<close>

definition socket_sticky_nexthop_store ::
    "bpf_helpers \<Rightarrow> sticky_map \<Rightarrow> nat option \<Rightarrow> CNlri \<Rightarrow> CIpv6Addr \<Rightarrow> bool \<times> sticky_map" where
  "socket_sticky_nexthop_store h st sk matched_nlri nexthop =
     (case sk of
        None \<Rightarrow> (False, st)
      | Some s \<Rightarrow>
          (case st s of
             Some _ \<Rightarrow> (True, st)
           | None \<Rightarrow>
               if sk_storage_create h s
               then (True, st(s \<mapsto> \<lparr> sn_matched_nlri = matched_nlri, sn_nexthop = nexthop \<rparr>))
               else (False, st)))"

text \<open>
  The choice of the nexthop in \<open>erez_encap\<close>: the sticky one of the socket, or a weighted choice from
  the entry the forwarding map has for the destination.
\<close>

definition encap_choose_nexthop ::
    "bpf_helpers \<Rightarrow> u32 \<Rightarrow> (CNlri \<Rightarrow> CFibEntry option) \<Rightarrow> nat option \<Rightarrow> CNlri \<Rightarrow> sticky_map \<Rightarrow> CEbpfMetrics
     \<Rightarrow> CIpv6Addr option \<times> sticky_map \<times> CEbpfMetrics" where
  "encap_choose_nexthop h rnd fib sk nlri st m =
     (case socket_sticky_nexthop_lookup st sk of
        Some nexthop \<Rightarrow> (Some nexthop, st, m\<lparr>encap_sticky_nexthop_total_hit := encap_sticky_nexthop_total_hit m + 1\<rparr>)
      | None \<Rightarrow>
          (let m = m\<lparr>encap_sticky_nexthop_total_miss := encap_sticky_nexthop_total_miss m + 1\<rparr> in
           case fib nlri of
             None \<Rightarrow> (None, st, m\<lparr>encap_fib_misses_total := encap_fib_misses_total m + 1\<rparr>)
           | Some entry \<Rightarrow>
               (let m = m\<lparr>encap_fib_hits_total := encap_fib_hits_total m + 1\<rparr>;
                    (sel, m) = fib_entry_select_nexthop rnd entry m
                in case sel of
                     None \<Rightarrow> (None, st, m)
                   | Some nexthop \<Rightarrow>
                       (let (stored, st) = socket_sticky_nexthop_store h st sk (cf_matched_nlri entry) nexthop;
                            m = (if stored then m\<lparr>encap_sticky_nexthop_total_store := encap_sticky_nexthop_total_store m + 1\<rparr> else m)
                        in (Some nexthop, st, m)))))"

text \<open>
  \<open>erez_encap\<close>. \<open>m\<close> is the result of the metrics lookup; the verdict comes with the packet as it
  leaves the program, the socket storage and the counters.
\<close>

definition erez_encap ::
    "bpf_helpers \<Rightarrow> u32 \<Rightarrow> (CNlri \<Rightarrow> CFibEntry option) \<Rightarrow> sk_buff \<Rightarrow> sticky_map \<Rightarrow> CEbpfMetrics option
     \<Rightarrow> tc_act \<times> bytes \<times> sticky_map \<times> CEbpfMetrics option" where
  "erez_encap h rnd fib skb st metrics =
     (case metrics of
        None \<Rightarrow> (TC_ACT_SHOT, skb_data skb, st, None)
      | Some m \<Rightarrow>
          (let m = m\<lparr>encap_processed_packets_total := encap_processed_packets_total m + 1\<rparr> in
           case encap_pkt_parse h skb m of
             (Inl ret, m) \<Rightarrow> (ret, skb_data skb, st, Some m)
           | (Inr pkt, m) \<Rightarrow>
               (case encap_choose_nexthop h rnd fib (skb_sk skb) (ep_nlri pkt) st m of
                  (None, st, m) \<Rightarrow> (TC_ACT_OK, skb_data skb, st, Some m)
                | (Some nexthop, st, m) \<Rightarrow>
                    (case encap_pkt_encapsulate_ip6_gre h (skb_data skb) pkt nexthop of
                       None \<Rightarrow> (TC_ACT_SHOT, skb_data skb, st,
                                Some (m\<lparr>encap_errors_total_encap_failed := encap_errors_total_encap_failed m + 1\<rparr>))
                     | Some out \<Rightarrow> (TC_ACT_OK, out, st,
                                    Some (m\<lparr>encap_encapsulated_packets_total := encap_encapsulated_packets_total m + 1\<rparr>))))))"

section \<open>Decapsulation\<close>

record decap_packet =
  dp_inner_l3_proto :: u16
  dp_nexthop :: CIpv6Addr

definition decap_pkt_parse :: "bytes \<Rightarrow> CEbpfMetrics \<Rightarrow> (xdp_action + decap_packet) \<times> CEbpfMetrics" where
  "decap_pkt_parse pkt m =
     (if ETH_HLEN + IPV6_HLEN + GRE_HLEN > length pkt then
        (Inl XDP_PASS, m\<lparr>decap_parse_errors_total_short_packet := decap_parse_errors_total_short_packet m + 1\<rparr>)
      else if from_be_bytes (read_at pkt 12 2) \<noteq> ETH_P_IPV6 then
        (Inl XDP_PASS, m\<lparr>decap_skipped_packets_total_unsupported_outer_l3_proto :=
                           decap_skipped_packets_total_unsupported_outer_l3_proto m + 1\<rparr>)
      else if pkt ! (ETH_HLEN + 6) \<noteq> IPPROTO_GRE then
        (Inl XDP_PASS, m\<lparr>decap_skipped_packets_total_unsupported_outer_l4_proto :=
                           decap_skipped_packets_total_unsupported_outer_l4_proto m + 1\<rparr>)
      else
        (let inner_l3_proto = from_be_bytes (read_at pkt (ETH_HLEN + IPV6_HLEN + 2) 2) in
         if \<not> valid_encap_l3_proto inner_l3_proto then
           (Inl XDP_PASS, m\<lparr>decap_skipped_packets_total_unsupported_inner_l3_proto :=
                              decap_skipped_packets_total_unsupported_inner_l3_proto m + 1\<rparr>)
         else (Inr \<lparr> dp_inner_l3_proto = inner_l3_proto,
                     dp_nexthop = CIpv6Addr (read_at pkt (ETH_HLEN + 24) 16) \<rparr>, m)))"

text \<open>The Ethernet header moves up over the outer headers, then the head of the packet is cut off.\<close>

definition decap_pkt_decapsulate_ip6_gre :: "bpf_helpers \<Rightarrow> bytes \<Rightarrow> decap_packet \<Rightarrow> bytes option" where
  "decap_pkt_decapsulate_ip6_gre h pkt dp =
     (if ETH_HLEN + ENCAP_LEN > length pkt then None
      else
        (let pkt = write_at pkt 12 (to_be_bytes (dp_inner_l3_proto dp));
             pkt = write_at pkt ENCAP_LEN (read_at pkt 0 ETH_HLEN)
         in xdp_adjust_head h pkt ENCAP_LEN))"

text \<open>
  \<open>decap_pkt_decrement_inner_ttl\<close>. The checksum is read and written in host order, which is
  little-endian on the machines eBPF programs are compiled for here (\<open>bpf_htons(0x0100) = 1\<close>).
\<close>

definition le16 :: "bytes \<Rightarrow> nat \<Rightarrow> u16" where
  "le16 pkt off = ucast (pkt ! off) + 256 * ucast (pkt ! (off + 1))"

definition decrement_check :: "u16 \<Rightarrow> u16" where
  "decrement_check check =
     (let sum = ucast check + 1 :: u32 in ucast (sum + (if sum \<ge> 0xFFFF then 1 else 0)))"

definition decap_pkt_decrement_inner_ttl :: "bytes \<Rightarrow> u16 \<Rightarrow> bytes option" where
  "decap_pkt_decrement_inner_ttl pkt l3_proto =
     (if l3_proto = ETH_P_IP then
        (if ETH_HLEN + IPV4_HLEN > length pkt then None
         else if pkt ! (ETH_HLEN + 8) \<le> 1 then None
         else
           (let check = decrement_check (le16 pkt (ETH_HLEN + 10));
                pkt = pkt[ETH_HLEN + 8 := pkt ! (ETH_HLEN + 8) - 1]
            in Some (pkt[ETH_HLEN + 10 := ucast check, ETH_HLEN + 11 := ucast (drop_bit 8 check)])))
      else if l3_proto = ETH_P_IPV6 then
        (if ETH_HLEN + IPV6_HLEN > length pkt then None
         else if pkt ! (ETH_HLEN + 7) \<le> 1 then None
         else Some (pkt[ETH_HLEN + 7 := pkt ! (ETH_HLEN + 7) - 1]))
      else None)"

definition decap_pkt_forward_to_nexthop ::
    "bpf_helpers \<Rightarrow> u32 \<Rightarrow> bytes \<Rightarrow> decap_packet \<Rightarrow> CEbpfMetrics \<Rightarrow> xdp_action \<times> bytes \<times> CEbpfMetrics" where
  "decap_pkt_forward_to_nexthop h ingress_ifindex pkt dp m =
     (let r = fib_lookup h (IpAddr_from_CIpv6Addr (dp_nexthop dp)) ingress_ifindex in
      if \<not> fl_success r then
        (XDP_PASS, pkt, m\<lparr>decap_errors_total_fib_lookup_failed := decap_errors_total_fib_lookup_failed m + 1\<rparr>)
      else case decap_pkt_decrement_inner_ttl pkt (dp_inner_l3_proto dp) of
        None \<Rightarrow> (XDP_PASS, pkt, m\<lparr>decap_errors_total_decrement_inner_ttl_failed :=
                                    decap_errors_total_decrement_inner_ttl_failed m + 1\<rparr>)
      | Some pkt \<Rightarrow>
          if ETH_HLEN > length pkt then (XDP_PASS, pkt, m)
          else
            (let pkt = write_at pkt 0 (fl_dmac r);
                 pkt = write_at pkt 6 (fl_smac r)
             in if fl_ifindex r = ingress_ifindex then
                  (XDP_PASS, pkt, m\<lparr>decap_errors_total_same_ifindex := decap_errors_total_same_ifindex m + 1\<rparr>)
                else
                  (let ret = redirect h (fl_ifindex r) in
                   if ret = XDP_ABORTED then
                     (ret, pkt, m\<lparr>decap_errors_total_redirect_failed := decap_errors_total_redirect_failed m + 1\<rparr>)
                   else (ret, pkt, m\<lparr>decap_redirected_packets_total := decap_redirected_packets_total m + 1\<rparr>))))"

definition erez_decap ::
    "bpf_helpers \<Rightarrow> u32 \<Rightarrow> bytes \<Rightarrow> CEbpfMetrics option \<Rightarrow> xdp_action \<times> bytes \<times> CEbpfMetrics option" where
  "erez_decap h ingress_ifindex pkt metrics =
     (case metrics of
        None \<Rightarrow> (XDP_ABORTED, pkt, None)
      | Some m \<Rightarrow>
          (let m = m\<lparr>decap_processed_packets_total := decap_processed_packets_total m + 1\<rparr> in
           case decap_pkt_parse pkt m of
             (Inl ret, m) \<Rightarrow> (ret, pkt, Some m)
           | (Inr dp, m) \<Rightarrow>
               (case decap_pkt_decapsulate_ip6_gre h pkt dp of
                  None \<Rightarrow> (XDP_DROP, pkt, Some (m\<lparr>decap_errors_total_decap_failed := decap_errors_total_decap_failed m + 1\<rparr>))
                | Some inner \<Rightarrow>
                    (let m = m\<lparr>decap_decapsulated_packets_total := decap_decapsulated_packets_total m + 1\<rparr>;
                         (ret, out, m) = decap_pkt_forward_to_nexthop h ingress_ifindex inner dp m
                     in (ret, out, Some m)))))"

section \<open>The RTT callback\<close>

datatype sock_op = ACTIVE_ESTABLISHED_CB | PASSIVE_ESTABLISHED_CB | RTT_CB | OTHER_CB u32

definition AF_INET :: u32 where "AF_INET = 2"
definition AF_INET6 :: u32 where "AF_INET6 = 10"
definition RTT_CB_FLAG :: u32 where "RTT_CB_FLAG = 8"

text \<open>The remote addresses of the context are kept as the octets they have in memory.\<close>

record sock_ops =
  so_op :: sock_op
  so_family :: u32
  so_remote_ip4 :: bytes
  so_remote_ip6 :: bytes
  so_sk :: "nat option"
  so_cb_flags :: u32
  so_srtt_us :: u32
  so_rtt_min :: u32

definition sockops_remote_nlri :: "sock_ops \<Rightarrow> CNlri option" where
  "sockops_remote_nlri ops =
     (if so_family ops = AF_INET then
        Some \<lparr> cn_prefix_len = 128, cn_address = CIpv6Addr (replicate 10 0 @ [0xFF, 0xFF] @ so_remote_ip4 ops) \<rparr>
      else if so_family ops = AF_INET6 then
        Some \<lparr> cn_prefix_len = 128, cn_address = CIpv6Addr (so_remote_ip6 ops) \<rparr>
      else None)"

text \<open>\<open>emit_tcp_rtt_event\<close>: the event submitted to the ring buffer, if any, and the counters.\<close>

definition emit_tcp_rtt_event ::
    "bpf_helpers \<Rightarrow> sticky_map \<Rightarrow> sock_ops \<Rightarrow> CEbpfMetrics \<Rightarrow> CTcpRttEvent option \<times> CEbpfMetrics" where
  "emit_tcp_rtt_event h st ops m =
     (let m = m\<lparr>sockops_rtt_callbacks_total := sockops_rtt_callbacks_total m + 1\<rparr>;
          miss = m\<lparr>sockops_rtt_skipped_total_sticky_nexthop_miss :=
                     sockops_rtt_skipped_total_sticky_nexthop_miss m + 1\<rparr>
      in case sockops_remote_nlri ops of
           None \<Rightarrow> (None, m\<lparr>sockops_rtt_skipped_total_unsupported_family :=
                             sockops_rtt_skipped_total_unsupported_family m + 1\<rparr>)
         | Some _ \<Rightarrow>
             (case so_sk ops of
                None \<Rightarrow> (None, miss)
              | Some sk \<Rightarrow>
                  (case st sk of
                     None \<Rightarrow> (None, miss)
                   | Some sticky \<Rightarrow>
                       if \<not> ringbuf_reserve h then
                         (None, m\<lparr>sockops_rtt_event_drops_total_ringbuf_full :=
                                   sockops_rtt_event_drops_total_ringbuf_full m + 1\<rparr>)
                       else
                         (Some \<lparr> ev_matched_nlri = sn_matched_nlri sticky, ev_nexthop = sn_nexthop sticky,
                                 ev_padding = 0, ev_ts_ns = ktime_get_ns h,
                                 ev_srtt_us = so_srtt_us ops, ev_rtt_min = so_rtt_min ops \<rparr>,
                          m\<lparr>sockops_rtt_events_total := sockops_rtt_events_total m + 1\<rparr>))))"

definition erez_sockops ::
    "bpf_helpers \<Rightarrow> sticky_map \<Rightarrow> sock_ops \<Rightarrow> CEbpfMetrics option \<Rightarrow> CTcpRttEvent option \<times> CEbpfMetrics option" where
  "erez_sockops h st ops metrics =
     (case metrics of
        None \<Rightarrow> (None, None)
      | Some m \<Rightarrow>
          if so_op ops = ACTIVE_ESTABLISHED_CB \<or> so_op ops = PASSIVE_ESTABLISHED_CB then
            (if cb_flags_set h (or (so_cb_flags ops) RTT_CB_FLAG)
             then (None, Some (m\<lparr>sockops_rtt_callback_registrations_total_success :=
                                   sockops_rtt_callback_registrations_total_success m + 1\<rparr>))
             else (None, Some (m\<lparr>sockops_rtt_callback_registrations_total_failed :=
                                   sockops_rtt_callback_registrations_total_failed m + 1\<rparr>)))
          else if so_op ops = RTT_CB then
            (case emit_tcp_rtt_event h st ops m of (ev, m) \<Rightarrow> (ev, Some m))
          else (None, Some m))"

section \<open>Weighted selection\<close>

text \<open>The selection on natural numbers: the first nexthop whose cumulative weight passes the ticket.\<close>

fun pick :: "nat \<Rightarrow> nat \<Rightarrow> (CIpv6Addr \<times> u16) list \<Rightarrow> CIpv6Addr option" where
  "pick t tot [] = None"
| "pick t tot ((n, w) # xs) = (if t < tot + unat w then Some n else pick t (tot + unat w) xs)"

lemma ucast_u16_u32 [simp]: "unat (ucast (w :: u16) :: u32) = unat w"
proof -
  have "unat w < 2 ^ 32" using unat_less_power [of w] by simp
  then show ?thesis by (simp add: unsigned_ucast_eq take_bit_nat_eq_self)
qed

lemma ucast_u16_u32_eq_0 [simp]: "(ucast (w :: u16) :: u32) = 0 \<longleftrightarrow> w = 0"
  by (metis ucast_u16_u32 unat_eq_zero)

lemma select_loop_eq:
  assumes "list_all (\<lambda>(_, w). w \<noteq> 0) xs" "tot + sum_list (map (unat \<circ> snd) xs) < 2 ^ 32"
    "unat t < 2 ^ 32" "unat T = tot"
  shows "select_loop t xs T sel zw =
    (of_nat (tot + sum_list (map (unat \<circ> snd) xs)),
     (case sel of Some n \<Rightarrow> Some n | None \<Rightarrow> pick (unat t) tot xs), zw)"
  using assms
proof (induction xs arbitrary: tot T sel)
  case Nil
  then show ?case by (auto split: option.splits)
next
  case (Cons x xs)
  obtain n w where x: "x = (n, w)" by (cases x)
  have w: "w \<noteq> 0" using Cons.prems(1) by (simp add: x)
  let ?T = "T + ucast w"
  have T: "unat ?T = tot + unat w"
    using Cons.prems(2,4) by (simp add: x unat_word_ariths)
  have lt: "t < ?T \<longleftrightarrow> unat t < tot + unat w"
    by (simp add: word_less_nat_alt T)
  have IH: "select_loop t xs ?T s zw =
      (of_nat (tot + unat w + sum_list (map (unat \<circ> snd) xs)),
       (case s of Some n \<Rightarrow> Some n | None \<Rightarrow> pick (unat t) (tot + unat w) xs), zw)" for s
    using Cons.prems by (intro Cons.IH) (simp_all add: x T)
  show ?case
    by (cases sel) (simp_all add: x w IH lt Let_def add.assoc comp_def del: of_nat_add)
qed

lemma pick_Some_iff_lt:
  assumes "tot \<le> t" "t < tot + sum_list (map (unat \<circ> snd) xs)"
  shows "\<exists>n. pick t tot xs = Some n \<and> n \<in> fst ` set xs"
  using assms
proof (induction xs arbitrary: tot)
  case (Cons x xs)
  then show ?case by (cases x) (force simp: not_less)
qed simp

lemma pick_card:
  assumes "distinct (map fst xs)" "(n, w) \<in> set xs"
  shows "card {t. tot \<le> t \<and> t < tot + sum_list (map (unat \<circ> snd) xs) \<and> pick t tot xs = Some n} = unat w"
  using assms
proof (induction xs arbitrary: tot)
  case (Cons x xs)
  obtain n' w' where x: "x = (n', w')" by (cases x)
  let ?S = "sum_list (map (unat \<circ> snd) xs)"
  show ?case
  proof (cases "n = n'")
    case True
    with Cons.prems x have w: "w' = w" by (force simp: rev_image_eqI)
    have "pick t tot' xs \<noteq> Some n" for t tot'
    proof -
      have "pick t tot' ys = Some k \<Longrightarrow> k \<in> fst ` set ys" for ys k
        by (induction t tot' ys rule: pick.induct) (auto split: if_splits)
      with Cons.prems(1) x True show ?thesis by auto
    qed
    then have "{t. tot \<le> t \<and> t < tot + sum_list (map (unat \<circ> snd) (x # xs)) \<and> pick t tot (x # xs) = Some n}
      = {tot..<tot + unat w}"
      using True by (auto simp: x w split: if_splits)
    then show ?thesis by (simp only: card_atLeastLessThan diff_add_inverse)
  next
    case False
    with Cons.prems x have mem: "(n, w) \<in> set xs" and dist: "distinct (map fst xs)" by auto
    have "{t. tot \<le> t \<and> t < tot + sum_list (map (unat \<circ> snd) (x # xs)) \<and> pick t tot (x # xs) = Some n}
      = {t. tot + unat w' \<le> t \<and> t < tot + unat w' + ?S \<and> pick t (tot + unat w') xs = Some n}"
      using False by (auto simp: x split: if_splits)
    then show ?thesis using Cons.IH [OF dist mem, of "tot + unat w'"] by (simp only:)
  qed
qed simp

end
