(* ===== verification/Bpf_Dataplane_Laws.thy ===== *)
theory Bpf_Dataplane_Laws
  imports Bpf_Dataplane
begin

text \<open>
  Properties of the data plane: valid entries are always selected from, in proportion to their
  weights; decapsulating an encapsulated packet gives back the packet and the nexthop; decrementing
  the TTL keeps the IPv4 header checksum; and every processed packet is accounted for by one outcome
  counter.
\<close>

section \<open>Selection from a valid entry\<close>

definition entry_slots :: "CFibEntry \<Rightarrow> (CIpv6Addr \<times> u16) list" where
  "entry_slots c = take (unat (cf_nexthop_count c)) (zip (cf_nexthops c) (cf_weights c))"

lemma valid_entry_slots:
  assumes "CFibEntry_valid c"
  shows "list_all (\<lambda>(_, w). w \<noteq> 0) (entry_slots c)"
    and "sum_list (map (unat \<circ> snd) (entry_slots c)) = 10000"
    and "length (entry_slots c) = unat (cf_nexthop_count c)"
    and "\<not> (cf_nexthop_count c = 0 \<or> cf_nexthop_count c > of_nat MAX_NEXTHOPS)"
    and "map fst (entry_slots c) = take (unat (cf_nexthop_count c)) (cf_nexthops c)"
    and "map snd (entry_slots c) = take (unat (cf_nexthop_count c)) (cf_weights c)"
proof -
  let ?n = "unat (cf_nexthop_count c)"
  have n: "1 \<le> ?n" "?n \<le> MAX_NEXTHOPS" and len: "length (cf_weights c) = MAX_NEXTHOPS"
    "length (cf_nexthops c) = MAX_NEXTHOPS"
    and nz: "list_all (\<lambda>w. w \<noteq> 0) (take ?n (cf_weights c))"
    and sum: "sum_list (map unat (take ?n (cf_weights c))) = unat WEIGHT_DENOMINATOR"
    using assms by (auto simp: CFibEntry_valid_def weights_ok_def)
  have snds: "map snd (entry_slots c) = take ?n (cf_weights c)"
    and fsts: "map fst (entry_slots c) = take ?n (cf_nexthops c)"
    using len by (simp_all add: entry_slots_def take_map [symmetric])
  show "map fst (entry_slots c) = take ?n (cf_nexthops c)" by (rule fsts)
  show "map snd (entry_slots c) = take ?n (cf_weights c)" by (rule snds)
  have "list_all (\<lambda>w. w \<noteq> 0) (map snd (entry_slots c))" using nz snds by simp
  then show "list_all (\<lambda>(_, w). w \<noteq> 0) (entry_slots c)"
    by (simp add: list_all_iff split_def)
  have "sum_list (map unat (map snd (entry_slots c))) = unat WEIGHT_DENOMINATOR"
    using sum snds by simp
  then show "sum_list (map (unat \<circ> snd) (entry_slots c)) = 10000"
    by (simp add: WEIGHT_DENOMINATOR_def)
  show "length (entry_slots c) = ?n" using n len by (simp add: entry_slots_def)
  have "cf_nexthop_count c \<noteq> 0" using n by auto
  then show "\<not> (cf_nexthop_count c = 0 \<or> cf_nexthop_count c > of_nat MAX_NEXTHOPS)"
    using n by (auto simp: word_less_nat_alt MAX_NEXTHOPS_def)
qed

lemma select_valid_eq:
  assumes "CFibEntry_valid c"
  shows "fib_entry_select_nexthop rnd c m = (pick (unat rnd mod 10000) 0 (entry_slots c), m)"
    and "pick (unat rnd mod 10000) 0 (entry_slots c) \<noteq> None"
proof -
  note v = valid_entry_slots [OF assms]
  let ?t = "rnd mod ucast WEIGHT_DENOMINATOR :: u32"
  have t: "unat ?t = unat rnd mod 10000"
    by (simp add: unat_mod_distrib WEIGHT_DENOMINATOR_def)
  have "unat ?t < 2 ^ 32" unfolding t by (rule order_less_trans [OF mod_less_divisor]) simp_all
  then have loop: "select_loop ?t (entry_slots c) 0 None False =
      (of_nat 10000, pick (unat ?t) 0 (entry_slots c), False)"
    using select_loop_eq [OF v(1), of 0 ?t 0 None False] v(2) by simp
  obtain n where n: "pick (unat ?t) 0 (entry_slots c) = Some n"
    using pick_Some_iff_lt [of 0 "unat ?t" "entry_slots c"] v(2) t by auto
  then show "pick (unat rnd mod 10000) 0 (entry_slots c) \<noteq> None" by (simp add: t)
  show "fib_entry_select_nexthop rnd c m = (pick (unat rnd mod 10000) 0 (entry_slots c), m)"
    using loop n v(4) t
    by (simp add: fib_entry_select_nexthop_def Let_def WEIGHT_DENOMINATOR_def flip: entry_slots_def)
qed

text \<open>
  C27. On an entry that the daemon considers valid the data plane never counts a validation error and
  always selects one of the entry's active nexthops, whatever the random number.
\<close>

theorem select_nexthop_total:
  assumes "CFibEntry_valid c"
  shows "\<exists>n. fib_entry_select_nexthop rnd c m = (Some n, m) \<and>
    n \<in> set (take (unat (cf_nexthop_count c)) (cf_nexthops c))"
proof -
  note v = valid_entry_slots [OF assms]
  have "\<exists>n. pick (unat rnd mod 10000) 0 (entry_slots c) = Some n \<and> n \<in> fst ` set (entry_slots c)"
    by (rule pick_Some_iff_lt) (simp_all add: v(2) del: comp_apply)
  then show ?thesis
    using select_valid_eq(1) [OF assms, of rnd m] v(5) by (metis list.set_map)
qed

text \<open>
  C21. Selection is proportional: of the 10000 equally likely tickets, exactly \<open>weight\<close> many select
  the nexthop that carries that weight (the nexthops of the entry being distinct).
\<close>

theorem select_nexthop_proportional:
  assumes "CFibEntry_valid c" "i < unat (cf_nexthop_count c)"
    "distinct (take (unat (cf_nexthop_count c)) (cf_nexthops c))"
  shows "card {t. t < 10000 \<and> fst (fib_entry_select_nexthop (of_nat t) c m) = Some (cf_nexthops c ! i)}
    = unat (cf_weights c ! i)"
proof -
  note v = valid_entry_slots [OF assms(1)]
  have len: "length (cf_nexthops c) = 4" "length (cf_weights c) = 4"
    "unat (cf_nexthop_count c) \<le> 4"
    using assms(1) by (auto simp: CFibEntry_valid_def weights_ok_def MAX_NEXTHOPS_def)
  have "entry_slots c ! i = (cf_nexthops c ! i, cf_weights c ! i)"
    using assms(2) len by (simp add: entry_slots_def)
  then have mem: "(cf_nexthops c ! i, cf_weights c ! i) \<in> set (entry_slots c)"
    using assms(2) v(3) nth_mem by metis
  have small: "unat (of_nat t :: u32) mod 10000 = t" if "t < 10000" for t
    using that by (simp add: unat_of_nat)
  have "{t. t < 10000 \<and> fst (fib_entry_select_nexthop (of_nat t) c m) = Some (cf_nexthops c ! i)}
    = {t. 0 \<le> t \<and> t < 0 + sum_list (map (unat \<circ> snd) (entry_slots c)) \<and>
          pick t 0 (entry_slots c) = Some (cf_nexthops c ! i)}"
    using small by (auto simp: select_valid_eq(1) [OF assms(1)] v(2) simp del: comp_apply)
  moreover have "distinct (map fst (entry_slots c))" using assms(3) v(5) by simp
  ultimately show ?thesis using pick_card [OF _ mem, of 0] by simp
qed

section \<open>Round trip of a packet\<close>

text \<open>
  What the programs rely on from the kernel helpers: loads are bounds-checked reads; room for the
  outer headers is made between the Ethernet header and the rest; and cutting the head drops bytes.
\<close>

locale kernel_helpers =
  fixes h :: bpf_helpers
  assumes load: "skb_load_bytes h pkt off n = (if off + n \<le> length pkt then Some (read_at pkt off n) else None)"
    and adjust_room: "skb_adjust_room h pkt n fixed_gso = Some out \<Longrightarrow>
      ETH_HLEN \<le> length pkt \<and> (\<exists>room. length room = n \<and> out = take ETH_HLEN pkt @ room @ drop ETH_HLEN pkt)"
    and adjust_head: "n + ETH_HLEN \<le> length pkt \<Longrightarrow> xdp_adjust_head h pkt n = Some (drop n pkt)"

text \<open>Reads and writes of a packet given as a concatenation of fields.\<close>

lemma write_at_left: "off + length x \<le> length a \<Longrightarrow> write_at (a @ b) off x = write_at a off x @ b"
  by (simp add: write_at_def)

lemma write_at_right: "length a \<le> off \<Longrightarrow> write_at (a @ b) off x = a @ write_at b (off - length a) x"
  by (simp add: write_at_def)

lemma write_at_all: "length x = length a \<Longrightarrow> write_at a 0 x = x"
  by (simp add: write_at_def)

lemma read_at_left: "off + n \<le> length a \<Longrightarrow> read_at (a @ b) off n = read_at a off n"
  by (simp add: read_at_def)

lemma read_at_right: "length a \<le> off \<Longrightarrow> read_at (a @ b) off n = read_at b (off - length a) n"
  by (simp add: read_at_def)

lemma read_at_all: "n = length a \<Longrightarrow> read_at a 0 n = a"
  by (simp add: read_at_def)

lemma write_at_Cons: "0 < off \<Longrightarrow> write_at (a # b) off x = a # write_at b (off - 1) x"
  by (cases off) (simp_all add: write_at_def)

lemma write_at_hd: "write_at (a # b) 0 [x] = x # b"
  by (simp add: write_at_def)

lemma read_at_Cons: "0 < off \<Longrightarrow> read_at (a # b) off n = read_at b (off - 1) n"
  by (cases off) (simp_all add: read_at_def)

lemmas packet_simps = write_at_Cons write_at_hd read_at_Cons write_at_left write_at_right write_at_all read_at_left read_at_right read_at_all

lemma split_length:
  assumes "length xs = m + n"
  obtains a b where "xs = a @ b" "length a = m" "length b = n"
  using assms by (metis append_take_drop_id length_drop length_take add_diff_cancel_left' le_add1 min.absorb2)

text \<open>The outer headers as one concatenation of fields.\<close>

definition outer_packet :: "bytes \<Rightarrow> u8 \<Rightarrow> bytes \<Rightarrow> bytes \<Rightarrow> CIpv6Addr \<Rightarrow> CIpv6Addr \<Rightarrow> u16 \<Rightarrow> bytes \<Rightarrow> bytes" where
  "outer_packet macs v fl pl saddr nexthop l3_proto rest =
     macs @ to_be_bytes ETH_P_IPV6 @ [v] @ fl @ pl @ [IPPROTO_GRE] @ [255] @ octets saddr @
     octets nexthop @ [0, 0] @ to_be_bytes l3_proto @ rest"

lemma write_outer_headers_eq:
  assumes "length macs = 12" "length proto = 2" "length room = ENCAP_LEN"
    "cipv6_wf saddr" "cipv6_wf nexthop"
  shows "\<exists>v fl pl. length fl = 3 \<and> length pl = 2 \<and>
    write_outer_headers (macs @ proto @ room @ rest) l3_proto saddr nexthop =
      outer_packet macs v fl pl saddr nexthop l3_proto rest"
proof -
  have len: "length room = 1 + (3 + (2 + (1 + (1 + (16 + (16 + (2 + 2)))))))"
    using assms(3) by (simp add: hlen_defs)
  obtain r0 x1 where 0: "room = r0 @ x1" "length r0 = 1" "length x1 = 3 + (2 + (1 + (1 + (16 + (16 + (2 + 2))))))"
    by (rule split_length [OF len])
  obtain fl x2 where 1: "x1 = fl @ x2" "length fl = 3" "length x2 = 2 + (1 + (1 + (16 + (16 + (2 + 2)))))"
    by (rule split_length [OF 0(3)])
  obtain pl x3 where 2: "x2 = pl @ x3" "length pl = 2" "length x3 = 1 + (1 + (16 + (16 + (2 + 2))))"
    by (rule split_length [OF 1(3)])
  obtain nh x4 where 3: "x3 = nh @ x4" "length nh = 1" "length x4 = 1 + (16 + (16 + (2 + 2)))"
    by (rule split_length [OF 2(3)])
  obtain hl x5 where 4: "x4 = hl @ x5" "length hl = 1" "length x5 = 16 + (16 + (2 + 2))"
    by (rule split_length [OF 3(3)])
  obtain sa x6 where 5: "x5 = sa @ x6" "length sa = 16" "length x6 = 16 + (2 + 2)"
    by (rule split_length [OF 4(3)])
  obtain da x7 where 6: "x6 = da @ x7" "length da = 16" "length x7 = 2 + 2"
    by (rule split_length [OF 5(3)])
  obtain gf gp where 7: "x7 = gf @ gp" "length gf = 2" "length gp = 2"
    by (rule split_length [OF 6(3)])
  obtain b where r0: "r0 = [b]" using 0(2) by (cases r0) auto
  obtain b1 where nh: "nh = [b1]" using 3(2) by (cases nh) auto
  obtain b2 where hl: "hl = [b2]" using 4(2) by (cases hl) auto
  have oct: "length (octets saddr) = 16" "length (octets nexthop) = 16"
    using assms(4,5) by (simp_all add: cipv6_wf_def IPV6_ADDR_SIZE_def)
  show ?thesis
    unfolding 0 1 2 3 4 5 6 7 r0 nh hl outer_packet_def write_outer_headers_def Let_def
    using assms(1,2) 1(2) 2(2) 5(2) 6(2) 7(2,3) oct
    by (intro exI [of _ "and b 0x0F + 0x60"] exI [of _ fl]
          exI [of _ "to_be_bytes (of_nat (4 + length rest) :: u16)"] conjI)
       (simp_all add: packet_simps ETH_HLEN_def IPV6_HLEN_def nth_append)
qed

context kernel_helpers
begin

lemma load_addr_wf:
  assumes "load_addr h pkt l3 off4 off6 = Some a"
  shows "cipv6_wf a"
  using assms
  by (auto simp: load_addr_def load cipv6_wf_def IPV6_ADDR_SIZE_def read_at_def hlen_defs split: if_splits)

lemma encapsulate_form:
  assumes "encap_pkt_encapsulate_ip6_gre h pkt ep nexthop = Some out" "cipv6_wf nexthop"
  obtains macs proto v fl pl saddr rest where
    "pkt = macs @ proto @ rest" "length macs = 12" "length proto = 2" "length fl = 3" "length pl = 2"
    "cipv6_wf saddr" "out = outer_packet macs v fl pl saddr nexthop (ep_l3_proto ep) rest"
proof -
  obtain saddr pkt' where s: "encap_pkt_load_saddr h pkt (ep_l3_proto ep) = Some saddr"
    and r: "skb_adjust_room h pkt ENCAP_LEN (ep_l4_proto ep = IPPROTO_UDP) = Some pkt'"
    and out: "out = write_outer_headers pkt' (ep_l3_proto ep) saddr nexthop"
    using assms(1) by (auto simp: encap_pkt_encapsulate_ip6_gre_def split: option.splits if_splits)
  have wf: "cipv6_wf saddr" using s load_addr_wf by (simp add: encap_pkt_load_saddr_def)
  obtain room where len: "ETH_HLEN \<le> length pkt" and room: "length room = ENCAP_LEN"
    and pkt': "pkt' = take ETH_HLEN pkt @ room @ drop ETH_HLEN pkt"
    using adjust_room [OF r] by blast
  have "length pkt = 12 + (2 + (length pkt - 14))" using len by (simp add: ETH_HLEN_def)
  then obtain macs x where 1: "pkt = macs @ x" "length macs = 12" "length x = 2 + (length pkt - 14)"
    by (rule split_length)
  then obtain proto rest where 2: "x = proto @ rest" "length proto = 2"
    using split_length by metis
  have "pkt' = macs @ proto @ room @ rest"
    unfolding pkt' 1(1) 2(1) using 1(2) 2(2) by (simp add: ETH_HLEN_def)
  then obtain v fl pl where "length fl = 3" "length pl = 2"
    "out = outer_packet macs v fl pl saddr nexthop (ep_l3_proto ep) rest"
    using write_outer_headers_eq [OF 1(2) 2(2) room wf assms(2)] out by metis
  then show ?thesis using that 1 2 wf by blast
qed

lemma decap_parse_outer:
  assumes "length macs = 12" "length fl = 3" "length pl = 2" "cipv6_wf saddr" "cipv6_wf nexthop"
    "valid_encap_l3_proto l3"
  shows "decap_pkt_parse (outer_packet macs v fl pl saddr nexthop l3 rest) m =
    (Inr \<lparr> dp_inner_l3_proto = l3, dp_nexthop = nexthop \<rparr>, m)"
proof -
  have "length (octets saddr) = 16" "length (octets nexthop) = 16"
    using assms(4,5) by (simp_all add: cipv6_wf_def IPV6_ADDR_SIZE_def)
  with assms(1-3,6) show ?thesis
    by (simp add: decap_pkt_parse_def outer_packet_def packet_simps ETH_HLEN_def IPV6_HLEN_def
        GRE_HLEN_def nth_append nth_Cons')
qed

lemma decapsulate_outer:
  assumes "length macs = 12" "length fl = 3" "length pl = 2" "cipv6_wf saddr" "cipv6_wf nexthop"
  shows "decap_pkt_decapsulate_ip6_gre h (outer_packet macs v fl pl saddr nexthop l3 rest)
      \<lparr> dp_inner_l3_proto = l3, dp_nexthop = nexthop \<rparr> = Some (macs @ to_be_bytes l3 @ rest)"
proof -
  have oct: "length (octets saddr) = 16" "length (octets nexthop) = 16"
    using assms(4,5) by (simp_all add: cipv6_wf_def IPV6_ADDR_SIZE_def)
  let ?p = "macs @ to_be_bytes l3 @ [v] @ fl @ pl @ [IPPROTO_GRE] @ [255] @ octets saddr @
     octets nexthop @ [0, 0] @ to_be_bytes l3 @ rest"
  have 1: "write_at (outer_packet macs v fl pl saddr nexthop l3 rest) 12 (to_be_bytes l3) = ?p"
    using assms(1) by (simp add: outer_packet_def packet_simps)
  have 2: "read_at ?p 0 ETH_HLEN = macs @ to_be_bytes l3"
    using assms(1) by (simp add: read_at_def ETH_HLEN_def)
  have 3: "drop ENCAP_LEN (write_at ?p ENCAP_LEN (macs @ to_be_bytes l3)) = macs @ to_be_bytes l3 @ rest"
    using assms(1-3) oct by (simp add: write_at_def hlen_defs)
  have len: "length (outer_packet macs v fl pl saddr nexthop l3 rest) = 58 + length rest"
    using assms(1-3) oct by (simp add: outer_packet_def)
  have "length (write_at ?p ENCAP_LEN (macs @ to_be_bytes l3)) = 58 + length rest"
    using assms(1-3) oct by (simp add: write_at_def hlen_defs)
  then have "xdp_adjust_head h (write_at ?p ENCAP_LEN (macs @ to_be_bytes l3)) ENCAP_LEN =
      Some (macs @ to_be_bytes l3 @ rest)"
    by (subst adjust_head) (simp_all add: hlen_defs 3 [unfolded hlen_defs, simplified])
  then show ?thesis
    unfolding decap_pkt_decapsulate_ip6_gre_def Let_def
    by (simp only: 1 2 len decap_packet.simps) (simp add: hlen_defs)
qed

end

text \<open>Helpers with these properties, for evaluating the programs on concrete packets.\<close>

definition ref_helpers :: bpf_helpers where
  "ref_helpers = \<lparr>
     skb_load_bytes = (\<lambda>pkt off n. if off + n \<le> length pkt then Some (read_at pkt off n) else None),
     skb_adjust_room = (\<lambda>pkt n fixed_gso. if ETH_HLEN \<le> length pkt
        then Some (take ETH_HLEN pkt @ replicate n 0 @ drop ETH_HLEN pkt) else None),
     xdp_adjust_head = (\<lambda>pkt n. if n + ETH_HLEN \<le> length pkt then Some (drop n pkt) else None),
     fib_lookup = (\<lambda>a ifindex. \<lparr> fl_success = True, fl_ifindex = ifindex + 1,
        fl_dmac = [2, 0, 0, 0, 0, 1], fl_smac = [2, 0, 0, 0, 0, 2] \<rparr>),
     redirect = (\<lambda>_. XDP_REDIRECT),
     sk_storage_create = (\<lambda>_. True),
     cb_flags_set = (\<lambda>_. True),
     ringbuf_reserve = True,
     ktime_get_ns = 0 \<rparr>"

interpretation ref: kernel_helpers ref_helpers
  by unfold_locales (auto simp: ref_helpers_def split: if_splits)

text \<open>
  C4. Encapsulation and decapsulation are inverse: when a packet of a supported protocol has been
  encapsulated towards a nexthop, the router's parser recovers that nexthop and the inner protocol
  without counting an error, and removing the outer headers gives back the original packet, byte for
  byte.
\<close>

theorem encap_decap_roundtrip:
  assumes "kernel_helpers h"
    and "encap_pkt_encapsulate_ip6_gre h pkt ep nexthop = Some out"
    and "valid_encap_l3_proto (ep_l3_proto ep)" "cipv6_wf nexthop"
    and "read_at pkt 12 2 = to_be_bytes (ep_l3_proto ep)"
  shows "decap_pkt_parse out m =
      (Inr \<lparr> dp_inner_l3_proto = ep_l3_proto ep, dp_nexthop = nexthop \<rparr>, m) \<and>
    decap_pkt_decapsulate_ip6_gre h out
      \<lparr> dp_inner_l3_proto = ep_l3_proto ep, dp_nexthop = nexthop \<rparr> = Some pkt"
proof -
  obtain macs proto v fl pl saddr rest where
    f: "pkt = macs @ proto @ rest" "length macs = 12" "length proto = 2" "length fl = 3" "length pl = 2"
    "cipv6_wf saddr" "out = outer_packet macs v fl pl saddr nexthop (ep_l3_proto ep) rest"
    by (rule kernel_helpers.encapsulate_form [OF assms(1,2,4)])
  have "proto = to_be_bytes (ep_l3_proto ep)"
    using assms(5) f(2,3) by (simp add: f(1) read_at_def)
  then show ?thesis
    using kernel_helpers.decap_parse_outer [OF assms(1) f(2,4,5,6) assms(4,3)]
      kernel_helpers.decapsulate_outer [OF assms(1) f(2,4,5,6) assms(4)]
    by (simp add: f(1,7))
qed

section \<open>The IPv4 header checksum\<close>

lemma unat_le16: "unat (le16 p off) = unat (p ! off) + 256 * unat (p ! (off + 1))"
proof -
  have a: "unat (ucast (b :: u8) :: u16) = unat b" for b
    using unat_u8_less [of b] by (simp add: unsigned_ucast_eq take_bit_nat_eq_self)
  show ?thesis
    using unat_u8_less [of "p ! off"] unat_u8_less [of "p ! (off + 1)"]
    by (simp add: le16_def unat_word_ariths a)
qed

lemma u16_bytes:
  "unat (ucast (c :: u16) :: u8) + 256 * unat (ucast (drop_bit 8 c) :: u8) = unat c"
proof -
  have "unat c < 65536" using unat_less_power [of c] by simp
  then have "unat c div 256 mod 256 = unat c div 256" by simp
  then show ?thesis
    by (simp add: unsigned_ucast_eq take_bit_eq_mod drop_bit_eq_div unat_div_distrib)
qed

lemma unat_decrement_check: "unat (decrement_check c) mod 65535 = (unat c + 1) mod 65535"
proof -
  have c: "unat c < 65536" using unat_less_power [of c] by simp
  let ?s = "ucast c + 1 :: u32"
  have s: "unat ?s = unat c + 1" using c by (simp add: unat_word_ariths)
  have ge: "?s \<ge> 0xFFFF \<longleftrightarrow> unat c + 1 \<ge> 65535" by (simp add: word_le_nat_alt s)
  have "unat (decrement_check c) = (unat c + 1 + (if unat c + 1 \<ge> 65535 then 1 else 0)) mod 65536"
  proof (cases "unat c + 1 \<ge> 65535")
    case True
    have "unat (?s + 1) = unat c + 2" using c s by (simp only: unat_word_ariths) simp
    with True ge show ?thesis
      by (simp add: decrement_check_def Let_def unsigned_ucast_eq take_bit_eq_mod)
  next
    case False
    with ge s show ?thesis
      by (simp add: decrement_check_def Let_def unsigned_ucast_eq take_bit_eq_mod)
  qed
  moreover have "unat c + 1 < 65535 \<or> unat c = 65534 \<or> unat c = 65535" using c by linarith
  ultimately show ?thesis by auto
qed

text \<open>The 16-bit words of the IPv4 header, added up; a header is intact when this is 0 modulo 65535.\<close>

definition ip_header_sum :: "bytes \<Rightarrow> nat" where
  "ip_header_sum pkt = (\<Sum>k<10. unat (le16 pkt (ETH_HLEN + 2 * k)))"

text \<open>
  C26. Decrementing the TTL of an IPv4 packet keeps its header checksum: the one's complement sum of
  the header's words is unchanged, the TTL goes down by one and stays positive, and no byte outside
  the TTL and the checksum is touched.
\<close>

theorem ttl_decrement_checksum:
  assumes "decap_pkt_decrement_inner_ttl pkt ETH_P_IP = Some pkt'"
  shows "ip_header_sum pkt' mod 65535 = ip_header_sum pkt mod 65535 \<and>
    unat (pkt' ! (ETH_HLEN + 8)) + 1 = unat (pkt ! (ETH_HLEN + 8)) \<and> 1 \<le> pkt' ! (ETH_HLEN + 8) \<and>
    length pkt' = length pkt \<and>
    (\<forall>i. i \<noteq> ETH_HLEN + 8 \<and> i \<noteq> ETH_HLEN + 10 \<and> i \<noteq> ETH_HLEN + 11 \<longrightarrow> pkt' ! i = pkt ! i)"
proof -
  let ?c = "decrement_check (le16 pkt 24)"
  have len: "34 \<le> length pkt" and ttl: "\<not> pkt ! 22 \<le> 1"
    and pkt': "pkt' = pkt[22 := pkt ! 22 - 1, 24 := ucast ?c, 25 := ucast (drop_bit 8 ?c)]"
    using assms by (auto simp: decap_pkt_decrement_inner_ttl_def Let_def hlen_defs split: if_splits)
  have t: "2 \<le> unat (pkt ! 22)" using ttl by (simp add: word_le_nat_alt)
  then have t': "unat (pkt ! 22 - 1) = unat (pkt ! 22) - 1" by (simp add: unat_sub word_le_nat_alt)
  have other: "i \<noteq> 22 \<and> i \<noteq> 24 \<and> i \<noteq> 25 \<longrightarrow> pkt' ! i = pkt ! i" for i by (simp add: pkt')
  have w4: "unat (le16 pkt' 22) + 1 = unat (le16 pkt 22)"
    using len t by (simp add: unat_le16 pkt' t')
  have w5: "unat (le16 pkt' 24) = unat ?c"
    using len u16_bytes [of ?c] by (simp add: unat_le16 pkt')
  have rest: "unat (le16 pkt' (14 + 2 * k)) = unat (le16 pkt (14 + 2 * k))" if "k \<noteq> 4" "k \<noteq> 5" for k
  proof -
    have "14 + 2 * k \<noteq> 22" "14 + 2 * k \<noteq> 24" "14 + 2 * k \<noteq> 25" "15 + 2 * k \<noteq> 22" "15 + 2 * k \<noteq> 24" "15 + 2 * k \<noteq> 25"
      using that by presburger+
    then show ?thesis by (simp add: unat_le16 other)
  qed
  let ?r = "\<Sum>k\<in>{..<10} - {4, 5}. unat (le16 pkt (14 + 2 * k))"
  have split: "ip_header_sum p = (\<Sum>k\<in>{..<10} - {4, 5}. unat (le16 p (14 + 2 * k))) + unat (le16 p 22) + unat (le16 p 24)" for p
  proof -
    have "(\<Sum>k\<in>{..<10}. unat (le16 p (14 + 2 * k))) =
      (\<Sum>k\<in>{..<10} - {4, 5}. unat (le16 p (14 + 2 * k))) + (\<Sum>k\<in>{4, 5}. unat (le16 p (14 + 2 * k)))"
      by (rule sum.subset_diff) auto
    then show ?thesis by (simp add: ip_header_sum_def ETH_HLEN_def)
  qed
  have "(\<Sum>k\<in>{..<10} - {4, 5}. unat (le16 pkt' (14 + 2 * k))) = ?r"
    by (rule sum.cong) (auto simp: rest)
  then have "ip_header_sum pkt' mod 65535 = (?r + unat (le16 pkt' 22) + unat ?c mod 65535) mod 65535"
    by (simp add: split w5 mod_simps)
  also have "\<dots> = (?r + unat (le16 pkt' 22) + (unat (le16 pkt 24) + 1)) mod 65535"
    by (simp only: unat_decrement_check mod_add_right_eq)
  also have "?r + unat (le16 pkt' 22) + (unat (le16 pkt 24) + 1) = ip_header_sum pkt"
    using w4 by (simp add: split)
  finally have "ip_header_sum pkt' mod 65535 = ip_header_sum pkt mod 65535" .
  moreover have "unat (pkt' ! 22) + 1 = unat (pkt ! 22)" "1 \<le> pkt' ! 22" "length pkt' = length pkt"
    using len t t' by (simp_all add: pkt' word_le_nat_alt)
  ultimately show ?thesis using other by (simp add: ETH_HLEN_def)
qed

section \<open>Accounting of processed packets\<close>

text \<open>The counters of which each processed packet increments exactly one, on each side.\<close>

definition encap_outcomes :: "CEbpfMetrics \<Rightarrow> u64" where
  "encap_outcomes m =
     encap_skipped_packets_total_unsupported_l3_proto m + encap_parse_errors_total_l4_proto_load m +
     encap_skipped_packets_total_unsupported_l4_proto m + encap_parse_errors_total_dest_nlri_load m +
     encap_fib_misses_total m + encap_fib_entry_validation_errors_total_invalid_nexthop_count m +
     encap_fib_entry_validation_errors_total_zero_weight m +
     encap_fib_entry_validation_errors_total_invalid_weight_sum m +
     encap_errors_total_encap_failed m + encap_encapsulated_packets_total m"

definition decap_outcomes :: "CEbpfMetrics \<Rightarrow> u64" where
  "decap_outcomes m =
     decap_parse_errors_total_short_packet m + decap_skipped_packets_total_unsupported_outer_l3_proto m +
     decap_skipped_packets_total_unsupported_outer_l4_proto m +
     decap_skipped_packets_total_unsupported_inner_l3_proto m + decap_errors_total_decap_failed m +
     decap_errors_total_fib_lookup_failed m + decap_errors_total_decrement_inner_ttl_failed m +
     decap_errors_total_same_ifindex m + decap_errors_total_redirect_failed m +
     decap_redirected_packets_total m"

lemma encap_pkt_parse_count:
  assumes "encap_pkt_parse h skb m = (r, m')"
  shows "encap_processed_packets_total m' = encap_processed_packets_total m \<and>
    encap_outcomes m' = encap_outcomes m + (case r of Inl _ \<Rightarrow> 1 | Inr _ \<Rightarrow> 0)"
  using assms
  by (auto simp: encap_pkt_parse_def encap_outcomes_def Let_def algebra_simps split: if_splits option.splits)

lemma fib_entry_select_count:
  assumes "fib_entry_select_nexthop rnd c m = (r, m')"
  shows "encap_processed_packets_total m' = encap_processed_packets_total m \<and>
    encap_outcomes m' = encap_outcomes m + (case r of None \<Rightarrow> 1 | Some _ \<Rightarrow> 0)"
  using assms
  by (auto simp: fib_entry_select_nexthop_def encap_outcomes_def Let_def algebra_simps
      split: if_splits prod.splits)

lemma encap_choose_nexthop_count:
  assumes "encap_choose_nexthop h rnd fib sk nlri st m = (r, st', m')"
  shows "encap_processed_packets_total m' = encap_processed_packets_total m \<and>
    encap_outcomes m' = encap_outcomes m + (case r of None \<Rightarrow> 1 | Some _ \<Rightarrow> 0)"
proof -
  have frame: "encap_outcomes (m\<lparr>encap_sticky_nexthop_total_hit := x\<rparr>) = encap_outcomes m"
    "encap_outcomes (m\<lparr>encap_sticky_nexthop_total_miss := x\<rparr>) = encap_outcomes m"
    "encap_outcomes (m\<lparr>encap_fib_hits_total := x\<rparr>) = encap_outcomes m"
    "encap_outcomes (m\<lparr>encap_sticky_nexthop_total_store := x\<rparr>) = encap_outcomes m"
    "encap_outcomes (m\<lparr>encap_sticky_nexthop_total_miss := x,
       encap_fib_misses_total := encap_fib_misses_total m + 1\<rparr>) = encap_outcomes m + 1"
    for m x by (simp_all add: encap_outcomes_def)
  show ?thesis
    using assms
    by (auto simp: encap_choose_nexthop_def Let_def frame split: option.splits prod.splits if_splits
        dest!: fib_entry_select_count)
qed

text \<open>
  C28. Every packet that enters the encapsulation program is counted once as processed and once under
  exactly one outcome, so the processed counter always equals the sum of the outcome counters once
  it does.
\<close>

theorem erez_encap_accounting:
  assumes "erez_encap h rnd fib skb st (Some m) = (act, out, st', Some m')"
  shows "encap_processed_packets_total m' = encap_processed_packets_total m + 1 \<and>
    encap_outcomes m' = encap_outcomes m + 1"
proof -
  have frame: "encap_outcomes (m\<lparr>encap_processed_packets_total := x\<rparr>) = encap_outcomes m"
    "encap_outcomes (m\<lparr>encap_errors_total_encap_failed := encap_errors_total_encap_failed m + 1\<rparr>) = encap_outcomes m + 1"
    "encap_outcomes (m\<lparr>encap_encapsulated_packets_total := encap_encapsulated_packets_total m + 1\<rparr>) = encap_outcomes m + 1"
    for m x by (simp_all add: encap_outcomes_def)
  show ?thesis
    using assms
    by (auto simp: erez_encap_def Let_def frame split: option.splits prod.splits sum.splits
        dest!: encap_pkt_parse_count encap_choose_nexthop_count)
qed

lemma decap_pkt_parse_count:
  assumes "decap_pkt_parse pkt m = (r, m')"
  shows "decap_processed_packets_total m' = decap_processed_packets_total m \<and>
    decap_decapsulated_packets_total m' = decap_decapsulated_packets_total m \<and>
    decap_outcomes m' = decap_outcomes m + (case r of Inl _ \<Rightarrow> 1 | Inr _ \<Rightarrow> 0)"
  using assms by (auto simp: decap_pkt_parse_def decap_outcomes_def Let_def algebra_simps split: if_splits)

lemma decrement_ttl_length:
  assumes "decap_pkt_decrement_inner_ttl pkt l3 = Some pkt'"
  shows "ETH_HLEN + IPV4_HLEN \<le> length pkt'"
  using assms
  by (auto simp: decap_pkt_decrement_inner_ttl_def Let_def hlen_defs split: if_splits)

lemma decap_forward_count:
  assumes "decap_pkt_forward_to_nexthop h ifx pkt dp m = (r, out, m')"
  shows "decap_processed_packets_total m' = decap_processed_packets_total m \<and>
    decap_outcomes m' = decap_outcomes m + 1"
  using assms decrement_ttl_length
  by (force simp: decap_pkt_forward_to_nexthop_def decap_outcomes_def Let_def algebra_simps hlen_defs
      split: if_splits option.splits)

text \<open>
  Every packet that enters the decapsulation program is counted once as processed and once under
  exactly one outcome; the silent length check before the link-layer rewrite never triggers.
\<close>

theorem erez_decap_accounting:
  assumes "erez_decap h ifx pkt (Some m) = (act, out, Some m')"
  shows "decap_processed_packets_total m' = decap_processed_packets_total m + 1 \<and>
    decap_outcomes m' = decap_outcomes m + 1"
proof -
  have frame: "decap_outcomes (m\<lparr>decap_processed_packets_total := x\<rparr>) = decap_outcomes m"
    "decap_outcomes (m\<lparr>decap_decapsulated_packets_total := x\<rparr>) = decap_outcomes m"
    "decap_outcomes (m\<lparr>decap_errors_total_decap_failed := decap_errors_total_decap_failed m + 1\<rparr>) = decap_outcomes m + 1"
    for m x by (simp_all add: decap_outcomes_def)
  show ?thesis
    using assms
    by (auto simp: erez_decap_def Let_def frame split: option.splits prod.splits sum.splits
        dest!: decap_pkt_parse_count decap_forward_count)
qed

section \<open>Sticky nexthops\<close>

lemma sticky_store_keeps:
  assumes "socket_sticky_nexthop_store h st sk k n = (b, st')" "st s = Some sn"
  shows "st' s = Some sn"
  using assms by (auto simp: socket_sticky_nexthop_store_def split: option.splits if_splits)

lemma encap_choose_keeps:
  assumes "encap_choose_nexthop h rnd fib sk nlri st m = (r, st', m')" "st s = Some sn"
  shows "st' s = Some sn"
  using assms
  by (auto simp: encap_choose_nexthop_def Let_def split: option.splits prod.splits if_splits
      dest: sticky_store_keeps)

text \<open>A sequence of packets through the encapsulation program, with the forwarding map of each moment.\<close>

fun encap_run :: "bpf_helpers \<Rightarrow> (u32 \<times> (CNlri \<Rightarrow> CFibEntry option) \<times> sk_buff) list \<Rightarrow> sticky_map
    \<Rightarrow> CEbpfMetrics option \<Rightarrow> sticky_map \<times> CEbpfMetrics option" where
  "encap_run h [] st m = (st, m)"
| "encap_run h ((rnd, fib, skb) # ps) st m =
     (case erez_encap h rnd fib skb st m of (_, _, st', m') \<Rightarrow> encap_run h ps st' m')"

lemma erez_encap_keeps:
  assumes "erez_encap h rnd fib skb st m = (act, out, st', m')" "st s = Some sn"
  shows "st' s = Some sn"
  using assms
  by (auto simp: erez_encap_def Let_def split: option.splits prod.splits sum.splits
      dest: encap_choose_keeps)

lemma encap_run_keeps:
  assumes "encap_run h ps st m = (st', m')" "st s = Some sn"
  shows "st' s = Some sn"
  using assms
  by (induction h ps st m rule: encap_run.induct) (auto split: prod.splits dest: erez_encap_keeps)

text \<open>
  C22. Nexthops are sticky per socket: once a socket has a nexthop, then after any further traffic,
  and whatever the forwarding map holds by then, a packet of that socket that parses is encapsulated
  towards that same nexthop (or dropped when the kernel cannot make room), and the stored choice is
  unchanged.
\<close>

theorem sticky_nexthop_stable:
  assumes "st s = Some sn" "encap_run h ps st m = (st', Some m1)" "skb_sk skb = Some s"
    "encap_pkt_parse h skb (m1\<lparr>encap_processed_packets_total := encap_processed_packets_total m1 + 1\<rparr>) = (Inr pkt, m2)"
    "erez_encap h rnd fib skb st' (Some m1) = (act, out, st'', m3)"
  shows "st'' s = Some sn \<and>
    (case encap_pkt_encapsulate_ip6_gre h (skb_data skb) pkt (sn_nexthop sn) of
       Some out' \<Rightarrow> act = TC_ACT_OK \<and> out = out'
     | None \<Rightarrow> act = TC_ACT_SHOT)"
proof -
  have s: "st' s = Some sn" using assms(1,2) encap_run_keeps by blast
  then have "encap_choose_nexthop h rnd fib (Some s) (ep_nlri pkt) st' m2 =
      (Some (sn_nexthop sn), st', m2\<lparr>encap_sticky_nexthop_total_hit := encap_sticky_nexthop_total_hit m2 + 1\<rparr>)"
    by (simp add: encap_choose_nexthop_def socket_sticky_nexthop_lookup_def)
  with assms(3-5) s show ?thesis
    by (auto simp: erez_encap_def Let_def split: option.splits)
qed

section \<open>Concrete packets and entries\<close>

definition demo_entry :: CFibEntry where
  "demo_entry = CFibEntry_new (NetV4 0x0A290001 32) 2 [IpV6 1, IpV6 2, IpV6 0, IpV6 0] [8499, 1501, 0, 0]"

definition demo_skb :: sk_buff where
  "demo_skb = \<lparr> skb_data = [1,1,1,1,1,1, 2,2,2,2,2,2, 8,0, 0x45,0,0,20, 0,0,0,0, 64,6,0,0, 10,0,0,1, 10,41,0,1],
     skb_protocol = ETH_P_IP, skb_sk = Some 5 \<rparr>"

definition demo_pkt :: encap_packet where
  "demo_pkt = \<lparr> ep_l3_proto = ETH_P_IP, ep_l4_proto = 6,
     ep_nlri = \<lparr> cn_prefix_len = 128, cn_address = CIpv6Addr [0,0,0,0,0,0,0,0,0,0,0xFF,0xFF,10,41,0,1] \<rparr> \<rparr>"

lemma demo_entry_eq:
  "cf_nexthop_count demo_entry = 2"
  "cf_nexthops demo_entry = map CIpv6Addr_from [IpV6 1, IpV6 2, IpV6 0, IpV6 0]"
  "cf_weights demo_entry = [8499, 1501, 0, 0]"
  by (simp_all add: demo_entry_def CFibEntry_new_def MAX_NEXTHOPS_def numeral_eq_Suc)

lemma demo_entry_valid: "CFibEntry_valid demo_entry"
  by (simp add: CFibEntry_valid_def weights_ok_def demo_entry_eq MAX_NEXTHOPS_def WEIGHT_DENOMINATOR_def
      cipv6_wf_from del: CIpv6Addr_from.simps)

lemma demo_entry_distinct: "distinct (take (unat (cf_nexthop_count demo_entry)) (cf_nexthops demo_entry))"
proof -
  have "CIpv6Addr_from (IpV6 1) \<noteq> CIpv6Addr_from (IpV6 2)"
    using to_be_bytes_inj [of "1 :: u128" "2 :: u128"] by auto
  then show ?thesis by (simp add: demo_entry_eq del: CIpv6Addr_from.simps)
qed

theorem select_nexthop_total_witness:
  "CFibEntry_valid demo_entry \<and>
   (\<exists>n. fib_entry_select_nexthop 12345 demo_entry CEbpfMetrics_default = (Some n, CEbpfMetrics_default) \<and>
      n \<in> set (take (unat (cf_nexthop_count demo_entry)) (cf_nexthops demo_entry)))"
  using demo_entry_valid select_nexthop_total [OF demo_entry_valid] by blast

theorem select_nexthop_proportional_witness:
  "card {t. t < 10000 \<and> fst (fib_entry_select_nexthop (of_nat t) demo_entry CEbpfMetrics_default) =
     Some (CIpv6Addr_from (IpV6 2))} = 1501"
  using select_nexthop_proportional [OF demo_entry_valid _ demo_entry_distinct, of 1 CEbpfMetrics_default]
  by (simp add: demo_entry_eq del: CIpv6Addr_from.simps)

lemma demo_parse:
  "encap_pkt_parse ref_helpers demo_skb m = (Inr demo_pkt, m)"
  by (simp add: encap_pkt_parse_def demo_skb_def demo_pkt_def ref_helpers_def valid_encap_l3_proto_def
      valid_encap_l4_proto_def encap_pkt_load_l4_proto_def encap_pkt_load_dest_nlri_def load_addr_def
      read_at_def ETH_P_IP_def ETH_HLEN_def IPPROTO_TCP_def Let_def numeral_eq_Suc)

lemma demo_encap_Some:
  "\<exists>out. encap_pkt_encapsulate_ip6_gre ref_helpers (skb_data demo_skb) demo_pkt n = Some out"
  by (simp add: encap_pkt_encapsulate_ip6_gre_def encap_pkt_load_saddr_def load_addr_def demo_skb_def
      demo_pkt_def ref_helpers_def read_at_def hlen_defs ETH_P_IP_def)

theorem encap_decap_roundtrip_witness:
  "\<exists>out. encap_pkt_encapsulate_ip6_gre ref_helpers (skb_data demo_skb) demo_pkt (CIpv6Addr_from (IpV6 2)) = Some out \<and>
     decap_pkt_decapsulate_ip6_gre ref_helpers out
       \<lparr> dp_inner_l3_proto = ETH_P_IP, dp_nexthop = CIpv6Addr_from (IpV6 2) \<rparr> = Some (skb_data demo_skb)"
proof -
  obtain out where out: "encap_pkt_encapsulate_ip6_gre ref_helpers (skb_data demo_skb) demo_pkt
      (CIpv6Addr_from (IpV6 2)) = Some out"
    using demo_encap_Some by blast
  have "read_at (skb_data demo_skb) 12 2 = to_be_bytes (ep_l3_proto demo_pkt)"
    by (simp add: demo_skb_def demo_pkt_def read_at_def ETH_P_IP_def to_be_bytes_u16)
  moreover have "valid_encap_l3_proto (ep_l3_proto demo_pkt)"
    by (simp add: demo_pkt_def valid_encap_l3_proto_def)
  ultimately show ?thesis
    using encap_decap_roundtrip [OF ref.kernel_helpers_axioms out] out
    by (auto simp: demo_pkt_def simp del: CIpv6Addr_from.simps)
qed

theorem ttl_decrement_checksum_witness:
  "\<exists>pkt'. decap_pkt_decrement_inner_ttl (skb_data demo_skb) ETH_P_IP = Some pkt' \<and>
     ip_header_sum pkt' mod 65535 = ip_header_sum (skb_data demo_skb) mod 65535"
proof -
  have "decap_pkt_decrement_inner_ttl (skb_data demo_skb) ETH_P_IP \<noteq> None"
    by (simp add: decap_pkt_decrement_inner_ttl_def demo_skb_def hlen_defs Let_def word_le_nat_alt)
  then obtain pkt' where "decap_pkt_decrement_inner_ttl (skb_data demo_skb) ETH_P_IP = Some pkt'"
    by blast
  then show ?thesis using ttl_decrement_checksum by blast
qed

lemma erez_encap_counts: "\<exists>act out st' m'. erez_encap h rnd fib skb st (Some m) = (act, out, st', Some m')"
  by (auto simp: erez_encap_def Let_def split: prod.splits sum.splits option.splits)

theorem erez_encap_accounting_witness:
  "\<exists>act out st' m'. erez_encap ref_helpers 7 (\<lambda>_. Some demo_entry) demo_skb Map.empty (Some CEbpfMetrics_default)
      = (act, out, st', Some m') \<and>
     encap_processed_packets_total m' = encap_processed_packets_total CEbpfMetrics_default + 1 \<and>
     encap_outcomes m' = encap_outcomes CEbpfMetrics_default + 1"
proof -
  obtain act out st' m' where "erez_encap ref_helpers 7 (\<lambda>_. Some demo_entry) demo_skb Map.empty
      (Some CEbpfMetrics_default) = (act, out, st', Some m')"
    using erez_encap_counts by blast
  then show ?thesis using erez_encap_accounting by blast
qed

lemma erez_decap_counts: "\<exists>act out m'. erez_decap h ifx pkt (Some m) = (act, out, Some m')"
  by (auto simp: erez_decap_def Let_def split: prod.splits sum.splits option.splits)

theorem erez_decap_accounting_witness:
  "\<exists>act out m'. erez_decap ref_helpers 3 (skb_data demo_skb) (Some CEbpfMetrics_default) = (act, out, Some m') \<and>
     decap_processed_packets_total m' = decap_processed_packets_total CEbpfMetrics_default + 1 \<and>
     decap_outcomes m' = decap_outcomes CEbpfMetrics_default + 1"
proof -
  obtain act out m' where "erez_decap ref_helpers 3 (skb_data demo_skb) (Some CEbpfMetrics_default) = (act, out, Some m')"
    using erez_decap_counts by blast
  then show ?thesis using erez_decap_accounting by blast
qed

theorem sticky_nexthop_stable_witness:
  "\<exists>st''. fst (snd (snd (erez_encap ref_helpers 7 (\<lambda>_. None) demo_skb
      [5 \<mapsto> \<lparr> sn_matched_nlri = ep_nlri demo_pkt, sn_nexthop = CIpv6Addr_from (IpV6 2) \<rparr>]
      (Some CEbpfMetrics_default)))) = st'' \<and>
    st'' 5 = Some \<lparr> sn_matched_nlri = ep_nlri demo_pkt, sn_nexthop = CIpv6Addr_from (IpV6 2) \<rparr>"
proof -
  let ?sn = "\<lparr> sn_matched_nlri = ep_nlri demo_pkt, sn_nexthop = CIpv6Addr_from (IpV6 2) \<rparr>"
  obtain act out st'' m3 where e: "erez_encap ref_helpers 7 (\<lambda>_. None) demo_skb [5 \<mapsto> ?sn] (Some CEbpfMetrics_default)
      = (act, out, st'', Some m3)"
    using erez_encap_counts by blast
  have "st'' 5 = Some ?sn"
    using sticky_nexthop_stable [of "[5 \<mapsto> ?sn]" 5 ?sn ref_helpers "[]" "Some CEbpfMetrics_default"
        "[5 \<mapsto> ?sn]" CEbpfMetrics_default demo_skb demo_pkt, OF _ _ _ demo_parse e]
    by (simp add: demo_skb_def del: CIpv6Addr_from.simps)
  with e show ?thesis by (simp del: CIpv6Addr_from.simps)
qed

end
