(* ===== verification/Rtt_Aggregation.thy ===== *)
theory Rtt_Aggregation
  imports Bpf_Abi
begin

text \<open>
  The sliding window of TCP round-trip times (\<open>src/erezd/src/rtt_aggregation.rs\<close>): events from the
  data plane are kept per prefix and nexthop for ten seconds and summarised on demand. The clock and
  the mutex are arguments: \<open>now_ns\<close> is \<open>None\<close> when reading the clock fails, and \<open>poisoned\<close> says
  whether taking the lock fails.
\<close>

section \<open>State and operations\<close>

type_synonym Nlri = IpNet
type_synonym Nexthop = IpAddr

definition AGGREGATION_WINDOW_NS :: u64 where
  "AGGREGATION_WINDOW_NS = 10 * 1000000000"

record TcpRttSample =
  sm_ts_ns :: u64
  sm_srtt_us :: u32
  sm_rtt_min :: u32

type_synonym rtt_samples = "(Nlri, (Nexthop, TcpRttSample list) hashmap) hashmap"

record TcpRttWindow =
  win_samples :: nat
  win_avg_srtt_us :: u64
  win_max_srtt_us :: u32
  win_min_rtt_min :: u32

type_synonym TcpRttSnapshot = "(Nlri, (Nexthop, TcpRttWindow) hashmap) hashmap"

datatype rtt_error = ClockFailed | LockPoisoned | ParseNlri cnlri_error

definition fresh :: "u64 \<Rightarrow> TcpRttSample \<Rightarrow> bool" where
  "fresh now_ns sample \<longleftrightarrow> saturating_sub now_ns (sm_ts_ns sample) \<le> AGGREGATION_WINDOW_NS"

text \<open>\<open>prune\<close>: three nested \<open>retain\<close> calls, the outer two of which drop what became empty.\<close>

definition prune_nexthops :: "u64 \<Rightarrow> (Nexthop, TcpRttSample list) hashmap \<Rightarrow> (Nexthop, TcpRttSample list) hashmap" where
  "prune_nexthops now_ns by_nexthop =
     filter (\<lambda>(_, samples). samples \<noteq> [])
       (map (\<lambda>(nexthop, samples). (nexthop, filter (fresh now_ns) samples)) by_nexthop)"

definition prune :: "u64 \<Rightarrow> rtt_samples \<Rightarrow> rtt_samples" where
  "prune now_ns s =
     filter (\<lambda>(_, by_nexthop). by_nexthop \<noteq> [])
       (map (\<lambda>(nlri, by_nexthop). (nlri, prune_nexthops now_ns by_nexthop)) s)"

definition TcpRttWindow_default :: TcpRttWindow where
  "TcpRttWindow_default = \<lparr> win_samples = 0, win_avg_srtt_us = 0, win_max_srtt_us = 0, win_min_rtt_min = 0 \<rparr>"

definition srtt_sum :: "TcpRttSample list \<Rightarrow> u64" where
  "srtt_sum samples = sum_list (map (\<lambda>sample. ucast (sm_srtt_us sample)) samples)"

definition from_samples :: "TcpRttSample list \<Rightarrow> TcpRttWindow" where
  "from_samples samples =
     (if samples = [] then TcpRttWindow_default
      else \<lparr> win_samples = length samples,
             win_avg_srtt_us = srtt_sum samples div of_nat (length samples),
             win_max_srtt_us = fold max (map sm_srtt_us (tl samples)) (sm_srtt_us (hd samples)),
             win_min_rtt_min = fold min (map sm_rtt_min (tl samples)) (sm_rtt_min (hd samples)) \<rparr>)"

definition windows_of :: "rtt_samples \<Rightarrow> TcpRttSnapshot" where
  "windows_of s = map (\<lambda>(nlri, by_nexthop). (nlri, map (\<lambda>(nexthop, samples). (nexthop, from_samples samples)) by_nexthop)) s"

definition snapshot :: "u64 option \<Rightarrow> bool \<Rightarrow> rtt_samples \<Rightarrow> (rtt_error + TcpRttSnapshot) \<times> rtt_samples" where
  "snapshot now_ns poisoned s =
     (case now_ns of
        None \<Rightarrow> (Inl ClockFailed, s)
      | Some now \<Rightarrow>
          if poisoned then (Inl LockPoisoned, s)
          else (let s = prune now s in (Inr (windows_of s), s)))"

definition sample_of :: "CTcpRttEvent \<Rightarrow> TcpRttSample" where
  "sample_of event = \<lparr> sm_ts_ns = ev_ts_ns event, sm_srtt_us = ev_srtt_us event, sm_rtt_min = ev_rtt_min event \<rparr>"

text \<open>The \<open>entry(..).or_default()\<close> chain of \<open>observe\<close>, ending in \<open>push_back\<close>.\<close>

definition push_sample :: "Nlri \<Rightarrow> Nexthop \<Rightarrow> TcpRttSample \<Rightarrow> rtt_samples \<Rightarrow> rtt_samples" where
  "push_sample nlri nexthop sample s =
     (let by_nexthop = (case hm_get s nlri of Some m \<Rightarrow> m | None \<Rightarrow> []);
          samples = (case hm_get by_nexthop nexthop of Some q \<Rightarrow> q | None \<Rightarrow> [])
      in hm_insert nlri (hm_insert nexthop (samples @ [sample]) by_nexthop) s)"

definition observe :: "u64 option \<Rightarrow> bool \<Rightarrow> CTcpRttEvent \<Rightarrow> rtt_samples \<Rightarrow> (rtt_error + unit) \<times> rtt_samples" where
  "observe now_ns poisoned event s =
     (case now_ns of
        None \<Rightarrow> (Inl ClockFailed, s)
      | Some now \<Rightarrow>
          if saturating_sub now (ev_ts_ns event) > AGGREGATION_WINDOW_NS then (Inr (), s)
          else if poisoned then (Inl LockPoisoned, s)
          else
            (let s = prune now s in
             case IpNet_try_from (ev_matched_nlri event) of
               Inl e \<Rightarrow> (Inl (ParseNlri e), s)
             | Inr nlri \<Rightarrow>
                 (Inr (), push_sample nlri (IpAddr_from_CIpv6Addr (ev_nexthop event)) (sample_of event) s)))"

text \<open>The collector: one family of gauges per field of the windows.\<close>

definition get_samples :: "TcpRttSnapshot \<Rightarrow> (TcpRttWindow \<Rightarrow> u64) \<Rightarrow> (Nlri \<times> Nexthop \<times> u64) list" where
  "get_samples snap extractor =
     concat (map (\<lambda>(nlri, nexthops). map (\<lambda>(nexthop, window). (nlri, nexthop, extractor window)) nexthops) snap)"

definition encode :: "u64 option \<Rightarrow> bool \<Rightarrow> rtt_samples
    \<Rightarrow> (rtt_error + (string \<times> (Nlri \<times> Nexthop \<times> u64) list) list) \<times> rtt_samples" where
  "encode now_ns poisoned s =
     (case snapshot now_ns poisoned s of
        (Inl e, s) \<Rightarrow> (Inl e, s)
      | (Inr snap, s) \<Rightarrow>
          (Inr [(''erez_tcp_rtt_window_samples'', get_samples snap (\<lambda>w. of_nat (win_samples w))),
                (''erez_tcp_rtt_window_srtt_us_avg'', get_samples snap win_avg_srtt_us),
                (''erez_tcp_rtt_window_srtt_us_max'', get_samples snap (\<lambda>w. ucast (win_max_srtt_us w))),
                (''erez_tcp_rtt_window_rtt_min_us_min'', get_samples snap (\<lambda>w. ucast (win_min_rtt_min w)))], s))"

section \<open>Invariant\<close>

text \<open>Keys are distinct at both levels, and no level holds an empty collection.\<close>

definition rtt_wf :: "rtt_samples \<Rightarrow> bool" where
  "rtt_wf s \<longleftrightarrow> hm_wf s \<and>
     list_all (\<lambda>(_, by_nexthop). by_nexthop \<noteq> [] \<and> hm_wf by_nexthop \<and>
       list_all (\<lambda>(_, samples). samples \<noteq> []) by_nexthop) s"

text \<open>The samples of one prefix and nexthop.\<close>

definition samples_at :: "rtt_samples \<Rightarrow> Nlri \<Rightarrow> Nexthop \<Rightarrow> TcpRttSample list" where
  "samples_at s nlri nexthop =
     (case hm_get s nlri of None \<Rightarrow> [] | Some m \<Rightarrow> (case hm_get m nexthop of None \<Rightarrow> [] | Some q \<Rightarrow> q))"

lemma rtt_wf_Nil [simp, intro]: "rtt_wf []"
  by (simp add: rtt_wf_def)

lemma hm_get_prune_nexthops:
  assumes "hm_wf m"
  shows "hm_get (prune_nexthops now m) nh =
    (case hm_get m nh of None \<Rightarrow> None
     | Some q \<Rightarrow> if filter (fresh now) q = [] then None else Some (filter (fresh now) q))"
  using assms
  by (simp add: prune_nexthops_def hm_get_filter hm_get_map_values split: option.split)

lemma prune_nexthops_wf:
  assumes "hm_wf m"
  shows "hm_wf (prune_nexthops now m)" "list_all (\<lambda>(_, q). q \<noteq> []) (prune_nexthops now m)"
  using assms by (auto simp: prune_nexthops_def list_all_iff)

lemma hm_get_prune:
  assumes "hm_wf s"
  shows "hm_get (prune now s) n =
    (case hm_get s n of None \<Rightarrow> None
     | Some m \<Rightarrow> if prune_nexthops now m = [] then None else Some (prune_nexthops now m))"
  using assms by (simp add: prune_def hm_get_filter hm_get_map_values split: option.split)

lemma rtt_wf_prune [inv_intros]:
  assumes "rtt_wf s"
  shows "rtt_wf (prune now s)"
proof -
  have "hm_wf (prune now s)" using assms by (simp add: rtt_wf_def prune_def)
  moreover have "hm_wf m \<and> m \<noteq> [] \<and> list_all (\<lambda>(_, q). q \<noteq> []) m" if m: "(n, m) \<in> set (prune now s)" for n m
  proof -
    obtain m0 where "(n, m0) \<in> set s" "m = prune_nexthops now m0" "m \<noteq> []"
      using m by (auto simp: prune_def)
    moreover have "hm_wf m0" using assms calculation(1) by (auto simp: rtt_wf_def list_all_iff)
    ultimately show ?thesis using prune_nexthops_wf by simp
  qed
  ultimately show ?thesis
    unfolding rtt_wf_def list_all_iff [of _ "prune now s"] by blast
qed

lemma rtt_wf_get: "rtt_wf s \<Longrightarrow> hm_get s n = Some m \<Longrightarrow> hm_wf m \<and> m \<noteq> [] \<and> list_all (\<lambda>(_, q). q \<noteq> []) m"
  by (auto simp: rtt_wf_def list_all_iff dest!: map_of_SomeD)

lemma list_all_update:
  "list_all P m \<Longrightarrow> P (k, v) \<Longrightarrow> list_all P (hm_insert k v m)"
  by (induction m) auto

lemma rtt_wf_push [inv_intros]:
  assumes "rtt_wf s"
  shows "rtt_wf (push_sample nlri nh x s)"
proof -
  let ?m = "case hm_get s nlri of Some m \<Rightarrow> m | None \<Rightarrow> []"
  have m: "hm_wf ?m" "list_all (\<lambda>(_, q). q \<noteq> []) ?m"
    using rtt_wf_get [OF assms, of nlri] by (auto split: option.split)
  have "hm_insert nh q ?m \<noteq> []" for q by (cases ?m) (auto split: prod.split)
  then show ?thesis
    using assms m by (auto simp: rtt_wf_def push_sample_def Let_def intro!: list_all_update)
qed

lemma rtt_wf_observe [inv_intros]:
  "rtt_wf s \<Longrightarrow> rtt_wf (snd (observe now poisoned ev s))"
  by (auto simp: observe_def Let_def intro: inv_intros split: option.split sum.split)

lemma rtt_wf_snapshot [inv_intros]:
  "rtt_wf s \<Longrightarrow> rtt_wf (snd (snapshot now poisoned s))"
  by (auto simp: snapshot_def Let_def intro: inv_intros split: option.split)

section \<open>The window is exact\<close>

lemma samples_at_prune:
  assumes "rtt_wf s"
  shows "samples_at (prune now s) n nh = filter (fresh now) (samples_at s n nh)"
proof (cases "hm_get s n")
  case None
  then show ?thesis using assms by (simp add: samples_at_def hm_get_prune rtt_wf_def)
next
  case (Some m)
  then have "hm_wf m" using rtt_wf_get [OF assms] by blast
  then have "(case hm_get (prune_nexthops now m) nh of None \<Rightarrow> [] | Some q \<Rightarrow> q) =
      filter (fresh now) (case hm_get m nh of None \<Rightarrow> [] | Some q \<Rightarrow> q)"
    by (simp add: hm_get_prune_nexthops split: option.split)
  then show ?thesis using Some assms by (auto simp: samples_at_def hm_get_prune rtt_wf_def)
qed

lemma samples_at_push:
  "samples_at (push_sample nlri nh x s) n k =
     (if n = nlri \<and> k = nh then samples_at s n k @ [x] else samples_at s n k)"
  by (auto simp: samples_at_def push_sample_def Let_def hm_get_insert split: option.split)

lemma fresh_mono:
  assumes "t \<le> now" "fresh now x"
  shows "fresh t x"
  using assms by (auto simp: fresh_def word_le_nat_alt unat_saturating_sub)

text \<open>A history of observations, each with the clock reading at its time.\<close>

fun observe_all :: "(u64 \<times> CTcpRttEvent) list \<Rightarrow> rtt_samples \<Rightarrow> rtt_samples" where
  "observe_all [] s = s"
| "observe_all ((t, ev) # h) s = observe_all h (snd (observe (Some t) False ev s))"

text \<open>The events of a history that belong to a prefix and nexthop, as samples in order.\<close>

definition history_at :: "(u64 \<times> CTcpRttEvent) list \<Rightarrow> Nlri \<Rightarrow> Nexthop \<Rightarrow> TcpRttSample list" where
  "history_at h n nh = map (\<lambda>(_, ev). sample_of ev)
     (filter (\<lambda>(_, ev). IpNet_try_from (ev_matched_nlri ev) = Inr n \<and>
        IpAddr_from_CIpv6Addr (ev_nexthop ev) = nh) h)"

lemma observe_fresh:
  assumes "rtt_wf s" "t \<le> now"
  shows "filter (fresh now) (samples_at (snd (observe (Some t) False ev s)) n nh) =
    filter (fresh now) (samples_at s n nh @ history_at [(t, ev)] n nh)"
proof -
  have ff: "filter (\<lambda>x. fresh t x \<and> fresh now x) xs = filter (fresh now) xs" for xs
    using fresh_mono [OF assms(2)] by (auto intro: filter_cong)
  have old: "\<not> fresh now (sample_of ev)" if "\<not> fresh t (sample_of ev)"
    using that fresh_mono [OF assms(2)] by blast
  have fr: "saturating_sub t (ev_ts_ns ev) > AGGREGATION_WINDOW_NS \<longleftrightarrow> \<not> fresh t (sample_of ev)"
    by (auto simp: fresh_def sample_of_def)
  show ?thesis
    using old
    by (auto simp: observe_def fr Let_def samples_at_push samples_at_prune [OF assms(1)] ff history_at_def
        split: sum.split)
qed

lemma observe_all_fresh:
  assumes "rtt_wf s" "list_all (\<lambda>(t, _). t \<le> now) h"
  shows "rtt_wf (observe_all h s) \<and>
    filter (fresh now) (samples_at (observe_all h s) n nh) =
      filter (fresh now) (samples_at s n nh @ history_at h n nh)"
  using assms
proof (induction h arbitrary: s)
  case Nil
  then show ?case by (simp add: history_at_def)
next
  case (Cons te h)
  obtain t ev where te: "te = (t, ev)" by (cases te)
  let ?s = "snd (observe (Some t) False ev s)"
  have wf: "rtt_wf ?s" using Cons.prems(1) by (rule rtt_wf_observe)
  have hist: "history_at ((t, ev) # h) n nh = history_at [(t, ev)] n nh @ history_at h n nh"
    by (simp add: history_at_def)
  have t: "t \<le> now" using Cons.prems(2) by (simp add: te)
  from wf Cons have "rtt_wf (observe_all h ?s) \<and>
    filter (fresh now) (samples_at (observe_all h ?s) n nh) =
      filter (fresh now) (samples_at ?s n nh @ history_at h n nh)" by simp
  with observe_fresh [OF Cons.prems(1) t, of ev n nh] show ?case
    by (simp add: te hist)
qed

lemma hm_get_windows_of:
  assumes "rtt_wf s"
  shows "Option.bind (hm_get (windows_of s) n) (\<lambda>m. hm_get m nh) =
    (if samples_at s n nh = [] then None else Some (from_samples (samples_at s n nh)))"
proof -
  have q: "q \<noteq> []" if "hm_get s n = Some m" "hm_get m nh = Some q" for m q
    using rtt_wf_get [OF assms that(1)] that(2) by (auto simp: list_all_iff dest: map_of_SomeD)
  show ?thesis
    by (auto simp: windows_of_def samples_at_def hm_get_map_values split: option.split dest: q)
qed

text \<open>
  C20. The sliding window is exact. After any history of observations on a clock that never passes
  \<open>now\<close>, a snapshot taken at \<open>now\<close> has a window for a prefix and nexthop exactly when the history has an
  event for them no older than ten seconds, and the window summarises precisely those events in
  order, however often and whenever pruning ran in between.
\<close>

theorem snapshot_window_exact:
  assumes "list_all (\<lambda>(t, _). t \<le> now) h"
  shows "\<exists>snap. fst (snapshot (Some now) False (observe_all h [])) = Inr snap \<and>
    Option.bind (hm_get snap n) (\<lambda>m. hm_get m nh) =
      (let live = filter (fresh now) (history_at h n nh)
       in if live = [] then None else Some (from_samples live))"
proof -
  have *: "rtt_wf (observe_all h [])"
    "filter (fresh now) (samples_at (observe_all h []) n nh) = filter (fresh now) (history_at h n nh)"
    using observe_all_fresh [OF rtt_wf_Nil assms, of n nh] by (auto simp: samples_at_def)
  show ?thesis
    using hm_get_windows_of [OF rtt_wf_prune [OF *(1), of now], of n nh] *(2)
    by (simp add: snapshot_def Let_def samples_at_prune [OF *(1)])
qed

section \<open>Bounds of a window\<close>

lemma fold_max_bounds:
  "list_all (\<lambda>y. y \<le> fold max xs (x :: 'a::linorder)) (x # xs) \<and> fold max xs x \<in> set (x # xs)"
proof (induction xs arbitrary: x)
  case (Cons y ys)
  have "x \<le> max y x" "y \<le> max y x" by simp_all
  with Cons [of "max y x"] show ?case by (auto simp: max_def split: if_splits)
qed simp

lemma fold_min_bounds:
  "list_all (\<lambda>y. fold min xs (x :: 'a::linorder) \<le> y) (x # xs) \<and> fold min xs x \<in> set (x # xs)"
proof (induction xs arbitrary: x)
  case (Cons y ys)
  have "min y x \<le> x" "min y x \<le> y" by simp_all
  with Cons [of "min y x"] show ?case by (auto simp: min_def split: if_splits)
qed simp

lemma unat_ucast_u32_u64 [simp]: "unat (ucast (w :: u32) :: u64) = unat w"
proof -
  have "unat w < 2 ^ 64" using unat_less_power [of w] by simp
  then show ?thesis by (simp add: unsigned_ucast_eq take_bit_nat_eq_self)
qed

lemma srtt_sum_bounds:
  assumes "length q < 2 ^ 32"
  shows "unat (srtt_sum q) = sum_list (map (unat \<circ> sm_srtt_us) q)"
    and "sum_list (map (unat \<circ> sm_srtt_us) q) \<le> length q * (2 ^ 32 - 1)"
proof -
  have b: "sum_list (map (unat \<circ> sm_srtt_us) xs) \<le> length xs * (2 ^ 32 - 1)" for xs :: "TcpRttSample list"
  proof (induction xs)
    case (Cons x xs)
    have "unat (sm_srtt_us x) < 2 ^ 32" using unat_less_power [of "sm_srtt_us x"] by simp
    with Cons show ?case by simp
  qed simp
  show "sum_list (map (unat \<circ> sm_srtt_us) q) \<le> length q * (2 ^ 32 - 1)" by (rule b)
  have *: "srtt_sum xs = of_nat (sum_list (map (unat \<circ> sm_srtt_us) xs))" for xs :: "TcpRttSample list"
    by (induction xs) (simp_all add: srtt_sum_def)
  have "length q * (2 ^ 32 - 1) \<le> (2 ^ 32 - 1) * (2 ^ 32 - 1)"
    using assms by (intro mult_le_mono1) simp
  also have "\<dots> < (2 :: nat) ^ 64" by simp
  finally have "sum_list (map (unat \<circ> sm_srtt_us) q) < 2 ^ 64"
    using b [of q] by (rule le_less_trans [rotated])
  then show "unat (srtt_sum q) = sum_list (map (unat \<circ> sm_srtt_us) q)"
    by (simp add: * unat_of_nat)
qed

lemma from_samples_avg:
  assumes "length q < 2 ^ 32"
  shows "unat (win_avg_srtt_us (from_samples q)) < 2 ^ 32"
proof (cases "q = []")
  case False
  have len: "unat (of_nat (length q) :: u64) = length q" using assms by (simp add: unat_of_nat)
  have "unat (win_avg_srtt_us (from_samples q)) = unat (srtt_sum q) div length q"
    using False len by (simp add: from_samples_def unat_div_distrib)
  also have "\<dots> \<le> (length q * (2 ^ 32 - 1)) div length q"
    using srtt_sum_bounds [OF assms] by (intro div_le_mono) simp
  also have "\<dots> = 2 ^ 32 - 1" using False by simp
  finally show ?thesis by simp
qed (simp add: from_samples_def TcpRttWindow_default_def)

text \<open>No queue is longer than the number of events observed.\<close>

definition queues_le :: "nat \<Rightarrow> rtt_samples \<Rightarrow> bool" where
  "queues_le k s \<longleftrightarrow> list_all (\<lambda>(_, m). list_all (\<lambda>(_, q). length q \<le> k) m) s"

lemma queues_le_prune: "queues_le k s \<Longrightarrow> queues_le k (prune now s)"
  by (fastforce simp: queues_le_def prune_def prune_nexthops_def list_all_iff intro: length_filter_le [THEN order_trans])

lemma queues_le_get:
  "queues_le k s \<Longrightarrow> hm_get s n = Some m \<Longrightarrow> list_all (\<lambda>(_, q). length q \<le> k) m"
  by (auto simp: queues_le_def list_all_iff dest!: map_of_SomeD)

lemma queues_le_mono: "queues_le k s \<Longrightarrow> k \<le> l \<Longrightarrow> queues_le l s"
  by (fastforce simp: queues_le_def list_all_iff)

lemma queues_le_push:
  assumes "queues_le k s"
  shows "queues_le (Suc k) (push_sample nlri nh x s)"
proof -
  let ?m = "case hm_get s nlri of Some m \<Rightarrow> m | None \<Rightarrow> []"
  let ?q = "case hm_get ?m nh of Some q \<Rightarrow> q | None \<Rightarrow> []"
  have m: "list_all (\<lambda>(_, q). length q \<le> k) ?m" using queues_le_get [OF assms] by (auto split: option.split)
  have "length q \<le> k" if "hm_get ?m nh = Some q" for q
    using map_of_SomeD [OF that] m by (auto simp: list_all_iff)
  then have "length ?q \<le> k" by (simp split: option.split)
  then have "list_all (\<lambda>(_, q). length q \<le> Suc k) (hm_insert nh (?q @ [x]) ?m)"
    using m by (intro list_all_update) (auto elim!: list.pred_mono_strong)
  moreover have "list_all (\<lambda>(_, m). list_all (\<lambda>(_, q). length q \<le> Suc k) m) s"
    using queues_le_mono [OF assms, of "Suc k"] by (simp add: queues_le_def)
  ultimately show ?thesis
    by (simp add: queues_le_def push_sample_def Let_def list_all_update)
qed

lemma queues_le_observe:
  "queues_le k s \<Longrightarrow> queues_le (Suc k) (snd (observe now poisoned ev s))"
  using queues_le_mono [of k s "Suc k"] queues_le_mono [of k _ "Suc k"] queues_le_prune
  by (auto simp: observe_def Let_def queues_le_push split: option.split sum.split)

lemma windows_of_avg:
  assumes "queues_le k s" "k < 2 ^ 32"
  shows "list_all (\<lambda>(_, ws). list_all (\<lambda>(_, win). unat (win_avg_srtt_us win) < 2 ^ 32) ws) (windows_of s)"
proof -
  have "unat (win_avg_srtt_us (from_samples q)) < 2 ^ 32" if "(n, m) \<in> set s" "(nh, q) \<in> set m" for n m nh q
    using that assms by (intro from_samples_avg) (fastforce simp: queues_le_def list_all_iff)
  then show ?thesis by (auto simp: windows_of_def list_all_iff)
qed

text \<open>
  A window over fewer than \<open>2^32\<close> samples does not overflow: its average is the integer mean of the
  samples' smoothed RTTs, it is at most the window's maximum, and maximum and minimum are attained by
  samples of the window.
\<close>

theorem from_samples_bounds:
  assumes "q \<noteq> []" "length q < 2 ^ 32"
  shows "unat (win_avg_srtt_us (from_samples q)) = sum_list (map (unat \<circ> sm_srtt_us) q) div length q \<and>
    unat (win_avg_srtt_us (from_samples q)) \<le> unat (win_max_srtt_us (from_samples q)) \<and>
    (\<exists>x \<in> set q. sm_srtt_us x = win_max_srtt_us (from_samples q)) \<and>
    (\<exists>x \<in> set q. sm_rtt_min x = win_min_rtt_min (from_samples q)) \<and>
    list_all (\<lambda>x. sm_srtt_us x \<le> win_max_srtt_us (from_samples q) \<and>
       win_min_rtt_min (from_samples q) \<le> sm_rtt_min x) q"
proof -
  obtain x xs where q: "q = x # xs" using assms(1) by (cases q) auto
  let ?M = "win_max_srtt_us (from_samples q)" and ?m = "win_min_rtt_min (from_samples q)"
  have M: "?M = fold max (map sm_srtt_us xs) (sm_srtt_us x)"
    and m: "?m = fold min (map sm_rtt_min xs) (sm_rtt_min x)" by (simp_all add: from_samples_def q)
  have max: "list_all (\<lambda>y. sm_srtt_us y \<le> ?M) q" "\<exists>y \<in> set q. sm_srtt_us y = ?M"
    unfolding M using fold_max_bounds [where xs = "map sm_srtt_us xs" and x = "sm_srtt_us x"]
    by (auto simp: q list_all_iff)
  have min: "list_all (\<lambda>y. ?m \<le> sm_rtt_min y) q" "\<exists>y \<in> set q. sm_rtt_min y = ?m"
    unfolding m using fold_min_bounds [where xs = "map sm_rtt_min xs" and x = "sm_rtt_min x"]
    by (auto simp: q list_all_iff)
  have len: "unat (of_nat (length q) :: u64) = length q" using assms(2) by (simp add: unat_of_nat)
  have avg: "unat (win_avg_srtt_us (from_samples q)) = sum_list (map (unat \<circ> sm_srtt_us) q) div length q"
    using assms(1) srtt_sum_bounds(1) [OF assms(2)] len by (simp add: from_samples_def unat_div_distrib)
  have "sum_list (map (unat \<circ> sm_srtt_us) q) \<le> sum_list (map (\<lambda>_. unat ?M) q)"
    using max(1) by (intro sum_list_mono) (auto simp: list_all_iff word_le_nat_alt)
  then have "sum_list (map (unat \<circ> sm_srtt_us) q) div length q \<le> (length q * unat ?M) div length q"
    by (intro div_le_mono) (simp add: sum_list_triv)
  also have "\<dots> = unat ?M" using assms(1) by simp
  finally show ?thesis using avg max min by (auto simp: list_all_iff)
qed

section \<open>Concrete histories\<close>

definition demo_event :: "u64 \<Rightarrow> u32 \<Rightarrow> CTcpRttEvent" where
  "demo_event ts srtt = \<lparr> ev_matched_nlri = \<lparr> cn_prefix_len = 32, cn_address = CIpv6Addr_from (IpV6 1) \<rparr>,
     ev_nexthop = CIpv6Addr_from (IpV6 2), ev_padding = 0, ev_ts_ns = ts, ev_srtt_us = srtt, ev_rtt_min = 1000 \<rparr>"

theorem snapshot_window_exact_witness:
  "\<exists>snap. fst (snapshot (Some 20000000000) False (observe_all [(5, demo_event 5 1015), (19000000000, demo_event 19000000000 27427)] [])) = Inr snap \<and>
    Option.bind (hm_get snap (NetV6 1 32)) (\<lambda>m. hm_get m (IpV6 2)) =
      (let live = filter (fresh 20000000000)
             (history_at [(5, demo_event 5 1015), (19000000000, demo_event 19000000000 27427)] (NetV6 1 32) (IpV6 2))
       in if live = [] then None else Some (from_samples live))"
  by (rule snapshot_window_exact) (simp add: word_le_nat_alt)

theorem from_samples_bounds_witness:
  "unat (win_avg_srtt_us (from_samples [sample_of (demo_event 5 1015), sample_of (demo_event 6 27427)])) = 14221"
proof -
  let ?q = "[sample_of (demo_event 5 1015), sample_of (demo_event 6 27427)]"
  have "unat (win_avg_srtt_us (from_samples ?q)) = sum_list (map (unat \<circ> sm_srtt_us) ?q) div length ?q"
    by (rule from_samples_bounds [THEN conjunct1]) simp_all
  also have "\<dots> = 14221" by (simp add: sample_of_def demo_event_def flip: numeral_2_eq_2)
  finally show ?thesis .
qed

end
