(* ===== verification/Steering_Rib.thy ===== *)
theory Steering_Rib
  imports Bpf_Fib Rtt_Aggregation
begin

text \<open>
  The routing table of the steering controller and the equal-cost entries it installs for a prefix
  (\<open>Rib\<close> and \<open>balance_equally\<close> of \<open>src/erezd/src/steering.rs\<close>), over the routes of
  \<open>src/erezd/src/bgp.rs\<close>. The locale \<open>route_table\<close> is the contract of the table: a finite map from a
  prefix and a path identifier to a nexthop.
\<close>

section \<open>Routes\<close>

type_synonym PathId = "u32 option"

record Route =
  rt_path_id :: PathId
  rt_nlri :: Nlri

record Announcement =
  an_routes :: "Route list"
  an_nexthop :: Nexthop

record Update =
  up_announcements :: "Announcement list"
  up_withdrawals :: "Route list"

section \<open>The table\<close>

type_synonym Rib = "(Nlri, (PathId \<times> Nexthop) list) hashmap"

definition Rib_insert :: "Route \<Rightarrow> Nexthop \<Rightarrow> Rib \<Rightarrow> Rib" where
  "Rib_insert route nexthop table =
     (let entries = (case hm_get table (rt_nlri route) of Some es \<Rightarrow> es | None \<Rightarrow> []);
          entries = filter (\<lambda>(path_id, _). path_id \<noteq> rt_path_id route) entries
      in hm_insert (rt_nlri route) (entries @ [(rt_path_id route, nexthop)]) table)"

definition Rib_remove :: "Route \<Rightarrow> Rib \<Rightarrow> Rib" where
  "Rib_remove route table =
     (case hm_get table (rt_nlri route) of
        None \<Rightarrow> table
      | Some entries \<Rightarrow>
          (let entries = filter (\<lambda>(path_id, _). rt_path_id route \<noteq> path_id) entries
           in if entries = [] then hm_remove (rt_nlri route) table
              else hm_insert (rt_nlri route) entries table))"

definition Rib_nlris :: "Rib \<Rightarrow> Nlri list" where
  "Rib_nlris table = map fst table"

definition Rib_nexthops :: "Rib \<Rightarrow> Nlri \<Rightarrow> Nexthop list" where
  "Rib_nexthops table nlri = (case hm_get table nlri of None \<Rightarrow> [] | Some paths \<Rightarrow> map snd paths)"

text \<open>
  The invariant: prefixes are distinct, none has an empty vector, and a prefix has one entry per path
  identifier.
\<close>

definition rib_wf :: "Rib \<Rightarrow> bool" where
  "rib_wf table \<longleftrightarrow> hm_wf table \<and> list_all (\<lambda>(_, es). es \<noteq> [] \<and> hm_wf es) table"

definition Rib_lookup :: "Rib \<Rightarrow> Nlri \<Rightarrow> PathId \<Rightarrow> Nexthop option" where
  "Rib_lookup table nlri path_id = Option.bind (hm_get table nlri) (\<lambda>es. hm_get es path_id)"

section \<open>The contract of the table\<close>

locale route_table =
  fixes ins :: "Route \<Rightarrow> Nexthop \<Rightarrow> 't \<Rightarrow> 't"
    and rem :: "Route \<Rightarrow> 't \<Rightarrow> 't"
    and look :: "'t \<Rightarrow> Nlri \<Rightarrow> PathId \<Rightarrow> Nexthop option"
    and inv :: "'t \<Rightarrow> bool"
  assumes inv_ins: "inv t \<Longrightarrow> inv (ins r nh t)"
    and inv_rem: "inv t \<Longrightarrow> inv (rem r t)"
    and look_ins: "inv t \<Longrightarrow>
      look (ins r nh t) n p = (if n = rt_nlri r \<and> p = rt_path_id r then Some nh else look t n p)"
    and look_rem: "inv t \<Longrightarrow>
      look (rem r t) n p = (if n = rt_nlri r \<and> p = rt_path_id r then None else look t n p)"
begin

lemma fold_ins:
  assumes "inv t"
  shows "inv (fold (\<lambda>(r, nh). ins r nh) rs t)"
    and "look (fold (\<lambda>(r, nh). ins r nh) rs t) n p =
      (case map_of (rev (map (\<lambda>(r, nh). ((rt_nlri r, rt_path_id r), nh)) rs)) (n, p) of
         Some nh \<Rightarrow> Some nh | None \<Rightarrow> look t n p)"
  using assms
proof (induction rs arbitrary: t)
  case (Cons x rs)
  obtain r nh where x: "x = (r, nh)" by (cases x)
  { case 1
    with Cons show ?case by (simp add: x inv_ins)
  next
    case 2
    with Cons show ?case by (auto simp: x inv_ins look_ins map_add_def split: option.split)
  }
qed simp_all

lemma fold_rem:
  assumes "inv t"
  shows "inv (fold rem rs t)"
    and "look (fold rem rs t) n p =
      (if list_ex (\<lambda>r. rt_nlri r = n \<and> rt_path_id r = p) rs then None else look t n p)"
  using assms by (induction rs arbitrary: t) (auto simp: inv_rem look_rem)

end

lemma hm_get_filter_neq:
  "hm_get (filter (\<lambda>(k, _). k \<noteq> a) m) = (hm_get m)(a := None)"
  by (induction m) (auto simp: fun_eq_iff)

lemma filter_neq_sym:
  "filter (\<lambda>(k, _). a \<noteq> k) m = filter (\<lambda>(k, _). k \<noteq> a) m"
  by (auto intro!: filter_cong)

lemma rib_wf_get:
  assumes "rib_wf t" "hm_get t n = Some es"
  shows "es \<noteq> [] \<and> hm_wf es"
  using assms by (auto simp: rib_wf_def list_all_iff dest!: map_of_SomeD)

lemma hm_wf_snoc: "hm_wf (es @ [(p, v)]) \<longleftrightarrow> hm_wf es \<and> p \<notin> fst ` set es"
  by (auto simp: hm_wf_def)

lemma list_all_delete: "list_all P m \<Longrightarrow> list_all P (hm_remove k m)"
  by (induction m) auto

interpretation rib: route_table Rib_insert Rib_remove Rib_lookup rib_wf
proof
  fix t and r :: Route and nh n p
  assume t: "rib_wf t"
  let ?es = "case hm_get t (rt_nlri r) of Some es \<Rightarrow> es | None \<Rightarrow> []"
  have es: "hm_wf ?es" using rib_wf_get [OF t] by (auto split: option.split)
  then have "hm_wf (filter (\<lambda>(k, _). k \<noteq> rt_path_id r) ?es @ [(rt_path_id r, nh)])"
    by (auto simp: hm_wf_snoc)
  then show "rib_wf (Rib_insert r nh t)"
    using t by (auto simp: rib_wf_def Rib_insert_def Let_def intro!: list_all_update)
  show "rib_wf (Rib_remove r t)"
    using t rib_wf_get [OF t]
    by (auto simp: rib_wf_def Rib_remove_def Let_def filter_neq_sym intro!: list_all_update list_all_delete
        split: option.split)
  show "Rib_lookup (Rib_insert r nh t) n p =
      (if n = rt_nlri r \<and> p = rt_path_id r then Some nh else Rib_lookup t n p)"
    by (auto simp: Rib_lookup_def Rib_insert_def Let_def hm_get_insert map_add_def hm_get_filter_neq
        split: option.split)
  show "Rib_lookup (Rib_remove r t) n p =
      (if n = rt_nlri r \<and> p = rt_path_id r then None else Rib_lookup t n p)"
  proof (cases "hm_get t (rt_nlri r)")
    case (Some es)
    have f: "hm_get (filter (\<lambda>(k, _). k \<noteq> rt_path_id r) es) p =
        (if p = rt_path_id r then None else hm_get es p)"
      by (simp add: hm_get_filter_neq)
    then show ?thesis
      using Some
      by (auto simp: Rib_lookup_def Rib_remove_def Let_def hm_get_insert hm_get_remove filter_neq_sym
          split: option.split if_splits)
  qed (simp add: Rib_lookup_def Rib_remove_def)
qed

lemma Rib_nexthops_set:
  assumes "rib_wf t"
  shows "set (Rib_nexthops t n) = {nh. \<exists>p. Rib_lookup t n p = Some nh}"
proof (cases "hm_get t n")
  case (Some es)
  then have "hm_wf es" using rib_wf_get [OF assms] by blast
  then have "(\<exists>p. hm_get es p = Some nh) \<longleftrightarrow> nh \<in> snd ` set es" for nh
    by (force simp: hm_wf_def map_of_eq_Some_iff)
  then show ?thesis using Some by (auto simp: Rib_nexthops_def Rib_lookup_def)
qed (simp add: Rib_nexthops_def Rib_lookup_def)

lemma Rib_nlris_iff:
  assumes "rib_wf t"
  shows "n \<in> set (Rib_nlris t) \<longleftrightarrow> Rib_nexthops t n \<noteq> []"
proof -
  have "n \<in> set (Rib_nlris t) \<longleftrightarrow> hm_get t n \<noteq> None"
    by (simp add: Rib_nlris_def map_of_eq_None_iff)
  then show ?thesis using rib_wf_get [OF assms] by (auto simp: Rib_nexthops_def split: option.split)
qed

section \<open>Equal-cost entries\<close>

definition balance_equally :: "Nexthop list \<Rightarrow> fib_error + FibEntry option" where
  "balance_equally nexthops =
     (let nexthops = take MAX_NEXTHOPS nexthops in
      if nexthops = [] then Inr None
      else
        (let base_weight = WEIGHT_DENOMINATOR div of_nat (length nexthops);
             remainder = unat (WEIGHT_DENOMINATOR mod of_nat (length nexthops));
             weighted = map (\<lambda>(i, nexthop).
               \<lparr> wn_nexthop = nexthop, wn_weight = base_weight + (if i < remainder then 1 else 0) \<rparr>)
               (enumerate 0 nexthops)
         in res_bind (FibEntry_new weighted) (\<lambda>fib_entry. Inr (Some fib_entry))))"

lemma length_le_4_cases:
  assumes "length (xs :: 'a list) \<le> 4" "xs \<noteq> []"
  obtains a where "xs = [a]" | a b where "xs = [a, b]" | a b c where "xs = [a, b, c]"
    | a b c d where "xs = [a, b, c, d]"
proof -
  have "length xs = 1 \<or> length xs = 2 \<or> length xs = 3 \<or> length xs = 4"
    using assms(1) assms(2) [folded length_0_conv] by presburger
  then show thesis
    using that by (auto simp: numeral_eq_Suc length_Suc_conv)
qed

definition equal_weights :: "nat \<Rightarrow> nat list" where
  "equal_weights n = map (\<lambda>i. 10000 div n + (if i < 10000 mod n then 1 else 0)) [0..<n]"

lemma divide_denominator:
  "10000 div Suc (Suc 0) = 5000" "10000 mod Suc (Suc 0) = 0"
  "10000 div Suc (Suc (Suc 0)) = 3333" "10000 mod Suc (Suc (Suc 0)) = 1"
  "10000 div Suc (Suc (Suc (Suc 0))) = 2500" "10000 mod Suc (Suc (Suc (Suc 0))) = 0"
proof -
  have e: "Suc (Suc 0) = 2" "Suc (Suc (Suc 0)) = 3" "Suc (Suc (Suc (Suc 0))) = 4" by simp_all
  show "10000 div Suc (Suc 0) = 5000" "10000 mod Suc (Suc 0) = 0"
    "10000 div Suc (Suc (Suc 0)) = 3333" "10000 mod Suc (Suc (Suc 0)) = 1"
    "10000 div Suc (Suc (Suc (Suc 0))) = 2500" "10000 mod Suc (Suc (Suc (Suc 0))) = 0"
    unfolding e by simp_all
qed

lemma balance_equally_split:
  "(nhs = [] \<and> balance_equally nhs = Inr None) \<or>
   (nhs \<noteq> [] \<and> (\<exists>e. balance_equally nhs = Inr (Some e) \<and> FibEntry_valid e \<and>
      mset (map (\<lambda>w. (wn_nexthop w, unat (wn_weight w))) (FibEntry_nexthops e)) =
        mset (zip (take MAX_NEXTHOPS nhs) (equal_weights (length (take MAX_NEXTHOPS nhs))))))"
proof (cases "nhs = []")
  case True
  then show ?thesis by (simp add: balance_equally_def)
next
  case False
  let ?l = "take MAX_NEXTHOPS nhs" and ?n = "length (take MAX_NEXTHOPS nhs)"
  let ?ws = "map (\<lambda>(i, nexthop). \<lparr> wn_nexthop = nexthop,
      wn_weight = WEIGHT_DENOMINATOR div of_nat ?n + (if i < unat (WEIGHT_DENOMINATOR mod of_nat ?n) then 1 else 0) \<rparr>)
      (enumerate 0 ?l)"
  have len: "length ?l \<le> 4" and ne: "?l \<noteq> []" using False by (auto simp: MAX_NEXTHOPS_def)
  have ok: "list_all (\<lambda>w. wn_weight w \<noteq> 0) ?ws \<and> sum_list (map (unat \<circ> wn_weight) ?ws) = unat WEIGHT_DENOMINATOR \<and>
      map (\<lambda>w. (wn_nexthop w, unat (wn_weight w))) ?ws = zip ?l (equal_weights ?n)"
    using len ne
    by (rule length_le_4_cases) (simp_all add: WEIGHT_DENOMINATOR_def equal_weights_def upt_rec divide_denominator)
  moreover have "1 \<le> length ?ws" "length ?ws \<le> MAX_NEXTHOPS"
    using len ne by (auto simp: MAX_NEXTHOPS_def Suc_le_eq)
  ultimately obtain e where e: "FibEntry_new ?ws = Inr e"
    using FibEntry_new_succeeds_iff [of ?ws] by blast
  have "mset (map (\<lambda>w. (wn_nexthop w, unat (wn_weight w))) (FibEntry_nexthops e)) =
      mset (map (\<lambda>w. (wn_nexthop w, unat (wn_weight w))) ?ws)"
    unfolding FibEntry_nexthops_new [OF e] by (simp only: mset_map mset_sort_key_eq)
  also have "\<dots> = mset (zip ?l (equal_weights ?n))" using ok by simp
  finally show ?thesis
    using False ne e FibEntry_new_valid [OF e] by (simp add: balance_equally_def Let_def)
qed

text \<open>
  C25. Equal-cost balancing never fails: for a prefix without nexthops it asks for deletion, and
  otherwise it yields a valid entry whose nexthops are the first four of the list and whose weights
  are the 10000 parts split evenly, the remainder going one each to the first nexthops.
\<close>

theorem balance_equally_correct:
  "(nhs = [] \<and> balance_equally nhs = Inr None) \<or>
   (nhs \<noteq> [] \<and> (\<exists>e. balance_equally nhs = Inr (Some e) \<and> FibEntry_valid e \<and>
      mset (map (\<lambda>w. (wn_nexthop w, unat (wn_weight w))) (FibEntry_nexthops e)) =
        mset (zip (take MAX_NEXTHOPS nhs) (equal_weights (length (take MAX_NEXTHOPS nhs))))))"
  by (rule balance_equally_split)

end
