(* ===== verification/F64_Rounding.thy ===== *)
theory F64_Rounding
  imports Prelude
begin

text \<open>
  The \<open>f64\<close> arithmetic of the steering code. A finite \<open>f64\<close> is the real number it denotes, and every
  operation rounds its exact result by a function \<open>fl\<close>, an argument of the definitions. The locale
  \<open>f64_rounding\<close> states what IEEE 754 guarantees of the rounding (a relative error of half a unit in
  the last place, or an absolute one under the smallest normal number); \<open>round_f64\<close> is rounding to
  nearest on 53 significant bits.
\<close>

text \<open>
  A bound \<open>d\<close> on the absolute rounding error of results up to \<open>16384\<close>, the range of the steering
  computations.
\<close>

locale abs_rounding =
  fixes fl :: "real \<Rightarrow> real" and d :: real
  assumes abs_err: "\<bar>x\<bar> \<le> 16384 \<Longrightarrow> \<bar>fl x - x\<bar> \<le> d"
    and d_nonneg: "0 \<le> d"
    and d_small: "d \<le> 1 / 2 ^ 38"

locale f64_rounding =
  fixes fl :: "real \<Rightarrow> real"
  assumes fl_err: "\<bar>fl x - x\<bar> \<le> \<bar>x\<bar> / 2 ^ 53 + 1 / 2 ^ 1000"
begin

lemma fl_err_abs:
  assumes "\<bar>x\<bar> \<le> 16384"
  shows "\<bar>fl x - x\<bar> \<le> 1 / 2 ^ 38"
proof -
  have "\<bar>x\<bar> / 2 ^ 53 \<le> 16384 / 2 ^ 53" using assms by (intro divide_right_mono) auto
  moreover have "(1 :: real) / 2 ^ 1000 \<le> 1 / 2 ^ 53" by (intro divide_left_mono power_increasing) auto
  ultimately show ?thesis using fl_err [of x] by simp
qed

lemma fl_coarse: "\<bar>fl x\<bar> \<le> 2 * \<bar>x\<bar> + 1"
proof -
  have "\<bar>x\<bar> / 2 ^ 53 \<le> \<bar>x\<bar> / 1" by (intro divide_left_mono) auto
  moreover have "(1 :: real) / 2 ^ 1000 \<le> 1" by simp
  ultimately show ?thesis using fl_err [of x] by linarith
qed

end

sublocale f64_rounding \<subseteq> abs_rounding fl "1 / 2 ^ 38"
  using fl_err_abs by unfold_locales auto

text \<open>
  Rounding to nearest with \<open>p\<close> bits after the leading one: the unit in the last place of a nonzero \<open>x\<close>
  is \<open>2 ^ (\<lfloor>log2 \<bar>x\<bar>\<rfloor> - p)\<close> and the result is the nearest multiple of it.
\<close>

definition ulp_bits :: "nat \<Rightarrow> real \<Rightarrow> real" where
  "ulp_bits p x = 2 powr (of_int \<lfloor>log 2 \<bar>x\<bar>\<rfloor> - real p)"

definition round_bits :: "nat \<Rightarrow> real \<Rightarrow> real" where
  "round_bits p x = (if x = 0 then 0 else of_int (round (x / ulp_bits p x)) * ulp_bits p x)"

definition round_f64 :: "real \<Rightarrow> real" where
  "round_f64 = round_bits 52"

definition round_f32 :: "real \<Rightarrow> real" where
  "round_f32 = round_bits 23"

lemma round_bits_err: "\<bar>round_bits p x - x\<bar> \<le> \<bar>x\<bar> / 2 ^ Suc p"
proof (cases "x = 0")
  case False
  let ?u = "ulp_bits p x"
  have u: "0 < ?u" by (simp add: ulp_bits_def)
  have "?u \<le> 2 powr (log 2 \<bar>x\<bar> - real p)" by (simp add: ulp_bits_def)
  also have "\<dots> = \<bar>x\<bar> / 2 ^ p" using False by (simp add: powr_diff powr_log_cancel powr_realpow)
  finally have ule: "?u \<le> \<bar>x\<bar> / 2 ^ p" .
  have "round_bits p x - x = (of_int (round (x / ?u)) - x / ?u) * ?u"
    using u False by (simp add: round_bits_def field_simps)
  then have "\<bar>round_bits p x - x\<bar> = \<bar>of_int (round (x / ?u)) - x / ?u\<bar> * ?u"
    using u by (simp add: abs_mult)
  also have "\<dots> \<le> 1 / 2 * ?u"
    using u of_int_round_abs_le [of "x / ?u"] by (intro mult_right_mono) auto
  also have "\<dots> \<le> \<bar>x\<bar> / 2 ^ Suc p" using ule by simp
  finally show ?thesis .
qed (simp add: round_bits_def)

lemma round_f64_err: "\<bar>round_f64 x - x\<bar> \<le> \<bar>x\<bar> / 2 ^ 53"
  using round_bits_err [of 52 x] by (simp add: round_f64_def)

lemma round_f32_err: "\<bar>round_f32 x - x\<bar> \<le> \<bar>x\<bar> / 2 ^ 24"
  using round_bits_err [of 23 x] by (simp add: round_f32_def)

text \<open>The \<open>f32\<close> arithmetic of the timer durations.\<close>

locale f32_rounding =
  fixes fl32 :: "real \<Rightarrow> real"
  assumes fl32_err: "\<bar>fl32 x - x\<bar> \<le> \<bar>x\<bar> / 2 ^ 24 + 1 / 2 ^ 140"
begin

lemma fl32_err_coarse: "\<bar>fl32 x - x\<bar> \<le> \<bar>x\<bar> / 2 ^ 24 + 1 / 2 ^ 40"
proof -
  have "(1 :: real) / 2 ^ 140 \<le> 1 / 2 ^ 40" by (intro divide_left_mono power_increasing) auto
  then show ?thesis using fl32_err [of x] by linarith
qed

end

interpretation f32: f32_rounding round_f32
  using round_f32_err by unfold_locales (simp add: add_increasing2)

interpretation f64: f64_rounding round_f64
  using round_f64_err by unfold_locales (simp add: add_increasing2)

text \<open>Exact arithmetic satisfies the same laws.\<close>

interpretation exact: f64_rounding "\<lambda>x. x"
  by unfold_locales simp

interpretation exact0: abs_rounding "\<lambda>x. x" 0
  by unfold_locales simp_all

end
