(* ===== verification/Steering_Descent.thy ===== *)
theory Steering_Descent
  imports Steering_Rib F64_Rounding
begin

text \<open>
  Projected online gradient descent on the nexthop weights of a prefix (module \<open>descent\<close> of
  \<open>src/erezd/src/steering.rs\<close>). Every \<open>f64\<close> operation rounds by the argument \<open>fl\<close>; integers below
  \<open>2^53\<close> convert exactly. \<open>it\<close> is the iteration order of the hash map of weights. The definitions
  that can panic on overflowing integer arithmetic return \<open>None\<close> for it.
\<close>

section \<open>Definitions\<close>

type_synonym nexthop_weights = "(Nexthop, real) hashmap"

definition LEARNING_RATE :: "(real \<Rightarrow> real) \<Rightarrow> real" where
  "LEARNING_RATE fl = fl (5 / 10 ^ 8)"

definition MINIMUM_WEIGHT :: "(real \<Rightarrow> real) \<Rightarrow> real" where
  "MINIMUM_WEIGHT fl = fl (1 / 100)"

definition gradient :: "(real \<Rightarrow> real) \<Rightarrow> TcpRttWindow \<Rightarrow> real" where
  "gradient fl win =
     (let latency = fl (of_nat (unat (win_avg_srtt_us win)));
          congestion = fl (of_nat (unat (saturating_sub (win_avg_srtt_us win) (ucast (win_min_rtt_min win)))))
      in fl (latency + congestion))"

definition reconcile :: "(real \<Rightarrow> real) \<Rightarrow> nexthop_weights \<Rightarrow> Nexthop list \<Rightarrow> nexthop_weights" where
  "reconcile fl weights nexthops =
     (let changed = (length weights \<noteq> length nexthops \<or> list_ex (\<lambda>nh. hm_get weights nh = None) nexthops)
      in if changed
         then (let uniform = fl (1 / of_nat (length nexthops))
               in fold (\<lambda>nh m. hm_insert nh uniform m) nexthops [])
         else weights)"

text \<open>The loop that takes the gradient step.\<close>

definition gradient_step :: "(real \<Rightarrow> real) \<Rightarrow> (Nexthop \<times> real option) list \<Rightarrow> nexthop_weights \<Rightarrow> nexthop_weights" where
  "gradient_step fl = fold (\<lambda>(nh, g) m.
     case hm_get m nh of
       None \<Rightarrow> m
     | Some w_i \<Rightarrow>
         (case g of
            Some g_i \<Rightarrow> hm_insert nh (fl (w_i - fl (LEARNING_RATE fl * g_i))) m
          | None \<Rightarrow> hm_insert nh (MINIMUM_WEIGHT fl) m))"

text \<open>The search for \<open>tau\<close> over the values in descending order; \<open>k\<close> counts from zero.\<close>

fun find_tau :: "(real \<Rightarrow> real) \<Rightarrow> real \<Rightarrow> nat \<Rightarrow> real \<Rightarrow> real \<Rightarrow> real list \<Rightarrow> real" where
  "find_tau fl r k cumsum tau [] = tau"
| "find_tau fl r k cumsum tau (v_k # v) =
     (let cumsum = fl (cumsum + v_k);
          candidate = fl (fl (cumsum - r) / of_nat (k + 1))
      in find_tau fl r (Suc k) cumsum (if fl (v_k - candidate) > 0 then candidate else tau) v)"

definition project_radius :: "(real \<Rightarrow> real) \<Rightarrow> nat \<Rightarrow> real" where
  "project_radius fl n = fl (1 - fl (of_nat n * MINIMUM_WEIGHT fl))"

definition project_tau :: "(real \<Rightarrow> real) \<Rightarrow> nexthop_weights \<Rightarrow> real" where
  "project_tau fl weights =
     find_tau fl (project_radius fl (length weights)) 0 0 0
       (sort_key uminus (map (\<lambda>(_, w). fl (w - MINIMUM_WEIGHT fl)) weights))"

definition project :: "(real \<Rightarrow> real) \<Rightarrow> nexthop_weights \<Rightarrow> nexthop_weights" where
  "project fl weights =
     (let tau = project_tau fl weights
      in map (\<lambda>(nh, w). (nh, fl (max (fl (fl (w - MINIMUM_WEIGHT fl) - tau)) 0 + MINIMUM_WEIGHT fl))) weights)"

text \<open>\<open>x as u16\<close> truncates and saturates.\<close>

definition f64_as_u16 :: "real \<Rightarrow> u16" where
  "f64_as_u16 x = word_of_int (max 0 (min 65535 \<lfloor>x\<rfloor>))"

text \<open>One entry of \<open>quantise\<close>: the floor of the scaled weight and the fractional remainder.\<close>

definition quantise_entry :: "(real \<Rightarrow> real) \<Rightarrow> Nexthop \<times> real \<Rightarrow> Nexthop \<times> u16 \<times> real" where
  "quantise_entry fl p =
     (let scaled = fl (snd p * of_nat (unat WEIGHT_DENOMINATOR)); floor = f64_as_u16 scaled
      in (fst p, floor, fl (scaled - of_nat (unat floor))))"

text \<open>The loop that adds one to the first \<open>k\<close> entries.\<close>

definition bump :: "nat \<Rightarrow> ('n \<times> u16 \<times> 'a) list \<Rightarrow> ('n \<times> u16 \<times> 'a) list" where
  "bump k es = map (\<lambda>(nh, weight, a). (nh, weight + 1, a)) (take k es) @ drop k es"

definition quantise :: "(real \<Rightarrow> real) \<Rightarrow> (nexthop_weights \<Rightarrow> nexthop_weights) \<Rightarrow> nexthop_weights
    \<Rightarrow> WeightedNexthop list option" where
  "quantise fl it weights =
     (let entries = map (quantise_entry fl) (it weights);
          allocated = sum_list (map (\<lambda>e. unat (fst (snd e))) entries)
      in if allocated \<ge> 2 ^ 16 \<or> allocated > unat WEIGHT_DENOMINATOR then None
         else
           (let leftover = unat WEIGHT_DENOMINATOR - allocated
            in if leftover > unat (of_nat (length entries) :: u16) then None
               else
                 (let entries = bump leftover (sort_key (\<lambda>(_, _, a). - a) entries)
                  in Some (map (\<lambda>e. \<lparr> wn_nexthop = fst e, wn_weight = fst (snd e) \<rparr>) entries))))"

type_synonym Descent = "(Nlri, nexthop_weights) hashmap"

text \<open>\<open>Descent::step\<close>: \<open>None\<close> is a panic, otherwise the new weights and the optional entry.\<close>

definition descent_step :: "(real \<Rightarrow> real) \<Rightarrow> (nexthop_weights \<Rightarrow> nexthop_weights) \<Rightarrow> Nlri \<Rightarrow> Nexthop list
    \<Rightarrow> TcpRttSnapshot \<Rightarrow> Descent \<Rightarrow> (WeightedNexthop list option \<times> Descent) option" where
  "descent_step fl it nlri nexthops windows weights =
     (if nexthops = [] then Some (None, hm_remove nlri weights)
      else
        (let nlri_weights = (case hm_get weights nlri of Some m \<Rightarrow> m | None \<Rightarrow> []);
             nlri_weights = reconcile fl nlri_weights nexthops;
             g = map (\<lambda>nh. map_option (gradient fl) (Option.bind (hm_get windows nlri) (\<lambda>ws. hm_get ws nh))) nexthops;
             nlri_weights = gradient_step fl (zip nexthops g) nlri_weights;
             nlri_weights = project fl nlri_weights
         in map_option (\<lambda>weighted. (Some weighted, hm_insert nlri nlri_weights weights))
              (quantise fl it nlri_weights)))"

section \<open>The threshold\<close>

lemma sorted_desc_append:
  assumes "sorted_wrt (\<ge>) (us @ v # vs)" "u \<in> set us"
  shows "v \<le> (u :: real)"
  using assms by (auto simp: sorted_wrt_append)

abbreviation excess :: "real \<Rightarrow> real list \<Rightarrow> real" where
  "excess tau vs \<equiv> sum_list (map (\<lambda>v. max (v - tau) 0) vs)"

lemma sum_list_bound:
  assumes "\<And>x. x \<in> set xs \<Longrightarrow> \<bar>f x - g x\<bar> \<le> (d :: real)"
  shows "\<bar>sum_list (map f xs) - sum_list (map g xs)\<bar> \<le> of_nat (length xs) * d"
  using assms
proof (induction xs)
  case (Cons x xs)
  have "\<bar>f x - g x\<bar> \<le> d" "\<bar>sum_list (map f xs) - sum_list (map g xs)\<bar> \<le> of_nat (length xs) * d"
    using Cons by auto
  then show ?case by (auto simp: algebra_simps abs_le_iff)
qed simp

text \<open>
  One step of the search. \<open>us\<close> are the values seen, all at least \<open>v\<close>; \<open>c\<close> is within \<open>e\<close> of
  \<open>(\<Sum>us + v - r) / (|us| + 1)\<close>. If \<open>v\<close> survives \<open>c\<close> then \<open>c\<close> is a threshold for \<open>us @ [v]\<close>;
  if it does not, the old threshold stays good.
\<close>

lemma tau_take:
  fixes us :: "real list"
  assumes "\<And>u. u \<in> set us \<Longrightarrow> v \<le> u" "v - c > - d" "0 \<le> d"
    "\<bar>c * of_nat (length us + 1) - (sum_list us + v - r)\<bar> \<le> of_nat (length us + 1) * e"
  shows "\<bar>excess c (us @ [v]) - r\<bar> \<le> of_nat (length us + 1) * (d + e)"
proof -
  let ?l = "us @ [v]"
  have "\<bar>max (x - c) 0 - (x - c)\<bar> \<le> d" if "x \<in> set ?l" for x
    using that assms(1-3) by force
  then have "\<bar>excess c ?l - sum_list (map (\<lambda>x. x - c) ?l)\<bar> \<le> of_nat (length ?l) * d"
    by (rule sum_list_bound)
  moreover have "sum_list (map (\<lambda>x. x - c) xs) = sum_list xs - c * of_nat (length xs)" for xs
    by (induction xs) (auto simp: algebra_simps)
  ultimately show ?thesis using assms(4) by (simp add: algebra_simps abs_le_iff)
qed

lemma tau_keep:
  fixes us :: "real list"
  assumes "us \<noteq> []" "v - c \<le> d" "\<bar>excess tau us - r\<bar> \<le> b"
    "\<bar>c * of_nat (length us + 1) - (sum_list us + v - r)\<bar> \<le> of_nat (length us + 1) * e"
  shows "of_nat (length us) * (v - tau) \<le> b + of_nat (length us + 1) * (d + e)"
proof -
  let ?n = "of_nat (length us) :: real"
  have ex: "sum_list us - tau * ?n \<le> excess tau us"
    by (induction us) (auto simp: algebra_simps)
  have "(?n + 1) * v \<le> (?n + 1) * (c + d)" using assms(2) by (intro mult_left_mono) auto
  with assms(3,4) ex show ?thesis by (simp add: algebra_simps abs_le_iff)
qed

text \<open>
  The rounding errors of one candidate, for values of at most 2000 and at most four of them.
\<close>

context abs_rounding
begin

lemma candidate_err:
  fixes us :: "real list"
  assumes "\<And>x. x \<in> set (us @ [v]) \<Longrightarrow> \<bar>x\<bar> \<le> 2000" "length us \<le> 3" "\<bar>r\<bar> \<le> 2"
    "\<bar>cumsum - sum_list us\<bar> \<le> of_nat (length us) * d"
  defines "c \<equiv> fl (cumsum + v)"
  defines "cand \<equiv> fl (fl (c - r) / of_nat (length us + 1))"
  shows "\<bar>c - (sum_list us + v)\<bar> \<le> of_nat (length us + 1) * d"
    and "\<bar>cand * of_nat (length us + 1) - (sum_list us + v - r)\<bar> \<le> of_nat (length us + 1) * (3 * d)"
    and "\<bar>cand\<bar> \<le> 8010"
    and "\<bar>fl (v - cand) - (v - cand)\<bar> \<le> d"
proof -
  let ?n = "of_nat (length us) :: real"
  have n: "0 \<le> ?n" "?n \<le> 3" using assms(2) by auto
  have d1: "d \<le> 1 / 10" using d_small by (rule order_trans) simp
  have ne: "?n * d \<le> 3 * d" "0 \<le> ?n * d" using n d_nonneg by (auto intro: mult_right_mono)
  have "\<bar>sum_list (map (\<lambda>x. x) us) - sum_list (map (\<lambda>_. 0) us)\<bar> \<le> ?n * 2000"
    using assms(1) by (intro sum_list_bound) auto
  then have s: "\<bar>sum_list us\<bar> \<le> 6000" using n by simp
  have v: "\<bar>v\<bar> \<le> 2000" using assms(1) by simp
  have "\<bar>fl (cumsum + v) - (cumsum + v)\<bar> \<le> d"
    using assms(4) ne d1 s v by (intro abs_err) linarith
  then show c: "\<bar>c - (sum_list us + v)\<bar> \<le> of_nat (length us + 1) * d"
    unfolding c_def of_nat_add of_nat_1 distrib_right using assms(4) by linarith
  have c4: "\<bar>c - (sum_list us + v)\<bar> \<le> ?n * d + d" using c by (simp add: distrib_right add.commute)
  define q where "q = fl (c - r)"
  have q: "\<bar>q - (c - r)\<bar> \<le> d"
    unfolding q_def using c4 ne d1 s v assms(3) by (intro abs_err) linarith
  have qb: "\<bar>q\<bar> \<le> 8003" using q c4 ne d1 s v assms(3) by linarith
  have "\<bar>q / (?n + 1)\<bar> \<le> \<bar>q\<bar> / 1" 
    unfolding abs_divide using n by (intro frac_le) auto
  then have qd: "\<bar>q / (?n + 1)\<bar> \<le> 8003" using qb by simp
  have cand: "\<bar>cand - q / (?n + 1)\<bar> \<le> d"
    unfolding cand_def q_def [symmetric] using qd by (simp add: abs_err add.commute)
  then show cb: "\<bar>cand\<bar> \<le> 8010" using qd d1 by linarith
  have "(?n + 1) * \<bar>cand - q / (?n + 1)\<bar> \<le> (?n + 1) * d" using cand n by (intro mult_left_mono) auto
  moreover have "(?n + 1) * \<bar>cand - q / (?n + 1)\<bar> = \<bar>cand * (?n + 1) - q\<bar>"
  proof -
    have "(?n + 1) * (cand - q / (?n + 1)) = cand * (?n + 1) - q" using n by (simp add: field_simps)
    then show ?thesis using n by (metis abs_mult abs_of_nonneg add_nonneg_nonneg zero_le_one)
  qed
  ultimately have "\<bar>cand * (?n + 1) - q\<bar> \<le> ?n * d + d" by (simp add: distrib_right)
  then have "\<bar>cand * (?n + 1) - (sum_list us + v - r)\<bar> \<le> 2 * (?n * d) + 3 * d"
    using q c4 by linarith
  also have "\<dots> \<le> (?n + 1) * (3 * d)" using ne by (simp add: algebra_simps)
  finally show "\<bar>cand * of_nat (length us + 1) - (sum_list us + v - r)\<bar> \<le> of_nat (length us + 1) * (3 * d)"
    by (simp add: add.commute)
  show "\<bar>fl (v - cand) - (v - cand)\<bar> \<le> d"
    using cb v by (intro abs_err) linarith
qed

lemma find_tau_excess:
  assumes "sorted_wrt (\<ge>) (us @ vs)" "\<And>x. x \<in> set (us @ vs) \<Longrightarrow> \<bar>x\<bar> \<le> 2000"
    "length (us @ vs) \<le> 4" "us @ vs \<noteq> []" "1 / 2 \<le> r" "r \<le> 2"
    "\<bar>cumsum - sum_list us\<bar> \<le> of_nat (length us) * d"
    "us \<noteq> [] \<Longrightarrow> \<bar>excess tau us - r\<bar> \<le> 4 * of_nat (length us) ^ 2 * d \<and> \<bar>tau\<bar> \<le> 8010"
  shows "\<bar>excess (find_tau fl r (length us) cumsum tau vs) (us @ vs) - r\<bar> \<le> 4 * of_nat (length (us @ vs)) ^ 2 * d \<and>
    \<bar>find_tau fl r (length us) cumsum tau vs\<bar> \<le> 8010"
  using assms
proof (induction vs arbitrary: us cumsum tau)
  case Nil
  then show ?case by simp
next
  case (Cons v vs)
  let ?n = "of_nat (length us) :: real"
  define c where "c = fl (cumsum + v)"
  define cand where "cand = fl (fl (c - r) / of_nat (length us + 1))"
  define t where "t = (if fl (v - cand) > 0 then cand else tau)"
  have d1: "d \<le> 1 / 10" using d_small by (rule order_trans) simp
  have len: "length us \<le> 3" and r: "\<bar>r\<bar> \<le> 2" using Cons.prems(3,5,6) by auto
  have bnd: "\<And>x. x \<in> set (us @ [v]) \<Longrightarrow> \<bar>x\<bar> \<le> 2000" using Cons.prems(2) by auto
  note ce = candidate_err [of us v, OF bnd len r Cons.prems(7), folded c_def, folded cand_def]
  have ge: "v \<le> u" if "u \<in> set us" for u using Cons.prems(1) that by (rule sorted_desc_append)
  have good: "\<bar>excess t (us @ [v]) - r\<bar> \<le> 4 * of_nat (length (us @ [v])) ^ 2 * d \<and> \<bar>t\<bar> \<le> 8010"
  proof (cases "fl (v - cand) > 0")
    case True
    then have "v - cand > - d" using ce(4) by linarith
    then have "\<bar>excess cand (us @ [v]) - r\<bar> \<le> of_nat (length us + 1) * (d + 3 * d)"
      using tau_take [OF ge _ d_nonneg ce(2)] by blast
    also have "\<dots> \<le> 4 * of_nat (length (us @ [v])) ^ 2 * d"
      using d_nonneg by (simp add: power2_eq_square algebra_simps)
    finally show ?thesis using True ce(3) by (simp add: t_def)
  next
    case False
    then have le: "v - cand \<le> d" using ce(4) by linarith
    have ne: "us \<noteq> []"
    proof
      assume "us = []"
      then show False using ce(2) le Cons.prems(5) d1 by simp
    qed
    then have n1: "1 \<le> ?n" by (cases us) auto
    have pt: "\<bar>excess tau us - r\<bar> \<le> 4 * ?n ^ 2 * d" "\<bar>tau\<bar> \<le> 8010" using Cons.prems(8) [OF ne] by auto
    have "?n * (v - tau) \<le> 4 * ?n ^ 2 * d + of_nat (length us + 1) * (d + 3 * d)"
      by (rule tau_keep [OF ne le pt(1) ce(2)])
    also have "\<dots> \<le> ?n * (4 * ?n * d + 8 * d)"
      using n1 d_nonneg mult_right_mono [OF n1 d_nonneg] by (simp add: power2_eq_square algebra_simps)
    finally have "v - tau \<le> 4 * ?n * d + 8 * d"
      by (rule mult_left_le_imp_le) (use n1 in linarith)
    then have mx: "max (v - tau) 0 \<le> 4 * ?n * d + 8 * d" using n1 d_nonneg by simp
    have "4 * ?n ^ 2 * d + (4 * ?n * d + 8 * d) \<le> 4 * (?n + 1) ^ 2 * d"
      using mult_right_mono [OF n1 d_nonneg] by (simp add: power2_eq_square algebra_simps)
    then have "\<bar>excess tau (us @ [v]) - r\<bar> \<le> 4 * (?n + 1) ^ 2 * d"
      using pt(1) mx by (simp add: abs_le_iff) linarith
    then show ?thesis using False pt(2) by (simp add: t_def add.commute)
  qed
  have "find_tau fl r (length us) cumsum tau (v # vs) = find_tau fl r (length (us @ [v])) c t vs"
    by (simp add: Let_def c_def cand_def t_def)
  moreover have "\<bar>c - sum_list (us @ [v])\<bar> \<le> of_nat (length (us @ [v])) * d" using ce(1) by simp
  ultimately show ?case
    using Cons.IH [of "us @ [v]" c t] Cons.prems(1-6) good by simp
qed

lemma find_tau_sorted:
  assumes "vs \<noteq> []" "length vs \<le> 4" "\<And>x. x \<in> set vs \<Longrightarrow> \<bar>x\<bar> \<le> 2000" "1 / 2 \<le> r" "r \<le> 2"
  defines "t \<equiv> find_tau fl r 0 0 0 (sort_key uminus vs)"
  shows "\<bar>excess t vs - r\<bar> \<le> 64 * d" and "\<bar>t\<bar> \<le> 8010"
proof -
  let ?s = "sort_key uminus vs"
  have so: "sorted_wrt (\<ge>) ([] @ ?s)"
    using sorted_sort_key [of uminus vs] by (simp add: sorted_map sorted_wrt_map)
  have len: "length ([] @ ?s) = length vs" and set: "set ([] @ ?s) = set vs" by simp_all
  have "?s \<noteq> []" using len assms(1) by (metis append_Nil length_0_conv)
  then have "\<bar>excess t ?s - r\<bar> \<le> 4 * of_nat (length vs) ^ 2 * d \<and> \<bar>t\<bar> \<le> 8010"
    using find_tau_excess [OF so, of r 0 0] assms(2-5) unfolding set len t_def by simp
  moreover have "excess t ?s = excess t vs" by (rule sum_list_mset_cong) simp
  moreover have "4 * of_nat (length vs) ^ 2 * d \<le> 64 * d"
  proof -
    have "(of_nat (length vs) :: real) ^ 2 \<le> 4 ^ 2" using assms(2) by (intro power_mono) auto
    then have "4 * of_nat (length vs) ^ 2 * d \<le> 4 * 4 ^ 2 * d" using d_nonneg by (intro mult_right_mono) auto
    then show ?thesis by simp
  qed
  ultimately show "\<bar>excess t vs - r\<bar> \<le> 64 * d" "\<bar>t\<bar> \<le> 8010" by linarith+
qed

lemma MINIMUM_WEIGHT_err: "\<bar>MINIMUM_WEIGHT fl - 1 / 100\<bar> \<le> d"
  unfolding MINIMUM_WEIGHT_def by (rule abs_err) simp

lemma project_radius_err:
  assumes "n \<le> 4"
  shows "\<bar>project_radius fl n - (1 - of_nat n * MINIMUM_WEIGHT fl)\<bar> \<le> 2 * d"
    and "1 / 2 \<le> project_radius fl n" "project_radius fl n \<le> 2"
proof -
  have d1: "d \<le> 1 / 100" using d_small by (rule order_trans) simp
  let ?p = "of_nat n * MINIMUM_WEIGHT fl"
  have M: "0 \<le> MINIMUM_WEIGHT fl" "MINIMUM_WEIGHT fl \<le> 2 / 100"
    using MINIMUM_WEIGHT_err d1 by linarith+
  then have p: "0 \<le> ?p" "?p \<le> 4 * (2 / 100)" using assms by (simp, intro mult_mono) auto
  have f: "\<bar>fl ?p - ?p\<bar> \<le> d" using p by (intro abs_err) linarith
  moreover have "\<bar>fl (1 - fl ?p) - (1 - fl ?p)\<bar> \<le> d" using p f d1 by (intro abs_err) linarith
  ultimately show e: "\<bar>project_radius fl n - (1 - ?p)\<bar> \<le> 2 * d"
    unfolding project_radius_def by linarith
  from e p d1 show "1 / 2 \<le> project_radius fl n" "project_radius fl n \<le> 2" by linarith+
qed

lemma project_weights:
  assumes "m \<noteq> []" "length m \<le> 4" "\<forall>p \<in> set m. \<bar>snd p\<bar> \<le> 1900"
  shows "\<bar>sum_list (map snd (project fl m)) - 1\<bar> \<le> 80 * d"
    and "\<forall>p \<in> set (project fl m). 1 / 100 - 2 * d \<le> snd p"
proof -
  let ?M = "MINIMUM_WEIGHT fl" and ?r = "project_radius fl (length m)"
  let ?v = "\<lambda>p. fl (snd p - ?M)" and ?w = "\<lambda>t p. fl (max (fl (fl (snd p - ?M) - t)) 0 + ?M)"
  define t where "t = project_tau fl m"
  have d1: "d \<le> 1 / 1000" using d_small by (rule order_trans) simp
  have M: "0 \<le> ?M" "?M \<le> 2 / 100" using MINIMUM_WEIGHT_err d1 by linarith+
  have v: "\<bar>?v p\<bar> \<le> 2000" if "p \<in> set m" for p
  proof -
    have w: "\<bar>snd p\<bar> \<le> 1900" using assms(3) that by blast
    then have "\<bar>?v p - (snd p - ?M)\<bar> \<le> d" using M by (intro abs_err) linarith
    with w M d1 show ?thesis by linarith
  qed
  then have vb: "\<bar>x\<bar> \<le> 2000" if "x \<in> set (map ?v m)" for x using that by auto
  have t: "\<bar>excess t (map ?v m) - ?r\<bar> \<le> 64 * d" "\<bar>t\<bar> \<le> 8010"
    using find_tau_sorted [of "map ?v m", OF _ _ vb project_radius_err(2,3) [OF assms(2)]] assms(1,2)
    unfolding t_def project_tau_def case_prod_beta' by simp_all
  have w: "\<bar>?w t p - (max (?v p - t) 0 + ?M)\<bar> \<le> 2 * d \<and> ?M - d \<le> ?w t p" if "p \<in> set m" for p
  proof -
    have f: "\<bar>fl (?v p - t) - (?v p - t)\<bar> \<le> d" using v [OF that] t(2) by (intro abs_err) linarith
    then have "\<bar>max (fl (?v p - t)) 0 + ?M\<bar> \<le> 16384" using v [OF that] t(2) M d1 by linarith
    from abs_err [OF this] f M show ?thesis by linarith
  qed
  have pr: "project fl m = map (\<lambda>p. (fst p, ?w t p)) m"
    by (simp add: project_def t_def case_prod_beta')
  then have eq: "map snd (project fl m) = map (?w t) m" by (simp add: o_def)
  have n: "(of_nat (length m) :: real) * (2 * d) \<le> 4 * (2 * d)"
    using assms(2) d_nonneg by (intro mult_right_mono) auto
  have "\<bar>sum_list (map (?w t) m) - sum_list (map (\<lambda>p. max (?v p - t) 0 + ?M) m)\<bar> \<le> of_nat (length m) * (2 * d)"
    using w by (intro sum_list_bound) blast
  moreover have "sum_list (map (\<lambda>p. max (?v p - t) 0 + ?M) m) = excess t (map ?v m) + of_nat (length m) * ?M"
    by (simp add: sum_list_addf sum_list_triv o_def)
  ultimately show "\<bar>sum_list (map snd (project fl m)) - 1\<bar> \<le> 80 * d"
    unfolding eq using t(1) n d_nonneg project_radius_err(1) [OF assms(2)] by linarith
  show "\<forall>q \<in> set (project fl m). 1 / 100 - 2 * d \<le> snd q"
  proof
    fix q
    assume "q \<in> set (project fl m)"
    then obtain p where "p \<in> set m" "snd q = ?w t p" unfolding pr by auto
    then show "1 / 100 - 2 * d \<le> snd q" using w [of p] MINIMUM_WEIGHT_err by linarith
  qed
qed

end

end
