(* ===== verification/Steering_Step.thy ===== *)
theory Steering_Step
  imports Steering_Descent
begin

text \<open>
  What a descent step yields: the projection is the closest point of the simplex, quantising a
  projected weight vector gives exactly the denominator, and a whole step of the descent on up to
  four nexthops never panics and produces an entry that the data plane accepts, rounding errors of
  the \<open>f64\<close> arithmetic included.
\<close>

section \<open>Quantisation\<close>

lemma f64_as_u16_bounds:
  assumes "0 \<le> x" "x < 65536"
  shows "of_nat (unat (f64_as_u16 x)) \<le> x" "x - 1 < of_nat (unat (f64_as_u16 x))"
proof -
  have b: "0 \<le> \<lfloor>x\<rfloor>" "\<lfloor>x\<rfloor> < 65536" using assms by (simp_all add: floor_less_iff)
  then have "max 0 (min 65535 \<lfloor>x\<rfloor>) = \<lfloor>x\<rfloor>" by linarith
  then have "uint (f64_as_u16 x) = \<lfloor>x\<rfloor>"
    using b by (simp only: f64_as_u16_def) (simp add: unsigned_of_int take_bit_int_eq_self)
  then have "real (unat (f64_as_u16 x)) = of_int \<lfloor>x\<rfloor>"
    using b by (metis of_int_of_nat_eq uint_nat)
  then show "of_nat (unat (f64_as_u16 x)) \<le> x" "x - 1 < of_nat (unat (f64_as_u16 x))"
    by linarith+
qed

lemma unat_Suc_u16: "unat (w :: u16) < 65535 \<Longrightarrow> unat (w + 1) = unat w + 1"
  using unat_less_power [of w] by (simp add: unat_word_ariths)

lemma sum_bump:
  assumes "k \<le> length es" "\<And>e. e \<in> set es \<Longrightarrow> unat (fst (snd e)) < 65535"
  shows "sum_list (map (\<lambda>e. unat (fst (snd e))) (bump k es)) = sum_list (map (\<lambda>e. unat (fst (snd e))) es) + k"
proof -
  have "sum_list (map (\<lambda>e. unat (fst (snd e) + 1)) (take k es)) = sum_list (map (\<lambda>e. unat (fst (snd e))) (take k es)) + k"
  proof -
    have "map (\<lambda>e. unat (fst (snd e) + 1)) (take k es) = map (\<lambda>e. unat (fst (snd e)) + 1) (take k es)"
      using assms(2) by (auto simp: unat_Suc_u16 dest: in_set_takeD)
    then show ?thesis using assms(1) by (simp only: sum_list_addf) (simp add: sum_list_triv)
  qed
  moreover have "sum_list (map f es) = sum_list (map f (take k es)) + sum_list (map f (drop k es))" for f :: "'a \<times> u16 \<times> 'b \<Rightarrow> nat"
    by (simp only: append_take_drop_id flip: sum_list_append map_append)
  ultimately show ?thesis by (simp add: bump_def o_def case_prod_beta')
qed

lemma bump_keys: "map fst (bump k es) = map fst es"
proof -
  have "map fst (bump k es) = map fst (take k es) @ map fst (drop k es)"
    by (simp add: bump_def o_def case_prod_beta')
  then show ?thesis by (simp only: append_take_drop_id flip: map_append)
qed

lemma bump_weights:
  assumes "e \<in> set (bump k es)" "\<And>e. e \<in> set es \<Longrightarrow> unat (fst (snd e)) < 65535"
  shows "\<exists>e0 \<in> set es. fst e = fst e0 \<and> (unat (fst (snd e)) = unat (fst (snd e0)) \<or> unat (fst (snd e)) = unat (fst (snd e0)) + 1)"
  using assms by (force simp: bump_def unat_Suc_u16 dest: in_set_takeD in_set_dropD)

context abs_rounding
begin

lemma quantise_entry_err:
  assumes "1 / 100 - 2 * d \<le> snd p" "snd p \<le> 1 + 80 * d"
  shows "\<bar>of_nat (unat (fst (snd (quantise_entry fl p)))) - (10000 * snd p - 1 / 2)\<bar> \<le> 1 / 2 + d"
    and "10000 * snd p - 1 - d < of_nat (unat (fst (snd (quantise_entry fl p))))"
proof -
  let ?s = "fl (snd p * 10000)"
  have d1: "d \<le> 1 / 10000000" using d_small by (rule order_trans) simp
  have s: "\<bar>?s - snd p * 10000\<bar> \<le> d" using assms d1 by (intro abs_err) linarith
  have "0 \<le> ?s" "?s < 65536" using s assms d1 by linarith+
  note f64_as_u16_bounds [OF this]
  with s show "\<bar>of_nat (unat (fst (snd (quantise_entry fl p)))) - (10000 * snd p - 1 / 2)\<bar> \<le> 1 / 2 + d"
    "10000 * snd p - 1 - d < of_nat (unat (fst (snd (quantise_entry fl p))))"
    by (simp_all add: quantise_entry_def Let_def WEIGHT_DENOMINATOR_def)
qed

lemma quantise_allocated:
  assumes "m \<noteq> []" "length m \<le> 4" "\<bar>sum_list (map snd m) - 1\<bar> \<le> 80 * d"
    "\<And>p. p \<in> set m \<Longrightarrow> 1 / 100 - 2 * d \<le> snd p \<and> snd p \<le> 1 + 80 * d"
  defines "a \<equiv> sum_list (map (\<lambda>p. unat (fst (snd (quantise_entry fl p)))) m)"
  shows "a \<le> 10000" "10000 - a \<le> length m"
proof -
  let ?F = "\<lambda>p. real (unat (fst (snd (quantise_entry fl p))))"
  have d1: "d \<le> 1 / 10000000" using d_small by (rule order_trans) simp
  have n: "0 \<le> real (length m)" "real (length m) \<le> 4" using assms(2) by auto
  have "\<bar>sum_list (map ?F m) - sum_list (map (\<lambda>p. 10000 * snd p - 1 / 2) m)\<bar> \<le> real (length m) * (1 / 2 + d)"
    using assms(4) quantise_entry_err(1) by (intro sum_list_bound) auto
  moreover have "sum_list (map (\<lambda>p. 10000 * snd p - 1 / 2) m) = 10000 * sum_list (map snd m) - real (length m) / 2"
    by (induction m) (auto simp: field_simps)
  moreover have "real a = sum_list (map ?F m)" unfolding a_def by (induction m) auto
  moreover have "real (length m) * (1 / 2 + d) \<le> real (length m) / 2 + 4 * d"
    using mult_right_mono [OF n(2) d_nonneg] by (simp add: algebra_simps)
  ultimately have "real a < 10001" "real (10000 - length m) < real a + 1"
    using assms(2,3) d1 d_nonneg n by (simp_all add: of_nat_diff)
  then show "a \<le> 10000" "10000 - a \<le> length m" by linarith+
qed

lemma snd_le_sum:
  assumes "\<bar>sum_list (map snd m) - 1\<bar> \<le> 80 * d" "\<forall>p \<in> set m. 1 / 100 - 2 * d \<le> snd p" "p \<in> set m"
  shows "snd p \<le> 1 + 80 * d"
proof -
  have "d \<le> 1 / 10000000" using d_small by (rule order_trans) simp
  then have "\<forall>x \<in> set (map snd m). 0 \<le> x" using assms(2) by fastforce
  then have "snd p \<le> sum_list (map snd m)" using assms(3) by (intro member_le_sum_list) auto
  with assms(1) show ?thesis by linarith
qed

lemma quantise_valid:
  assumes "iteration_order it" "m \<noteq> []" "length m \<le> 4" "\<bar>sum_list (map snd m) - 1\<bar> \<le> 80 * d"
    "\<forall>p \<in> set m. 1 / 100 - 2 * d \<le> snd p"
  shows "\<exists>ws. quantise fl it m = Some ws \<and> mset (map wn_nexthop ws) = mset (map fst m) \<and>
    list_all (\<lambda>w. 99 \<le> unat (wn_weight w)) ws \<and> sum_list (map (unat \<circ> wn_weight) ws) = 10000"
proof -
  let ?es = "map (quantise_entry fl) (it m)" and ?f = "\<lambda>e. unat (fst (snd e))"
  have d1: "d \<le> 1 / 10000000" using d_small by (rule order_trans) simp
  have p: "1 / 100 - 2 * d \<le> snd p \<and> snd p \<le> 1 + 80 * d" if "p \<in> set m" for p
    using assms(5) snd_le_sum [OF assms(4,5) that] that by blast
  define a where "a = sum_list (map ?f ?es)"
  have "a = sum_list (map (\<lambda>p. ?f (quantise_entry fl p)) m)"
    unfolding a_def map_map o_def by (rule sum_list_mset_cong) (rule iteration_orderD(1) [OF assms(1)])
  with quantise_allocated [OF assms(2-4) p] have a: "a \<le> 10000" "10000 - a \<le> length m" by auto
  define S where "S = sort_key (\<lambda>(_ :: Nexthop, _ :: u16, a :: real). - a) ?es"
  have S: "mset S = mset ?es" "set S = set ?es" "length S = length m"
    using iteration_orderD(3) [OF assms(1)] by (simp_all add: S_def)
  have f: "99 \<le> ?f e \<and> ?f e < 65535" if e: "e \<in> set S" for e
  proof -
    obtain q where q: "q \<in> set m" "e = quantise_entry fl q"
      using e S(2) iteration_orderD(2) [OF assms(1)] by auto
    have "98 < real (?f e)" "real (?f e) < 65535"
      using quantise_entry_err [of q] p [OF q(1)] d1 unfolding q(2) by linarith+
    then show ?thesis by linarith
  qed
  let ?ws = "map (\<lambda>e. \<lparr> wn_nexthop = fst e, wn_weight = fst (snd e) \<rparr>) (bump (10000 - a) S)"
  have "unat (of_nat (length ?es) :: u16) = length m"
    using assms(3) iteration_orderD(3) [OF assms(1), of m] by (simp add: unat_of_nat)
  then have "quantise fl it m = Some ?ws"
    unfolding quantise_def Let_def a_def [symmetric] S_def [symmetric]
    using a by (simp add: WEIGHT_DENOMINATOR_def)
  moreover have "mset (map wn_nexthop ?ws) = mset (map fst m)"
  proof -
    have "mset (map wn_nexthop ?ws) = mset (map fst (bump (10000 - a) S))" by (simp add: o_def)
    also have "\<dots> = mset (map fst ?es)" unfolding bump_keys by (metis S(1) mset_map)
    also have "\<dots> = mset (map fst (it m))" by (simp add: quantise_entry_def Let_def o_def)
    also have "\<dots> = mset (map fst m)" using iteration_orderD(1) [OF assms(1), of m] by (metis mset_map)
    finally show ?thesis .
  qed
  moreover have "list_all (\<lambda>w. 99 \<le> unat (wn_weight w)) ?ws"
    using f by (fastforce simp: list_all_iff dest: bump_weights)
  moreover have "sum_list (map (unat \<circ> wn_weight) ?ws) = 10000"
  proof -
    have "sum_list (map (unat \<circ> wn_weight) ?ws) = sum_list (map ?f (bump (10000 - a) S))" by (simp add: o_def)
    also have "\<dots> = sum_list (map ?f S) + (10000 - a)" using a S(3) f by (intro sum_bump) auto
    also have "sum_list (map ?f S) = a" unfolding a_def using S(1) by (rule sum_list_mset_cong)
    also have "a + (10000 - a) = 10000" using a(1) by simp
    finally show ?thesis .
  qed
  ultimately show ?thesis by blast
qed

end

section \<open>Reconciliation and the gradient step\<close>

lemma length_insert: "length (hm_insert nh u m) \<le> Suc (length m)"
  by (induction m) auto

lemma fold_insert_keys:
  "(hm_wf m \<longrightarrow> hm_wf (fold (\<lambda>nh m. hm_insert nh u m) nhs m)) \<and>
   fst ` set (fold (\<lambda>nh m. hm_insert nh u m) nhs m) = fst ` set m \<union> set nhs \<and>
   length (fold (\<lambda>nh m. hm_insert nh u m) nhs m) \<le> length m + length nhs"
proof (induction nhs arbitrary: m)
  case (Cons nh nhs)
  show ?case using Cons.IH [of "hm_insert nh u m"] length_insert [of nh u m] by (auto simp: insert_keys)
qed simp

lemma list_all_fold_insert:
  "list_all P m \<Longrightarrow> (\<And>nh. P (nh, u)) \<Longrightarrow> list_all P (fold (\<lambda>nh m. hm_insert nh u m) nhs m)"
  by (induction nhs arbitrary: m) (auto intro: list_all_update)

definition weights_wf :: "nexthop_weights \<Rightarrow> bool" where
  "weights_wf m \<longleftrightarrow> hm_wf m \<and> list_all (\<lambda>(_, w). \<bar>w\<bar> \<le> 2) m"

lemma reconcile_keys:
  assumes "hm_wf m" "nhs \<noteq> []"
  shows "hm_wf (reconcile fl m nhs)" "set nhs \<subseteq> fst ` set (reconcile fl m nhs)"
    "distinct nhs \<Longrightarrow> fst ` set (reconcile fl m nhs) = set nhs"
    "length (reconcile fl m nhs) \<le> length nhs"
proof -
  let ?ch = "length m \<noteq> length nhs \<or> list_ex (\<lambda>nh. hm_get m nh = None) nhs"
  note f = fold_insert_keys [of "[]" "fl (1 / of_nat (length nhs))" nhs]
  have k: "set nhs \<subseteq> fst ` set m" if "\<not> ?ch"
    using that by (auto simp: list_ex_iff map_of_eq_None_iff)
  have "fst ` set m = set nhs" if "\<not> ?ch" "distinct nhs"
  proof (rule sym, rule card_subset_eq)
    have "card (fst ` set m) = length m" using assms(1) by (simp add: hm_wf_def distinct_card flip: set_map)
    then show "card (set nhs) = card (fst ` set m)" using that by (simp add: distinct_card)
  qed (use k that in auto)
  with k f assms(1) show "hm_wf (reconcile fl m nhs)" "set nhs \<subseteq> fst ` set (reconcile fl m nhs)"
    "distinct nhs \<Longrightarrow> fst ` set (reconcile fl m nhs) = set nhs"
    "length (reconcile fl m nhs) \<le> length nhs"
    by (auto simp: reconcile_def Let_def)
qed

context abs_rounding
begin

lemma reconcile_wf:
  assumes "weights_wf m" "nhs \<noteq> []"
  shows "weights_wf (reconcile fl m nhs)"
proof -
  have d1: "d \<le> 1 / 10" using d_small by (rule order_trans) simp
  have "1 \<le> real (length nhs)" using assms(2) by (cases nhs) auto
  then have u: "0 < 1 / real (length nhs)" "1 / real (length nhs) \<le> 1" by (simp_all add: divide_le_eq assms(2))
  have "\<bar>fl (1 / real (length nhs)) - 1 / real (length nhs)\<bar> \<le> d" using u by (intro abs_err) linarith
  with u d1 have "\<bar>fl (1 / real (length nhs))\<bar> \<le> 2" by linarith
  then show ?thesis
    using assms reconcile_keys(1) [of m nhs fl]
    by (auto simp: weights_wf_def reconcile_def Let_def intro!: list_all_fold_insert)
qed

end

context f64_rounding
begin

lemma fl_tight: "\<bar>fl x\<bar> \<le> \<bar>x\<bar> * (1001 / 1000) + 1 / 10 ^ 12"
proof -
  have "\<bar>x\<bar> / 2 ^ 53 \<le> \<bar>x\<bar> / 1000" by (intro divide_left_mono) auto
  moreover have "(1 :: real) / 2 ^ 1000 \<le> 1 / 2 ^ 40" by (intro divide_left_mono power_increasing) auto
  moreover have "(1 :: real) / 2 ^ 40 \<le> 1 / 10 ^ 12" by simp
  ultimately show ?thesis using fl_err [of x] by simp
qed

lemma step_size_bound:
  assumes "unat (win_avg_srtt_us win) < 2 ^ 32"
  shows "\<bar>fl (LEARNING_RATE fl * gradient fl win)\<bar> \<le> 450"
proof -
  let ?a = "win_avg_srtt_us win" and ?s = "saturating_sub (win_avg_srtt_us win) (ucast (win_min_rtt_min win))"
  have t: "(1 :: real) / 10 ^ 12 \<le> 1 / 1000" by simp
  have "unat ?a < 4294967296" "unat ?s \<le> unat ?a" using assms by (simp_all add: unat_saturating_sub)
  then have a: "real (unat ?a) \<le> 4294967296" and s: "real (unat ?s) \<le> 4294967296" by linarith+
  have la: "\<bar>fl (real (unat ?a))\<bar> \<le> 4299300000" "\<bar>fl (real (unat ?s))\<bar> \<le> 4299300000"
    using fl_tight [of "real (unat ?a)"] fl_tight [of "real (unat ?s)"] a s t by linarith+
  define c where "c = fl (real (unat ?a)) + fl (real (unat ?s))"
  have "\<bar>c\<bar> \<le> 8598600000" using la unfolding c_def by linarith
  then have g: "\<bar>gradient fl win\<bar> \<le> 8608000000"
    using fl_tight [of c] t unfolding gradient_def Let_def c_def [symmetric] by simp
  have l: "\<bar>LEARNING_RATE fl\<bar> \<le> 501 / 10 ^ 10"
    using fl_tight [of "5 / 10 ^ 8"] by (simp add: LEARNING_RATE_def)
  have "\<bar>LEARNING_RATE fl * gradient fl win\<bar> \<le> 501 / 10 ^ 10 * 8608000000"
    unfolding abs_mult using l g by (intro mult_mono) auto
  then show ?thesis using fl_tight [of "LEARNING_RATE fl * gradient fl win"] t by simp
qed

lemma gradient_step_bounds:
  assumes "hm_wf m" "list_all (\<lambda>(_, w). \<bar>w\<bar> \<le> b) m" "2 \<le> b" "b + 460 * real (length l) \<le> 2000"
    "\<forall>g. Some g \<in> snd ` set l \<longrightarrow> \<bar>fl (LEARNING_RATE fl * g)\<bar> \<le> 450"
  shows "hm_wf (gradient_step fl l m) \<and> map fst (gradient_step fl l m) = map fst m \<and>
    list_all (\<lambda>(_, w). \<bar>w\<bar> \<le> b + 460 * real (length l)) (gradient_step fl l m)"
  using assms
proof (induction l arbitrary: m b)
  case (Cons x l)
  obtain nh g where x: "x = (nh, g)" by (cases x)
  define m' where "m' = gradient_step fl [x] m"
  have keys: "map fst (hm_insert nh w m) = map fst m" if "hm_get m nh = Some v" for w v
    using that by (induction m) (auto split: if_splits)
  have up: "list_all (\<lambda>(_, w). \<bar>w\<bar> \<le> b + 460) m"
    using Cons.prems(2) by (auto simp: list_all_iff)
  have new: "\<bar>fl (w - fl (LEARNING_RATE fl * k))\<bar> \<le> b + 460" if "hm_get m nh = Some w" "g = Some k" for w k
  proof -
    have w: "\<bar>w\<bar> \<le> b" using that(1) Cons.prems(2) by (auto simp: list_all_iff dest!: map_of_SomeD)
    have s: "\<bar>fl (LEARNING_RATE fl * k)\<bar> \<le> 450" using Cons.prems(5) that(2) x by auto
    have "\<bar>fl (w - fl (LEARNING_RATE fl * k)) - (w - fl (LEARNING_RATE fl * k))\<bar> \<le> 1 / 2 ^ 38"
      using w s Cons.prems(3,4) by (intro abs_err) simp
    then have "\<bar>fl (w - fl (LEARNING_RATE fl * k)) - (w - fl (LEARNING_RATE fl * k))\<bar> \<le> 1"
      by (rule order_trans) simp
    with w s show ?thesis by linarith
  qed
  have M: "\<bar>MINIMUM_WEIGHT fl\<bar> \<le> b + 460"
    using fl_coarse [of "1 / 100"] Cons.prems(3) by (simp add: MINIMUM_WEIGHT_def)
  have m': "hm_wf m' \<and> map fst m' = map fst m \<and> list_all (\<lambda>(_, w). \<bar>w\<bar> \<le> b + 460) m'"
    using Cons.prems(1) keys up new M
    by (auto simp: m'_def gradient_step_def x intro!: list_all_update split: option.splits)
  have "gradient_step fl (x # l) m = gradient_step fl l m'"
    by (simp add: m'_def gradient_step_def)
  moreover have "b + 460 + 460 * real (length l) = b + 460 * real (length (x # l))" by (simp add: algebra_simps)
  moreover have "hm_wf (gradient_step fl l m') \<and> map fst (gradient_step fl l m') = map fst m' \<and>
    list_all (\<lambda>(_, w). \<bar>w\<bar> \<le> b + 460 + 460 * real (length l)) (gradient_step fl l m')"
    by (rule Cons.IH) (use Cons.prems(3-5) m' in auto)
  ultimately show ?case using m' by (simp only:)
qed (simp add: gradient_step_def)

end

section \<open>A step of the descent\<close>

definition descent_wf :: "Descent \<Rightarrow> bool" where
  "descent_wf D \<longleftrightarrow> hm_wf D \<and> list_all (\<lambda>(_, m). weights_wf m) D"

definition windows_bounded :: "TcpRttSnapshot \<Rightarrow> bool" where
  "windows_bounded snap \<longleftrightarrow>
     list_all (\<lambda>(_, ws). list_all (\<lambda>(_, win). unat (win_avg_srtt_us win) < 2 ^ 32) ws) snap"

lemma windows_bounded_get:
  assumes "windows_bounded snap" "Option.bind (hm_get snap n) (\<lambda>ws. hm_get ws nh) = Some win"
  shows "unat (win_avg_srtt_us win) < 2 ^ 32"
proof -
  obtain ws where "hm_get snap n = Some ws" "hm_get ws nh = Some win"
    using assms(2) by (auto simp: Option.bind_eq_Some_conv)
  then have "(n, ws) \<in> set snap" "(nh, win) \<in> set ws" by (auto dest: map_of_SomeD)
  then show ?thesis using assms(1) by (fastforce simp: windows_bounded_def list_all_iff)
qed

lemma map_fst_project: "map fst (project fl m) = map fst m"
  by (simp add: project_def Let_def o_def case_prod_beta')

text \<open>What one step guarantees of the weighted nexthops it yields.\<close>

definition step_ok :: "Nexthop list \<Rightarrow> WeightedNexthop list \<Rightarrow> bool" where
  "step_ok nexthops ws \<longleftrightarrow>
     (\<exists>e. FibEntry_new ws = Inr e) \<and> distinct (map wn_nexthop ws) \<and>
     list_all (\<lambda>w. 99 \<le> unat (wn_weight w)) ws \<and> set nexthops \<subseteq> wn_nexthop ` set ws \<and>
     (distinct nexthops \<longrightarrow> wn_nexthop ` set ws = set nexthops)"

context f64_rounding
begin

lemma stepped_weights:
  fixes nlri :: Nlri
  assumes "weights_wf m" "nhs \<noteq> []" "length nhs \<le> 4" "windows_bounded windows"
  defines "g \<equiv> map (\<lambda>nh. map_option (gradient fl) (Option.bind (hm_get windows nlri) (\<lambda>ws. hm_get ws nh))) nhs"
  defines "s \<equiv> gradient_step fl (zip nhs g) (reconcile fl m nhs)"
  shows "hm_wf s" "map fst s = map fst (reconcile fl m nhs)" "\<forall>p \<in> set s. \<bar>snd p\<bar> \<le> 1900"
proof -
  let ?r = "reconcile fl m nhs"
  have r: "hm_wf ?r" "list_all (\<lambda>(_, w). \<bar>w\<bar> \<le> 2) ?r"
    using reconcile_wf [OF assms(1,2)] by (auto simp: weights_wf_def)
  have len: "length (zip nhs g) = length nhs" by (simp add: g_def)
  have bnd: "\<forall>x. Some x \<in> snd ` set (zip nhs g) \<longrightarrow> \<bar>fl (LEARNING_RATE fl * x)\<bar> \<le> 450"
  proof (intro allI impI)
    fix x
    assume "Some x \<in> snd ` set (zip nhs g)"
    then have "Some x \<in> set g" by (auto dest: set_zip_rightD)
    then obtain n' win where "Option.bind (hm_get windows nlri) (\<lambda>ws. hm_get ws n') = Some win" "x = gradient fl win"
      by (auto simp: g_def dest!: sym [of "Some x"])
    then show "\<bar>fl (LEARNING_RATE fl * x)\<bar> \<le> 450" using step_size_bound windows_bounded_get [OF assms(4)] by blast
  qed
  have b: "2 + 460 * real (length (zip nhs g)) \<le> 1900" using assms(3) unfolding len by simp
  then have "2 + 460 * real (length (zip nhs g)) \<le> 2000" by linarith
  note gs = gradient_step_bounds [OF r order_refl this bnd, folded s_def]
  from gs show "hm_wf s" "map fst s = map fst ?r" by blast+
  have "\<forall>p \<in> set s. \<bar>snd p\<bar> \<le> 2 + 460 * real (length (zip nhs g))" using gs by (force simp: list_all_iff)
  then show "\<forall>p \<in> set s. \<bar>snd p\<bar> \<le> 1900" using b by (meson order_trans)
qed

lemma projected_wf:
  assumes "hm_wf s" "s \<noteq> []" "length s \<le> 4" "\<forall>p \<in> set s. \<bar>snd p\<bar> \<le> 1900"
  shows "weights_wf (project fl s)"
proof -
  note p = project_weights [OF assms(2-4)]
  have "\<bar>snd q\<bar> \<le> 2" if nw: "q \<in> set (project fl s)" for q
    using bspec [OF p(2) nw] snd_le_sum [OF p nw] by simp
  then show ?thesis
    using assms(1) by (auto simp: weights_wf_def list_all_iff hm_wf_def map_fst_project)
qed

lemma descent_step_ok:
  assumes "iteration_order it" "descent_wf D" "nhs \<noteq> []" "length nhs \<le> 4" "windows_bounded windows"
  shows "\<exists>ws D'. descent_step fl it nlri nhs windows D = Some (Some ws, D') \<and> descent_wf D' \<and> step_ok nhs ws \<and>
    wn_nexthop ` set ws = fst ` set (reconcile fl (case hm_get D nlri of Some m \<Rightarrow> m | None \<Rightarrow> []) nhs)"
proof -
  define m where "m = (case hm_get D nlri of Some m \<Rightarrow> m | None \<Rightarrow> [])"
  have m: "weights_wf m"
    using assms(2) by (auto simp: m_def descent_wf_def weights_wf_def list_all_iff dest!: map_of_SomeD split: option.split)
  then have mw: "hm_wf m" by (simp add: weights_wf_def)
  define g where "g = map (\<lambda>nh. map_option (gradient fl) (Option.bind (hm_get windows nlri) (\<lambda>ws. hm_get ws nh))) nhs"
  define s where "s = gradient_step fl (zip nhs g) (reconcile fl m nhs)"
  note s = stepped_weights [OF m assms(3-5), where nlri = nlri, folded g_def, folded s_def]
  note rk = reconcile_keys [OF mw assms(3), of fl]
  have len: "length s \<le> 4" using s(2) rk(4) assms(4) by (metis length_map order_trans)
  have keys: "set nhs \<subseteq> fst ` set s" "distinct nhs \<Longrightarrow> fst ` set s = set nhs"
    using rk(2,3) s(2) by (metis set_map)+
  then have ne: "s \<noteq> []" using assms(3) by (cases s) auto
  note p = project_weights [OF ne len s(3)]
  have pne: "project fl s \<noteq> []" "length (project fl s) \<le> 4"
    using ne len map_fst_project [of fl s] by (metis length_map list.map_disc_iff)+
  obtain ws where ws: "quantise fl it (project fl s) = Some ws"
    "mset (map wn_nexthop ws) = mset (map fst s)" "list_all (\<lambda>w. 99 \<le> unat (wn_weight w)) ws"
    "sum_list (map (unat \<circ> wn_weight) ws) = 10000"
    using quantise_valid [OF assms(1) pne p] map_fst_project by metis
  let ?D = "hm_insert nlri (project fl s) D"
  have "descent_step fl it nlri nhs windows D = Some (Some ws, ?D)"
    using assms(3) ws(1) by (simp add: descent_step_def Let_def flip: m_def g_def s_def)
  moreover have "descent_wf ?D"
    using assms(2) projected_wf [OF s(1) ne len s(3)] by (auto simp: descent_wf_def intro: list_all_update)
  moreover have st: "wn_nexthop ` set ws = fst ` set s" using ws(2) by (metis set_map set_mset_mset)
  moreover have "fst ` set s = fst ` set (reconcile fl m nhs)" using s(2) by (metis set_map)
  moreover have "step_ok nhs ws"
  proof -
    have l: "length ws = length s" using ws(2) by (metis length_map size_mset)
    have "distinct (map wn_nexthop ws)" using s(1) mset_eq_imp_distinct_iff [OF ws(2)] by (simp add: hm_wf_def)
    moreover have "1 \<le> length ws \<and> length ws \<le> MAX_NEXTHOPS \<and> list_all (\<lambda>w. wn_weight w \<noteq> 0) ws \<and>
        sum_list (map (unat \<circ> wn_weight) ws) = unat WEIGHT_DENOMINATOR"
      using l len ne ws(3,4) by (cases s) (auto simp: MAX_NEXTHOPS_def WEIGHT_DENOMINATOR_def list_all_iff)
    ultimately show ?thesis
      using ws(3) keys st unfolding step_ok_def FibEntry_new_succeeds_iff by simp
  qed
  ultimately show ?thesis by (simp flip: m_def)
qed

end

section \<open>Properties\<close>

text \<open>
  C3. A descent step on one to four nexthops never panics, whatever the stored weights, the measured
  latencies, the iteration order of the hash map and the rounding of the \<open>f64\<close> arithmetic: it yields
  distinct weighted nexthops that \<open>FibEntry::new\<close> accepts (the integer weights sum to exactly 10000),
  every one with a weight of at least 99, covering every nexthop of the prefix and, when the
  nexthops are distinct, no other.
\<close>

theorem descent_step_valid:
  assumes "f64_rounding fl" "iteration_order it" "descent_wf D" "nhs \<noteq> []" "length nhs \<le> 4"
    "windows_bounded windows"
  shows "\<exists>ws D'. descent_step fl it nlri nhs windows D = Some (Some ws, D') \<and> descent_wf D' \<and> step_ok nhs ws"
  using f64_rounding.descent_step_ok [OF assms] by blast

text \<open>
  C33. Stale nexthops: when a prefix had two nexthops \<open>a\<close> and \<open>b\<close> and both of its paths now go through
  \<open>a\<close>, \<open>reconcile\<close> compares two weights with two nexthops and keeps the old map, so the next entry
  still sends at least 99 of 10000 parts of the traffic to \<open>b\<close>, a nexthop that no route has any more.
\<close>

theorem reconcile_keeps_stale_nexthop:
  assumes "f64_rounding fl" "iteration_order it" "descent_wf D" "windows_bounded windows"
    "hm_get D nlri = Some [(a, wa), (b, wb)]" "a \<noteq> b"
  shows "\<exists>ws D'. descent_step fl it nlri [a, a] windows D = Some (Some ws, D') \<and>
    list_ex (\<lambda>w. wn_nexthop w = b \<and> 99 \<le> unat (wn_weight w)) ws"
proof -
  obtain ws D' where ws: "descent_step fl it nlri [a, a] windows D = Some (Some ws, D')" "step_ok [a, a] ws"
    "wn_nexthop ` set ws = fst ` set (reconcile fl [(a, wa), (b, wb)] [a, a])"
    using f64_rounding.descent_step_ok [OF assms(1-3) _ _ assms(4), of "[a, a]" nlri] assms(5) by auto
  have "b \<in> wn_nexthop ` set ws" using assms(6) by (simp add: ws(3) reconcile_def)
  then have "list_ex (\<lambda>w. wn_nexthop w = b \<and> 99 \<le> unat (wn_weight w)) ws"
    using ws(2) by (auto simp: step_ok_def list_ex_iff list_all_iff)
  with ws(1) show ?thesis by blast
qed

section \<open>The projection is optimal\<close>

text \<open>The squared distance of two weight vectors.\<close>

definition dist2 :: "real list \<Rightarrow> real list \<Rightarrow> real" where
  "dist2 xs ys = sum_list (map (\<lambda>(x, y). (x - y) ^ 2) (zip xs ys))"

definition simplex :: "real \<Rightarrow> real list \<Rightarrow> bool" where
  "simplex lo xs \<longleftrightarrow> list_all (\<lambda>x. lo \<le> x) xs \<and> sum_list xs = 1"

lemma threshold_optimal:
  fixes us vs :: "real list"
  assumes "length us = length vs" "list_all (\<lambda>u. 0 \<le> u) us" "sum_list us = excess t vs"
  shows "dist2 (map (\<lambda>v. max (v - t) 0) vs) vs \<le> dist2 us vs"
proof -
  have "dist2 (map (\<lambda>v. max (v - t) 0) vs) vs - 2 * t * (sum_list us - excess t vs) \<le> dist2 us vs"
    using assms(1,2)
  proof (induction us vs rule: list_induct2)
    case (Cons u us v vs)
    let ?x = "max (v - t) 0"
    have "0 \<le> (u - ?x) ^ 2 + 2 * ((u - ?x) * (?x - v + t))"
    proof -
      have "0 \<le> (u - ?x) * (?x - v + t)" using Cons.prems by (auto simp: max_def)
      then show ?thesis by simp
    qed
    then have "(?x - v) ^ 2 - 2 * t * (u - ?x) \<le> (u - v) ^ 2" by (simp add: power2_eq_square algebra_simps)
    with Cons show ?case by (simp add: dist2_def algebra_simps)
  qed (simp add: dist2_def)
  then show ?thesis using assms(3) by simp
qed

lemma dist2_shift:
  "length xs = length ys \<Longrightarrow> dist2 (map (\<lambda>x. x - c) xs) (map (\<lambda>y. y - c) ys) = dist2 xs ys"
  by (induction xs ys rule: list_induct2) (auto simp: dist2_def)

lemma project_exact:
  "map snd (project (\<lambda>x. x) m) = map (\<lambda>w. max (w - 1 / 100 - project_tau (\<lambda>x. x) m) 0 + 1 / 100) (map snd m)"
  by (simp add: project_def Let_def MINIMUM_WEIGHT_def o_def case_prod_beta')

lemma sum_list_shift: "sum_list (map (\<lambda>x. x - c) xs) = sum_list xs - c * real (length xs)"
  by (induction xs) (auto simp: algebra_simps)

text \<open>
  C19. In exact arithmetic \<open>project\<close> is the Euclidean projection onto the weights it documents: its
  result sums to one with every weight at least 1%, and no other such weight vector is closer to
  the weights it was given.
\<close>

theorem project_optimal:
  assumes "m \<noteq> []" "length m \<le> 4" "\<forall>p \<in> set m. \<bar>snd p\<bar> \<le> 1900"
    "length us = length m" "simplex (1 / 100) us"
  shows "simplex (1 / 100) (map snd (project (\<lambda>x. x) m)) \<and>
    dist2 (map snd (project (\<lambda>x. x) m)) (map snd m) \<le> dist2 us (map snd m)"
proof
  let ?P = "map snd (project (\<lambda>x. x) m)" and ?t = "project_tau (\<lambda>x. x) m"
  let ?v = "map (\<lambda>w. w - 1 / 100) (map snd m)" and ?u = "map (\<lambda>x. x - 1 / 100) us"
  note p = exact0.project_weights [OF assms(1-3)]
  show s: "simplex (1 / 100) ?P" using p by (auto simp: simplex_def list_all_iff)
  have P: "map (\<lambda>x. x - 1 / 100) ?P = map (\<lambda>v. max (v - ?t) 0) ?v"
    unfolding project_exact by simp
  have "sum_list ?u = 1 - 1 / 100 * real (length m)"
    using assms(4,5) by (simp add: sum_list_shift simplex_def)
  also have "\<dots> = sum_list (map (\<lambda>x. x - 1 / 100) ?P)"
    using s map_fst_project [of "\<lambda>x. x" m] unfolding sum_list_shift simplex_def by (metis length_map)
  finally have "sum_list ?u = excess ?t ?v" unfolding P .
  then have "dist2 (map (\<lambda>v. max (v - ?t) 0) ?v) ?v \<le> dist2 ?u ?v"
    using assms(4,5) by (intro threshold_optimal) (auto simp: simplex_def list_all_iff)
  moreover have "length ?P = length (map snd m)" using map_fst_project [of "\<lambda>x. x" m] by (metis length_map)
  ultimately show "dist2 ?P (map snd m) \<le> dist2 us (map snd m)"
    using assms(4) unfolding P [symmetric] by (simp only: dist2_shift length_map)
qed

section \<open>Concrete steps\<close>

definition demo_descent :: Descent where
  "demo_descent = [(NetV4 167772160 8, [(IpV4 1, 1 / 2), (IpV4 2, 1 / 2)])]"

definition demo_windows :: TcpRttSnapshot where
  "demo_windows = [(NetV4 167772160 8, [(IpV4 1, \<lparr> win_samples = 1, win_avg_srtt_us = 1015, win_max_srtt_us = 1015, win_min_rtt_min = 1000 \<rparr>)])]"

lemma iteration_order_id: "iteration_order (\<lambda>m. m)"
  by (simp add: iteration_order_def)

lemma demo_ok: "descent_wf demo_descent" "windows_bounded demo_windows"
  by (simp_all add: demo_descent_def descent_wf_def weights_wf_def hm_wf_def demo_windows_def windows_bounded_def)

theorem descent_step_valid_witness:
  "\<exists>ws D'. descent_step round_f64 (\<lambda>m. m) (NetV4 167772160 8) [IpV4 1, IpV4 2] demo_windows demo_descent
     = Some (Some ws, D') \<and> descent_wf D' \<and> step_ok [IpV4 1, IpV4 2] ws"
  by (rule descent_step_valid [OF f64.f64_rounding_axioms iteration_order_id demo_ok(1) _ _ demo_ok(2)]) simp_all

theorem reconcile_keeps_stale_nexthop_witness:
  "\<exists>ws D'. descent_step round_f64 (\<lambda>m. m) (NetV4 167772160 8) [IpV4 1, IpV4 1] demo_windows demo_descent
     = Some (Some ws, D') \<and> list_ex (\<lambda>w. wn_nexthop w = IpV4 2 \<and> 99 \<le> unat (wn_weight w)) ws"
  by (rule reconcile_keeps_stale_nexthop [where wa = "1 / 2" and wb = "1 / 2", OF f64.f64_rounding_axioms iteration_order_id demo_ok(1) demo_ok(2)])
     (simp_all add: demo_descent_def)

theorem project_optimal_witness:
  "simplex (1 / 100) (map snd (project (\<lambda>x. x) [(IpV4 1, 3), (IpV4 2, - 1)])) \<and>
    dist2 (map snd (project (\<lambda>x. x) [(IpV4 1, 3), (IpV4 2, - 1)])) [3, - 1] \<le> dist2 [1 / 2, 1 / 2] [3, - 1]"
  using project_optimal [of "[(IpV4 1, 3), (IpV4 2, - 1)]" "[1 / 2, 1 / 2]"] by (simp add: simplex_def)

end
