(* ===== verification/Steering.thy ===== *)
theory Steering
  imports Steering_Step
begin

text \<open>
  The steering controller (\<open>Controller\<close> of \<open>src/erezd/src/steering.rs\<close>): the handlers of its event
  loop and the loop itself as a run over a sequence of events. Arguments of the model are the kernel
  map operations \<open>upd\<close> and \<open>del\<close>, the rounding \<open>fl\<close>, and the iteration orders \<open>itr\<close> of the table
  and \<open>itw\<close> of the weights. A panic is \<open>None\<close>.
\<close>

section \<open>Handlers\<close>

record 'm Controller =
  ct_fib :: 'm
  ct_rib :: Rib
  ct_rtt :: rtt_samples
  ct_descent :: Descent

definition Controller_new :: "'m \<Rightarrow> 'm Controller" where
  "Controller_new fib = \<lparr> ct_fib = fib, ct_rib = [], ct_rtt = [], ct_descent = [] \<rparr>"

definition update_fib :: "('m \<Rightarrow> CNlri \<Rightarrow> CFibEntry \<Rightarrow> 'm option) \<Rightarrow> ('m \<Rightarrow> CNlri \<Rightarrow> 'm option)
    \<Rightarrow> Rib \<Rightarrow> Nlri \<Rightarrow> 'm \<Rightarrow> 'm" where
  "update_fib upd del rib nlri fib =
     (let nexthops = Rib_nexthops rib nlri;
          res = (case balance_equally nexthops of
                   Inr (Some fib_entry) \<Rightarrow> Fib_insert upd fib nlri fib_entry
                 | Inr None \<Rightarrow> Fib_delete del fib nlri
                 | Inl e \<Rightarrow> None)
      in case res of Some fib' \<Rightarrow> fib' | None \<Rightarrow> fib)"

definition announce_route :: "('m \<Rightarrow> CNlri \<Rightarrow> CFibEntry \<Rightarrow> 'm option) \<Rightarrow> ('m \<Rightarrow> CNlri \<Rightarrow> 'm option)
    \<Rightarrow> Nexthop \<Rightarrow> Route \<Rightarrow> Rib \<times> 'm \<Rightarrow> Rib \<times> 'm" where
  "announce_route upd del nexthop route = (\<lambda>(rib, fib).
     let rib = Rib_insert route nexthop rib in (rib, update_fib upd del rib (rt_nlri route) fib))"

definition withdraw_route :: "('m \<Rightarrow> CNlri \<Rightarrow> CFibEntry \<Rightarrow> 'm option) \<Rightarrow> ('m \<Rightarrow> CNlri \<Rightarrow> 'm option)
    \<Rightarrow> Route \<Rightarrow> Rib \<times> 'm \<Rightarrow> Rib \<times> 'm" where
  "withdraw_route upd del route = (\<lambda>(rib, fib).
     let rib = Rib_remove route rib in (rib, update_fib upd del rib (rt_nlri route) fib))"

definition handle_update :: "('m \<Rightarrow> CNlri \<Rightarrow> CFibEntry \<Rightarrow> 'm option) \<Rightarrow> ('m \<Rightarrow> CNlri \<Rightarrow> 'm option)
    \<Rightarrow> Update \<Rightarrow> 'm Controller \<Rightarrow> 'm Controller" where
  "handle_update upd del update c =
     (let st = (ct_rib c, ct_fib c);
          st = fold (\<lambda>announcement. fold (announce_route upd del (an_nexthop announcement)) (an_routes announcement))
                 (up_announcements update) st;
          st = fold (withdraw_route upd del) (up_withdrawals update) st
      in c\<lparr> ct_rib := fst st, ct_fib := snd st \<rparr>)"

definition steer_one :: "('m \<Rightarrow> CNlri \<Rightarrow> CFibEntry \<Rightarrow> 'm option) \<Rightarrow> ('m \<Rightarrow> CNlri \<Rightarrow> 'm option)
    \<Rightarrow> (real \<Rightarrow> real) \<Rightarrow> (nexthop_weights \<Rightarrow> nexthop_weights) \<Rightarrow> TcpRttSnapshot \<Rightarrow> Rib
    \<Rightarrow> Nlri \<Rightarrow> Descent \<times> 'm \<Rightarrow> (Descent \<times> 'm) option" where
  "steer_one upd del fl itw snap rib nlri = (\<lambda>(D, fib).
     let nexthops = take MAX_NEXTHOPS (Rib_nexthops rib nlri)
     in case descent_step fl itw nlri nexthops snap D of
          None \<Rightarrow> None
        | Some (stepped, D) \<Rightarrow>
            (let res = (case stepped of
                          Some weighted \<Rightarrow>
                            (case FibEntry_new weighted of
                               Inr entry \<Rightarrow> Fib_insert upd fib nlri entry
                             | Inl e \<Rightarrow> None)
                        | None \<Rightarrow> Fib_delete del fib nlri)
             in Some (D, case res of Some fib' \<Rightarrow> fib' | None \<Rightarrow> fib)))"

fun steer_all :: "('m \<Rightarrow> CNlri \<Rightarrow> CFibEntry \<Rightarrow> 'm option) \<Rightarrow> ('m \<Rightarrow> CNlri \<Rightarrow> 'm option)
    \<Rightarrow> (real \<Rightarrow> real) \<Rightarrow> (nexthop_weights \<Rightarrow> nexthop_weights) \<Rightarrow> TcpRttSnapshot \<Rightarrow> Rib
    \<Rightarrow> Nlri list \<Rightarrow> Descent \<times> 'm \<Rightarrow> (Descent \<times> 'm) option" where
  "steer_all upd del fl itw snap rib [] st = Some st"
| "steer_all upd del fl itw snap rib (nlri # nlris) st =
     Option.bind (steer_one upd del fl itw snap rib nlri st) (steer_all upd del fl itw snap rib nlris)"

definition steer_fib :: "('m \<Rightarrow> CNlri \<Rightarrow> CFibEntry \<Rightarrow> 'm option) \<Rightarrow> ('m \<Rightarrow> CNlri \<Rightarrow> 'm option)
    \<Rightarrow> (real \<Rightarrow> real) \<Rightarrow> (Rib \<Rightarrow> Rib) \<Rightarrow> (nexthop_weights \<Rightarrow> nexthop_weights) \<Rightarrow> u64 option \<Rightarrow> bool
    \<Rightarrow> 'm Controller \<Rightarrow> 'm Controller option" where
  "steer_fib upd del fl itr itw now_ns poisoned c =
     (case snapshot now_ns poisoned (ct_rtt c) of
        (Inl e, rtt) \<Rightarrow> Some (c\<lparr> ct_rtt := rtt \<rparr>)
      | (Inr snap, rtt) \<Rightarrow>
          map_option (\<lambda>(D, fib). c\<lparr> ct_rtt := rtt, ct_descent := D, ct_fib := fib \<rparr>)
            (steer_all upd del fl itw snap (ct_rib c) (Rib_nlris (itr (ct_rib c))) (ct_descent c, ct_fib c)))"

section \<open>The event loop\<close>

text \<open>
  The branches of the \<open>select!\<close>, and the observations that the event reader makes on the shared
  aggregator between two of them.
\<close>

datatype ctl_event =
    ShutdownCancelled
  | SteeringTick "u64 option" bool
  | BgpUpdate "Update option"
  | RttObserved "u64 option" bool CTcpRttEvent

fun controller_run :: "('m \<Rightarrow> CNlri \<Rightarrow> CFibEntry \<Rightarrow> 'm option) \<Rightarrow> ('m \<Rightarrow> CNlri \<Rightarrow> 'm option)
    \<Rightarrow> (real \<Rightarrow> real) \<Rightarrow> (Rib \<Rightarrow> Rib) \<Rightarrow> (nexthop_weights \<Rightarrow> nexthop_weights)
    \<Rightarrow> ctl_event list \<Rightarrow> 'm Controller \<Rightarrow> 'm Controller option" where
  "controller_run upd del fl itr itw [] c = Some c"
| "controller_run upd del fl itr itw (ev # evs) c =
     (case ev of
        ShutdownCancelled \<Rightarrow> Some c
      | SteeringTick now_ns poisoned \<Rightarrow>
          Option.bind (steer_fib upd del fl itr itw now_ns poisoned c) (controller_run upd del fl itr itw evs)
      | BgpUpdate None \<Rightarrow> Some c
      | BgpUpdate (Some update) \<Rightarrow> controller_run upd del fl itr itw evs (handle_update upd del update c)
      | RttObserved now_ns poisoned event \<Rightarrow>
          controller_run upd del fl itr itw evs (c\<lparr> ct_rtt := snd (observe now_ns poisoned event (ct_rtt c)) \<rparr>))"

section \<open>Safety of the loop\<close>

locale controller = bpf_map upd del look + f64_rounding fl
  for upd :: "'m \<Rightarrow> CNlri \<Rightarrow> CFibEntry \<Rightarrow> 'm option" and del :: "'m \<Rightarrow> CNlri \<Rightarrow> 'm option"
    and look :: "'m \<Rightarrow> CNlri \<Rightarrow> CFibEntry option" and fl :: "real \<Rightarrow> real" +
  fixes itr :: "Rib \<Rightarrow> Rib" and itw :: "nexthop_weights \<Rightarrow> nexthop_weights"
  assumes itr: "iteration_order itr" and itw: "iteration_order itw"

text \<open>
  The invariant of the controller after \<open>k\<close> events: the table and the weights are well formed, every
  entry the data plane can look up is valid, and the sample queues are as short as the events allow.
\<close>

definition ctl_inv :: "('m \<Rightarrow> CNlri \<Rightarrow> CFibEntry option) \<Rightarrow> nat \<Rightarrow> 'm Controller \<Rightarrow> bool" where
  "ctl_inv look k c \<longleftrightarrow> rib_wf (ct_rib c) \<and> descent_wf (ct_descent c) \<and> fib_sound look (ct_fib c) \<and>
     rtt_wf (ct_rtt c) \<and> queues_le k (ct_rtt c)"

lemma descent_wf_remove: "descent_wf D \<Longrightarrow> descent_wf (hm_remove n D)"
  by (auto simp: descent_wf_def intro: list_all_delete)

context controller
begin

lemma update_fib_sound:
  assumes "fib_sound look fib"
  shows "fib_sound look (update_fib upd del rib nlri fib)"
  using balance_equally_split [of "Rib_nexthops rib nlri"] assms insert_sound [OF assms] delete_sound [OF assms]
  by (auto simp: update_fib_def Let_def split: option.split)

lemma announce_route_inv:
  assumes "rib_wf (fst st)" "fib_sound look (snd st)"
  shows "rib_wf (fst (announce_route upd del nh r st))" "fib_sound look (snd (announce_route upd del nh r st))"
  using assms by (auto simp: announce_route_def Let_def case_prod_beta' rib.inv_ins update_fib_sound)

lemma withdraw_route_inv:
  assumes "rib_wf (fst st)" "fib_sound look (snd st)"
  shows "rib_wf (fst (withdraw_route upd del r st))" "fib_sound look (snd (withdraw_route upd del r st))"
  using assms by (auto simp: withdraw_route_def Let_def case_prod_beta' rib.inv_rem update_fib_sound)

lemma handle_update_inv:
  assumes "ctl_inv look k c"
  shows "ctl_inv look k (handle_update upd del u c)"
proof -
  let ?I = "\<lambda>st. rib_wf (fst st) \<and> fib_sound look (snd st)"
  have a: "?I (fold (announce_route upd del nh) rs st)" if "?I st" for nh rs st
    using that by (induction rs arbitrary: st) (auto simp: announce_route_inv)
  have b: "?I (fold (\<lambda>an. fold (announce_route upd del (an_nexthop an)) (an_routes an)) ans st)"
    if "?I st" for ans :: "Announcement list" and st
    using that by (induction ans arbitrary: st) (auto simp: a)
  have w: "?I (fold (withdraw_route upd del) rs st)" if "?I st" for rs st
    using that by (induction rs arbitrary: st) (auto simp: withdraw_route_inv)
  show ?thesis
    using assms w [OF b, of "(ct_rib c, ct_fib c)"] by (auto simp: ctl_inv_def handle_update_def Let_def)
qed

lemma steer_one_inv:
  assumes "descent_wf D" "fib_sound look fib" "windows_bounded snap"
  shows "\<exists>D' fib'. steer_one upd del fl itw snap rib nlri (D, fib) = Some (D', fib') \<and>
    descent_wf D' \<and> fib_sound look fib'"
proof (cases "take MAX_NEXTHOPS (Rib_nexthops rib nlri) = []")
  case True
  then show ?thesis
    using assms(1,2) delete_sound [OF assms(2)]
    by (auto simp: steer_one_def descent_step_def Let_def descent_wf_remove split: option.split)
next
  case False
  have "length (take MAX_NEXTHOPS (Rib_nexthops rib nlri)) \<le> 4" by (simp add: MAX_NEXTHOPS_def)
  then obtain ws D' where step: "descent_step fl itw nlri (take MAX_NEXTHOPS (Rib_nexthops rib nlri)) snap D = Some (Some ws, D')"
    and D': "descent_wf D'" and ok: "step_ok (take MAX_NEXTHOPS (Rib_nexthops rib nlri)) ws"
    using descent_step_ok [OF itw assms(1) False _ assms(3)] by blast
  obtain e where e: "FibEntry_new ws = Inr e" using ok by (auto simp: step_ok_def)
  show ?thesis
    using D' assms(2) insert_sound [OF assms(2) FibEntry_new_valid [OF e]]
    by (auto simp: steer_one_def Let_def step e split: option.split)
qed

lemma steer_all_inv:
  assumes "descent_wf (fst st)" "fib_sound look (snd st)" "windows_bounded snap"
  shows "\<exists>st'. steer_all upd del fl itw snap rib ns st = Some st' \<and> descent_wf (fst st') \<and> fib_sound look (snd st')"
  using assms(1,2)
proof (induction ns arbitrary: st)
  case (Cons n ns)
  obtain D' fib' where "steer_one upd del fl itw snap rib n st = Some (D', fib')" "descent_wf D'" "fib_sound look fib'"
    using steer_one_inv [OF Cons.prems assms(3), of rib n] by (metis prod.collapse)
  then show ?case using Cons.IH [of "(D', fib')"] by simp
qed simp

lemma steer_fib_inv:
  assumes "ctl_inv look k c" "k < 2 ^ 32"
  shows "\<exists>c'. steer_fib upd del fl itr itw now poisoned c = Some c' \<and> ctl_inv look k c'"
proof (cases "now = None \<or> poisoned")
  case True
  then show ?thesis using assms by (auto simp: steer_fib_def snapshot_def split: option.split)
next
  case False
  then obtain t where t: "now = Some t" "\<not> poisoned" by auto
  have q: "queues_le k (prune t (ct_rtt c))" "rtt_wf (prune t (ct_rtt c))"
    using assms(1) by (simp_all add: ctl_inv_def queues_le_prune rtt_wf_prune)
  then have "windows_bounded (windows_of (prune t (ct_rtt c)))"
    using windows_of_avg [OF q(1) assms(2)] by (simp add: windows_bounded_def)
  then obtain st' where "steer_all upd del fl itw (windows_of (prune t (ct_rtt c))) (ct_rib c) (Rib_nlris (itr (ct_rib c)))
      (ct_descent c, ct_fib c) = Some st'" "descent_wf (fst st')" "fib_sound look (snd st')"
    using steer_all_inv [of "(ct_descent c, ct_fib c)"] assms(1) unfolding ctl_inv_def fst_conv snd_conv by blast
  then show ?thesis
    using t q assms(1) by (auto simp: steer_fib_def snapshot_def Let_def ctl_inv_def case_prod_beta')
qed

lemma run_inv:
  assumes "ctl_inv look k c" "k + length evs < 2 ^ 32"
  shows "\<exists>c'. controller_run upd del fl itr itw evs c = Some c' \<and> ctl_inv look (k + length evs) c'"
  using assms
proof (induction evs arbitrary: c k)
  case (Cons ev evs)
  have mono: "ctl_inv look l c" if "k \<le> l" for l
    using Cons.prems(1) that by (auto simp: ctl_inv_def queues_le_mono)
  show ?case
  proof (cases ev)
    case (SteeringTick now poisoned)
    then obtain c' where "steer_fib upd del fl itr itw now poisoned c = Some c'" "ctl_inv look (Suc k) c'"
      using steer_fib_inv [of "Suc k" c now poisoned] mono Cons.prems(2) by auto
    then show ?thesis using SteeringTick Cons.IH [of "Suc k" c'] Cons.prems(2) by auto
  next
    case (BgpUpdate u)
    then show ?thesis
      using Cons.IH [of "Suc k" "handle_update upd del (the u) c"] handle_update_inv [OF mono, of "Suc k"] mono Cons.prems(2)
      by (cases u) auto
  next
    case (RttObserved now poisoned e)
    then have "ctl_inv look (Suc k) (c\<lparr> ct_rtt := snd (observe now poisoned e (ct_rtt c)) \<rparr>)"
      using Cons.prems(1) by (auto simp: ctl_inv_def queues_le_observe rtt_wf_observe)
    then show ?thesis using RttObserved Cons.IH [of "Suc k"] Cons.prems(2) by auto
  qed (use mono in auto)
qed simp

end

interpretation ctl: controller e_fib_update e_fib_delete e_fib_look round_f64 "\<lambda>m. m" "\<lambda>m. m"
  by unfold_locales (simp_all add: iteration_order_id)

end
