(* ===== verification/Steering_Agreement.thy ===== *)
theory Steering_Agreement
  imports Steering
begin

text \<open>
  The forwarding map agrees with the routing table: after every event of the controller, the data
  plane has an entry for exactly the prefixes with routes, and its nexthops include the first four of
  the prefix. This needs room in the map and prefixes that differ as keys of the trie. The entry of a
  prefix has no other nexthops if no two paths of the prefix go through one nexthop.
\<close>

section \<open>Agreement of table and map\<close>

definition entry_nexthops :: "CFibEntry \<Rightarrow> CIpv6Addr set" where
  "entry_nexthops c = set (take (unat (cf_nexthop_count c)) (cf_nexthops c))"

text \<open>The entry of a prefix has the first four nexthops of the table and, if \<open>exact\<close>, no others.\<close>

definition fib_agrees :: "bool \<Rightarrow> ('m \<Rightarrow> CNlri \<Rightarrow> CFibEntry option) \<Rightarrow> Rib \<Rightarrow> 'm \<Rightarrow> Nlri \<Rightarrow> bool" where
  "fib_agrees exact look rib fib n \<longleftrightarrow>
     (case take MAX_NEXTHOPS (Rib_nexthops rib n) of
        [] \<Rightarrow> look fib (CNlri_from n) = None
      | nh # nhs \<Rightarrow> (\<exists>c. look fib (CNlri_from n) = Some c \<and> CIpv6Addr_from ` set (nh # nhs) \<subseteq> entry_nexthops c \<and>
          (exact \<longrightarrow> entry_nexthops c = CIpv6Addr_from ` set (nh # nhs))))"

lemma fib_agrees_iff:
  "fib_agrees exact look rib fib n \<longleftrightarrow>
     (if take MAX_NEXTHOPS (Rib_nexthops rib n) = [] then look fib (CNlri_from n) = None
      else \<exists>c. look fib (CNlri_from n) = Some c \<and>
        CIpv6Addr_from ` set (take MAX_NEXTHOPS (Rib_nexthops rib n)) \<subseteq> entry_nexthops c \<and>
        (exact \<longrightarrow> entry_nexthops c = CIpv6Addr_from ` set (take MAX_NEXTHOPS (Rib_nexthops rib n))))"
  unfolding fib_agrees_def by (rule list.split [THEN iffD2]) auto

lemma entry_nexthops_new:
  assumes "FibEntry_new ws = Inr e"
  shows "entry_nexthops (CFibEntry_new n (fe_nexthop_count e) (fe_nexthops e) (fe_weights e)) =
    CIpv6Addr_from ` wn_nexthop ` set ws"
proof -
  note * = FibEntry_new_Inr [OF assms]
  let ?c = "CFibEntry_new n (fe_nexthop_count e) (fe_nexthops e) (fe_weights e)"
  have len: "length (fe_nexthops e) = MAX_NEXTHOPS" using *(5) by (simp add: *(2))
  have "cf_nexthops ?c = map CIpv6Addr_from (fe_nexthops e)"
    by (subst CFibEntry_new_nexthops) (simp_all add: len)
  moreover have "unat (cf_nexthop_count ?c) = length ws"
    using MAX_NEXTHOPS_unat [OF *(5)] *(1) by (simp add: CFibEntry_new_def Let_def)
  ultimately show ?thesis by (simp add: entry_nexthops_def take_map *(2) image_image)
qed

lemma Rib_nexthops_insert_other: "n \<noteq> rt_nlri r \<Longrightarrow> Rib_nexthops (Rib_insert r nh t) n = Rib_nexthops t n"
  by (simp add: Rib_nexthops_def Rib_insert_def Let_def hm_get_insert)

lemma Rib_nexthops_remove_other: "n \<noteq> rt_nlri r \<Longrightarrow> Rib_nexthops (Rib_remove r t) n = Rib_nexthops t n"
  by (auto simp: Rib_nexthops_def Rib_remove_def Let_def hm_get_insert hm_get_remove split: option.split)

text \<open>
  \<open>A\<close> lists the announced paths; no two paths of the prefix share a nexthop.
\<close>

definition paths_unique :: "(Nlri \<times> PathId \<times> Nexthop) set \<Rightarrow> Nlri \<Rightarrow> bool" where
  "paths_unique A n \<longleftrightarrow> (\<forall>p q nh. (n, p, nh) \<in> A \<longrightarrow> (n, q, nh) \<in> A \<longrightarrow> p = q)"

definition rib_within :: "(Nlri \<times> PathId \<times> Nexthop) set \<Rightarrow> Nlri set \<Rightarrow> Rib \<Rightarrow> bool" where
  "rib_within A S rib \<longleftrightarrow> rib_wf rib \<and> set (Rib_nlris rib) \<subseteq> S \<and>
     (\<forall>n p nh. Rib_lookup rib n p = Some nh \<longrightarrow> (n, p, nh) \<in> A)"

lemma Rib_nexthops_distinct:
  assumes "rib_within A S rib" "paths_unique A n"
  shows "distinct (Rib_nexthops rib n)"
proof (cases "hm_get rib n")
  case (Some es)
  then have wf: "hm_wf es" using assms(1) rib_wf_get by (auto simp: rib_within_def)
  have "(n, p, nh) \<in> A" if "(p, nh) \<in> set es" for p nh
    using that assms(1) Some wf by (auto simp: rib_within_def Rib_lookup_def hm_wf_def)
  then have "inj_on snd (set es)" using assms(2) by (fastforce simp: inj_on_def paths_unique_def)
  then show ?thesis
    using wf Some by (auto simp: Rib_nexthops_def distinct_map hm_wf_def)
qed (simp add: Rib_nexthops_def)

lemma rib_within_insert:
  assumes "rib_within A S rib" "(rt_nlri r, rt_path_id r, nh) \<in> A" "rt_nlri r \<in> S"
  shows "rib_within A S (Rib_insert r nh rib)"
proof -
  have "set (Rib_nlris (Rib_insert r nh rib)) = insert (rt_nlri r) (set (Rib_nlris rib))"
    by (simp add: Rib_nlris_def Rib_insert_def Let_def insert_keys)
  then show ?thesis
    using assms rib.inv_ins rib.look_ins by (auto simp: rib_within_def split: if_splits)
qed

lemma rib_within_remove:
  assumes "rib_within A S rib"
  shows "rib_within A S (Rib_remove r rib)"
proof -
  have "set (Rib_nlris (Rib_remove r rib)) \<subseteq> set (Rib_nlris rib)"
    using map_of_eq_None_iff [of rib "rt_nlri r"]
    by (auto simp add: Rib_nlris_def Rib_remove_def Let_def insert_keys remove_keys simp del: map_of_eq_None_iff split: option.split)
  then show ?thesis
    using assms rib.inv_rem rib.look_rem by (auto simp: rib_within_def split: if_splits)
qed

section \<open>Every event keeps the agreement\<close>

locale controller_room = controller upd del look fl itr itw + bpf_map_sized upd del look ok cap
  for upd :: "'m \<Rightarrow> CNlri \<Rightarrow> CFibEntry \<Rightarrow> 'm option" and del :: "'m \<Rightarrow> CNlri \<Rightarrow> 'm option"
    and look :: "'m \<Rightarrow> CNlri \<Rightarrow> CFibEntry option" and fl :: "real \<Rightarrow> real"
    and itr :: "Rib \<Rightarrow> Rib" and itw :: "nexthop_weights \<Rightarrow> nexthop_weights"
    and ok :: "'m \<Rightarrow> bool" and cap :: nat +
  fixes S :: "Nlri set" and A :: "(Nlri \<times> PathId \<times> Nexthop) set"
  assumes fin: "finite S" and size: "card S \<le> cap"
    and inj: "inj_on (\<lambda>n. lpm_key (CNlri_from n)) S"

definition map_within :: "('m \<Rightarrow> CNlri \<Rightarrow> CFibEntry option) \<Rightarrow> ('m \<Rightarrow> bool) \<Rightarrow> Nlri set \<Rightarrow> 'm \<Rightarrow> bool" where
  "map_within look ok S fib \<longleftrightarrow> ok fib \<and>
     (\<forall>k. look fib k \<noteq> None \<longrightarrow> lpm_key k \<in> (\<lambda>n. lpm_key (CNlri_from n)) ` S)"

definition agree_inv :: "('m \<Rightarrow> CNlri \<Rightarrow> CFibEntry option) \<Rightarrow> ('m \<Rightarrow> bool) \<Rightarrow> Nlri set
    \<Rightarrow> (Nlri \<times> PathId \<times> Nexthop) set \<Rightarrow> Rib \<times> 'm \<Rightarrow> bool" where
  "agree_inv look ok S A st \<longleftrightarrow> rib_within A S (fst st) \<and> map_within look ok S (snd st) \<and>
     (\<forall>n \<in> S. fib_agrees (paths_unique A n) look (fst st) (snd st) n)"

text \<open>The events of a run stay within the prefixes \<open>S\<close> and the announced paths \<open>A\<close>.\<close>

definition update_within :: "Nlri set \<Rightarrow> (Nlri \<times> PathId \<times> Nexthop) set \<Rightarrow> Update \<Rightarrow> bool" where
  "update_within S A u \<longleftrightarrow>
     list_all (\<lambda>an. list_all (\<lambda>r. rt_nlri r \<in> S \<and> (rt_nlri r, rt_path_id r, an_nexthop an) \<in> A) (an_routes an))
       (up_announcements u) \<and>
     list_all (\<lambda>r. rt_nlri r \<in> S) (up_withdrawals u)"

definition event_within :: "Nlri set \<Rightarrow> (Nlri \<times> PathId \<times> Nexthop) set \<Rightarrow> ctl_event \<Rightarrow> bool" where
  "event_within S A ev = (case ev of BgpUpdate (Some u) \<Rightarrow> update_within S A u | _ \<Rightarrow> True)"

context controller_room
begin

lemma insert_agrees:
  assumes "map_within look ok S fib" "n \<in> S" "FibEntry_new ws = Inr e"
    "\<forall>n' \<in> S - {n}. fib_agrees (paths_unique A n') look rib fib n'" "Rib_nexthops rib n \<noteq> []"
    "set (take MAX_NEXTHOPS (Rib_nexthops rib n)) \<subseteq> wn_nexthop ` set ws"
    "paths_unique A n \<Longrightarrow> wn_nexthop ` set ws = set (take MAX_NEXTHOPS (Rib_nexthops rib n))"
  shows "\<exists>fib'. Fib_insert upd fib n e = Some fib' \<and> map_within look ok S fib' \<and> (\<forall>n' \<in> S. fib_agrees (paths_unique A n') look rib fib' n')"
proof -
  let ?K = "(\<lambda>n. lpm_key (CNlri_from n)) ` S"
  have "card ?K \<le> cap" using card_image_le [OF fin, of "\<lambda>n. lpm_key (CNlri_from n)"] size by linarith
  then obtain fib' where u: "Fib_insert upd fib n e = Some fib'"
    using room [of fib ?K "CNlri_from n" "CFibEntry_new n (fe_nexthop_count e) (fe_nexthops e) (fe_weights e)"] assms(1,2) fin
    by (auto simp: map_within_def Fib_insert_def Let_def)
  note look' = insert_look [OF u]
  have "map_within look ok S fib'"
    using assms(1,2) look' ok_upd u by (auto simp: map_within_def Fib_insert_def Let_def split: if_splits)
  moreover have "fib_agrees (paths_unique A n') look rib fib' n'" if "n' \<in> S" for n'
  proof (cases "n' = n")
    case True
    then show ?thesis
      using assms(5-7) look' entry_nexthops_new [OF assms(3), of n] image_mono [OF assms(6), of CIpv6Addr_from]
      by (simp add: fib_agrees_iff MAX_NEXTHOPS_def)
  next
    case False
    then have "look fib' (CNlri_from n') = look fib (CNlri_from n')"
      using look' inj that assms(2) by (auto simp: inj_on_def)
    then show ?thesis using assms(4) that False by (simp add: fib_agrees_iff)
  qed
  ultimately show ?thesis using u by blast
qed

lemma delete_agrees:
  assumes "map_within look ok S fib" "n \<in> S" "\<forall>n' \<in> S - {n}. fib_agrees (paths_unique A n') look rib fib n'" "Rib_nexthops rib n = []"
  defines "fib' \<equiv> (case Fib_delete del fib n of Some fib' \<Rightarrow> fib' | None \<Rightarrow> fib)"
  shows "map_within look ok S fib' \<and> (\<forall>n' \<in> S. fib_agrees (paths_unique A n') look rib fib' n')"
proof -
  have look': "look fib' k = (if lpm_key k = lpm_key (CNlri_from n) then None else look fib k)" for k
  proof (cases "Fib_delete del fib n")
    case None
    then have "look fib (CNlri_from n) = None"
      using del_present [of fib "CNlri_from n"] unfolding Fib_delete_def by blast
    then show ?thesis using None look_key [of k "CNlri_from n" fib] by (simp add: fib'_def)
  next
    case (Some f)
    then show ?thesis using delete_look [OF Some] by (simp add: fib'_def)
  qed
  have "ok fib'" using assms(1) ok_del by (auto simp: fib'_def map_within_def Fib_delete_def split: option.split)
  then have "map_within look ok S fib'" using assms(1) look' by (auto simp: map_within_def)
  moreover have "fib_agrees (paths_unique A n') look rib fib' n'" if "n' \<in> S" for n'
  proof (cases "n' = n")
    case True
    then show ?thesis using assms(4) look' by (simp add: fib_agrees_iff)
  next
    case False
    then have "look fib' (CNlri_from n') = look fib (CNlri_from n')"
      using look' inj that assms(2) by (auto simp: inj_on_def)
    then show ?thesis using assms(3) that False by (simp add: fib_agrees_iff)
  qed
  ultimately show ?thesis by blast
qed

lemma balance_new:
  assumes "balance_equally nhs = Inr (Some e)"
  shows "\<exists>ws. FibEntry_new ws = Inr e \<and> wn_nexthop ` set ws = set (take MAX_NEXTHOPS nhs)"
proof -
  let ?l = "take MAX_NEXTHOPS nhs"
  have "wn_nexthop ` set (map (\<lambda>(i, nexthop). \<lparr> wn_nexthop = nexthop, wn_weight = f i \<rparr>) (enumerate 0 ?l)) = set ?l" for f
  proof -
    have "wn_nexthop ` (\<lambda>(i, nexthop). \<lparr> wn_nexthop = nexthop, wn_weight = f i \<rparr>) ` set (enumerate 0 ?l) = snd ` set (enumerate 0 ?l)"
      unfolding image_image by (intro image_cong) auto
    then show ?thesis by (metis list.set_map map_snd_enumerate)
  qed
  moreover obtain f where "FibEntry_new (map (\<lambda>(i, nexthop). \<lparr> wn_nexthop = nexthop, wn_weight = f i \<rparr>) (enumerate 0 ?l)) = Inr e"
    using assms by (auto simp: balance_equally_def Let_def res_bind_Inr_iff split: if_splits)
  ultimately show ?thesis by blast
qed

lemma update_fib_agrees:
  assumes "map_within look ok S fib" "n \<in> S" "\<forall>n' \<in> S - {n}. fib_agrees (paths_unique A n') look rib fib n'"
  shows "map_within look ok S (update_fib upd del rib n fib) \<and> (\<forall>n' \<in> S. fib_agrees (paths_unique A n') look rib (update_fib upd del rib n fib) n')"
proof (cases "Rib_nexthops rib n = []")
  case True
  then have "balance_equally (Rib_nexthops rib n) = Inr None"
    using balance_equally_split [of "Rib_nexthops rib n"] by auto
  then show ?thesis using delete_agrees [OF assms True] by (simp add: update_fib_def Let_def)
next
  case False
  then obtain e where e: "balance_equally (Rib_nexthops rib n) = Inr (Some e)"
    using balance_equally_split [of "Rib_nexthops rib n"] by auto
  then obtain ws where ws: "FibEntry_new ws = Inr e" "wn_nexthop ` set ws = set (take MAX_NEXTHOPS (Rib_nexthops rib n))"
    using balance_new by blast
  show ?thesis using insert_agrees [OF assms(1,2) ws(1) assms(3) False _ ws(2)] ws(2) by (auto simp: update_fib_def Let_def e)
qed

lemma announce_agrees:
  assumes "agree_inv look ok S A st" "(rt_nlri r, rt_path_id r, nh) \<in> A" "rt_nlri r \<in> S"
  shows "agree_inv look ok S A (announce_route upd del nh r st)"
proof -
  have "\<forall>n' \<in> S - {rt_nlri r}. fib_agrees (paths_unique A n') look (Rib_insert r nh (fst st)) (snd st) n'"
    using assms(1) by (simp add: agree_inv_def fib_agrees_iff Rib_nexthops_insert_other)
  then show ?thesis
    using assms rib_within_insert update_fib_agrees [of "snd st" "rt_nlri r"]
    by (auto simp: agree_inv_def announce_route_def Let_def case_prod_beta')
qed

lemma withdraw_agrees:
  assumes "agree_inv look ok S A st" "rt_nlri r \<in> S"
  shows "agree_inv look ok S A (withdraw_route upd del r st)"
proof -
  have "\<forall>n' \<in> S - {rt_nlri r}. fib_agrees (paths_unique A n') look (Rib_remove r (fst st)) (snd st) n'"
    using assms(1) by (simp add: agree_inv_def fib_agrees_iff Rib_nexthops_remove_other)
  then show ?thesis
    using assms rib_within_remove update_fib_agrees [of "snd st" "rt_nlri r"]
    by (auto simp: agree_inv_def withdraw_route_def Let_def case_prod_beta')
qed

lemma handle_update_agrees:
  assumes "agree_inv look ok S A (ct_rib c, ct_fib c)" "update_within S A u"
  shows "agree_inv look ok S A (ct_rib (handle_update upd del u c), ct_fib (handle_update upd del u c))"
proof -
  let ?I = "agree_inv look ok S A"
  have a: "?I (fold (announce_route upd del nh) rs st)"
    if "?I st" "\<forall>r \<in> set rs. rt_nlri r \<in> S \<and> (rt_nlri r, rt_path_id r, nh) \<in> A" for nh rs st
    using that by (induction rs arbitrary: st) (auto simp: announce_agrees)
  have b: "?I (fold (\<lambda>an. fold (announce_route upd del (an_nexthop an)) (an_routes an)) ans st)"
    if "?I st" "\<forall>an \<in> set ans. \<forall>r \<in> set (an_routes an). rt_nlri r \<in> S \<and> (rt_nlri r, rt_path_id r, an_nexthop an) \<in> A"
    for ans :: "Announcement list" and st
    using that by (induction ans arbitrary: st) (auto simp: a)
  have w: "?I (fold (withdraw_route upd del) rs st)" if "?I st" "\<forall>r \<in> set rs. rt_nlri r \<in> S" for rs st
    using that by (induction rs arbitrary: st) (auto simp: withdraw_agrees)
  show ?thesis
    using w [OF b [OF assms(1)]] assms(2)
    by (simp add: update_within_def list_all_iff handle_update_def Let_def)
qed

lemma steer_one_agrees:
  assumes "agree_inv look ok S A (rib, fib)" "descent_wf D" "windows_bounded snap" "n \<in> set (Rib_nlris rib)"
    "steer_one upd del fl itw snap rib n (D, fib) = Some (D', fib')"
  shows "agree_inv look ok S A (rib, fib')"
proof -
  let ?l = "take MAX_NEXTHOPS (Rib_nexthops rib n)"
  have r: "rib_within A S rib" "map_within look ok S fib" "\<forall>n' \<in> S. fib_agrees (paths_unique A n') look rib fib n'"
    using assms(1) by (simp_all add: agree_inv_def)
  then have n: "n \<in> S" "Rib_nexthops rib n \<noteq> []"
    using assms(4) Rib_nlris_iff by (auto simp: rib_within_def)
  then have ne: "?l \<noteq> []" by (simp add: MAX_NEXTHOPS_def)
  have d: "distinct ?l" if "paths_unique A n" using Rib_nexthops_distinct [OF r(1) that] by simp
  have "length ?l \<le> 4" by (simp add: MAX_NEXTHOPS_def)
  then obtain ws D1 where ws: "descent_step fl itw n ?l snap D = Some (Some ws, D1)" "step_ok ?l ws"
    using descent_step_ok [OF itw assms(2) ne _ assms(3)] by blast
  then obtain e where e: "FibEntry_new ws = Inr e" "set ?l \<subseteq> wn_nexthop ` set ws" "paths_unique A n \<Longrightarrow> wn_nexthop ` set ws = set ?l"
    using d by (auto simp: step_ok_def)
  show ?thesis
    using insert_agrees [OF r(2) n(1) e(1) _ n(2) e(2,3)] r assms(5)
    by (auto simp: steer_one_def Let_def ws(1) e(1) agree_inv_def)
qed

lemma steer_all_agrees:
  assumes "agree_inv look ok S A (rib, fib)" "descent_wf D" "fib_sound look fib" "windows_bounded snap"
    "set ns \<subseteq> set (Rib_nlris rib)" "steer_all upd del fl itw snap rib ns (D, fib) = Some (D', fib')"
  shows "agree_inv look ok S A (rib, fib')"
  using assms(1-3,5,6)
proof (induction ns arbitrary: D fib)
  case (Cons n ns)
  obtain D1 fib1 where 1: "steer_one upd del fl itw snap rib n (D, fib) = Some (D1, fib1)" "descent_wf D1" "fib_sound look fib1"
    using steer_one_inv [OF Cons.prems(2,3) assms(4)] by blast
  then have "agree_inv look ok S A (rib, fib1)"
    using steer_one_agrees [OF Cons.prems(1,2) assms(4) _ 1(1)] Cons.prems(4) by simp
  then show ?case using Cons.IH 1 Cons.prems(4,5) by simp
qed simp

lemma steer_fib_agrees:
  assumes "agree_inv look ok S A (ct_rib c, ct_fib c)" "ctl_inv look k c" "k < 2 ^ 32"
    "steer_fib upd del fl itr itw now poisoned c = Some c'"
  shows "agree_inv look ok S A (ct_rib c', ct_fib c')"
proof (cases "now = None \<or> poisoned")
  case True
  then show ?thesis using assms(1,4) by (auto simp: steer_fib_def snapshot_def split: option.splits)
next
  case False
  then obtain t where t: "now = Some t" "\<not> poisoned" by auto
  let ?s = "windows_of (prune t (ct_rtt c))"
  obtain D' fib' where st: "steer_all upd del fl itw ?s (ct_rib c) (Rib_nlris (itr (ct_rib c))) (ct_descent c, ct_fib c) = Some (D', fib')"
    and c': "ct_rib c' = ct_rib c" "ct_fib c' = fib'"
    using assms(4) t by (auto simp: steer_fib_def snapshot_def Let_def)
  have q: "windows_bounded ?s"
    using windows_of_avg [OF queues_le_prune assms(3)] assms(2) by (auto simp: windows_bounded_def ctl_inv_def)
  have ns: "set (Rib_nlris (itr (ct_rib c))) \<subseteq> set (Rib_nlris (ct_rib c))"
    using iteration_orderD(2) [OF itr] by (simp add: Rib_nlris_def)
  show ?thesis
    using steer_all_agrees [OF assms(1) _ _ q ns st] assms(2) c' by (simp add: ctl_inv_def)
qed

lemma run_agrees:
  assumes "ctl_inv look k c" "k + length evs < 2 ^ 32" "agree_inv look ok S A (ct_rib c, ct_fib c)"
    "list_all (event_within S A) evs"
  shows "\<exists>c'. controller_run upd del fl itr itw evs c = Some c' \<and> agree_inv look ok S A (ct_rib c', ct_fib c')"
  using assms
proof (induction evs arbitrary: c k)
  case (Cons ev evs)
  have mono: "ctl_inv look (Suc k) c"
    using Cons.prems(1) by (auto simp: ctl_inv_def queues_le_mono)
  show ?case
  proof (cases ev)
    case (SteeringTick now poisoned)
    then obtain c' where c': "steer_fib upd del fl itr itw now poisoned c = Some c'" "ctl_inv look (Suc k) c'"
      using steer_fib_inv [OF mono, of now poisoned] Cons.prems(2) by auto
    have "agree_inv look ok S A (ct_rib c', ct_fib c')"
      using steer_fib_agrees [OF Cons.prems(3) mono _ c'(1)] Cons.prems(2) by simp
    then show ?thesis using SteeringTick c' Cons.IH [of "Suc k" c'] Cons.prems(2,4) by simp
  next
    case (BgpUpdate u)
    then show ?thesis
      using Cons.IH [of "Suc k" "handle_update upd del (the u) c"] handle_update_inv [OF mono]
        handle_update_agrees [OF Cons.prems(3), of "the u"] Cons.prems(2-4)
      by (cases u) (auto simp: event_within_def)
  next
    case (RttObserved now poisoned e)
    then have "ctl_inv look (Suc k) (c\<lparr> ct_rtt := snd (observe now poisoned e (ct_rtt c)) \<rparr>)"
      using Cons.prems(1) by (auto simp: ctl_inv_def queues_le_observe rtt_wf_observe)
    then show ?thesis using RttObserved Cons.IH [of "Suc k"] Cons.prems(2-4) by auto
  qed (use Cons.prems in auto)
qed auto

end

section \<open>Properties\<close>

text \<open>
  C1. Whatever arrives, the controller keeps running and the data plane keeps valid entries: for every
  sequence of fewer than \<open>2^32\<close> events (updates, ticks with clock or lock failures, RTT
  observations), any iteration order of its hash maps and any rounding within the IEEE bounds, the
  loop does not panic, and every entry that a lookup can return has one to four nexthops with
  positive weights that sum to 10000 and is stored under the prefix it names.
\<close>

theorem controller_run_safe:
  assumes "bpf_map upd del look" "f64_rounding fl" "iteration_order itr" "iteration_order itw"
    "fib_sound look fib" "length evs < 2 ^ 32"
  shows "\<exists>c'. controller_run upd del fl itr itw evs (Controller_new fib) = Some c' \<and>
    rib_wf (ct_rib c') \<and> descent_wf (ct_descent c') \<and> rtt_wf (ct_rtt c') \<and> fib_sound look (ct_fib c')"
proof -
  have c: "controller upd del look fl itr itw"
    using assms(1-4) by (simp add: controller_def controller_axioms_def)
  have "ctl_inv look 0 (Controller_new fib)"
    using assms(5) by (simp add: ctl_inv_def Controller_new_def rib_wf_def descent_wf_def queues_le_def)
  with controller.run_inv [OF c, of 0] assms(6) show ?thesis
    by (fastforce simp: ctl_inv_def)
qed

text \<open>
  C2. The forwarding map implements the routing table: with an empty map to begin with, room for the
  prefixes in use, prefixes that are distinct as trie keys and fewer than \<open>2^32\<close> events, whatever the
  events are the data plane has an entry for a prefix exactly when the table has a route for it, and
  the entry has the first four nexthops of the prefix. It has no others if no two paths of that
  prefix were announced through one nexthop; otherwise it may keep a stale one.
\<close>

theorem fib_implements_rib:
  assumes "bpf_map_sized upd del look ok cap" "f64_rounding fl" "iteration_order itr" "iteration_order itw"
    "ok fib" "\<forall>k. look fib k = None" "finite S" "card S \<le> cap" "inj_on (\<lambda>n. lpm_key (CNlri_from n)) S"
    "list_all (event_within S A) evs" "length evs < 2 ^ 32"
  shows "\<exists>c'. controller_run upd del fl itr itw evs (Controller_new fib) = Some c' \<and>
    (\<forall>n \<in> S. fib_agrees (paths_unique A n) look (ct_rib c') (ct_fib c') n)"
proof -
  have m: "bpf_map upd del look" using assms(1) by (simp add: bpf_map_sized_def)
  have c: "controller upd del look fl itr itw"
    using m assms(2-4) by (simp add: controller_def controller_axioms_def)
  have r: "controller_room upd del look fl itr itw ok cap S"
    using c assms(1,7-9) by (simp add: controller_room_def controller_room_axioms_def)
  have "ctl_inv look 0 (Controller_new fib)"
    using assms(6) by (simp add: ctl_inv_def Controller_new_def rib_wf_def descent_wf_def queues_le_def fib_sound_def)
  moreover have "agree_inv look ok S A (ct_rib (Controller_new fib), ct_fib (Controller_new fib))"
    using assms(5,6) by (simp add: agree_inv_def rib_within_def map_within_def Controller_new_def rib_wf_def
        Rib_nlris_def Rib_lookup_def fib_agrees_iff Rib_nexthops_def)
  ultimately show ?thesis
    using controller_room.run_agrees [OF r, where A = A and k = 0 and c = "Controller_new fib" and evs = evs] assms(10,11) by (auto simp: agree_inv_def)
qed

section \<open>A concrete run\<close>

text \<open>Two paths for one prefix, a tick, the loss of one path, and another tick.\<close>

definition demo_net :: Nlri where
  "demo_net = NetV6 42540766411282592856903984951653826560 32"

definition demo_route :: "u32 \<Rightarrow> Route" where
  "demo_route p = \<lparr> rt_path_id = Some p, rt_nlri = demo_net \<rparr>"

definition demo_events :: "ctl_event list" where
  "demo_events =
     [BgpUpdate (Some \<lparr> up_announcements =
          [\<lparr> an_routes = [demo_route 1], an_nexthop = IpV6 1 \<rparr>, \<lparr> an_routes = [demo_route 2], an_nexthop = IpV6 2 \<rparr>],
          up_withdrawals = [] \<rparr>),
      SteeringTick (Some 1000000000) False,
      BgpUpdate (Some \<lparr> up_announcements = [], up_withdrawals = [demo_route 1] \<rparr>),
      SteeringTick None False, SteeringTick (Some 2000000000) False]"

interpretation demo_room: controller_room e_fib_update e_fib_delete e_fib_look round_f64 "\<lambda>m. m" "\<lambda>m. m"
    e_fib_ok e_fib_max_entries "{demo_net}" "{(demo_net, Some 1, IpV6 1), (demo_net, Some 2, IpV6 2)}"
  by unfold_locales (simp_all add: e_fib_max_entries_def)

theorem controller_run_safe_witness:
  "\<exists>c'. controller_run e_fib_update e_fib_delete round_f64 (\<lambda>m. m) (\<lambda>m. m) demo_events (Controller_new []) = Some c' \<and>
    rib_wf (ct_rib c') \<and> descent_wf (ct_descent c') \<and> rtt_wf (ct_rtt c') \<and> fib_sound e_fib_look (ct_fib c')"
  by (rule controller_run_safe [OF e_fib.bpf_map_axioms f64.f64_rounding_axioms iteration_order_id iteration_order_id])
     (simp_all add: fib_sound_def e_fib_look_def demo_events_def)

theorem fib_implements_rib_witness:
  "\<exists>c'. controller_run e_fib_update e_fib_delete round_f64 (\<lambda>m. m) (\<lambda>m. m) demo_events (Controller_new []) = Some c' \<and>
    fib_agrees True e_fib_look (ct_rib c') (ct_fib c') demo_net"
proof -
  let ?A = "{(demo_net, Some 1, IpV6 1), (demo_net, Some 2, IpV6 2)}"
  have u: "paths_unique ?A demo_net" by (simp add: paths_unique_def)
  have "\<exists>c'. controller_run e_fib_update e_fib_delete round_f64 (\<lambda>m. m) (\<lambda>m. m) demo_events (Controller_new []) = Some c' \<and>
      (\<forall>n \<in> {demo_net}. fib_agrees (paths_unique ?A n) e_fib_look (ct_rib c') (ct_fib c') n)"
  by (rule fib_implements_rib [OF e_fib_sized.bpf_map_sized_axioms f64.f64_rounding_axioms iteration_order_id iteration_order_id])
     (simp_all add: e_fib_look_def e_fib_ok_def e_fib_max_entries_def demo_events_def
        event_within_def update_within_def demo_route_def)
  then show ?thesis using u by simp
qed

end
