(* ===== verification/Nlri_Types.thy ===== *)
theory Nlri_Types
  imports Bpf_Abi
begin

text \<open>
  The reachability information of the address families that BGP carries
  (\<open>src/netgauze/bgp-pkt/src/nlri/nlri.rs\<close>): labels, route distinguishers, labelled next hops, unicast
  and multicast networks, labelled and VPN networks, Ethernet VPN routes and route target memberships.
  A network is its address and prefix length, and an array of octets is the list of them.
\<close>

unbundle bit_operations_syntax

section \<open>Labels and route distinguishers\<close>

type_synonym MplsLabel = bytes

definition is_bottom :: "MplsLabel \<Rightarrow> bool" where
  "is_bottom label \<longleftrightarrow> label ! 2 AND 0x01 = 0x01"

definition is_unreach_compatibility :: "MplsLabel \<Rightarrow> bool" where
  "is_unreach_compatibility label \<longleftrightarrow> label ! 0 = 0x80 \<and> label ! 1 = 0x00 \<and> label ! 2 = 0x00"

datatype RouteDistinguisher =
    As2Administrator u16 u32
  | Ipv4Administrator ipv4addr u16
  | As4Administrator u32 u16
  | LeafAdRoutes

text \<open>\<open>From<RouteDistinguisher> for u64\<close>\<close>

fun RouteDistinguisher_into_u64 :: "RouteDistinguisher \<Rightarrow> u64" where
  "RouteDistinguisher_into_u64 (As2Administrator asn2 number) =
     push_bit 48 (ucast (0 :: u16)) OR push_bit 32 (ucast asn2) OR ucast number"
| "RouteDistinguisher_into_u64 (Ipv4Administrator ip number) =
     push_bit 48 (ucast (1 :: u16)) OR push_bit 16 (ucast ip) OR ucast number"
| "RouteDistinguisher_into_u64 (As4Administrator asn4 number) =
     push_bit 48 (ucast (2 :: u16)) OR push_bit 16 (ucast asn4) OR ucast number"
| "RouteDistinguisher_into_u64 LeafAdRoutes = - 1"

section \<open>Next hops\<close>

record LabeledIpv4NextHop =
  l4_rd :: RouteDistinguisher
  l4_next_hop :: ipv4addr

record LabeledIpv6NextHop =
  l6_rd :: RouteDistinguisher
  l6_next_hop :: ipv6addr
  l6_next_hop_local :: "ipv6addr option"

datatype LabeledNextHop = Labeled_Ipv4 LabeledIpv4NextHop | Labeled_Ipv6 LabeledIpv6NextHop

fun labeled_next_hop :: "LabeledNextHop \<Rightarrow> IpAddr" where
  "labeled_next_hop (Labeled_Ipv4 nh) = IpV4 (l4_next_hop nh)"
| "labeled_next_hop (Labeled_Ipv6 nh) = IpV6 (l6_next_hop nh)"

fun labeled_rd :: "LabeledNextHop \<Rightarrow> RouteDistinguisher" where
  "labeled_rd (Labeled_Ipv4 nh) = l4_rd nh"
| "labeled_rd (Labeled_Ipv6 nh) = l6_rd nh"

section \<open>Networks\<close>

record Ipv4UnicastAddress =
  v4_path_id :: "u32 option"
  v4_network :: "ipv4addr \<times> u8"

record Ipv6UnicastAddress =
  v6_path_id :: "u32 option"
  v6_network :: "ipv6addr \<times> u8"

record Ipv4MulticastAddress =
  m4_path_id :: "u32 option"
  m4_network :: "ipv4addr \<times> u8"

record Ipv6MulticastAddress =
  m6_path_id :: "u32 option"
  m6_network :: "ipv6addr \<times> u8"

record Ipv4MplsVpnUnicastAddress =
  vpn4_path_id :: "u32 option"
  vpn4_rd :: RouteDistinguisher
  vpn4_label_stack :: "MplsLabel list"
  vpn4_network :: "ipv4addr \<times> u8"

record Ipv6MplsVpnUnicastAddress =
  vpn6_path_id :: "u32 option"
  vpn6_rd :: RouteDistinguisher
  vpn6_label_stack :: "MplsLabel list"
  vpn6_network :: "ipv6addr \<times> u8"

record Ipv4NlriMplsLabelsAddress =
  ml4_path_id :: "u32 option"
  ml4_labels :: "MplsLabel list"
  ml4_prefix :: "ipv4addr \<times> u8"

record Ipv6NlriMplsLabelsAddress =
  ml6_path_id :: "u32 option"
  ml6_labels :: "MplsLabel list"
  ml6_prefix :: "ipv6addr \<times> u8"

text \<open>\<open>Ipv4NlriMplsLabelsAddress::from\<close> and its IPv6 counterpart refuse a stack of labels that is too long.\<close>

definition Ipv4NlriMplsLabelsAddress_from ::
    "u32 option \<Rightarrow> MplsLabel list \<Rightarrow> ipv4addr \<times> u8 \<Rightarrow> nat + Ipv4NlriMplsLabelsAddress" where
  "Ipv4NlriMplsLabelsAddress_from path_id labels prefix =
     (if length labels * 24 + unat (snd prefix) > 255 then Inl (length labels)
      else Inr \<lparr> ml4_path_id = path_id, ml4_labels = labels, ml4_prefix = prefix \<rparr>)"

definition Ipv6NlriMplsLabelsAddress_from ::
    "u32 option \<Rightarrow> MplsLabel list \<Rightarrow> ipv6addr \<times> u8 \<Rightarrow> nat + Ipv6NlriMplsLabelsAddress" where
  "Ipv6NlriMplsLabelsAddress_from path_id labels prefix =
     (if length labels * 24 + unat (snd prefix) > 255 then Inl (length labels)
      else Inr \<lparr> ml6_path_id = path_id, ml6_labels = labels, ml6_prefix = prefix \<rparr>)"

section \<open>Ethernet VPN\<close>

type_synonym EthernetSegmentIdentifier = bytes
type_synonym EthernetTag = u32
type_synonym MacAddress = bytes

record EthernetAutoDiscovery =
  ead_rd :: RouteDistinguisher
  ead_segment_id :: EthernetSegmentIdentifier
  ead_tag :: EthernetTag
  ead_mpls_label :: MplsLabel

record MacIpAdvertisement =
  mia_rd :: RouteDistinguisher
  mia_segment_id :: EthernetSegmentIdentifier
  mia_tag :: EthernetTag
  mia_mac :: MacAddress
  mia_ip :: "IpAddr option"
  mia_mpls_label1 :: MplsLabel
  mia_mpls_label2 :: "MplsLabel option"

record InclusiveMulticastEthernetTagRoute =
  imr_rd :: RouteDistinguisher
  imr_tag :: EthernetTag
  imr_ip :: IpAddr

record EthernetSegmentRoute =
  esr_rd :: RouteDistinguisher
  esr_segment_id :: EthernetSegmentIdentifier
  esr_ip :: IpAddr

record L2EvpnIpv4PrefixRoute =
  pr4_rd :: RouteDistinguisher
  pr4_segment_id :: EthernetSegmentIdentifier
  pr4_tag :: EthernetTag
  pr4_prefix :: "ipv4addr \<times> u8"
  pr4_gateway :: ipv4addr
  pr4_label :: MplsLabel

record L2EvpnIpv6PrefixRoute =
  pr6_rd :: RouteDistinguisher
  pr6_segment_id :: EthernetSegmentIdentifier
  pr6_tag :: EthernetTag
  pr6_prefix :: "ipv6addr \<times> u8"
  pr6_gateway :: ipv6addr
  pr6_label :: MplsLabel

datatype L2EvpnIpPrefixRoute = Evpn_V4 L2EvpnIpv4PrefixRoute | Evpn_V6 L2EvpnIpv6PrefixRoute

datatype L2EvpnRoute =
    Evpn_EthernetAutoDiscovery EthernetAutoDiscovery
  | Evpn_MacIpAdvertisement MacIpAdvertisement
  | Evpn_InclusiveMulticastEthernetTagRoute InclusiveMulticastEthernetTagRoute
  | Evpn_EthernetSegmentRoute EthernetSegmentRoute
  | Evpn_IpPrefixRoute L2EvpnIpPrefixRoute
  | Evpn_Unknown u8 bytes

record L2EvpnAddress =
  evpn_path_id :: "u32 option"
  evpn_route :: L2EvpnRoute

section \<open>Route target memberships\<close>

record RouteTargetMembership =
  rtm_origin_as :: u32
  rtm_route_target :: bytes

record RouteTargetMembershipAddress =
  rta_path_id :: "u32 option"
  rta_membership :: "RouteTargetMembership option"

end
