(* ===== verification/Community_Types.thy ===== *)
theory Community_Types
  imports Nlri_Types
begin

text \<open>
  Communities (\<open>src/netgauze/bgp-pkt/src/community.rs\<close>): plain, large and extended ones, with the
  properties \<open>iana_defined\<close> and \<open>transitive\<close> of the extended communities. A value of six or eighteen
  octets is a list of octets.
\<close>

section \<open>Plain and large communities\<close>

definition collection_asn :: "u32 \<Rightarrow> u16" where
  "collection_asn c = ucast (drop_bit 16 c AND 0xffff)"

definition collection_value :: "u32 \<Rightarrow> u16" where
  "collection_value c = ucast (c AND 0x0000ffff)"

definition LargeCommunity_to_bytes :: "u32 \<times> u32 \<times> u32 \<Rightarrow> bytes" where
  "LargeCommunity_to_bytes = (\<lambda>(global_admin, local_data1, local_data2).
     to_be_bytes global_admin @ to_be_bytes local_data1 @ to_be_bytes local_data2)"

section \<open>Extended communities\<close>

datatype (plugins only: code size) TransitiveTwoOctetExtendedCommunity =
    T2_RouteTarget u16 u32
  | T2_RouteOrigin u16 u32
  | T2_OspfDomainIdentifier u16 u32
  | T2_BgpDataCollection u16 u32
  | T2_SourceAs u16 u32
  | T2_L2VpnIdentifier u16 u32
  | T2_CiscoVpnDistinguisher u16 u32
  | T2_RouteTargetRecord u16 u32
  | T2_RtDerivedEc u16 u32
  | T2_VirtualNetworkIdentifier u16 u32
  | T2_Unassigned u8 u16 u32

datatype (plugins only: code size) NonTransitiveTwoOctetExtendedCommunity =
    NT2_LinkBandwidth u16 u32
  | NT2_VirtualNetworkIdentifier u16 u32
  | NT2_Unassigned u8 u16 u32

datatype (plugins only: code size) TransitiveIpv4ExtendedCommunity =
    TI4_RouteTarget ipv4addr u16
  | TI4_RouteOrigin ipv4addr u16
  | TI4_Ipv4Ifit ipv4addr u16
  | TI4_OspfDomainIdentifier ipv4addr u16
  | TI4_OspfRouteID ipv4addr u16
  | TI4_NodeTarget ipv4addr u16
  | TI4_L2VpnIdentifier ipv4addr u16
  | TI4_VrfRouteImport ipv4addr u16
  | TI4_FlowSpecRedirectToIpv4 ipv4addr u16
  | TI4_CiscoVpnDistinguisher ipv4addr u16
  | TI4_InterAreaP2MpSegmentedNextHop ipv4addr u16
  | TI4_RouteTargetRecord ipv4addr u16
  | TI4_VrfRecursiveNextHop ipv4addr u16
  | TI4_RtDerivedEc ipv4addr u16
  | TI4_MulticastVpnRpAddress ipv4addr u16
  | TI4_Unassigned u8 ipv4addr u16

datatype (plugins only: code size) NonTransitiveIpv4ExtendedCommunity =
    NTI4_Unassigned u8 ipv4addr u16

datatype (plugins only: code size) TransitiveFourOctetExtendedCommunity =
    T4_RouteTarget u32 u16
  | T4_RouteOrigin u32 u16
  | T4_OspfDomainIdentifier u32 u16
  | T4_BgpDataCollection u32 u16
  | T4_SourceAs u32 u16
  | T4_CiscoVpnDistinguisher u32 u16
  | T4_RouteTargetRecord u32 u16
  | T4_RtDerivedEc u32 u16
  | T4_Unassigned u8 u32 u16

datatype (plugins only: code size) NonTransitiveFourOctetExtendedCommunity =
    NT4_Unassigned u8 u32 u16

datatype (plugins only: code size) TransitiveIpv6ExtendedCommunity =
    TI6_RouteTarget ipv6addr u16
  | TI6_RouteOrigin ipv6addr u16
  | TI6_Ipv6Ifit ipv6addr u16
  | TI6_VrfRouteImport ipv6addr u16
  | TI6_FlowSpecRedirectToIpv6 ipv6addr u16
  | TI6_FlowSpecRtRedirectToIpv6 ipv6addr u16
  | TI6_CiscoVpnDistinguisher ipv6addr u16
  | TI6_InterAreaP2MpSegmentedNextHop ipv6addr u16
  | TI6_RtDerivedEc ipv6addr u16
  | TI6_Unassigned u8 ipv6addr u16

datatype (plugins only: code size) NonTransitiveIpv6ExtendedCommunity =
    NTI6_Unassigned u8 ipv6addr u16

datatype (plugins only: code size) TransitiveOpaqueExtendedCommunity = TO_DefaultGateway | TO_Unassigned u8 bytes

datatype (plugins only: code size) NonTransitiveOpaqueExtendedCommunity = NTO_Unassigned u8 bytes

datatype (plugins only: code size) EvpnExtendedCommunity =
    EV_MacMobility u8 u32
  | EV_EsiLabel u8 bytes
  | EV_EsImportRouteTarget bytes
  | EV_EvpnRoutersMac MacAddress
  | EV_EvpnL2Attribute u16 u16
  | EV_Unassigned u8 bytes

text \<open>The code, the subtype and the value of communities of other types.\<close>

record UnknownExtendedCommunity =
  uc_code :: u8
  uc_sub_type :: u8
  uc_value :: bytes

type_synonym ExperimentalExtendedCommunity = UnknownExtendedCommunity
type_synonym UnknownExtendedCommunityIpv6 = UnknownExtendedCommunity

datatype (plugins only: code size) ExtendedCommunity =
    EC_TransitiveTwoOctet TransitiveTwoOctetExtendedCommunity
  | EC_NonTransitiveTwoOctet NonTransitiveTwoOctetExtendedCommunity
  | EC_TransitiveIpv4 TransitiveIpv4ExtendedCommunity
  | EC_NonTransitiveIpv4 NonTransitiveIpv4ExtendedCommunity
  | EC_TransitiveFourOctet TransitiveFourOctetExtendedCommunity
  | EC_NonTransitiveFourOctet NonTransitiveFourOctetExtendedCommunity
  | EC_TransitiveOpaque TransitiveOpaqueExtendedCommunity
  | EC_NonTransitiveOpaque NonTransitiveOpaqueExtendedCommunity
  | EC_Evpn EvpnExtendedCommunity
  | EC_Experimental ExperimentalExtendedCommunity
  | EC_Unknown UnknownExtendedCommunity

datatype (plugins only: code size) ExtendedCommunityIpv6 =
    EC6_TransitiveIpv6 TransitiveIpv6ExtendedCommunity
  | EC6_NonTransitiveIpv6 NonTransitiveIpv6ExtendedCommunity
  | EC6_Unknown UnknownExtendedCommunityIpv6

section \<open>Properties\<close>

definition unknown_iana_defined :: "UnknownExtendedCommunity \<Rightarrow> bool" where
  "unknown_iana_defined c \<longleftrightarrow> uc_code c AND 0x80 \<noteq> 0"

definition unknown_transitive :: "UnknownExtendedCommunity \<Rightarrow> bool" where
  "unknown_transitive c \<longleftrightarrow> uc_code c AND 0x40 = 0"

fun ExtendedCommunity_iana_defined :: "ExtendedCommunity \<Rightarrow> bool" where
  "ExtendedCommunity_iana_defined (EC_TransitiveTwoOctet _) = True"
| "ExtendedCommunity_iana_defined (EC_NonTransitiveTwoOctet _) = True"
| "ExtendedCommunity_iana_defined (EC_TransitiveIpv4 _) = True"
| "ExtendedCommunity_iana_defined (EC_NonTransitiveIpv4 _) = True"
| "ExtendedCommunity_iana_defined (EC_TransitiveFourOctet _) = True"
| "ExtendedCommunity_iana_defined (EC_NonTransitiveFourOctet _) = True"
| "ExtendedCommunity_iana_defined (EC_TransitiveOpaque _) = True"
| "ExtendedCommunity_iana_defined (EC_NonTransitiveOpaque _) = True"
| "ExtendedCommunity_iana_defined (EC_Evpn _) = True"
| "ExtendedCommunity_iana_defined (EC_Experimental c) = unknown_iana_defined c"
| "ExtendedCommunity_iana_defined (EC_Unknown c) = unknown_iana_defined c"

fun ExtendedCommunityIpv6_iana_defined :: "ExtendedCommunityIpv6 \<Rightarrow> bool" where
  "ExtendedCommunityIpv6_iana_defined (EC6_TransitiveIpv6 _) = True"
| "ExtendedCommunityIpv6_iana_defined (EC6_NonTransitiveIpv6 _) = True"
| "ExtendedCommunityIpv6_iana_defined (EC6_Unknown c) = unknown_iana_defined c"

fun ExtendedCommunity_transitive :: "ExtendedCommunity \<Rightarrow> bool" where
  "ExtendedCommunity_transitive (EC_TransitiveTwoOctet _) = True"
| "ExtendedCommunity_transitive (EC_NonTransitiveTwoOctet _) = False"
| "ExtendedCommunity_transitive (EC_TransitiveIpv4 _) = True"
| "ExtendedCommunity_transitive (EC_NonTransitiveIpv4 _) = False"
| "ExtendedCommunity_transitive (EC_TransitiveFourOctet _) = True"
| "ExtendedCommunity_transitive (EC_NonTransitiveFourOctet _) = True"
| "ExtendedCommunity_transitive (EC_TransitiveOpaque _) = False"
| "ExtendedCommunity_transitive (EC_NonTransitiveOpaque _) = False"
| "ExtendedCommunity_transitive (EC_Evpn _) = True"
| "ExtendedCommunity_transitive (EC_Experimental c) = unknown_transitive c"
| "ExtendedCommunity_transitive (EC_Unknown c) = unknown_transitive c"

fun ExtendedCommunityIpv6_transitive :: "ExtendedCommunityIpv6 \<Rightarrow> bool" where
  "ExtendedCommunityIpv6_transitive (EC6_TransitiveIpv6 _) = True"
| "ExtendedCommunityIpv6_transitive (EC6_NonTransitiveIpv6 _) = False"
| "ExtendedCommunityIpv6_transitive (EC6_Unknown c) = unknown_transitive c"

end
