(* ===== verification/Link_State_Types.thy ===== *)
theory Link_State_Types
  imports Nlri_Types
begin

text \<open>
  The networks and the attribute of BGP-LS and the prefix segment identifiers: the types of
  \<open>nlri/bgp_ls.rs\<close>, \<open>path_attribute/bgp_ls.rs\<close> and \<open>path_attribute/bgp_sid.rs\<close> under
  \<open>src/netgauze/bgp-pkt/src\<close>, and the registries of \<open>iana.rs\<close> that number them. An \<open>f32\<close> is its bit pattern,
  which is what the wire format carries, a \<open>String\<close> its octets, and an array of octets the list of them.
\<close>

unbundle bit_operations_syntax

section \<open>Registries\<close>

datatype (plugins only: code size) BgpLsNlriType =
    LNT_Node | LNT_Link | LNT_Ipv4TopologyPrefix | LNT_Ipv6TopologyPrefix | LNT_TePolicy | LNT_Srv6Sid

fun BgpLsNlriType_into_u16 :: "BgpLsNlriType \<Rightarrow> u16" where
  "BgpLsNlriType_into_u16 LNT_Node = 1"
| "BgpLsNlriType_into_u16 LNT_Link = 2"
| "BgpLsNlriType_into_u16 LNT_Ipv4TopologyPrefix = 3"
| "BgpLsNlriType_into_u16 LNT_Ipv6TopologyPrefix = 4"
| "BgpLsNlriType_into_u16 LNT_TePolicy = 5"
| "BgpLsNlriType_into_u16 LNT_Srv6Sid = 6"

datatype (plugins only: code size) BgpLsProtocolId =
    LPI_IsIsLevel1 | LPI_IsIsLevel2 | LPI_OspfV2 | LPI_Direct | LPI_StaticConfiguration | LPI_OspfV3 | LPI_Bgp
    | LPI_RsvpTe | LPI_SegmentRouting

fun BgpLsProtocolId_into_u8 :: "BgpLsProtocolId \<Rightarrow> u8" where
  "BgpLsProtocolId_into_u8 LPI_IsIsLevel1 = 1"
| "BgpLsProtocolId_into_u8 LPI_IsIsLevel2 = 2"
| "BgpLsProtocolId_into_u8 LPI_OspfV2 = 3"
| "BgpLsProtocolId_into_u8 LPI_Direct = 4"
| "BgpLsProtocolId_into_u8 LPI_StaticConfiguration = 5"
| "BgpLsProtocolId_into_u8 LPI_OspfV3 = 6"
| "BgpLsProtocolId_into_u8 LPI_Bgp = 7"
| "BgpLsProtocolId_into_u8 LPI_RsvpTe = 8"
| "BgpLsProtocolId_into_u8 LPI_SegmentRouting = 9"

datatype (plugins only: code size) BgpLsNodeDescriptorType =
    LND_LocalNodeDescriptor | LND_RemoteNodeDescriptor

fun BgpLsNodeDescriptorType_into_u16 :: "BgpLsNodeDescriptorType \<Rightarrow> u16" where
  "BgpLsNodeDescriptorType_into_u16 LND_LocalNodeDescriptor = 256"
| "BgpLsNodeDescriptorType_into_u16 LND_RemoteNodeDescriptor = 257"

datatype (plugins only: code size) BgpLsNodeDescriptorSubType =
    LNS_AutonomousSystem | LNS_BgpLsIdentifier | LNS_OspfAreaId | LNS_IgpRouterId | LNS_BgpRouterIdentifier
    | LNS_MemberAsNumber

fun BgpLsNodeDescriptorSubType_into_u16 :: "BgpLsNodeDescriptorSubType \<Rightarrow> u16" where
  "BgpLsNodeDescriptorSubType_into_u16 LNS_AutonomousSystem = 512"
| "BgpLsNodeDescriptorSubType_into_u16 LNS_BgpLsIdentifier = 513"
| "BgpLsNodeDescriptorSubType_into_u16 LNS_OspfAreaId = 514"
| "BgpLsNodeDescriptorSubType_into_u16 LNS_IgpRouterId = 515"
| "BgpLsNodeDescriptorSubType_into_u16 LNS_BgpRouterIdentifier = 516"
| "BgpLsNodeDescriptorSubType_into_u16 LNS_MemberAsNumber = 517"

datatype (plugins only: code size) BgpLsPrefixDescriptorType =
    LPD_MultiTopologyIdentifier | LPD_OspfRouteType | LPD_IpReachabilityInformation

fun BgpLsPrefixDescriptorType_into_u16 :: "BgpLsPrefixDescriptorType \<Rightarrow> u16" where
  "BgpLsPrefixDescriptorType_into_u16 LPD_MultiTopologyIdentifier = 263"
| "BgpLsPrefixDescriptorType_into_u16 LPD_OspfRouteType = 264"
| "BgpLsPrefixDescriptorType_into_u16 LPD_IpReachabilityInformation = 265"

datatype (plugins only: code size) BgpLsLinkDescriptorType =
    LLD_LinkLocalRemoteIdentifiers | LLD_IPv4InterfaceAddress | LLD_IPv4NeighborAddress
    | LLD_IPv6InterfaceAddress | LLD_IPv6NeighborAddress | LLD_MultiTopologyIdentifier

fun BgpLsLinkDescriptorType_into_u16 :: "BgpLsLinkDescriptorType \<Rightarrow> u16" where
  "BgpLsLinkDescriptorType_into_u16 LLD_LinkLocalRemoteIdentifiers = 258"
| "BgpLsLinkDescriptorType_into_u16 LLD_IPv4InterfaceAddress = 259"
| "BgpLsLinkDescriptorType_into_u16 LLD_IPv4NeighborAddress = 260"
| "BgpLsLinkDescriptorType_into_u16 LLD_IPv6InterfaceAddress = 261"
| "BgpLsLinkDescriptorType_into_u16 LLD_IPv6NeighborAddress = 262"
| "BgpLsLinkDescriptorType_into_u16 LLD_MultiTopologyIdentifier = 263"

datatype (plugins only: code size) BgpLsDescriptorTlvType =
    LDT_LocalNodeDescriptor | LDT_RemoteNodeDescriptor | LDT_MultiTopologyIdentifier | LDT_OspfRouteType
    | LDT_IpReachabilityInformation | LDT_LinkLocalRemoteIdentifiers | LDT_IPv4InterfaceAddress
    | LDT_IPv4NeighborAddress | LDT_IPv6InterfaceAddress | LDT_IPv6NeighborAddress

fun BgpLsDescriptorTlvType_into_u16 :: "BgpLsDescriptorTlvType \<Rightarrow> u16" where
  "BgpLsDescriptorTlvType_into_u16 LDT_LocalNodeDescriptor = 256"
| "BgpLsDescriptorTlvType_into_u16 LDT_RemoteNodeDescriptor = 257"
| "BgpLsDescriptorTlvType_into_u16 LDT_MultiTopologyIdentifier = 263"
| "BgpLsDescriptorTlvType_into_u16 LDT_OspfRouteType = 264"
| "BgpLsDescriptorTlvType_into_u16 LDT_IpReachabilityInformation = 265"
| "BgpLsDescriptorTlvType_into_u16 LDT_LinkLocalRemoteIdentifiers = 258"
| "BgpLsDescriptorTlvType_into_u16 LDT_IPv4InterfaceAddress = 259"
| "BgpLsDescriptorTlvType_into_u16 LDT_IPv4NeighborAddress = 260"
| "BgpLsDescriptorTlvType_into_u16 LDT_IPv6InterfaceAddress = 261"
| "BgpLsDescriptorTlvType_into_u16 LDT_IPv6NeighborAddress = 262"

datatype (plugins only: code size) BgpLsAttributeType =
    LAT_MultiTopologyIdentifier | LAT_NodeFlagBits | LAT_OpaqueNodeAttribute | LAT_NodeNameTlv | LAT_IsIsArea
    | LAT_LocalNodeIpv4RouterId | LAT_LocalNodeIpv6RouterId | LAT_RemoteNodeIpv4RouterId
    | LAT_RemoteNodeIpv6RouterId | LAT_RemoteNodeAdministrativeGroupColor | LAT_MaximumLinkBandwidth
    | LAT_MaximumReservableLinkBandwidth | LAT_UnreservedBandwidth | LAT_TeDefaultMetric
    | LAT_LinkProtectionType | LAT_MplsProtocolMask | LAT_IgpMetric | LAT_SharedRiskLinkGroup
    | LAT_OpaqueLinkAttribute | LAT_LinkName | LAT_IgpFlags | LAT_IgpRouteTag | LAT_IgpExtendedRouteTag
    | LAT_PrefixMetric | LAT_OspfForwardingAddress | LAT_OpaquePrefixAttribute | LAT_PeerNodeSid
    | LAT_PeerAdjSid | LAT_PeerSetSid

fun BgpLsAttributeType_into_u16 :: "BgpLsAttributeType \<Rightarrow> u16" where
  "BgpLsAttributeType_into_u16 LAT_MultiTopologyIdentifier = 263"
| "BgpLsAttributeType_into_u16 LAT_NodeFlagBits = 1024"
| "BgpLsAttributeType_into_u16 LAT_OpaqueNodeAttribute = 1025"
| "BgpLsAttributeType_into_u16 LAT_NodeNameTlv = 1026"
| "BgpLsAttributeType_into_u16 LAT_IsIsArea = 1027"
| "BgpLsAttributeType_into_u16 LAT_LocalNodeIpv4RouterId = 1028"
| "BgpLsAttributeType_into_u16 LAT_LocalNodeIpv6RouterId = 1029"
| "BgpLsAttributeType_into_u16 LAT_RemoteNodeIpv4RouterId = 1030"
| "BgpLsAttributeType_into_u16 LAT_RemoteNodeIpv6RouterId = 1031"
| "BgpLsAttributeType_into_u16 LAT_RemoteNodeAdministrativeGroupColor = 1088"
| "BgpLsAttributeType_into_u16 LAT_MaximumLinkBandwidth = 1089"
| "BgpLsAttributeType_into_u16 LAT_MaximumReservableLinkBandwidth = 1090"
| "BgpLsAttributeType_into_u16 LAT_UnreservedBandwidth = 1091"
| "BgpLsAttributeType_into_u16 LAT_TeDefaultMetric = 1092"
| "BgpLsAttributeType_into_u16 LAT_LinkProtectionType = 1093"
| "BgpLsAttributeType_into_u16 LAT_MplsProtocolMask = 1094"
| "BgpLsAttributeType_into_u16 LAT_IgpMetric = 1095"
| "BgpLsAttributeType_into_u16 LAT_SharedRiskLinkGroup = 1096"
| "BgpLsAttributeType_into_u16 LAT_OpaqueLinkAttribute = 1097"
| "BgpLsAttributeType_into_u16 LAT_LinkName = 1098"
| "BgpLsAttributeType_into_u16 LAT_IgpFlags = 1152"
| "BgpLsAttributeType_into_u16 LAT_IgpRouteTag = 1153"
| "BgpLsAttributeType_into_u16 LAT_IgpExtendedRouteTag = 1154"
| "BgpLsAttributeType_into_u16 LAT_PrefixMetric = 1155"
| "BgpLsAttributeType_into_u16 LAT_OspfForwardingAddress = 1156"
| "BgpLsAttributeType_into_u16 LAT_OpaquePrefixAttribute = 1157"
| "BgpLsAttributeType_into_u16 LAT_PeerNodeSid = 1101"
| "BgpLsAttributeType_into_u16 LAT_PeerAdjSid = 1102"
| "BgpLsAttributeType_into_u16 LAT_PeerSetSid = 1103"

datatype (plugins only: code size) BgpLsNodeAttributeType =
    LNA_MultiTopologyIdentifier | LNA_NodeFlagBits | LNA_OpaqueNodeAttribute | LNA_NodeNameTlv | LNA_IsIsArea
    | LNA_LocalNodeIpv4RouterId | LNA_LocalNodeIpv6RouterId

fun BgpLsNodeAttributeType_into_u16 :: "BgpLsNodeAttributeType \<Rightarrow> u16" where
  "BgpLsNodeAttributeType_into_u16 LNA_MultiTopologyIdentifier = 263"
| "BgpLsNodeAttributeType_into_u16 LNA_NodeFlagBits = 1024"
| "BgpLsNodeAttributeType_into_u16 LNA_OpaqueNodeAttribute = 1025"
| "BgpLsNodeAttributeType_into_u16 LNA_NodeNameTlv = 1026"
| "BgpLsNodeAttributeType_into_u16 LNA_IsIsArea = 1027"
| "BgpLsNodeAttributeType_into_u16 LNA_LocalNodeIpv4RouterId = 1028"
| "BgpLsNodeAttributeType_into_u16 LNA_LocalNodeIpv6RouterId = 1029"

datatype (plugins only: code size) BgpLsLinkAttributeType =
    LLA_LocalNodeIpv4RouterId | LLA_LocalNodeIpv6RouterId | LLA_RemoteNodeIpv4RouterId
    | LLA_RemoteNodeIpv6RouterId | LLA_RemoteNodeAdministrativeGroupColor | LLA_MaximumLinkBandwidth
    | LLA_MaximumReservableLinkBandwidth | LLA_UnreservedBandwidth | LLA_TeDefaultMetric
    | LLA_LinkProtectionType | LLA_MplsProtocolMask | LLA_IgpMetric | LLA_SharedRiskLinkGroup
    | LLA_OpaqueLinkAttribute | LLA_LinkName

fun BgpLsLinkAttributeType_into_u16 :: "BgpLsLinkAttributeType \<Rightarrow> u16" where
  "BgpLsLinkAttributeType_into_u16 LLA_LocalNodeIpv4RouterId = 1028"
| "BgpLsLinkAttributeType_into_u16 LLA_LocalNodeIpv6RouterId = 1029"
| "BgpLsLinkAttributeType_into_u16 LLA_RemoteNodeIpv4RouterId = 1030"
| "BgpLsLinkAttributeType_into_u16 LLA_RemoteNodeIpv6RouterId = 1031"
| "BgpLsLinkAttributeType_into_u16 LLA_RemoteNodeAdministrativeGroupColor = 1088"
| "BgpLsLinkAttributeType_into_u16 LLA_MaximumLinkBandwidth = 1089"
| "BgpLsLinkAttributeType_into_u16 LLA_MaximumReservableLinkBandwidth = 1090"
| "BgpLsLinkAttributeType_into_u16 LLA_UnreservedBandwidth = 1091"
| "BgpLsLinkAttributeType_into_u16 LLA_TeDefaultMetric = 1092"
| "BgpLsLinkAttributeType_into_u16 LLA_LinkProtectionType = 1093"
| "BgpLsLinkAttributeType_into_u16 LLA_MplsProtocolMask = 1094"
| "BgpLsLinkAttributeType_into_u16 LLA_IgpMetric = 1095"
| "BgpLsLinkAttributeType_into_u16 LLA_SharedRiskLinkGroup = 1096"
| "BgpLsLinkAttributeType_into_u16 LLA_OpaqueLinkAttribute = 1097"
| "BgpLsLinkAttributeType_into_u16 LLA_LinkName = 1098"

datatype (plugins only: code size) BgpLsPrefixAttributeType =
    LPA_IgpFlags | LPA_IgpRouteTag | LPA_IgpExtendedRouteTag | LPA_PrefixMetric | LPA_OspfForwardingAddress
    | LPA_OpaquePrefixAttribute

fun BgpLsPrefixAttributeType_into_u16 :: "BgpLsPrefixAttributeType \<Rightarrow> u16" where
  "BgpLsPrefixAttributeType_into_u16 LPA_IgpFlags = 1152"
| "BgpLsPrefixAttributeType_into_u16 LPA_IgpRouteTag = 1153"
| "BgpLsPrefixAttributeType_into_u16 LPA_IgpExtendedRouteTag = 1154"
| "BgpLsPrefixAttributeType_into_u16 LPA_PrefixMetric = 1155"
| "BgpLsPrefixAttributeType_into_u16 LPA_OspfForwardingAddress = 1156"
| "BgpLsPrefixAttributeType_into_u16 LPA_OpaquePrefixAttribute = 1157"

datatype (plugins only: code size) BgpLsSidAttributeFlags =
    LSF_ValueFlag | LSF_LocalFlag | LSF_BackupFlag | LSF_PersistentFlag

fun BgpLsSidAttributeFlags_into_u8 :: "BgpLsSidAttributeFlags \<Rightarrow> u8" where
  "BgpLsSidAttributeFlags_into_u8 LSF_ValueFlag = 128"
| "BgpLsSidAttributeFlags_into_u8 LSF_LocalFlag = 64"
| "BgpLsSidAttributeFlags_into_u8 LSF_BackupFlag = 32"
| "BgpLsSidAttributeFlags_into_u8 LSF_PersistentFlag = 16"

datatype (plugins only: code size) BgpLsNodeFlagsBits =
    LNF_Overload | LNF_Attached | LNF_External | LNF_Abr | LNF_Router | LNF_V6

fun BgpLsNodeFlagsBits_into_u8 :: "BgpLsNodeFlagsBits \<Rightarrow> u8" where
  "BgpLsNodeFlagsBits_into_u8 LNF_Overload = 128"
| "BgpLsNodeFlagsBits_into_u8 LNF_Attached = 64"
| "BgpLsNodeFlagsBits_into_u8 LNF_External = 32"
| "BgpLsNodeFlagsBits_into_u8 LNF_Abr = 16"
| "BgpLsNodeFlagsBits_into_u8 LNF_Router = 8"
| "BgpLsNodeFlagsBits_into_u8 LNF_V6 = 4"

datatype (plugins only: code size) BgpSidAttributeType =
    SAT_LabelIndex | SAT_Originator | SAT_SRv6ServiceL3 | SAT_SRv6ServiceL2

fun BgpSidAttributeType_into_u8 :: "BgpSidAttributeType \<Rightarrow> u8" where
  "BgpSidAttributeType_into_u8 SAT_LabelIndex = 1"
| "BgpSidAttributeType_into_u8 SAT_Originator = 3"
| "BgpSidAttributeType_into_u8 SAT_SRv6ServiceL3 = 5"
| "BgpSidAttributeType_into_u8 SAT_SRv6ServiceL2 = 6"

datatype (plugins only: code size) BgpSrv6ServiceSubTlvType =
    SST_SRv6SIDInformation

fun BgpSrv6ServiceSubTlvType_into_u8 :: "BgpSrv6ServiceSubTlvType \<Rightarrow> u8" where
  "BgpSrv6ServiceSubTlvType_into_u8 SST_SRv6SIDInformation = 1"

datatype (plugins only: code size) BgpSrv6ServiceSubSubTlvType =
    SSST_SRv6SIDStructure

fun BgpSrv6ServiceSubSubTlvType_into_u8 :: "BgpSrv6ServiceSubSubTlvType \<Rightarrow> u8" where
  "BgpSrv6ServiceSubSubTlvType_into_u8 SSST_SRv6SIDStructure = 1"

datatype (plugins only: code size) OspfRouteType =
    ORT_IntraArea | ORT_InterArea | ORT_External1 | ORT_External2 | ORT_Nssa1 | ORT_Nssa2

fun OspfRouteType_into_u8 :: "OspfRouteType \<Rightarrow> u8" where
  "OspfRouteType_into_u8 ORT_IntraArea = 1"
| "OspfRouteType_into_u8 ORT_InterArea = 2"
| "OspfRouteType_into_u8 ORT_External1 = 3"
| "OspfRouteType_into_u8 ORT_External2 = 4"
| "OspfRouteType_into_u8 ORT_Nssa1 = 5"
| "OspfRouteType_into_u8 ORT_Nssa2 = 6"

datatype (plugins only: code size) MplsProtocolMask =
    MPM_LabelDistributionProtocol | MPM_ExtensionToRsvpForLspTunnels

fun MplsProtocolMask_into_u8 :: "MplsProtocolMask \<Rightarrow> u8" where
  "MplsProtocolMask_into_u8 MPM_LabelDistributionProtocol = 128"
| "MplsProtocolMask_into_u8 MPM_ExtensionToRsvpForLspTunnels = 64"

datatype (plugins only: code size) IgpFlags =
    IGF_IsIsUp | IGF_OspfNoUnicast | IGF_OspfLocalAddress | IGF_OspfPropagateNssa

fun IgpFlags_into_u8 :: "IgpFlags \<Rightarrow> u8" where
  "IgpFlags_into_u8 IGF_IsIsUp = 128"
| "IgpFlags_into_u8 IGF_OspfNoUnicast = 64"
| "IgpFlags_into_u8 IGF_OspfLocalAddress = 32"
| "IgpFlags_into_u8 IGF_OspfPropagateNssa = 16"

datatype (plugins only: code size) LinkProtectionType =
    LPT_ExtraTraffic | LPT_Unprotected | LPT_Shared | LPT_Dedicated1c1 | LPT_Dedicated1p1 | LPT_Enhanced

fun LinkProtectionType_into_u8 :: "LinkProtectionType \<Rightarrow> u8" where
  "LinkProtectionType_into_u8 LPT_ExtraTraffic = 1"
| "LinkProtectionType_into_u8 LPT_Unprotected = 2"
| "LinkProtectionType_into_u8 LPT_Shared = 4"
| "LinkProtectionType_into_u8 LPT_Dedicated1c1 = 8"
| "LinkProtectionType_into_u8 LPT_Dedicated1p1 = 16"
| "LinkProtectionType_into_u8 LPT_Enhanced = 32"

section \<open>Networks\<close>

text \<open>The reader drops the four reserved bits (\<open>From<u16>\<close>); the constructors check the range of the protocol.\<close>

type_synonym MultiTopologyId = u16
type_synonym MultiTopologyIdData = "MultiTopologyId list"

datatype BgpLsMtIdError = OspfMtIdInvalidValue MultiTopologyId | IsIsMtIdInvalidValue MultiTopologyId

definition MultiTopologyId_new_ospf :: "u8 \<Rightarrow> BgpLsMtIdError + MultiTopologyId" where
  "MultiTopologyId_new_ospf mtid = (if mtid > 127 then Inl (OspfMtIdInvalidValue (ucast mtid)) else Inr (ucast mtid))"

definition MultiTopologyId_new_isis :: "u16 \<Rightarrow> BgpLsMtIdError + MultiTopologyId" where
  "MultiTopologyId_new_isis mtid = (if mtid = 0 \<or> mtid > 4095 then Inl (IsIsMtIdInvalidValue mtid) else Inr mtid)"

definition MultiTopologyId_from :: "u16 \<Rightarrow> MultiTopologyId" where
  "MultiTopologyId_from v = v AND NOT (push_bit 12 0xF)"

definition most_significant_bytes :: "u8 \<Rightarrow> nat" where
  "most_significant_bytes prefix_len = (if prefix_len = 0 then 0 else 1 + (unat prefix_len - 1) div 8)"

datatype (plugins only: code size) BgpLsNodeDescriptorSubTlv =
    NDS_AutonomousSystem u32
  | NDS_BgpLsIdentifier u32
  | NDS_OspfAreaId u32
  | NDS_IgpRouterId bytes
  | NDS_BgpRouterIdentifier u32
  | NDS_MemberAsNumber u32
  | NDS_Unknown u16 bytes

fun BgpLsNodeDescriptorSubTlv_code :: "BgpLsNodeDescriptorSubTlv \<Rightarrow> u16 + BgpLsNodeDescriptorSubType" where
  "BgpLsNodeDescriptorSubTlv_code (NDS_AutonomousSystem _) = Inr LNS_AutonomousSystem"
| "BgpLsNodeDescriptorSubTlv_code (NDS_BgpLsIdentifier _) = Inr LNS_BgpLsIdentifier"
| "BgpLsNodeDescriptorSubTlv_code (NDS_OspfAreaId _) = Inr LNS_OspfAreaId"
| "BgpLsNodeDescriptorSubTlv_code (NDS_IgpRouterId _) = Inr LNS_IgpRouterId"
| "BgpLsNodeDescriptorSubTlv_code (NDS_BgpRouterIdentifier _) = Inr LNS_BgpRouterIdentifier"
| "BgpLsNodeDescriptorSubTlv_code (NDS_MemberAsNumber _) = Inr LNS_MemberAsNumber"
| "BgpLsNodeDescriptorSubTlv_code (NDS_Unknown code _) = Inl code"

text \<open>\<open>raw_code\<close>: the number of a known code, or the unknown one\<close>

definition raw_code :: "('t \<Rightarrow> 'w) \<Rightarrow> 'w + 't \<Rightarrow> 'w" where
  "raw_code into c = (case c of Inr t \<Rightarrow> into t | Inl code \<Rightarrow> code)"

type_synonym BgpLsNodeDescriptors = "BgpLsNodeDescriptorSubTlv list"

datatype (plugins only: code size) BgpLsLinkDescriptor =
    LD_LinkLocalRemoteIdentifiers u32 u32
  | LD_IPv4InterfaceAddress ipv4addr
  | LD_IPv4NeighborAddress ipv4addr
  | LD_IPv6InterfaceAddress ipv6addr
  | LD_IPv6NeighborAddress ipv6addr
  | LD_MultiTopologyIdentifier MultiTopologyIdData
  | LD_Unknown u16 bytes

fun BgpLsLinkDescriptor_code :: "BgpLsLinkDescriptor \<Rightarrow> u16 + BgpLsLinkDescriptorType" where
  "BgpLsLinkDescriptor_code (LD_LinkLocalRemoteIdentifiers _ _) = Inr LLD_LinkLocalRemoteIdentifiers"
| "BgpLsLinkDescriptor_code (LD_IPv4InterfaceAddress _) = Inr LLD_IPv4InterfaceAddress"
| "BgpLsLinkDescriptor_code (LD_IPv4NeighborAddress _) = Inr LLD_IPv4NeighborAddress"
| "BgpLsLinkDescriptor_code (LD_IPv6InterfaceAddress _) = Inr LLD_IPv6InterfaceAddress"
| "BgpLsLinkDescriptor_code (LD_IPv6NeighborAddress _) = Inr LLD_IPv6NeighborAddress"
| "BgpLsLinkDescriptor_code (LD_MultiTopologyIdentifier _) = Inr LLD_MultiTopologyIdentifier"
| "BgpLsLinkDescriptor_code (LD_Unknown code _) = Inl code"

datatype (plugins only: code size) BgpLsPrefixDescriptor =
    PD_MultiTopologyIdentifier MultiTopologyIdData
  | PD_OspfRouteType OspfRouteType
  | PD_IpReachabilityInformation IpNet
  | PD_Unknown u16 bytes

fun BgpLsPrefixDescriptor_code :: "BgpLsPrefixDescriptor \<Rightarrow> u16 + BgpLsPrefixDescriptorType" where
  "BgpLsPrefixDescriptor_code (PD_MultiTopologyIdentifier _) = Inr LPD_MultiTopologyIdentifier"
| "BgpLsPrefixDescriptor_code (PD_OspfRouteType _) = Inr LPD_OspfRouteType"
| "BgpLsPrefixDescriptor_code (PD_IpReachabilityInformation _) = Inr LPD_IpReachabilityInformation"
| "BgpLsPrefixDescriptor_code (PD_Unknown code _) = Inl code"

record BgpLsNlriNode =
  ln_protocol_id :: BgpLsProtocolId
  ln_identifier :: u64
  ln_local_node_descriptors :: BgpLsNodeDescriptors

record BgpLsNlriLink =
  ll_protocol_id :: BgpLsProtocolId
  ll_identifier :: u64
  ll_local_node_descriptors :: BgpLsNodeDescriptors
  ll_remote_node_descriptors :: BgpLsNodeDescriptors
  ll_link_descriptors :: "BgpLsLinkDescriptor list"

record BgpLsNlriIpPrefix =
  lp_protocol_id :: BgpLsProtocolId
  lp_identifier :: u64
  lp_local_node_descriptors :: BgpLsNodeDescriptors
  lp_prefix_descriptors :: "BgpLsPrefixDescriptor list"

datatype (plugins only: code size) BgpLsNlriValue =
    LsN_Node BgpLsNlriNode
  | LsN_Link BgpLsNlriLink
  | LsN_Ipv4Prefix BgpLsNlriIpPrefix
  | LsN_Ipv6Prefix BgpLsNlriIpPrefix
  | LsN_Unknown u16 bytes

fun BgpLsNlriValue_code :: "BgpLsNlriValue \<Rightarrow> u16 + BgpLsNlriType" where
  "BgpLsNlriValue_code (LsN_Node _) = Inr LNT_Node"
| "BgpLsNlriValue_code (LsN_Link _) = Inr LNT_Link"
| "BgpLsNlriValue_code (LsN_Ipv4Prefix _) = Inr LNT_Ipv4TopologyPrefix"
| "BgpLsNlriValue_code (LsN_Ipv6Prefix _) = Inr LNT_Ipv6TopologyPrefix"
| "BgpLsNlriValue_code (LsN_Unknown code _) = Inl code"

record BgpLsNlri =
  ls_path_id :: "u32 option"
  ls_value :: BgpLsNlriValue

record BgpLsVpnNlri =
  lsv_path_id :: "u32 option"
  lsv_rd :: RouteDistinguisher
  lsv_value :: BgpLsNlriValue

section \<open>The link-state attribute\<close>

type_synonym f32_bits = u32

datatype (plugins only: code size) BgpLsPeerSid =
    LabelValue u8 u8 MplsLabel
  | IndexValue u8 u8 u32

definition BgpLsPeerSid_new_label_value :: "u8 \<Rightarrow> u8 \<Rightarrow> MplsLabel \<Rightarrow> BgpLsPeerSid" where
  "BgpLsPeerSid_new_label_value flags weight label = LabelValue (flags OR BgpLsSidAttributeFlags_into_u8 LSF_ValueFlag) weight label"

definition BgpLsPeerSid_new_index_value :: "u8 \<Rightarrow> u8 \<Rightarrow> u32 \<Rightarrow> BgpLsPeerSid" where
  "BgpLsPeerSid_new_index_value flags weight index =
     IndexValue (flags AND NOT (BgpLsSidAttributeFlags_into_u8 LSF_ValueFlag)) weight index"

fun BgpLsPeerSid_flags :: "BgpLsPeerSid \<Rightarrow> u8" where
  "BgpLsPeerSid_flags (LabelValue flags _ _) = flags"
| "BgpLsPeerSid_flags (IndexValue flags _ _) = flags"

fun BgpLsPeerSid_weight :: "BgpLsPeerSid \<Rightarrow> u8" where
  "BgpLsPeerSid_weight (LabelValue _ weight _) = weight"
| "BgpLsPeerSid_weight (IndexValue _ weight _) = weight"

text \<open>\<open>flags_have_v_flag\<close>, \<open>flags_have_l_flag\<close>, \<open>flags_have_b_flag\<close> and \<open>flags_have_p_flag\<close>\<close>

definition flags_have :: "BgpLsSidAttributeFlags \<Rightarrow> u8 \<Rightarrow> bool" where
  "flags_have f flags \<longleftrightarrow> flags AND BgpLsSidAttributeFlags_into_u8 f = BgpLsSidAttributeFlags_into_u8 f"

datatype (plugins only: code size) BgpLsAttributeValue =
    LSA_LocalNodeIpv4RouterId ipv4addr
  | LSA_LocalNodeIpv6RouterId ipv6addr
  | LSA_RemoteNodeIpv4RouterId ipv4addr
  | LSA_RemoteNodeIpv6RouterId ipv6addr
  | LSA_RemoteNodeAdministrativeGroupColor u32
  | LSA_MaximumLinkBandwidth f32_bits
  | LSA_MaximumReservableLinkBandwidth f32_bits
  | LSA_UnreservedBandwidth "f32_bits list"
  | LSA_TeDefaultMetric u32
  | LSA_LinkProtectionType bool bool bool bool bool bool
  | LSA_MplsProtocolMask bool bool
  | LSA_IgpMetric bytes
  | LSA_SharedRiskLinkGroup "u32 list"
  | LSA_OpaqueLinkAttribute bytes
  | LSA_LinkName bytes
  | LSA_IgpFlags bool bool bool bool
  | LSA_IgpRouteTag "u32 list"
  | LSA_IgpExtendedRouteTag "u64 list"
  | LSA_PrefixMetric u32
  | LSA_OspfForwardingAddress IpAddr
  | LSA_OpaquePrefixAttribute bytes
  | LSA_MultiTopologyIdentifier MultiTopologyIdData
  | LSA_NodeFlagBits bool bool bool bool bool bool
  | LSA_OpaqueNodeAttribute bytes
  | LSA_NodeNameTlv bytes
  | LSA_IsIsArea bytes
  | LSA_PeerNodeSid BgpLsPeerSid
  | LSA_PeerAdjSid BgpLsPeerSid
  | LSA_PeerSetSid BgpLsPeerSid
  | LSA_Unknown u16 bytes

definition NODE_NAME_TLV_MAX_LEN :: u8 where
  "NODE_NAME_TLV_MAX_LEN = 255"

fun BgpLsAttributeValue_code :: "BgpLsAttributeValue \<Rightarrow> u16 + BgpLsAttributeType" where
  "BgpLsAttributeValue_code (LSA_LocalNodeIpv4RouterId _) = Inr LAT_LocalNodeIpv4RouterId"
| "BgpLsAttributeValue_code (LSA_LocalNodeIpv6RouterId _) = Inr LAT_LocalNodeIpv6RouterId"
| "BgpLsAttributeValue_code (LSA_RemoteNodeIpv4RouterId _) = Inr LAT_RemoteNodeIpv4RouterId"
| "BgpLsAttributeValue_code (LSA_RemoteNodeIpv6RouterId _) = Inr LAT_RemoteNodeIpv6RouterId"
| "BgpLsAttributeValue_code (LSA_RemoteNodeAdministrativeGroupColor _) = Inr LAT_RemoteNodeAdministrativeGroupColor"
| "BgpLsAttributeValue_code (LSA_MaximumLinkBandwidth _) = Inr LAT_MaximumLinkBandwidth"
| "BgpLsAttributeValue_code (LSA_MaximumReservableLinkBandwidth _) = Inr LAT_MaximumReservableLinkBandwidth"
| "BgpLsAttributeValue_code (LSA_UnreservedBandwidth _) = Inr LAT_UnreservedBandwidth"
| "BgpLsAttributeValue_code (LSA_TeDefaultMetric _) = Inr LAT_TeDefaultMetric"
| "BgpLsAttributeValue_code (LSA_LinkProtectionType _ _ _ _ _ _) = Inr LAT_LinkProtectionType"
| "BgpLsAttributeValue_code (LSA_MplsProtocolMask _ _) = Inr LAT_MplsProtocolMask"
| "BgpLsAttributeValue_code (LSA_IgpMetric _) = Inr LAT_IgpMetric"
| "BgpLsAttributeValue_code (LSA_SharedRiskLinkGroup _) = Inr LAT_SharedRiskLinkGroup"
| "BgpLsAttributeValue_code (LSA_OpaqueLinkAttribute _) = Inr LAT_OpaqueLinkAttribute"
| "BgpLsAttributeValue_code (LSA_LinkName _) = Inr LAT_LinkName"
| "BgpLsAttributeValue_code (LSA_IgpFlags _ _ _ _) = Inr LAT_IgpFlags"
| "BgpLsAttributeValue_code (LSA_IgpRouteTag _) = Inr LAT_IgpRouteTag"
| "BgpLsAttributeValue_code (LSA_IgpExtendedRouteTag _) = Inr LAT_IgpExtendedRouteTag"
| "BgpLsAttributeValue_code (LSA_PrefixMetric _) = Inr LAT_PrefixMetric"
| "BgpLsAttributeValue_code (LSA_OspfForwardingAddress _) = Inr LAT_OspfForwardingAddress"
| "BgpLsAttributeValue_code (LSA_OpaquePrefixAttribute _) = Inr LAT_OpaquePrefixAttribute"
| "BgpLsAttributeValue_code (LSA_MultiTopologyIdentifier _) = Inr LAT_MultiTopologyIdentifier"
| "BgpLsAttributeValue_code (LSA_NodeFlagBits _ _ _ _ _ _) = Inr LAT_NodeFlagBits"
| "BgpLsAttributeValue_code (LSA_OpaqueNodeAttribute _) = Inr LAT_OpaqueNodeAttribute"
| "BgpLsAttributeValue_code (LSA_NodeNameTlv _) = Inr LAT_NodeNameTlv"
| "BgpLsAttributeValue_code (LSA_IsIsArea _) = Inr LAT_IsIsArea"
| "BgpLsAttributeValue_code (LSA_PeerNodeSid _) = Inr LAT_PeerNodeSid"
| "BgpLsAttributeValue_code (LSA_PeerAdjSid _) = Inr LAT_PeerAdjSid"
| "BgpLsAttributeValue_code (LSA_PeerSetSid _) = Inr LAT_PeerSetSid"
| "BgpLsAttributeValue_code (LSA_Unknown code _) = Inl code"

record BgpLsAttribute =
  lsa_attributes :: "BgpLsAttributeValue list"

section \<open>Prefix segment identifiers\<close>

record SegmentRoutingGlobalBlock =
  srgb_first_label :: MplsLabel
  srgb_range_size :: bytes

datatype (plugins only: code size) SRv6ServiceSubSubTlv =
    SRv6SIDStructure u8 u8 u8 u8 u8 u8
  | SubSub_Unknown u8 bytes

fun SRv6ServiceSubSubTlv_code :: "SRv6ServiceSubSubTlv \<Rightarrow> u8 + BgpSrv6ServiceSubSubTlvType" where
  "SRv6ServiceSubSubTlv_code (SRv6SIDStructure _ _ _ _ _ _) = Inr SSST_SRv6SIDStructure"
| "SRv6ServiceSubSubTlv_code (SubSub_Unknown code _) = Inl code"

datatype (plugins only: code size) SRv6ServiceSubTlv =
    SRv6SIDInformation u8 ipv6addr u8 u16 u8 "SRv6ServiceSubSubTlv list"
  | Sub_Unknown u8 bytes

fun SRv6ServiceSubTlv_code :: "SRv6ServiceSubTlv \<Rightarrow> u8 + BgpSrv6ServiceSubTlvType" where
  "SRv6ServiceSubTlv_code (SRv6SIDInformation _ _ _ _ _ _) = Inr SST_SRv6SIDInformation"
| "SRv6ServiceSubTlv_code (Sub_Unknown code _) = Inl code"

datatype (plugins only: code size) BgpSidAttribute =
    Sid_LabelIndex u16 u32
  | Sid_Originator u16 "SegmentRoutingGlobalBlock list"
  | Sid_SRv6ServiceL3 u8 "SRv6ServiceSubTlv list"
  | Sid_SRv6ServiceL2 u8 "SRv6ServiceSubTlv list"
  | Sid_Unknown u8 bytes

fun BgpSidAttribute_code :: "BgpSidAttribute \<Rightarrow> u8 + BgpSidAttributeType" where
  "BgpSidAttribute_code (Sid_LabelIndex _ _) = Inr SAT_LabelIndex"
| "BgpSidAttribute_code (Sid_Originator _ _) = Inr SAT_Originator"
| "BgpSidAttribute_code (Sid_SRv6ServiceL3 _ _) = Inr SAT_SRv6ServiceL3"
| "BgpSidAttribute_code (Sid_SRv6ServiceL2 _ _) = Inr SAT_SRv6ServiceL2"
| "BgpSidAttribute_code (Sid_Unknown code _) = Inl code"

record PrefixSegmentIdentifier =
  psi_tlvs :: "BgpSidAttribute list"

section \<open>Laws of the types\<close>

text \<open>The flags of a peer segment say whether it carries a label or an index.\<close>

lemma peer_sid_new_flags:
  "flags_have LSF_ValueFlag (BgpLsPeerSid_flags (BgpLsPeerSid_new_label_value flags weight label))"
  "\<not> flags_have LSF_ValueFlag (BgpLsPeerSid_flags (BgpLsPeerSid_new_index_value flags weight index))"
  "f \<noteq> LSF_ValueFlag \<Longrightarrow> flags_have f (BgpLsPeerSid_flags (BgpLsPeerSid_new_label_value flags weight label)) = flags_have f flags"
  "f \<noteq> LSF_ValueFlag \<Longrightarrow> flags_have f (BgpLsPeerSid_flags (BgpLsPeerSid_new_index_value flags weight index)) = flags_have f flags"
proof -
  have m: "flags_have f w \<longleftrightarrow> bit w (case f of LSF_ValueFlag \<Rightarrow> 7 | LSF_LocalFlag \<Rightarrow> 6 | LSF_BackupFlag \<Rightarrow> 5 | LSF_PersistentFlag \<Rightarrow> 4)" for f w
  proof -
    have "w AND 2 ^ n = 2 ^ n \<longleftrightarrow> bit w n" if "n < 8" for n
    proof (cases "bit w n")
      case True
      then show ?thesis by (intro iffI bit_word_eqI) (auto simp: bit_simps)
    next
      case False
      then have "w AND 2 ^ n = 0" by (simp add: and_exp_eq_0_iff_not_bit)
      moreover have "(2 ^ n :: u8) \<noteq> 0" using that by simp
      ultimately show ?thesis using False by simp
    qed
    from this [of 7] this [of 6] this [of 5] this [of 4] show ?thesis by (cases f) (simp_all add: flags_have_def)
  qed
  have v: "BgpLsSidAttributeFlags_into_u8 LSF_ValueFlag = 2 ^ 7" by simp
  show "flags_have LSF_ValueFlag (BgpLsPeerSid_flags (BgpLsPeerSid_new_label_value flags weight label))"
    "\<not> flags_have LSF_ValueFlag (BgpLsPeerSid_flags (BgpLsPeerSid_new_index_value flags weight index))"
    "f \<noteq> LSF_ValueFlag \<Longrightarrow> flags_have f (BgpLsPeerSid_flags (BgpLsPeerSid_new_label_value flags weight label)) = flags_have f flags"
    "f \<noteq> LSF_ValueFlag \<Longrightarrow> flags_have f (BgpLsPeerSid_flags (BgpLsPeerSid_new_index_value flags weight index)) = flags_have f flags"
    unfolding BgpLsPeerSid_new_label_value_def BgpLsPeerSid_new_index_value_def BgpLsPeerSid_flags.simps m v
    by (cases f; simp add: bit_simps)+
qed

text \<open>The topology identifiers that the constructors accept have no reserved bit set.\<close>

lemma topology_id_bits: "MultiTopologyId_from v = take_bit 12 v"
proof -
  have "(NOT (push_bit 12 0xF) :: u16) = mask 12" by (simp add: mask_eq_exp_minus_1)
  then show ?thesis by (simp only: MultiTopologyId_from_def take_bit_eq_mask)
qed

lemma topology_id_plain: "unat v < 4096 \<Longrightarrow> MultiTopologyId_from v = v"
  by (simp add: topology_id_bits word_unat_eq_iff unsigned_take_bit_eq take_bit_nat_eq_self_iff)

lemma topology_id_new:
  "MultiTopologyId_new_ospf a = Inr v \<Longrightarrow> MultiTopologyId_from v = v"
  "MultiTopologyId_new_isis b = Inr v \<Longrightarrow> MultiTopologyId_from v = v"
proof -
  have "unat (ucast a :: u16) = unat a" using unat_u8_less [of a] by (simp add: unsigned_ucast_eq take_bit_nat_eq_self_iff)
  then show "MultiTopologyId_new_ospf a = Inr v \<Longrightarrow> MultiTopologyId_from v = v"
    using unat_u8_less [of a] by (intro topology_id_plain) (auto simp: MultiTopologyId_new_ospf_def split: if_splits)
  show "MultiTopologyId_new_isis b = Inr v \<Longrightarrow> MultiTopologyId_from v = v"
    by (intro topology_id_plain) (auto simp: MultiTopologyId_new_isis_def word_less_nat_alt split: if_splits)
qed

end
