(* ===== verification/Iana_Address_Family.thy ===== *)
theory Iana_Address_Family
  imports Prelude
begin

text \<open>
  Address families (\<open>src/netgauze/iana/src/address_family.rs\<close>): the AFI and SAFI registries with
  their numeric codes, and the combinations of the two that the speaker understands.
\<close>

section \<open>Address families\<close>

datatype (plugins only: code size) AddressFamily =
    AFI_IPv4 | AFI_IPv6 | AFI_Nsap | AFI_Hdlc | AFI_BBN1822 | AFI_IEEE802 | AFI_E163 | AFI_E164
    | AFI_F69 | AFI_FrameRelay | AFI_IPX | AFI_AppleTalk | AFI_DecnetIv | AFI_BanyanVines
    | AFI_E164Nsap | AFI_DNS | AFI_DistinguishedName | AFI_ASNumber | AFI_XtpIpv4 | AFI_XtpIpv6
    | AFI_XTPNative | AFI_FiberPortName | AFI_FiberNodeName | AFI_Gwid | AFI_L2vpn
    | AFI_MplsTpSectionEndpointId | AFI_MplsTpLspEndpointId | AFI_MplsTpPseudowireEndpointId
    | AFI_MpIpv4 | AFI_MpIpv6 | AFI_BgpSfc | AFI_EigrpCommonServiceFamily | AFI_EigrpIpv4
    | AFI_EigrpIpv6 | AFI_LispCanonicalAddressFormat | AFI_BgpLs | AFI_Mac48Bit | AFI_Mac64Bit
    | AFI_OUI | AFI_MacSlash24 | AFI_MacSlash40 | AFI_Ipv6Slash64 | AFI_RBridgePortID
    | AFI_TrillNickname | AFI_Uuid | AFI_RoutingPolicyAfi | AFI_MplsNamespaces

fun AddressFamily_into_u16 :: "AddressFamily \<Rightarrow> u16" where
  "AddressFamily_into_u16 AFI_IPv4 = 1"
| "AddressFamily_into_u16 AFI_IPv6 = 2"
| "AddressFamily_into_u16 AFI_Nsap = 3"
| "AddressFamily_into_u16 AFI_Hdlc = 4"
| "AddressFamily_into_u16 AFI_BBN1822 = 5"
| "AddressFamily_into_u16 AFI_IEEE802 = 6"
| "AddressFamily_into_u16 AFI_E163 = 7"
| "AddressFamily_into_u16 AFI_E164 = 8"
| "AddressFamily_into_u16 AFI_F69 = 9"
| "AddressFamily_into_u16 AFI_FrameRelay = 10"
| "AddressFamily_into_u16 AFI_IPX = 11"
| "AddressFamily_into_u16 AFI_AppleTalk = 12"
| "AddressFamily_into_u16 AFI_DecnetIv = 13"
| "AddressFamily_into_u16 AFI_BanyanVines = 14"
| "AddressFamily_into_u16 AFI_E164Nsap = 15"
| "AddressFamily_into_u16 AFI_DNS = 16"
| "AddressFamily_into_u16 AFI_DistinguishedName = 17"
| "AddressFamily_into_u16 AFI_ASNumber = 18"
| "AddressFamily_into_u16 AFI_XtpIpv4 = 19"
| "AddressFamily_into_u16 AFI_XtpIpv6 = 20"
| "AddressFamily_into_u16 AFI_XTPNative = 21"
| "AddressFamily_into_u16 AFI_FiberPortName = 22"
| "AddressFamily_into_u16 AFI_FiberNodeName = 23"
| "AddressFamily_into_u16 AFI_Gwid = 24"
| "AddressFamily_into_u16 AFI_L2vpn = 25"
| "AddressFamily_into_u16 AFI_MplsTpSectionEndpointId = 26"
| "AddressFamily_into_u16 AFI_MplsTpLspEndpointId = 27"
| "AddressFamily_into_u16 AFI_MplsTpPseudowireEndpointId = 28"
| "AddressFamily_into_u16 AFI_MpIpv4 = 29"
| "AddressFamily_into_u16 AFI_MpIpv6 = 30"
| "AddressFamily_into_u16 AFI_BgpSfc = 31"
| "AddressFamily_into_u16 AFI_EigrpCommonServiceFamily = 16384"
| "AddressFamily_into_u16 AFI_EigrpIpv4 = 16385"
| "AddressFamily_into_u16 AFI_EigrpIpv6 = 16386"
| "AddressFamily_into_u16 AFI_LispCanonicalAddressFormat = 16387"
| "AddressFamily_into_u16 AFI_BgpLs = 16388"
| "AddressFamily_into_u16 AFI_Mac48Bit = 16389"
| "AddressFamily_into_u16 AFI_Mac64Bit = 16390"
| "AddressFamily_into_u16 AFI_OUI = 16391"
| "AddressFamily_into_u16 AFI_MacSlash24 = 16392"
| "AddressFamily_into_u16 AFI_MacSlash40 = 16393"
| "AddressFamily_into_u16 AFI_Ipv6Slash64 = 16394"
| "AddressFamily_into_u16 AFI_RBridgePortID = 16395"
| "AddressFamily_into_u16 AFI_TrillNickname = 16396"
| "AddressFamily_into_u16 AFI_Uuid = 16397"
| "AddressFamily_into_u16 AFI_RoutingPolicyAfi = 16398"
| "AddressFamily_into_u16 AFI_MplsNamespaces = 16399"

definition AddressFamily_all :: "AddressFamily list" where
  "AddressFamily_all = [AFI_IPv4, AFI_IPv6, AFI_Nsap, AFI_Hdlc, AFI_BBN1822, AFI_IEEE802, AFI_E163, AFI_E164
    , AFI_F69, AFI_FrameRelay, AFI_IPX, AFI_AppleTalk, AFI_DecnetIv, AFI_BanyanVines
    , AFI_E164Nsap, AFI_DNS, AFI_DistinguishedName, AFI_ASNumber, AFI_XtpIpv4, AFI_XtpIpv6
    , AFI_XTPNative, AFI_FiberPortName, AFI_FiberNodeName, AFI_Gwid, AFI_L2vpn
    , AFI_MplsTpSectionEndpointId, AFI_MplsTpLspEndpointId, AFI_MplsTpPseudowireEndpointId
    , AFI_MpIpv4, AFI_MpIpv6, AFI_BgpSfc, AFI_EigrpCommonServiceFamily, AFI_EigrpIpv4
    , AFI_EigrpIpv6, AFI_LispCanonicalAddressFormat, AFI_BgpLs, AFI_Mac48Bit, AFI_Mac64Bit
    , AFI_OUI, AFI_MacSlash24, AFI_MacSlash40, AFI_Ipv6Slash64, AFI_RBridgePortID
    , AFI_TrillNickname, AFI_Uuid, AFI_RoutingPolicyAfi, AFI_MplsNamespaces]"

definition AddressFamily_from_repr :: "u16 \<Rightarrow> AddressFamily option" where
  "AddressFamily_from_repr v = find (\<lambda>a. AddressFamily_into_u16 a = v) AddressFamily_all"

definition AddressFamily_try_from :: "u16 \<Rightarrow> u16 + AddressFamily" where
  "AddressFamily_try_from v = (case AddressFamily_from_repr v of Some a \<Rightarrow> Inr a | None \<Rightarrow> Inl v)"

section \<open>Subsequent address families\<close>

datatype (plugins only: code size) SubsequentAddressFamily =
    SAFI_Unicast | SAFI_Multicast | SAFI_NlriMplsLabels | SAFI_McastVpn | SAFI_NlriMsp
    | SAFI_McastVpls | SAFI_BgpSfc | SAFI_Tunnel | SAFI_VPLS | SAFI_BgpMdtSafi | SAFI_Bgp4over6
    | SAFI_Bgp6over4 | SAFI_Layer1Vpn | SAFI_BgpEvpn | SAFI_BgpLs | SAFI_BgpLsVpn
    | SAFI_SrTePolicy | SAFI_SdnWan | SAFI_RoutingPolicy | SAFI_ClassfulTransport
    | SAFI_TunneledTrafficFlowSpec | SAFI_McastTree | SAFI_BgpDps | SAFI_MplsVpn
    | SAFI_MulticastBgpMplsVpn | SAFI_RouteTargetConstrains | SAFI_FlowSpecFilter
    | SAFI_FlowSpecFilterL3Vpn | SAFI_VpnAutoDiscovery | SAFI_PrivateUse241 | SAFI_PrivateUse242
    | SAFI_PrivateUse243 | SAFI_PrivateUse244 | SAFI_PrivateUse245 | SAFI_PrivateUse246
    | SAFI_PrivateUse247 | SAFI_PrivateUse248 | SAFI_PrivateUse249 | SAFI_PrivateUse250
    | SAFI_PrivateUse251 | SAFI_PrivateUse252 | SAFI_PrivateUse253 | SAFI_PrivateUse254

fun SubsequentAddressFamily_into_u8 :: "SubsequentAddressFamily \<Rightarrow> u8" where
  "SubsequentAddressFamily_into_u8 SAFI_Unicast = 1"
| "SubsequentAddressFamily_into_u8 SAFI_Multicast = 2"
| "SubsequentAddressFamily_into_u8 SAFI_NlriMplsLabels = 4"
| "SubsequentAddressFamily_into_u8 SAFI_McastVpn = 5"
| "SubsequentAddressFamily_into_u8 SAFI_NlriMsp = 6"
| "SubsequentAddressFamily_into_u8 SAFI_McastVpls = 8"
| "SubsequentAddressFamily_into_u8 SAFI_BgpSfc = 9"
| "SubsequentAddressFamily_into_u8 SAFI_Tunnel = 64"
| "SubsequentAddressFamily_into_u8 SAFI_VPLS = 65"
| "SubsequentAddressFamily_into_u8 SAFI_BgpMdtSafi = 66"
| "SubsequentAddressFamily_into_u8 SAFI_Bgp4over6 = 67"
| "SubsequentAddressFamily_into_u8 SAFI_Bgp6over4 = 68"
| "SubsequentAddressFamily_into_u8 SAFI_Layer1Vpn = 69"
| "SubsequentAddressFamily_into_u8 SAFI_BgpEvpn = 70"
| "SubsequentAddressFamily_into_u8 SAFI_BgpLs = 71"
| "SubsequentAddressFamily_into_u8 SAFI_BgpLsVpn = 72"
| "SubsequentAddressFamily_into_u8 SAFI_SrTePolicy = 73"
| "SubsequentAddressFamily_into_u8 SAFI_SdnWan = 74"
| "SubsequentAddressFamily_into_u8 SAFI_RoutingPolicy = 75"
| "SubsequentAddressFamily_into_u8 SAFI_ClassfulTransport = 76"
| "SubsequentAddressFamily_into_u8 SAFI_TunneledTrafficFlowSpec = 77"
| "SubsequentAddressFamily_into_u8 SAFI_McastTree = 78"
| "SubsequentAddressFamily_into_u8 SAFI_BgpDps = 79"
| "SubsequentAddressFamily_into_u8 SAFI_MplsVpn = 128"
| "SubsequentAddressFamily_into_u8 SAFI_MulticastBgpMplsVpn = 129"
| "SubsequentAddressFamily_into_u8 SAFI_RouteTargetConstrains = 132"
| "SubsequentAddressFamily_into_u8 SAFI_FlowSpecFilter = 133"
| "SubsequentAddressFamily_into_u8 SAFI_FlowSpecFilterL3Vpn = 134"
| "SubsequentAddressFamily_into_u8 SAFI_VpnAutoDiscovery = 140"
| "SubsequentAddressFamily_into_u8 SAFI_PrivateUse241 = 241"
| "SubsequentAddressFamily_into_u8 SAFI_PrivateUse242 = 242"
| "SubsequentAddressFamily_into_u8 SAFI_PrivateUse243 = 243"
| "SubsequentAddressFamily_into_u8 SAFI_PrivateUse244 = 244"
| "SubsequentAddressFamily_into_u8 SAFI_PrivateUse245 = 245"
| "SubsequentAddressFamily_into_u8 SAFI_PrivateUse246 = 246"
| "SubsequentAddressFamily_into_u8 SAFI_PrivateUse247 = 247"
| "SubsequentAddressFamily_into_u8 SAFI_PrivateUse248 = 248"
| "SubsequentAddressFamily_into_u8 SAFI_PrivateUse249 = 249"
| "SubsequentAddressFamily_into_u8 SAFI_PrivateUse250 = 250"
| "SubsequentAddressFamily_into_u8 SAFI_PrivateUse251 = 251"
| "SubsequentAddressFamily_into_u8 SAFI_PrivateUse252 = 252"
| "SubsequentAddressFamily_into_u8 SAFI_PrivateUse253 = 253"
| "SubsequentAddressFamily_into_u8 SAFI_PrivateUse254 = 254"

definition SubsequentAddressFamily_all :: "SubsequentAddressFamily list" where
  "SubsequentAddressFamily_all = [SAFI_Unicast, SAFI_Multicast, SAFI_NlriMplsLabels, SAFI_McastVpn, SAFI_NlriMsp
    , SAFI_McastVpls, SAFI_BgpSfc, SAFI_Tunnel, SAFI_VPLS, SAFI_BgpMdtSafi, SAFI_Bgp4over6
    , SAFI_Bgp6over4, SAFI_Layer1Vpn, SAFI_BgpEvpn, SAFI_BgpLs, SAFI_BgpLsVpn, SAFI_SrTePolicy
    , SAFI_SdnWan, SAFI_RoutingPolicy, SAFI_ClassfulTransport, SAFI_TunneledTrafficFlowSpec
    , SAFI_McastTree, SAFI_BgpDps, SAFI_MplsVpn, SAFI_MulticastBgpMplsVpn
    , SAFI_RouteTargetConstrains, SAFI_FlowSpecFilter, SAFI_FlowSpecFilterL3Vpn
    , SAFI_VpnAutoDiscovery, SAFI_PrivateUse241, SAFI_PrivateUse242, SAFI_PrivateUse243
    , SAFI_PrivateUse244, SAFI_PrivateUse245, SAFI_PrivateUse246, SAFI_PrivateUse247
    , SAFI_PrivateUse248, SAFI_PrivateUse249, SAFI_PrivateUse250, SAFI_PrivateUse251
    , SAFI_PrivateUse252, SAFI_PrivateUse253, SAFI_PrivateUse254]"

definition SubsequentAddressFamily_from_repr :: "u8 \<Rightarrow> SubsequentAddressFamily option" where
  "SubsequentAddressFamily_from_repr v =
     find (\<lambda>a. SubsequentAddressFamily_into_u8 a = v) SubsequentAddressFamily_all"

definition SubsequentAddressFamily_try_from :: "u8 \<Rightarrow> u8 + SubsequentAddressFamily" where
  "SubsequentAddressFamily_try_from v =
     (case SubsequentAddressFamily_from_repr v of Some a \<Rightarrow> Inr a | None \<Rightarrow> Inl v)"

section \<open>Address types\<close>

datatype (plugins only: code size) AddressType =
    AT_Ipv4Unicast | AT_Ipv4Multicast | AT_Ipv4MplsLabeledVpn | AT_Ipv4MulticastBgpMplsVpn
    | AT_Ipv4Bgp4over6 | AT_Ipv4FlowSpec | AT_Ipv4FlowSpecL3Vpn | AT_Ipv4NlriMplsLabels
    | AT_Ipv6Unicast | AT_Ipv6Multicast | AT_Ipv6MplsLabeledVpn | AT_Ipv6MulticastBgpMplsVpn
    | AT_Ipv6Bgp6over4 | AT_Ipv6FlowSpec | AT_Ipv6FlowSpecL3Vpn | AT_Ipv6NlriMplsLabels
    | AT_L2VpnBgpEvpn | AT_L2VpnVpls | AT_BgpLs | AT_BgpLsVpn | AT_RouteTargetConstrains

fun address_family :: "AddressType \<Rightarrow> AddressFamily" where
  "address_family AT_Ipv4Unicast = AFI_IPv4"
| "address_family AT_Ipv4Multicast = AFI_IPv4"
| "address_family AT_Ipv4MplsLabeledVpn = AFI_IPv4"
| "address_family AT_Ipv4MulticastBgpMplsVpn = AFI_IPv4"
| "address_family AT_Ipv4Bgp4over6 = AFI_IPv4"
| "address_family AT_Ipv4FlowSpec = AFI_IPv4"
| "address_family AT_Ipv4FlowSpecL3Vpn = AFI_IPv4"
| "address_family AT_Ipv4NlriMplsLabels = AFI_IPv4"
| "address_family AT_Ipv6Unicast = AFI_IPv6"
| "address_family AT_Ipv6Multicast = AFI_IPv6"
| "address_family AT_Ipv6MplsLabeledVpn = AFI_IPv6"
| "address_family AT_Ipv6MulticastBgpMplsVpn = AFI_IPv6"
| "address_family AT_Ipv6Bgp6over4 = AFI_IPv6"
| "address_family AT_Ipv6FlowSpec = AFI_IPv6"
| "address_family AT_Ipv6FlowSpecL3Vpn = AFI_IPv6"
| "address_family AT_Ipv6NlriMplsLabels = AFI_IPv6"
| "address_family AT_L2VpnBgpEvpn = AFI_L2vpn"
| "address_family AT_L2VpnVpls = AFI_L2vpn"
| "address_family AT_BgpLs = AFI_BgpLs"
| "address_family AT_BgpLsVpn = AFI_BgpLs"
| "address_family AT_RouteTargetConstrains = AFI_IPv4"

fun subsequent_address_family :: "AddressType \<Rightarrow> SubsequentAddressFamily" where
  "subsequent_address_family AT_Ipv4Unicast = SAFI_Unicast"
| "subsequent_address_family AT_Ipv4Multicast = SAFI_Multicast"
| "subsequent_address_family AT_Ipv4MplsLabeledVpn = SAFI_MplsVpn"
| "subsequent_address_family AT_Ipv4MulticastBgpMplsVpn = SAFI_MulticastBgpMplsVpn"
| "subsequent_address_family AT_Ipv4Bgp4over6 = SAFI_Bgp4over6"
| "subsequent_address_family AT_Ipv4FlowSpec = SAFI_FlowSpecFilter"
| "subsequent_address_family AT_Ipv4FlowSpecL3Vpn = SAFI_FlowSpecFilterL3Vpn"
| "subsequent_address_family AT_Ipv4NlriMplsLabels = SAFI_NlriMplsLabels"
| "subsequent_address_family AT_Ipv6Unicast = SAFI_Unicast"
| "subsequent_address_family AT_Ipv6Multicast = SAFI_Multicast"
| "subsequent_address_family AT_Ipv6MplsLabeledVpn = SAFI_MplsVpn"
| "subsequent_address_family AT_Ipv6MulticastBgpMplsVpn = SAFI_MulticastBgpMplsVpn"
| "subsequent_address_family AT_Ipv6Bgp6over4 = SAFI_Bgp6over4"
| "subsequent_address_family AT_Ipv6FlowSpec = SAFI_FlowSpecFilter"
| "subsequent_address_family AT_Ipv6FlowSpecL3Vpn = SAFI_FlowSpecFilterL3Vpn"
| "subsequent_address_family AT_Ipv6NlriMplsLabels = SAFI_NlriMplsLabels"
| "subsequent_address_family AT_L2VpnBgpEvpn = SAFI_BgpEvpn"
| "subsequent_address_family AT_L2VpnVpls = SAFI_VPLS"
| "subsequent_address_family AT_BgpLs = SAFI_BgpLs"
| "subsequent_address_family AT_BgpLsVpn = SAFI_BgpLsVpn"
| "subsequent_address_family AT_RouteTargetConstrains = SAFI_RouteTargetConstrains"

text \<open>The arms of the match in \<open>from_afi_safi\<close>, in order.\<close>

definition from_afi_safi_arms :: "((AddressFamily \<times> SubsequentAddressFamily) \<times> AddressType) list" where
  "from_afi_safi_arms =
    [((AFI_IPv4, SAFI_Unicast), AT_Ipv4Unicast),
     ((AFI_IPv4, SAFI_Multicast), AT_Ipv4Multicast),
     ((AFI_IPv4, SAFI_MplsVpn), AT_Ipv4MplsLabeledVpn),
     ((AFI_IPv4, SAFI_MulticastBgpMplsVpn), AT_Ipv4MulticastBgpMplsVpn),
     ((AFI_IPv4, SAFI_Bgp4over6), AT_Ipv4Bgp4over6),
     ((AFI_IPv4, SAFI_FlowSpecFilter), AT_Ipv4FlowSpec),
     ((AFI_IPv4, SAFI_FlowSpecFilterL3Vpn), AT_Ipv4FlowSpecL3Vpn),
     ((AFI_IPv4, SAFI_NlriMplsLabels), AT_Ipv4NlriMplsLabels),
     ((AFI_IPv6, SAFI_Unicast), AT_Ipv6Unicast),
     ((AFI_IPv6, SAFI_Multicast), AT_Ipv6Multicast),
     ((AFI_IPv6, SAFI_MplsVpn), AT_Ipv6MplsLabeledVpn),
     ((AFI_IPv6, SAFI_MulticastBgpMplsVpn), AT_Ipv6MulticastBgpMplsVpn),
     ((AFI_IPv6, SAFI_Bgp6over4), AT_Ipv6Bgp6over4),
     ((AFI_IPv6, SAFI_FlowSpecFilter), AT_Ipv6FlowSpec),
     ((AFI_IPv6, SAFI_FlowSpecFilterL3Vpn), AT_Ipv6FlowSpecL3Vpn),
     ((AFI_IPv6, SAFI_NlriMplsLabels), AT_Ipv6NlriMplsLabels),
     ((AFI_L2vpn, SAFI_BgpEvpn), AT_L2VpnBgpEvpn),
     ((AFI_L2vpn, SAFI_VPLS), AT_L2VpnVpls),
     ((AFI_BgpLs, SAFI_BgpLs), AT_BgpLs),
     ((AFI_BgpLs, SAFI_BgpLsVpn), AT_BgpLsVpn),
     ((AFI_IPv4, SAFI_RouteTargetConstrains), AT_RouteTargetConstrains)]"

definition from_afi_safi :: "AddressFamily \<Rightarrow> SubsequentAddressFamily
    \<Rightarrow> (AddressFamily \<times> SubsequentAddressFamily) + AddressType" where
  "from_afi_safi afi safi =
     (case map_of from_afi_safi_arms (afi, safi) of Some t \<Rightarrow> Inr t | None \<Rightarrow> Inl (afi, safi))"

section \<open>Round trips\<close>

lemma find_code:
  assumes "x \<in> set xs" "inj_on f (set xs)"
  shows "find (\<lambda>a. f a = f x) xs = Some x"
  using assms by (induction xs) (auto simp: inj_on_def)

lemma find_code_Some: "find (\<lambda>a. f a = v) xs = Some x \<Longrightarrow> f x = v"
  by (induction xs) (auto split: if_splits)

lemma AddressFamily_all: "a \<in> set AddressFamily_all"
  by (cases a) (simp_all add: AddressFamily_all_def)

lemma SubsequentAddressFamily_all: "a \<in> set SubsequentAddressFamily_all"
  by (cases a) (simp_all add: SubsequentAddressFamily_all_def)

lemma distinct_map_inj_on: "distinct (map f xs) \<Longrightarrow> inj_on f (set xs)"
  by (simp add: distinct_map)

lemma AddressFamily_codes_distinct: "distinct (map AddressFamily_into_u16 AddressFamily_all)"
  by (simp add: AddressFamily_all_def)

lemma SubsequentAddressFamily_codes_distinct:
  "distinct (map SubsequentAddressFamily_into_u8 SubsequentAddressFamily_all)"
  by (simp add: SubsequentAddressFamily_all_def)

lemma AddressFamily_roundtrip [simp, wire_simps]:
  "AddressFamily_try_from (AddressFamily_into_u16 a) = Inr a"
  using find_code [OF AddressFamily_all distinct_map_inj_on [OF AddressFamily_codes_distinct]]
  by (simp add: AddressFamily_try_from_def AddressFamily_from_repr_def)

lemma SubsequentAddressFamily_roundtrip [simp, wire_simps]:
  "SubsequentAddressFamily_try_from (SubsequentAddressFamily_into_u8 a) = Inr a"
  using find_code [OF SubsequentAddressFamily_all distinct_map_inj_on [OF SubsequentAddressFamily_codes_distinct]]
  by (simp add: SubsequentAddressFamily_try_from_def SubsequentAddressFamily_from_repr_def)

lemma AddressFamily_try_from_Inr:
  "AddressFamily_try_from v = Inr a \<Longrightarrow> AddressFamily_into_u16 a = v"
  by (auto simp: AddressFamily_try_from_def AddressFamily_from_repr_def dest: find_code_Some split: option.splits)

lemma SubsequentAddressFamily_try_from_Inr:
  "SubsequentAddressFamily_try_from v = Inr a \<Longrightarrow> SubsequentAddressFamily_into_u8 a = v"
  by (auto simp: SubsequentAddressFamily_try_from_def SubsequentAddressFamily_from_repr_def
      dest: find_code_Some split: option.splits)

lemma from_afi_safi_roundtrip [simp, wire_simps]:
  "from_afi_safi (address_family t) (subsequent_address_family t) = Inr t"
  by (cases t) (simp_all add: from_afi_safi_def from_afi_safi_arms_def)

lemma from_afi_safi_Inr:
  "from_afi_safi afi safi = Inr t \<Longrightarrow> address_family t = afi \<and> subsequent_address_family t = safi"
  by (auto simp: from_afi_safi_def from_afi_safi_arms_def split: if_splits option.splits)

end
