(* ===== verification/Bgp_Types.thy ===== *)
theory Bgp_Types
  imports Community_Types Link_State_Types Iana_Address_Family
begin

text \<open>
  The messages of the BGP speaker (\<open>src/netgauze/bgp-pkt/src\<close>): capabilities, OPEN, UPDATE with its
  path attributes, NOTIFICATION and ROUTE-REFRESH, with the operations on them that the speaker and
  the daemon use. The networks are those of \<open>Nlri_Types\<close> and \<open>Link_State_Types\<close>, the communities
  those of \<open>Community_Types\<close>.
\<close>

section \<open>Capabilities\<close>

datatype (plugins only: code size) BgpCapabilityCode =
    CAP_MultiProtocolExtensions | CAP_RouteRefreshCapability
    | CAP_OutboundRouteFilteringCapability | CAP_ExtendedNextHopEncoding
    | CAP_BgpExtendedMessage | CAP_BgpSecCapability | CAP_MultipleLabelsCapability | CAP_BgpRole
    | CAP_GracefulRestartCapability | CAP_FourOctetAs | CAP_SupportForDynamicCapability
    | CAP_MultiSessionBgpCapability | CAP_AddPathCapability | CAP_EnhancedRouteRefresh
    | CAP_LongLivedGracefulRestartLLGRCapability | CAP_RoutingPolicyDistribution | CAP_FQDN
    | CAP_CiscoRouteRefresh | CAP_Experimental239 | CAP_Experimental240 | CAP_Experimental241
    | CAP_Experimental242 | CAP_Experimental243 | CAP_Experimental244 | CAP_Experimental245
    | CAP_Experimental246 | CAP_Experimental247 | CAP_Experimental248 | CAP_Experimental249
    | CAP_Experimental250 | CAP_Experimental251 | CAP_Experimental252 | CAP_Experimental253
    | CAP_Experimental254

fun BgpCapabilityCode_into_u8 :: "BgpCapabilityCode \<Rightarrow> u8" where
  "BgpCapabilityCode_into_u8 CAP_MultiProtocolExtensions = 1"
| "BgpCapabilityCode_into_u8 CAP_RouteRefreshCapability = 2"
| "BgpCapabilityCode_into_u8 CAP_OutboundRouteFilteringCapability = 3"
| "BgpCapabilityCode_into_u8 CAP_ExtendedNextHopEncoding = 5"
| "BgpCapabilityCode_into_u8 CAP_BgpExtendedMessage = 6"
| "BgpCapabilityCode_into_u8 CAP_BgpSecCapability = 7"
| "BgpCapabilityCode_into_u8 CAP_MultipleLabelsCapability = 8"
| "BgpCapabilityCode_into_u8 CAP_BgpRole = 9"
| "BgpCapabilityCode_into_u8 CAP_GracefulRestartCapability = 64"
| "BgpCapabilityCode_into_u8 CAP_FourOctetAs = 65"
| "BgpCapabilityCode_into_u8 CAP_SupportForDynamicCapability = 67"
| "BgpCapabilityCode_into_u8 CAP_MultiSessionBgpCapability = 68"
| "BgpCapabilityCode_into_u8 CAP_AddPathCapability = 69"
| "BgpCapabilityCode_into_u8 CAP_EnhancedRouteRefresh = 70"
| "BgpCapabilityCode_into_u8 CAP_LongLivedGracefulRestartLLGRCapability = 71"
| "BgpCapabilityCode_into_u8 CAP_RoutingPolicyDistribution = 72"
| "BgpCapabilityCode_into_u8 CAP_FQDN = 73"
| "BgpCapabilityCode_into_u8 CAP_CiscoRouteRefresh = 128"
| "BgpCapabilityCode_into_u8 CAP_Experimental239 = 239"
| "BgpCapabilityCode_into_u8 CAP_Experimental240 = 240"
| "BgpCapabilityCode_into_u8 CAP_Experimental241 = 241"
| "BgpCapabilityCode_into_u8 CAP_Experimental242 = 242"
| "BgpCapabilityCode_into_u8 CAP_Experimental243 = 243"
| "BgpCapabilityCode_into_u8 CAP_Experimental244 = 244"
| "BgpCapabilityCode_into_u8 CAP_Experimental245 = 245"
| "BgpCapabilityCode_into_u8 CAP_Experimental246 = 246"
| "BgpCapabilityCode_into_u8 CAP_Experimental247 = 247"
| "BgpCapabilityCode_into_u8 CAP_Experimental248 = 248"
| "BgpCapabilityCode_into_u8 CAP_Experimental249 = 249"
| "BgpCapabilityCode_into_u8 CAP_Experimental250 = 250"
| "BgpCapabilityCode_into_u8 CAP_Experimental251 = 251"
| "BgpCapabilityCode_into_u8 CAP_Experimental252 = 252"
| "BgpCapabilityCode_into_u8 CAP_Experimental253 = 253"
| "BgpCapabilityCode_into_u8 CAP_Experimental254 = 254"

datatype (plugins only: code size) BgpRoleValue = RoleProvider | RoleCustomer | RoleRS | RoleRsClient | RolePeer

datatype (plugins only: code size) ExperimentalCapabilityCode =
    Experimental239 | Experimental240 | Experimental241 | Experimental242 | Experimental243
    | Experimental244 | Experimental245 | Experimental246 | Experimental247 | Experimental248
    | Experimental249 | Experimental250 | Experimental251 | Experimental252 | Experimental253
    | Experimental254

record GracefulRestartAddressFamily =
  gr_forwarding_state :: bool
  gr_address_type :: AddressType

record AddPathAddressFamily =
  ap_address_type :: AddressType
  ap_send :: bool
  ap_receive :: bool

datatype (plugins only: code size) BgpCapability =
    Cap_MultiProtocolExtensions AddressType
  | Cap_RouteRefresh
  | Cap_EnhancedRouteRefresh
  | Cap_CiscoRouteRefresh
  | Cap_GracefulRestart bool bool u16 "GracefulRestartAddressFamily list"
  | Cap_AddPath "AddPathAddressFamily list"
  | Cap_ExtendedMessage
  | Cap_MultipleLabels "(AddressType \<times> u8) list"
  | Cap_BgpRole BgpRoleValue
  | Cap_FourOctetAs u32
  | Cap_ExtendedNextHopEncoding "(AddressType \<times> AddressFamily) list"
  | Cap_Experimental ExperimentalCapabilityCode bytes
  | Cap_Unrecognized u8 bytes

fun ExperimentalCapabilityCode_cap :: "ExperimentalCapabilityCode \<Rightarrow> BgpCapabilityCode" where
  "ExperimentalCapabilityCode_cap Experimental239 = CAP_Experimental239"
| "ExperimentalCapabilityCode_cap Experimental240 = CAP_Experimental240"
| "ExperimentalCapabilityCode_cap Experimental241 = CAP_Experimental241"
| "ExperimentalCapabilityCode_cap Experimental242 = CAP_Experimental242"
| "ExperimentalCapabilityCode_cap Experimental243 = CAP_Experimental243"
| "ExperimentalCapabilityCode_cap Experimental244 = CAP_Experimental244"
| "ExperimentalCapabilityCode_cap Experimental245 = CAP_Experimental245"
| "ExperimentalCapabilityCode_cap Experimental246 = CAP_Experimental246"
| "ExperimentalCapabilityCode_cap Experimental247 = CAP_Experimental247"
| "ExperimentalCapabilityCode_cap Experimental248 = CAP_Experimental248"
| "ExperimentalCapabilityCode_cap Experimental249 = CAP_Experimental249"
| "ExperimentalCapabilityCode_cap Experimental250 = CAP_Experimental250"
| "ExperimentalCapabilityCode_cap Experimental251 = CAP_Experimental251"
| "ExperimentalCapabilityCode_cap Experimental252 = CAP_Experimental252"
| "ExperimentalCapabilityCode_cap Experimental253 = CAP_Experimental253"
| "ExperimentalCapabilityCode_cap Experimental254 = CAP_Experimental254"

fun BgpCapability_code :: "BgpCapability \<Rightarrow> u8 + BgpCapabilityCode" where
  "BgpCapability_code (Cap_MultiProtocolExtensions _) = Inr CAP_MultiProtocolExtensions"
| "BgpCapability_code Cap_RouteRefresh = Inr CAP_RouteRefreshCapability"
| "BgpCapability_code Cap_EnhancedRouteRefresh = Inr CAP_EnhancedRouteRefresh"
| "BgpCapability_code Cap_CiscoRouteRefresh = Inr CAP_CiscoRouteRefresh"
| "BgpCapability_code (Cap_GracefulRestart _ _ _ _) = Inr CAP_GracefulRestartCapability"
| "BgpCapability_code (Cap_AddPath _) = Inr CAP_AddPathCapability"
| "BgpCapability_code Cap_ExtendedMessage = Inr CAP_BgpExtendedMessage"
| "BgpCapability_code (Cap_MultipleLabels _) = Inr CAP_MultipleLabelsCapability"
| "BgpCapability_code (Cap_BgpRole _) = Inr CAP_BgpRole"
| "BgpCapability_code (Cap_FourOctetAs _) = Inr CAP_FourOctetAs"
| "BgpCapability_code (Cap_ExtendedNextHopEncoding _) = Inr CAP_ExtendedNextHopEncoding"
| "BgpCapability_code (Cap_Experimental code _) = Inr (ExperimentalCapabilityCode_cap code)"
| "BgpCapability_code (Cap_Unrecognized code _) = Inl code"

section \<open>OPEN\<close>

definition BGP_VERSION :: u8 where
  "BGP_VERSION = 4"

definition AS_TRANS :: u16 where
  "AS_TRANS = 23456"

datatype (plugins only: code size) BgpOpenMessageParameter = Param_Capabilities "BgpCapability list"

record BgpOpenMessage =
  op_version :: u8
  op_my_as :: u16
  op_hold_time :: u16
  op_bgp_id :: ipv4addr
  op_params :: "BgpOpenMessageParameter list"

definition BgpOpenMessage_new :: "u16 \<Rightarrow> u16 \<Rightarrow> ipv4addr \<Rightarrow> BgpOpenMessageParameter list \<Rightarrow> BgpOpenMessage" where
  "BgpOpenMessage_new my_as hold_time bgp_id params =
     \<lparr> op_version = BGP_VERSION, op_my_as = my_as, op_hold_time = hold_time, op_bgp_id = bgp_id, op_params = params \<rparr>"

definition open_capabilities :: "BgpOpenMessage \<Rightarrow> BgpCapability list" where
  "open_capabilities m = concat (map (\<lambda>x. case x of Param_Capabilities caps \<Rightarrow> caps) (op_params m))"

text \<open>\<open>my_asn4\<close> takes the last four-octet AS capability.\<close>

definition my_asn4 :: "BgpOpenMessage \<Rightarrow> u32" where
  "my_asn4 m =
     (let asns = List.map_filter (\<lambda>cap. case cap of Cap_FourOctetAs asn4 \<Rightarrow> Some asn4 | _ \<Rightarrow> None) (open_capabilities m)
      in if asns = [] then ucast (op_my_as m) else last asns)"

section \<open>NOTIFICATION and ROUTE-REFRESH\<close>

datatype (plugins only: code size) MessageHeaderError =
    Hdr_Unspecific bytes | Hdr_ConnectionNotSynchronized bytes | Hdr_BadMessageLength bytes | Hdr_BadMessageType bytes

datatype (plugins only: code size) OpenMessageError =
    Opn_Unspecific bytes | Opn_UnsupportedVersionNumber bytes | Opn_BadPeerAs bytes | Opn_BadBgpIdentifier bytes
  | Opn_UnsupportedOptionalParameter bytes | Opn_UnacceptableHoldTime bytes | Opn_UnsupportedCapability bytes
  | Opn_RoleMismatch bytes

datatype (plugins only: code size) UpdateMessageError =
    Upd_Unspecific bytes | Upd_MalformedAttributeList bytes | Upd_UnrecognizedWellKnownAttribute bytes
  | Upd_MissingWellKnownAttribute bytes | Upd_AttributeFlagsError bytes | Upd_AttributeLengthError bytes
  | Upd_InvalidOriginAttribute bytes | Upd_InvalidNextHopAttribute bytes | Upd_OptionalAttributeError bytes
  | Upd_InvalidNetworkField bytes | Upd_MalformedAsPath bytes

datatype (plugins only: code size) HoldTimerExpiredError = Hold_Unspecific u8 bytes

datatype (plugins only: code size) FiniteStateMachineError =
    Fsm_Unspecific bytes | Fsm_ReceiveUnexpectedMessageInOpenSentState bytes
  | Fsm_ReceiveUnexpectedMessageInOpenConfirmState bytes | Fsm_ReceiveUnexpectedMessageInEstablishedState bytes

datatype (plugins only: code size) CeaseError =
    Cease_MaximumNumberOfPrefixesReached bytes | Cease_AdministrativeShutdown bytes | Cease_PeerDeConfigured bytes
  | Cease_AdministrativeReset bytes | Cease_ConnectionRejected bytes | Cease_OtherConfigurationChange bytes
  | Cease_ConnectionCollisionResolution bytes | Cease_OutOfResources bytes | Cease_HardReset bytes | Cease_BfdDown bytes

datatype (plugins only: code size) RouteRefreshError = Rr_InvalidMessageLength bytes

datatype (plugins only: code size) BgpNotificationMessage =
    Notif_MessageHeaderError MessageHeaderError
  | Notif_OpenMessageError OpenMessageError
  | Notif_UpdateMessageError UpdateMessageError
  | Notif_HoldTimerExpiredError HoldTimerExpiredError
  | Notif_FiniteStateMachineError FiniteStateMachineError
  | Notif_CeaseError CeaseError
  | Notif_RouteRefreshError RouteRefreshError

datatype (plugins only: code size) RouteRefreshSubcode = NormalRequest | BeginningOfRouteRefresh | EndOfRouteRefresh

record BgpRouteRefreshMessage =
  rr_address_type :: AddressType
  rr_operation_type :: RouteRefreshSubcode

section \<open>UPDATE\<close>

datatype (plugins only: code size) MpReach =
    MpReach_Ipv4Unicast IpAddr "ipv6addr option" "Ipv4UnicastAddress list"
  | MpReach_Ipv4Multicast IpAddr "ipv6addr option" "Ipv4MulticastAddress list"
  | MpReach_Ipv4NlriMplsLabels IpAddr "ipv6addr option" "Ipv4NlriMplsLabelsAddress list"
  | MpReach_Ipv4MplsVpnUnicast LabeledNextHop "Ipv4MplsVpnUnicastAddress list"
  | MpReach_Ipv6Unicast ipv6addr "ipv6addr option" "Ipv6UnicastAddress list"
  | MpReach_Ipv6Multicast ipv6addr "ipv6addr option" "Ipv6MulticastAddress list"
  | MpReach_Ipv6NlriMplsLabels IpAddr "ipv6addr option" "Ipv6NlriMplsLabelsAddress list"
  | MpReach_Ipv6MplsVpnUnicast LabeledNextHop "Ipv6MplsVpnUnicastAddress list"
  | MpReach_L2Evpn IpAddr "L2EvpnAddress list"
  | MpReach_RouteTargetMembership IpAddr "RouteTargetMembershipAddress list"
  | MpReach_BgpLs IpAddr "BgpLsNlri list"
  | MpReach_BgpLsVpn LabeledNextHop "BgpLsVpnNlri list"
  | MpReach_Unknown AddressFamily SubsequentAddressFamily bytes

datatype (plugins only: code size) MpUnreach =
    MpUnreach_Ipv4Unicast "Ipv4UnicastAddress list"
  | MpUnreach_Ipv4Multicast "Ipv4MulticastAddress list"
  | MpUnreach_Ipv4NlriMplsLabels "Ipv4NlriMplsLabelsAddress list"
  | MpUnreach_Ipv4MplsVpnUnicast "Ipv4MplsVpnUnicastAddress list"
  | MpUnreach_Ipv6Unicast "Ipv6UnicastAddress list"
  | MpUnreach_Ipv6Multicast "Ipv6MulticastAddress list"
  | MpUnreach_Ipv6NlriMplsLabels "Ipv6NlriMplsLabelsAddress list"
  | MpUnreach_Ipv6MplsVpnUnicast "Ipv6MplsVpnUnicastAddress list"
  | MpUnreach_L2Evpn "L2EvpnAddress list"
  | MpUnreach_RouteTargetMembership "RouteTargetMembershipAddress list"
  | MpUnreach_BgpLs "BgpLsNlri list"
  | MpUnreach_BgpLsVpn "BgpLsVpnNlri list"
  | MpUnreach_Unknown AddressFamily SubsequentAddressFamily bytes

fun MpUnreach_address_type :: "MpUnreach \<Rightarrow> (AddressFamily \<times> SubsequentAddressFamily) + AddressType" where
  "MpUnreach_address_type (MpUnreach_Ipv4Unicast _) = Inr AT_Ipv4Unicast"
| "MpUnreach_address_type (MpUnreach_Ipv4Multicast _) = Inr AT_Ipv4Multicast"
| "MpUnreach_address_type (MpUnreach_Ipv4NlriMplsLabels _) = Inr AT_Ipv4NlriMplsLabels"
| "MpUnreach_address_type (MpUnreach_Ipv4MplsVpnUnicast _) = Inr AT_Ipv4MplsLabeledVpn"
| "MpUnreach_address_type (MpUnreach_Ipv6Unicast _) = Inr AT_Ipv6Unicast"
| "MpUnreach_address_type (MpUnreach_Ipv6Multicast _) = Inr AT_Ipv6Multicast"
| "MpUnreach_address_type (MpUnreach_Ipv6NlriMplsLabels _) = Inr AT_Ipv6NlriMplsLabels"
| "MpUnreach_address_type (MpUnreach_Ipv6MplsVpnUnicast _) = Inr AT_Ipv6MplsLabeledVpn"
| "MpUnreach_address_type (MpUnreach_L2Evpn _) = Inr AT_L2VpnBgpEvpn"
| "MpUnreach_address_type (MpUnreach_RouteTargetMembership _) = Inr AT_RouteTargetConstrains"
| "MpUnreach_address_type (MpUnreach_BgpLs _) = Inr AT_BgpLs"
| "MpUnreach_address_type (MpUnreach_BgpLsVpn _) = Inr AT_BgpLsVpn"
| "MpUnreach_address_type (MpUnreach_Unknown afi safi _) = Inl (afi, safi)"

datatype (plugins only: code size) OriginValue = IGP | EGP | Incomplete

datatype (plugins only: code size) AsPathSegmentType = AsSet | AsSequence

record As2PathSegment =
  as2_segment_type :: AsPathSegmentType
  as2_as_numbers :: "u16 list"

record As4PathSegment =
  as4_segment_type :: AsPathSegmentType
  as4_as_numbers :: "u32 list"

datatype (plugins only: code size) AsPathValue = As2PathSegments "As2PathSegment list" | As4PathSegments "As4PathSegment list"

datatype (plugins only: code size) AggregatorValue = As2Aggregator u16 ipv4addr | As4Aggregator u32 ipv4addr

datatype (plugins only: code size) PathAttributeValue =
    PA_Origin OriginValue
  | PA_AsPath AsPathValue
  | PA_As4Path "As4PathSegment list"
  | PA_NextHop ipv4addr
  | PA_MultiExitDiscriminator u32
  | PA_LocalPreference u32
  | PA_AtomicAggregate 
  | PA_Aggregator AggregatorValue
  | PA_Communities "u32 list"
  | PA_ExtendedCommunities "ExtendedCommunity list"
  | PA_ExtendedCommunitiesIpv6 "ExtendedCommunityIpv6 list"
  | PA_LargeCommunities "(u32 \<times> u32 \<times> u32) list"
  | PA_Originator ipv4addr
  | PA_ClusterList "ipv4addr list"
  | PA_MpReach MpReach
  | PA_MpUnreach MpUnreach
  | PA_BgpLs BgpLsAttribute
  | PA_OnlyToCustomer u32
  | PA_Aigp u64
  | PA_PrefixSegmentIdentifier PrefixSegmentIdentifier
  | PA_UnknownAttribute u8 bytes

datatype (plugins only: code size) PathAttributeType =
    PAT_Origin | PAT_AsPath | PAT_NextHop | PAT_MultiExitDiscriminator | PAT_LocalPreference
    | PAT_AtomicAggregate | PAT_Aggregator | PAT_Communities | PAT_OriginatorId
    | PAT_ClusterList | PAT_MpReachNlri | PAT_MpUnreachNlri | PAT_ExtendedCommunities
    | PAT_As4Path | PAT_As4Aggregator | PAT_PmsiTunnel | PAT_TunnelEncapsulation
    | PAT_TrafficEngineering | PAT_ExtendedCommunitiesIpv6 | PAT_AccumulatedIgp
    | PAT_PeDistinguisherLabels | PAT_BgpLsAttribute | PAT_LargeCommunities | PAT_BgpPSecPath
    | PAT_OnlyToCustomer | PAT_BgpDomainPath | PAT_SfpAttribute | PAT_BfdDiscriminator
    | PAT_BgpPrefixSid | PAT_AttributesSet | PAT_Development

fun PathAttributeType_code :: "PathAttributeType \<Rightarrow> u8" where
  "PathAttributeType_code PAT_Origin = 1"
| "PathAttributeType_code PAT_AsPath = 2"
| "PathAttributeType_code PAT_NextHop = 3"
| "PathAttributeType_code PAT_MultiExitDiscriminator = 4"
| "PathAttributeType_code PAT_LocalPreference = 5"
| "PathAttributeType_code PAT_AtomicAggregate = 6"
| "PathAttributeType_code PAT_Aggregator = 7"
| "PathAttributeType_code PAT_Communities = 8"
| "PathAttributeType_code PAT_OriginatorId = 9"
| "PathAttributeType_code PAT_ClusterList = 10"
| "PathAttributeType_code PAT_MpReachNlri = 14"
| "PathAttributeType_code PAT_MpUnreachNlri = 15"
| "PathAttributeType_code PAT_ExtendedCommunities = 16"
| "PathAttributeType_code PAT_As4Path = 17"
| "PathAttributeType_code PAT_As4Aggregator = 18"
| "PathAttributeType_code PAT_PmsiTunnel = 22"
| "PathAttributeType_code PAT_TunnelEncapsulation = 23"
| "PathAttributeType_code PAT_TrafficEngineering = 24"
| "PathAttributeType_code PAT_ExtendedCommunitiesIpv6 = 25"
| "PathAttributeType_code PAT_AccumulatedIgp = 26"
| "PathAttributeType_code PAT_PeDistinguisherLabels = 27"
| "PathAttributeType_code PAT_BgpLsAttribute = 29"
| "PathAttributeType_code PAT_LargeCommunities = 32"
| "PathAttributeType_code PAT_BgpPSecPath = 33"
| "PathAttributeType_code PAT_OnlyToCustomer = 35"
| "PathAttributeType_code PAT_BgpDomainPath = 36"
| "PathAttributeType_code PAT_SfpAttribute = 37"
| "PathAttributeType_code PAT_BfdDiscriminator = 38"
| "PathAttributeType_code PAT_BgpPrefixSid = 40"
| "PathAttributeType_code PAT_AttributesSet = 128"
| "PathAttributeType_code PAT_Development = 255"

fun path_attribute_type :: "PathAttributeValue \<Rightarrow> u8 + PathAttributeType" where
  "path_attribute_type (PA_Origin _) = Inr PAT_Origin"
| "path_attribute_type (PA_AsPath _) = Inr PAT_AsPath"
| "path_attribute_type (PA_As4Path _) = Inr PAT_As4Path"
| "path_attribute_type (PA_NextHop _) = Inr PAT_NextHop"
| "path_attribute_type (PA_MultiExitDiscriminator _) = Inr PAT_MultiExitDiscriminator"
| "path_attribute_type (PA_LocalPreference _) = Inr PAT_LocalPreference"
| "path_attribute_type PA_AtomicAggregate = Inr PAT_AtomicAggregate"
| "path_attribute_type (PA_Aggregator _) = Inr PAT_Aggregator"
| "path_attribute_type (PA_Communities _) = Inr PAT_Communities"
| "path_attribute_type (PA_ExtendedCommunities _) = Inr PAT_ExtendedCommunities"
| "path_attribute_type (PA_ExtendedCommunitiesIpv6 _) = Inr PAT_ExtendedCommunitiesIpv6"
| "path_attribute_type (PA_LargeCommunities _) = Inr PAT_LargeCommunities"
| "path_attribute_type (PA_Originator _) = Inr PAT_OriginatorId"
| "path_attribute_type (PA_ClusterList _) = Inr PAT_ClusterList"
| "path_attribute_type (PA_MpReach _) = Inr PAT_MpReachNlri"
| "path_attribute_type (PA_MpUnreach _) = Inr PAT_MpUnreachNlri"
| "path_attribute_type (PA_BgpLs _) = Inr PAT_BgpLsAttribute"
| "path_attribute_type (PA_OnlyToCustomer _) = Inr PAT_OnlyToCustomer"
| "path_attribute_type (PA_Aigp _) = Inr PAT_AccumulatedIgp"
| "path_attribute_type (PA_PrefixSegmentIdentifier _) = Inr PAT_BgpPrefixSid"
| "path_attribute_type (PA_UnknownAttribute code _) = Inl code"

text \<open>What the specification of an attribute says of its flags; \<open>None\<close> allows both values.\<close>

fun can_be_optional :: "PathAttributeValue \<Rightarrow> bool option" where
  "can_be_optional (PA_Origin _) = Some False"
| "can_be_optional (PA_AsPath _) = Some False"
| "can_be_optional (PA_As4Path _) = Some True"
| "can_be_optional (PA_NextHop _) = Some False"
| "can_be_optional (PA_MultiExitDiscriminator _) = Some True"
| "can_be_optional (PA_LocalPreference _) = Some False"
| "can_be_optional PA_AtomicAggregate = Some False"
| "can_be_optional (PA_Aggregator _) = Some True"
| "can_be_optional (PA_Communities _) = Some True"
| "can_be_optional (PA_ExtendedCommunities _) = Some True"
| "can_be_optional (PA_ExtendedCommunitiesIpv6 _) = Some True"
| "can_be_optional (PA_LargeCommunities _) = Some True"
| "can_be_optional (PA_Originator _) = Some True"
| "can_be_optional (PA_ClusterList _) = Some True"
| "can_be_optional (PA_MpReach _) = Some True"
| "can_be_optional (PA_MpUnreach _) = Some True"
| "can_be_optional (PA_BgpLs _) = Some True"
| "can_be_optional (PA_OnlyToCustomer _) = Some True"
| "can_be_optional (PA_Aigp _) = Some True"
| "can_be_optional (PA_PrefixSegmentIdentifier _) = Some True"
| "can_be_optional (PA_UnknownAttribute _ _) = None"

fun can_be_transitive :: "PathAttributeValue \<Rightarrow> bool option" where
  "can_be_transitive (PA_Origin _) = Some True"
| "can_be_transitive (PA_AsPath _) = Some True"
| "can_be_transitive (PA_As4Path _) = Some True"
| "can_be_transitive (PA_NextHop _) = Some True"
| "can_be_transitive (PA_MultiExitDiscriminator _) = Some False"
| "can_be_transitive (PA_LocalPreference _) = Some True"
| "can_be_transitive PA_AtomicAggregate = Some True"
| "can_be_transitive (PA_Aggregator _) = Some True"
| "can_be_transitive (PA_Communities _) = Some True"
| "can_be_transitive (PA_ExtendedCommunities _) = Some True"
| "can_be_transitive (PA_ExtendedCommunitiesIpv6 _) = Some True"
| "can_be_transitive (PA_LargeCommunities _) = Some True"
| "can_be_transitive (PA_Originator _) = Some False"
| "can_be_transitive (PA_ClusterList _) = Some False"
| "can_be_transitive (PA_MpReach _) = Some False"
| "can_be_transitive (PA_MpUnreach _) = Some False"
| "can_be_transitive (PA_BgpLs _) = Some False"
| "can_be_transitive (PA_OnlyToCustomer _) = Some True"
| "can_be_transitive (PA_Aigp _) = Some False"
| "can_be_transitive (PA_PrefixSegmentIdentifier _) = Some True"
| "can_be_transitive (PA_UnknownAttribute _ _) = None"

fun can_be_partial :: "PathAttributeValue \<Rightarrow> bool option" where
  "can_be_partial (PA_Origin _) = Some False"
| "can_be_partial (PA_AsPath _) = Some False"
| "can_be_partial (PA_As4Path _) = None"
| "can_be_partial (PA_NextHop _) = Some False"
| "can_be_partial (PA_MultiExitDiscriminator _) = Some False"
| "can_be_partial (PA_LocalPreference _) = Some False"
| "can_be_partial PA_AtomicAggregate = Some False"
| "can_be_partial (PA_Aggregator _) = None"
| "can_be_partial (PA_Communities _) = None"
| "can_be_partial (PA_ExtendedCommunities _) = None"
| "can_be_partial (PA_ExtendedCommunitiesIpv6 _) = None"
| "can_be_partial (PA_LargeCommunities _) = None"
| "can_be_partial (PA_Originator _) = Some False"
| "can_be_partial (PA_ClusterList _) = Some False"
| "can_be_partial (PA_MpReach _) = Some False"
| "can_be_partial (PA_MpUnreach _) = Some False"
| "can_be_partial (PA_BgpLs _) = Some False"
| "can_be_partial (PA_OnlyToCustomer _) = Some False"
| "can_be_partial (PA_Aigp _) = Some False"
| "can_be_partial (PA_PrefixSegmentIdentifier _) = None"
| "can_be_partial (PA_UnknownAttribute _ _) = None"

record PathAttribute =
  pa_optional :: bool
  pa_transitive :: bool
  pa_partial :: bool
  pa_extended_length :: bool
  pa_value :: PathAttributeValue

datatype (plugins only: code size) InvalidPathAttribute =
    InvalidOptionalFlagValue bool | InvalidTransitiveFlagValue bool | InvalidPartialFlagValue bool

definition PathAttribute_from :: "bool \<Rightarrow> bool \<Rightarrow> bool \<Rightarrow> bool \<Rightarrow> PathAttributeValue
    \<Rightarrow> (PathAttributeValue \<times> InvalidPathAttribute) + PathAttribute" where
  "PathAttribute_from optional transitive partial extended_length val =
     (if (case can_be_optional val of Some x \<Rightarrow> x \<noteq> optional | None \<Rightarrow> False)
        then Inl (val, InvalidOptionalFlagValue optional)
      else if (case can_be_transitive val of Some x \<Rightarrow> x \<noteq> transitive | None \<Rightarrow> False)
        then Inl (val, InvalidTransitiveFlagValue transitive)
      else if (case can_be_partial val of Some x \<Rightarrow> x \<noteq> partial | None \<Rightarrow> False)
        then Inl (val, InvalidPartialFlagValue partial)
      else Inr \<lparr> pa_optional = optional, pa_transitive = transitive, pa_partial = partial,
                 pa_extended_length = extended_length, pa_value = val \<rparr>)"

record BgpUpdateMessage =
  um_withdrawn_routes :: "Ipv4UnicastAddress list"
  um_path_attributes :: "PathAttribute list"
  um_nlri :: "Ipv4UnicastAddress list"

fun MpUnreach_is_empty :: "MpUnreach \<Rightarrow> bool" where
  "MpUnreach_is_empty (MpUnreach_Ipv4Unicast nlri) = (nlri = [])"
| "MpUnreach_is_empty (MpUnreach_Ipv4Multicast nlri) = (nlri = [])"
| "MpUnreach_is_empty (MpUnreach_Ipv4NlriMplsLabels nlri) = (nlri = [])"
| "MpUnreach_is_empty (MpUnreach_Ipv4MplsVpnUnicast nlri) = (nlri = [])"
| "MpUnreach_is_empty (MpUnreach_Ipv6Unicast nlri) = (nlri = [])"
| "MpUnreach_is_empty (MpUnreach_Ipv6Multicast nlri) = (nlri = [])"
| "MpUnreach_is_empty (MpUnreach_Ipv6NlriMplsLabels nlri) = (nlri = [])"
| "MpUnreach_is_empty (MpUnreach_Ipv6MplsVpnUnicast nlri) = (nlri = [])"
| "MpUnreach_is_empty (MpUnreach_L2Evpn nlri) = (nlri = [])"
| "MpUnreach_is_empty (MpUnreach_RouteTargetMembership nlri) = (nlri = [])"
| "MpUnreach_is_empty (MpUnreach_BgpLs nlri) = (nlri = [])"
| "MpUnreach_is_empty (MpUnreach_BgpLsVpn nlri) = (nlri = [])"
| "MpUnreach_is_empty (MpUnreach_Unknown _ _ _) = False"

text \<open>The loop of \<open>end_of_rib\<close>; \<open>seen\<close> is the number of MP_UNREACH attributes seen.\<close>

fun end_of_rib_loop :: "PathAttribute list \<Rightarrow> AddressType option \<Rightarrow> nat \<Rightarrow> AddressType option" where
  "end_of_rib_loop [] current seen = current"
| "end_of_rib_loop (attr # attrs) current seen =
     (case pa_value attr of
        PA_MpReach _ \<Rightarrow> None
      | PA_MpUnreach unreach \<Rightarrow>
          if seen + 1 > 1 then None
          else
            (case unreach of
               MpUnreach_Unknown _ _ _ \<Rightarrow> end_of_rib_loop attrs None (seen + 1)
             | _ \<Rightarrow>
                 if MpUnreach_is_empty unreach
                 then end_of_rib_loop attrs
                        (case MpUnreach_address_type unreach of Inr t \<Rightarrow> Some t | Inl _ \<Rightarrow> None) (seen + 1)
                 else end_of_rib_loop attrs current (seen + 1))
      | _ \<Rightarrow> end_of_rib_loop attrs current seen)"

definition end_of_rib :: "BgpUpdateMessage \<Rightarrow> AddressType option" where
  "end_of_rib m =
     (if um_nlri m \<noteq> [] \<or> um_withdrawn_routes m \<noteq> [] then None
      else if um_path_attributes m = [] then Some AT_Ipv4Unicast
      else end_of_rib_loop (um_path_attributes m) None 0)"

section \<open>Messages\<close>

datatype (plugins only: code size) BgpMessage =
    MsgOpen BgpOpenMessage
  | MsgUpdate BgpUpdateMessage
  | MsgNotification BgpNotificationMessage
  | MsgKeepAlive
  | MsgRouteRefresh BgpRouteRefreshMessage

end
