(* ===== verification/Bgp_Events.thy ===== *)
theory Bgp_Events
  imports Bgp_Types
begin

text \<open>
  Events and errors of the BGP speaker (\<open>events.rs\<close> and \<open>fsm.rs\<close> of
  \<open>src/netgauze/bgp-speaker/src\<close>): the treatment of malformed UPDATE messages and its order, the
  parsing errors of the codec and the events they become, and the events of a connection. Payloads
  of parsing errors that no operation looks at are left out.
\<close>

section \<open>Parsing errors\<close>

datatype nom_kind = Nom_Eof | Nom_Other

datatype (plugins only: code size) FourOctetAsCapabilityParsingError = As4_NomError | As4_InvalidLength u8

datatype (plugins only: code size) BgpRoleCapabilityParsingError = Role_NomError | Role_InvalidLength u8 | Role_UndefinedBgpRoleValue u8

text \<open>The errors of the capabilities that carry address types; each has some of these.\<close>

datatype (plugins only: code size) AddressTypeParsingError =
    At_NomError | At_InvalidLength u8 | At_AddressFamilyError u16 | At_SubsequentAddressFamilyError u8
  | At_AddressTypeError AddressFamily SubsequentAddressFamily | At_InvalidAddPathSendReceiveValue u8

datatype (plugins only: code size) BgpCapabilityParsingError =
    CapPE_NomError
  | CapPE_UndefinedCapabilityCode u8
  | CapPE_InvalidRouteRefreshLength u8
  | CapPE_InvalidEnhancedRouteRefreshLength u8
  | CapPE_InvalidExtendedMessageLength u8
  | CapPE_FourOctetAsCapabilityError FourOctetAsCapabilityParsingError
  | CapPE_MultiProtocolExtensionsCapabilityError AddressTypeParsingError
  | CapPE_GracefulRestartCapabilityError AddressTypeParsingError
  | CapPE_AddPathCapabilityError AddressTypeParsingError
  | CapPE_ExtendedNextHopEncodingCapabilityError AddressTypeParsingError
  | CapPE_MultipleLabelError AddressTypeParsingError
  | CapPE_BgpRoleCapabilityError BgpRoleCapabilityParsingError

datatype (plugins only: code size) BgpParameterParsingError =
    Prm_NomError | Prm_UndefinedParameterType u8 | Prm_CapabilityError BgpCapabilityParsingError

datatype (plugins only: code size) BgpOpenMessageParsingError =
    OpenPE_NomError
  | OpenPE_UnsupportedVersionNumber u8
  | OpenPE_UnacceptableHoldTime u16
  | OpenPE_InvalidBgpId u32
  | OpenPE_ParameterError BgpParameterParsingError

datatype (plugins only: code size) MpReachParsingError =
    MpR_NomError | MpR_UndefinedAddressFamily | MpR_UndefinedSubsequentAddressFamily
  | MpR_IpAddrError AddressType | MpR_LabeledNextHopError AddressType
  | MpR_Ipv4UnicastAddressError | MpR_Ipv4MulticastAddressError | MpR_Ipv4NlriMplsLabelsAddressError
  | MpR_Ipv4MplsVpnUnicastAddressError | MpR_Ipv6UnicastAddressError | MpR_Ipv6NlriMplsLabelsAddressError
  | MpR_Ipv6MulticastAddressError | MpR_Ipv6MplsVpnUnicastAddressError | MpR_L2EvpnAddressError
  | MpR_RouteTargetMembershipAddressError | MpR_BgpLsNlriParsingError

datatype (plugins only: code size) MpUnreachParsingError =
    MpU_NomError | MpU_UndefinedAddressFamily | MpU_UndefinedSubsequentAddressFamily
  | MpU_Ipv4UnicastAddressError | MpU_Ipv4MulticastAddressError | MpU_Ipv4NlriMplsLabelsAddressError
  | MpU_Ipv4MplsVpnUnicastAddressError | MpU_Ipv6UnicastAddressError | MpU_Ipv6NlriMplsLabelsAddressError
  | MpU_Ipv6MulticastAddressError | MpU_Ipv6MplsVpnUnicastAddressError | MpU_L2EvpnAddressError
  | MpU_RouteTargetMembershipAddressError | MpU_BgpLsError

datatype (plugins only: code size) PathAttributeParsingError =
    PAE_NomError | PAE_OriginError | PAE_AsPathError | PAE_NextHopError | PAE_MultiExitDiscriminatorError
  | PAE_LocalPreferenceError | PAE_AtomicAggregateError | PAE_AggregatorError | PAE_CommunitiesError
  | PAE_ExtendedCommunitiesError | PAE_ExtendedCommunitiesErrorIpv6 | PAE_LargeCommunitiesError
  | PAE_OriginatorError | PAE_ClusterListError | PAE_MpReachErrorError MpReachParsingError
  | PAE_MpUnreachErrorError MpUnreachParsingError | PAE_OnlyToCustomerError | PAE_AigpError
  | PAE_BgpLsError | PAE_SegmentIdentifierParsingError | PAE_UnknownAttributeError
  | PAE_InvalidPathAttribute InvalidPathAttribute PathAttributeValue

datatype (plugins only: code size) Ipv4PrefixParsingError = Pfx_NomError nom_kind | Pfx_InvalidIpv4PrefixLen u8

datatype (plugins only: code size) BgpUpdateMessageParsingError =
    UpdPE_NomError nom_kind
  | UpdPE_PathAttributeError PathAttributeParsingError
  | UpdPE_Ipv4PrefixError Ipv4PrefixParsingError
  | UpdPE_InvalidIpv4UnicastNetwork "ipv4addr \<times> u8"

datatype (plugins only: code size) SubcodeParsingError = Sub_NomError | Sub_Undefined u8

datatype (plugins only: code size) BgpNotificationMessageParsingError =
    NotPE_NomError
  | NotPE_UndefinedBgpErrorNotificationCode u8
  | NotPE_MessageHeaderError SubcodeParsingError
  | NotPE_OpenMessageError SubcodeParsingError
  | NotPE_UpdateMessageError SubcodeParsingError
  | NotPE_HoldTimerExpiredError SubcodeParsingError
  | NotPE_FiniteStateMachineError SubcodeParsingError
  | NotPE_CeaseError SubcodeParsingError
  | NotPE_RouteRefreshError SubcodeParsingError

datatype (plugins only: code size) BgpRouteRefreshMessageParsingError =
    RrPE_NomError
  | RrPE_UndefinedOperation u8
  | RrPE_UndefinedAddressFamily u16
  | RrPE_UndefinedSubsequentAddressFamily u8
  | RrPE_InvalidAddressType AddressFamily SubsequentAddressFamily

datatype (plugins only: code size) BgpMessageParsingError =
    MsgPE_NomError
  | MsgPE_ConnectionNotSynchronized u128
  | MsgPE_UndefinedBgpMessageType u8
  | MsgPE_BadMessageLength u16
  | MsgPE_Open BgpOpenMessageParsingError
  | MsgPE_Update BgpUpdateMessageParsingError
  | MsgPE_Notification BgpNotificationMessageParsingError
  | MsgPE_RouteRefresh BgpRouteRefreshMessageParsingError

datatype (plugins only: code size) BgpCodecDecoderError =
    Dec_IoError string | Dec_Incomplete "nat option" | Dec_BgpMessageParsingError BgpMessageParsingError

fun OpenMessageError_from_param :: "BgpParameterParsingError \<Rightarrow> OpenMessageError" where
  "OpenMessageError_from_param Prm_NomError = Opn_Unspecific []"
| "OpenMessageError_from_param (Prm_UndefinedParameterType param_type) = Opn_UnsupportedOptionalParameter [param_type]"
| "OpenMessageError_from_param (Prm_CapabilityError _) = Opn_Unspecific []"

fun OpenMessageError_from :: "BgpOpenMessageParsingError \<Rightarrow> OpenMessageError" where
  "OpenMessageError_from OpenPE_NomError = Opn_Unspecific []"
| "OpenMessageError_from (OpenPE_UnsupportedVersionNumber _) =
     Opn_UnsupportedVersionNumber (to_be_bytes (ucast BGP_VERSION :: u16))"
| "OpenMessageError_from (OpenPE_UnacceptableHoldTime hold_time) = Opn_UnacceptableHoldTime (to_be_bytes hold_time)"
| "OpenMessageError_from (OpenPE_InvalidBgpId bgp_id) = Opn_BadBgpIdentifier (to_be_bytes bgp_id)"
| "OpenMessageError_from (OpenPE_ParameterError param_error) = OpenMessageError_from_param param_error"

fun UpdateMessageError_from_attr :: "PathAttributeParsingError \<Rightarrow> UpdateMessageError" where
  "UpdateMessageError_from_attr PAE_NomError = Upd_MalformedAttributeList []"
| "UpdateMessageError_from_attr PAE_OriginError = Upd_InvalidOriginAttribute []"
| "UpdateMessageError_from_attr PAE_AsPathError = Upd_MalformedAsPath []"
| "UpdateMessageError_from_attr PAE_NextHopError = Upd_InvalidNextHopAttribute []"
| "UpdateMessageError_from_attr PAE_UnknownAttributeError = Upd_Unspecific []"
| "UpdateMessageError_from_attr (PAE_InvalidPathAttribute _ _) = Upd_AttributeFlagsError []"
| "UpdateMessageError_from_attr PAE_BgpLsError = Upd_Unspecific []"
| "UpdateMessageError_from_attr _ = Upd_OptionalAttributeError []"

fun UpdateMessageError_from :: "BgpUpdateMessageParsingError \<Rightarrow> UpdateMessageError" where
  "UpdateMessageError_from (UpdPE_NomError err) =
     (if err = Nom_Eof then Upd_MalformedAttributeList [] else Upd_Unspecific [])"
| "UpdateMessageError_from (UpdPE_PathAttributeError attr_err) = UpdateMessageError_from_attr attr_err"
| "UpdateMessageError_from (UpdPE_Ipv4PrefixError prefix_err) =
     (if prefix_err = Pfx_NomError Nom_Eof then Upd_MalformedAttributeList [] else Upd_InvalidNetworkField [])"
| "UpdateMessageError_from (UpdPE_InvalidIpv4UnicastNetwork _) = Upd_Unspecific []"

definition RouteRefreshError_from :: "BgpRouteRefreshMessageParsingError \<Rightarrow> RouteRefreshError" where
  "RouteRefreshError_from _ = Rr_InvalidMessageLength []"

section \<open>Treatment of malformed updates\<close>

datatype (plugins only: code size) UpdateTreatment =
    Normal | AttributeDiscard | TreatAsWithdraw | ResetAddressFamily u16 u8 | SessionReset

datatype (plugins only: code size) Ordering = Less | Equal | Greater

fun UpdateTreatment_cmp :: "UpdateTreatment \<Rightarrow> UpdateTreatment \<Rightarrow> Ordering" where
  "UpdateTreatment_cmp Normal Normal = Equal"
| "UpdateTreatment_cmp Normal _ = Less"
| "UpdateTreatment_cmp AttributeDiscard Normal = Greater"
| "UpdateTreatment_cmp AttributeDiscard AttributeDiscard = Equal"
| "UpdateTreatment_cmp AttributeDiscard _ = Less"
| "UpdateTreatment_cmp TreatAsWithdraw Normal = Greater"
| "UpdateTreatment_cmp TreatAsWithdraw AttributeDiscard = Greater"
| "UpdateTreatment_cmp TreatAsWithdraw TreatAsWithdraw = Equal"
| "UpdateTreatment_cmp TreatAsWithdraw _ = Less"
| "UpdateTreatment_cmp (ResetAddressFamily _ _) Normal = Greater"
| "UpdateTreatment_cmp (ResetAddressFamily _ _) AttributeDiscard = Greater"
| "UpdateTreatment_cmp (ResetAddressFamily _ _) TreatAsWithdraw = Greater"
| "UpdateTreatment_cmp (ResetAddressFamily _ _) (ResetAddressFamily _ _) = Equal"
| "UpdateTreatment_cmp (ResetAddressFamily _ _) SessionReset = Less"
| "UpdateTreatment_cmp SessionReset SessionReset = Equal"
| "UpdateTreatment_cmp SessionReset _ = Greater"

text \<open>\<open>if treatment < t { treatment = t }\<close>\<close>

definition escalate :: "UpdateTreatment \<Rightarrow> UpdateTreatment \<Rightarrow> UpdateTreatment" where
  "escalate treatment t = (if UpdateTreatment_cmp treatment t = Less then t else treatment)"

definition reset_af :: "AddressFamily \<Rightarrow> SubsequentAddressFamily \<Rightarrow> UpdateTreatment" where
  "reset_af afi safi = ResetAddressFamily (AddressFamily_into_u16 afi) (SubsequentAddressFamily_into_u8 safi)"

fun mp_reach_treatment :: "MpReachParsingError \<Rightarrow> UpdateTreatment" where
  "mp_reach_treatment MpR_NomError = SessionReset"
| "mp_reach_treatment MpR_UndefinedAddressFamily = SessionReset"
| "mp_reach_treatment MpR_UndefinedSubsequentAddressFamily = SessionReset"
| "mp_reach_treatment (MpR_IpAddrError t) = reset_af (address_family t) (subsequent_address_family t)"
| "mp_reach_treatment (MpR_LabeledNextHopError t) = reset_af (address_family t) (subsequent_address_family t)"
| "mp_reach_treatment MpR_Ipv4UnicastAddressError = reset_af AFI_IPv4 SAFI_Unicast"
| "mp_reach_treatment MpR_Ipv4MulticastAddressError = reset_af AFI_IPv4 SAFI_Multicast"
| "mp_reach_treatment MpR_Ipv4NlriMplsLabelsAddressError = reset_af AFI_IPv4 SAFI_NlriMplsLabels"
| "mp_reach_treatment MpR_Ipv4MplsVpnUnicastAddressError = reset_af AFI_IPv4 SAFI_MplsVpn"
| "mp_reach_treatment MpR_Ipv6UnicastAddressError = reset_af AFI_IPv6 SAFI_Unicast"
| "mp_reach_treatment MpR_Ipv6NlriMplsLabelsAddressError = reset_af AFI_IPv6 SAFI_NlriMplsLabels"
| "mp_reach_treatment MpR_Ipv6MulticastAddressError = reset_af AFI_IPv6 SAFI_Multicast"
| "mp_reach_treatment MpR_Ipv6MplsVpnUnicastAddressError = reset_af AFI_IPv6 SAFI_MplsVpn"
| "mp_reach_treatment MpR_L2EvpnAddressError = reset_af AFI_L2vpn SAFI_BgpEvpn"
| "mp_reach_treatment MpR_RouteTargetMembershipAddressError = reset_af AFI_IPv4 SAFI_RouteTargetConstrains"
| "mp_reach_treatment MpR_BgpLsNlriParsingError = reset_af AFI_IPv4 SAFI_RouteTargetConstrains"

fun mp_unreach_treatment :: "MpUnreachParsingError \<Rightarrow> UpdateTreatment" where
  "mp_unreach_treatment MpU_NomError = SessionReset"
| "mp_unreach_treatment MpU_UndefinedAddressFamily = SessionReset"
| "mp_unreach_treatment MpU_UndefinedSubsequentAddressFamily = SessionReset"
| "mp_unreach_treatment MpU_Ipv4UnicastAddressError = reset_af AFI_IPv4 SAFI_Unicast"
| "mp_unreach_treatment MpU_Ipv4MulticastAddressError = reset_af AFI_IPv4 SAFI_Multicast"
| "mp_unreach_treatment MpU_Ipv4NlriMplsLabelsAddressError = reset_af AFI_IPv4 SAFI_NlriMplsLabels"
| "mp_unreach_treatment MpU_Ipv4MplsVpnUnicastAddressError = reset_af AFI_IPv4 SAFI_MplsVpn"
| "mp_unreach_treatment MpU_Ipv6UnicastAddressError = reset_af AFI_IPv6 SAFI_Unicast"
| "mp_unreach_treatment MpU_Ipv6NlriMplsLabelsAddressError = reset_af AFI_IPv6 SAFI_NlriMplsLabels"
| "mp_unreach_treatment MpU_Ipv6MulticastAddressError = reset_af AFI_IPv6 SAFI_Multicast"
| "mp_unreach_treatment MpU_Ipv6MplsVpnUnicastAddressError = reset_af AFI_IPv6 SAFI_MplsVpn"
| "mp_unreach_treatment MpU_L2EvpnAddressError = reset_af AFI_L2vpn SAFI_BgpEvpn"
| "mp_unreach_treatment MpU_RouteTargetMembershipAddressError = reset_af AFI_IPv4 SAFI_RouteTargetConstrains"
| "mp_unreach_treatment MpU_BgpLsError = reset_af AFI_IPv4 SAFI_RouteTargetConstrains"

text \<open>The treatment one error asks for; \<open>None\<close> keeps the current one.\<close>

fun attr_treatment :: "PathAttributeParsingError \<Rightarrow> UpdateTreatment option" where
  "attr_treatment PAE_NomError = Some TreatAsWithdraw"
| "attr_treatment PAE_OriginError = Some TreatAsWithdraw"
| "attr_treatment PAE_AsPathError = Some TreatAsWithdraw"
| "attr_treatment PAE_NextHopError = Some TreatAsWithdraw"
| "attr_treatment PAE_MultiExitDiscriminatorError = Some TreatAsWithdraw"
| "attr_treatment PAE_LocalPreferenceError = Some TreatAsWithdraw"
| "attr_treatment PAE_AtomicAggregateError = Some AttributeDiscard"
| "attr_treatment PAE_AggregatorError = Some AttributeDiscard"
| "attr_treatment PAE_CommunitiesError = Some TreatAsWithdraw"
| "attr_treatment PAE_ExtendedCommunitiesError = Some TreatAsWithdraw"
| "attr_treatment PAE_ExtendedCommunitiesErrorIpv6 = Some TreatAsWithdraw"
| "attr_treatment PAE_LargeCommunitiesError = Some TreatAsWithdraw"
| "attr_treatment PAE_OriginatorError = Some TreatAsWithdraw"
| "attr_treatment PAE_ClusterListError = Some TreatAsWithdraw"
| "attr_treatment (PAE_MpReachErrorError err) = Some (mp_reach_treatment err)"
| "attr_treatment (PAE_MpUnreachErrorError err) = Some (mp_unreach_treatment err)"
| "attr_treatment PAE_OnlyToCustomerError = Some AttributeDiscard"
| "attr_treatment PAE_AigpError = Some AttributeDiscard"
| "attr_treatment PAE_UnknownAttributeError = None"
| "attr_treatment (PAE_InvalidPathAttribute (InvalidOptionalFlagValue _) _) = Some TreatAsWithdraw"
| "attr_treatment (PAE_InvalidPathAttribute (InvalidTransitiveFlagValue _) _) = Some TreatAsWithdraw"
| "attr_treatment (PAE_InvalidPathAttribute (InvalidPartialFlagValue _) _) = None"
| "attr_treatment PAE_BgpLsError = Some AttributeDiscard"
| "attr_treatment PAE_SegmentIdentifierParsingError = Some AttributeDiscard"

record BgpParsingIgnoredErrors =
  ie_non_unicast_withdraw_nlri :: "(ipv4addr \<times> u8) list"
  ie_non_unicast_update_nlri :: "(ipv4addr \<times> u8) list"
  ie_capability_errors :: "BgpCapabilityParsingError list"
  ie_path_attr_errors :: "PathAttributeParsingError list"

definition BgpParsingIgnoredErrors_default :: BgpParsingIgnoredErrors where
  "BgpParsingIgnoredErrors_default =
     \<lparr> ie_non_unicast_withdraw_nlri = [], ie_non_unicast_update_nlri = [], ie_capability_errors = [], ie_path_attr_errors = [] \<rparr>"

lemma default_no_errors [simp]: "ie_path_attr_errors BgpParsingIgnoredErrors_default = []"
  by (simp add: BgpParsingIgnoredErrors_default_def)

definition update_treatment :: "BgpParsingIgnoredErrors \<Rightarrow> UpdateTreatment" where
  "update_treatment errors =
     fold (\<lambda>path_err treatment. case attr_treatment path_err of Some t \<Rightarrow> escalate treatment t | None \<Rightarrow> treatment)
       (ie_path_attr_errors errors) Normal"

section \<open>Connection and BGP events\<close>

type_synonym SocketAddr = "IpAddr \<times> u16"

datatype (plugins only: code size) ConnectionEvent =
    HoldTimerExpires
  | KeepAliveTimerExpires
  | DelayOpenTimerExpires
  | TcpConnectionRequestAcked SocketAddr
  | TcpConnectionConfirmed SocketAddr
  | TcpConnectionFails
  | BGPOpen BgpOpenMessage
  | BGPOpenWithDelayOpenTimer BgpOpenMessage
  | BGPHeaderErr MessageHeaderError
  | BGPOpenMsgErr OpenMessageError
  | NotifMsgVerErr
  | NotifMsg BgpNotificationMessage
  | NotifMsgErr BgpNotificationMessageParsingError
  | KeepAliveMsg
  | UpdateMsg BgpUpdateMessage UpdateTreatment
  | UpdateMsgErr UpdateMessageError
  | RouteRefresh BgpRouteRefreshMessage
  | RouteRefreshErr RouteRefreshError

text \<open>\<open>BgpEvent\<close> adds the administrative events; the others are those of a connection.\<close>

datatype (plugins only: code size) BgpEvent =
    Ev_ManualStart | Ev_ManualStop | Ev_AutomaticStart | Ev_ManualStartWithPassiveTcp
  | Ev_AutomaticStartWithPassiveTcp | Ev_AutomaticStop | Ev_ConnectRetryTimerExpires | Ev_OpenCollisionDump
  | Ev_Connection ConnectionEvent

fun ConnectionEvent_from_parsing :: "BgpMessageParsingError \<Rightarrow> ConnectionEvent" where
  "ConnectionEvent_from_parsing MsgPE_NomError = BGPHeaderErr (Hdr_Unspecific [])"
| "ConnectionEvent_from_parsing (MsgPE_ConnectionNotSynchronized header) =
     BGPHeaderErr (Hdr_ConnectionNotSynchronized (to_be_bytes header))"
| "ConnectionEvent_from_parsing (MsgPE_UndefinedBgpMessageType msg_type) = BGPHeaderErr (Hdr_BadMessageType [msg_type])"
| "ConnectionEvent_from_parsing (MsgPE_BadMessageLength len) = BGPHeaderErr (Hdr_BadMessageLength (to_be_bytes len))"
| "ConnectionEvent_from_parsing (MsgPE_Open err) = BGPOpenMsgErr (OpenMessageError_from err)"
| "ConnectionEvent_from_parsing (MsgPE_Update err) = UpdateMsgErr (UpdateMessageError_from err)"
| "ConnectionEvent_from_parsing (MsgPE_Notification err) = NotifMsgErr err"
| "ConnectionEvent_from_parsing (MsgPE_RouteRefresh err) = RouteRefreshErr (RouteRefreshError_from err)"

fun ConnectionEvent_from :: "BgpCodecDecoderError \<Rightarrow> ConnectionEvent" where
  "ConnectionEvent_from (Dec_IoError _) = TcpConnectionFails"
| "ConnectionEvent_from (Dec_Incomplete _) = BGPHeaderErr (Hdr_BadMessageLength [])"
| "ConnectionEvent_from (Dec_BgpMessageParsingError parse_err) = ConnectionEvent_from_parsing parse_err"

datatype (plugins only: code size) FsmState = Idle | Connect | Active | OpenSent | OpenConfirm | Established

datatype (plugins only: code size) ConnectionState = CConnected | COpenSent | COpenConfirm | CEstablished | CTerminate

datatype (plugins only: code size) FsmStateError =
    FE_BgpMessageWritingError
  | FE_InvalidConnectionStateTransition BgpEvent FsmState ConnectionState ConnectionState

section \<open>The order of treatments\<close>

text \<open>The rank that the comparison implements.\<close>

fun treatment_rank :: "UpdateTreatment \<Rightarrow> nat" where
  "treatment_rank Normal = 0"
| "treatment_rank AttributeDiscard = 1"
| "treatment_rank TreatAsWithdraw = 2"
| "treatment_rank (ResetAddressFamily _ _) = 3"
| "treatment_rank SessionReset = 4"

lemma UpdateTreatment_cmp_rank:
  "UpdateTreatment_cmp a b =
     (if treatment_rank a < treatment_rank b then Less else if treatment_rank a = treatment_rank b then Equal else Greater)"
  by (cases a; cases b) simp_all

lemma escalate_rank: "treatment_rank (escalate a b) = max (treatment_rank a) (treatment_rank b)"
  by (auto simp: escalate_def UpdateTreatment_cmp_rank)

definition error_rank :: "PathAttributeParsingError \<Rightarrow> nat" where
  "error_rank e = (case attr_treatment e of None \<Rightarrow> 0 | Some t \<Rightarrow> treatment_rank t)"

lemma treatment_fold_rank:
  "treatment_rank (fold (\<lambda>e t. case attr_treatment e of Some s \<Rightarrow> escalate t s | None \<Rightarrow> t) es t) =
     fold max (map error_rank es) (treatment_rank t)"
proof (induction es arbitrary: t)
  case (Cons e es)
  have "treatment_rank (case attr_treatment e of Some s \<Rightarrow> escalate t s | None \<Rightarrow> t) = max (error_rank e) (treatment_rank t)"
    by (simp add: error_rank_def escalate_rank max.commute split: option.split)
  with Cons show ?case by (simp only: fold_simps list.map)
qed simp

lemma fold_max_Max: "fold max xs (a :: nat) = Max (insert a (set xs))"
  by (simp add: Max.set_eq_fold [symmetric])

lemma update_treatment_rank:
  "treatment_rank (update_treatment errs) = Max (insert 0 (error_rank ` set (ie_path_attr_errors errs)))"
proof -
  have "treatment_rank (update_treatment errs) = fold max (map error_rank (ie_path_attr_errors errs)) 0"
    unfolding update_treatment_def treatment_fold_rank by simp
  then show ?thesis by (simp add: fold_max_Max)
qed

text \<open>
  The treatment of an UPDATE with ignored parsing errors is the most severe one any of them asks
  for: it is at least as severe as each, an error asks for exactly as much unless there is none to
  treat, and it does not depend on the order of the errors (up to which address family a reset
  names).
\<close>

theorem update_treatment_most_severe:
  "list_all (\<lambda>e. error_rank e \<le> treatment_rank (update_treatment errs)) (ie_path_attr_errors errs) \<and>
   (update_treatment errs = Normal \<or>
      list_ex (\<lambda>e. error_rank e = treatment_rank (update_treatment errs)) (ie_path_attr_errors errs)) \<and>
   treatment_rank (update_treatment (errs \<lparr> ie_path_attr_errors := rev (ie_path_attr_errors errs) \<rparr>)) =
     treatment_rank (update_treatment errs)"
proof -
  let ?R = "insert 0 (error_rank ` set (ie_path_attr_errors errs))"
  have m: "Max ?R \<in> ?R" by (intro Max_in) auto
  have "update_treatment errs = Normal \<longleftrightarrow> treatment_rank (update_treatment errs) = 0"
    by (cases "update_treatment errs") auto
  with m have "update_treatment errs = Normal \<or>
      list_ex (\<lambda>e. error_rank e = treatment_rank (update_treatment errs)) (ie_path_attr_errors errs)"
    unfolding update_treatment_rank by (auto simp: list_ex_iff)
  moreover have "list_all (\<lambda>e. error_rank e \<le> treatment_rank (update_treatment errs)) (ie_path_attr_errors errs)"
    unfolding update_treatment_rank by (simp add: list_all_iff)
  ultimately show ?thesis by (simp add: update_treatment_rank)
qed

end
