(* ===== verification/Bgp_Connection.thy ===== *)
theory Bgp_Connection
  imports Bgp_Events
begin

text \<open>
  A BGP connection (\<open>src/netgauze/bgp-speaker/src/connection.rs\<close>) and the policy that makes its OPEN
  message (\<open>EchoCapabilitiesPolicy\<close> of \<open>peer.rs\<close>). Time is a real number of seconds. The framed TCP
  stream is a parameter: \<open>ce_wr\<close> says what becomes of a message handed to it, given the messages it
  took before, and \<open>cn_sent\<close> records what the connection handed to it. Logging is left out.
\<close>

section \<open>Time\<close>

text \<open>
  \<open>tokio::time::Interval\<close>: its period and the next instant it ticks at. Every interval of the source is
  \<open>reset\<close> right after it is created, so it first ticks a period later. A tick moves the deadline by a
  period (\<open>MissedTickBehavior::Burst\<close>).
\<close>

record Interval =
  iv_period :: real
  iv_deadline :: real

definition interval_start :: "real \<Rightarrow> real \<Rightarrow> Interval" where
  "interval_start now period = \<lparr> iv_period = period, iv_deadline = now + period \<rparr>"

definition interval_reset :: "real \<Rightarrow> Interval \<Rightarrow> Interval" where
  "interval_reset now iv = iv \<lparr> iv_deadline := now + iv_period iv \<rparr>"

definition interval_tick :: "Interval \<Rightarrow> Interval" where
  "interval_tick iv = iv \<lparr> iv_deadline := iv_deadline iv + iv_period iv \<rparr>"

definition interval_due :: "real \<Rightarrow> Interval option \<Rightarrow> bool" where
  "interval_due now t = (case t of None \<Rightarrow> False | Some iv \<Rightarrow> iv_deadline iv \<le> now)"

text \<open>
  \<open>Duration::div_f32\<close> and \<open>mul_f32\<close>: the seconds as an \<open>f32\<close>, one \<open>f32\<close> operation, and the result to the
  nearest nanosecond. \<open>fl32\<close> rounds to \<open>f32\<close>.
\<close>

definition from_secs_f32 :: "real \<Rightarrow> real" where
  "from_secs_f32 x = of_int (round (x * 10 ^ 9)) / 10 ^ 9"

definition div_f32 :: "(real \<Rightarrow> real) \<Rightarrow> real \<Rightarrow> real \<Rightarrow> real" where
  "div_f32 fl32 d rhs = from_secs_f32 (fl32 (fl32 d / rhs))"

definition mul_f32 :: "(real \<Rightarrow> real) \<Rightarrow> real \<Rightarrow> real \<Rightarrow> real" where
  "mul_f32 fl32 d rhs = from_secs_f32 (fl32 (rhs * fl32 d))"

definition from_secs :: "u16 \<Rightarrow> real" where
  "from_secs x = real (unat x)"

section \<open>State\<close>

record ConnectionStats =
  st_created :: real
  st_messages_received :: u64
  st_messages_sent :: u64
  st_open_received :: u64
  st_open_sent :: u64
  st_update_received :: u64
  st_update_sent :: u64
  st_keepalive_received :: u64
  st_keepalive_sent :: u64
  st_notification_received :: u64
  st_notification_sent :: u64
  st_route_refresh_received :: u64
  st_route_refresh_sent :: u64
  st_last_received :: "real option"
  st_last_sent :: "real option"

text \<open>\<open>ConnectionStats::default()\<close>; the default \<open>DateTime\<close> is the epoch.\<close>

definition ConnectionStats_default :: ConnectionStats where
  "ConnectionStats_default =
     \<lparr> st_created = 0, st_messages_received = 0, st_messages_sent = 0, st_open_received = 0, st_open_sent = 0,
       st_update_received = 0, st_update_sent = 0, st_keepalive_received = 0, st_keepalive_sent = 0,
       st_notification_received = 0, st_notification_sent = 0, st_route_refresh_received = 0,
       st_route_refresh_sent = 0, st_last_received = None, st_last_sent = None \<rparr>"

datatype ConnectionType = ActiveConnection | PassiveConnection

record ConnectionConfig =
  cc_send_notif_without_open :: bool
  cc_open_delay_timer_duration :: u16
  cc_hold_timer_duration :: u16
  cc_hold_timer_duration_large_value :: u16
  cc_keepalive_timer_duration :: u16
  cc_idle_hold_duration :: u16

definition ConnectionConfig_default :: ConnectionConfig where
  "ConnectionConfig_default =
     \<lparr> cc_send_notif_without_open = True, cc_open_delay_timer_duration = 0, cc_hold_timer_duration = 180,
       cc_hold_timer_duration_large_value = 240, cc_keepalive_timer_duration = 30, cc_idle_hold_duration = 1 \<rparr>"

record PeerProperties =
  pp_my_asn :: u32
  pp_peer_asn :: u32
  pp_my_bgp_id :: ipv4addr
  pp_peer_addr :: SocketAddr
  pp_allow_dynamic_as :: bool

record Connection =
  cn_peer_addr :: SocketAddr
  cn_state :: ConnectionState
  cn_connection_type :: ConnectionType
  cn_config :: ConnectionConfig
  cn_my_asn :: u32
  cn_peer_asn :: "u32 option"
  cn_my_bgp_id :: ipv4addr
  cn_peer_bgp_id :: "ipv4addr option"
  cn_sent_capabilities :: "BgpCapability list option"
  cn_received_capabilities :: "BgpCapability list option"
  cn_peer_hold_time :: "u16 option"
  cn_remote_bgp_id :: "ipv4addr option"
  cn_sent :: "BgpMessage list"
  cn_stats :: ConnectionStats
  cn_keepalive_timer :: "Interval option"
  cn_keepalive_timer_duration :: real
  cn_open_delay_timer :: "Interval option"
  cn_hold_timer :: "Interval option"
  cn_hold_timer_duration :: real
  cn_jitter :: real

definition Connection_new :: "PeerProperties \<Rightarrow> SocketAddr \<Rightarrow> ConnectionType \<Rightarrow> ConnectionConfig \<Rightarrow> real \<Rightarrow> Connection" where
  "Connection_new props peer_addr connection_type config jitter =
     \<lparr> cn_peer_addr = peer_addr, cn_state = CConnected, cn_connection_type = connection_type, cn_config = config,
       cn_my_asn = pp_my_asn props,
       cn_peer_asn = (if pp_allow_dynamic_as props then None else Some (pp_peer_asn props)),
       cn_my_bgp_id = pp_my_bgp_id props, cn_peer_bgp_id = None, cn_sent_capabilities = None,
       cn_received_capabilities = None, cn_peer_hold_time = None, cn_remote_bgp_id = None, cn_sent = [],
       cn_stats = ConnectionStats_default, cn_keepalive_timer = None,
       cn_keepalive_timer_duration = from_secs (cc_keepalive_timer_duration config),
       cn_open_delay_timer = None, cn_hold_timer = None,
       cn_hold_timer_duration = from_secs (cc_hold_timer_duration config), cn_jitter = jitter \<rparr>"

text \<open>
  The environment of a step: the time, what becomes of a message handed to the framed stream after those
  it took before, and rounding to \<open>f32\<close>.
\<close>

datatype send_outcome = SendOk | ReadyFails | WriteFails

record conn_env =
  ce_now :: real
  ce_wr :: "BgpMessage list \<Rightarrow> BgpMessage \<Rightarrow> send_outcome"
  ce_fl32 :: "real \<Rightarrow> real"

section \<open>The capabilities policy\<close>

record EchoCapabilitiesPolicy =
  po_my_asn :: u32
  po_send_asn4_cap_by_default :: bool
  po_my_bgp_id :: ipv4addr
  po_remote_as :: "u32 option"
  po_hold_timer_duration :: u16
  po_capabilities :: "BgpCapability list"
  po_reject_capabilities :: "BgpCapability list"
  po_peer_capabilities :: "BgpCapability list"

definition EchoCapabilitiesPolicy_new ::
  "u32 \<Rightarrow> bool \<Rightarrow> ipv4addr \<Rightarrow> u16 \<Rightarrow> BgpCapability list \<Rightarrow> BgpCapability list \<Rightarrow> EchoCapabilitiesPolicy" where
  "EchoCapabilitiesPolicy_new my_asn send_asn4 my_bgp_id hold caps reject =
     \<lparr> po_my_asn = my_asn, po_send_asn4_cap_by_default = send_asn4, po_my_bgp_id = my_bgp_id, po_remote_as = None,
       po_hold_timer_duration = hold, po_capabilities = caps, po_reject_capabilities = reject,
       po_peer_capabilities = [] \<rparr>"

definition open_message_capabilities :: "EchoCapabilitiesPolicy \<Rightarrow> u16 \<Rightarrow> BgpCapability list" where
  "open_message_capabilities po my_as =
     (let asn4_cap = Cap_FourOctetAs (po_my_asn po);
          own = (if (po_send_asn4_cap_by_default po \<or> my_as = AS_TRANS) \<and> asn4_cap \<notin> set (po_capabilities po)
                 then asn4_cap # po_capabilities po else po_capabilities po)
      in own @ filter (\<lambda>cap. cap \<notin> set (po_capabilities po) \<and> cap \<notin> set (po_reject_capabilities po))
                 (po_peer_capabilities po))"

definition open_message :: "EchoCapabilitiesPolicy \<Rightarrow> BgpOpenMessage" where
  "open_message po =
     (let my_as = (if po_my_asn po > 65535 then AS_TRANS else ucast (po_my_asn po));
          capabilities = open_message_capabilities po my_as
      in BgpOpenMessage_new my_as (po_hold_timer_duration po) (po_my_bgp_id po)
           (if capabilities = [] then [] else [Param_Capabilities capabilities]))"

definition policy_read_open :: "BgpOpenMessage \<Rightarrow> EchoCapabilitiesPolicy \<Rightarrow> EchoCapabilitiesPolicy" where
  "policy_read_open opn po =
     po \<lparr> po_remote_as := Some (my_asn4 opn),
          po_peer_capabilities := filter (\<lambda>cap. BgpCapability_code cap \<noteq> Inr CAP_FourOctetAs) (open_capabilities opn) \<rparr>"

fun pre_handle_connection_event_hook :: "ConnectionEvent \<Rightarrow> EchoCapabilitiesPolicy \<Rightarrow> EchoCapabilitiesPolicy" where
  "pre_handle_connection_event_hook (BGPOpen opn) po = policy_read_open opn po"
| "pre_handle_connection_event_hook (BGPOpenWithDelayOpenTimer opn) po = policy_read_open opn po"
| "pre_handle_connection_event_hook _ po = po"

section \<open>Sending\<close>

definition reset_timer :: "real \<Rightarrow> Interval option \<Rightarrow> Interval option" where
  "reset_timer now = map_option (interval_reset now)"

definition start_send :: "real \<Rightarrow> BgpMessage \<Rightarrow> Connection \<Rightarrow> Connection" where
  "start_send now msg c =
     (let st = (cn_stats c) \<lparr> st_messages_sent := st_messages_sent (cn_stats c) + 1, st_last_sent := Some now \<rparr>
      in case msg of
           MsgOpen opn \<Rightarrow> c \<lparr> cn_stats := st \<lparr> st_open_sent := st_open_sent st + 1 \<rparr>,
                             cn_sent_capabilities := Some (open_capabilities opn) \<rparr>
         | MsgUpdate _ \<Rightarrow> c \<lparr> cn_keepalive_timer := reset_timer now (cn_keepalive_timer c),
                             cn_stats := st \<lparr> st_update_sent := st_update_sent st + 1 \<rparr> \<rparr>
         | MsgNotification _ \<Rightarrow> c \<lparr> cn_stats := st \<lparr> st_notification_sent := st_notification_sent st + 1 \<rparr> \<rparr>
         | MsgKeepAlive \<Rightarrow> c \<lparr> cn_keepalive_timer := reset_timer now (cn_keepalive_timer c),
                             cn_stats := st \<lparr> st_keepalive_sent := st_keepalive_sent st + 1 \<rparr> \<rparr>
         | MsgRouteRefresh _ \<Rightarrow> c \<lparr> cn_stats := st \<lparr> st_route_refresh_sent := st_route_refresh_sent st + 1 \<rparr> \<rparr>)"

text \<open>
  \<open>SinkExt::send\<close>: wait until the stream takes a message, \<open>start_send\<close>, flush. The first may fail with
  nothing changed; a failure to encode or to flush comes after the statistics have counted the message.
\<close>

definition send :: "conn_env \<Rightarrow> BgpMessage \<Rightarrow> Connection \<Rightarrow> bool \<times> Connection" where
  "send env msg c =
     (case ce_wr env (cn_sent c) msg of
        ReadyFails \<Rightarrow> (False, c)
      | WriteFails \<Rightarrow> (False, start_send (ce_now env) msg c)
      | SendOk \<Rightarrow> (True, (start_send (ce_now env) msg c) \<lparr> cn_sent := cn_sent c @ [msg] \<rparr>))"

type_synonym handled = "(FsmStateError + ConnectionEvent) \<times> Connection"

text \<open>\<open>self.send(msg).await?\<close> and a send whose error is only logged.\<close>

definition send_try :: "conn_env \<Rightarrow> BgpMessage \<Rightarrow> Connection \<Rightarrow> (Connection \<Rightarrow> handled) \<Rightarrow> handled" where
  "send_try env msg c k = (case send env msg c of (ok, c') \<Rightarrow> if ok then k c' else (Inl FE_BgpMessageWritingError, c'))"

definition send_ignore :: "conn_env \<Rightarrow> BgpMessage \<Rightarrow> Connection \<Rightarrow> Connection" where
  "send_ignore env msg c = snd (send env msg c)"

section \<open>Timers and the OPEN message\<close>

definition read_open_msg :: "BgpOpenMessage \<Rightarrow> Connection \<Rightarrow> Connection" where
  "read_open_msg opn c =
     c \<lparr> cn_peer_asn := Some (my_asn4 opn), cn_peer_bgp_id := Some (op_bgp_id opn),
         cn_received_capabilities := Some (open_capabilities opn), cn_peer_hold_time := Some (op_hold_time opn) \<rparr>"

definition set_negotiated_timers :: "conn_env \<Rightarrow> Connection \<Rightarrow> Connection" where
  "set_negotiated_timers env c =
     (if from_secs (cc_hold_timer_duration (cn_config c)) = 0
      then c \<lparr> cn_hold_timer_duration := 0, cn_keepalive_timer_duration := 0 \<rparr>
      else
        let hold = (case cn_peer_hold_time c of
                      Some received_hold_time \<Rightarrow> from_secs (min (cc_hold_timer_duration (cn_config c)) received_hold_time)
                    | None \<Rightarrow> from_secs (cc_hold_timer_duration_large_value (cn_config c)))
        in c \<lparr> cn_hold_timer_duration := hold, cn_keepalive_timer_duration := div_f32 (ce_fl32 env) hold 3 \<rparr>)"

definition start_hold_timer :: "conn_env \<Rightarrow> Connection \<Rightarrow> Connection" where
  "start_hold_timer env c =
     (if cc_hold_timer_duration_large_value (cn_config c) \<noteq> 0
      then let d = from_secs (cc_hold_timer_duration_large_value (cn_config c))
           in c \<lparr> cn_hold_timer_duration := d, cn_hold_timer := Some (interval_start (ce_now env) d) \<rparr>
      else c)"

text \<open>The two blocks that arm the negotiated timers, when their durations are not zero.\<close>

definition start_negotiated_timers :: "conn_env \<Rightarrow> Connection \<Rightarrow> Connection" where
  "start_negotiated_timers env c =
     (let c1 = (if cn_keepalive_timer_duration c \<noteq> 0
                then c \<lparr> cn_keepalive_timer :=
                           Some (interval_start (ce_now env) (mul_f32 (ce_fl32 env) (cn_keepalive_timer_duration c) (cn_jitter c))) \<rparr>
                else c)
      in if cn_hold_timer_duration c1 \<noteq> 0
         then c1 \<lparr> cn_hold_timer := Some (interval_start (ce_now env) (cn_hold_timer_duration c1)) \<rparr>
         else c1)"

section \<open>The state machine of a connection\<close>

definition to_state :: "ConnectionState \<Rightarrow> ConnectionEvent \<Rightarrow> Connection \<Rightarrow> handled" where
  "to_state s event c = (Inr event, c \<lparr> cn_state := s \<rparr>)"

definition hold_timer_notification :: BgpMessage where
  "hold_timer_notification = MsgNotification (Notif_HoldTimerExpiredError (Hold_Unspecific 0 []))"

fun handle_connected_event :: "conn_env \<Rightarrow> EchoCapabilitiesPolicy \<Rightarrow> ConnectionEvent \<Rightarrow> Connection \<Rightarrow> handled" where
  "handle_connected_event env policy DelayOpenTimerExpires c =
     send_try env (MsgOpen (open_message policy)) (start_hold_timer env c) (to_state COpenSent DelayOpenTimerExpires)"
| "handle_connected_event env policy (TcpConnectionRequestAcked a) c =
     (if cc_open_delay_timer_duration (cn_config c) = 0
      then send_try env (MsgOpen (open_message policy)) (start_hold_timer env c) (to_state COpenSent (TcpConnectionRequestAcked a))
      else (Inr (TcpConnectionRequestAcked a),
            c \<lparr> cn_open_delay_timer := Some (interval_start (ce_now env) (from_secs (cc_open_delay_timer_duration (cn_config c)))) \<rparr>))"
| "handle_connected_event env policy (TcpConnectionConfirmed a) c =
     (if cc_open_delay_timer_duration (cn_config c) = 0
      then send_try env (MsgOpen (open_message policy)) (start_hold_timer env c) (to_state COpenSent (TcpConnectionConfirmed a))
      else (Inr (TcpConnectionConfirmed a),
            c \<lparr> cn_open_delay_timer := Some (interval_start (ce_now env) (from_secs (cc_open_delay_timer_duration (cn_config c)))) \<rparr>))"
| "handle_connected_event env policy (BGPOpenWithDelayOpenTimer opn) c =
     send_try env (MsgOpen (open_message policy))
       (start_negotiated_timers env (set_negotiated_timers env (read_open_msg opn (c \<lparr> cn_open_delay_timer := None \<rparr>))))
       (\<lambda>c. send_try env MsgKeepAlive c (to_state COpenConfirm (BGPOpenWithDelayOpenTimer opn)))"
| "handle_connected_event env policy (BGPHeaderErr err) c =
     to_state CTerminate (BGPHeaderErr err)
       (if cc_send_notif_without_open (cn_config c) then send_ignore env (MsgNotification (Notif_MessageHeaderError err)) c else c)"
| "handle_connected_event env policy (BGPOpenMsgErr err) c =
     to_state CTerminate (BGPOpenMsgErr err)
       (if cc_send_notif_without_open (cn_config c) then send_ignore env (MsgNotification (Notif_OpenMessageError err)) c else c)"
| "handle_connected_event env policy (NotifMsgErr err) c = (Inr (NotifMsgErr err), c)"
| "handle_connected_event env policy event c = to_state CTerminate event c"

fun handle_open_sent_event :: "conn_env \<Rightarrow> ConnectionEvent \<Rightarrow> Connection \<Rightarrow> handled" where
  "handle_open_sent_event env HoldTimerExpires c =
     send_try env hold_timer_notification c (to_state CTerminate HoldTimerExpires)"
| "handle_open_sent_event env (BGPOpen opn) c =
     send_try env MsgKeepAlive
       (start_negotiated_timers env (set_negotiated_timers env (read_open_msg opn (c \<lparr> cn_open_delay_timer := None \<rparr>))))
       (to_state COpenConfirm (BGPOpen opn))"
| "handle_open_sent_event env (BGPHeaderErr err) c =
     to_state CTerminate (BGPHeaderErr err) (send_ignore env (MsgNotification (Notif_MessageHeaderError err)) c)"
| "handle_open_sent_event env (BGPOpenMsgErr err) c =
     to_state CTerminate (BGPOpenMsgErr err) (send_ignore env (MsgNotification (Notif_OpenMessageError err)) c)"
| "handle_open_sent_event env (NotifMsgErr err) c = (Inr (NotifMsgErr err), c)"
| "handle_open_sent_event env TcpConnectionFails c = to_state CTerminate TcpConnectionFails c"
| "handle_open_sent_event env NotifMsgVerErr c = to_state CTerminate NotifMsgVerErr c"
| "handle_open_sent_event env (TcpConnectionRequestAcked a) c = to_state CTerminate (TcpConnectionRequestAcked a) c"
| "handle_open_sent_event env (TcpConnectionConfirmed a) c = to_state CTerminate (TcpConnectionConfirmed a) c"
| "handle_open_sent_event env event c =
     to_state CTerminate event
       (send_ignore env (MsgNotification (Notif_FiniteStateMachineError (Fsm_ReceiveUnexpectedMessageInOpenSentState []))) c)"

text \<open>In \<open>OpenConfirm\<close> the hold timer's handler moves to \<open>Terminate\<close> before it sends.\<close>

fun handle_open_confirm_event :: "conn_env \<Rightarrow> ConnectionEvent \<Rightarrow> Connection \<Rightarrow> handled" where
  "handle_open_confirm_event env HoldTimerExpires c =
     send_try env hold_timer_notification (c \<lparr> cn_state := CTerminate \<rparr>) (\<lambda>c. (Inr HoldTimerExpires, c))"
| "handle_open_confirm_event env KeepAliveTimerExpires c =
     send_try env MsgKeepAlive c (\<lambda>c. (Inr KeepAliveTimerExpires, c))"
| "handle_open_confirm_event env NotifMsgVerErr c = to_state CTerminate NotifMsgVerErr c"
| "handle_open_confirm_event env (NotifMsg m) c = to_state CTerminate (NotifMsg m) c"
| "handle_open_confirm_event env (BGPHeaderErr err) c =
     to_state CTerminate (BGPHeaderErr err) (send_ignore env (MsgNotification (Notif_MessageHeaderError err)) c)"
| "handle_open_confirm_event env (BGPOpenMsgErr err) c =
     to_state CTerminate (BGPOpenMsgErr err) (send_ignore env (MsgNotification (Notif_OpenMessageError err)) c)"
| "handle_open_confirm_event env KeepAliveMsg c =
     to_state CEstablished KeepAliveMsg (c \<lparr> cn_hold_timer := reset_timer (ce_now env) (cn_hold_timer c) \<rparr>)"
| "handle_open_confirm_event env TcpConnectionFails c = to_state CTerminate TcpConnectionFails c"
| "handle_open_confirm_event env (NotifMsgErr err) c = (Inr (NotifMsgErr err), c)"
| "handle_open_confirm_event env (TcpConnectionRequestAcked a) c = to_state CTerminate (TcpConnectionRequestAcked a) c"
| "handle_open_confirm_event env (TcpConnectionConfirmed a) c = to_state CTerminate (TcpConnectionConfirmed a) c"
| "handle_open_confirm_event env event c =
     to_state CTerminate event
       (send_ignore env (MsgNotification (Notif_FiniteStateMachineError (Fsm_ReceiveUnexpectedMessageInOpenConfirmState []))) c)"

fun handle_established_event :: "conn_env \<Rightarrow> ConnectionEvent \<Rightarrow> Connection \<Rightarrow> handled" where
  "handle_established_event env HoldTimerExpires c =
     to_state CTerminate HoldTimerExpires (send_ignore env hold_timer_notification c)"
| "handle_established_event env KeepAliveTimerExpires c =
     send_try env MsgKeepAlive c (\<lambda>c. (Inr KeepAliveTimerExpires, c))"
| "handle_established_event env KeepAliveMsg c =
     (Inr KeepAliveMsg, c \<lparr> cn_hold_timer := reset_timer (ce_now env) (cn_hold_timer c) \<rparr>)"
| "handle_established_event env (UpdateMsg u t) c = (Inr (UpdateMsg u t), c)"
| "handle_established_event env (RouteRefresh r) c = (Inr (RouteRefresh r), c)"
| "handle_established_event env (NotifMsgErr err) c = (Inr (NotifMsgErr err), c)"
| "handle_established_event env event c = to_state CTerminate event c"

definition handle_event :: "conn_env \<Rightarrow> EchoCapabilitiesPolicy \<Rightarrow> ConnectionEvent \<Rightarrow> Connection \<Rightarrow> handled" where
  "handle_event env policy event c =
     (case cn_state c of
        CTerminate \<Rightarrow> (Inr event, c)
      | CConnected \<Rightarrow> handle_connected_event env policy event c
      | COpenSent \<Rightarrow> handle_open_sent_event env event c
      | COpenConfirm \<Rightarrow> handle_open_confirm_event env event c
      | CEstablished \<Rightarrow> handle_established_event env event c)"

section \<open>Incoming messages\<close>

definition handle_open_message :: "BgpOpenMessage \<Rightarrow> u32 option \<Rightarrow> bool \<Rightarrow> ipv4addr \<times> ConnectionEvent" where
  "handle_open_message opn peer_asn delay_timer_running =
     (case peer_asn of
        Some asn \<Rightarrow>
          if asn \<noteq> my_asn4 opn then (op_bgp_id opn, BGPOpenMsgErr (Opn_BadPeerAs (to_be_bytes asn)))
          else (op_bgp_id opn, if delay_timer_running then BGPOpenWithDelayOpenTimer opn else BGPOpen opn)
      | None \<Rightarrow> (op_bgp_id opn, if delay_timer_running then BGPOpenWithDelayOpenTimer opn else BGPOpen opn))"

record attr_scan =
  sc_origin :: bool
  sc_asn_path :: bool
  sc_next_hop :: bool
  sc_mp_reach :: nat
  sc_mp_unreach :: nat

fun scan_attrs :: "PathAttribute list \<Rightarrow> attr_scan \<Rightarrow> attr_scan" where
  "scan_attrs [] s = s"
| "scan_attrs (attr # attrs) s =
     (if sc_origin s \<and> sc_asn_path s \<and> sc_next_hop s then s
      else scan_attrs attrs
        (case pa_value attr of
           PA_Origin _ \<Rightarrow> s \<lparr> sc_origin := True \<rparr>
         | PA_AsPath _ \<Rightarrow> s \<lparr> sc_asn_path := True \<rparr>
         | PA_As4Path _ \<Rightarrow> s \<lparr> sc_asn_path := True \<rparr>
         | PA_NextHop _ \<Rightarrow> s \<lparr> sc_next_hop := True \<rparr>
         | PA_MpReach _ \<Rightarrow> s \<lparr> sc_mp_reach := sc_mp_reach s + 1 \<rparr>
         | PA_MpUnreach _ \<Rightarrow> s \<lparr> sc_mp_unreach := sc_mp_unreach s + 1 \<rparr>
         | _ \<Rightarrow> s))"

definition attr_scan_init :: attr_scan where
  "attr_scan_init = \<lparr> sc_origin = False, sc_asn_path = False, sc_next_hop = False, sc_mp_reach = 0, sc_mp_unreach = 0 \<rparr>"

definition handle_update_message :: "BgpUpdateMessage \<Rightarrow> BgpParsingIgnoredErrors \<Rightarrow> ConnectionEvent option" where
  "handle_update_message update parsing_errors =
     (let eor = end_of_rib update; s = scan_attrs (um_path_attributes update) attr_scan_init
      in if eor = None \<and> \<not> sc_origin s \<and> (sc_mp_reach s > 0 \<or> um_nlri update \<noteq> [])
         then Some (UpdateMsgErr (Upd_MissingWellKnownAttribute [PathAttributeType_code PAT_Origin]))
         else if eor = None \<and> \<not> sc_asn_path s \<and> (sc_mp_reach s > 0 \<or> um_nlri update \<noteq> [])
         then Some (UpdateMsgErr (Upd_MissingWellKnownAttribute [PathAttributeType_code PAT_AsPath]))
         else if eor = None \<and> sc_mp_reach s = 0 \<and> sc_mp_unreach s = 0 \<and> \<not> sc_next_hop s \<and> um_nlri update \<noteq> []
         then Some (UpdateMsgErr (Upd_MissingWellKnownAttribute [PathAttributeType_code PAT_NextHop]))
         else if sc_mp_reach s > 1 \<or> sc_mp_unreach s > 1
         then Some (UpdateMsgErr (Upd_MalformedAttributeList []))
         else Some (UpdateMsg update (update_treatment parsing_errors)))"

text \<open>What the framed stream yields when it is ready.\<close>

datatype frame =
    FrameEnd
  | FrameErr BgpCodecDecoderError
  | FrameMsg BgpMessage BgpParsingIgnoredErrors

fun handle_message :: "BgpMessage \<Rightarrow> BgpParsingIgnoredErrors \<Rightarrow> Connection \<Rightarrow> ConnectionEvent option \<times> Connection" where
  "handle_message (MsgOpen opn) errs c =
     (let c = c \<lparr> cn_stats := (cn_stats c) \<lparr> st_open_received := st_open_received (cn_stats c) + 1 \<rparr> \<rparr>;
          (peer_bgp_id, event) = handle_open_message opn (cn_peer_asn c) (cn_open_delay_timer c \<noteq> None)
      in (Some event, c \<lparr> cn_peer_bgp_id := Some peer_bgp_id \<rparr>))"
| "handle_message (MsgUpdate update) errs c =
     (handle_update_message update errs,
      c \<lparr> cn_stats := (cn_stats c) \<lparr> st_update_received := st_update_received (cn_stats c) + 1 \<rparr> \<rparr>)"
| "handle_message (MsgNotification notif) errs c =
     (Some (case notif of Notif_OpenMessageError (Opn_UnsupportedVersionNumber _) \<Rightarrow> NotifMsgVerErr | _ \<Rightarrow> NotifMsg notif),
      c \<lparr> cn_stats := (cn_stats c) \<lparr> st_notification_received := st_notification_received (cn_stats c) + 1 \<rparr> \<rparr>)"
| "handle_message (MsgRouteRefresh refresh) errs c =
     (Some (RouteRefresh refresh),
      c \<lparr> cn_stats := (cn_stats c) \<lparr> st_route_refresh_received := st_route_refresh_received (cn_stats c) + 1 \<rparr> \<rparr>)"
| "handle_message MsgKeepAlive errs c =
     (Some KeepAliveMsg,
      c \<lparr> cn_stats := (cn_stats c) \<lparr> st_keepalive_received := st_keepalive_received (cn_stats c) + 1 \<rparr> \<rparr>)"

definition count_received :: "conn_env \<Rightarrow> Connection \<Rightarrow> Connection" where
  "count_received env c =
     c \<lparr> cn_stats := (cn_stats c) \<lparr> st_messages_received := st_messages_received (cn_stats c) + 1,
                                   st_last_received := Some (ce_now env) \<rparr> \<rparr>"

text \<open>
  \<open>poll_next\<close>: the select is biased, so a timer that is due comes before the stream, in the order
  keepalive, open delay, hold. \<open>None\<close> is \<open>Pending\<close> (and an item that gives no event).
\<close>

definition poll_next :: "conn_env \<Rightarrow> frame option \<Rightarrow> Connection \<Rightarrow> ConnectionEvent option \<times> Connection" where
  "poll_next env item c =
     (if interval_due (ce_now env) (cn_keepalive_timer c)
      then (Some KeepAliveTimerExpires, c \<lparr> cn_keepalive_timer := map_option interval_tick (cn_keepalive_timer c) \<rparr>)
      else if interval_due (ce_now env) (cn_open_delay_timer c)
      then (Some DelayOpenTimerExpires, c \<lparr> cn_open_delay_timer := None \<rparr>)
      else if interval_due (ce_now env) (cn_hold_timer c)
      then (Some HoldTimerExpires, c \<lparr> cn_hold_timer := map_option interval_tick (cn_hold_timer c) \<rparr>)
      else case item of
             None \<Rightarrow> (None, c)
           | Some FrameEnd \<Rightarrow> (Some TcpConnectionFails, c)
           | Some (FrameErr err) \<Rightarrow> (Some (ConnectionEvent_from err), c)
           | Some (FrameMsg msg errs) \<Rightarrow> handle_message msg errs (count_received env c))"

end
