(* ===== verification/Bgp_Connection_Laws.thy ===== *)
theory Bgp_Connection_Laws
  imports Bgp_Connection F64_Rounding
begin

text \<open>
  Laws of a BGP connection: what each operation keeps, the edges of its state machine, the handshake that
  leads to \<open>Established\<close>, its timers, the classification of UPDATE messages and the capabilities the
  policy announces.
\<close>

section \<open>What sending changes\<close>

lemma start_send_frame [simp]:
  "cn_state (start_send now msg c) = cn_state c"
  "cn_sent (start_send now msg c) = cn_sent c"
  "cn_config (start_send now msg c) = cn_config c"
  "cn_open_delay_timer (start_send now msg c) = cn_open_delay_timer c"
  "cn_hold_timer (start_send now msg c) = cn_hold_timer c"
  "cn_peer_bgp_id (start_send now msg c) = cn_peer_bgp_id c"
  "cn_peer_hold_time (start_send now msg c) = cn_peer_hold_time c"
  "cn_peer_asn (start_send now msg c) = cn_peer_asn c"
  by (cases msg; simp add: start_send_def Let_def)+

lemma send_frame [simp]:
  "cn_state (snd (send env msg c)) = cn_state c"
  "cn_config (snd (send env msg c)) = cn_config c"
  "cn_open_delay_timer (snd (send env msg c)) = cn_open_delay_timer c"
  "cn_hold_timer (snd (send env msg c)) = cn_hold_timer c"
  "cn_peer_bgp_id (snd (send env msg c)) = cn_peer_bgp_id c"
  "cn_peer_hold_time (snd (send env msg c)) = cn_peer_hold_time c"
  "cn_peer_asn (snd (send env msg c)) = cn_peer_asn c"
  by (simp_all add: send_def split: send_outcome.split)

lemma send_sent [simp]: "cn_sent (snd (send env msg c)) = (if fst (send env msg c) then cn_sent c @ [msg] else cn_sent c)"
  by (simp add: send_def split: send_outcome.split)

lemmas send_ignore_frame [simp] = send_frame [folded send_ignore_def]

lemma send_try_split:
  "send_try env msg c k = (if fst (send env msg c) then k (snd (send env msg c)) else (Inl FE_BgpMessageWritingError, snd (send env msg c)))"
  by (simp add: send_try_def split: prod.split)

lemma negotiated_frame [simp]:
  "cn_state (set_negotiated_timers env c) = cn_state c"
  "cn_sent (set_negotiated_timers env c) = cn_sent c"
  "cn_config (set_negotiated_timers env c) = cn_config c"
  "cn_open_delay_timer (set_negotiated_timers env c) = cn_open_delay_timer c"
  "cn_peer_bgp_id (set_negotiated_timers env c) = cn_peer_bgp_id c"
  "cn_peer_hold_time (set_negotiated_timers env c) = cn_peer_hold_time c"
  "cn_stats (set_negotiated_timers env c) = cn_stats c"
  "cn_hold_timer (set_negotiated_timers env c) = cn_hold_timer c"
  "cn_jitter (set_negotiated_timers env c) = cn_jitter c"
  by (simp_all add: set_negotiated_timers_def Let_def)

lemma start_timers_frame [simp]:
  "cn_state (start_negotiated_timers env c) = cn_state c"
  "cn_sent (start_negotiated_timers env c) = cn_sent c"
  "cn_config (start_negotiated_timers env c) = cn_config c"
  "cn_open_delay_timer (start_negotiated_timers env c) = cn_open_delay_timer c"
  "cn_peer_bgp_id (start_negotiated_timers env c) = cn_peer_bgp_id c"
  "cn_peer_hold_time (start_negotiated_timers env c) = cn_peer_hold_time c"
  "cn_stats (start_negotiated_timers env c) = cn_stats c"
  by (simp_all add: start_negotiated_timers_def Let_def)

lemma start_hold_frame [simp]:
  "cn_state (start_hold_timer env c) = cn_state c"
  "cn_sent (start_hold_timer env c) = cn_sent c"
  "cn_config (start_hold_timer env c) = cn_config c"
  "cn_open_delay_timer (start_hold_timer env c) = cn_open_delay_timer c"
  "cn_stats (start_hold_timer env c) = cn_stats c"
  by (simp_all add: start_hold_timer_def Let_def)

lemma read_open_frame [simp]:
  "cn_state (read_open_msg opn c) = cn_state c"
  "cn_sent (read_open_msg opn c) = cn_sent c"
  "cn_config (read_open_msg opn c) = cn_config c"
  "cn_open_delay_timer (read_open_msg opn c) = cn_open_delay_timer c"
  "cn_peer_bgp_id (read_open_msg opn c) = Some (op_bgp_id opn)"
  "cn_peer_hold_time (read_open_msg opn c) = Some (op_hold_time opn)"
  "cn_stats (read_open_msg opn c) = cn_stats c"
  "cn_hold_timer (read_open_msg opn c) = cn_hold_timer c"
  "cn_jitter (read_open_msg opn c) = cn_jitter c"
  by (simp_all add: read_open_msg_def)

section \<open>The abstract state machine\<close>

text \<open>
  The session state machine without timers, counters and messages: the state after an event is handled.
  \<open>d\<close> says that the open delay is in use. An event that is not named terminates the connection.
\<close>

definition conn_next :: "bool \<Rightarrow> ConnectionState \<Rightarrow> ConnectionEvent \<Rightarrow> ConnectionState" where
  "conn_next d s e =
     (case s of
        CConnected \<Rightarrow>
          (case e of
             DelayOpenTimerExpires \<Rightarrow> COpenSent
           | TcpConnectionRequestAcked _ \<Rightarrow> if d then CConnected else COpenSent
           | TcpConnectionConfirmed _ \<Rightarrow> if d then CConnected else COpenSent
           | BGPOpenWithDelayOpenTimer _ \<Rightarrow> COpenConfirm
           | NotifMsgErr _ \<Rightarrow> CConnected
           | _ \<Rightarrow> CTerminate)
      | COpenSent \<Rightarrow> (case e of BGPOpen _ \<Rightarrow> COpenConfirm | NotifMsgErr _ \<Rightarrow> COpenSent | _ \<Rightarrow> CTerminate)
      | COpenConfirm \<Rightarrow>
          (case e of
             KeepAliveMsg \<Rightarrow> CEstablished | KeepAliveTimerExpires \<Rightarrow> COpenConfirm | NotifMsgErr _ \<Rightarrow> COpenConfirm
           | _ \<Rightarrow> CTerminate)
      | CEstablished \<Rightarrow>
          (case e of
             KeepAliveMsg \<Rightarrow> CEstablished | KeepAliveTimerExpires \<Rightarrow> CEstablished | NotifMsgErr _ \<Rightarrow> CEstablished
           | UpdateMsg _ _ \<Rightarrow> CEstablished | RouteRefresh _ \<Rightarrow> CEstablished | _ \<Rightarrow> CTerminate)
      | CTerminate \<Rightarrow> CTerminate)"

definition uses_open_delay :: "Connection \<Rightarrow> bool" where
  "uses_open_delay c = (cc_open_delay_timer_duration (cn_config c) \<noteq> 0)"

lemmas handler_simps = to_state_def send_try_split

lemma handle_connected_next:
  assumes "handle_connected_event env po e c = (r, c')" "cn_state c = CConnected"
  shows "(r = Inr e \<and> cn_state c' = conn_next (uses_open_delay c) CConnected e) \<or> (r = Inl FE_BgpMessageWritingError \<and> cn_state c' = CConnected)"
  using assms
  by (cases e) (auto simp: conn_next_def handler_simps uses_open_delay_def split: if_splits)

lemma handle_open_sent_next:
  assumes "handle_open_sent_event env e c = (r, c')" "cn_state c = COpenSent"
  shows "(r = Inr e \<and> cn_state c' = conn_next d COpenSent e) \<or> (r = Inl FE_BgpMessageWritingError \<and> cn_state c' = COpenSent)"
  using assms
  by (cases e) (auto simp: conn_next_def handler_simps split: if_splits)

lemma handle_open_confirm_next:
  assumes "handle_open_confirm_event env e c = (r, c')" "cn_state c = COpenConfirm"
  shows "(r = Inr e \<and> cn_state c' = conn_next d COpenConfirm e) \<or>
    (r = Inl FE_BgpMessageWritingError \<and> cn_state c' \<in> {COpenConfirm, CTerminate})"
  using assms
  by (cases e) (auto simp: conn_next_def handler_simps split: if_splits)

lemma handle_established_next:
  assumes "handle_established_event env e c = (r, c')" "cn_state c = CEstablished"
  shows "(r = Inr e \<and> cn_state c' = conn_next d CEstablished e) \<or> (r = Inl FE_BgpMessageWritingError \<and> cn_state c' = CEstablished)"
  using assms
  by (cases e) (auto simp: conn_next_def handler_simps split: if_splits)

lemma handle_event_next:
  assumes "handle_event env po e c = (r, c')"
  shows "(r = Inr e \<and> cn_state c' = conn_next (uses_open_delay c) (cn_state c) e) \<or>
    (r = Inl FE_BgpMessageWritingError \<and> cn_state c' \<in> {cn_state c, CTerminate})"
proof (cases "cn_state c")
  case CConnected then show ?thesis using assms handle_connected_next [of env po e c r c'] by (auto simp: handle_event_def)
next
  case COpenSent then show ?thesis using assms handle_open_sent_next [of env e c r c'] by (auto simp: handle_event_def)
next
  case COpenConfirm then show ?thesis using assms handle_open_confirm_next [of env e c r c'] by (auto simp: handle_event_def)
next
  case CEstablished then show ?thesis using assms handle_established_next [of env e c r c'] by (auto simp: handle_event_def)
next
  case CTerminate then show ?thesis using assms by (auto simp: handle_event_def conn_next_def)
qed

section \<open>What a poll yields\<close>

lemma ConnectionEvent_from_cases:
  "ConnectionEvent_from err \<in> {TcpConnectionFails} \<union> range BGPHeaderErr \<union> range BGPOpenMsgErr \<union> range UpdateMsgErr
     \<union> range NotifMsgErr \<union> range RouteRefreshErr"
  by (cases err rule: ConnectionEvent_from.cases; simp)
     (rename_tac e; case_tac e rule: ConnectionEvent_from_parsing.cases; simp)

lemma handle_update_message_cases:
  "(\<exists>e. handle_update_message u errs = Some (UpdateMsgErr e)) \<or> handle_update_message u errs = Some (UpdateMsg u (update_treatment errs))"
  by (simp add: handle_update_message_def Let_def)

lemma handle_message_frame [simp]:
  "cn_state (snd (handle_message msg errs c)) = cn_state c"
  "cn_sent (snd (handle_message msg errs c)) = cn_sent c"
  "cn_config (snd (handle_message msg errs c)) = cn_config c"
  "cn_open_delay_timer (snd (handle_message msg errs c)) = cn_open_delay_timer c"
  "cn_hold_timer (snd (handle_message msg errs c)) = cn_hold_timer c"
  "cn_peer_hold_time (snd (handle_message msg errs c)) = cn_peer_hold_time c"
  by (cases msg; simp add: Let_def split: prod.split)+

lemma count_received_frame [simp]:
  "cn_state (count_received env c) = cn_state c"
  "cn_sent (count_received env c) = cn_sent c"
  "cn_config (count_received env c) = cn_config c"
  "cn_open_delay_timer (count_received env c) = cn_open_delay_timer c"
  "cn_hold_timer (count_received env c) = cn_hold_timer c"
  "cn_peer_hold_time (count_received env c) = cn_peer_hold_time c"
  "cn_peer_bgp_id (count_received env c) = cn_peer_bgp_id c"
  by (simp_all add: count_received_def)

lemma poll_next_cases:
  assumes "poll_next env item c = (e, c')"
  obtains (keepalive) "e = Some KeepAliveTimerExpires" "interval_due (ce_now env) (cn_keepalive_timer c)"
      "c' = c \<lparr> cn_keepalive_timer := map_option interval_tick (cn_keepalive_timer c) \<rparr>"
    | (delay) "e = Some DelayOpenTimerExpires" "cn_open_delay_timer c \<noteq> None" "c' = c \<lparr> cn_open_delay_timer := None \<rparr>"
    | (hold) "e = Some HoldTimerExpires" "interval_due (ce_now env) (cn_hold_timer c)"
      "c' = c \<lparr> cn_hold_timer := map_option interval_tick (cn_hold_timer c) \<rparr>"
    | (pending) "item = None" "e = None" "c' = c"
    | (closed) "item = Some FrameEnd" "e = Some TcpConnectionFails" "c' = c"
    | (broken) err where "item = Some (FrameErr err)" "e = Some (ConnectionEvent_from err)" "c' = c"
    | (message) m errs where "item = Some (FrameMsg m errs)" "handle_message m errs (count_received env c) = (e, c')"
proof -
  let ?due = "interval_due (ce_now env)"
  have some: "?due (cn_open_delay_timer c) \<Longrightarrow> cn_open_delay_timer c \<noteq> None"
    by (auto simp: interval_due_def split: option.splits)
  consider "?due (cn_keepalive_timer c)" | "\<not> ?due (cn_keepalive_timer c)" "?due (cn_open_delay_timer c)"
    | "\<not> ?due (cn_keepalive_timer c)" "\<not> ?due (cn_open_delay_timer c)" "?due (cn_hold_timer c)"
    | "\<not> ?due (cn_keepalive_timer c)" "\<not> ?due (cn_open_delay_timer c)" "\<not> ?due (cn_hold_timer c)" by blast
  then show thesis
  proof cases
    case 1 then show thesis using assms by (intro keepalive) (auto simp: poll_next_def)
  next
    case 2 then show thesis using assms some by (intro delay) (auto simp: poll_next_def)
  next
    case 3 then show thesis using assms by (intro hold) (auto simp: poll_next_def)
  next
    case 4
    then have p: "poll_next env item c =
        (case item of None \<Rightarrow> (None, c) | Some FrameEnd \<Rightarrow> (Some TcpConnectionFails, c)
         | Some (FrameErr err) \<Rightarrow> (Some (ConnectionEvent_from err), c)
         | Some (FrameMsg msg errs) \<Rightarrow> handle_message msg errs (count_received env c))"
      by (simp add: poll_next_def)
    show thesis
    proof (cases item)
      case None then show thesis using assms p by (intro pending) auto
    next
      case (Some f)
      show thesis
      proof (cases f)
        case FrameEnd then show thesis using assms p Some by (intro closed) auto
      next
        case (FrameErr err) then show thesis using assms p Some by (intro broken [of err]) auto
      next
        case (FrameMsg m errs) then show thesis using assms p Some by (intro message [of m errs]) auto
      qed
    qed
  qed
qed

lemma poll_next_frame [simp]:
  "cn_state (snd (poll_next env item c)) = cn_state c"
  "cn_sent (snd (poll_next env item c)) = cn_sent c"
  "cn_config (snd (poll_next env item c)) = cn_config c"
  "cn_peer_hold_time (snd (poll_next env item c)) = cn_peer_hold_time c"
  by (simp_all add: poll_next_def split: option.split frame.split)

text \<open>
  An OPEN event comes from an OPEN message, with the delayed form exactly when the open delay timer
  runs; a KEEPALIVE event comes from a KEEPALIVE; the events that report a new TCP connection never
  come from a poll.
\<close>

definition event_origin :: "frame option \<Rightarrow> bool \<Rightarrow> ConnectionEvent \<Rightarrow> bool" where
  "event_origin item delay e =
     (case e of
        BGPOpen opn \<Rightarrow> \<not> delay \<and> (\<exists>errs. item = Some (FrameMsg (MsgOpen opn) errs))
      | BGPOpenWithDelayOpenTimer opn \<Rightarrow> delay \<and> (\<exists>errs. item = Some (FrameMsg (MsgOpen opn) errs))
      | KeepAliveMsg \<Rightarrow> (\<exists>errs. item = Some (FrameMsg MsgKeepAlive errs))
      | UpdateMsg u t \<Rightarrow> (\<exists>errs. item = Some (FrameMsg (MsgUpdate u) errs) \<and> t = update_treatment errs)
      | DelayOpenTimerExpires \<Rightarrow> delay
      | TcpConnectionRequestAcked _ \<Rightarrow> False
      | TcpConnectionConfirmed _ \<Rightarrow> False
      | _ \<Rightarrow> True)"

lemma handle_message_origin:
  assumes "handle_message msg errs c = (Some e, c')"
  shows "event_origin (Some (FrameMsg msg errs)) (cn_open_delay_timer c \<noteq> None) e"
  using assms handle_update_message_cases
  by (cases msg)
     (auto simp: event_origin_def handle_open_message_def Let_def handle_update_message_def
       split: option.splits if_splits BgpNotificationMessage.splits OpenMessageError.splits)

lemma event_origin_timers [simp]:
  "event_origin item d KeepAliveTimerExpires" "event_origin item d HoldTimerExpires"
  "event_origin item d TcpConnectionFails" "event_origin item d DelayOpenTimerExpires = d"
  by (simp_all add: event_origin_def)

lemma event_origin_from [simp]: "event_origin item d (ConnectionEvent_from err)"
  using ConnectionEvent_from_cases [of err] by (auto simp: event_origin_def)

lemma poll_next_origin:
  assumes "poll_next env item c = (Some e, c')"
  shows "event_origin item (cn_open_delay_timer c \<noteq> None) e"
  using assms by (cases rule: poll_next_cases) (auto dest: handle_message_origin)

section \<open>The handshake\<close>

text \<open>
  The event loop of one connection: poll it with what its stream has to offer, let the policy see the
  event, handle it. An error ends the loop.
\<close>

type_synonym conn_input = "conn_env \<times> frame option"

definition conn_step :: "conn_input \<Rightarrow> EchoCapabilitiesPolicy \<times> Connection \<Rightarrow> FsmStateError + EchoCapabilitiesPolicy \<times> Connection" where
  "conn_step i s =
     (case poll_next (fst i) (snd i) (snd s) of
        (None, c) \<Rightarrow> Inr (fst s, c)
      | (Some e, c) \<Rightarrow>
          let po = pre_handle_connection_event_hook e (fst s)
          in case handle_event (fst i) po e c of (Inl err, _) \<Rightarrow> Inl err | (Inr _, c') \<Rightarrow> Inr (po, c'))"

fun conn_run :: "conn_input list \<Rightarrow> EchoCapabilitiesPolicy \<times> Connection \<Rightarrow> FsmStateError + EchoCapabilitiesPolicy \<times> Connection" where
  "conn_run [] s = Inr s"
| "conn_run (i # is) s = res_bind (conn_step i s) (conn_run is)"

lemma conn_run_snoc: "conn_run (is @ [i]) s = res_bind (conn_run is s) (conn_step i)"
  by (induction "is" arbitrary: s) (auto simp: res_bind_def split: sum.splits)

definition took_open :: "conn_input list \<Rightarrow> Connection \<Rightarrow> bool \<Rightarrow> bool" where
  "took_open is c confirmed =
     (\<exists>xs env opn errs ys.
        is = xs @ (env, Some (FrameMsg (MsgOpen opn) errs)) # ys \<and>
        cn_peer_bgp_id c = Some (op_bgp_id opn) \<and> cn_peer_hold_time c = Some (op_hold_time opn) \<and>
        (confirmed \<longrightarrow> (\<exists>env' errs'. (env', Some (FrameMsg MsgKeepAlive errs')) \<in> set ys)))"

definition sent_handshake :: "Connection \<Rightarrow> bool" where
  "sent_handshake c = (\<exists>opn n. cn_sent c = MsgOpen opn # MsgKeepAlive # replicate n MsgKeepAlive)"

definition handshake :: "conn_input list \<Rightarrow> Connection \<Rightarrow> bool" where
  "handshake is c =
     (case cn_state c of
        CConnected \<Rightarrow> cn_sent c = []
      | COpenSent \<Rightarrow> (\<exists>opn. cn_sent c = [MsgOpen opn]) \<and> cn_open_delay_timer c = None
      | COpenConfirm \<Rightarrow> sent_handshake c \<and> took_open is c False \<and> cn_open_delay_timer c = None
      | CEstablished \<Rightarrow> sent_handshake c \<and> took_open is c True \<and> cn_open_delay_timer c = None
      | CTerminate \<Rightarrow> True)"

lemma took_open_snoc: "took_open is c k \<Longrightarrow> took_open (is @ [i]) c k"
  unfolding took_open_def by fastforce

lemma took_open_cong:
  "cn_peer_bgp_id c' = cn_peer_bgp_id c \<Longrightarrow> cn_peer_hold_time c' = cn_peer_hold_time c \<Longrightarrow> took_open is c' k = took_open is c k"
  unfolding took_open_def by simp

lemma took_open_now:
  assumes "snd i = Some (FrameMsg (MsgOpen opn) errs)" "cn_peer_bgp_id c = Some (op_bgp_id opn)" "cn_peer_hold_time c = Some (op_hold_time opn)"
  shows "took_open (is @ [i]) c False"
  using assms unfolding took_open_def by (cases i) fastforce

lemma took_open_confirm:
  assumes "took_open is c False" "snd i = Some (FrameMsg MsgKeepAlive errs)"
  shows "took_open (is @ [i]) c True"
  using assms unfolding took_open_def by (cases i) fastforce

lemma sent_handshake_keepalive:
  "sent_handshake c \<Longrightarrow> cn_sent c' = cn_sent c @ [MsgKeepAlive] \<Longrightarrow> sent_handshake c'"
  unfolding sent_handshake_def
  by (metis append_Cons replicate_append_same replicate_Suc)

lemma sent_handshake_cong: "cn_sent c' = cn_sent c \<Longrightarrow> sent_handshake c' = sent_handshake c"
  by (simp add: sent_handshake_def)

text \<open>A poll that does not report an OPEN keeps the peer's identifier.\<close>

lemma poll_next_bgp_id:
  assumes "poll_next env item c = (e, c')" "\<forall>opn. e \<noteq> Some (BGPOpen opn) \<and> e \<noteq> Some (BGPOpenWithDelayOpenTimer opn)" "\<forall>err. e \<noteq> Some (BGPOpenMsgErr err)"
  shows "cn_peer_bgp_id c' = cn_peer_bgp_id c"
  using assms(1)
proof (cases rule: poll_next_cases)
  case (message m errs)
  then show ?thesis
    using assms(2,3) by (cases m) (auto simp: handle_open_message_def Let_def split: option.splits if_splits)
qed auto

lemma poll_next_open_delay:
  assumes "poll_next env item c = (e, c')"
  shows "cn_open_delay_timer c' = (if e = Some DelayOpenTimerExpires then None else cn_open_delay_timer c)"
  using assms
proof (cases rule: poll_next_cases)
  case (broken err)
  then show ?thesis using ConnectionEvent_from_cases [of err] by auto
next
  case (message m errs)
  have "e \<noteq> Some DelayOpenTimerExpires"
    using message(2) handle_update_message_cases
    by (cases m) (auto simp: handle_open_message_def handle_update_message_def Let_def
       split: option.splits if_splits BgpNotificationMessage.splits OpenMessageError.splits)
  then show ?thesis using message(2) handle_message_frame(4) [of m errs "count_received env c"] by simp
qed auto

lemma handshake_same:
  assumes "handshake is c" "cn_state c' = cn_state c" "cn_sent c' = cn_sent c" "cn_peer_bgp_id c' = cn_peer_bgp_id c"
    "cn_peer_hold_time c' = cn_peer_hold_time c" "cn_open_delay_timer c' = cn_open_delay_timer c"
  shows "handshake (is @ [i]) c'"
  using assms took_open_snoc [of "is" c _ i] took_open_cong [of c' c "is @ [i]"] sent_handshake_cong [of c' c]
  by (auto simp: handshake_def split: ConnectionState.splits)

lemma handshake_connected:
  assumes "cn_state c = CConnected" "cn_sent c = []" "handle_connected_event env po e c = (Inr r, c')"
    "event_origin (snd i) d e" "e = DelayOpenTimerExpires \<Longrightarrow> cn_open_delay_timer c = None"
  shows "handshake (is @ [i]) c'"
proof (cases e)
  case (BGPOpenWithDelayOpenTimer opn)
  then obtain errs where "snd i = Some (FrameMsg (MsgOpen opn) errs)" using assms(4) by (auto simp: event_origin_def)
  then have "took_open (is @ [i]) c' False" "cn_state c' = COpenConfirm" "cn_open_delay_timer c' = None"
    "\<exists>m. cn_sent c' = [MsgOpen m, MsgKeepAlive]"
    using assms BGPOpenWithDelayOpenTimer by (auto intro!: took_open_now simp: handler_simps split: if_splits)
  moreover from this(4) have "sent_handshake c'" unfolding sent_handshake_def by (metis replicate_0)
  ultimately show ?thesis by (simp add: handshake_def)
qed (use assms in \<open>auto simp: handshake_def handler_simps event_origin_def split: if_splits\<close>)

lemma handshake_open_sent:
  assumes "cn_state c = COpenSent" "cn_sent c = [MsgOpen m]" "cn_open_delay_timer c = None"
    "handle_open_sent_event env e c = (Inr r, c')" "event_origin (snd i) d e"
  shows "handshake (is @ [i]) c'"
proof (cases e)
  case (BGPOpen opn)
  then obtain errs where "snd i = Some (FrameMsg (MsgOpen opn) errs)" using assms(5) by (auto simp: event_origin_def)
  then have "took_open (is @ [i]) c' False" "cn_state c' = COpenConfirm" "cn_open_delay_timer c' = None"
    "cn_sent c' = [MsgOpen m, MsgKeepAlive]"
    using assms BGPOpen by (auto intro!: took_open_now simp: handler_simps split: if_splits)
  moreover from this(4) have "sent_handshake c'" unfolding sent_handshake_def by (metis replicate_0)
  ultimately show ?thesis by (simp add: handshake_def)
qed (use assms in \<open>auto simp: handshake_def handler_simps event_origin_def split: if_splits\<close>)

lemma handshake_open_confirm:
  assumes "cn_state c = COpenConfirm" "sent_handshake c" "took_open is c False" "cn_open_delay_timer c = None"
    "handle_open_confirm_event env e c = (Inr r, c')" "event_origin (snd i) d e"
  shows "handshake (is @ [i]) c'"
proof (cases e)
  case KeepAliveMsg
  then obtain errs where "snd i = Some (FrameMsg MsgKeepAlive errs)" using assms(6) by (auto simp: event_origin_def)
  then have "took_open (is @ [i]) c True" using assms(3) by (rule took_open_confirm [rotated])
  moreover have "cn_state c' = CEstablished" "cn_sent c' = cn_sent c" "cn_peer_bgp_id c' = cn_peer_bgp_id c"
    "cn_peer_hold_time c' = cn_peer_hold_time c" "cn_open_delay_timer c' = None"
    using assms KeepAliveMsg by (auto simp: to_state_def)
  ultimately show ?thesis using assms(2) took_open_cong [of c' c] sent_handshake_cong [of c' c] by (simp add: handshake_def)
next
  case KeepAliveTimerExpires
  then show ?thesis
    using assms took_open_snoc [OF assms(3), of i] took_open_cong [of c' c] sent_handshake_keepalive [OF assms(2), of c']
    by (auto simp: handshake_def handler_simps split: if_splits)
next
  case (NotifMsgErr err)
  then show ?thesis using assms took_open_snoc [OF assms(3), of i] by (auto simp: handshake_def)
qed (use assms in \<open>auto simp: handshake_def handler_simps split: if_splits\<close>)

lemma established_post:
  assumes "handle_established_event env e c = (Inr r, c')" "cn_state c = CEstablished" "cn_state c' \<noteq> CTerminate"
  shows "cn_state c' = CEstablished" "cn_sent c' \<in> {cn_sent c, cn_sent c @ [MsgKeepAlive]}"
    "cn_peer_bgp_id c' = cn_peer_bgp_id c" "cn_peer_hold_time c' = cn_peer_hold_time c" "cn_open_delay_timer c' = cn_open_delay_timer c"
  using assms by (cases e; auto simp: handler_simps split: if_splits)+

lemma handshake_established:
  assumes "cn_state c = CEstablished" "sent_handshake c" "took_open is c True" "cn_open_delay_timer c = None"
    "handle_established_event env e c = (Inr r, c')"
  shows "handshake (is @ [i]) c'"
proof (cases "cn_state c' = CTerminate")
  case False
  note post = established_post [OF assms(5,1) False]
  have "sent_handshake c'"
    using post(2) assms(2) sent_handshake_cong [of c' c] sent_handshake_keepalive [OF assms(2), of c'] by auto
  moreover have "took_open (is @ [i]) c' True"
    using took_open_snoc [OF assms(3), of i] took_open_cong [OF post(3,4)] by simp
  ultimately show ?thesis using post assms(4) by (simp add: handshake_def)
qed (simp add: handshake_def)

lemma handshake_step:
  assumes hs: "handshake is c" and step: "conn_step i (po, c) = Inr (po', c')"
  shows "handshake (is @ [i]) c'"
proof -
  obtain e c1 where poll: "poll_next (fst i) (snd i) c = (e, c1)" by fastforce
  then have c1: "c1 = snd (poll_next (fst i) (snd i) c)" by simp
  note delay = poll_next_open_delay [OF poll]
  have f: "cn_state c1 = cn_state c" "cn_sent c1 = cn_sent c" "cn_peer_hold_time c1 = cn_peer_hold_time c" by (simp_all add: c1)
  show ?thesis
  proof (cases e)
    case None
    then have "c' = c1" using step poll by (simp add: conn_step_def)
    moreover have "cn_peer_bgp_id c1 = cn_peer_bgp_id c" using poll_next_bgp_id [OF poll] None by simp
    ultimately show ?thesis using hs f delay None by (auto intro!: handshake_same)
  next
    case (Some ev)
    let ?po = "pre_handle_connection_event_hook ev po"
    have org: "event_origin (snd i) (cn_open_delay_timer c \<noteq> None) ev" using poll_next_origin poll Some by blast
    obtain r where h: "handle_event (fst i) ?po ev c1 = (Inr r, c')"
      using step poll Some by (auto simp: conn_step_def Let_def split: prod.splits sum.splits)
    have keeps: "took_open is c1 k" if "took_open is c k" "cn_state c' \<noteq> CTerminate" "cn_state c \<in> {COpenConfirm, CEstablished}" for k
    proof -
      have "\<forall>opn. e \<noteq> Some (BGPOpen opn) \<and> e \<noteq> Some (BGPOpenWithDelayOpenTimer opn)" "\<forall>err. e \<noteq> Some (BGPOpenMsgErr err)"
        using handle_event_next [OF h] that(2,3) Some f by (auto simp: conn_next_def)
      then show ?thesis using that(1) took_open_cong [OF poll_next_bgp_id [OF poll] f(3)] by blast
    qed
    show ?thesis
    proof (cases "cn_state c' = CTerminate")
      case True then show ?thesis by (simp add: handshake_def)
    next
      case False
      show ?thesis
      proof (cases "cn_state c")
        case CConnected
        with h hs f delay Some org show ?thesis
          by (auto simp: handle_event_def handshake_def [of "is"] intro!: handshake_connected [of c1 "fst i" ?po ev r])
      next
        case COpenSent
        with h hs f delay Some org show ?thesis
          by (auto simp: handle_event_def handshake_def [of "is"] intro!: handshake_open_sent [of c1 _ "fst i" ev r])
      next
        case COpenConfirm
        with h hs f delay Some org keeps False sent_handshake_cong [OF f(2)] show ?thesis
          by (auto simp: handle_event_def handshake_def [of "is"] intro!: handshake_open_confirm [of c1 _ "fst i" ev r])
      next
        case CEstablished
        with h hs f delay Some keeps False sent_handshake_cong [OF f(2)] show ?thesis
          by (auto simp: handle_event_def handshake_def [of "is"] intro!: handshake_established [of c1 _ "fst i" ev r])
      next
        case CTerminate
        with h f False show ?thesis by (simp add: handle_event_def)
      qed
    qed
  qed
qed

lemma handshake_run:
  assumes "handshake [] c0" "conn_run is (po, c0) = Inr (po', c)"
  shows "handshake is c"
  using assms(2)
proof (induction "is" arbitrary: po' c rule: rev_induct)
  case Nil then show ?case using assms(1) by simp
next
  case (snoc i "is")
  then obtain po1 c1 where "conn_run is (po, c0) = Inr (po1, c1)" "conn_step i (po1, c1) = Inr (po', c)"
    by (auto simp: conn_run_snoc res_bind_Inr_iff)
  then show ?case using snoc.IH handshake_step by blast
qed

lemma handshake_start:
  assumes "handle_event env po e (Connection_new props a ty cfg j) = (Inr r, c)"
    "e = TcpConnectionConfirmed b \<or> e = TcpConnectionRequestAcked b"
  shows "handshake [] c"
  using assms by (auto simp: handle_event_def Connection_new_def handshake_def handler_simps split: if_splits)

text \<open>
  C6. Handling an event implements the session state machine: unless a message cannot be written, the
  event is passed on and the new state is the machine's next state; a write error is the only error,
  and leaves the state as it was or terminates the connection.
\<close>

theorem handle_event_refines_fsm:
  "case handle_event env po e c of
     (Inr e', c') \<Rightarrow> e' = e \<and> cn_state c' = conn_next (uses_open_delay c) (cn_state c) e
   | (Inl err, c') \<Rightarrow> err = FE_BgpMessageWritingError \<and> cn_state c' \<in> {cn_state c, CTerminate}"
  using handle_event_next [of env po e c] by (auto split: prod.split sum.split)

text \<open>
  C5. A connection is \<open>Established\<close> only after the whole handshake: whatever its stream yields and
  however its writes go, it sent one OPEN, then a KEEPALIVE and nothing but KEEPALIVEs after it, and
  its stream yielded an OPEN, from which the peer's identifier and hold time are, and a KEEPALIVE
  after that.
\<close>

theorem established_after_handshake:
  assumes "handle_event env po e (Connection_new props a ty cfg j) = (Inr r, c0)"
    "e = TcpConnectionConfirmed b \<or> e = TcpConnectionRequestAcked b"
    "conn_run is (po, c0) = Inr (po', c)" "cn_state c = CEstablished"
  shows "(\<exists>opn n. cn_sent c = MsgOpen opn # MsgKeepAlive # replicate n MsgKeepAlive) \<and>
    (\<exists>xs env1 opn errs ys env2 errs'.
       is = xs @ (env1, Some (FrameMsg (MsgOpen opn) errs)) # ys \<and> (env2, Some (FrameMsg MsgKeepAlive errs')) \<in> set ys \<and>
       cn_peer_bgp_id c = Some (op_bgp_id opn) \<and> cn_peer_hold_time c = Some (op_hold_time opn))"
  using handshake_run [OF handshake_start [OF assms(1,2)] assms(3)] assms(4)
  unfolding handshake_def sent_handshake_def took_open_def by auto metis

section \<open>Negotiated timers\<close>

context f32_rounding
begin

lemma from_secs_f32_err: "\<bar>from_secs_f32 x - x\<bar> \<le> 1 / 10 ^ 9"
proof -
  have "from_secs_f32 x - x = (of_int (round (x * 10 ^ 9)) - x * 10 ^ 9) / 10 ^ 9"
    by (simp add: from_secs_f32_def field_simps)
  moreover have "\<bar>of_int (round (x * 10 ^ 9)) - x * 10 ^ 9\<bar> / 10 ^ 9 \<le> 1 / 10 ^ 9"
    using of_int_round_abs_le [of "x * 10 ^ 9"] by (intro divide_right_mono) auto
  ultimately show ?thesis by (simp only: abs_divide) simp
qed

lemma fl32_err_le:
  assumes "\<bar>x\<bar> \<le> b" "1 / 4 \<le> b"
  shows "\<bar>fl32 x - x\<bar> \<le> b / 2 ^ 23"
proof -
  have "\<bar>x\<bar> / 2 ^ 24 \<le> b / 2 ^ 24" using assms(1) by (intro divide_right_mono) auto
  moreover have "1 / 2 ^ 40 \<le> b / 2 ^ 24" using assms(2) by simp
  moreover have "b / 2 ^ 24 + b / 2 ^ 24 = b / 2 ^ 23" by simp
  ultimately show ?thesis using fl32_err_coarse [of x] by linarith
qed

lemma div3_err:
  assumes "1 \<le> h" "h \<le> 65535"
  shows "\<bar>div_f32 fl32 h 3 - h / 3\<bar> \<le> h / 2 ^ 20"
proof -
  have a: "\<bar>fl32 h - h\<bar> \<le> h / 2 ^ 23"
    using fl32_err_le [of h h] assms by simp
  moreover have "h / 2 ^ 23 \<le> h / 100" using assms by simp
  ultimately have "\<bar>fl32 h / 3\<bar> \<le> h" using assms by linarith
  then have b: "\<bar>fl32 (fl32 h / 3) - fl32 h / 3\<bar> \<le> h / 2 ^ 23"
    using assms by (intro fl32_err_le) auto
  have "0 \<le> h / 2 ^ 23" "h / 2 ^ 23 + h / 2 ^ 23 + 1 / 10 ^ 9 \<le> h / 2 ^ 20" using assms by (simp_all add: field_simps)
  then show ?thesis
    using a b from_secs_f32_err [of "fl32 (fl32 h / 3)"] unfolding div_f32_def by linarith
qed

lemma jitter_err:
  assumes "1 / 4 \<le> k" "k \<le> 65535" "3 / 4 \<le> j" "j \<le> 1"
  shows "\<bar>mul_f32 fl32 k j - j * k\<bar> \<le> k / 2 ^ 20"
proof -
  have a: "\<bar>fl32 k - k\<bar> \<le> k / 2 ^ 22" using fl32_err_le [of k k] assms by simp
  have m: "j * fl32 k - j * k = j * (fl32 k - k)" by (simp add: algebra_simps)
  have "\<bar>j * (fl32 k - k)\<bar> \<le> 1 * \<bar>fl32 k - k\<bar>" unfolding abs_mult using assms by (intro mult_right_mono) auto
  then have b: "\<bar>j * fl32 k - j * k\<bar> \<le> k / 2 ^ 22" using a unfolding m by simp
  have jk: "j * k \<le> 1 * k" "0 \<le> j * k" using assms by (auto intro: mult_right_mono)
  have "k / 2 ^ 22 \<le> k / 100" using assms by simp
  then have "\<bar>j * fl32 k\<bar> \<le> 2 * k" using b jk assms by linarith
  then have c: "\<bar>fl32 (j * fl32 k) - j * fl32 k\<bar> \<le> k / 2 ^ 22"
    using fl32_err_le [of "j * fl32 k" "2 * k"] assms by simp
  have "k / 2 ^ 22 + k / 2 ^ 22 + 1 / 10 ^ 9 \<le> k / 2 ^ 20" using assms by (simp add: field_simps)
  then show ?thesis
    using b c from_secs_f32_err [of "fl32 (j * fl32 k)"] unfolding mul_f32_def by linarith
qed

lemma div3_zero: "div_f32 fl32 0 3 = 0"
proof -
  let ?y = "fl32 0 / 3"
  have y: "\<bar>?y\<bar> \<le> 1 / 2 ^ 40" using fl32_err_coarse [of 0] by simp
  have "\<bar>?y\<bar> / 2 ^ 24 \<le> \<bar>?y\<bar>" by simp
  then have "\<bar>fl32 ?y\<bar> \<le> 1 / 2 ^ 40 + 1 / 2 ^ 40 + 1 / 2 ^ 40" using fl32_err_coarse [of ?y] y by linarith
  then have "\<bar>fl32 ?y * 10 ^ 9 - of_int 0\<bar> < 1 / 2" by simp
  then have "round (fl32 ?y * 10 ^ 9) = 0" by (rule round_unique')
  then show ?thesis by (simp add: div_f32_def from_secs_f32_def)
qed

lemma keepalive_period:
  assumes "1 \<le> h" "h \<le> 65535" "3 / 4 \<le> j" "j \<le> 1"
  shows "0 < div_f32 fl32 h 3 \<and> 0 < mul_f32 fl32 (div_f32 fl32 h 3) j \<and> 2 * mul_f32 fl32 (div_f32 fl32 h 3) j < h"
proof -
  let ?k = "div_f32 fl32 h 3"
  have "h / 2 ^ 20 \<le> h / 100" using assms by simp
  then have k: "h / 4 \<le> ?k" "?k \<le> h * 2 / 5" using div3_err [OF assms(1,2)] assms(1) by linarith+
  have k': "1 / 4 \<le> ?k" "?k \<le> 65535" using k assms by linarith+
  have err: "\<bar>mul_f32 fl32 ?k j - j * ?k\<bar> \<le> ?k / 2 ^ 20" using k' assms(3,4) by (rule jitter_err)
  have "3 / 4 * ?k \<le> j * ?k" "j * ?k \<le> 1 * ?k" using k' assms by (intro mult_right_mono; linarith)+
  moreover have "?k / 2 ^ 20 \<le> ?k / 100" using k' by simp
  ultimately show ?thesis using err k k' assms by linarith
qed

end

text \<open>The timers that taking an OPEN arms, before and after the answer is sent.\<close>

lemma from_secs_range:
  assumes "x \<noteq> 0"
  shows "1 \<le> from_secs x" "from_secs x \<le> 65535"
proof -
  have "0 < unat x" using assms by (simp add: unat_gt_0)
  moreover have "unat x < 65536" using unsigned_less [of x] by simp
  ultimately show "1 \<le> from_secs x" "from_secs x \<le> 65535" unfolding from_secs_def by linarith+
qed

lemma from_secs_0_iff [simp]: "from_secs x = 0 \<longleftrightarrow> x = 0"
  using from_secs_range [of x] by (cases "x = 0") (auto simp: from_secs_def)

lemma negotiated_hold:
  assumes "cc_hold_timer_duration (cn_config c) \<noteq> 0"
  shows "cn_hold_timer_duration (set_negotiated_timers env (read_open_msg opn c)) =
           from_secs (min (cc_hold_timer_duration (cn_config c)) (op_hold_time opn))"
    "cn_keepalive_timer_duration (set_negotiated_timers env (read_open_msg opn c)) =
           div_f32 (ce_fl32 env) (from_secs (min (cc_hold_timer_duration (cn_config c)) (op_hold_time opn))) 3"
  using assms by (simp_all add: set_negotiated_timers_def Let_def)

definition timers_of_open :: "conn_env \<Rightarrow> BgpOpenMessage \<Rightarrow> Connection \<Rightarrow> Connection" where
  "timers_of_open env opn c =
     start_negotiated_timers env (set_negotiated_timers env (read_open_msg opn (c \<lparr> cn_open_delay_timer := None \<rparr>)))"

lemma timers_of_open_armed:
  assumes "f32_rounding (ce_fl32 env)" "3 / 4 \<le> cn_jitter c" "cn_jitter c \<le> 1"
    "cc_hold_timer_duration (cn_config c) \<noteq> 0" "op_hold_time opn \<noteq> 0"
  shows "\<exists>p. cn_keepalive_timer (timers_of_open env opn c) = Some (interval_start (ce_now env) p) \<and> 0 < p \<and>
      2 * p < from_secs (min (cc_hold_timer_duration (cn_config c)) (op_hold_time opn)) \<and>
      cn_hold_timer (timers_of_open env opn c) =
        Some (interval_start (ce_now env) (from_secs (min (cc_hold_timer_duration (cn_config c)) (op_hold_time opn))))"
proof -
  let ?h = "from_secs (min (cc_hold_timer_duration (cn_config c)) (op_hold_time opn))"
  have h: "1 \<le> ?h" "?h \<le> 65535" using from_secs_range assms(4,5) by (simp_all add: min_def)
  note kp = f32_rounding.keepalive_period [OF assms(1) h assms(2,3)]
  let ?p = "mul_f32 (ce_fl32 env) (div_f32 (ce_fl32 env) ?h 3) (cn_jitter c)"
  have "cn_keepalive_timer (timers_of_open env opn c) = Some (interval_start (ce_now env) ?p) \<and>
      cn_hold_timer (timers_of_open env opn c) = Some (interval_start (ce_now env) ?h)"
    using kp assms(5) negotiated_hold [of "c \<lparr> cn_open_delay_timer := None \<rparr>" env opn] assms(4)
    by (simp add: timers_of_open_def start_negotiated_timers_def Let_def min_def)
  with kp show ?thesis by (intro exI [of _ ?p]) simp
qed

lemma interval_reset_start [simp]: "interval_reset now (interval_start now p) = interval_start now p"
  by (simp add: interval_reset_def interval_start_def)

lemma send_keepalive_timer:
  "cn_keepalive_timer (snd (send env msg c)) \<in> {cn_keepalive_timer c, reset_timer (ce_now env) (cn_keepalive_timer c)}"
  by (cases msg) (simp_all add: send_def start_send_def Let_def split: send_outcome.split)

lemma send_keeps_fresh_timer:
  "cn_keepalive_timer c = Some (interval_start (ce_now env) p) \<Longrightarrow>
     cn_keepalive_timer (snd (send env msg c)) = Some (interval_start (ce_now env) p)"
  using send_keepalive_timer [of env msg c] by (auto simp: reset_timer_def)

definition takes_open :: "BgpOpenMessage \<Rightarrow> ConnectionEvent \<Rightarrow> Connection \<Rightarrow> bool" where
  "takes_open opn e c =
     (e = BGPOpen opn \<and> cn_state c = COpenSent \<or> e = BGPOpenWithDelayOpenTimer opn \<and> cn_state c = CConnected)"

lemma handle_open_timers:
  assumes "handle_event env po e c = (Inr r, c')" "takes_open opn e c"
  shows "\<exists>msgs. c' = (fold (\<lambda>m c. snd (send env m c)) msgs (timers_of_open env opn c)) \<lparr> cn_state := COpenConfirm \<rparr>"
proof (cases "cn_state c = COpenSent")
  case True
  then show ?thesis
    using assms by (intro exI [of _ "[MsgKeepAlive]"])
      (auto simp: takes_open_def handle_event_def handler_simps timers_of_open_def split: if_splits)
next
  case False
  then show ?thesis
    using assms by (intro exI [of _ "[MsgOpen (open_message po), MsgKeepAlive]"])
      (auto simp: takes_open_def handle_event_def handler_simps timers_of_open_def split: if_splits)
qed

lemma fold_send_timers:
  "cn_hold_timer (fold (\<lambda>m c. snd (send env m c)) msgs c) = cn_hold_timer c"
  "cn_keepalive_timer c = Some (interval_start (ce_now env) p) \<Longrightarrow>
     cn_keepalive_timer (fold (\<lambda>m c. snd (send env m c)) msgs c) = Some (interval_start (ce_now env) p)"
  by (induction msgs arbitrary: c) (auto intro: send_keeps_fresh_timer)

text \<open>
  C23. Taking the peer's OPEN arms the negotiated timers: the hold timer with the smaller of the
  configured and the announced hold time, and the keepalive timer with a positive period of less than
  half of it, in spite of rounding and jitter, so at least two KEEPALIVEs are due per hold time.
\<close>

theorem open_arms_negotiated_timers:
  assumes "handle_event env po e c = (Inr r, c')" "takes_open opn e c" "f32_rounding (ce_fl32 env)"
    "3 / 4 \<le> cn_jitter c" "cn_jitter c \<le> 1" "cc_hold_timer_duration (cn_config c) \<noteq> 0" "op_hold_time opn \<noteq> 0"
  shows "\<exists>p h. h = from_secs (min (cc_hold_timer_duration (cn_config c)) (op_hold_time opn)) \<and> 0 < p \<and> 2 * p < h \<and>
    cn_keepalive_timer c' = Some (interval_start (ce_now env) p) \<and> cn_hold_timer c' = Some (interval_start (ce_now env) h)"
  using handle_open_timers [OF assms(1,2)] timers_of_open_armed [OF assms(3-7)] fold_send_timers by fastforce

lemma fold_send_none:
  "cn_keepalive_timer c = None \<Longrightarrow> cn_keepalive_timer (fold (\<lambda>m c. snd (send env m c)) msgs c) = None"
proof (induction msgs arbitrary: c)
  case (Cons m ms)
  then show ?case using send_keepalive_timer [of env m c] by (auto simp: reset_timer_def)
qed simp

text \<open>
  C35. A peer that announces hold time zero asks for no hold timer, yet the timer that was armed when the
  OPEN was sent stays: taking the OPEN leaves it as it is and arms no keepalive timer.
\<close>

theorem zero_hold_time_keeps_hold_timer:
  assumes "handle_event env po e c = (Inr r, c')" "takes_open opn e c" "f32_rounding (ce_fl32 env)"
    "cc_hold_timer_duration (cn_config c) \<noteq> 0" "op_hold_time opn = 0" "cn_keepalive_timer c = None"
  shows "cn_hold_timer_duration (timers_of_open env opn c) = 0 \<and> cn_hold_timer c' = cn_hold_timer c \<and> cn_keepalive_timer c' = None"
proof -
  have "cn_keepalive_timer (timers_of_open env opn c) = None" "cn_hold_timer (timers_of_open env opn c) = cn_hold_timer c"
    "cn_hold_timer_duration (timers_of_open env opn c) = 0"
    using assms(4-6) negotiated_hold [of "c \<lparr> cn_open_delay_timer := None \<rparr>" env opn] f32_rounding.div3_zero [OF assms(3)]
    by (auto simp: timers_of_open_def start_negotiated_timers_def Let_def min_def read_open_msg_def set_negotiated_timers_def from_secs_def)
  then show ?thesis using handle_open_timers [OF assms(1,2)] fold_send_timers fold_send_none by fastforce
qed

section \<open>The hold timer of an established session\<close>

lemma conn_step_state:
  assumes "conn_step i (po, c) = Inr (po', c')"
  shows "cn_state c' = cn_state c \<or> (\<exists>e. cn_state c' = conn_next (uses_open_delay c) (cn_state c) e)"
proof -
  obtain e c1 where poll: "poll_next (fst i) (snd i) c = (e, c1)" by fastforce
  then have "c1 = snd (poll_next (fst i) (snd i) c)" by simp
  then have c1: "cn_state c1 = cn_state c" "uses_open_delay c1 = uses_open_delay c" by (simp_all add: uses_open_delay_def)
  show ?thesis
  proof (cases e)
    case None then show ?thesis using assms poll c1 by (simp add: conn_step_def)
  next
    case (Some ev)
    then obtain r where "handle_event (fst i) (pre_handle_connection_event_hook ev po) ev c1 = (Inr r, c')"
      using assms poll by (auto simp: conn_step_def Let_def split: prod.splits sum.splits)
    then show ?thesis using handle_event_next c1 by fastforce
  qed
qed

lemma terminate_absorbing:
  assumes "conn_run is (po, c) = Inr (po', c')" "cn_state c = CTerminate"
  shows "cn_state c' = CTerminate"
  using assms
proof (induction "is" arbitrary: po c)
  case (Cons i "is")
  then show ?case using conn_step_state [of i po c] by (fastforce simp: res_bind_Inr_iff conn_next_def)
qed simp

lemma conn_next_established: "conn_next d CEstablished e \<in> {CEstablished, CTerminate}"
  by (cases e) (simp_all add: conn_next_def)

lemma established_or_terminated:
  assumes "conn_step i (po, c) = Inr (po', c')" "cn_state c = CEstablished"
  shows "cn_state c' \<in> {CEstablished, CTerminate}"
  using conn_step_state [OF assms(1)] assms(2) conn_next_established by (metis insertI1)

lemma established_update_hold:
  assumes "conn_step i (po, c) = Inr (po', c')" "cn_state c = CEstablished" "cn_state c' = CEstablished"
    "snd i = None \<or> (\<exists>u errs. snd i = Some (FrameMsg (MsgUpdate u) errs))"
  shows "cn_hold_timer c' = cn_hold_timer c"
proof -
  obtain e c1 where poll: "poll_next (fst i) (snd i) c = (e, c1)" by fastforce
  have st: "cn_state c1 = CEstablished" using poll assms(2) poll_next_frame(1) [of "fst i" "snd i" c] by simp
  show ?thesis
    using poll
  proof (cases rule: poll_next_cases)
    case keepalive
    then show ?thesis using assms(1) poll st by (auto simp: conn_step_def handle_event_def handler_simps split: if_splits)
  next
    case delay
    then show ?thesis using assms(1,3) poll st by (auto simp: conn_step_def handle_event_def handler_simps)
  next
    case hold
    then show ?thesis using assms(1,3) poll st by (auto simp: conn_step_def handle_event_def handler_simps)
  next
    case pending
    then show ?thesis using assms(1) poll by (simp add: conn_step_def)
  next
    case (message m errs)
    then obtain u where m: "m = MsgUpdate u" using assms(4) by auto
    have "cn_hold_timer c1 = cn_hold_timer c" using message m by (auto simp: Let_def)
    then show ?thesis
      using assms(1,3) poll st message m handle_update_message_cases [of u errs]
      by (auto simp: conn_step_def handle_event_def handler_simps)
  qed (use assms in auto)
qed

text \<open>
  C34. UPDATE messages do not keep an established session alive: however many arrive, the hold timer's
  deadline stays, and once it has passed the session sees the timer expire before any further message
  (RFC 4271 asks for the timer to restart on each KEEPALIVE and UPDATE).
\<close>

theorem updates_do_not_extend_hold_timer:
  assumes "conn_run is (po, c) = Inr (po', c')" "cn_state c' = CEstablished" "cn_state c = CEstablished" "cn_hold_timer c = Some iv"
    "\<forall>i\<in>set is. snd i = None \<or> (\<exists>u errs. snd i = Some (FrameMsg (MsgUpdate u) errs))"
  shows "cn_hold_timer c' = Some iv \<and>
    (iv_deadline iv \<le> ce_now env \<longrightarrow> fst (poll_next env item c') \<in> {Some KeepAliveTimerExpires, Some DelayOpenTimerExpires, Some HoldTimerExpires})"
proof -
  have "cn_hold_timer c' = Some iv"
    using assms
  proof (induction "is" arbitrary: po c)
    case (Cons i "is")
    obtain po1 c1 where s: "conn_step i (po, c) = Inr (po1, c1)" "conn_run is (po1, c1) = Inr (po', c')"
      using Cons.prems(1) by (auto simp: res_bind_Inr_iff)
    have c1: "cn_state c1 = CEstablished"
      using established_or_terminated [OF s(1) Cons.prems(3)] terminate_absorbing [OF s(2)] Cons.prems(2) by auto
    moreover have "cn_hold_timer c1 = Some iv"
      using established_update_hold [OF s(1) Cons.prems(3) c1] Cons.prems(4,5) by simp
    ultimately show ?case using Cons.IH [OF s(2)] Cons.prems by simp
  qed simp
  then show ?thesis by (auto simp: poll_next_def interval_due_def)
qed

section \<open>A concrete session\<close>

definition demo_addr :: SocketAddr where
  "demo_addr = (IpV4 167772161, 179)"

definition demo_policy :: EchoCapabilitiesPolicy where
  "demo_policy = EchoCapabilitiesPolicy_new 65000 True 1 240 [] []"

definition demo_config :: ConnectionConfig where
  "demo_config = ConnectionConfig_default \<lparr> cc_open_delay_timer_duration := 5 \<rparr>"

definition demo_props :: PeerProperties where
  "demo_props = \<lparr> pp_my_asn = 65000, pp_peer_asn = 65000, pp_my_bgp_id = 1, pp_peer_addr = demo_addr, pp_allow_dynamic_as = True \<rparr>"

definition demo_open :: "u16 \<Rightarrow> BgpOpenMessage" where
  "demo_open hold = BgpOpenMessage_new 65001 hold 2 []"

definition demo_conn :: Connection where
  "demo_conn = Connection_new demo_props demo_addr PassiveConnection demo_config 1"

definition demo_env :: "real \<Rightarrow> conn_env" where
  "demo_env t = \<lparr> ce_now = t, ce_wr = (\<lambda>_ _. SendOk), ce_fl32 = (\<lambda>x. x) \<rparr>"

lemmas demo_defs = demo_conn_def demo_env_def demo_props_def demo_config_def demo_policy_def demo_open_def
  ConnectionConfig_default_def Connection_new_def EchoCapabilitiesPolicy_new_def BgpOpenMessage_new_def

interpretation exact32: f32_rounding "\<lambda>x. x"
  by unfold_locales simp

text \<open>The handshake that a waiting connection goes through: the peer's OPEN, then its KEEPALIVE.\<close>

definition demo_inputs :: "conn_input list" where
  "demo_inputs =
     [(demo_env 1, Some (FrameMsg (MsgOpen (demo_open 90)) BgpParsingIgnoredErrors_default)),
      (demo_env 2, Some (FrameMsg MsgKeepAlive BgpParsingIgnoredErrors_default))]"

definition demo_waiting :: Connection where
  "demo_waiting = demo_conn \<lparr> cn_open_delay_timer := Some (interval_start 0 5) \<rparr>"

lemma demo_start:
  "handle_event (demo_env 0) demo_policy (TcpConnectionConfirmed demo_addr) demo_conn = (Inr (TcpConnectionConfirmed demo_addr), demo_waiting)"
  by (simp add: handle_event_def demo_waiting_def demo_defs from_secs_def)

lemmas demo_eval = conn_step_def poll_next_def interval_due_def interval_start_def handle_event_def handler_simps send_def start_send_def
  set_negotiated_timers_def start_negotiated_timers_def read_open_msg_def handle_open_message_def count_received_def
  reset_timer_def interval_reset_def div_f32_def mul_f32_def from_secs_f32_def from_secs_def policy_read_open_def Let_def

lemma demo_run:
  "\<exists>po c. conn_run demo_inputs (demo_policy, demo_waiting) = Inr (po, c) \<and> cn_state c = CEstablished \<and>
     cn_hold_timer c = Some (interval_start 2 90)"
  by (simp add: demo_inputs_def demo_waiting_def demo_defs demo_eval)

theorem established_after_handshake_witness:
  "\<exists>po c. conn_run demo_inputs (demo_policy, demo_waiting) = Inr (po, c) \<and> cn_state c = CEstablished \<and>
     (\<exists>opn n. cn_sent c = MsgOpen opn # MsgKeepAlive # replicate n MsgKeepAlive)"
proof -
  obtain po c where r: "conn_run demo_inputs (demo_policy, demo_waiting) = Inr (po, c)" "cn_state c = CEstablished"
    using demo_run by blast
  with established_after_handshake [OF demo_start [unfolded demo_conn_def] _ r] show ?thesis by blast
qed

theorem open_arms_negotiated_timers_witness:
  "\<exists>r c'. handle_event (demo_env 1) demo_policy (BGPOpenWithDelayOpenTimer (demo_open 90)) demo_waiting = (Inr r, c') \<and>
     cn_hold_timer c' = Some (interval_start 1 90)"
proof -
  obtain r c' where h: "handle_event (demo_env 1) demo_policy (BGPOpenWithDelayOpenTimer (demo_open 90)) demo_waiting = (Inr r, c')"
    by (simp add: demo_waiting_def demo_defs demo_eval)
  have "f32_rounding (ce_fl32 (demo_env 1))" using exact32.f32_rounding_axioms by (simp add: demo_env_def)
  with open_arms_negotiated_timers [OF h, of "demo_open 90"] h show ?thesis
    by (auto simp: takes_open_def demo_waiting_def demo_defs from_secs_def)
qed

theorem zero_hold_time_keeps_hold_timer_witness:
  "\<exists>r c'. handle_event (demo_env 9) demo_policy (BGPOpen (demo_open 0))
       (demo_conn \<lparr> cn_state := COpenSent, cn_hold_timer := Some (interval_start 5 240) \<rparr>) = (Inr r, c') \<and>
     cn_hold_timer c' = Some (interval_start 5 240) \<and> cn_keepalive_timer c' = None"
proof -
  let ?c = "demo_conn \<lparr> cn_state := COpenSent, cn_hold_timer := Some (interval_start 5 240) \<rparr>"
  obtain r c' where h: "handle_event (demo_env 9) demo_policy (BGPOpen (demo_open 0)) ?c = (Inr r, c')"
    by (simp add: demo_defs demo_eval)
  have "f32_rounding (ce_fl32 (demo_env 9))" using exact32.f32_rounding_axioms by (simp add: demo_env_def)
  with zero_hold_time_keeps_hold_timer [OF h, of "demo_open 0"] h show ?thesis
    by (simp add: takes_open_def demo_defs)
qed

definition demo_update :: BgpUpdateMessage where
  "demo_update = \<lparr> um_withdrawn_routes = [], um_path_attributes = [], um_nlri = [] \<rparr>"

theorem updates_do_not_extend_hold_timer_witness:
  "\<exists>po c po' c'. conn_run demo_inputs (demo_policy, demo_waiting) = Inr (po, c) \<and>
     conn_run [(demo_env 20, Some (FrameMsg (MsgUpdate demo_update) BgpParsingIgnoredErrors_default))] (po, c) = Inr (po', c') \<and>
     cn_hold_timer c' = Some (interval_start 2 90)"
proof -
  let ?is = "[(demo_env 20, Some (FrameMsg (MsgUpdate demo_update) BgpParsingIgnoredErrors_default))]"
  have "\<exists>po c po' c'. conn_run demo_inputs (demo_policy, demo_waiting) = Inr (po, c) \<and> cn_state c = CEstablished \<and>
      cn_hold_timer c = Some (interval_start 2 90) \<and> conn_run ?is (po, c) = Inr (po', c') \<and> cn_state c' = CEstablished"
    by (simp add: demo_inputs_def demo_waiting_def demo_defs demo_eval demo_update_def handle_update_message_def end_of_rib_def attr_scan_init_def)
  then obtain po c po' c' where r: "conn_run demo_inputs (demo_policy, demo_waiting) = Inr (po, c)" "cn_state c = CEstablished"
      "cn_hold_timer c = Some (interval_start 2 90)" "conn_run ?is (po, c) = Inr (po', c')" "cn_state c' = CEstablished"
    by blast
  with updates_do_not_extend_hold_timer [OF r(4,5,2,3)] show ?thesis by fastforce
qed

end
