(* ===== verification/Bgp_Connection_Messages.thy ===== *)
theory Bgp_Connection_Messages
  imports Bgp_Connection_Laws
begin

text \<open>
  What a connection makes of the messages it receives and sends: the attributes it asks of an UPDATE, the OPEN that the capabilities policy announces, and the message counters.
\<close>

section \<open>Classification of UPDATE messages\<close>

definition has_attr :: "(PathAttributeValue \<Rightarrow> bool) \<Rightarrow> BgpUpdateMessage \<Rightarrow> bool" where
  "has_attr P u = list_ex (\<lambda>a. P (pa_value a)) (um_path_attributes u)"

fun is_origin :: "PathAttributeValue \<Rightarrow> bool" where
  "is_origin (PA_Origin _) = True"
| "is_origin _ = False"

text \<open>The attributes that the code takes for an AS_PATH: AS4_PATH is one of them.\<close>

fun names_path :: "PathAttributeValue \<Rightarrow> bool" where
  "names_path (PA_AsPath _) = True"
| "names_path (PA_As4Path _) = True"
| "names_path _ = False"

fun is_as_path :: "PathAttributeValue \<Rightarrow> bool" where
  "is_as_path (PA_AsPath _) = True"
| "is_as_path _ = False"

fun is_as4_path :: "PathAttributeValue \<Rightarrow> bool" where
  "is_as4_path (PA_As4Path _) = True"
| "is_as4_path _ = False"

fun is_next_hop :: "PathAttributeValue \<Rightarrow> bool" where
  "is_next_hop (PA_NextHop _) = True"
| "is_next_hop _ = False"

fun is_mp_reach :: "PathAttributeValue \<Rightarrow> bool" where
  "is_mp_reach (PA_MpReach _) = True"
| "is_mp_reach _ = False"

fun is_mp_unreach :: "PathAttributeValue \<Rightarrow> bool" where
  "is_mp_unreach (PA_MpUnreach _) = True"
| "is_mp_unreach _ = False"

definition scan_complete :: "attr_scan \<Rightarrow> bool" where
  "scan_complete s = (sc_origin s \<and> sc_asn_path s \<and> sc_next_hop s)"

abbreviation some_attr :: "(PathAttributeValue \<Rightarrow> bool) \<Rightarrow> PathAttribute list \<Rightarrow> bool" where
  "some_attr P as \<equiv> list_ex (\<lambda>a. P (pa_value a)) as"

abbreviation count_attr :: "(PathAttributeValue \<Rightarrow> bool) \<Rightarrow> PathAttribute list \<Rightarrow> nat" where
  "count_attr P as \<equiv> length (filter (\<lambda>a. P (pa_value a)) as)"

text \<open>
  The scan finds the three attributes it looks for exactly, and counts all multiprotocol attributes unless
  it stops early, which it does only once it has found the three.
\<close>

lemma scan_attrs_sound:
  "(sc_origin (scan_attrs as s) \<longrightarrow> sc_origin s \<or> some_attr is_origin as) \<and>
   (sc_asn_path (scan_attrs as s) \<longrightarrow> sc_asn_path s \<or> some_attr names_path as) \<and>
   (sc_next_hop (scan_attrs as s) \<longrightarrow> sc_next_hop s \<or> some_attr is_next_hop as) \<and>
   sc_mp_reach (scan_attrs as s) \<le> sc_mp_reach s + count_attr is_mp_reach as \<and>
   sc_mp_unreach (scan_attrs as s) \<le> sc_mp_unreach s + count_attr is_mp_unreach as"
proof (induction "as" s rule: scan_attrs.induct)
  case (2 attr attrs s)
  show ?case
  proof (cases "scan_complete s")
    case True then show ?thesis by (simp add: scan_complete_def)
  next
    case False
    then show ?thesis using 2 by (cases "pa_value attr") (auto simp: scan_complete_def)
  qed
qed simp

lemma scan_attrs_exact:
  "scan_complete (scan_attrs as s) \<or>
   sc_origin (scan_attrs as s) = (sc_origin s \<or> some_attr is_origin as) \<and>
   sc_asn_path (scan_attrs as s) = (sc_asn_path s \<or> some_attr names_path as) \<and>
   sc_next_hop (scan_attrs as s) = (sc_next_hop s \<or> some_attr is_next_hop as) \<and>
   sc_mp_reach (scan_attrs as s) = sc_mp_reach s + count_attr is_mp_reach as \<and>
   sc_mp_unreach (scan_attrs as s) = sc_mp_unreach s + count_attr is_mp_unreach as"
proof (induction "as" s rule: scan_attrs.induct)
  case (2 attr attrs s)
  show ?case
  proof (cases "scan_complete s")
    case True then show ?thesis by (simp add: scan_complete_def)
  next
    case False
    then show ?thesis using 2 by (cases "pa_value attr") (auto simp: scan_complete_def)
  qed
qed simp

lemma end_of_rib_loop_mp_reach: "some_attr is_mp_reach as \<Longrightarrow> end_of_rib_loop as t n = None"
proof (induction "as" t n rule: end_of_rib_loop.induct)
  case (2 attr attrs t n)
  show ?case
  proof (cases "pa_value attr")
    case (PA_MpUnreach unreach)
    then show ?thesis using 2 by (cases unreach) (auto split: sum.split)
  qed (use 2 in auto)
qed simp

lemma end_of_rib_none: "um_nlri u \<noteq> [] \<or> has_attr is_mp_reach u \<Longrightarrow> end_of_rib u = None"
  by (auto simp: end_of_rib_def has_attr_def end_of_rib_loop_mp_reach)

lemma names_path_iff: "has_attr names_path u \<longleftrightarrow> has_attr is_as_path u \<or> has_attr is_as4_path u"
proof -
  have "names_path v \<longleftrightarrow> is_as_path v \<or> is_as4_path v" for v by (cases v) simp_all
  then show ?thesis by (auto simp: has_attr_def list_ex_iff)
qed

definition announces :: "BgpUpdateMessage \<Rightarrow> bool" where
  "announces u = (um_nlri u \<noteq> [] \<or> has_attr is_mp_reach u)"

text \<open>The code of the attribute that an UPDATE is refused for, in the order of the checks.\<close>

definition missing_attr :: "BgpUpdateMessage \<Rightarrow> PathAttributeType option" where
  "missing_attr u =
     (if announces u \<and> \<not> has_attr is_origin u then Some PAT_Origin
      else if announces u \<and> \<not> has_attr is_as_path u \<and> \<not> has_attr is_as4_path u then Some PAT_AsPath
      else if um_nlri u \<noteq> [] \<and> \<not> has_attr is_next_hop u \<and> \<not> has_attr is_mp_reach u \<and> \<not> has_attr is_mp_unreach u then Some PAT_NextHop
      else None)"

lemma count_attr_0: "count_attr P as = 0 \<longleftrightarrow> \<not> some_attr P as"
  by (auto simp: filter_empty_conv list_ex_iff)

lemma scan_incomplete:
  assumes "s = scan_attrs (um_path_attributes u) attr_scan_init" "\<not> scan_complete s"
  shows "sc_origin s = has_attr is_origin u" "sc_asn_path s = has_attr names_path u" "sc_next_hop s = has_attr is_next_hop u"
    "sc_mp_reach s = 0 \<longleftrightarrow> \<not> has_attr is_mp_reach u" "sc_mp_unreach s = 0 \<longleftrightarrow> \<not> has_attr is_mp_unreach u"
proof -
  have "sc_mp_reach s = count_attr is_mp_reach (um_path_attributes u)" "sc_mp_unreach s = count_attr is_mp_unreach (um_path_attributes u)"
    and f: "sc_origin s = has_attr is_origin u" "sc_asn_path s = has_attr names_path u" "sc_next_hop s = has_attr is_next_hop u"
    using scan_attrs_exact [of "um_path_attributes u" attr_scan_init] assms by (simp_all add: attr_scan_init_def has_attr_def)
  then show "sc_mp_reach s = 0 \<longleftrightarrow> \<not> has_attr is_mp_reach u" "sc_mp_unreach s = 0 \<longleftrightarrow> \<not> has_attr is_mp_unreach u"
    unfolding has_attr_def count_attr_0 [symmetric] by simp_all
  show "sc_origin s = has_attr is_origin u" "sc_asn_path s = has_attr names_path u" "sc_next_hop s = has_attr is_next_hop u"
    by (rule f)+
qed

lemma scan_complete_attrs:
  assumes "scan_complete (scan_attrs (um_path_attributes u) attr_scan_init)"
  shows "has_attr is_origin u" "has_attr names_path u" "has_attr is_next_hop u"
  using assms scan_attrs_sound [of "um_path_attributes u" attr_scan_init]
  by (auto simp: scan_complete_def has_attr_def attr_scan_init_def)

lemma handle_update_message_refuses:
  assumes "missing_attr u = Some a"
  shows "handle_update_message u errs = Some (UpdateMsgErr (Upd_MissingWellKnownAttribute [PathAttributeType_code a]))"
proof -
  define s where "s = scan_attrs (um_path_attributes u) attr_scan_init"
  have inc: "\<not> scan_complete s"
    using assms scan_complete_attrs [of u, folded s_def] by (auto simp: missing_attr_def names_path_iff split: if_splits)
  have "end_of_rib u = None" using assms end_of_rib_none by (auto simp: missing_attr_def announces_def split: if_splits)
  then show ?thesis
    using assms scan_incomplete [OF s_def inc]
    by (auto simp: handle_update_message_def missing_attr_def announces_def names_path_iff Let_def s_def [symmetric] split: if_splits)
qed

lemma handle_update_message_accepts:
  assumes "missing_attr u = None" "count_attr is_mp_reach (um_path_attributes u) \<le> 1" "count_attr is_mp_unreach (um_path_attributes u) \<le> 1"
  shows "handle_update_message u errs = Some (UpdateMsg u (update_treatment errs))"
proof -
  define s where "s = scan_attrs (um_path_attributes u) attr_scan_init"
  note sound = scan_attrs_sound [of "um_path_attributes u" attr_scan_init, folded s_def]
  have few: "sc_mp_reach s \<le> 1" "sc_mp_unreach s \<le> 1" using sound assms(2,3) by (auto simp: attr_scan_init_def)
  show ?thesis
  proof (cases "scan_complete s")
    case True
    then show ?thesis using few by (auto simp: handle_update_message_def Let_def s_def [symmetric] scan_complete_def)
  next
    case False
    note e = scan_incomplete [OF s_def False]
    have n1: "sc_origin s \<and> sc_asn_path s \<or> sc_mp_reach s = 0 \<and> um_nlri u = []"
      and n2: "um_nlri u = [] \<or> sc_mp_reach s \<noteq> 0 \<or> sc_mp_unreach s \<noteq> 0 \<or> sc_next_hop s"
      using assms(1) unfolding e missing_attr_def announces_def names_path_iff by (auto split: if_splits)
    have r: "\<not> (sc_mp_reach s > 1 \<or> sc_mp_unreach s > 1)" using few by simp
    show ?thesis
      using n1 n2 unfolding handle_update_message_def Let_def s_def [symmetric] if_not_P [OF r] by (elim disjE) simp_all
  qed
qed

text \<open>
  C24. What a connection makes of an UPDATE. It is refused for a missing ORIGIN when it announces networks
  (IPv4 networks of its own or an MP_REACH attribute) without one; then for a missing AS_PATH when it
  has neither AS_PATH nor AS4_PATH, so an AS4_PATH alone is taken for the mandatory AS_PATH; then for a
  missing NEXT_HOP when it has IPv4 networks and neither NEXT_HOP nor a multiprotocol attribute. Every
  other UPDATE with at most one MP_REACH and one MP_UNREACH is passed on as it is, with the treatment
  its ignored errors ask for. A refused UPDATE is an error event, on which an established connection
  terminates, and not a withdrawal as the comment at this function asks for.
\<close>

theorem update_passed_on:
  "(announces u \<and> \<not> has_attr is_origin u \<longrightarrow>
      handle_update_message u errs = Some (UpdateMsgErr (Upd_MissingWellKnownAttribute [PathAttributeType_code PAT_Origin]))) \<and>
   (announces u \<and> has_attr is_origin u \<and> \<not> has_attr is_as_path u \<and> \<not> has_attr is_as4_path u \<longrightarrow>
      handle_update_message u errs = Some (UpdateMsgErr (Upd_MissingWellKnownAttribute [PathAttributeType_code PAT_AsPath]))) \<and>
   (um_nlri u \<noteq> [] \<and> has_attr is_origin u \<and> (has_attr is_as_path u \<or> has_attr is_as4_path u) \<and>
    \<not> has_attr is_next_hop u \<and> \<not> has_attr is_mp_reach u \<and> \<not> has_attr is_mp_unreach u \<longrightarrow>
      handle_update_message u errs = Some (UpdateMsgErr (Upd_MissingWellKnownAttribute [PathAttributeType_code PAT_NextHop]))) \<and>
   ((announces u \<longrightarrow> has_attr is_origin u \<and> (has_attr is_as_path u \<or> has_attr is_as4_path u)) \<and>
    (um_nlri u \<noteq> [] \<longrightarrow> has_attr is_next_hop u \<or> has_attr is_mp_reach u \<or> has_attr is_mp_unreach u) \<and>
    count_attr is_mp_reach (um_path_attributes u) \<le> 1 \<and> count_attr is_mp_unreach (um_path_attributes u) \<le> 1 \<longrightarrow>
      handle_update_message u errs = Some (UpdateMsg u (update_treatment errs))) \<and>
   (cn_state c = CEstablished \<and> handle_event env po (UpdateMsgErr err) c = (r, c') \<longrightarrow> cn_state c' = CTerminate)"
proof (intro conjI impI; (elim conjE)?)
  assume "cn_state c = CEstablished" "handle_event env po (UpdateMsgErr err) c = (r, c')"
  then show "cn_state c' = CTerminate" by (auto simp: handle_event_def handler_simps)
qed (rule handle_update_message_refuses handle_update_message_accepts;
     auto simp: missing_attr_def announces_def)+

text \<open>
  What follows ORIGIN, AS_PATH and NEXT_HOP is not examined: an UPDATE that begins with the three is
  passed on even when MP_REACH or MP_UNREACH are repeated after them, for which the code means to
  report a malformed attribute list.
\<close>

theorem repeated_mp_attrs_passed_on:
  assumes "um_path_attributes u = a # b # c # rest" "is_origin (pa_value a)" "names_path (pa_value b)" "is_next_hop (pa_value c)"
  shows "handle_update_message u errs = Some (UpdateMsg u (update_treatment errs))"
proof -
  obtain x where x: "pa_value a = PA_Origin x" using assms(2) by (cases "pa_value a") auto
  obtain y where y: "pa_value c = PA_NextHop y" using assms(4) by (cases "pa_value c") auto
  have "scan_attrs (um_path_attributes u) attr_scan_init =
      scan_attrs rest (attr_scan_init \<lparr> sc_origin := True, sc_asn_path := True, sc_next_hop := True \<rparr>)"
    using assms(1,3) x y by (cases "pa_value b") (simp_all add: attr_scan_init_def)
  then show ?thesis by (cases rest) (simp_all add: handle_update_message_def Let_def attr_scan_init_def)
qed

definition demo_attr :: "PathAttributeValue \<Rightarrow> PathAttribute" where
  "demo_attr v = \<lparr> pa_optional = False, pa_transitive = True, pa_partial = False, pa_extended_length = False, pa_value = v \<rparr>"

definition demo_mp_reach :: PathAttribute where
  "demo_mp_reach = demo_attr (PA_MpReach (MpReach_Ipv6Unicast 1 None []))"

definition demo_repeated :: BgpUpdateMessage where
  "demo_repeated =
     \<lparr> um_withdrawn_routes = [],
       um_path_attributes = [demo_attr (PA_Origin IGP), demo_attr (PA_AsPath (As4PathSegments [])), demo_attr (PA_NextHop 1),
         demo_mp_reach, demo_mp_reach],
       um_nlri = [] \<rparr>"

definition demo_as4 :: BgpUpdateMessage where
  "demo_as4 = demo_repeated \<lparr> um_path_attributes := [demo_attr (PA_Origin IGP), demo_attr (PA_As4Path []), demo_mp_reach] \<rparr>"

theorem update_passed_on_witness:
  "handle_update_message demo_as4 BgpParsingIgnoredErrors_default = Some (UpdateMsg demo_as4 Normal) \<and>
   handle_update_message (demo_as4 \<lparr> um_path_attributes := [demo_mp_reach] \<rparr>) BgpParsingIgnoredErrors_default =
     Some (UpdateMsgErr (Upd_MissingWellKnownAttribute [PathAttributeType_code PAT_Origin]))"
  using update_passed_on [of demo_as4 BgpParsingIgnoredErrors_default]
    update_passed_on [of "demo_as4 \<lparr> um_path_attributes := [demo_mp_reach] \<rparr>" BgpParsingIgnoredErrors_default]
  by (simp add: announces_def has_attr_def demo_as4_def demo_repeated_def demo_attr_def demo_mp_reach_def update_treatment_def)

theorem repeated_mp_attrs_passed_on_witness:
  "count_attr is_mp_reach (um_path_attributes demo_repeated) = 2 \<and>
   handle_update_message demo_repeated BgpParsingIgnoredErrors_default = Some (UpdateMsg demo_repeated Normal)"
  using repeated_mp_attrs_passed_on [of demo_repeated _ _ _ _ BgpParsingIgnoredErrors_default]
  by (simp add: demo_repeated_def demo_attr_def demo_mp_reach_def update_treatment_def)

section \<open>The OPEN message of the capabilities policy\<close>

definition policy_after :: "ConnectionEvent list \<Rightarrow> EchoCapabilitiesPolicy \<Rightarrow> EchoCapabilitiesPolicy" where
  "policy_after events po = fold pre_handle_connection_event_hook events po"

lemma hook_keeps:
  "po_my_asn (pre_handle_connection_event_hook e po) = po_my_asn po"
  "po_send_asn4_cap_by_default (pre_handle_connection_event_hook e po) = po_send_asn4_cap_by_default po"
  "po_my_bgp_id (pre_handle_connection_event_hook e po) = po_my_bgp_id po"
  "po_hold_timer_duration (pre_handle_connection_event_hook e po) = po_hold_timer_duration po"
  "po_capabilities (pre_handle_connection_event_hook e po) = po_capabilities po"
  "po_reject_capabilities (pre_handle_connection_event_hook e po) = po_reject_capabilities po"
  by (cases e; simp add: policy_read_open_def)+

lemma policy_after_keeps [simp]:
  "po_my_asn (policy_after events po) = po_my_asn po"
  "po_send_asn4_cap_by_default (policy_after events po) = po_send_asn4_cap_by_default po"
  "po_my_bgp_id (policy_after events po) = po_my_bgp_id po"
  "po_hold_timer_duration (policy_after events po) = po_hold_timer_duration po"
  "po_capabilities (policy_after events po) = po_capabilities po"
  "po_reject_capabilities (policy_after events po) = po_reject_capabilities po"
  unfolding policy_after_def by (induction events arbitrary: po; simp add: hook_keeps)+

lemma open_capabilities_message:
  "\<exists>my_as. open_capabilities (open_message po) = open_message_capabilities po my_as \<and> op_my_as (open_message po) = my_as \<and>
     my_as = (if po_my_asn po > 65535 then AS_TRANS else ucast (po_my_asn po))"
  by (auto simp: open_message_def open_capabilities_def BgpOpenMessage_new_def Let_def)

lemma ucast_ucast_small:
  assumes "(asn :: u32) \<le> 65535"
  shows "ucast (ucast asn :: u16) = asn"
proof (rule unsigned_word_eqI [where ?'a = nat])
  have "unat asn < 2 ^ 16" using assms by (simp add: word_le_nat_alt)
  then have "unat (ucast asn :: u16) = unat asn" "unat asn < 2 ^ 32" by (simp_all add: unsigned_ucast_eq take_bit_nat_eq_self)
  then show "unat (ucast (ucast asn :: u16) :: u32) = unat asn"
    by (simp add: unsigned_ucast_eq [where ?'a = nat and w = "ucast asn :: u16"] take_bit_nat_eq_self)
qed

definition asn4_caps :: "BgpCapability list \<Rightarrow> u32 list" where
  "asn4_caps caps = List.map_filter (\<lambda>cap. case cap of Cap_FourOctetAs asn4 \<Rightarrow> Some asn4 | _ \<Rightarrow> None) caps"

lemma asn4_caps_mem: "x \<in> set (asn4_caps caps) \<longleftrightarrow> Cap_FourOctetAs x \<in> set caps"
proof (induction caps)
  case (Cons cap caps)
  then show ?case by (cases cap) (auto simp: asn4_caps_def List.map_filter_def)
qed (simp add: asn4_caps_def List.map_filter_def)

lemma open_message_asn:
  assumes own: "\<forall>asn. Cap_FourOctetAs asn \<in> set (po_capabilities po) \<longrightarrow> asn = po_my_asn po"
    and peer: "\<forall>asn. Cap_FourOctetAs asn \<notin> set (po_peer_capabilities po)"
  shows "my_asn4 (open_message po) = po_my_asn po"
proof -
  obtain my_as where m: "open_capabilities (open_message po) = open_message_capabilities po my_as" "op_my_as (open_message po) = my_as"
      "my_as = (if po_my_asn po > 65535 then AS_TRANS else ucast (po_my_asn po))"
    using open_capabilities_message by blast
  let ?caps = "open_message_capabilities po my_as"
  define asns where "asns = asn4_caps ?caps"
  note mem = asn4_caps_mem [of _ ?caps, folded asns_def]
  have asn4: "my_asn4 (open_message po) = (if asns = [] then ucast my_as else last asns)"
    using m(1,2) by (simp add: my_asn4_def asns_def asn4_caps_def)
  have all: "x = po_my_asn po" if "x \<in> set asns" for x
    using that own peer unfolding mem by (auto simp: open_message_capabilities_def Let_def split: if_splits)
  show ?thesis
  proof (cases "asns = []")
    case True
    then have "Cap_FourOctetAs (po_my_asn po) \<notin> set ?caps" using mem by auto
    then have "my_as \<noteq> AS_TRANS" by (auto simp: open_message_capabilities_def Let_def split: if_splits)
    then have "po_my_asn po \<le> 65535" "my_as = ucast (po_my_asn po)" using m(3) by (auto split: if_splits)
    then show ?thesis using True asn4 ucast_ucast_small by simp
  next
    case False
    then show ?thesis using all [of "last asns"] asn4 by simp
  qed
qed

lemma as_trans_iff:
  "(if asn > 65535 then AS_TRANS else ucast (asn :: u32)) = AS_TRANS \<longleftrightarrow> asn > 65535 \<or> asn = 23456"
proof (cases "asn > 65535")
  case False
  then have "ucast (ucast asn :: u16) = asn" using ucast_ucast_small [of asn] by simp
  then show ?thesis using False by (auto simp: AS_TRANS_def)
qed simp

lemma open_message_caps_set:
  "set (open_capabilities (open_message po)) =
     set (po_capabilities po) \<union>
     (if po_send_asn4_cap_by_default po \<or> po_my_asn po > 65535 \<or> po_my_asn po = 23456 then {Cap_FourOctetAs (po_my_asn po)} else {}) \<union>
     (set (po_peer_capabilities po) - set (po_reject_capabilities po))"
  using open_capabilities_message [of po] as_trans_iff [of "po_my_asn po"]
  by (auto simp: open_message_capabilities_def Let_def split: if_splits)

text \<open>The OPEN messages among the events, and what the policy keeps of the last one.\<close>

fun opened :: "ConnectionEvent \<Rightarrow> BgpOpenMessage option" where
  "opened (BGPOpen opn) = Some opn"
| "opened (BGPOpenWithDelayOpenTimer opn) = Some opn"
| "opened _ = None"

definition last_opened :: "ConnectionEvent list \<Rightarrow> BgpOpenMessage option" where
  "last_opened events = (let opens = List.map_filter opened events in if opens = [] then None else Some (last opens))"

definition echoed :: "BgpOpenMessage option \<Rightarrow> BgpCapability set" where
  "echoed opn = (case opn of None \<Rightarrow> {} | Some m \<Rightarrow> set (open_capabilities m) - range Cap_FourOctetAs)"

lemma asn4_code_iff: "BgpCapability_code cap = Inr CAP_FourOctetAs \<longleftrightarrow> cap \<in> range Cap_FourOctetAs"
proof (cases cap)
  case (Cap_Experimental n v)
  then show ?thesis by (cases n) auto
qed auto

lemma last_opened_snoc: "last_opened (events @ [e]) = (case opened e of None \<Rightarrow> last_opened events | Some opn \<Rightarrow> Some opn)"
  by (auto simp: last_opened_def List.map_filter_def Let_def split: option.split)

lemma policy_after_peer:
  assumes "po_peer_capabilities po = []"
  shows "set (po_peer_capabilities (policy_after events po)) = echoed (last_opened events)"
proof (induction events rule: rev_induct)
  case Nil
  then show ?case using assms by (simp add: policy_after_def last_opened_def echoed_def List.map_filter_def)
next
  case (snoc e events)
  have "policy_after (events @ [e]) po = pre_handle_connection_event_hook e (policy_after events po)" by (simp add: policy_after_def)
  then show ?case using snoc unfolding last_opened_snoc
    by (cases e) (auto simp: policy_read_open_def echoed_def asn4_code_iff)
qed

text \<open>
  C29. The OPEN the capabilities policy makes after any connection events. Its capabilities are the
  configured ones, the four-octet AS capability of the local AS exactly if it is sent by default or the
  two-octet field holds \<open>AS_TRANS\<close> (the AS number does not fit in it, or is 23456), and those of the last
  OPEN the peer sent that are neither a four-octet AS capability nor rejected. The two-octet field, the
  hold time and the identifier are the configured ones. A reader of the message finds the local AS in
  it, provided that a four-octet AS capability among the configured ones names the local AS.
\<close>

theorem policy_open_message:
  assumes "po = policy_after events (EchoCapabilitiesPolicy_new my_asn send_asn4 my_bgp_id hold caps reject)"
  shows "set (open_capabilities (open_message po)) =
      set caps \<union> (if send_asn4 \<or> my_asn > 65535 \<or> my_asn = 23456 then {Cap_FourOctetAs my_asn} else {}) \<union>
      ((case last_opened events of None \<Rightarrow> {} | Some opn \<Rightarrow> set (open_capabilities opn) - range Cap_FourOctetAs) - set reject) \<and>
    op_my_as (open_message po) = (if my_asn > 65535 then AS_TRANS else ucast my_asn) \<and>
    op_hold_time (open_message po) = hold \<and> op_bgp_id (open_message po) = my_bgp_id \<and>
    ((\<forall>asn. Cap_FourOctetAs asn \<in> set caps \<longrightarrow> asn = my_asn) \<longrightarrow> my_asn4 (open_message po) = my_asn)"
proof -
  have po: "po_capabilities po = caps" "po_my_asn po = my_asn" "po_reject_capabilities po = reject"
    "po_send_asn4_cap_by_default po = send_asn4" "po_hold_timer_duration po = hold" "po_my_bgp_id po = my_bgp_id"
    by (simp_all add: assms EchoCapabilitiesPolicy_new_def)
  have peer: "set (po_peer_capabilities po) = echoed (last_opened events)"
    unfolding assms by (rule policy_after_peer) (simp add: EchoCapabilitiesPolicy_new_def)
  then have "\<forall>asn. Cap_FourOctetAs asn \<notin> set (po_peer_capabilities po)" by (auto simp: echoed_def split: option.split)
  then show ?thesis
    using open_message_asn [of po] open_message_caps_set [of po] po peer
    by (simp add: echoed_def open_message_def BgpOpenMessage_new_def Let_def)
qed

theorem policy_open_message_witness:
  "my_asn4 (open_message (policy_after [BGPOpen (demo_open 90)] (EchoCapabilitiesPolicy_new 70000 False 1 240 [Cap_RouteRefresh] []))) = 70000"
  using policy_open_message [of _ "[BGPOpen (demo_open 90)]" 70000 False 1 240 "[Cap_RouteRefresh]" "[]"] by simp

section \<open>Counters\<close>

text \<open>The totals are the sums over the kinds of message, as machine integers.\<close>

definition stats_balanced :: "ConnectionStats \<Rightarrow> bool" where
  "stats_balanced st =
     (st_messages_received st = st_open_received st + st_update_received st + st_keepalive_received st
        + st_notification_received st + st_route_refresh_received st \<and>
      st_messages_sent st = st_open_sent st + st_update_sent st + st_keepalive_sent st
        + st_notification_sent st + st_route_refresh_sent st)"

lemma start_send_stats: "stats_balanced (cn_stats c) \<Longrightarrow> stats_balanced (cn_stats (start_send now msg c))"
  by (cases msg) (simp_all add: stats_balanced_def start_send_def Let_def)

lemma send_stats [simp]: "stats_balanced (cn_stats c) \<Longrightarrow> stats_balanced (cn_stats (snd (send env msg c)))"
  using start_send_stats [of c "ce_now env" msg] by (simp add: send_def split: send_outcome.split)

lemma handle_event_stats:
  assumes "handle_event env po e c = (r, c')" "stats_balanced (cn_stats c)"
  shows "stats_balanced (cn_stats c')"
  using assms by (cases "cn_state c"; cases e) (auto simp: handle_event_def handler_simps send_ignore_def split: if_splits)

lemma poll_next_stats:
  assumes "poll_next env item c = (e, c')" "stats_balanced (cn_stats c)"
  shows "stats_balanced (cn_stats c')"
  using assms(1)
proof (cases rule: poll_next_cases)
  case (message m errs)
  then show ?thesis using assms(2) by (cases m) (auto simp: stats_balanced_def count_received_def Let_def split: prod.splits)
qed (use assms(2) in auto)

lemma conn_step_stats:
  assumes "conn_step i (po, c) = Inr (po', c')" "stats_balanced (cn_stats c)"
  shows "stats_balanced (cn_stats c')"
proof -
  obtain e c1 where poll: "poll_next (fst i) (snd i) c = (e, c1)" by fastforce
  note b = poll_next_stats [OF poll assms(2)]
  show ?thesis
    using assms(1) poll b handle_event_stats [of "fst i" _ _ c1]
    by (cases e) (auto simp: conn_step_def Let_def split: prod.splits sum.splits)
qed

text \<open>
  In every session the counters of messages sent and received are the sums of the counters per kind of
  message, modulo \<open>2 ^ 64\<close>, however its writes go.
\<close>

theorem session_stats_balanced:
  assumes "handle_event env po e (Connection_new props a ty cfg j) = (r, c0)" "conn_run is (po, c0) = Inr (po', c)"
  shows "stats_balanced (cn_stats c)"
proof -
  have "stats_balanced (cn_stats (Connection_new props a ty cfg j))"
    by (simp add: Connection_new_def ConnectionStats_default_def stats_balanced_def)
  then have "stats_balanced (cn_stats c0)" using handle_event_stats [OF assms(1)] by blast
  then show ?thesis
    using assms(2)
  proof (induction "is" arbitrary: po c0)
    case (Cons i "is")
    then show ?case using conn_step_stats by (fastforce simp: res_bind_Inr_iff)
  qed simp
qed

theorem session_stats_balanced_witness:
  "\<exists>po c. conn_run demo_inputs (demo_policy, demo_waiting) = Inr (po, c) \<and> stats_balanced (cn_stats c)"
proof -
  obtain po c where r: "conn_run demo_inputs (demo_policy, demo_waiting) = Inr (po, c)" using demo_run by blast
  with session_stats_balanced [OF demo_start [unfolded demo_conn_def] r] show ?thesis by blast
qed

end
