(* ===== verification/Bgp_Peer.thy ===== *)
theory Bgp_Peer
  imports Bgp_Connection
begin

text \<open>
  A BGP peer (\<open>src/netgauze/bgp-speaker/src/peer.rs\<close>): its administrative state, the FSM state of the
  session, the main connection and a second one that is tracked until a collision is resolved, and
  the connect retry timer. A step of \<open>run\<close> takes what its environment offers: the outcome of a TCP
  connect, the clock, and what the streams of the two connections yield. The rejected stream of
  \<open>accept_connection\<close>, logging and the accessors that only read are left out. \<open>pe_closed\<close> records the
  connections the peer dropped after a last notification, as they were then.
\<close>

section \<open>Configuration and state\<close>

record PeerConfig =
  pc_allow_auto_start :: bool
  pc_allow_auto_stop :: bool
  pc_send_notif_without_open :: bool
  pc_connect_retry_duration :: u16
  pc_open_delay_timer_duration :: u16
  pc_hold_timer_duration :: u16
  pc_hold_timer_duration_large_value :: u16
  pc_keepalive_timer_duration :: u16
  pc_idle_hold_duration :: u16
  pc_passive_tcp_establishment :: bool
  pc_collision_detect_established_state :: bool
  pc_rng_seed :: u64

text \<open>\<open>PeerConfig::default()\<close> with the seed it draws.\<close>

definition PeerConfig_default :: "u64 \<Rightarrow> PeerConfig" where
  "PeerConfig_default seed =
     \<lparr> pc_allow_auto_start = True, pc_allow_auto_stop = True, pc_send_notif_without_open = True,
       pc_connect_retry_duration = 10, pc_open_delay_timer_duration = 0, pc_hold_timer_duration = 180,
       pc_hold_timer_duration_large_value = 240, pc_keepalive_timer_duration = 30, pc_idle_hold_duration = 1,
       pc_passive_tcp_establishment = False, pc_collision_detect_established_state = False, pc_rng_seed = seed \<rparr>"

definition connect_retry_duration :: "PeerConfig \<Rightarrow> real" where
  "connect_retry_duration cfg =
     (if pc_connect_retry_duration cfg = 0 then 1 / 1000 else from_secs (pc_connect_retry_duration cfg))"

definition ConnectionConfig_from :: "PeerConfig \<Rightarrow> ConnectionConfig" where
  "ConnectionConfig_from cfg =
     \<lparr> cc_send_notif_without_open = pc_send_notif_without_open cfg,
       cc_open_delay_timer_duration = pc_open_delay_timer_duration cfg,
       cc_hold_timer_duration = pc_hold_timer_duration cfg,
       cc_hold_timer_duration_large_value = pc_hold_timer_duration_large_value cfg,
       cc_keepalive_timer_duration = pc_keepalive_timer_duration cfg,
       cc_idle_hold_duration = pc_idle_hold_duration cfg \<rparr>"

datatype PeerState = AdminUp | AdminDown

datatype PeerAdminEvents =
    ManualStart | ManualStop | AutomaticStart | AutomaticStop | AdminTcpConnectionConfirmed SocketAddr

datatype CollisionCheckRet = CollisionDropMain | CollisionDropTracked | InvalidTrackedBgpId ipv4addr

datatype ConnectionNextEvent = DropMain | DropTracked | NextEvent ConnectionEvent

record Peer =
  pe_properties :: PeerProperties
  pe_policy :: EchoCapabilitiesPolicy
  pe_peer_state :: PeerState
  pe_fsm_state :: FsmState
  pe_config :: PeerConfig
  pe_connection :: "Connection option"
  pe_tracked_connection :: "Connection option"
  pe_connect_retry_timer :: "Interval option"
  pe_connect_retry_counter :: u32
  pe_allowed_to_active_connect :: bool
  pe_waiting_admin_events :: "PeerAdminEvents list"
  pe_closed :: "Connection list"

definition Peer_new :: "PeerProperties \<Rightarrow> PeerConfig \<Rightarrow> EchoCapabilitiesPolicy \<Rightarrow> Peer" where
  "Peer_new props config policy =
     \<lparr> pe_properties = props, pe_policy = policy, pe_peer_state = AdminDown, pe_fsm_state = Idle, pe_config = config,
       pe_connection = None, pe_tracked_connection = None, pe_connect_retry_timer = None, pe_connect_retry_counter = 0,
       pe_allowed_to_active_connect = False, pe_waiting_admin_events = [], pe_closed = [] \<rparr>"

text \<open>
  The environment of a step: the clock and the fate of writes for the main, the tracked and a new
  connection, and the jitter drawn for a new one.
\<close>

record peer_env =
  pv_main :: conn_env
  pv_tracked :: conn_env
  pv_new :: conn_env
  pv_jitter :: real

definition pv_now :: "peer_env \<Rightarrow> real" where
  "pv_now env = ce_now (pv_main env)"

section \<open>Steps that several operations share\<close>

definition fsm_transition :: "FsmState \<Rightarrow> Peer \<Rightarrow> Peer" where
  "fsm_transition new_state p = p \<lparr> pe_fsm_state := new_state \<rparr>"

definition take_retry_timer :: "Peer \<Rightarrow> Peer" where
  "take_retry_timer p = p \<lparr> pe_connect_retry_timer := None \<rparr>"

definition start_retry_timer :: "real \<Rightarrow> Peer \<Rightarrow> Peer" where
  "start_retry_timer now p =
     p \<lparr> pe_connect_retry_timer := Some (interval_start now (connect_retry_duration (pe_config p))) \<rparr>"

definition count_retry :: "Peer \<Rightarrow> Peer" where
  "count_retry p = p \<lparr> pe_connect_retry_counter := pe_connect_retry_counter p + 1 \<rparr>"

definition take_connection :: "Peer \<Rightarrow> Peer" where
  "take_connection p = p \<lparr> pe_connection := None \<rparr>"

section \<open>Connections\<close>

definition add_connection :: "Connection \<Rightarrow> Peer \<Rightarrow> Peer" where
  "add_connection c p =
     (if pe_connection p \<noteq> None then p \<lparr> pe_tracked_connection := Some c \<rparr>
      else
        (let after = (case cn_state c of
                        CTerminate \<Rightarrow> pe_fsm_state p | CConnected \<Rightarrow> pe_fsm_state p
                      | COpenSent \<Rightarrow> OpenSent | COpenConfirm \<Rightarrow> OpenConfirm | CEstablished \<Rightarrow> Established)
         in (fsm_transition after p) \<lparr> pe_connection := Some c \<rparr>))"

definition create_connection :: "Peer \<Rightarrow> SocketAddr \<Rightarrow> ConnectionType \<Rightarrow> real \<Rightarrow> Connection" where
  "create_connection p peer_addr connection_type jitter =
     Connection_new (pe_properties p) peer_addr connection_type (ConnectionConfig_from (pe_config p)) jitter"

definition accept_rejected :: "Peer \<Rightarrow> bool" where
  "accept_rejected p =
     (pe_peer_state p = AdminDown \<or> (pe_connection p \<noteq> None \<and> pe_tracked_connection p \<noteq> None) \<or>
      (pe_fsm_state p = Established \<and> \<not> pc_collision_detect_established_state (pe_config p)))"

definition accept_connection :: "peer_env \<Rightarrow> SocketAddr \<Rightarrow> Peer \<Rightarrow> (FsmStateError + BgpEvent option) \<times> Peer" where
  "accept_connection env peer_addr p =
     (if accept_rejected p then (Inr None, p)
      else
        (let p = take_retry_timer p;
             c = create_connection p peer_addr PassiveConnection (pv_jitter env)
         in case handle_event (pv_new env) (pe_policy p) (TcpConnectionConfirmed peer_addr) c of
              (Inl err, _) \<Rightarrow> (Inl err, p)
            | (Inr event, c) \<Rightarrow> (Inr (Some (Ev_Connection event)), add_connection c p)))"

definition send_bgp_message :: "peer_env \<Rightarrow> BgpMessage \<Rightarrow> Peer \<Rightarrow> (FsmStateError + unit) \<times> Peer" where
  "send_bgp_message env msg p =
     (let p = (case pe_tracked_connection p of
                 None \<Rightarrow> p
               | Some tracked \<Rightarrow>
                   (case send (pv_tracked env) msg tracked of
                      (ok, tracked) \<Rightarrow> p \<lparr> pe_tracked_connection := if ok then Some tracked else None \<rparr>))
      in case pe_connection p of
           None \<Rightarrow> (Inr (), p)
         | Some c \<Rightarrow>
             (case send (pv_main env) msg c of
                (ok, c) \<Rightarrow> (if ok then Inr () else Inl FE_BgpMessageWritingError, p \<lparr> pe_connection := Some c \<rparr>)))"

text \<open>Send a last notification, whose failure is ignored, and drop the connection.\<close>

definition close_with :: "conn_env \<Rightarrow> CeaseError \<Rightarrow> Connection option \<Rightarrow> Peer \<Rightarrow> Peer" where
  "close_with env err conn p =
     (case conn of
        None \<Rightarrow> p
      | Some c \<Rightarrow> p \<lparr> pe_closed := pe_closed p @ [send_ignore env (MsgNotification (Notif_CeaseError err)) c] \<rparr>)"

definition shutdown :: "peer_env \<Rightarrow> Peer \<Rightarrow> Peer" where
  "shutdown env p =
     (let p = fsm_transition Idle ((take_retry_timer p) \<lparr> pe_peer_state := AdminDown \<rparr>);
          p = (close_with (pv_main env) (Cease_AdministrativeShutdown []) (pe_connection p) p) \<lparr> pe_connection := None \<rparr>
      in (close_with (pv_tracked env) (Cease_AdministrativeShutdown []) (pe_tracked_connection p) p)
           \<lparr> pe_tracked_connection := None \<rparr>)"

definition start :: "real \<Rightarrow> Peer \<Rightarrow> Peer" where
  "start now p =
     (let p = p \<lparr> pe_peer_state := AdminUp, pe_connect_retry_counter := 0 \<rparr>
      in if pe_fsm_state p \<noteq> Idle then p
         else if pc_passive_tcp_establishment (pe_config p) then fsm_transition Active p
         else (fsm_transition Connect (start_retry_timer now p)) \<lparr> pe_allowed_to_active_connect := True \<rparr>)"

definition handle_active_connection :: "peer_env \<Rightarrow> bool \<Rightarrow> Peer \<Rightarrow> (FsmStateError + BgpEvent) \<times> Peer" where
  "handle_active_connection env ok p =
     (if ok then
        (let addr = pp_peer_addr (pe_properties p);
             c = create_connection p addr ActiveConnection (pv_jitter env);
             p = take_retry_timer p
         in case handle_event (pv_new env) (pe_policy p) (TcpConnectionRequestAcked addr) c of
              (Inl err, _) \<Rightarrow> (Inl err, p)
            | (Inr event, c) \<Rightarrow> (Inr (Ev_Connection event), add_connection c p))
      else (Inr (Ev_Connection TcpConnectionFails), take_retry_timer p))"

definition fsm_state_from_tracked :: "FsmState \<Rightarrow> Connection \<Rightarrow> FsmStateError + FsmState" where
  "fsm_state_from_tracked fsm_state tracked =
     (case cn_state tracked of
        CConnected \<Rightarrow> Inl (FE_InvalidConnectionStateTransition Ev_OpenCollisionDump fsm_state CConnected CConnected)
      | CTerminate \<Rightarrow> Inl (FE_InvalidConnectionStateTransition Ev_OpenCollisionDump fsm_state CTerminate CTerminate)
      | COpenSent \<Rightarrow> Inr OpenSent
      | COpenConfirm \<Rightarrow> Inr OpenConfirm
      | CEstablished \<Rightarrow> Inr Established)"

section \<open>Events of the main connection\<close>

definition invalid_transition :: "ConnectionEvent \<Rightarrow> ConnectionState \<Rightarrow> ConnectionState \<Rightarrow> Peer \<Rightarrow> (FsmStateError + BgpEvent) \<times> Peer" where
  "invalid_transition event before after p =
     (Inl (FE_InvalidConnectionStateTransition (Ev_Connection event) (pe_fsm_state p) before after), p)"

text \<open>The arms of the match on the state before, the state after and the event.\<close>

definition from_connected :: "real \<Rightarrow> ConnectionState \<Rightarrow> ConnectionEvent \<Rightarrow> Connection \<Rightarrow> Peer \<Rightarrow> (FsmStateError + BgpEvent) \<times> Peer" where
  "from_connected now after event c p =
     (let ok = (\<lambda>p. (Inr (Ev_Connection event), p)); invalid = invalid_transition event CConnected after
      in case after of
           CConnected \<Rightarrow>
             (case event of
                TcpConnectionRequestAcked _ \<Rightarrow>
                  if cn_open_delay_timer c = None then invalid (take_retry_timer p) else ok (take_retry_timer p)
              | TcpConnectionConfirmed _ \<Rightarrow>
                  if cn_open_delay_timer c = None then invalid (take_retry_timer p) else ok (take_retry_timer p)
              | NotifMsgErr _ \<Rightarrow> ok p
              | _ \<Rightarrow> invalid p)
         | COpenSent \<Rightarrow>
             (case event of
                TcpConnectionRequestAcked _ \<Rightarrow> ok (fsm_transition OpenSent (take_retry_timer p))
              | TcpConnectionConfirmed _ \<Rightarrow> ok (fsm_transition OpenSent (take_retry_timer p))
              | DelayOpenTimerExpires \<Rightarrow> ok (fsm_transition OpenSent p)
              | _ \<Rightarrow> invalid p)
         | COpenConfirm \<Rightarrow>
             (case event of
                BGPOpen _ \<Rightarrow> ok (fsm_transition OpenConfirm (take_retry_timer p))
              | BGPOpenWithDelayOpenTimer _ \<Rightarrow> ok (fsm_transition OpenConfirm (take_retry_timer p))
              | _ \<Rightarrow> invalid p)
         | CEstablished \<Rightarrow> invalid p
         | CTerminate \<Rightarrow>
             (let drop = (\<lambda>p. ok (fsm_transition Idle (take_connection (count_retry (take_retry_timer p)))))
              in case event of
                   TcpConnectionFails \<Rightarrow>
                     if pe_fsm_state p = Connect \<and> cn_open_delay_timer c \<noteq> None
                     then ok (take_connection (fsm_transition Active (start_retry_timer now p)))
                     else
                       (let p = take_retry_timer p;
                            p = (if pe_fsm_state p = Active then count_retry p else p)
                        in ok (take_connection (fsm_transition Idle p)))
                 | BGPHeaderErr _ \<Rightarrow> drop p
                 | BGPOpenMsgErr _ \<Rightarrow> drop p
                 | NotifMsgVerErr \<Rightarrow>
                     (let p = take_retry_timer p;
                          p = (if cn_open_delay_timer c = None then count_retry p else p)
                      in ok (fsm_transition Idle (take_connection p)))
                 | HoldTimerExpires \<Rightarrow> drop p
                 | KeepAliveTimerExpires \<Rightarrow> drop p
                 | BGPOpen _ \<Rightarrow> drop p
                 | NotifMsg _ \<Rightarrow> drop p
                 | KeepAliveMsg \<Rightarrow> drop p
                 | UpdateMsg _ _ \<Rightarrow> drop p
                 | UpdateMsgErr _ \<Rightarrow> drop p
                 | RouteRefresh _ \<Rightarrow> drop p
                 | RouteRefreshErr _ \<Rightarrow> drop p
                 | _ \<Rightarrow> invalid p))"

definition from_open_sent :: "real \<Rightarrow> ConnectionState \<Rightarrow> ConnectionEvent \<Rightarrow> Peer \<Rightarrow> (FsmStateError + BgpEvent) \<times> Peer" where
  "from_open_sent now after event p =
     (let ok = (\<lambda>p. (Inr (Ev_Connection event), p)); invalid = invalid_transition event COpenSent after
      in case after of
           CConnected \<Rightarrow> invalid p
         | COpenSent \<Rightarrow> (case event of NotifMsgErr _ \<Rightarrow> ok p | _ \<Rightarrow> invalid p)
         | COpenConfirm \<Rightarrow>
             (case event of BGPOpen _ \<Rightarrow> ok (fsm_transition OpenConfirm (take_retry_timer p)) | _ \<Rightarrow> invalid p)
         | CEstablished \<Rightarrow> invalid p
         | CTerminate \<Rightarrow>
             (let p = take_connection p; drop = (\<lambda>p. ok (fsm_transition Idle (count_retry (take_retry_timer p))))
              in case event of
                   HoldTimerExpires \<Rightarrow> drop p
                 | TcpConnectionFails \<Rightarrow> ok (fsm_transition Active (start_retry_timer now p))
                 | NotifMsgVerErr \<Rightarrow> ok (fsm_transition Idle (take_retry_timer p))
                 | BGPHeaderErr _ \<Rightarrow> drop p
                 | BGPOpenMsgErr _ \<Rightarrow> drop p
                 | KeepAliveTimerExpires \<Rightarrow> drop p
                 | DelayOpenTimerExpires \<Rightarrow> drop p
                 | BGPOpenWithDelayOpenTimer _ \<Rightarrow> drop p
                 | KeepAliveMsg \<Rightarrow> drop p
                 | NotifMsg _ \<Rightarrow> drop p
                 | UpdateMsg _ _ \<Rightarrow> drop p
                 | UpdateMsgErr _ \<Rightarrow> drop p
                 | RouteRefresh _ \<Rightarrow> drop p
                 | RouteRefreshErr _ \<Rightarrow> drop p
                 | _ \<Rightarrow> invalid p))"

definition from_open_confirm :: "ConnectionState \<Rightarrow> ConnectionEvent \<Rightarrow> Peer \<Rightarrow> (FsmStateError + BgpEvent) \<times> Peer" where
  "from_open_confirm after event p =
     (let ok = (\<lambda>p. (Inr (Ev_Connection event), p)); invalid = invalid_transition event COpenConfirm after;
          drop = (\<lambda>p. ok (fsm_transition Idle (take_connection (count_retry (take_retry_timer p)))))
      in case after of
           CConnected \<Rightarrow> invalid p
         | COpenSent \<Rightarrow> invalid p
         | COpenConfirm \<Rightarrow> (case event of KeepAliveTimerExpires \<Rightarrow> ok p | NotifMsgErr _ \<Rightarrow> ok p | _ \<Rightarrow> invalid p)
         | CEstablished \<Rightarrow> (case event of KeepAliveMsg \<Rightarrow> ok (fsm_transition Established p) | _ \<Rightarrow> invalid p)
         | CTerminate \<Rightarrow>
             (case event of
                HoldTimerExpires \<Rightarrow> drop p
              | TcpConnectionFails \<Rightarrow> drop p
              | BGPOpen _ \<Rightarrow> drop p
              | BGPOpenMsgErr _ \<Rightarrow> drop p
              | BGPHeaderErr _ \<Rightarrow> drop p
              | DelayOpenTimerExpires \<Rightarrow> drop p
              | BGPOpenWithDelayOpenTimer _ \<Rightarrow> drop p
              | NotifMsg _ \<Rightarrow> drop p
              | UpdateMsg _ _ \<Rightarrow> drop p
              | UpdateMsgErr _ \<Rightarrow> drop p
              | RouteRefresh _ \<Rightarrow> drop p
              | RouteRefreshErr _ \<Rightarrow> drop p
              | NotifMsgVerErr \<Rightarrow> ok (fsm_transition Idle (take_connection (take_retry_timer p)))
              | _ \<Rightarrow> invalid p))"

definition from_established :: "ConnectionState \<Rightarrow> ConnectionEvent \<Rightarrow> Peer \<Rightarrow> (FsmStateError + BgpEvent) \<times> Peer" where
  "from_established after event p =
     (let ok = (\<lambda>p. (Inr (Ev_Connection event), p)); invalid = invalid_transition event CEstablished after;
          drop = (\<lambda>p. ok (fsm_transition Idle (take_connection (count_retry (take_retry_timer p)))))
      in case after of
           CConnected \<Rightarrow> invalid p
         | COpenSent \<Rightarrow> invalid p
         | COpenConfirm \<Rightarrow> invalid p
         | CEstablished \<Rightarrow>
             (case event of
                KeepAliveTimerExpires \<Rightarrow> ok p
              | KeepAliveMsg \<Rightarrow> ok p
              | UpdateMsg _ _ \<Rightarrow> ok p
              | RouteRefresh _ \<Rightarrow> ok p
              | NotifMsgErr _ \<Rightarrow> ok p
              | NotifMsg _ \<Rightarrow> drop p
              | NotifMsgVerErr \<Rightarrow> drop p
              | _ \<Rightarrow> invalid p)
         | CTerminate \<Rightarrow>
             (case event of
                HoldTimerExpires \<Rightarrow> drop p
              | DelayOpenTimerExpires \<Rightarrow> drop p
              | TcpConnectionFails \<Rightarrow> drop p
              | BGPOpen _ \<Rightarrow> drop p
              | BGPOpenWithDelayOpenTimer _ \<Rightarrow> drop p
              | BGPHeaderErr _ \<Rightarrow> drop p
              | BGPOpenMsgErr _ \<Rightarrow> drop p
              | UpdateMsgErr _ \<Rightarrow> drop p
              | RouteRefreshErr _ \<Rightarrow> drop p
              | NotifMsg _ \<Rightarrow> drop p
              | NotifMsgVerErr \<Rightarrow> drop p
              | _ \<Rightarrow> invalid p))"

definition transition_arm :: "real \<Rightarrow> Connection \<Rightarrow> Connection \<Rightarrow> ConnectionEvent \<Rightarrow> Peer \<Rightarrow> (FsmStateError + BgpEvent) \<times> Peer" where
  "transition_arm now c c' event p =
     (case cn_state c of
        CConnected \<Rightarrow> from_connected now (cn_state c') event c' p
      | COpenSent \<Rightarrow> from_open_sent now (cn_state c') event p
      | COpenConfirm \<Rightarrow> from_open_confirm (cn_state c') event p
      | CEstablished \<Rightarrow> from_established (cn_state c') event p
      | CTerminate \<Rightarrow> invalid_transition event CTerminate (cn_state c') p)"

text \<open>
  \<open>handle_connection_event\<close>. The open delay timer that the \<open>Connected\<close> arm takes belongs to a connection
  that is dropped in the same arm.
\<close>

definition handle_connection_event :: "peer_env \<Rightarrow> ConnectionEvent \<Rightarrow> Peer \<Rightarrow> (FsmStateError + BgpEvent) \<times> Peer" where
  "handle_connection_event env event p =
     (case pe_connection p of
        None \<Rightarrow>
          (Inr (Ev_Connection TcpConnectionFails),
           fsm_transition (if pe_fsm_state p = OpenSent then Active else Idle) p)
      | Some c \<Rightarrow>
          (let policy = pre_handle_connection_event_hook event (pe_policy p);
               p = p \<lparr> pe_policy := policy \<rparr>
           in case handle_event (pv_main env) policy event c of
                (Inl err, c') \<Rightarrow> (Inl err, p \<lparr> pe_connection := Some c' \<rparr>)
              | (Inr event, c') \<Rightarrow> transition_arm (pv_now env) c c' event (p \<lparr> pe_connection := Some c' \<rparr>)))"

section \<open>Collisions\<close>

text \<open>\<open>check_connection_collision\<close>: both connections must have seen an OPEN.\<close>

definition check_connection_collision :: "ipv4addr \<Rightarrow> Connection option \<Rightarrow> Connection option \<Rightarrow> CollisionCheckRet option" where
  "check_connection_collision my_bgp_id conn tracked =
     (let info = (\<lambda>c. Option.bind c (\<lambda>x. map_option (\<lambda>i. (i, st_created (cn_stats x))) (cn_peer_bgp_id x)))
      in case (info conn, info tracked) of
           (Some (main_peer_bgp_id, main_created), Some (tracked_peer_bgp_id, tracked_created)) \<Rightarrow>
             if tracked_peer_bgp_id \<noteq> main_peer_bgp_id then Some (InvalidTrackedBgpId tracked_peer_bgp_id)
             else if my_bgp_id < main_peer_bgp_id \<or> (my_bgp_id = main_peer_bgp_id \<and> tracked_created < main_created)
             then Some CollisionDropMain
             else Some CollisionDropTracked
         | _ \<Rightarrow> None)"

text \<open>
  The state of \<open>next_connection_event\<close>: the policy and the two connections it borrows, and whether its
  own reference to the tracked one is still there (it is taken after an invalid identifier, while the
  peer keeps the connection).
\<close>

record link =
  lk_policy :: EchoCapabilitiesPolicy
  lk_main :: "Connection option"
  lk_tracked :: "Connection option"
  lk_tracked_live :: bool

datatype poll_input = PollMain peer_env "frame option" | PollTracked peer_env "frame option"

definition collision_of :: "ipv4addr \<Rightarrow> link \<Rightarrow> CollisionCheckRet option" where
  "collision_of my_bgp_id l =
     check_connection_collision my_bgp_id (lk_main l) (if lk_tracked_live l then lk_tracked l else None)"

definition reject_tracked :: "peer_env \<Rightarrow> ipv4addr \<Rightarrow> link \<Rightarrow> link" where
  "reject_tracked env peer_id l =
     l \<lparr> lk_tracked := map_option (send_ignore (pv_tracked env)
            (MsgNotification (Notif_OpenMessageError (Opn_BadBgpIdentifier (to_be_bytes peer_id))))) (lk_tracked l),
         lk_tracked_live := False \<rparr>"

text \<open>One round of the loop for each branch of the select; \<open>None\<close> goes round again.\<close>

definition next_main_event :: "ipv4addr \<Rightarrow> peer_env \<Rightarrow> frame option \<Rightarrow> link \<Rightarrow> ConnectionNextEvent option \<times> link" where
  "next_main_event my_bgp_id env item l =
     (case lk_main l of
        None \<Rightarrow> (None, l)
      | Some c \<Rightarrow>
          (case poll_next (pv_main env) item c of
             (None, c) \<Rightarrow> (None, l \<lparr> lk_main := Some c \<rparr>)
           | (Some event, c) \<Rightarrow>
               (let l = l \<lparr> lk_main := Some c \<rparr>
                in case collision_of my_bgp_id l of
                     Some CollisionDropMain \<Rightarrow> (Some DropMain, l)
                   | Some CollisionDropTracked \<Rightarrow> (Some DropTracked, l)
                   | Some (InvalidTrackedBgpId peer_id) \<Rightarrow> (None, reject_tracked env peer_id l)
                   | None \<Rightarrow> (Some (NextEvent event), l))))"

definition next_tracked_event :: "ipv4addr \<Rightarrow> FsmState \<Rightarrow> peer_env \<Rightarrow> frame option \<Rightarrow> link \<Rightarrow> ConnectionNextEvent option \<times> link" where
  "next_tracked_event my_bgp_id fsm_state env item l =
     (case if lk_tracked_live l then lk_tracked l else None of
        None \<Rightarrow> (None, l)
      | Some c \<Rightarrow>
          if fsm_state = Connect \<or> cn_state c = COpenConfirm then (None, l)
          else
            (case poll_next (pv_tracked env) item c of
               (None, c) \<Rightarrow> (None, l \<lparr> lk_tracked := Some c \<rparr>)
             | (Some event, c) \<Rightarrow>
                 (let policy = pre_handle_connection_event_hook event (lk_policy l);
                      c = snd (handle_event (pv_tracked env) policy event c);
                      l = l \<lparr> lk_policy := policy, lk_tracked := Some c \<rparr>
                  in case collision_of my_bgp_id l of
                       Some CollisionDropMain \<Rightarrow> (Some DropMain, l)
                     | Some CollisionDropTracked \<Rightarrow> (Some DropTracked, l)
                     | Some (InvalidTrackedBgpId peer_id) \<Rightarrow> (None, reject_tracked env peer_id l)
                     | None \<Rightarrow> (None, l))))"

fun next_connection_event :: "ipv4addr \<Rightarrow> FsmState \<Rightarrow> poll_input list \<Rightarrow> link \<Rightarrow> ConnectionNextEvent option \<times> link" where
  "next_connection_event my_bgp_id fsm_state [] l = (None, l)"
| "next_connection_event my_bgp_id fsm_state (i # is) l =
     (case (case i of
              PollMain env item \<Rightarrow> next_main_event my_bgp_id env item l
            | PollTracked env item \<Rightarrow> next_tracked_event my_bgp_id fsm_state env item l) of
        (Some event, l) \<Rightarrow> (Some event, l)
      | (None, l) \<Rightarrow> next_connection_event my_bgp_id fsm_state is l)"

definition handle_connect_event :: "peer_env \<Rightarrow> ConnectionNextEvent \<Rightarrow> Peer \<Rightarrow> (FsmStateError + BgpEvent) \<times> Peer" where
  "handle_connect_event env event p =
     (case event of
        DropMain \<Rightarrow>
          (case pe_tracked_connection p of
             None \<Rightarrow> (Inr Ev_OpenCollisionDump, p)
           | Some tracked \<Rightarrow>
               (let p = count_retry (p \<lparr> pe_tracked_connection := None \<rparr>)
                in case fsm_state_from_tracked (pe_fsm_state p) tracked of
                     Inl err \<Rightarrow> (Inl err, p)
                   | Inr new_state \<Rightarrow>
                       (let p = fsm_transition new_state p;
                            p = close_with (pv_main env) (Cease_ConnectionCollisionResolution []) (pe_connection p) p
                        in (Inr Ev_OpenCollisionDump, p \<lparr> pe_connection := Some tracked \<rparr>))))
      | DropTracked \<Rightarrow>
          (Inr Ev_OpenCollisionDump,
           (close_with (pv_tracked env) (Cease_ConnectionCollisionResolution []) (pe_tracked_connection p) p)
             \<lparr> pe_tracked_connection := None \<rparr>)
      | NextEvent event \<Rightarrow> handle_connection_event env event p)"

section \<open>Running a peer\<close>

definition add_admin_event :: "PeerAdminEvents \<Rightarrow> Peer \<Rightarrow> Peer" where
  "add_admin_event event p = p \<lparr> pe_waiting_admin_events := pe_waiting_admin_events p @ [event] \<rparr>"

definition start_peer :: "real \<Rightarrow> BgpEvent \<Rightarrow> BgpEvent \<Rightarrow> Peer \<Rightarrow> BgpEvent option \<times> Peer" where
  "start_peer now passive_event active_event p =
     (if pe_fsm_state p \<noteq> Idle then (None, p)
      else
        (let p = start now p
         in if pc_passive_tcp_establishment (pe_config p) then (Some passive_event, start_retry_timer now p)
            else (Some active_event, p)))"

fun handle_admin_event :: "peer_env \<Rightarrow> PeerAdminEvents \<Rightarrow> Peer \<Rightarrow> (FsmStateError + BgpEvent option) \<times> Peer" where
  "handle_admin_event env ManualStart p =
     (case start_peer (pv_now env) Ev_ManualStartWithPassiveTcp Ev_ManualStart p of (e, p) \<Rightarrow> (Inr e, p))"
| "handle_admin_event env ManualStop p = (Inr (Some Ev_ManualStop), (shutdown env p) \<lparr> pe_connect_retry_counter := 0 \<rparr>)"
| "handle_admin_event env AutomaticStart p =
     (case start_peer (pv_now env) Ev_AutomaticStartWithPassiveTcp Ev_AutomaticStart p of (e, p) \<Rightarrow> (Inr e, p))"
| "handle_admin_event env AutomaticStop p = (Inr (Some Ev_AutomaticStop), count_retry (shutdown env p))"
| "handle_admin_event env (AdminTcpConnectionConfirmed peer_addr) p = accept_connection env peer_addr p"

text \<open>
  Which branch of the select in \<open>run\<close> completes, with what it completed on. A connect that is allowed
  is started, and the permission used up, when its branch is polled before another one completes
  (\<open>polled\<close>).
\<close>

datatype run_input =
    RunConnect bool
  | RunRetryTimer bool
  | RunConnections bool "poll_input list"

definition may_connect :: "Peer \<Rightarrow> bool" where
  "may_connect p = (pe_fsm_state p = Connect \<and> pe_allowed_to_active_connect p)"

definition poll_connect :: "bool \<Rightarrow> Peer \<Rightarrow> Peer" where
  "poll_connect polled p = (if polled \<and> may_connect p then p \<lparr> pe_allowed_to_active_connect := False \<rparr> else p)"

definition retry_timer_expires :: "Peer \<Rightarrow> Peer" where
  "retry_timer_expires p =
     (let p = p \<lparr> pe_connect_retry_timer := map_option interval_tick (pe_connect_retry_timer p) \<rparr>;
          p = (if pe_fsm_state p = Active then fsm_transition Connect p else p)
      in take_connection (p \<lparr> pe_allowed_to_active_connect := (pe_fsm_state p = Connect) \<rparr>))"

definition run_select :: "peer_env \<Rightarrow> run_input \<Rightarrow> Peer \<Rightarrow> (FsmStateError + BgpEvent) option \<times> Peer" where
  "run_select env input p =
     (case input of
        RunConnect ok \<Rightarrow>
          if may_connect p
          then (case handle_active_connection env ok (poll_connect True p) of (r, p) \<Rightarrow> (Some r, p))
          else (None, p)
      | RunRetryTimer polled \<Rightarrow>
          if interval_due (pv_now env) (pe_connect_retry_timer p)
          then (Some (Inr Ev_ConnectRetryTimerExpires), retry_timer_expires (poll_connect polled p))
          else (None, p)
      | RunConnections polled polls \<Rightarrow>
          (let p = poll_connect polled p
           in case next_connection_event (pp_my_bgp_id (pe_properties p)) (pe_fsm_state p) polls
                     \<lparr> lk_policy = pe_policy p, lk_main = pe_connection p, lk_tracked = pe_tracked_connection p,
                       lk_tracked_live = True \<rparr> of
                (next, l) \<Rightarrow>
                  (let p = p \<lparr> pe_policy := lk_policy l, pe_connection := lk_main l, pe_tracked_connection := lk_tracked l \<rparr>
                   in case next of
                        None \<Rightarrow> (None, p)
                      | Some event \<Rightarrow> (case handle_connect_event env event p of (r, p) \<Rightarrow> (Some r, p)))))"

text \<open>\<open>run\<close>: the admin event that was added last comes first; \<open>None\<close> is a run that is still waiting.\<close>

definition run :: "peer_env \<Rightarrow> run_input \<Rightarrow> Peer \<Rightarrow> (FsmStateError + BgpEvent) option \<times> Peer" where
  "run env input p =
     (if pe_waiting_admin_events p = [] then run_select env input p
      else
        (let event = last (pe_waiting_admin_events p);
             p = p \<lparr> pe_waiting_admin_events := butlast (pe_waiting_admin_events p) \<rparr>
         in case handle_admin_event env event p of
              (Inl err, p) \<Rightarrow> (Some (Inl err), p)
            | (Inr (Some e), p) \<Rightarrow> (Some (Inr e), p)
            | (Inr None, p) \<Rightarrow> run_select env input p))"

end
