(* ===== verification/Bgp_Peer_Laws.thy ===== *)
theory Bgp_Peer_Laws
  imports Bgp_Peer Bgp_Connection_Laws
begin

text \<open>
  Laws of a BGP peer with any number of connections. In every reachable state the only errors of a run
  are a message that could not be written and a collision that gives up the main connection for one
  that has not sent its OPEN or has terminated. The FSM state follows the main connection as long as no
  start event is handled by an idle peer that already has a connection, and then a collision leaves
  the peer with one connection.
\<close>

section \<open>What a peer relies on\<close>

text \<open>
  The contract between a peer and the connection it drives: handling an event passes the event on and
  moves the connection as the session state machine says, or fails to write.
\<close>

locale connection_contract =
  fixes handle :: "conn_env \<Rightarrow> EchoCapabilitiesPolicy \<Rightarrow> ConnectionEvent \<Rightarrow> Connection \<Rightarrow> handled"
    and delay :: "Connection \<Rightarrow> bool"
  assumes handle_next: "handle env po e c = (Inr e', c') \<Longrightarrow> e' = e \<and> cn_state c' = conn_next (delay c) (cn_state c) e"
    and handle_err: "handle env po e c = (Inl err, c') \<Longrightarrow> err = FE_BgpMessageWritingError"

text \<open>Events that a poll can yield: not those that report a new TCP connection.\<close>

fun polled_event :: "ConnectionEvent \<Rightarrow> bool" where
  "polled_event (TcpConnectionRequestAcked _) = False"
| "polled_event (TcpConnectionConfirmed _) = False"
| "polled_event _ = True"

text \<open>The FSM states that go with a state of the main connection.\<close>

definition fsm_of :: "ConnectionState \<Rightarrow> FsmState set" where
  "fsm_of s = (case s of CConnected \<Rightarrow> {Idle, Connect, Active} | COpenSent \<Rightarrow> {OpenSent} | COpenConfirm \<Rightarrow> {OpenConfirm}
     | CEstablished \<Rightarrow> {Established} | CTerminate \<Rightarrow> {})"

text \<open>The FSM state and the retry timer agree with the main connection.\<close>

definition coupled :: "Peer \<Rightarrow> bool" where
  "coupled p =
     (case pe_connection p of
        None \<Rightarrow> pe_fsm_state p \<in> {Idle, Connect, Active}
      | Some c \<Rightarrow> pe_connect_retry_timer p = None \<and> pe_fsm_state p \<in> fsm_of (cn_state c))"

definition main_live :: "Peer \<Rightarrow> bool" where
  "main_live p = (\<forall>c. pe_connection p = Some c \<longrightarrow> cn_state c \<noteq> CTerminate)"

lemmas peer_simps = fsm_transition_def take_retry_timer_def start_retry_timer_def count_retry_def take_connection_def

text \<open>
  What an arm of the match on the states of a connection gives: the event, a main connection that has
  not terminated, and the coupling if the peer had it before.
\<close>

definition arm_result :: "ConnectionEvent \<Rightarrow> bool \<Rightarrow> Peer \<Rightarrow> (FsmStateError + BgpEvent) \<times> Peer \<Rightarrow> bool" where
  "arm_result e cpl p res =
     (fst res = Inr (Ev_Connection e) \<and> main_live (snd res) \<and> pe_tracked_connection (snd res) = pe_tracked_connection p \<and>
      pe_peer_state (snd res) = pe_peer_state p \<and> (cpl \<longrightarrow> coupled (snd res)))"

lemmas arm_simps = transition_arm_def conn_next_def coupled_def main_live_def fsm_of_def arm_result_def peer_simps Let_def

context connection_contract
begin

lemma arm_ok:
  assumes h: "handle env po e c = (Inr e', c')" and e: "polled_event e" and c: "cn_state c \<noteq> CTerminate"
    and p: "pe_connection p = Some c'"
  shows "arm_result e (pe_connect_retry_timer p = None \<and> pe_fsm_state p \<in> fsm_of (cn_state c)) p (transition_arm now c c' e' p)"
proof -
  have n: "e' = e" "cn_state c' = conn_next (delay c) (cn_state c) e" using handle_next [OF h] by auto
  show ?thesis
  proof (cases "cn_state c")
    case CConnected
    with n e p show ?thesis by (cases e) (auto simp: arm_simps from_connected_def)
  next
    case COpenSent
    with n e p show ?thesis by (cases e) (auto simp: arm_simps from_open_sent_def)
  next
    case COpenConfirm
    with n e p show ?thesis by (cases e) (auto simp: arm_simps from_open_confirm_def)
  next
    case CEstablished
    with n e p show ?thesis by (cases e) (auto simp: arm_simps from_established_def)
  next
    case CTerminate
    with c show ?thesis by simp
  qed
qed

end

interpretation conn: connection_contract handle_event uses_open_delay
  using handle_event_next by unfold_locales blast+

section \<open>Polling the connections\<close>

lemma poll_next_polled: "poll_next env item c = (Some e, c') \<Longrightarrow> polled_event e"
  using poll_next_origin [of env item c e c'] by (cases e) (auto simp: event_origin_def)

lemma poll_next_state: "poll_next env item c = (e, c') \<Longrightarrow> cn_state c' = cn_state c"
  using poll_next_frame(1) [of env item c] by simp

text \<open>Polling keeps the state of the main connection, and whether there is a tracked one.\<close>

definition same_links :: "link \<Rightarrow> link \<Rightarrow> bool" where
  "same_links l l' =
     (map_option cn_state (lk_main l') = map_option cn_state (lk_main l) \<and> (lk_tracked l' = None \<longleftrightarrow> lk_tracked l = None))"

lemma same_links_trans: "same_links l l1 \<Longrightarrow> same_links l1 l2 \<Longrightarrow> same_links l l2"
  by (simp add: same_links_def)

text \<open>
  What polling ends with: an event of the main connection, or the decision of a collision between the
  two connections as they are then.
\<close>

definition poll_result :: "ipv4addr \<Rightarrow> ConnectionNextEvent option \<Rightarrow> link \<Rightarrow> bool" where
  "poll_result my r l =
     (case r of
        None \<Rightarrow> True
      | Some DropMain \<Rightarrow> collision_of my l = Some CollisionDropMain
      | Some DropTracked \<Rightarrow> collision_of my l = Some CollisionDropTracked
      | Some (NextEvent ev) \<Rightarrow> polled_event ev \<and> lk_main l \<noteq> None)"

lemma next_main_result:
  assumes "next_main_event my env item l = (r, l')"
  shows "same_links l l' \<and> poll_result my r l'"
proof (cases "lk_main l")
  case None
  then show ?thesis using assms by (auto simp: next_main_event_def same_links_def poll_result_def)
next
  case (Some c)
  obtain e c1 where poll: "poll_next (pv_main env) item c = (e, c1)" by fastforce
  show ?thesis
    using assms Some poll poll_next_state [OF poll] poll_next_polled [of "pv_main env" item c _ c1]
    by (auto simp: next_main_event_def same_links_def poll_result_def reject_tracked_def Let_def
        split: option.splits CollisionCheckRet.splits)
qed

lemma next_tracked_result:
  assumes "next_tracked_event my fsm env item l = (r, l')"
  shows "same_links l l' \<and> poll_result my r l'"
proof (cases "if lk_tracked_live l then lk_tracked l else None")
  case None
  then show ?thesis using assms by (auto simp: next_tracked_event_def same_links_def poll_result_def)
next
  case (Some c)
  then have "lk_tracked l = Some c" by (auto split: if_splits)
  then show ?thesis
    using assms Some
    by (auto simp: next_tracked_event_def same_links_def poll_result_def reject_tracked_def Let_def
        split: option.splits CollisionCheckRet.splits if_splits prod.splits)
qed

lemma next_tracked_none: "lk_tracked l = None \<Longrightarrow> next_tracked_event my fsm env item l = (None, l)"
  unfolding next_tracked_event_def by (cases "lk_tracked_live l") simp_all

lemma next_connection_result:
  assumes "next_connection_event my fsm is l = (r, l')"
  shows "same_links l l' \<and> poll_result my r l'"
  using assms
proof (induction "is" arbitrary: l)
  case Nil
  then show ?case by (auto simp: same_links_def poll_result_def)
next
  case (Cons i "is")
  obtain r1 l1 where s: "(case i of PollMain env item \<Rightarrow> next_main_event my env item l
      | PollTracked env item \<Rightarrow> next_tracked_event my fsm env item l) = (r1, l1)" by fastforce
  have one: "same_links l l1 \<and> poll_result my r1 l1"
    using s next_main_result [of my _ _ l r1 l1] next_tracked_result [of my fsm _ _ l r1 l1] by (cases i) auto
  show ?case
  proof (cases r1)
    case None
    then show ?thesis using Cons.IH [of l1] Cons.prems s one same_links_trans [of l l1 l'] by simp
  next
    case (Some e)
    then show ?thesis using Cons.prems s one by auto
  qed
qed

text \<open>When the main connection is the one to go, between two connections to the peer with identifier \<open>i\<close>.\<close>

definition gives_up_main :: "ipv4addr \<Rightarrow> ipv4addr \<Rightarrow> Connection \<Rightarrow> Connection \<Rightarrow> bool" where
  "gives_up_main my i c t = (my < i \<or> my = i \<and> st_created (cn_stats t) < st_created (cn_stats c))"

lemma collision_ofD:
  assumes "collision_of my l = Some k" "k = CollisionDropMain \<or> k = CollisionDropTracked"
  shows "\<exists>c t i. lk_main l = Some c \<and> lk_tracked l = Some t \<and> cn_peer_bgp_id c = Some i \<and> cn_peer_bgp_id t = Some i \<and>
    (k = CollisionDropMain \<longleftrightarrow> gives_up_main my i c t)"
  using assms
  by (auto simp: collision_of_def check_connection_collision_def gives_up_main_def Let_def bind_eq_Some_conv
      split: option.splits if_splits)

section \<open>The invariant of a step\<close>

text \<open>
  The invariant of every peer, and of one that is \<open>strict\<close>: its FSM state follows the main connection.
\<close>

definition peer_inv :: "bool \<Rightarrow> Peer \<Rightarrow> bool" where
  "peer_inv strict p =
     (main_live p \<and> (strict \<longrightarrow> coupled p) \<and>
      (pe_peer_state p = AdminDown \<longrightarrow> pe_fsm_state p = Idle \<and> pe_connection p = None \<and> pe_tracked_connection p = None))"

text \<open>A collision that gives up the main connection for a tracked one without a session.\<close>

definition collision_error :: "Peer \<Rightarrow> FsmStateError \<Rightarrow> bool" where
  "collision_error p err =
     (pe_connection p \<noteq> None \<and> pe_tracked_connection p \<noteq> None \<and>
      (\<exists>s\<in>{CConnected, CTerminate}. err = FE_InvalidConnectionStateTransition Ev_OpenCollisionDump (pe_fsm_state p) s s))"

definition step_ok :: "bool \<Rightarrow> Peer \<Rightarrow> (FsmStateError + BgpEvent) option \<Rightarrow> Peer \<Rightarrow> bool" where
  "step_ok strict p r p' =
     (case r of Some (Inl err) \<Rightarrow> err = FE_BgpMessageWritingError \<or> collision_error p err | _ \<Rightarrow> peer_inv strict p')"

lemma handle_connection_event_inv:
  assumes "peer_inv strict p" "polled_event e" "pe_connection p = Some c" "handle_connection_event env e p = (r, p')"
  shows "r = Inl FE_BgpMessageWritingError \<or> r = Inr (Ev_Connection e) \<and> peer_inv strict p'"
proof -
  let ?po = "pre_handle_connection_event_hook e (pe_policy p)"
  have cp: "cn_state c \<noteq> CTerminate" "pe_peer_state p \<noteq> AdminDown"
    "strict \<Longrightarrow> pe_connect_retry_timer p = None \<and> pe_fsm_state p \<in> fsm_of (cn_state c)"
    using assms(1,3) by (auto simp: peer_inv_def coupled_def main_live_def)
  obtain x c' where h: "handle_event (pv_main env) ?po e c = (x, c')" by fastforce
  show ?thesis
  proof (cases x)
    case (Inl err)
    then show ?thesis using assms(3,4) h conn.handle_err [of "pv_main env" ?po e c err c']
      by (auto simp: handle_connection_event_def)
  next
    case (Inr e')
    let ?p = "p \<lparr> pe_policy := ?po, pe_connection := Some c' \<rparr>"
    have "(r, p') = transition_arm (pv_now env) c c' e' ?p"
      using assms(3,4) h Inr by (simp add: handle_connection_event_def Let_def)
    moreover have "arm_result e (pe_connect_retry_timer ?p = None \<and> pe_fsm_state ?p \<in> fsm_of (cn_state c)) ?p (transition_arm (pv_now env) c c' e' ?p)"
      using h Inr by (intro conn.arm_ok [of "pv_main env" ?po e c e' c' ?p] assms(2) cp(1)) auto
    ultimately show ?thesis using cp by (auto simp: arm_result_def peer_inv_def dest: sym)
  qed
qed

lemma poll_connect_same [simp]:
  "pe_connection (poll_connect b p) = pe_connection p" "pe_tracked_connection (poll_connect b p) = pe_tracked_connection p"
  "pe_fsm_state (poll_connect b p) = pe_fsm_state p" "pe_peer_state (poll_connect b p) = pe_peer_state p"
  "pe_connect_retry_timer (poll_connect b p) = pe_connect_retry_timer p" "pe_properties (poll_connect b p) = pe_properties p"
  "pe_policy (poll_connect b p) = pe_policy p" "pe_closed (poll_connect b p) = pe_closed p"
  by (simp_all add: poll_connect_def)

lemma poll_connect_inv [simp]: "peer_inv strict (poll_connect b p) = peer_inv strict p"
  by (cases "pe_connection p") (simp_all add: peer_inv_def coupled_def main_live_def)

lemma new_connection_inv:
  assumes "peer_inv strict p" "pe_peer_state p = AdminUp"
    "handle_event env (pe_policy p) e (create_connection p a ty j) = (Inr e', c)"
    "e = TcpConnectionConfirmed b \<or> e = TcpConnectionRequestAcked b"
  shows "peer_inv strict (add_connection c (take_retry_timer p))"
proof -
  have "cn_state c \<in> {CConnected, COpenSent}"
    using conn.handle_next [OF assms(3)] assms(4) by (auto simp: create_connection_def Connection_new_def conn_next_def)
  then show ?thesis using assms(1,2)
    by (cases "pe_connection p") (auto simp: peer_inv_def coupled_def main_live_def add_connection_def peer_simps fsm_of_def)
qed

lemma accept_connection_inv:
  assumes "peer_inv strict p" "accept_connection env a p = (r, p')"
  shows "case r of Inl err \<Rightarrow> err = FE_BgpMessageWritingError
    | Inr None \<Rightarrow> p' = p | Inr (Some e) \<Rightarrow> peer_inv strict p' \<and> e = Ev_Connection (TcpConnectionConfirmed a)"
proof (cases "accept_rejected p")
  case True
  then show ?thesis using assms by (auto simp: accept_connection_def)
next
  case False
  then have up: "pe_peer_state p = AdminUp" by (cases "pe_peer_state p") (auto simp: accept_rejected_def)
  let ?c = "create_connection (take_retry_timer p) a PassiveConnection (pv_jitter env)"
  have cc: "?c = create_connection p a PassiveConnection (pv_jitter env)" by (simp add: create_connection_def peer_simps)
  obtain x c where h: "handle_event (pv_new env) (pe_policy p) (TcpConnectionConfirmed a) ?c = (x, c)" by fastforce
  show ?thesis
    using assms(2) False h conn.handle_err [of "pv_new env" "pe_policy p"] conn.handle_next [of "pv_new env" "pe_policy p"]
      new_connection_inv [OF assms(1) up, of "pv_new env" "TcpConnectionConfirmed a" a PassiveConnection "pv_jitter env" _ c a] cc
    by (cases x) (auto simp: accept_connection_def Let_def peer_simps)
qed

lemma handle_active_inv:
  assumes "peer_inv strict p" "pe_fsm_state p = Connect" "handle_active_connection env ok p = (r, p')"
  shows "r = Inl FE_BgpMessageWritingError \<or> (\<exists>e. r = Inr (Ev_Connection e)) \<and> peer_inv strict p'"
proof (cases ok)
  case False
  then show ?thesis using assms
    by (cases "pe_connection p")
       (auto simp: handle_active_connection_def peer_inv_def coupled_def main_live_def peer_simps)
next
  case True
  have up: "pe_peer_state p = AdminUp" using assms(1,2) by (cases "pe_peer_state p") (auto simp: peer_inv_def)
  let ?a = "pp_peer_addr (pe_properties p)"
  let ?c = "create_connection p ?a ActiveConnection (pv_jitter env)"
  obtain x c where h: "handle_event (pv_new env) (pe_policy p) (TcpConnectionRequestAcked ?a) ?c = (x, c)" by fastforce
  show ?thesis
    using assms(3) True h conn.handle_err [of "pv_new env" "pe_policy p"]
      new_connection_inv [OF assms(1) up, of "pv_new env" "TcpConnectionRequestAcked ?a" ?a ActiveConnection "pv_jitter env" _ c ?a]
    by (cases x) (auto simp: handle_active_connection_def Let_def peer_simps)
qed

text \<open>The retry timer drops the main connection; the coupling allows it to run only when there is none.\<close>

lemma retry_timer_inv:
  assumes "peer_inv strict p" "pe_connect_retry_timer p \<noteq> None"
  shows "peer_inv strict (retry_timer_expires p)"
  using assms
  by (cases "pe_connection p")
     (auto simp: peer_inv_def coupled_def main_live_def retry_timer_expires_def peer_simps Let_def)

lemma fsm_state_from_tracked_cases:
  "(\<exists>s\<in>{CConnected, CTerminate}. fsm_state_from_tracked f t = Inl (FE_InvalidConnectionStateTransition Ev_OpenCollisionDump f s s)) \<or>
   (\<exists>n. fsm_state_from_tracked f t = Inr n \<and> n \<in> fsm_of (cn_state t) \<and> cn_state t \<noteq> CTerminate)"
  by (cases "cn_state t") (simp_all add: fsm_state_from_tracked_def fsm_of_def)

text \<open>
  A collision that is resolved: between the main connection \<open>c\<close> and the tracked one \<open>t\<close>, both with the
  identifier \<open>i\<close> of the peer, one is sent the reason and dropped and the other is the main connection.
\<close>

definition keeps_one :: "peer_env \<Rightarrow> Connection \<Rightarrow> Connection \<Rightarrow> ipv4addr \<Rightarrow> Peer \<Rightarrow> Peer \<Rightarrow> bool" where
  "keeps_one env c t i p p' =
     (cn_peer_bgp_id c = Some i \<and> cn_peer_bgp_id t = Some i \<and> pe_tracked_connection p' = None \<and>
      (let cease = MsgNotification (Notif_CeaseError (Cease_ConnectionCollisionResolution []))
       in if gives_up_main (pp_my_bgp_id (pe_properties p)) i c t
          then pe_connection p' = Some t \<and> pe_closed p' = pe_closed p @ [snd (send (pv_main env) cease c)]
          else pe_connection p' = Some c \<and> pe_closed p' = pe_closed p @ [snd (send (pv_tracked env) cease t)]))"

lemma handle_connect_event_step:
  assumes inv: "peer_inv strict q" and res: "poll_result (pp_my_bgp_id (pe_properties q)) (Some ev) l"
    and l: "lk_main l = pe_connection q" "lk_tracked l = pe_tracked_connection q"
    and h: "handle_connect_event env ev q = (r, p')"
  shows "step_ok strict q (Some r) p' \<and>
    (r = Inr Ev_OpenCollisionDump \<longrightarrow>
      (\<exists>c t i. pe_connection q = Some c \<and> pe_tracked_connection q = Some t \<and> keeps_one env c t i q p'))"
proof (cases ev)
  case DropMain
  then obtain c t i where ct: "pe_connection q = Some c" "pe_tracked_connection q = Some t" "cn_peer_bgp_id c = Some i"
      "cn_peer_bgp_id t = Some i" "gives_up_main (pp_my_bgp_id (pe_properties q)) i c t"
    using res collision_ofD [of "pp_my_bgp_id (pe_properties q)" l CollisionDropMain] l
    by (simp add: poll_result_def) blast
  consider (bad) s where "s \<in> {CConnected, CTerminate}"
      "fsm_state_from_tracked (pe_fsm_state q) t = Inl (FE_InvalidConnectionStateTransition Ev_OpenCollisionDump (pe_fsm_state q) s s)"
    | (good) n where "fsm_state_from_tracked (pe_fsm_state q) t = Inr n" "n \<in> fsm_of (cn_state t)" "cn_state t \<noteq> CTerminate"
    using fsm_state_from_tracked_cases [of "pe_fsm_state q" t] by blast
  then show ?thesis
  proof cases
    case bad
    then show ?thesis using h DropMain ct
      by (auto simp: handle_connect_event_def step_ok_def collision_error_def peer_simps Let_def)
  next
    case good
    have q: "strict \<Longrightarrow> pe_connect_retry_timer q = None" "pe_peer_state q \<noteq> AdminDown"
      using inv ct(1) by (auto simp: peer_inv_def coupled_def)
    have eq: "r = Inr Ev_OpenCollisionDump" "p' = q \<lparr> pe_tracked_connection := None, pe_connect_retry_counter := pe_connect_retry_counter q + 1,
        pe_fsm_state := n, pe_closed := pe_closed q @ [snd (send (pv_main env)
          (MsgNotification (Notif_CeaseError (Cease_ConnectionCollisionResolution []))) c)], pe_connection := Some t \<rparr>"
      using h DropMain ct good
      by (auto simp: handle_connect_event_def close_with_def send_ignore_def peer_simps Let_def)
    show ?thesis using ct good q
      by (simp add: eq step_ok_def peer_inv_def coupled_def main_live_def keeps_one_def Let_def)
  qed
next
  case DropTracked
  then obtain c t i where ct: "pe_connection q = Some c" "pe_tracked_connection q = Some t" "cn_peer_bgp_id c = Some i"
      "cn_peer_bgp_id t = Some i" "\<not> gives_up_main (pp_my_bgp_id (pe_properties q)) i c t"
    using res collision_ofD [of "pp_my_bgp_id (pe_properties q)" l CollisionDropTracked] l
    by (simp add: poll_result_def) blast
  then show ?thesis using h DropTracked inv
    by (auto simp: handle_connect_event_def step_ok_def peer_inv_def coupled_def main_live_def close_with_def send_ignore_def
        keeps_one_def Let_def)
next
  case (NextEvent e)
  then obtain c where "pe_connection q = Some c" "polled_event e" using res l by (auto simp: poll_result_def)
  moreover have "handle_connection_event env e q = (r, p')" using h NextEvent by (simp add: handle_connect_event_def)
  ultimately have "r = Inl FE_BgpMessageWritingError \<or> r = Inr (Ev_Connection e) \<and> peer_inv strict p'"
    using handle_connection_event_inv [OF inv] by blast
  then show ?thesis by (auto simp: step_ok_def)
qed

text \<open>A peer with what polling left of its policy and its connections.\<close>

lemma same_links_inv:
  assumes "peer_inv strict p" "lk_main l0 = pe_connection p" "lk_tracked l0 = pe_tracked_connection p" "same_links l0 l"
  shows "peer_inv strict (p \<lparr> pe_policy := po, pe_connection := lk_main l, pe_tracked_connection := lk_tracked l \<rparr>)"
  using assms
  by (cases "pe_connection p"; cases "lk_main l") (auto simp: peer_inv_def coupled_def main_live_def same_links_def)

text \<open>What a step of \<open>run\<close> gives, and what it has done when it reports a collision.\<close>

definition run_result :: "bool \<Rightarrow> peer_env \<Rightarrow> Peer \<Rightarrow> (FsmStateError + BgpEvent) option \<Rightarrow> Peer \<Rightarrow> bool" where
  "run_result strict env p r p' =
     (step_ok strict p r p' \<and>
      (r = Some (Inr Ev_OpenCollisionDump) \<longrightarrow>
        (\<exists>c t i. map_option cn_state (pe_connection p) = Some (cn_state c) \<and> pe_tracked_connection p \<noteq> None \<and> keeps_one env c t i p p')))"

lemma run_connections_result:
  assumes inv: "peer_inv strict p" and run: "run_select env (RunConnections polled polls) p = (r, p')"
  shows "run_result strict env p r p'"
proof -
  let ?p = "poll_connect polled p"
  let ?l = "\<lparr> lk_policy = pe_policy ?p, lk_main = pe_connection ?p, lk_tracked = pe_tracked_connection ?p, lk_tracked_live = True \<rparr>"
  obtain nx l where n: "next_connection_event (pp_my_bgp_id (pe_properties ?p)) (pe_fsm_state ?p) polls ?l = (nx, l)" by fastforce
  let ?q = "?p \<lparr> pe_policy := lk_policy l, pe_connection := lk_main l, pe_tracked_connection := lk_tracked l \<rparr>"
  have sl: "same_links ?l l" "poll_result (pp_my_bgp_id (pe_properties ?p)) nx l"
    using next_connection_result [OF n] by auto
  have q: "peer_inv strict ?q" using inv sl(1) by (intro same_links_inv [of strict ?p ?l]) auto
  show ?thesis
  proof (cases nx)
    case None
    then have "r = None" "p' = ?q" using run n by (simp_all add: run_select_def Let_def)
    then show ?thesis using q by (simp add: run_result_def step_ok_def)
  next
    case (Some ev)
    obtain r1 where h: "handle_connect_event env ev ?q = (r1, p')" "r = Some r1"
      using run n Some by (auto simp: run_select_def Let_def split: prod.splits)
    have st: "step_ok strict ?q r p'" "r = Some (Inr Ev_OpenCollisionDump) \<Longrightarrow>
        \<exists>c t i. lk_main l = Some c \<and> lk_tracked l = Some t \<and> keeps_one env c t i ?q p'"
      using handle_connect_event_step [OF q, of ev l env r1 p'] sl(2) Some h by auto
    have "collision_error p err" if "collision_error ?q err" for err
      using that sl(1) by (cases "pe_connection p") (auto simp: collision_error_def same_links_def)
    then have "step_ok strict p r p'" using st(1) by (auto simp: step_ok_def split: option.splits sum.splits)
    moreover have "keeps_one env c t i ?q p' \<Longrightarrow> keeps_one env c t i p p'" for c t i by (simp add: keeps_one_def Let_def)
    moreover have "map_option cn_state (pe_connection p) = Some (cn_state c) \<and> pe_tracked_connection p \<noteq> None"
      if "lk_main l = Some c" "lk_tracked l = Some t" for c t
      using that sl(1) by (auto simp: same_links_def)
    ultimately show ?thesis using st(2) unfolding run_result_def by blast
  qed
qed

lemma run_select_result:
  assumes inv: "peer_inv strict p" and run: "run_select env input p = (r, p')"
  shows "run_result strict env p r p'"
proof (cases input)
  case (RunConnect ok)
  show ?thesis
  proof (cases "may_connect p")
    case True
    obtain r1 where "handle_active_connection env ok (poll_connect True p) = (r1, p')" "r = Some r1"
      using run RunConnect True by (auto simp: run_select_def split: prod.splits)
    with handle_active_inv [of strict "poll_connect True p" env ok r1 p'] inv True
    show ?thesis by (auto simp: run_result_def step_ok_def may_connect_def)
  qed (use run RunConnect inv in \<open>simp add: run_select_def run_result_def step_ok_def\<close>)
next
  case (RunRetryTimer polled)
  show ?thesis
  proof (cases "interval_due (pv_now env) (pe_connect_retry_timer p)")
    case True
    then have "pe_connect_retry_timer p \<noteq> None" by (auto simp: interval_due_def split: option.splits)
    then have "peer_inv strict (retry_timer_expires (poll_connect polled p))" using inv by (intro retry_timer_inv) auto
    then show ?thesis using run RunRetryTimer True by (auto simp: run_select_def run_result_def step_ok_def)
  qed (use run RunRetryTimer inv in \<open>simp add: run_select_def run_result_def step_ok_def\<close>)
next
  case (RunConnections polled polls)
  then show ?thesis using run_connections_result [OF inv] run by simp
qed

section \<open>Administrative events\<close>

text \<open>A start event that an idle peer handles although it already has a connection.\<close>

definition starts_connected :: "PeerAdminEvents \<Rightarrow> Peer \<Rightarrow> bool" where
  "starts_connected e p = (e \<in> {ManualStart, AutomaticStart} \<and> pe_fsm_state p = Idle \<and> pe_connection p \<noteq> None)"

lemma start_peer_inv:
  assumes "peer_inv strict p" "strict \<Longrightarrow> pe_fsm_state p = Idle \<Longrightarrow> pe_connection p = None" "start_peer now pe ae p = (e, p')"
  shows "case e of None \<Rightarrow> p' = p | Some ev \<Rightarrow> peer_inv strict p' \<and> ev \<in> {pe, ae}"
  using assms
  by (auto simp: start_peer_def start_def peer_inv_def coupled_def main_live_def peer_simps Let_def split: if_splits option.splits)

lemma shutdown_state:
  "pe_fsm_state (shutdown env p) = Idle" "pe_peer_state (shutdown env p) = AdminDown" "pe_connection (shutdown env p) = None"
  "pe_tracked_connection (shutdown env p) = None" "pe_connect_retry_timer (shutdown env p) = None"
  "pe_waiting_admin_events (shutdown env p) = pe_waiting_admin_events p" "pe_properties (shutdown env p) = pe_properties p"
  by (simp_all add: shutdown_def close_with_def peer_simps Let_def split: option.split)

lemma shutdown_inv: "peer_inv strict (shutdown env p)"
  by (simp add: peer_inv_def coupled_def main_live_def shutdown_state)

lemma peer_inv_counter: "peer_inv strict (p \<lparr> pe_connect_retry_counter := n \<rparr>) = peer_inv strict p"
  by (cases "pe_connection p") (simp_all add: peer_inv_def coupled_def main_live_def)

lemma peer_inv_waiting: "peer_inv strict (p \<lparr> pe_waiting_admin_events := ws \<rparr>) = peer_inv strict p"
  by (cases "pe_connection p") (simp_all add: peer_inv_def coupled_def main_live_def)

lemma handle_admin_inv:
  assumes "peer_inv strict p" "strict \<Longrightarrow> \<not> starts_connected e p" "handle_admin_event env e p = (r, p')"
  shows "case r of Inl err \<Rightarrow> err = FE_BgpMessageWritingError
    | Inr None \<Rightarrow> p' = p | Inr (Some ev) \<Rightarrow> peer_inv strict p' \<and> ev \<noteq> Ev_OpenCollisionDump"
proof (cases e)
  case ManualStart
  obtain x q where h: "start_peer (pv_now env) Ev_ManualStartWithPassiveTcp Ev_ManualStart p = (x, q)" by fastforce
  have "strict \<Longrightarrow> pe_fsm_state p = Idle \<Longrightarrow> pe_connection p = None" using assms(2) ManualStart by (auto simp: starts_connected_def)
  from start_peer_inv [OF assms(1) this h] assms(3) ManualStart h show ?thesis by (auto split: option.splits)
next
  case ManualStop
  then show ?thesis using assms shutdown_inv by (auto simp: peer_inv_counter)
next
  case AutomaticStart
  obtain x q where h: "start_peer (pv_now env) Ev_AutomaticStartWithPassiveTcp Ev_AutomaticStart p = (x, q)" by fastforce
  have "strict \<Longrightarrow> pe_fsm_state p = Idle \<Longrightarrow> pe_connection p = None" using assms(2) AutomaticStart by (auto simp: starts_connected_def)
  from start_peer_inv [OF assms(1) this h] assms(3) AutomaticStart h show ?thesis by (auto split: option.splits)
next
  case AutomaticStop
  then show ?thesis using assms shutdown_inv by (auto simp: count_retry_def peer_inv_counter)
next
  case (AdminTcpConnectionConfirmed a)
  then show ?thesis using assms accept_connection_inv [OF assms(1)] by (fastforce split: sum.splits option.splits)
qed

text \<open>The next run handles a start event that finds the peer idle with a connection.\<close>

definition next_starts_connected :: "Peer \<Rightarrow> bool" where
  "next_starts_connected p = (pe_waiting_admin_events p \<noteq> [] \<and> starts_connected (last (pe_waiting_admin_events p)) p)"

lemma run_step:
  assumes "peer_inv strict p" "strict \<Longrightarrow> \<not> next_starts_connected p" "run env input p = (r, p')"
  shows "run_result strict env p r p'"
proof (cases "pe_waiting_admin_events p = []")
  case True
  then show ?thesis using assms run_select_result [OF assms(1)] by (simp add: run_def)
next
  case False
  let ?e = "last (pe_waiting_admin_events p)" and ?q = "p \<lparr> pe_waiting_admin_events := butlast (pe_waiting_admin_events p) \<rparr>"
  have q: "peer_inv strict ?q" using assms(1) by (simp add: peer_inv_waiting)
  obtain x p1 where h: "handle_admin_event env ?e ?q = (x, p1)" by fastforce
  have "strict \<Longrightarrow> \<not> starts_connected ?e ?q" using assms(2) False by (simp add: next_starts_connected_def starts_connected_def)
  note adm = handle_admin_inv [OF q this h]
  have res: "run env input p = (case x of Inl err \<Rightarrow> (Some (Inl err), p1)
      | Inr None \<Rightarrow> run_select env input p1 | Inr (Some e) \<Rightarrow> (Some (Inr e), p1))"
    using False h by (simp add: run_def Let_def split: sum.split option.split)
  consider (err) "x = Inl FE_BgpMessageWritingError" | (skip) "x = Inr None" "p1 = ?q"
    | (ev) ev where "x = Inr (Some ev)" "peer_inv strict p1" "ev \<noteq> Ev_OpenCollisionDump"
    using adm by (auto split: sum.splits option.splits)
  then show ?thesis
  proof cases
    case skip
    then have "run_result strict env ?q r p'" using run_select_result [OF q] assms(3) res by simp
    moreover have "keeps_one env c t i ?q p' = keeps_one env c t i p p'" "collision_error ?q err = collision_error p err" for c t i err
      by (simp_all add: keeps_one_def collision_error_def)
    ultimately show ?thesis by (simp add: run_result_def step_ok_def cong: option.case_cong sum.case_cong)
  qed (use assms(3) res in \<open>auto simp: run_result_def step_ok_def\<close>)
qed

lemma send_bgp_message_inv:
  assumes "peer_inv strict p" "send_bgp_message env msg p = (Inr (), p')"
  shows "peer_inv strict p'"
proof -
  have st: "send e msg c = (ok, c') \<Longrightarrow> cn_state c' = cn_state c" for e c ok c'
    using send_frame(1) [of e msg c] by simp
  show ?thesis using assms st
    by (cases "pe_connection p"; cases "pe_tracked_connection p")
       (auto simp: send_bgp_message_def peer_inv_def coupled_def main_live_def Let_def split: if_splits prod.splits)
qed

section \<open>Reachable peers\<close>

text \<open>
  The states a peer reaches as long as no error ends it: admin events are queued, messages sent, and
  \<open>run\<close> driven by whatever its environment offers, with one connection, two or none. When \<open>restarts\<close> is
  false, no start event is handled by an idle peer that already has a connection.
\<close>

inductive peer_reach :: "bool \<Rightarrow> PeerProperties \<Rightarrow> PeerConfig \<Rightarrow> EchoCapabilitiesPolicy \<Rightarrow> Peer \<Rightarrow> bool" for restarts props cfg po where
  reach_new: "peer_reach restarts props cfg po (Peer_new props cfg po)"
| reach_admin: "peer_reach restarts props cfg po p \<Longrightarrow> peer_reach restarts props cfg po (add_admin_event e p)"
| reach_send: "peer_reach restarts props cfg po p \<Longrightarrow> send_bgp_message env msg p = (Inr (), p') \<Longrightarrow> peer_reach restarts props cfg po p'"
| reach_pending: "peer_reach restarts props cfg po p \<Longrightarrow> restarts \<or> \<not> next_starts_connected p \<Longrightarrow> run env input p = (None, p') \<Longrightarrow>
    peer_reach restarts props cfg po p'"
| reach_event: "peer_reach restarts props cfg po p \<Longrightarrow> restarts \<or> \<not> next_starts_connected p \<Longrightarrow> run env input p = (Some (Inr e), p') \<Longrightarrow>
    peer_reach restarts props cfg po p'"

lemma run_step_inv: "peer_inv strict p \<Longrightarrow> (strict \<Longrightarrow> \<not> next_starts_connected p) \<Longrightarrow> run env input p = (r, p') \<Longrightarrow> step_ok strict p r p'"
  using run_step by (simp add: run_result_def)

lemma peer_reach_inv: "peer_reach restarts props cfg po p \<Longrightarrow> peer_inv (\<not> restarts) p"
proof (induction rule: peer_reach.induct)
  case reach_new
  then show ?case by (simp add: peer_inv_def coupled_def main_live_def Peer_new_def)
next
  case (reach_admin p e)
  then show ?case by (simp add: add_admin_event_def peer_inv_waiting)
next
  case (reach_send p env msg p')
  then show ?case using send_bgp_message_inv by blast
next
  case (reach_pending p env input p')
  then show ?case using run_step_inv [of "\<not> restarts" p env input None p'] by (auto simp: step_ok_def)
next
  case (reach_event p env input e p')
  then show ?case using run_step_inv [of "\<not> restarts" p env input "Some (Inr e)" p'] by (auto simp: step_ok_def)
qed

lemma peer_inv_weaken: "peer_inv strict p \<Longrightarrow> peer_inv False p"
  by (simp add: peer_inv_def)

text \<open>
  C7. The FSM state of a peer follows its main connection, however many connections it has: as long as
  no start event was handled by an idle peer that already had a connection, the peer is in \<open>OpenSent\<close>,
  \<open>OpenConfirm\<close> or \<open>Established\<close> exactly when its main connection is, and its retry timer runs only while
  it has no main connection. With or without such a start, the main connection is never a terminated
  one, and a peer that is administratively down is idle and has no connection.
\<close>

theorem peer_fsm_follows_connection:
  assumes "peer_reach restarts props cfg po p"
  shows "(\<not> restarts \<longrightarrow>
      (pe_fsm_state p = OpenSent \<longleftrightarrow> (\<exists>c. pe_connection p = Some c \<and> cn_state c = COpenSent)) \<and>
      (pe_fsm_state p = OpenConfirm \<longleftrightarrow> (\<exists>c. pe_connection p = Some c \<and> cn_state c = COpenConfirm)) \<and>
      (pe_fsm_state p = Established \<longleftrightarrow> (\<exists>c. pe_connection p = Some c \<and> cn_state c = CEstablished)) \<and>
      (pe_connect_retry_timer p \<noteq> None \<longrightarrow> pe_connection p = None)) \<and>
    (\<forall>c. pe_connection p = Some c \<longrightarrow> cn_state c \<noteq> CTerminate) \<and>
    (pe_peer_state p = AdminDown \<longrightarrow> pe_fsm_state p = Idle \<and> pe_connection p = None \<and> pe_tracked_connection p = None)"
  using peer_reach_inv [OF assms]
  by (cases "pe_connection p") (auto simp: peer_inv_def coupled_def main_live_def fsm_of_def split: ConnectionState.splits)

text \<open>
  C8. A run of a reachable peer, with any number of connections and whatever its environment offers, has
  two errors only: a message could not be written, or a collision gave up the main connection for a
  tracked one that has not sent its OPEN or has terminated, which is reported as an invalid transition.
  A peer without a tracked connection therefore never reports an invalid transition.
\<close>

theorem peer_no_invalid_transition:
  assumes "peer_reach restarts props cfg po p" "run env input p = (Some (Inl err), p')"
  shows "err = FE_BgpMessageWritingError \<or>
    pe_connection p \<noteq> None \<and> pe_tracked_connection p \<noteq> None \<and>
    (\<exists>s. (s = CConnected \<or> s = CTerminate) \<and>
       err = FE_InvalidConnectionStateTransition Ev_OpenCollisionDump (pe_fsm_state p) s s)"
  using run_step_inv [OF peer_inv_weaken [OF peer_reach_inv [OF assms(1)]] _ assms(2)]
  by (auto simp: step_ok_def collision_error_def)

end
