(* ===== verification/Bgp_Peer_Behaviour.thy ===== *)
theory Bgp_Peer_Behaviour
  imports Bgp_Peer_Laws
begin

text \<open>
  Behaviour of a BGP peer: stopping, the order of administrative events, a failed connect, the
  resolution of collisions, a start event that finds the peer connected, and concrete runs that the
  laws apply to.
\<close>

section \<open>Peers at rest\<close>

text \<open>A peer without connections, timers, pending events and permission to connect has nothing to do.\<close>

definition at_rest :: "Peer \<Rightarrow> bool" where
  "at_rest p =
     (pe_connection p = None \<and> pe_tracked_connection p = None \<and> pe_connect_retry_timer p = None \<and> \<not> may_connect p)"

lemma next_main_none: "lk_main l = None \<Longrightarrow> next_main_event my env item l = (None, l)"
  by (simp add: next_main_event_def)

lemma next_connection_none:
  "lk_main l = None \<Longrightarrow> lk_tracked l = None \<Longrightarrow> next_connection_event my fsm is l = (None, l)"
  by (induction "is") (simp_all add: next_main_none next_tracked_none split: poll_input.split)

lemma run_select_at_rest:
  assumes "at_rest p"
  shows "run_select env input p = (None, p)"
  using assms
  by (cases input) (simp_all add: run_select_def at_rest_def interval_due_def poll_connect_def next_connection_none)

lemma run_at_rest: "at_rest p \<Longrightarrow> pe_waiting_admin_events p = [] \<Longrightarrow> run env input p = (None, p)"
  by (simp add: run_def run_select_at_rest)

lemma add_admin_waiting [simp]: "pe_waiting_admin_events (add_admin_event e p) = pe_waiting_admin_events p @ [e]"
  by (simp add: add_admin_event_def)

lemma run_last_admin:
  assumes "pe_waiting_admin_events p = ws"
  shows "run env input (add_admin_event e p) =
    (case handle_admin_event env e p of
       (Inl err, p) \<Rightarrow> (Some (Inl err), p)
     | (Inr (Some ev), p) \<Rightarrow> (Some (Inr ev), p)
     | (Inr None, p) \<Rightarrow> run_select env input p)"
proof -
  have "(add_admin_event e p) \<lparr> pe_waiting_admin_events := pe_waiting_admin_events p \<rparr> = p" by (simp add: add_admin_event_def)
  then show ?thesis by (simp add: run_def)
qed

section \<open>Stopping\<close>

definition says_goodbye :: "conn_env \<Rightarrow> Connection \<Rightarrow> Connection \<Rightarrow> bool" where
  "says_goodbye env c c' = (c' = snd (send env (MsgNotification (Notif_CeaseError (Cease_AdministrativeShutdown []))) c))"

text \<open>
  C9. A manual stop takes effect at once from every state: the peer is down and idle with no
  connection and no timer, each connection it had was sent an administrative shutdown before it was
  dropped, and then nothing that the environment offers wakes it, nor does it take an incoming
  connection, until it is started again.
\<close>

theorem manual_stop_quiesces:
  assumes "pe_waiting_admin_events p = []" "run env input (add_admin_event ManualStop p) = (r, p')"
  shows "r = Some (Inr Ev_ManualStop) \<and> pe_peer_state p' = AdminDown \<and> pe_fsm_state p' = Idle \<and> pe_connection p' = None \<and>
    pe_tracked_connection p' = None \<and> pe_connect_retry_timer p' = None \<and>
    (\<exists>closed. pe_closed p' = pe_closed p @ closed \<and>
       list_all2 (\<lambda>(e, c) c'. says_goodbye e c c')
         (List.map_filter (\<lambda>(e, c). map_option (\<lambda>c. (e, c)) c)
            [(pv_main env, pe_connection p), (pv_tracked env, pe_tracked_connection p)]) closed) \<and>
    run env2 input2 p' = (None, p') \<and> run env2 input2 (add_admin_event (AdminTcpConnectionConfirmed a) p') = (None, p')"
proof -
  have r: "r = Some (Inr Ev_ManualStop)" and p': "p' = (shutdown env p) \<lparr> pe_connect_retry_counter := 0 \<rparr>"
    using assms by (auto simp: run_last_admin)
  have rest: "at_rest p'" and w: "pe_waiting_admin_events p' = []"
    using assms(1) by (simp_all add: p' at_rest_def shutdown_state may_connect_def)
  have "accept_rejected p'" by (simp add: p' shutdown_state accept_rejected_def)
  then have acc: "run env2 input2 (add_admin_event (AdminTcpConnectionConfirmed a) p') = (None, p')"
    using run_select_at_rest [OF rest] by (simp add: run_last_admin accept_connection_def)
  have "\<exists>closed. pe_closed p' = pe_closed p @ closed \<and>
       list_all2 (\<lambda>(e, c) c'. says_goodbye e c c')
         (List.map_filter (\<lambda>(e, c). map_option (\<lambda>c. (e, c)) c)
            [(pv_main env, pe_connection p), (pv_tracked env, pe_tracked_connection p)]) closed"
    by (cases "pe_connection p"; cases "pe_tracked_connection p")
       (simp_all add: p' shutdown_def close_with_def peer_simps Let_def List.map_filter_def says_goodbye_def send_ignore_def)
  with r acc run_at_rest [OF rest w] show ?thesis by (simp add: p' shutdown_state)
qed

text \<open>
  Administrative events are handled newest first: when a start and then a stop are queued before the
  peer runs, the stop is handled first and the start after it, so the peer that was told to stop runs.
\<close>

theorem admin_events_newest_first:
  assumes "pe_waiting_admin_events p = []" "run env input (add_admin_event ManualStop (add_admin_event ManualStart p)) = (r1, p1)"
    "run env2 input2 p1 = (r2, p2)"
  shows "r1 = Some (Inr Ev_ManualStop) \<and> r2 \<in> {Some (Inr Ev_ManualStart), Some (Inr Ev_ManualStartWithPassiveTcp)} \<and>
    pe_peer_state p2 = AdminUp \<and> pe_fsm_state p2 \<in> {Connect, Active}"
proof -
  have r1: "r1 = Some (Inr Ev_ManualStop)" and p1: "p1 = (shutdown env (add_admin_event ManualStart p)) \<lparr> pe_connect_retry_counter := 0 \<rparr>"
    using assms(2) by (auto simp: run_last_admin)
  have "pe_waiting_admin_events p1 = [ManualStart]" "pe_fsm_state p1 = Idle" using assms(1) by (simp_all add: p1 shutdown_state)
  with r1 assms(3) show ?thesis by (auto simp: run_def start_peer_def start_def peer_simps Let_def split: if_splits)
qed

section \<open>A failed connect\<close>

text \<open>
  A failed connect is final: it takes the retry timer without arming another, and leaves the peer in
  \<open>Connect\<close> with the permission to connect used up. From then on \<open>run\<close> waits for ever whatever its
  environment offers, and a further start is ignored.
\<close>

theorem failed_connect_is_final:
  assumes "may_connect p" "pe_connection p = None" "pe_tracked_connection p = None" "pe_waiting_admin_events p = []"
    "run env (RunConnect False) p = (r, p')"
  shows "r = Some (Inr (Ev_Connection TcpConnectionFails)) \<and> pe_fsm_state p' = Connect \<and> pe_connect_retry_timer p' = None \<and>
    run env2 input p' = (None, p') \<and> run env2 input (add_admin_event ManualStart p') = (None, p')"
proof -
  have r: "r = Some (Inr (Ev_Connection TcpConnectionFails))" and p': "p' = take_retry_timer (p \<lparr> pe_allowed_to_active_connect := False \<rparr>)"
    using assms by (auto simp: run_def run_select_def handle_active_connection_def poll_connect_def)
  have f: "pe_fsm_state p' = Connect" using assms(1) by (simp add: p' peer_simps may_connect_def)
  have rest: "at_rest p'" "pe_waiting_admin_events p' = []"
    using assms by (simp_all add: p' at_rest_def peer_simps may_connect_def)
  have "run env2 input (add_admin_event ManualStart p') = (None, p')"
    using f run_select_at_rest [OF rest(1)] by (simp add: run_last_admin start_peer_def)
  with r f rest run_at_rest show ?thesis by (simp add: at_rest_def)
qed

section \<open>Collisions\<close>

definition opened_by :: "ipv4addr \<Rightarrow> Connection \<Rightarrow> bool" where
  "opened_by i c = (cn_peer_bgp_id c = Some i \<and> st_created (cn_stats c) = 0)"

text \<open>
  The decision of a collision: between speakers with identifiers \<open>a\<close> and \<open>b\<close>, whose two connections
  have both seen an OPEN at both ends, exactly the one with the smaller identifier drops its main
  connection and the other one drops its tracked connection. Which of the two connections is the main
  one does not matter to either, so they drop the same connection only if their main ones differ.
\<close>

theorem collision_decision:
  assumes "a \<noteq> b" "opened_by b main_a" "opened_by b tracked_a" "opened_by a main_b" "opened_by a tracked_b"
  shows "check_connection_collision a (Some main_a) (Some tracked_a) = Some (if a < b then CollisionDropMain else CollisionDropTracked) \<and>
    check_connection_collision b (Some main_b) (Some tracked_b) = Some (if a < b then CollisionDropTracked else CollisionDropMain)"
  using assms by (auto simp: check_connection_collision_def opened_by_def)

lemma start_peer_idle:
  assumes "pe_fsm_state p = Idle"
  shows "\<exists>e p'. start_peer now pe ae p = (Some e, p') \<and> e \<in> {pe, ae}"
  using assms by (simp add: start_peer_def Let_def)

lemma starts_connected_event:
  assumes "next_starts_connected p"
  shows "fst (run env input p) \<noteq> Some (Inr Ev_OpenCollisionDump)"
proof -
  let ?q = "p \<lparr> pe_waiting_admin_events := butlast (pe_waiting_admin_events p) \<rparr>"
  have "pe_fsm_state ?q = Idle" using assms by (simp add: next_starts_connected_def starts_connected_def)
  then show ?thesis
    using assms start_peer_idle [of ?q "pv_now env" Ev_ManualStartWithPassiveTcp Ev_ManualStart]
      start_peer_idle [of ?q "pv_now env" Ev_AutomaticStartWithPassiveTcp Ev_AutomaticStart]
    by (auto simp: next_starts_connected_def starts_connected_def run_def Let_def)
qed

text \<open>
  C10. Resolving a collision leaves one connection: when a run of a peer whose FSM state follows its
  main connection (no start event was handled by an idle peer that had a connection) reports a
  collision, the peer had a main connection and a tracked one, both with the identifier \<open>i\<close> of the peer
  in their OPEN. The main one is given up if the local identifier is smaller, or if it is the same and
  the tracked one is older; the other one is then the only connection, and the FSM state is one of that
  connection. The one given up is sent the reason and closed, and nothing else is closed.
\<close>

theorem collision_leaves_one_connection:
  assumes "peer_reach False props cfg po p" "run env input p = (Some (Inr Ev_OpenCollisionDump), p')"
  shows "\<exists>c t i kept.
    map_option cn_state (pe_connection p) = Some (cn_state c) \<and> pe_tracked_connection p \<noteq> None \<and>
    cn_peer_bgp_id c = Some i \<and> cn_peer_bgp_id t = Some i \<and>
    pe_connection p' = Some kept \<and> pe_tracked_connection p' = None \<and> pe_fsm_state p' \<in> fsm_of (cn_state kept) \<and>
    (let cease = MsgNotification (Notif_CeaseError (Cease_ConnectionCollisionResolution []));
         my = pp_my_bgp_id (pe_properties p)
     in if my < i \<or> my = i \<and> st_created (cn_stats t) < st_created (cn_stats c)
        then kept = t \<and> pe_closed p' = pe_closed p @ [snd (send (pv_main env) cease c)]
        else kept = c \<and> pe_closed p' = pe_closed p @ [snd (send (pv_tracked env) cease t)])"
proof -
  have "\<not> next_starts_connected p" using starts_connected_event [of p env input] assms(2) by auto
  then have res: "run_result True env p (Some (Inr Ev_OpenCollisionDump)) p'"
    using run_step [OF _ _ assms(2)] peer_reach_inv [OF assms(1)] by simp
  then obtain c t i where ct: "map_option cn_state (pe_connection p) = Some (cn_state c)" "pe_tracked_connection p \<noteq> None"
      and k: "keeps_one env c t i p p'"
    by (auto simp: run_result_def)
  have "coupled p'" using res by (simp add: run_result_def step_ok_def peer_inv_def)
  moreover obtain kept where "pe_connection p' = Some kept" using k by (auto simp: keeps_one_def Let_def split: if_splits)
  ultimately have "pe_connection p' = Some kept \<and> pe_fsm_state p' \<in> fsm_of (cn_state kept)" by (simp add: coupled_def)
  then show ?thesis using ct k
    by (intro exI [of _ c] exI [of _ t] exI [of _ i] exI [of _ kept]) (auto simp: keeps_one_def gives_up_main_def Let_def)
qed

text \<open>
  A tracked connection that terminates can end the peer: when its OPEN names the wrong AS the
  connection terminates but still counts as having seen an OPEN, so when the local identifier is the
  smaller one the main connection is given up for it, and \<open>run\<close> reports an invalid transition.
\<close>

theorem terminated_tracked_ends_peer:
  assumes "pe_waiting_admin_events p = []" "pe_fsm_state p \<noteq> Connect" "pe_connection p = Some c" "pe_tracked_connection p = Some t"
    "cn_state t = COpenSent" "cn_peer_asn t = Some asn" "asn \<noteq> my_asn4 opn"
    "opened_by (op_bgp_id opn) c" "st_created (cn_stats t) = 0" "pp_my_bgp_id (pe_properties p) < op_bgp_id opn"
    "cn_keepalive_timer t = None" "cn_open_delay_timer t = None" "\<not> interval_due (ce_now (pv_tracked env)) (cn_hold_timer t)"
  shows "fst (run env (RunConnections False [PollTracked env (Some (FrameMsg (MsgOpen opn) errs))]) p) =
    Some (Inl (FE_InvalidConnectionStateTransition Ev_OpenCollisionDump (pe_fsm_state p) CTerminate CTerminate))"
proof -
  let ?e = "BGPOpenMsgErr (Opn_BadPeerAs (to_be_bytes asn))"
  obtain t1 where poll: "poll_next (pv_tracked env) (Some (FrameMsg (MsgOpen opn) errs)) t = (Some ?e, t1)"
      and t1: "cn_peer_bgp_id t1 = Some (op_bgp_id opn)" "cn_state t1 = COpenSent" "st_created (cn_stats t1) = 0"
    using assms(5-7,9,11-13)
    by (simp add: poll_next_def interval_due_def [of _ None] handle_open_message_def count_received_def Let_def)
  let ?po = "pe_policy p"
  obtain t2 where h: "handle_event (pv_tracked env) ?po ?e t1 = (Inr ?e, t2)"
      and t2: "cn_peer_bgp_id t2 = Some (op_bgp_id opn)" "cn_state t2 = CTerminate" "st_created (cn_stats t2) = 0"
    using t1 by (auto simp: handle_event_def to_state_def send_ignore_def send_def start_send_def Let_def split: send_outcome.split)
  have col: "check_connection_collision (pp_my_bgp_id (pe_properties p)) (Some c) (Some t2) = Some CollisionDropMain"
    using assms(8,10) t2 by (simp add: check_connection_collision_def opened_by_def)
  show ?thesis
    using assms(1-5) poll h col t2(2)
    by (simp add: run_def run_select_def poll_connect_def may_connect_def next_tracked_event_def collision_of_def
        handle_connect_event_def fsm_state_from_tracked_def peer_simps Let_def)
qed

section \<open>A start event on a connected peer\<close>

lemma start_while_connected:
  assumes "pe_fsm_state p = Idle" "pe_waiting_admin_events p = []" "run env input (add_admin_event ManualStart p) = (r, p')"
  shows "\<exists>e. r = Some (Inr e)" "pe_connection p' = pe_connection p" "pe_tracked_connection p' = pe_tracked_connection p"
    "pe_connect_retry_timer p' \<noteq> None" "pe_waiting_admin_events p' = []" "pe_closed p' = pe_closed p" "pe_policy p' = pe_policy p"
    "pe_fsm_state p' \<in> {Connect, Active}" "pe_properties p' = pe_properties p"
  using assms
  by (auto simp: run_last_admin start_peer_def start_def peer_simps Let_def split: if_splits)

text \<open>
  A start event that finds an idle peer with a connection loses the session that this connection would
  become: the start arms the connect retry timer, the open delay of the connection expires and the peer
  goes to \<open>OpenSent\<close> with the timer still armed, and when the timer expires the connection is dropped
  without a notification while the FSM stays in \<open>OpenSent\<close>, where a further start is ignored.
\<close>

theorem start_while_connected_loses_session:
  assumes "pe_fsm_state p = Idle" "pe_waiting_admin_events p = []" "pe_connection p = Some c" "pe_tracked_connection p = None"
    "cn_state c = CConnected" "cn_keepalive_timer c = None" "interval_due (ce_now (pv_main env2)) (cn_open_delay_timer c)"
    "run env1 input1 (add_admin_event ManualStart p) = (r1, p1)"
    "run env2 (RunConnections False [PollMain env2 item]) p1 = (Some (Inr e2), p2)"
    "interval_due (pv_now env3) (pe_connect_retry_timer p1)" "run env3 (RunRetryTimer polled) p2 = (r3, p3)"
  shows "pe_connection p1 = Some c \<and>
    e2 = Ev_Connection DelayOpenTimerExpires \<and> pe_fsm_state p2 = OpenSent \<and> map_option cn_state (pe_connection p2) = Some COpenSent \<and>
    r3 = Some (Inr Ev_ConnectRetryTimerExpires) \<and> pe_fsm_state p3 = OpenSent \<and> pe_connection p3 = None \<and> pe_closed p3 = pe_closed p \<and>
    handle_admin_event env4 ManualStart p3 = (Inr None, p3)"
proof -
  note p1 = start_while_connected [OF assms(1,2,8)]
  let ?c = "c \<lparr> cn_open_delay_timer := None \<rparr>" and ?po = "pre_handle_connection_event_hook DelayOpenTimerExpires (pe_policy p1)"
  have poll: "poll_next (pv_main env2) item c = (Some DelayOpenTimerExpires, ?c)"
    using assms(6,7) by (simp add: poll_next_def interval_due_def [of _ None])
  obtain x c2 where h: "handle_event (pv_main env2) ?po DelayOpenTimerExpires ?c = (x, c2)" by fastforce
  have eq: "p1 \<lparr> pe_policy := pe_policy p, pe_connection := x, pe_tracked_connection := None \<rparr> = p1 \<lparr> pe_connection := x \<rparr>" for x
    using p1 assms(4) by (intro Peer.equality) simp_all
  have run2: "run env2 (RunConnections False [PollMain env2 item]) p1 =
      (case handle_connection_event env2 DelayOpenTimerExpires (p1 \<lparr> pe_connection := Some ?c \<rparr>) of (r, p) \<Rightarrow> (Some r, p))"
    using p1 assms(3,4) poll
    by (simp add: run_def run_select_def poll_connect_def next_main_event_def collision_of_def check_connection_collision_def
        handle_connect_event_def eq Let_def split: option.split)
  have x: "x = Inr DelayOpenTimerExpires" "cn_state c2 = COpenSent"
    using assms(5,9) run2 h conn.handle_next [of "pv_main env2" ?po DelayOpenTimerExpires ?c _ c2]
    by (cases x; auto simp: handle_connection_event_def conn_next_def)+
  have p2: "e2 = Ev_Connection DelayOpenTimerExpires" "p2 = p1 \<lparr> pe_policy := ?po, pe_connection := Some c2, pe_fsm_state := OpenSent \<rparr>"
    using assms(5,9) run2 h x by (auto simp: handle_connection_event_def transition_arm_def from_connected_def peer_simps Let_def)
  have "r3 = Some (Inr Ev_ConnectRetryTimerExpires)" "p3 = retry_timer_expires (poll_connect polled p2)"
    using assms(10,11) p1(5) by (auto simp: run_def run_select_def p2)
  then show ?thesis using p1 assms(3) x(2) p2(1)
    by (simp add: p2(2) retry_timer_expires_def poll_connect_def may_connect_def start_peer_def peer_simps Let_def)
qed

section \<open>Concrete runs\<close>

definition demo_peer :: Peer where
  "demo_peer = Peer_new demo_props (PeerConfig_default 0) demo_policy"

definition demo_penv :: "send_outcome \<Rightarrow> peer_env" where
  "demo_penv out =
     (let env = \<lparr> ce_now = 0, ce_wr = (\<lambda>_ _. out), ce_fl32 = (\<lambda>x. x) \<rparr>
      in \<lparr> pv_main = env, pv_tracked = env, pv_new = env, pv_jitter = 1 \<rparr>)"

definition demo_started :: Peer where
  "demo_started = snd (run (demo_penv SendOk) (RunRetryTimer False) (add_admin_event ManualStart demo_peer))"

definition demo_opening :: Peer where
  "demo_opening = snd (run (demo_penv SendOk) (RunConnect True) demo_started)"

lemmas demo_peer_eval = demo_peer_def demo_penv_def Peer_new_def PeerConfig_default_def add_admin_event_def start_peer_def start_def
  peer_simps pv_now_def Let_def

lemma demo_started_eq:
  "run (demo_penv SendOk) (RunRetryTimer False) (add_admin_event ManualStart demo_peer) = (Some (Inr Ev_ManualStart), demo_started)"
  "may_connect demo_started" "pe_connection demo_started = None" "pe_tracked_connection demo_started = None"
  "pe_waiting_admin_events demo_started = []"
  by (simp_all add: demo_started_def run_def may_connect_def demo_peer_eval)

lemma demo_started_reach: "peer_reach restarts demo_props (PeerConfig_default 0) demo_policy demo_started"
proof -
  have "peer_reach restarts demo_props (PeerConfig_default 0) demo_policy (add_admin_event ManualStart demo_peer)"
    unfolding demo_peer_def by (intro reach_admin reach_new)
  moreover have "\<not> next_starts_connected (add_admin_event ManualStart demo_peer)"
    by (simp add: next_starts_connected_def starts_connected_def demo_peer_eval)
  ultimately show ?thesis using demo_started_eq(1) reach_event by blast
qed

lemma demo_opening_eq:
  "\<exists>e. run (demo_penv SendOk) (RunConnect True) demo_started = (Some (Inr e), demo_opening)"
  "pe_fsm_state demo_opening = OpenSent"
  by (simp_all add: demo_opening_def demo_started_def run_def run_select_def may_connect_def poll_connect_def
      handle_active_connection_def create_connection_def ConnectionConfig_from_def add_connection_def handle_event_def Connection_new_def
      send_try_def send_def start_send_def start_hold_timer_def to_state_def demo_props_def demo_peer_eval)

lemma demo_opening_reach: "peer_reach restarts demo_props (PeerConfig_default 0) demo_policy demo_opening"
proof -
  obtain e where "run (demo_penv SendOk) (RunConnect True) demo_started = (Some (Inr e), demo_opening)" using demo_opening_eq by blast
  moreover have "\<not> next_starts_connected demo_started" by (simp add: next_starts_connected_def demo_started_eq)
  ultimately show ?thesis using demo_started_reach reach_event by blast
qed

theorem peer_fsm_follows_connection_witness:
  "peer_reach False demo_props (PeerConfig_default 0) demo_policy demo_opening \<and>
   (\<exists>c. pe_connection demo_opening = Some c \<and> cn_state c = COpenSent)"
  using peer_fsm_follows_connection [OF demo_opening_reach [of False]] demo_opening_reach demo_opening_eq(2) by blast

theorem peer_no_invalid_transition_witness:
  "\<exists>err p'. run (demo_penv ReadyFails) (RunConnect True) demo_started = (Some (Inl err), p') \<and> err = FE_BgpMessageWritingError"
proof -
  have "\<exists>err p'. run (demo_penv ReadyFails) (RunConnect True) demo_started = (Some (Inl err), p')"
    by (simp add: demo_started_def run_def run_select_def may_connect_def poll_connect_def
      handle_active_connection_def create_connection_def ConnectionConfig_from_def handle_event_def Connection_new_def
      send_try_def send_def start_hold_timer_def demo_props_def demo_peer_eval)
  then show ?thesis using peer_no_invalid_transition [OF demo_started_reach [of True]] demo_started_eq(3) by blast
qed

theorem manual_stop_quiesces_witness:
  "\<exists>p'. run (demo_penv SendOk) (RunConnect True) (add_admin_event ManualStop demo_opening) = (Some (Inr Ev_ManualStop), p') \<and>
     pe_connection p' = None \<and> run (demo_penv SendOk) (RunConnect True) p' = (None, p')"
proof -
  have w: "pe_waiting_admin_events demo_opening = []"
    by (simp add: demo_opening_def demo_started_def run_def run_select_def may_connect_def poll_connect_def
      handle_active_connection_def create_connection_def ConnectionConfig_from_def add_connection_def handle_event_def Connection_new_def
      send_try_def send_def start_send_def start_hold_timer_def to_state_def demo_props_def demo_peer_eval)
  obtain r p' where "run (demo_penv SendOk) (RunConnect True) (add_admin_event ManualStop demo_opening) = (r, p')" by fastforce
  with manual_stop_quiesces [OF w this] show ?thesis by blast
qed

theorem admin_events_newest_first_witness:
  "\<exists>r1 p1 r2 p2. run (demo_penv SendOk) (RunConnect True) (add_admin_event ManualStop (add_admin_event ManualStart demo_peer)) = (r1, p1) \<and>
     run (demo_penv SendOk) (RunConnect True) p1 = (r2, p2) \<and> r1 = Some (Inr Ev_ManualStop) \<and> pe_peer_state p2 = AdminUp"
proof -
  have w: "pe_waiting_admin_events demo_peer = []" by (simp add: demo_peer_eval)
  obtain r1 p1 where 1: "run (demo_penv SendOk) (RunConnect True) (add_admin_event ManualStop (add_admin_event ManualStart demo_peer)) = (r1, p1)"
    by fastforce
  obtain r2 p2 where "run (demo_penv SendOk) (RunConnect True) p1 = (r2, p2)" by fastforce
  with admin_events_newest_first [OF w 1] 1 show ?thesis by blast
qed

theorem failed_connect_is_final_witness:
  "\<exists>p'. run (demo_penv SendOk) (RunConnect False) demo_started = (Some (Inr (Ev_Connection TcpConnectionFails)), p') \<and>
     run (demo_penv SendOk) (RunConnect True) p' = (None, p')"
proof -
  obtain r p' where "run (demo_penv SendOk) (RunConnect False) demo_started = (r, p')" by fastforce
  with failed_connect_is_final [OF demo_started_eq(2-5) this] show ?thesis by blast
qed

definition demo_opened :: "ipv4addr \<Rightarrow> Connection" where
  "demo_opened i = demo_conn \<lparr> cn_peer_bgp_id := Some i \<rparr>"

lemma demo_opened_by: "opened_by i (demo_opened i)"
  by (simp add: opened_by_def demo_opened_def demo_conn_def Connection_new_def ConnectionStats_default_def)

theorem collision_decision_witness:
  "check_connection_collision 1 (Some (demo_opened 2)) (Some (demo_opened 2)) = Some CollisionDropMain \<and>
   check_connection_collision 2 (Some (demo_opened 1)) (Some (demo_opened 1)) = Some CollisionDropTracked"
  using collision_decision [of 1 2 "demo_opened 2" "demo_opened 2" "demo_opened 1" "demo_opened 1"] demo_opened_by by simp

definition demo_tracked :: Connection where
  "demo_tracked = demo_conn \<lparr> cn_state := COpenSent, cn_peer_asn := Some 65000 \<rparr>"

definition demo_colliding :: Peer where
  "demo_colliding = demo_peer \<lparr> pe_fsm_state := Active, pe_connection := Some (demo_opened 2), pe_tracked_connection := Some demo_tracked \<rparr>"

text \<open>A second connection, and an OPEN of the peer on each of the two.\<close>

definition demo_two :: Peer where
  "demo_two = snd (run (demo_penv SendOk) (RunConnect True) (add_admin_event (AdminTcpConnectionConfirmed demo_addr) demo_opening))"

definition demo_opens :: run_input where
  "demo_opens = (let opn = Some (FrameMsg (MsgOpen (demo_open 90)) BgpParsingIgnoredErrors_default)
     in RunConnections False [PollTracked (demo_penv SendOk) opn, PollMain (demo_penv SendOk) opn])"

lemmas demo_run_eval = demo_opening_def demo_started_def run_def run_select_def may_connect_def poll_connect_def
  handle_active_connection_def create_connection_def ConnectionConfig_from_def add_connection_def handle_event_def Connection_new_def
  send_try_def send_def start_send_def start_hold_timer_def to_state_def demo_props_def demo_peer_eval

lemma demo_two_eq:
  "\<exists>e. run (demo_penv SendOk) (RunConnect True) (add_admin_event (AdminTcpConnectionConfirmed demo_addr) demo_opening) = (Some (Inr e), demo_two)"
  "pe_tracked_connection demo_two \<noteq> None"
  by (simp_all add: demo_two_def accept_connection_def accept_rejected_def demo_run_eval)

lemma demo_two_reach: "peer_reach restarts demo_props (PeerConfig_default 0) demo_policy demo_two"
proof -
  have "peer_reach restarts demo_props (PeerConfig_default 0) demo_policy (add_admin_event (AdminTcpConnectionConfirmed demo_addr) demo_opening)"
    using demo_opening_reach by (rule reach_admin)
  moreover have "\<not> next_starts_connected (add_admin_event (AdminTcpConnectionConfirmed demo_addr) demo_opening)"
    by (simp add: next_starts_connected_def starts_connected_def)
  ultimately show ?thesis using demo_two_eq(1) reach_event by blast
qed

lemma demo_collision: "\<exists>p'. run (demo_penv SendOk) demo_opens demo_two = (Some (Inr Ev_OpenCollisionDump), p')"
  by (simp add: demo_two_def demo_opens_def accept_connection_def accept_rejected_def demo_run_eval next_tracked_event_def next_main_event_def
     demo_eval demo_open_def BgpOpenMessage_new_def collision_of_def check_connection_collision_def handle_connect_event_def fsm_state_from_tracked_def)

theorem collision_leaves_one_connection_witness:
  "\<exists>p' kept. run (demo_penv SendOk) demo_opens demo_two = (Some (Inr Ev_OpenCollisionDump), p') \<and>
     pe_connection p' = Some kept \<and> pe_tracked_connection p' = None \<and> pe_fsm_state p' \<in> fsm_of (cn_state kept)"
proof -
  obtain p' where r: "run (demo_penv SendOk) demo_opens demo_two = (Some (Inr Ev_OpenCollisionDump), p')" using demo_collision by blast
  from collision_leaves_one_connection [OF demo_two_reach this] r show ?thesis by blast
qed

text \<open>
  A peer with an open delay that lost its first connection and accepted a second one while idle.
\<close>

definition demo_delayed :: PeerConfig where
  "demo_delayed = PeerConfig_default 0 \<lparr> pc_open_delay_timer_duration := 5 \<rparr>"

definition demo_at :: "real \<Rightarrow> peer_env" where
  "demo_at t = \<lparr> pv_main = demo_env t, pv_tracked = demo_env t, pv_new = demo_env t, pv_jitter = 1 \<rparr>"

definition demo_active :: Peer where
  "demo_active = snd (run (demo_at 0) (RunConnect True)
     (snd (run (demo_at 0) (RunConnect True) (add_admin_event ManualStart (Peer_new demo_props demo_delayed demo_policy)))))"

definition demo_lost :: Peer where
  "demo_lost = snd (run (demo_at 1) (RunConnections False [PollMain (demo_at 1) (Some (FrameMsg MsgKeepAlive BgpParsingIgnoredErrors_default))]) demo_active)"

definition demo_accepted :: Peer where
  "demo_accepted = snd (run (demo_at 2) (RunConnect True) (add_admin_event (AdminTcpConnectionConfirmed demo_addr) demo_lost))"

lemmas demo_delay_eval = demo_at_def demo_env_def demo_delayed_def demo_run_eval accept_connection_def accept_rejected_def
  poll_next_def interval_due_def interval_start_def next_main_event_def collision_of_def check_connection_collision_def
  handle_connect_event_def handle_connection_event_def transition_arm_def from_connected_def

lemma demo_active_eq:
  "\<exists>e p1. run (demo_at 0) (RunConnect True) (add_admin_event ManualStart (Peer_new demo_props demo_delayed demo_policy)) = (Some (Inr e), p1) \<and>
     \<not> next_starts_connected p1 \<and> (\<exists>e2. run (demo_at 0) (RunConnect True) p1 = (Some (Inr e2), demo_active))"
  "\<not> next_starts_connected demo_active"
  by (simp_all add: demo_active_def demo_delay_eval next_starts_connected_def)

lemma demo_lost_eq:
  "\<exists>e. run (demo_at 1) (RunConnections False [PollMain (demo_at 1) (Some (FrameMsg MsgKeepAlive BgpParsingIgnoredErrors_default))]) demo_active
     = (Some (Inr e), demo_lost)"
  "pe_fsm_state demo_lost = Idle" "pe_peer_state demo_lost = AdminUp" "pe_connection demo_lost = None" "pe_tracked_connection demo_lost = None"
  "pe_waiting_admin_events demo_lost = []" "pe_properties demo_lost = demo_props" "pe_config demo_lost = demo_delayed"
  by (simp_all add: demo_lost_def demo_active_def demo_delay_eval demo_eval)

lemma demo_accepted_eq:
  "\<exists>e. run (demo_at 2) (RunConnect True) (add_admin_event (AdminTcpConnectionConfirmed demo_addr) demo_lost) = (Some (Inr e), demo_accepted)"
  "pe_fsm_state demo_accepted = Idle" "pe_waiting_admin_events demo_accepted = []" "pe_tracked_connection demo_accepted = None"
  "pe_config demo_accepted = demo_delayed" "pe_connection demo_accepted = Some (demo_waiting \<lparr> cn_open_delay_timer := Some (interval_start 2 5) \<rparr>)"
  by (simp_all add: demo_accepted_def run_last_admin demo_lost_eq accept_connection_def accept_rejected_def demo_waiting_def demo_defs demo_eval
    demo_at_def create_connection_def ConnectionConfig_from_def add_connection_def demo_delayed_def PeerConfig_default_def peer_simps)

lemma demo_accepted_reach: "peer_reach restarts demo_props demo_delayed demo_policy demo_accepted"
proof -
  let ?reach = "peer_reach restarts demo_props demo_delayed demo_policy"
  have "?reach (add_admin_event ManualStart (Peer_new demo_props demo_delayed demo_policy))" by (intro reach_admin reach_new)
  moreover have "\<not> next_starts_connected (add_admin_event ManualStart (Peer_new demo_props demo_delayed demo_policy))"
    by (simp add: next_starts_connected_def starts_connected_def add_admin_event_def Peer_new_def)
  ultimately have "?reach demo_active" using demo_active_eq(1) reach_event by meson
  then have "?reach demo_lost" using demo_lost_eq(1) demo_active_eq(2) reach_event by meson
  then have "?reach (add_admin_event (AdminTcpConnectionConfirmed demo_addr) demo_lost)" by (rule reach_admin)
  moreover have "\<not> next_starts_connected (add_admin_event (AdminTcpConnectionConfirmed demo_addr) demo_lost)"
    by (simp add: next_starts_connected_def starts_connected_def)
  ultimately show ?thesis using demo_accepted_eq(1) reach_event by meson
qed

definition demo_restarted :: Peer where
  "demo_restarted = snd (run (demo_at 2) (RunConnect True) (add_admin_event ManualStart demo_accepted))"

lemmas demo_restart_eval = demo_restarted_def run_def run_select_def start_peer_def start_def demo_accepted_eq demo_waiting_def demo_defs demo_eval
  demo_at_def pv_now_def demo_delayed_def PeerConfig_default_def connect_retry_duration_def peer_simps poll_connect_def may_connect_def
  next_main_event_def collision_of_def check_connection_collision_def handle_connect_event_def handle_connection_event_def transition_arm_def
  from_connected_def add_admin_event_def

lemma demo_restart:
  "run (demo_at 2) (RunConnect True) (add_admin_event ManualStart demo_accepted) = (Some (Inr Ev_ManualStart), demo_restarted)"
  "interval_due (pv_now (demo_at 13)) (pe_connect_retry_timer demo_restarted)"
  "\<exists>e2 p2. run (demo_at 8) (RunConnections False [PollMain (demo_at 8) None]) demo_restarted = (Some (Inr e2), p2)"
  by (simp_all add: demo_restart_eval)

theorem start_while_connected_loses_session_witness:
  "peer_reach False demo_props demo_delayed demo_policy demo_accepted \<and>
   run (demo_at 2) (RunConnect True) (add_admin_event ManualStart demo_accepted) = (Some (Inr Ev_ManualStart), demo_restarted) \<and>
   (\<exists>e2 p2 p3. run (demo_at 8) (RunConnections False [PollMain (demo_at 8) None]) demo_restarted = (Some (Inr e2), p2) \<and>
     run (demo_at 13) (RunRetryTimer False) p2 = (Some (Inr Ev_ConnectRetryTimerExpires), p3) \<and>
     pe_fsm_state p3 = OpenSent \<and> pe_connection p3 = None)"
proof -
  let ?c = "demo_waiting \<lparr> cn_open_delay_timer := Some (interval_start 2 5) \<rparr>"
  have c: "cn_state ?c = CConnected" "cn_keepalive_timer ?c = None" "interval_due (ce_now (pv_main (demo_at 8))) (cn_open_delay_timer ?c)"
    by (simp_all add: demo_waiting_def demo_defs demo_at_def interval_due_def interval_start_def)
  obtain e2 p2 where r2: "run (demo_at 8) (RunConnections False [PollMain (demo_at 8) None]) demo_restarted = (Some (Inr e2), p2)"
    using demo_restart(3) by blast
  obtain r3 p3 where r3: "run (demo_at 13) (RunRetryTimer False) p2 = (r3, p3)" by fastforce
  from start_while_connected_loses_session [OF demo_accepted_eq(2,3,6,4) c demo_restart(1) r2 demo_restart(2) r3] r2 r3
  show ?thesis using demo_accepted_reach demo_restart(1) by blast
qed

theorem terminated_tracked_ends_peer_witness:
  "fst (run (demo_penv SendOk) (RunConnections False
       [PollTracked (demo_penv SendOk) (Some (FrameMsg (MsgOpen (demo_open 90)) BgpParsingIgnoredErrors_default))]) demo_colliding) =
     Some (Inl (FE_InvalidConnectionStateTransition Ev_OpenCollisionDump Active CTerminate CTerminate))"
proof -
  have "my_asn4 (demo_open 90) = 65001"
    by (simp add: demo_open_def BgpOpenMessage_new_def my_asn4_def open_capabilities_def List.map_filter_def)
  then show ?thesis
    using terminated_tracked_ends_peer [of demo_colliding "demo_opened 2" demo_tracked 65000 "demo_open 90" "demo_penv SendOk"] demo_opened_by [of 2]
    by (simp add: demo_colliding_def demo_tracked_def demo_peer_eval demo_open_def BgpOpenMessage_new_def demo_props_def
        demo_conn_def Connection_new_def ConnectionStats_default_def interval_due_def)
qed

end
