(* ===== verification/Bgp_Supervisor.thy ===== *)
theory Bgp_Supervisor
  imports Bgp_Peer_Behaviour
begin

text \<open>
  The tasks that run peers, the supervisor that owns them and the listener that hands them incoming
  connections (\<open>peer_controller.rs\<close>, \<open>supervisor.rs\<close> and \<open>listener.rs\<close> under
  \<open>src/netgauze/bgp-speaker/src/\<close>). A task is a peer with the two ends of its channels; handles,
  controllers and receivers refer to a task by its position in the list of all tasks. What the
  executor does while an operation awaits is a schedule: which task goes on, and what its environment
  offers it.
\<close>

section \<open>Peer tasks\<close>

type_synonym PeerStateResult = "FsmStateError + FsmState \<times> BgpEvent"

datatype PeerReply =
    ReplyPeerStats u32
  | ReplyStats "ConnectionStats option"
  | ReplyCapabilities "BgpCapability list option"

text \<open>A query carries the number of the oneshot channel that its answer goes to.\<close>

datatype PeerEvent =
    PeerEvent_Admin PeerAdminEvents
  | PeerEvent_BgpMessage BgpMessage
  | GetPeerStats nat
  | GetConnectionStats nat
  | GetTrackedConnectionStats nat
  | ConnectionSentCapabilities nat
  | ConnectionReceivedCapabilities nat
  | TrackedConnectionSentCapabilities nat
  | TrackedConnectionReceivedCapabilities nat

text \<open>
  \<open>pt_queue\<close> holds the events that wait for the task, \<open>pt_events\<close> all that it reported, of which the
  receiver has read \<open>pt_read\<close>; \<open>pt_receiver\<close> says whether the receiver is still there.
\<close>

record peer_task =
  pt_peer :: Peer
  pt_queue :: "PeerEvent list"
  pt_events :: "PeerStateResult list"
  pt_read :: nat
  pt_receiver :: bool
  pt_replies :: "(nat \<times> PeerReply) list"
  pt_running :: bool

fun handle_peer_event :: "peer_env \<Rightarrow> PeerEvent \<Rightarrow> Peer \<Rightarrow> (FsmStateError + (nat \<times> PeerReply) list) \<times> Peer" where
  "handle_peer_event env (PeerEvent_Admin admin_event) p = (Inr [], add_admin_event admin_event p)"
| "handle_peer_event env (PeerEvent_BgpMessage msg) p =
     (case send_bgp_message env msg p of (Inl err, p) \<Rightarrow> (Inl err, p) | (Inr _, p) \<Rightarrow> (Inr [], p))"
| "handle_peer_event env (GetPeerStats tx) p = (Inr [(tx, ReplyPeerStats (pe_connect_retry_counter p))], p)"
| "handle_peer_event env (GetConnectionStats tx) p =
     (Inr [(tx, ReplyStats (map_option cn_stats (pe_connection p)))], p)"
| "handle_peer_event env (GetTrackedConnectionStats tx) p =
     (Inr [(tx, ReplyStats (map_option cn_stats (pe_tracked_connection p)))], p)"
| "handle_peer_event env (ConnectionSentCapabilities tx) p =
     (Inr [(tx, ReplyCapabilities (Option.bind (pe_connection p) cn_sent_capabilities))], p)"
| "handle_peer_event env (ConnectionReceivedCapabilities tx) p =
     (Inr [(tx, ReplyCapabilities (Option.bind (pe_connection p) cn_received_capabilities))], p)"
| "handle_peer_event env (TrackedConnectionSentCapabilities tx) p =
     (Inr [(tx, ReplyCapabilities (Option.bind (pe_tracked_connection p) cn_sent_capabilities))], p)"
| "handle_peer_event env (TrackedConnectionReceivedCapabilities tx) p =
     (Inr [(tx, ReplyCapabilities (Option.bind (pe_tracked_connection p) cn_received_capabilities))], p)"

text \<open>Sending on the channel of reports fails when the receiver is gone.\<close>

definition report :: "PeerStateResult \<Rightarrow> peer_task \<Rightarrow> bool \<times> peer_task" where
  "report r t = (pt_receiver t, if pt_receiver t then t \<lparr> pt_events := pt_events t @ [r] \<rparr> else t)"

definition handle_bgp_event :: "FsmStateError + BgpEvent \<Rightarrow> FsmState \<Rightarrow> peer_task \<Rightarrow> bool \<times> peer_task" where
  "handle_bgp_event bgp_event fsm_state t =
     (case bgp_event of
        Inr event \<Rightarrow> report (Inr (fsm_state, event)) t
      | Inl err \<Rightarrow> (False, snd (report (Inl err) t)))"

definition task_new :: "PeerProperties \<Rightarrow> PeerConfig \<Rightarrow> EchoCapabilitiesPolicy \<Rightarrow> peer_task" where
  "task_new props config policy =
     \<lparr> pt_peer = Peer_new props config policy, pt_queue = [], pt_events = [], pt_read = 0, pt_receiver = True,
       pt_replies = [], pt_running = True \<rparr>"

text \<open>
  A round of the loop in \<open>start_peer\<close>. The select is biased, so an event in the queue comes first; a
  run that is still waiting leaves the round without a result.
\<close>

definition task_step :: "peer_env \<Rightarrow> run_input \<Rightarrow> peer_task \<Rightarrow> peer_task" where
  "task_step env input t =
     (if \<not> pt_running t then t
      else
        (case pt_queue t of
           peer_event # queue \<Rightarrow>
             (let t = t \<lparr> pt_queue := queue \<rparr>
              in case handle_peer_event env peer_event (pt_peer t) of
                   (Inl err, p) \<Rightarrow> (snd (report (Inl err) (t \<lparr> pt_peer := p \<rparr>))) \<lparr> pt_running := False \<rparr>
                 | (Inr replies, p) \<Rightarrow> t \<lparr> pt_peer := p, pt_replies := pt_replies t @ replies \<rparr>)
         | [] \<Rightarrow>
             (case run env input (pt_peer t) of
                (None, p) \<Rightarrow> t \<lparr> pt_peer := p \<rparr>
              | (Some bgp_event, p) \<Rightarrow>
                  (case handle_bgp_event bgp_event (pe_fsm_state p) (t \<lparr> pt_peer := p \<rparr>) of
                     (ok, t) \<Rightarrow> t \<lparr> pt_running := ok \<rparr>))))"

text \<open>The methods of \<open>PeerHandle\<close> send an event, which fails when the task has ended.\<close>

definition handle_send :: "PeerEvent \<Rightarrow> peer_task \<Rightarrow> bool \<times> peer_task" where
  "handle_send event t = (pt_running t, if pt_running t then t \<lparr> pt_queue := pt_queue t @ [event] \<rparr> else t)"

definition handle_start :: "peer_task \<Rightarrow> bool \<times> peer_task" where
  "handle_start = handle_send (PeerEvent_Admin ManualStart)"

definition handle_shutdown :: "peer_task \<Rightarrow> bool \<times> peer_task" where
  "handle_shutdown = handle_send (PeerEvent_Admin ManualStop)"

definition handle_accept_connection :: "SocketAddr \<Rightarrow> peer_task \<Rightarrow> bool \<times> peer_task" where
  "handle_accept_connection peer_addr = handle_send (PeerEvent_Admin (AdminTcpConnectionConfirmed peer_addr))"

section \<open>The supervisor\<close>

type_synonym tasks = "peer_task list"

record PeerController =
  pl_properties :: PeerProperties
  pl_task :: nat

record PeersSupervisor =
  su_my_asn :: u32
  su_my_bgp_id :: ipv4addr
  su_peers :: "(IpAddr, PeerController) hashmap"

datatype PeersSupervisorError = PeerExists

definition PeersSupervisor_new :: "u32 \<Rightarrow> ipv4addr \<Rightarrow> PeersSupervisor" where
  "PeersSupervisor_new my_asn my_bgp_id = \<lparr> su_my_asn = my_asn, su_my_bgp_id = my_bgp_id, su_peers = [] \<rparr>"

definition on_task :: "nat \<Rightarrow> (peer_task \<Rightarrow> bool \<times> peer_task) \<Rightarrow> tasks \<Rightarrow> bool \<times> tasks" where
  "on_task i f ts = (if i < length ts then (fst (f (ts ! i)), ts[i := snd (f (ts ! i))]) else (False, ts))"

text \<open>The task of a new peer is its handle and its receiver of reports.\<close>

definition create_peer :: "IpAddr \<Rightarrow> PeerProperties \<Rightarrow> PeerConfig \<Rightarrow> EchoCapabilitiesPolicy \<Rightarrow> PeersSupervisor \<times> tasks
    \<Rightarrow> (PeersSupervisorError + nat) \<times> PeersSupervisor \<times> tasks" where
  "create_peer peer_key props config policy = (\<lambda>(sv, ts).
     if hm_get (su_peers sv) peer_key \<noteq> None then (Inl PeerExists, sv, ts)
     else
       (let handle = length ts;
            sv = sv \<lparr> su_peers := hm_insert peer_key \<lparr> pl_properties = props, pl_task = handle \<rparr> (su_peers sv) \<rparr>
        in (Inr handle, sv, ts @ [task_new props config policy])))"

definition remove_peer :: "IpAddr \<Rightarrow> PeersSupervisor \<times> tasks \<Rightarrow> PeerController option \<times> PeersSupervisor \<times> tasks" where
  "remove_peer peer_key = (\<lambda>(sv, ts).
     case hm_get (su_peers sv) peer_key of
       None \<Rightarrow> (None, sv, ts)
     | Some controller \<Rightarrow>
         (Some controller, sv \<lparr> su_peers := hm_remove peer_key (su_peers sv) \<rparr>,
          snd (on_task (pl_task controller) handle_shutdown ts)))"

text \<open>Dropping a controller aborts its task.\<close>

definition drop_controller :: "PeerController \<Rightarrow> tasks \<Rightarrow> tasks" where
  "drop_controller controller ts = snd (on_task (pl_task controller) (\<lambda>t. (True, t \<lparr> pt_running := False \<rparr>)) ts)"

definition peer_handler :: "IpAddr \<Rightarrow> PeersSupervisor \<Rightarrow> nat option" where
  "peer_handler peer_key sv = map_option pl_task (hm_get (su_peers sv) peer_key)"

definition peer_keys :: "PeersSupervisor \<Rightarrow> IpAddr list" where
  "peer_keys sv = map fst (su_peers sv)"

definition dynamic_peer :: "u64 \<Rightarrow> IpAddr \<Rightarrow> SocketAddr \<Rightarrow> PeersSupervisor \<times> tasks
    \<Rightarrow> (PeersSupervisorError + nat) \<times> PeersSupervisor \<times> tasks" where
  "dynamic_peer seed peer_key peer_addr = (\<lambda>(sv, ts).
     let props = \<lparr> pp_my_asn = su_my_asn sv, pp_peer_asn = su_my_asn sv, pp_my_bgp_id = su_my_bgp_id sv,
                   pp_peer_addr = peer_addr, pp_allow_dynamic_as = True \<rparr>;
         config = (PeerConfig_default seed) \<lparr> pc_open_delay_timer_duration := 65535, pc_passive_tcp_establishment := True \<rparr>;
         policy = EchoCapabilitiesPolicy_new (su_my_asn sv) True (su_my_bgp_id sv)
                    (pc_hold_timer_duration_large_value config) [] []
     in create_peer peer_key props config policy (sv, ts))"

section \<open>The listener\<close>

record BgpListener =
  ls_sockets :: "SocketAddr list"
  ls_peers :: "(IpAddr, nat) hashmap"
  ls_allow_dynamic_peers :: bool

definition BgpListener_new :: "SocketAddr list \<Rightarrow> bool \<Rightarrow> BgpListener" where
  "BgpListener_new sockets allow_dynamic_peers =
     \<lparr> ls_sockets = sockets, ls_peers = [], ls_allow_dynamic_peers = allow_dynamic_peers \<rparr>"

definition reg_peer :: "IpAddr \<Rightarrow> nat \<Rightarrow> BgpListener \<Rightarrow> BgpListener" where
  "reg_peer peer_ip peer_handle l = l \<lparr> ls_peers := hm_insert peer_ip peer_handle (ls_peers l) \<rparr>"

type_synonym schedule = "(nat \<times> peer_env \<times> run_input) list"

definition step_task :: "nat \<times> peer_env \<times> run_input \<Rightarrow> tasks \<Rightarrow> tasks" where
  "step_task s ts = (case s of (i, env, input) \<Rightarrow> snd (on_task i (\<lambda>t. (True, task_step env input t)) ts))"

definition unread :: "nat \<Rightarrow> tasks \<Rightarrow> PeerStateResult list" where
  "unread i ts = (if i < length ts then drop (pt_read (ts ! i)) (pt_events (ts ! i)) else [])"

definition ended :: "nat \<Rightarrow> tasks \<Rightarrow> bool" where
  "ended i ts = (i < length ts \<longrightarrow> \<not> pt_running (ts ! i))"

definition read_one :: "nat \<Rightarrow> tasks \<Rightarrow> tasks" where
  "read_one i ts = snd (on_task i (\<lambda>t. (True, t \<lparr> pt_read := pt_read t + 1 \<rparr>)) ts)"

text \<open>
  \<open>rx.recv().await\<close>: a report, or \<open>None\<close> when the channel is closed. The outer \<open>None\<close> is a schedule
  that ends before.
\<close>

fun recv :: "nat \<Rightarrow> schedule \<Rightarrow> tasks \<Rightarrow> PeerStateResult option option \<times> schedule \<times> tasks" where
  "recv i [] ts =
     (case unread i ts of
        r # _ \<Rightarrow> (Some (Some r), [], read_one i ts)
      | [] \<Rightarrow> (if ended i ts then Some None else None, [], ts))"
| "recv i (s # sched) ts =
     (case unread i ts of
        r # _ \<Rightarrow> (Some (Some r), s # sched, read_one i ts)
      | [] \<Rightarrow> if ended i ts then (Some None, s # sched, ts) else recv i sched (step_task s ts))"

datatype dynamic_outcome = DynamicAccepted | DynamicEnded | DynamicPending

lemma unread_read_one: "unread i (read_one i ts) = tl (unread i ts)"
  by (simp add: unread_def read_one_def on_task_def tl_drop drop_Suc)

lemma report_read [simp]: "pt_read (snd (report r t)) = pt_read t"
  by (simp add: report_def)

lemma task_step_events:
  "pt_read (task_step env input t) = pt_read t \<and> (\<exists>rs. length rs \<le> 1 \<and> pt_events (task_step env input t) = pt_events t @ rs)"
  by (auto simp: task_step_def report_def handle_bgp_event_def Let_def split: list.split prod.split sum.split option.split)

lemma unread_step_task: "length (unread i (step_task s ts)) \<le> Suc (length (unread i ts))"
proof (cases s)
  case (fields j env input)
  show ?thesis
  proof (cases "i < length ts \<and> j = i")
    case True
    then show ?thesis
      using task_step_events [of env input "ts ! i"] by (auto simp: fields step_task_def on_task_def unread_def)
  qed (auto simp: fields step_task_def on_task_def unread_def)
qed

text \<open>The loop over the reports of a dynamic peer.\<close>

function dynamic_loop :: "nat \<Rightarrow> schedule \<Rightarrow> tasks \<Rightarrow> dynamic_outcome \<times> schedule \<times> tasks" where
  "dynamic_loop i sched ts =
     (case unread i ts of
        Inr (state, event) # _ \<Rightarrow>
          (let ts = read_one i ts
           in if state = Idle then (DynamicEnded, sched, ts)
              else if state = OpenConfirm then (DynamicAccepted, sched, ts)
              else dynamic_loop i sched ts)
      | Inl err # _ \<Rightarrow> (DynamicEnded, sched, read_one i ts)
      | [] \<Rightarrow>
          if ended i ts then (DynamicEnded, sched, ts)
          else
            (case sched of
               [] \<Rightarrow> (DynamicPending, [], ts)
             | s # sched \<Rightarrow> dynamic_loop i sched (step_task s ts)))"
  by pat_completeness auto

termination
proof (relation "measure (\<lambda>(i, sched, ts). 2 * length sched + length (unread i ts))")
  show "((i, sched', step_task s ts), i, sched, ts) \<in> measure (\<lambda>(i, sched, ts). 2 * length sched + length (unread i ts))"
    if "unread i ts = []" "sched = s # sched'" for i sched ts s sched'
    using that unread_step_task [of i s ts] by simp
qed (auto simp: unread_read_one)

declare dynamic_loop.simps [simp del]

definition drop_receiver :: "nat \<Rightarrow> tasks \<Rightarrow> tasks" where
  "drop_receiver i ts = snd (on_task i (\<lambda>t. (True, t \<lparr> pt_receiver := False \<rparr>)) ts)"

text \<open>
  \<open>accept_peer_connection\<close> for a dynamic peer, from its start on. The result says whether the listener
  is done with the connection; until then it accepts no other.
\<close>

definition accept_dynamic :: "nat \<Rightarrow> IpAddr \<Rightarrow> SocketAddr \<Rightarrow> schedule \<Rightarrow> BgpListener \<Rightarrow> tasks \<Rightarrow> bool \<times> BgpListener \<times> tasks" where
  "accept_dynamic i peer_key peer_addr sched l ts =
     (case on_task i handle_start ts of
        (False, ts) \<Rightarrow> (True, l, drop_receiver i ts)
      | (True, ts) \<Rightarrow>
          (case recv i sched ts of
             (None, _, ts) \<Rightarrow> (False, l, ts)
           | (Some _, sched, ts) \<Rightarrow>
               (case on_task i (handle_accept_connection peer_addr) ts of
                  (False, ts) \<Rightarrow> (True, l, drop_receiver i ts)
                | (True, ts) \<Rightarrow>
                    (case dynamic_loop i sched ts of
                       (DynamicPending, _, ts) \<Rightarrow> (False, l, ts)
                     | (DynamicEnded, _, ts) \<Rightarrow> (True, l, drop_receiver i ts)
                     | (DynamicAccepted, _, ts) \<Rightarrow> (True, reg_peer peer_key i l, ts)))))"

definition accept_peer_connection :: "u64 \<Rightarrow> schedule \<Rightarrow> IpAddr \<Rightarrow> SocketAddr \<Rightarrow> BgpListener \<times> PeersSupervisor \<times> tasks
    \<Rightarrow> bool \<times> BgpListener \<times> PeersSupervisor \<times> tasks" where
  "accept_peer_connection seed sched peer_key peer_addr = (\<lambda>(l, sv, ts).
     case hm_get (ls_peers l) peer_key of
       Some peer_handle \<Rightarrow> (True, l, sv, snd (on_task peer_handle (handle_accept_connection peer_addr) ts))
     | None \<Rightarrow>
         if \<not> ls_allow_dynamic_peers l then (True, l, sv, ts)
         else
           (case dynamic_peer seed peer_key peer_addr (sv, ts) of
              (Inl _, sv, ts) \<Rightarrow> (True, l, sv, ts)
            | (Inr i, sv, ts) \<Rightarrow>
                (case accept_dynamic i peer_key peer_addr sched l ts of (done, l, ts) \<Rightarrow> (done, l, sv, ts))))"

end
