(* ===== verification/Bgp_Supervisor_Laws.thy ===== *)
theory Bgp_Supervisor_Laws
  imports Bgp_Supervisor
begin

text \<open>
  Laws of peer tasks, of the supervisor and of the listener: a task reports an error once and last and
  ends with one or because nobody receives its reports, the keys of the supervisor follow a registry contract (locale \<open>registry\<close>), and what becomes of an address whose
  dynamic peer failed.
\<close>

section \<open>What a task reports\<close>

text \<open>
  The states of a task that is not aborted: it takes its steps, its handle queues events, and its
  receiver reads reports or is dropped.
\<close>

inductive task_reach :: "PeerProperties \<Rightarrow> PeerConfig \<Rightarrow> EchoCapabilitiesPolicy \<Rightarrow> peer_task \<Rightarrow> bool" for props cfg po where
  task_reach_new: "task_reach props cfg po (task_new props cfg po)"
| task_reach_step: "task_reach props cfg po t \<Longrightarrow> task_reach props cfg po (task_step env input t)"
| task_reach_send: "task_reach props cfg po t \<Longrightarrow> task_reach props cfg po (snd (handle_send e t))"
| task_reach_read: "task_reach props cfg po t \<Longrightarrow> pt_read t < length (pt_events t) \<Longrightarrow>
    task_reach props cfg po (t \<lparr> pt_read := pt_read t + 1 \<rparr>)"
| task_reach_drop: "task_reach props cfg po t \<Longrightarrow> task_reach props cfg po (t \<lparr> pt_receiver := False \<rparr>)"

definition reports_ok :: "peer_task \<Rightarrow> bool" where
  "reports_ok t =
     (list_all (\<lambda>r. \<not> isl r) (butlast (pt_events t)) \<and>
      (if pt_running t then list_all (\<lambda>r. \<not> isl r) (pt_events t)
       else pt_receiver t \<longrightarrow> pt_events t \<noteq> [] \<and> isl (last (pt_events t))))"

lemma list_all_butlast: "list_all P xs \<Longrightarrow> list_all P (butlast xs)"
  by (auto simp: list_all_iff dest: in_set_butlastD)

lemma report_ok:
  assumes "reports_ok t" "pt_running t"
  shows "reports_ok (snd (report (Inr x) t))" "reports_ok ((snd (report (Inl e) t)) \<lparr> pt_running := False \<rparr>)"
    "reports_ok ((snd (report (Inr x) t)) \<lparr> pt_running := fst (report (Inr x) t) \<rparr>)"
  using assms by (auto simp: reports_ok_def report_def list_all_butlast)

lemma task_step_reports:
  assumes "reports_ok t"
  shows "reports_ok (task_step env input t)"
proof (cases "pt_running t")
  case True
  have [simp]: "reports_ok (t \<lparr> pt_queue := q, pt_peer := p \<rparr>)" "reports_ok (t \<lparr> pt_peer := p \<rparr>)"
    "reports_ok (t \<lparr> pt_queue := q, pt_peer := p, pt_replies := rs \<rparr>)" for p q rs
    using assms by (simp_all add: reports_ok_def)
  note rep = report_ok [of "t \<lparr> pt_queue := _, pt_peer := _ \<rparr>"] report_ok [of "t \<lparr> pt_peer := _ \<rparr>"]
  show ?thesis
    using True rep
    by (auto simp: task_step_def handle_bgp_event_def case_prod_beta' Let_def split: list.split option.split sum.split)
qed (use assms in \<open>simp add: task_step_def\<close>)

lemma task_reach_reports: "task_reach props cfg po t \<Longrightarrow> reports_ok t"
proof (induction rule: task_reach.induct)
  case task_reach_step
  then show ?case by (simp add: task_step_reports)
qed (auto simp: reports_ok_def task_new_def handle_send_def)

text \<open>The errors that end a peer.\<close>

definition peer_error :: "FsmStateError \<Rightarrow> bool" where
  "peer_error err =
     (err = FE_BgpMessageWritingError \<or>
      (\<exists>fsm s. (s = CConnected \<or> s = CTerminate) \<and> err = FE_InvalidConnectionStateTransition Ev_OpenCollisionDump fsm s s))"

definition task_inv :: "PeerProperties \<Rightarrow> PeerConfig \<Rightarrow> EchoCapabilitiesPolicy \<Rightarrow> peer_task \<Rightarrow> bool" where
  "task_inv props cfg po t =
     ((pt_running t \<longrightarrow> peer_reach True props cfg po (pt_peer t)) \<and> (\<forall>err. Inl err \<in> set (pt_events t) \<longrightarrow> peer_error err))"

lemma send_bgp_message_err: "send_bgp_message env msg p = (Inl err, p') \<Longrightarrow> err = FE_BgpMessageWritingError"
  by (auto simp: send_bgp_message_def Let_def split: option.splits prod.splits if_splits)

lemma handle_peer_event_reach:
  assumes "peer_reach restarts props cfg po p" "handle_peer_event env e p = (r, p')"
  shows "(case r of Inl err \<Rightarrow> peer_error err | Inr _ \<Rightarrow> peer_reach restarts props cfg po p')"
  using assms
  by (cases e) (auto simp: peer_error_def intro: reach_admin reach_send dest: send_bgp_message_err split: prod.splits sum.splits)

lemma peer_errorI: "err = FE_BgpMessageWritingError \<or> collision_error p err \<Longrightarrow> peer_error err"
  by (auto simp: collision_error_def peer_error_def)

lemma run_reach:
  assumes "peer_reach True props cfg po p" "run env input p = (r, p')"
  shows "(case r of Some (Inl err) \<Rightarrow> peer_error err | _ \<Rightarrow> peer_reach True props cfg po p')"
  using assms run_step_inv [OF peer_inv_weaken [OF peer_reach_inv [OF assms(1)]] _ assms(2)]
  by (auto simp: step_ok_def intro: peer_errorI reach_pending reach_event split: option.split sum.split)

lemma task_step_inv:
  assumes "task_inv props cfg po t"
  shows "task_inv props cfg po (task_step env input t)"
proof (cases "pt_running t")
  case True
  then have p: "peer_reach True props cfg po (pt_peer t)" and e: "\<forall>err. Inl err \<in> set (pt_events t) \<longrightarrow> peer_error err"
    using assms(1) by (simp_all add: task_inv_def)
  show ?thesis
  proof (cases "pt_queue t")
    case (Cons ev q)
    obtain r p' where h: "handle_peer_event env ev (pt_peer t) = (r, p')" by (cases "handle_peer_event env ev (pt_peer t)")
    show ?thesis using handle_peer_event_reach [OF p h] True e Cons h
      by (auto simp: task_step_def task_inv_def report_def Let_def split: sum.split)
  next
    case Nil
    obtain r p' where h: "run env input (pt_peer t) = (r, p')" by (cases "run env input (pt_peer t)")
    show ?thesis using run_reach [OF p h] True e Nil h
      by (auto simp: task_step_def task_inv_def handle_bgp_event_def report_def Let_def split: option.split sum.split)
  qed
qed (use assms(1) in \<open>simp add: task_step_def\<close>)

lemma task_reach_inv: "task_reach props cfg po t \<Longrightarrow> task_inv props cfg po t"
proof (induction rule: task_reach.induct)
  case (task_reach_step t env input)
  then show ?case by (simp add: task_step_inv)
qed (auto simp: task_inv_def task_new_def handle_send_def intro: reach_new)

text \<open>
  C13. A peer task that is not aborted reports an error at most once and as its last report, and while
  it runs it has reported none. It ends in two ways only: the receiver of its reports is gone, or its
  last report is an error, which is either that a message could not be written or the invalid
  transition of a collision that gave up the main connection for a tracked one that has not sent its
  OPEN or has terminated.
\<close>

theorem peer_task_reports:
  assumes "task_reach props cfg po t"
  shows "list_all (\<lambda>r. \<not> isl r) (butlast (pt_events t)) \<and>
    (pt_running t \<longrightarrow> list_all (\<lambda>r. \<not> isl r) (pt_events t)) \<and>
    (\<not> pt_running t \<longrightarrow> \<not> pt_receiver t \<or>
       (\<exists>err. pt_events t \<noteq> [] \<and> last (pt_events t) = Inl err \<and>
          (err = FE_BgpMessageWritingError \<or>
           (\<exists>fsm s. (s = CConnected \<or> s = CTerminate) \<and> err = FE_InvalidConnectionStateTransition Ev_OpenCollisionDump fsm s s))))"
proof -
  have "\<exists>err. last (pt_events t) = Inl err \<and> peer_error err" if "pt_events t \<noteq> []" "isl (last (pt_events t))"
    using task_reach_inv [OF assms] that last_in_set [OF that(1)] by (cases "last (pt_events t)") (auto simp: task_inv_def)
  then show ?thesis
    using task_reach_reports [OF assms] by (auto simp: reports_ok_def peer_error_def)
qed

section \<open>The registry of peers\<close>

text \<open>\<open>for x in xs { f(x)?; }\<close>\<close>

fun try_each :: "('x \<Rightarrow> 's \<Rightarrow> ('e + 'h) \<times> 's) \<Rightarrow> 'x list \<Rightarrow> 's \<Rightarrow> ('e + unit) \<times> 's" where
  "try_each f [] s = (Inr (), s)"
| "try_each f (x # xs) s = (case f x s of (Inl e, s) \<Rightarrow> (Inl e, s) | (Inr _, s) \<Rightarrow> try_each f xs s)"

locale registry =
  fixes crt :: "'k \<Rightarrow> 'a \<Rightarrow> 's \<Rightarrow> ('e + 'h) \<times> 's" and key_set :: "'s \<Rightarrow> 'k set"
  assumes crt_known: "k \<in> key_set s \<Longrightarrow> \<exists>e. crt k a s = (Inl e, s)"
    and crt_new: "k \<notin> key_set s \<Longrightarrow> \<exists>h s'. crt k a s = (Inr h, s') \<and> key_set s' = insert k (key_set s)"
begin

lemma crt_keys: "crt k a s = (r, s') \<Longrightarrow> key_set s' = insert k (key_set s)"
  using crt_known [of k s a] crt_new [of k s a] by (cases "k \<in> key_set s") auto

lemma crt_ok_iff: "crt k a s = (r, s') \<Longrightarrow> isl r \<longleftrightarrow> k \<in> key_set s"
  using crt_known [of k s a] crt_new [of k s a] by (cases "k \<in> key_set s") auto

lemma try_each_new:
  assumes "try_each (\<lambda>(k, a). crt k a) kas s = (r, s')"
  shows "(\<not> isl r \<longleftrightarrow> distinct (map fst kas) \<and> key_set s \<inter> fst ` set kas = {}) \<and>
    (\<not> isl r \<longrightarrow> key_set s' = key_set s \<union> fst ` set kas)"
  using assms
proof (induction kas arbitrary: s)
  case (Cons ka kas)
  obtain k a where ka: "ka = (k, a)" by (cases ka)
  obtain r1 s1 where c: "crt k a s = (r1, s1)" by (cases "crt k a s")
  show ?case
  proof (cases "k \<in> key_set s")
    case True
    then show ?thesis using crt_ok_iff [OF c] c Cons.prems by (auto simp: ka isl_def)
  next
    case False
    then obtain h where "r1 = Inr h" using crt_ok_iff [OF c] by (cases r1) auto
    then show ?thesis using Cons.IH [of s1] Cons.prems crt_keys [OF c] c False by (auto simp: ka)
  qed
qed auto

end

definition registered :: "PeersSupervisor \<times> tasks \<Rightarrow> IpAddr set" where
  "registered s = dom (hm_get (su_peers (fst s)))"

definition create_with :: "IpAddr \<Rightarrow> PeerProperties \<times> PeerConfig \<times> EchoCapabilitiesPolicy \<Rightarrow> PeersSupervisor \<times> tasks
    \<Rightarrow> (PeersSupervisorError + nat) \<times> PeersSupervisor \<times> tasks" where
  "create_with peer_key a = (case a of (props, config, policy) \<Rightarrow> create_peer peer_key props config policy)"

lemma create_peer_known: "k \<in> registered s \<Longrightarrow> create_peer k props config policy s = (Inl PeerExists, s)"
  by (cases s) (auto simp: create_peer_def registered_def)

lemma create_peer_fresh:
  assumes "k \<notin> registered s"
  shows "create_peer k props config policy s =
    (Inr (length (snd s)), (fst s) \<lparr> su_peers := hm_insert k \<lparr> pl_properties = props, pl_task = length (snd s) \<rparr> (su_peers (fst s)) \<rparr>,
     snd s @ [task_new props config policy])"
  using assms by (cases s) (auto simp: create_peer_def registered_def Let_def)

interpretation peers: registry create_with registered
proof
  fix k and s :: "PeersSupervisor \<times> tasks" and a :: "PeerProperties \<times> PeerConfig \<times> EchoCapabilitiesPolicy"
  obtain props config policy where a: "a = (props, config, policy)" by (cases a)
  show "\<exists>e. create_with k a s = (Inl e, s)" if "k \<in> registered s"
    using create_peer_known [OF that] by (simp add: create_with_def a)
  show "\<exists>h s'. create_with k a s = (Inr h, s') \<and> registered s' = insert k (registered s)" if "k \<notin> registered s"
    using create_peer_fresh [OF that] by (auto simp: create_with_def a registered_def hm_get_insert)
qed

lemma dynamic_peer_registers:
  assumes "dynamic_peer seed k addr s = (r, s')"
  shows "registered s' = insert k (registered s)" "isl r \<longleftrightarrow> k \<in> registered s" "k \<in> registered s \<Longrightarrow> s' = s"
proof -
  obtain sv ts where s: "s = (sv, ts)" by (cases s)
  obtain props config policy where "create_peer k props config policy s = (r, s')"
    using assms by (auto simp: dynamic_peer_def s Let_def)
  then have c: "create_with k (props, config, policy) s = (r, s')" by (simp add: create_with_def)
  show "registered s' = insert k (registered s)" "isl r \<longleftrightarrow> k \<in> registered s"
    using peers.crt_keys [OF c] peers.crt_ok_iff [OF c] by simp_all
  show "s' = s" if "k \<in> registered s" using peers.crt_known [OF that, of "(props, config, policy)"] c by auto
qed

section \<open>Dynamic peers\<close>

lemma accept_dynamic_listener:
  assumes "accept_dynamic i k addr sched l ts = (fin, l', ts')" "hm_get (ls_peers l') k = None"
  shows "l' = l"
  using assms
  by (auto simp: accept_dynamic_def reg_peer_def hm_get_insert split: prod.splits bool.splits option.splits dynamic_outcome.splits)

text \<open>
  C37. An address whose dynamic peer failed is locked out: once a dynamic connection is given up before
  it reached \<open>OpenConfirm\<close>, the supervisor still has the peer while the listener has no handle for it,
  and from then on every connection from that address is dropped without a trace, whatever the peer
  tasks do.
\<close>

theorem failed_dynamic_peer_locked_out:
  assumes "ls_allow_dynamic_peers l" "hm_get (ls_peers l) k = None"
    "accept_peer_connection seed sched k addr (l, sv, ts) = (True, l', sv', ts')" "hm_get (ls_peers l') k = None"
  shows "l' = l \<and> k \<in> set (peer_keys sv') \<and>
    accept_peer_connection seed2 sched2 k addr2 (l', sv', ts2) = (True, l', sv', ts2)"
proof -
  obtain r s' where d: "dynamic_peer seed k addr (sv, ts) = (r, s')" by (cases "dynamic_peer seed k addr (sv, ts)")
  have sv': "fst s' = sv'" and l': "l' = l"
    using assms d by (auto simp: accept_peer_connection_def dest: accept_dynamic_listener split: sum.splits prod.splits)
  have in': "k \<in> registered (sv', ts'')" for ts'' using dynamic_peer_registers(1) [OF d] sv' by (simp add: registered_def)
  obtain r2 s2 where d2: "dynamic_peer seed2 k addr2 (sv', ts2) = (r2, s2)" by (cases "dynamic_peer seed2 k addr2 (sv', ts2)")
  have "isl r2" "s2 = (sv', ts2)" using dynamic_peer_registers(2,3) [OF d2] in' by simp_all
  then have "accept_peer_connection seed2 sched2 k addr2 (l', sv', ts2) = (True, l', sv', ts2)"
    using assms(1,2) d2 by (auto simp: accept_peer_connection_def l' isl_def)
  then show ?thesis using l' in' [of ts'] by (auto simp: registered_def peer_keys_def map_of_eq_None_iff dom_def)
qed

section \<open>Concrete tasks\<close>

text \<open>A task that is started and whose connect succeeds, but whose OPEN cannot be written.\<close>

definition demo_running :: peer_task where
  "demo_running = task_step (demo_penv SendOk) (RunRetryTimer False) (task_step (demo_penv SendOk) (RunRetryTimer False)
     (snd (handle_start (task_new demo_props (PeerConfig_default 0) demo_policy))))"

definition demo_failing :: peer_task where
  "demo_failing = task_step (demo_penv WriteFails) (RunConnect True) demo_running"

lemma demo_running_started:
  "pt_queue demo_running = []" "pt_peer demo_running = demo_started" "pt_running demo_running" "pt_receiver demo_running"
  "task_reach demo_props (PeerConfig_default 0) demo_policy demo_running"
proof -
  have 1: "task_step (demo_penv SendOk) (RunRetryTimer False) (snd (handle_start (task_new demo_props (PeerConfig_default 0) demo_policy))) =
      (task_new demo_props (PeerConfig_default 0) demo_policy) \<lparr> pt_peer := add_admin_event ManualStart demo_peer \<rparr>"
    by (simp add: task_step_def handle_start_def handle_send_def task_new_def demo_peer_def)
  show "pt_queue demo_running = []" "pt_peer demo_running = demo_started" "pt_running demo_running" "pt_receiver demo_running"
    by (simp_all add: demo_running_def 1, simp_all add: task_step_def task_new_def demo_started_eq(1) handle_bgp_event_def report_def)
  have r: "task_reach demo_props (PeerConfig_default 0) demo_policy
      (snd (handle_start (task_new demo_props (PeerConfig_default 0) demo_policy)))"
    unfolding handle_start_def by (intro task_reach_send task_reach_new)
  show "task_reach demo_props (PeerConfig_default 0) demo_policy demo_running"
    unfolding demo_running_def
    by (intro task_reach_step r)
qed

theorem peer_task_reports_witness:
  "\<exists>t err. task_reach demo_props (PeerConfig_default 0) demo_policy t \<and> \<not> pt_running t \<and> pt_receiver t \<and>
     pt_events t \<noteq> [] \<and> last (pt_events t) = Inl err"
proof -
  note st = demo_running_started
  have reach: "task_reach demo_props (PeerConfig_default 0) demo_policy demo_failing"
    unfolding demo_failing_def by (rule task_reach_step [OF st(5)])
  have "\<exists>err p. run (demo_penv WriteFails) (RunConnect True) demo_started = (Some (Inl err), p)"
    by (simp add: demo_started_def run_def run_select_def may_connect_def poll_connect_def
      handle_active_connection_def create_connection_def ConnectionConfig_from_def add_connection_def handle_event_def Connection_new_def
      send_try_def send_def start_send_def start_hold_timer_def to_state_def demo_props_def demo_peer_eval)
  then have "\<not> pt_running demo_failing" "pt_receiver demo_failing"
    unfolding demo_failing_def by (auto simp: task_step_def st handle_bgp_event_def report_def)
  with peer_task_reports [OF reach] reach show ?thesis by blast
qed

text \<open>A dynamic peer whose connection fails before it sends an OPEN.\<close>

definition demo_listener :: BgpListener where
  "demo_listener = BgpListener_new [] True"

definition demo_schedule :: schedule where
  "demo_schedule =
     (let e = demo_penv SendOk; go = (0, e, RunRetryTimer False)
      in [go, go, go, go, (0, e, RunConnections False [PollMain e (Some FrameEnd)])])"

lemmas demo_task_eval = on_task_def handle_start_def handle_send_def handle_accept_connection_def unread_def ended_def read_one_def
  step_task_def task_step_def task_new_def handle_bgp_event_def report_def drop_receiver_def

lemma demo_dynamic_ends:
  "\<exists>ts. accept_dynamic 0 (IpV6 1) (IpV6 1, 179) demo_schedule demo_listener
      [task_new props ((PeerConfig_default 0) \<lparr> pc_open_delay_timer_duration := 65535, pc_passive_tcp_establishment := True \<rparr>) po] =
    (True, demo_listener, ts)"
  by (simp add: accept_dynamic_def demo_schedule_def demo_task_eval dynamic_loop.simps run_def run_select_def demo_peer_eval
      accept_connection_def accept_rejected_def create_connection_def ConnectionConfig_from_def add_connection_def handle_event_def Connection_new_def
      may_connect_def poll_connect_def next_main_event_def collision_of_def check_connection_collision_def poll_next_def interval_due_def
      interval_start_def from_secs_def handle_connect_event_def handle_connection_event_def transition_arm_def from_connected_def
      to_state_def demo_props_def)

theorem failed_dynamic_peer_locked_out_witness:
  "\<exists>l sv ts. accept_peer_connection 0 demo_schedule (IpV6 1) (IpV6 1, 179) (demo_listener, PeersSupervisor_new 1 2, []) = (True, l, sv, ts) \<and>
     accept_peer_connection 0 [] (IpV6 1) (IpV6 1, 200) (l, sv, ts) = (True, l, sv, ts)"
proof -
  obtain l sv ts where a: "accept_peer_connection 0 demo_schedule (IpV6 1) (IpV6 1, 179) (demo_listener, PeersSupervisor_new 1 2, []) = (True, l, sv, ts)"
    and l: "hm_get (ls_peers l) (IpV6 1) = None"
    using demo_dynamic_ends [of "\<lparr> pp_my_asn = 1, pp_peer_asn = 1, pp_my_bgp_id = 2, pp_peer_addr = (IpV6 1, 179), pp_allow_dynamic_as = True \<rparr>"
      "EchoCapabilitiesPolicy_new 1 True 2 (pc_hold_timer_duration_large_value (PeerConfig_default 0)) [] []"]
    by (auto simp: accept_peer_connection_def demo_listener_def BgpListener_new_def dynamic_peer_def create_peer_def PeersSupervisor_new_def Let_def)
  have "ls_allow_dynamic_peers demo_listener" "hm_get (ls_peers demo_listener) (IpV6 1) = None"
    by (simp_all add: demo_listener_def BgpListener_new_def)
  with failed_dynamic_peer_locked_out [OF _ _ a l] a show ?thesis by blast
qed

end
