(* ===== verification/Erez_Bgp.thy ===== *)
theory Erez_Bgp
  imports Bgp_Supervisor_Laws Steering
begin

text \<open>
  The BGP speaker of the daemon (\<open>src/erezd/src/bgp.rs\<close>): how it registers its peers, how it turns
  UPDATE messages into updates for the steering controller, and which reports of a peer it turns.
  The channel to a subscriber delivers what is sent in order, so the updates of a peer are a list.
\<close>

section \<open>Routes of an UPDATE\<close>

definition Route_from_v4 :: "Ipv4UnicastAddress \<Rightarrow> Route" where
  "Route_from_v4 nlri = \<lparr> rt_path_id = v4_path_id nlri, rt_nlri = NetV4 (fst (v4_network nlri)) (snd (v4_network nlri)) \<rparr>"

definition Route_from_v6 :: "Ipv6UnicastAddress \<Rightarrow> Route" where
  "Route_from_v6 nlri = \<lparr> rt_path_id = v6_path_id nlri, rt_nlri = NetV6 (fst (v6_network nlri)) (snd (v6_network nlri)) \<rparr>"

fun find_map :: "('a \<Rightarrow> 'b option) \<Rightarrow> 'a list \<Rightarrow> 'b option" where
  "find_map f [] = None"
| "find_map f (x # xs) = (case f x of Some y \<Rightarrow> Some y | None \<Rightarrow> find_map f xs)"

definition first_next_hop :: "PathAttribute list \<Rightarrow> Nexthop option" where
  "first_next_hop = find_map (\<lambda>attr. case pa_value attr of PA_NextHop nh \<Rightarrow> Some (IpV4 nh) | _ \<Rightarrow> None)"

definition first_mp_reach :: "PathAttribute list \<Rightarrow> MpReach option" where
  "first_mp_reach = find_map (\<lambda>attr. case pa_value attr of PA_MpReach reach \<Rightarrow> Some reach | _ \<Rightarrow> None)"

definition first_mp_unreach :: "PathAttribute list \<Rightarrow> MpUnreach option" where
  "first_mp_unreach = find_map (\<lambda>attr. case pa_value attr of PA_MpUnreach unreach \<Rightarrow> Some unreach | _ \<Rightarrow> None)"

datatype update_error = MissingNexthop

text \<open>\<open>Update::try_from\<close>, in the order of its blocks.\<close>

definition legacy_announcements :: "BgpUpdateMessage \<Rightarrow> update_error + Announcement list" where
  "legacy_announcements msg =
     (if um_nlri msg = [] then Inr []
      else
        (case first_next_hop (um_path_attributes msg) of
           None \<Rightarrow> Inl MissingNexthop
         | Some nexthop \<Rightarrow> Inr [\<lparr> an_routes = map Route_from_v4 (um_nlri msg), an_nexthop = nexthop \<rparr>]))"

definition mp_v4_announcements :: "BgpUpdateMessage \<Rightarrow> Announcement list" where
  "mp_v4_announcements msg =
     (case first_mp_reach (um_path_attributes msg) of
        Some (MpReach_Ipv4Unicast next_hop _ nlri) \<Rightarrow> [\<lparr> an_routes = map Route_from_v4 nlri, an_nexthop = next_hop \<rparr>]
      | _ \<Rightarrow> [])"

definition mp_v4_withdrawals :: "BgpUpdateMessage \<Rightarrow> Route list" where
  "mp_v4_withdrawals msg =
     (case first_mp_unreach (um_path_attributes msg) of Some (MpUnreach_Ipv4Unicast nlri) \<Rightarrow> map Route_from_v4 nlri | _ \<Rightarrow> [])"

definition mp_v6_announcements :: "BgpUpdateMessage \<Rightarrow> Announcement list" where
  "mp_v6_announcements msg =
     (case first_mp_reach (um_path_attributes msg) of
        Some (MpReach_Ipv6Unicast next_hop_global _ nlri) \<Rightarrow>
          [\<lparr> an_routes = map Route_from_v6 nlri, an_nexthop = IpV6 next_hop_global \<rparr>]
      | _ \<Rightarrow> [])"

definition mp_v6_withdrawals :: "BgpUpdateMessage \<Rightarrow> Route list" where
  "mp_v6_withdrawals msg =
     (case first_mp_unreach (um_path_attributes msg) of Some (MpUnreach_Ipv6Unicast nlri) \<Rightarrow> map Route_from_v6 nlri | _ \<Rightarrow> [])"

definition Update_try_from :: "BgpUpdateMessage \<Rightarrow> update_error + Update" where
  "Update_try_from msg =
     (case legacy_announcements msg of
        Inl e \<Rightarrow> Inl e
      | Inr legacy \<Rightarrow>
          Inr \<lparr> up_announcements = legacy @ mp_v4_announcements msg @ mp_v6_announcements msg,
                up_withdrawals = map Route_from_v4 (um_withdrawn_routes msg) @ mp_v4_withdrawals msg @ mp_v6_withdrawals msg \<rparr>)"

section \<open>The reports of a peer\<close>

text \<open>
  \<open>process_bgp_updates\<close> over the reports it receives: the updates it sends to every subscriber, and
  whether it goes on.
\<close>

fun process_bgp_updates :: "PeerStateResult list \<Rightarrow> Update list \<times> bool" where
  "process_bgp_updates [] = ([], True)"
| "process_bgp_updates (Inr (Established, Ev_Connection (UpdateMsg msg treatment)) # events) =
     (if treatment \<noteq> Normal then process_bgp_updates events
      else
        (case Update_try_from msg of
           Inl _ \<Rightarrow> process_bgp_updates events
         | Inr update \<Rightarrow> (case process_bgp_updates events of (updates, go) \<Rightarrow> (update # updates, go))))"
| "process_bgp_updates (Inr _ # events) = process_bgp_updates events"
| "process_bgp_updates (Inl _ # events) = ([], False)"

section \<open>The speaker\<close>

record BgpConfig =
  bc_asn :: u32
  bc_bgp_id :: ipv4addr
  bc_peer_ips :: "ipv6addr list"
  bc_port :: u16

record Speaker =
  sp_config :: BgpConfig
  sp_subscribers :: nat
  sp_supervisor :: PeersSupervisor
  sp_listener :: BgpListener
  sp_tasks :: tasks

definition Speaker_new :: "BgpConfig \<Rightarrow> Speaker" where
  "Speaker_new config =
     \<lparr> sp_config = config, sp_subscribers = 0, sp_supervisor = PeersSupervisor_new (bc_asn config) (bc_bgp_id config),
       sp_listener = BgpListener_new [(IpV6 0, bc_port config)] False, sp_tasks = [] \<rparr>"

definition subscribe :: "Speaker \<Rightarrow> Speaker" where
  "subscribe s = s \<lparr> sp_subscribers := sp_subscribers s + 1 \<rparr>"

datatype speaker_error = FailedToCreatePeer IpAddr | FailedToStartPeer IpAddr

definition erez_peer_config :: "u64 \<Rightarrow> PeerConfig" where
  "erez_peer_config seed = (PeerConfig_default seed) \<lparr> pc_open_delay_timer_duration := 5 \<rparr>"

definition erez_capabilities :: "BgpCapability list" where
  "erez_capabilities =
     [Cap_AddPath
        [\<lparr> ap_address_type = AT_Ipv4Unicast, ap_send = False, ap_receive = True \<rparr>,
         \<lparr> ap_address_type = AT_Ipv6Unicast, ap_send = False, ap_receive = True \<rparr>],
      Cap_MultiProtocolExtensions AT_Ipv4Unicast, Cap_MultiProtocolExtensions AT_Ipv6Unicast]"

definition erez_policy :: "BgpConfig \<Rightarrow> PeerConfig \<Rightarrow> EchoCapabilitiesPolicy" where
  "erez_policy bgp config =
     EchoCapabilitiesPolicy_new (bc_asn bgp) True (bc_bgp_id bgp) (pc_hold_timer_duration_large_value config) erez_capabilities []"

definition erez_properties :: "BgpConfig \<Rightarrow> SocketAddr \<Rightarrow> PeerProperties" where
  "erez_properties bgp addr =
     \<lparr> pp_my_asn = bc_asn bgp, pp_peer_asn = bc_asn bgp, pp_my_bgp_id = bc_bgp_id bgp, pp_peer_addr = addr,
       pp_allow_dynamic_as = True \<rparr>"

definition add_peer :: "SocketAddr \<Rightarrow> u64 \<Rightarrow> Speaker \<Rightarrow> (speaker_error + nat) \<times> Speaker" where
  "add_peer addr seed s =
     (let bgp = sp_config s; config = erez_peer_config seed
      in case create_peer (fst addr) (erez_properties bgp addr) config (erez_policy bgp config) (sp_supervisor s, sp_tasks s) of
           (Inl _, sv, ts) \<Rightarrow> (Inl (FailedToCreatePeer (fst addr)), s \<lparr> sp_supervisor := sv, sp_tasks := ts \<rparr>)
         | (Inr peer_handle, sv, ts) \<Rightarrow>
             (case on_task peer_handle handle_start ts of
                (False, ts) \<Rightarrow> (Inl (FailedToStartPeer (fst addr)), s \<lparr> sp_supervisor := sv, sp_tasks := ts \<rparr>)
              | (True, ts) \<Rightarrow>
                  (Inr peer_handle,
                   s \<lparr> sp_supervisor := sv, sp_tasks := ts, sp_listener := reg_peer (fst addr) peer_handle (sp_listener s) \<rparr>)))"

text \<open>The loop of \<open>Speaker::run\<close> over the configured peers; a seed is what a default configuration draws.\<close>

definition add_peers :: "u64 list \<Rightarrow> Speaker \<Rightarrow> (speaker_error + unit) \<times> Speaker" where
  "add_peers seeds s =
     try_each (\<lambda>(ip, seed). add_peer (IpV6 ip, bc_port (sp_config s)) seed) (zip (bc_peer_ips (sp_config s)) seeds) s"

end
