(* ===== verification/Erez_Bgp_Laws.thy ===== *)
theory Erez_Bgp_Laws
  imports Erez_Bgp Steering_Agreement
begin

text \<open>
  The speaker and the controller together: the routing table follows the UPDATE messages of
  established sessions as a map from routes to nexthops does, a session that goes down leaves its
  routes behind, and the speaker starts every configured peer.
\<close>

section \<open>The table as a map\<close>

type_synonym route_map = "Route \<rightharpoonup> Nexthop"

definition rib_table :: "Rib \<Rightarrow> route_map" where
  "rib_table rib r = Rib_lookup rib (rt_nlri r) (rt_path_id r)"

definition mp_reached :: "BgpUpdateMessage \<Rightarrow> Route set \<times> Nexthop" where
  "mp_reached msg =
     (case first_mp_reach (um_path_attributes msg) of
        Some (MpReach_Ipv4Unicast nh _ nlri) \<Rightarrow> (Route_from_v4 ` set nlri, nh)
      | Some (MpReach_Ipv6Unicast nh _ nlri) \<Rightarrow> (Route_from_v6 ` set nlri, IpV6 nh)
      | _ \<Rightarrow> ({}, IpV6 0))"

definition mp_unreached :: "BgpUpdateMessage \<Rightarrow> Route set" where
  "mp_unreached msg =
     (case first_mp_unreach (um_path_attributes msg) of
        Some (MpUnreach_Ipv4Unicast nlri) \<Rightarrow> Route_from_v4 ` set nlri
      | Some (MpUnreach_Ipv6Unicast nlri) \<Rightarrow> Route_from_v6 ` set nlri
      | _ \<Rightarrow> {})"

text \<open>
  What an UPDATE does to the map: what it withdraws is gone, what it announces goes to the nexthop of
  the MP_REACH attribute or to NEXT_HOP, all else is as before.
\<close>

definition apply_update :: "BgpUpdateMessage \<Rightarrow> route_map \<Rightarrow> route_map" where
  "apply_update msg T r =
     (if r \<in> Route_from_v4 ` set (um_withdrawn_routes msg) \<union> mp_unreached msg then None
      else if r \<in> fst (mp_reached msg) then Some (snd (mp_reached msg))
      else if r \<in> Route_from_v4 ` set (um_nlri msg) then first_next_hop (um_path_attributes msg)
      else T r)"

text \<open>
  The reports that count: UPDATE messages of an established session with normal treatment, unless they
  announce prefixes without a nexthop.
\<close>

definition counts :: "BgpUpdateMessage \<Rightarrow> bool" where
  "counts msg = (um_nlri msg = [] \<or> first_next_hop (um_path_attributes msg) \<noteq> None)"

fun apply_reports :: "PeerStateResult list \<Rightarrow> route_map \<Rightarrow> route_map" where
  "apply_reports [] T = T"
| "apply_reports (Inl _ # rs) T = T"
| "apply_reports (Inr (st, ev) # rs) T =
     apply_reports rs
       (case ev of
          Ev_Connection (UpdateMsg msg Normal) \<Rightarrow> if st = Established \<and> counts msg then apply_update msg T else T
        | _ \<Rightarrow> T)"

section \<open>The controller implements the map\<close>

definition update_pairs :: "Update \<Rightarrow> (Route \<times> Nexthop) list" where
  "update_pairs u = concat (map (\<lambda>an. map (\<lambda>r. (r, an_nexthop an)) (an_routes an)) (up_announcements u))"

lemma fold_announce_fst:
  "fst (fold (announce_route upd del nh) rs st) = fold (\<lambda>(r, nh). Rib_insert r nh) (map (\<lambda>r. (r, nh)) rs) (fst st)"
  by (induction rs arbitrary: st) (simp_all add: announce_route_def case_prod_beta' Let_def)

lemma fold_announcements_fst:
  "fst (fold (\<lambda>an. fold (announce_route upd del (an_nexthop an)) (an_routes an)) ans st) =
   fold (\<lambda>(r, nh). Rib_insert r nh) (concat (map (\<lambda>an. map (\<lambda>r. (r, an_nexthop an)) (an_routes an)) ans)) (fst st)"
  by (induction ans arbitrary: st) (simp_all add: fold_announce_fst)

lemma fold_withdraw_fst: "fst (fold (withdraw_route upd del) rs st) = fold Rib_remove rs (fst st)"
  by (induction rs arbitrary: st) (simp_all add: withdraw_route_def case_prod_beta' Let_def)

lemma handle_update_rib:
  "ct_rib (handle_update upd del u c) = fold Rib_remove (up_withdrawals u) (fold (\<lambda>(r, nh). Rib_insert r nh) (update_pairs u) (ct_rib c))"
  by (simp add: handle_update_def Let_def fold_withdraw_fst fold_announcements_fst update_pairs_def)

lemma route_eq_iff: "(r :: Route) = r' \<longleftrightarrow> rt_nlri r = rt_nlri r' \<and> rt_path_id r = rt_path_id r'"
  by (metis (full_types) Route.equality old.unit.exhaust)

lemma map_of_rev_key:
  fixes r :: Route
  shows "map_of (rev (map (\<lambda>(r, nh). ((rt_nlri r, rt_path_id r), nh)) ps)) (rt_nlri r, rt_path_id r) = map_of (rev ps) r"
  by (induction ps rule: rev_induct) (auto simp: route_eq_iff [of r])

lemma handle_update_table:
  assumes "rib_wf (ct_rib c)"
  shows "rib_wf (ct_rib (handle_update upd del u c))"
    and "rib_table (ct_rib (handle_update upd del u c)) r =
      (if r \<in> set (up_withdrawals u) then None
       else case map_of (rev (update_pairs u)) r of Some nh \<Rightarrow> Some nh | None \<Rightarrow> rib_table (ct_rib c) r)"
proof -
  note ins = rib.fold_ins [OF assms, of "update_pairs u"]
  note rem = rib.fold_rem [OF ins(1), of "up_withdrawals u"]
  show "rib_wf (ct_rib (handle_update upd del u c))" using rem(1) by (simp add: handle_update_rib)
  have "list_ex (\<lambda>q. rt_nlri q = rt_nlri r \<and> rt_path_id q = rt_path_id r) (up_withdrawals u) \<longleftrightarrow> r \<in> set (up_withdrawals u)"
    by (auto simp: list_ex_iff route_eq_iff [symmetric])
  then show "rib_table (ct_rib (handle_update upd del u c)) r =
      (if r \<in> set (up_withdrawals u) then None
       else case map_of (rev (update_pairs u)) r of Some nh \<Rightarrow> Some nh | None \<Rightarrow> rib_table (ct_rib c) r)"
    by (simp add: handle_update_rib rib_table_def rem(2) ins(2) map_of_rev_key split: option.split)
qed

lemma map_of_const: "map_of (map ((\<lambda>r. (r, nh)) \<circ> f) xs) r = (if r \<in> f ` set xs then Some nh else None)"
  by (induction xs) auto

lemma map_of_rev_const: "map_of (rev (map ((\<lambda>r. (r, nh)) \<circ> f) xs)) r = (if r \<in> f ` set xs then Some nh else None)"
  by (simp add: rev_map map_of_const)

lemma update_pairs_lookup:
  assumes "Update_try_from msg = Inr u"
  shows "map_of (rev (update_pairs u)) r =
    (if r \<in> fst (mp_reached msg) then Some (snd (mp_reached msg))
     else if r \<in> Route_from_v4 ` set (um_nlri msg) then first_next_hop (um_path_attributes msg) else None)"
  using assms
  by (auto simp: Update_try_from_def legacy_announcements_def mp_v4_announcements_def mp_v6_announcements_def mp_reached_def
      update_pairs_def map_of_rev_const map_add_def split: sum.splits if_splits option.splits MpReach.splits)

lemma update_withdrawals:
  assumes "Update_try_from msg = Inr u"
  shows "set (up_withdrawals u) = Route_from_v4 ` set (um_withdrawn_routes msg) \<union> mp_unreached msg"
  using assms
  by (auto simp: Update_try_from_def mp_v4_withdrawals_def mp_v6_withdrawals_def mp_unreached_def
      split: sum.splits option.splits MpUnreach.splits)

lemma Update_try_from_iff: "(\<exists>u. Update_try_from msg = Inr u) \<longleftrightarrow> counts msg"
  by (auto simp: Update_try_from_def legacy_announcements_def counts_def split: option.splits)

section \<open>From the reports of a peer to the table\<close>

lemma process_apply:
  assumes "rib_wf (ct_rib c)" "process_bgp_updates rs = (us, go)"
  shows "rib_wf (ct_rib (fold (handle_update upd del) us c)) \<and>
    rib_table (ct_rib (fold (handle_update upd del) us c)) = apply_reports rs (rib_table (ct_rib c))"
  using assms
proof (induction rs arbitrary: c us go rule: process_bgp_updates.induct)
  case (2 msg treatment rs)
  show ?case
  proof (cases "treatment = Normal \<and> counts msg")
    case True
    then obtain u where u: "Update_try_from msg = Inr u" using Update_try_from_iff by blast
    then obtain us' where us: "us = u # us'" "process_bgp_updates rs = (us', go)"
      using 2 True by (auto split: prod.splits)
    have t: "rib_table (ct_rib (handle_update upd del u c)) = apply_update msg (rib_table (ct_rib c))"
      using True by (intro ext) (auto simp: handle_update_table(2) [OF 2(4)] update_withdrawals [OF u] update_pairs_lookup [OF u]
          apply_update_def counts_def split: option.split)
    show ?thesis
      using 2(3) [OF _ u handle_update_table(1) [OF 2(4)] us(2)] True us(1) t by simp
  next
    case False
    then have "process_bgp_updates rs = (us, go)"
      using 2(5) Update_try_from_iff [of msg] by (cases "Update_try_from msg") (auto split: if_splits)
    then show ?thesis using 2 False Update_try_from_iff [of msg]
      by (cases "treatment = Normal"; cases "Update_try_from msg") (auto split: UpdateTreatment.split)
  qed
qed (auto split: BgpEvent.split ConnectionEvent.split UpdateTreatment.split)

fun updates_of :: "ctl_event list \<Rightarrow> Update list" where
  "updates_of [] = []"
| "updates_of (BgpUpdate (Some u) # evs) = u # updates_of evs"
| "updates_of (_ # evs) = updates_of evs"

definition goes_on :: "ctl_event \<Rightarrow> bool" where
  "goes_on ev = (ev \<noteq> ShutdownCancelled \<and> ev \<noteq> BgpUpdate None)"

lemma steer_fib_rib: "steer_fib upd del fl itr itw now poisoned c = Some c' \<Longrightarrow> ct_rib c' = ct_rib c"
  by (auto simp: steer_fib_def split: prod.splits sum.splits)

lemma fold_update_rib: "ct_rib c = ct_rib d \<Longrightarrow> ct_rib (fold (handle_update upd del) us c) = ct_rib (fold (handle_update upd del) us d)"
  by (induction us arbitrary: c d) (simp_all add: handle_update_rib)

lemma controller_run_rib:
  assumes "controller_run upd del fl itr itw evs c = Some c'" "list_all goes_on evs"
  shows "ct_rib c' = ct_rib (fold (handle_update upd del) (updates_of evs) c)"
  using assms
proof (induction evs arbitrary: c)
  case (Cons ev evs)
  show ?case
  proof (cases ev)
    case (SteeringTick now poisoned)
    then obtain c1 where "steer_fib upd del fl itr itw now poisoned c = Some c1" "controller_run upd del fl itr itw evs c1 = Some c'"
      using Cons.prems(1) by (auto simp: bind_eq_Some_conv)
    then show ?thesis using Cons SteeringTick fold_update_rib [OF steer_fib_rib] by auto
  next
    case (BgpUpdate u)
    then show ?thesis using Cons by (cases u) (auto simp: goes_on_def)
  next
    case (RttObserved now poisoned e)
    then show ?thesis using Cons fold_update_rib [of "c\<lparr> ct_rtt := _ \<rparr>" c] by auto
  qed (use Cons in \<open>simp add: goes_on_def\<close>)
qed simp

text \<open>
  C11. The routing table follows the BGP session: whatever ticks and RTT samples come between, the table
  of the controller is what the UPDATE messages of the established session with normal treatment make
  of it. What a message withdraws is gone, what it announces leads to the nexthop of its MP_REACH
  attribute or its NEXT_HOP, and everything else is untouched; messages of other states, with other
  treatments or without a nexthop change nothing, and after an error nothing follows.
\<close>

theorem rib_follows_updates:
  assumes "rib_wf (ct_rib c)" "process_bgp_updates reports = (updates_of evs, go)" "list_all goes_on evs"
    "controller_run upd del fl itr itw evs c = Some c'"
  shows "rib_wf (ct_rib c') \<and> rib_table (ct_rib c') = apply_reports reports (rib_table (ct_rib c))"
  using process_apply [OF assms(1,2), of upd del] controller_run_rib [OF assms(4,3)] by simp

lemma process_down:
  assumes "list_all (\<lambda>r. \<forall>msg. r \<noteq> Inr (Established, Ev_Connection (UpdateMsg msg Normal))) down"
  shows "fst (process_bgp_updates (reports @ down)) = fst (process_bgp_updates reports)"
proof -
  have d: "fst (process_bgp_updates down) = []"
    using assms by (induction down rule: process_bgp_updates.induct) auto
  then show ?thesis
    by (induction reports rule: process_bgp_updates.induct) (auto split: sum.split prod.split)
qed

text \<open>
  C36. A session that goes down leaves its routes behind: reports that the session was closed, of any
  cause, and the error that ends the peer send no withdrawal to the controller, so the table and the
  forwarding map stay as the last UPDATE left them.
\<close>

theorem session_loss_keeps_routes:
  assumes "list_all (\<lambda>r. \<forall>msg. r \<noteq> Inr (Established, Ev_Connection (UpdateMsg msg Normal))) down"
  shows "fold (handle_update upd del) (fst (process_bgp_updates (reports @ down))) c =
    fold (handle_update upd del) (fst (process_bgp_updates reports)) c"
  by (simp only: process_down [OF assms])

section \<open>The peers of the speaker\<close>

definition speaker_keys :: "Speaker \<Rightarrow> ipv6addr set" where
  "speaker_keys s = {ip. IpV6 ip \<in> registered (sp_supervisor s, sp_tasks s)}"

definition start_task :: "BgpConfig \<Rightarrow> SocketAddr \<Rightarrow> u64 \<Rightarrow> peer_task" where
  "start_task bgp addr seed =
     (task_new (erez_properties bgp addr) (erez_peer_config seed) (erez_policy bgp (erez_peer_config seed)))
       \<lparr> pt_queue := [PeerEvent_Admin ManualStart] \<rparr>"

lemma dom_insert: "dom (hm_get (hm_insert k v m)) = insert k (dom (hm_get m))"
  by (auto simp: dom_def update_conv split: if_splits)

lemma add_peer_known:
  assumes "fst addr \<in> registered (sp_supervisor s, sp_tasks s)"
  shows "add_peer addr seed s = (Inl (FailedToCreatePeer (fst addr)), s)"
  using create_peer_known [OF assms] by (simp add: add_peer_def Let_def)

lemma add_peer_fresh:
  assumes "fst addr \<notin> registered (sp_supervisor s, sp_tasks s)"
  shows "\<exists>sv. add_peer addr seed s =
    (Inr (length (sp_tasks s)),
     s \<lparr> sp_supervisor := sv, sp_tasks := sp_tasks s @ [start_task (sp_config s) addr seed],
         sp_listener := reg_peer (fst addr) (length (sp_tasks s)) (sp_listener s) \<rparr>) \<and>
    dom (hm_get (su_peers sv)) = insert (fst addr) (dom (hm_get (su_peers (sp_supervisor s))))"
  using create_peer_fresh [OF assms]
  by (intro exI [of _ "sp_supervisor (snd (add_peer addr seed s))"]) (simp add: add_peer_def Let_def on_task_def handle_start_def handle_send_def start_task_def task_new_def dom_insert)

interpretation speaker: registry "\<lambda>ip. add_peer (IpV6 ip, port)" speaker_keys for port
proof
  fix ip seed s
  show "\<exists>e. add_peer (IpV6 ip, port) seed s = (Inl e, s)" if "ip \<in> speaker_keys s"
    using that add_peer_known [of "(IpV6 ip, port)" s seed] by (simp add: speaker_keys_def)
  show "\<exists>h s'. add_peer (IpV6 ip, port) seed s = (Inr h, s') \<and> speaker_keys s' = insert ip (speaker_keys s)"
    if "ip \<notin> speaker_keys s"
    using that add_peer_fresh [of "(IpV6 ip, port)" s seed] by (auto simp: speaker_keys_def registered_def)
qed

text \<open>Every handle of the listener leads to a task that has been told to start, with the peer of its address.\<close>

definition handles_ok :: "Speaker \<Rightarrow> bool" where
  "handles_ok s =
     (ls_allow_dynamic_peers (sp_listener s) = False \<and>
      dom (hm_get (ls_peers (sp_listener s))) = registered (sp_supervisor s, sp_tasks s) \<and>
      (\<forall>k h. hm_get (ls_peers (sp_listener s)) k = Some h \<longrightarrow>
         h < length (sp_tasks s) \<and> (\<exists>seed. sp_tasks s ! h = start_task (sp_config s) (k, bc_port (sp_config s)) seed)))"

lemma add_peer_handles:
  assumes "handles_ok s" "add_peer (k, bc_port (sp_config s)) seed s = (r, s')"
  shows "handles_ok s' \<and> sp_config s' = sp_config s"
proof (cases "k \<in> registered (sp_supervisor s, sp_tasks s)")
  case True
  then show ?thesis using assms add_peer_known [of "(k, bc_port (sp_config s))" s seed] by auto
next
  case False
  let ?a = "(k, bc_port (sp_config s))"
  obtain sv where s': "s' = s \<lparr> sp_supervisor := sv, sp_tasks := sp_tasks s @ [start_task (sp_config s) ?a seed],
         sp_listener := reg_peer k (length (sp_tasks s)) (sp_listener s) \<rparr>"
      and sv: "dom (hm_get (su_peers sv)) = insert k (dom (hm_get (su_peers (sp_supervisor s))))"
    using add_peer_fresh [of ?a s seed] False assms(2) by auto
  have "dom (hm_get (ls_peers (reg_peer k (length (sp_tasks s)) (sp_listener s)))) = dom (hm_get (su_peers sv))"
    using assms(1) by (simp add: sv handles_ok_def reg_peer_def dom_insert registered_def)
  then show ?thesis using assms(1)
    by (auto simp: s' handles_ok_def reg_peer_def hm_get_insert registered_def nth_append less_SucI)
qed

lemma try_each_handles:
  assumes "handles_ok s" "try_each (\<lambda>(ip, seed). add_peer (IpV6 ip, bc_port cfg) seed) xs s = (r, s')" "sp_config s = cfg"
  shows "handles_ok s' \<and> sp_config s' = cfg"
  using assms
proof (induction xs arbitrary: s)
  case (Cons x xs)
  obtain ip seed where x: "x = (ip, seed)" by (cases x)
  obtain r1 s1 where a: "add_peer (IpV6 ip, bc_port cfg) seed s = (r1, s1)" by (cases "add_peer (IpV6 ip, bc_port cfg) seed s")
  have h: "handles_ok s1" "sp_config s1 = cfg" using add_peer_handles [of s "IpV6 ip" seed r1 s1] Cons.prems a by auto
  show ?case using Cons.IH [OF h(1) _ h(2)] Cons.prems h a by (auto simp: x split: sum.splits)
qed auto

lemma Speaker_new_handles: "handles_ok (Speaker_new cfg)"
  by (simp add: handles_ok_def Speaker_new_def BgpListener_new_def PeersSupervisor_new_def registered_def)

text \<open>
  C12. The speaker starts every configured peer, unless an address is configured twice, which is an
  error: for each address there is then a running task with the peer of that address, a start waiting
  in its queue, and the listener hands it the connections from that address. A connection from any
  other address changes nothing.
\<close>

theorem speaker_starts_all_peers:
  assumes "length seeds = length (bc_peer_ips cfg)" "add_peers seeds (Speaker_new cfg) = (r, s)"
  shows "(isl r \<longleftrightarrow> \<not> distinct (bc_peer_ips cfg)) \<and>
    (\<not> isl r \<longrightarrow>
      (\<forall>ip \<in> set (bc_peer_ips cfg). \<exists>h seed. hm_get (ls_peers (sp_listener s)) (IpV6 ip) = Some h \<and> h < length (sp_tasks s) \<and>
         sp_tasks s ! h = start_task cfg (IpV6 ip, bc_port cfg) seed) \<and>
      (\<forall>ip. ip \<notin> set (bc_peer_ips cfg) \<longrightarrow>
         accept_peer_connection sd sched (IpV6 ip) addr (sp_listener s, sp_supervisor s, sp_tasks s) =
           (True, sp_listener s, sp_supervisor s, sp_tasks s)))"
proof -
  let ?xs = "zip (bc_peer_ips cfg) seeds"
  have c: "sp_config (Speaker_new cfg) = cfg" by (simp add: Speaker_new_def)
  have r: "try_each (\<lambda>(ip, seed). add_peer (IpV6 ip, bc_port cfg) seed) ?xs (Speaker_new cfg) = (r, s)"
    using assms(2) by (simp add: add_peers_def c)
  have ks: "speaker_keys (Speaker_new cfg) = {}"
    by (simp add: speaker_keys_def Speaker_new_def PeersSupervisor_new_def registered_def)
  have fst_xs: "map fst ?xs = bc_peer_ips cfg" "fst ` set ?xs = set (bc_peer_ips cfg)"
    using assms(1) by (simp_all flip: set_map)
  have reg: "isl r \<longleftrightarrow> \<not> distinct (bc_peer_ips cfg)" "\<not> isl r \<longrightarrow> speaker_keys s = set (bc_peer_ips cfg)"
    using speaker.try_each_new [OF r] by (simp_all add: ks fst_xs) blast
  have h: "handles_ok s" "sp_config s = cfg" using try_each_handles [OF Speaker_new_handles r c] by simp_all
  have known: "hm_get (ls_peers (sp_listener s)) (IpV6 ip) \<noteq> None \<longleftrightarrow> ip \<in> speaker_keys s" for ip
    using h(1) by (auto simp: handles_ok_def speaker_keys_def dom_def)
  have "\<exists>h seed. hm_get (ls_peers (sp_listener s)) (IpV6 ip) = Some h \<and> h < length (sp_tasks s) \<and>
      sp_tasks s ! h = start_task cfg (IpV6 ip, bc_port cfg) seed" if "ip \<in> speaker_keys s" for ip
    using known [of ip] that h by (auto simp: handles_ok_def)
  moreover have "accept_peer_connection sd sched (IpV6 ip) addr (sp_listener s, sp_supervisor s, sp_tasks s) =
      (True, sp_listener s, sp_supervisor s, sp_tasks s)" if "ip \<notin> speaker_keys s" for ip
    using known [of ip] that h(1) by (simp add: accept_peer_connection_def handles_ok_def)
  ultimately show ?thesis using reg by blast
qed

section \<open>Concrete sessions\<close>

text \<open>A session that announces \<open>10.0.0.0/8\<close> to a nexthop and then fails.\<close>

definition demo_prefix :: Ipv4UnicastAddress where
  "demo_prefix = \<lparr> v4_path_id = None, v4_network = (0x0A000000, 8) \<rparr>"

definition demo_announce :: BgpUpdateMessage where
  "demo_announce =
     \<lparr> um_withdrawn_routes = [],
       um_path_attributes = [\<lparr> pa_optional = False, pa_transitive = True, pa_partial = False, pa_extended_length = False,
                               pa_value = PA_NextHop 0x01010101 \<rparr>],
       um_nlri = [demo_prefix] \<rparr>"

definition demo_up :: "PeerStateResult list" where
  "demo_up = [Inr (OpenSent, Ev_ManualStart), Inr (Established, Ev_Connection (UpdateMsg demo_announce Normal))]"

definition demo_down :: "PeerStateResult list" where
  "demo_down = [Inr (Idle, Ev_Connection HoldTimerExpires), Inl FE_BgpMessageWritingError]"

definition demo_update_value :: Update where
  "demo_update_value =
     \<lparr> up_announcements = [\<lparr> an_routes = [Route_from_v4 demo_prefix], an_nexthop = IpV4 0x01010101 \<rparr>], up_withdrawals = [] \<rparr>"

lemma demo_process: "process_bgp_updates demo_up = ([demo_update_value], True)"
  by (simp add: demo_up_def Update_try_from_def legacy_announcements_def demo_announce_def first_next_hop_def mp_v4_announcements_def
      mp_v6_announcements_def mp_v4_withdrawals_def mp_v6_withdrawals_def first_mp_reach_def first_mp_unreach_def demo_update_value_def)

theorem rib_follows_updates_witness:
  "\<exists>c. controller_run e_fib_update e_fib_delete round_f64 (\<lambda>m. m) (\<lambda>m. m) [BgpUpdate (Some demo_update_value)] (Controller_new []) = Some c \<and>
     rib_table (ct_rib c) (Route_from_v4 demo_prefix) = Some (IpV4 0x01010101)"
proof -
  let ?evs = "[BgpUpdate (Some demo_update_value)]"
  obtain c where c: "controller_run e_fib_update e_fib_delete round_f64 (\<lambda>m. m) (\<lambda>m. m) ?evs (Controller_new []) = Some c" by simp
  have "rib_wf (ct_rib (Controller_new [] :: e_fib_map Controller))" by (simp add: Controller_new_def rib_wf_def)
  then have "rib_table (ct_rib c) = apply_reports demo_up (rib_table (ct_rib (Controller_new [] :: e_fib_map Controller)))"
    using rib_follows_updates [OF _ _ _ c, of demo_up True] by (simp add: demo_process goes_on_def)
  then show ?thesis using c
    by (simp add: demo_up_def apply_update_def counts_def mp_reached_def mp_unreached_def demo_announce_def first_next_hop_def
        first_mp_reach_def first_mp_unreach_def)
qed

theorem session_loss_keeps_routes_witness:
  "\<exists>c. fold (handle_update e_fib_update e_fib_delete) (fst (process_bgp_updates (demo_up @ demo_down))) (Controller_new []) = c \<and>
     rib_table (ct_rib c) (Route_from_v4 demo_prefix) = Some (IpV4 0x01010101)"
proof -
  have d: "list_all (\<lambda>r. \<forall>msg. r \<noteq> Inr (Established, Ev_Connection (UpdateMsg msg Normal))) demo_down"
    by (simp add: demo_down_def)
  have wf: "rib_wf (ct_rib (Controller_new [] :: e_fib_map Controller))" by (simp add: Controller_new_def rib_wf_def)
  have "rib_table (ct_rib (fold (handle_update e_fib_update e_fib_delete) [demo_update_value] (Controller_new [])))
      (Route_from_v4 demo_prefix) = Some (IpV4 0x01010101)"
    by (simp add: handle_update_table(2) [OF wf] demo_update_value_def update_pairs_def)
  then show ?thesis
    by (simp only: session_loss_keeps_routes [OF d] demo_process fst_conv simp_thms ex_simps)
qed

theorem speaker_starts_all_peers_witness:
  "\<exists>s. add_peers [7, 8] (Speaker_new \<lparr> bc_asn = 1, bc_bgp_id = 2, bc_peer_ips = [3, 4], bc_port = 179 \<rparr>) = (Inr (), s) \<and>
     (\<exists>h. hm_get (ls_peers (sp_listener s)) (IpV6 4) = Some h)"
proof -
  let ?cfg = "\<lparr> bc_asn = 1, bc_bgp_id = 2, bc_peer_ips = [3, 4], bc_port = 179 \<rparr>"
  obtain r s where a: "add_peers [7, 8] (Speaker_new ?cfg) = (r, s)" by (cases "add_peers [7, 8] (Speaker_new ?cfg)")
  note t = speaker_starts_all_peers [OF _ a, of 0 "[]" "(IpV6 0, 0)"]
  have "\<not> isl r" using t by simp
  with t have "\<exists>h. hm_get (ls_peers (sp_listener s)) (IpV6 4) = Some h" by auto
  moreover have "r = Inr ()" using \<open>\<not> isl r\<close> by (cases r) auto
  ultimately show ?thesis using a by blast
qed

end
