(* ===== verification/Wire_Base.thy ===== *)
theory Wire_Base
  imports Prelude
begin

text \<open>
  Parsers of byte strings, as the wire format uses them (the combinators of \<open>nom\<close> and
  \<open>src/netgauze/parse-utils/src/lib.rs\<close>): a parser takes the input to an error or to a value and the
  rest. The position that the source attaches to an error is left out, since no operation looks at it.
  The locale \<open>wire_codec\<close> is the contract of a reader and its writer.
\<close>

type_synonym ('e, 'a) parser = "bytes \<Rightarrow> 'e + 'a \<times> bytes"

section \<open>Combinators\<close>

text \<open>The first argument of the primitive parsers is the error for input that is too short.\<close>

definition be_word :: "'e \<Rightarrow> ('e, 'w::len word) parser" where
  "be_word e bs =
     (let n = LENGTH('w) div 8
      in if n \<le> length bs then Inr (from_be_bytes (take n bs), drop n bs) else Inl e)"

abbreviation be_u8 :: "'e \<Rightarrow> ('e, u8) parser" where
  "be_u8 \<equiv> be_word"

abbreviation be_u16 :: "'e \<Rightarrow> ('e, u16) parser" where
  "be_u16 \<equiv> be_word"

abbreviation be_u32 :: "'e \<Rightarrow> ('e, u32) parser" where
  "be_u32 \<equiv> be_word"

abbreviation be_u128 :: "'e \<Rightarrow> ('e, u128) parser" where
  "be_u128 \<equiv> be_word"

definition take_bytes :: "'e \<Rightarrow> nat \<Rightarrow> ('e, bytes) parser" where
  "take_bytes e n bs = (if n \<le> length bs then Inr (take n bs, drop n bs) else Inl e)"

definition parse_bind :: "('e, 'a) parser \<Rightarrow> ('a \<Rightarrow> ('e, 'b) parser) \<Rightarrow> ('e, 'b) parser" where
  "parse_bind p f bs = (case p bs of Inl e \<Rightarrow> Inl e | Inr (a, rest) \<Rightarrow> f a rest)"

definition parse_return :: "'a \<Rightarrow> ('e, 'a) parser" where
  "parse_return a bs = Inr (a, bs)"

definition map_res :: "('e, 'a) parser \<Rightarrow> ('a \<Rightarrow> 'e + 'b) \<Rightarrow> ('e, 'b) parser" where
  "map_res p f bs =
     (case p bs of
        Inl e \<Rightarrow> Inl e
      | Inr (a, rest) \<Rightarrow> (case f a of Inl e \<Rightarrow> Inl e | Inr b \<Rightarrow> Inr (b, rest)))"

text \<open>\<open>length_data\<close>, which \<open>length_count(be_u8, be_u8)\<close> agrees with.\<close>

definition length_data8 :: "'e \<Rightarrow> ('e, bytes) parser" where
  "length_data8 e = parse_bind (be_u8 e) (\<lambda>n. take_bytes e (unat n))"

definition length_data16 :: "'e \<Rightarrow> ('e, bytes) parser" where
  "length_data16 e = parse_bind (be_u16 e) (\<lambda>n. take_bytes e (unat n))"

text \<open>\<open>parse_into_located\<close>\<close>

definition parse_into :: "('e \<Rightarrow> 'f) \<Rightarrow> ('e, 'a) parser \<Rightarrow> ('f, 'a) parser" where
  "parse_into f p bs = (case p bs of Inl e \<Rightarrow> Inl (f e) | Inr r \<Rightarrow> Inr r)"

definition map_err :: "('e \<Rightarrow> 'f) \<Rightarrow> 'e + 'a \<Rightarrow> 'f + 'a" where
  "map_err f r = (case r of Inl e \<Rightarrow> Inl (f e) | Inr a \<Rightarrow> Inr a)"

text \<open>
  \<open>parse_till_empty\<close>. Its loop ends because every parser it is used with takes at least one byte
  (\<open>shrinks\<close>); for such a parser the test of the length is always passed.
\<close>

function parse_till_empty :: "('e, 'a) parser \<Rightarrow> bytes \<Rightarrow> 'e + 'a list" where
  "parse_till_empty p bs =
     (if bs = [] then Inr []
      else
        (case p bs of
           Inl e \<Rightarrow> Inl e
         | Inr (a, rest) \<Rightarrow>
             if length rest < length bs
             then (case parse_till_empty p rest of Inl e \<Rightarrow> Inl e | Inr as \<Rightarrow> Inr (a # as))
             else Inr []))"
  by pat_completeness auto

termination
  by (relation "measure (\<lambda>(p, bs). length bs)") auto

declare parse_till_empty.simps [simp del]

definition shrinks :: "('e, 'a) parser \<Rightarrow> bool" where
  "shrinks p \<longleftrightarrow> (\<forall>bs a rest. p bs = Inr (a, rest) \<longrightarrow> length rest < length bs)"

definition grows_not :: "('e, 'a) parser \<Rightarrow> bool" where
  "grows_not p \<longleftrightarrow> (\<forall>bs a rest. p bs = Inr (a, rest) \<longrightarrow> length rest \<le> length bs)"

section \<open>Reading what was written\<close>

lemma be_word_read:
  assumes "8 dvd LENGTH('w::len)"
  shows "be_word e (to_be_bytes (w :: 'w word) @ rest) = Inr (w, rest)"
  by (simp add: be_word_def from_to_be_bytes [OF assms])

lemma be_read [simp, wire_simps]:
  "be_word e (to_be_bytes (a :: u8) @ rest) = Inr (a, rest)"
  "be_word e (to_be_bytes (b :: u16) @ rest) = Inr (b, rest)"
  "be_word e (to_be_bytes (c :: u32) @ rest) = Inr (c, rest)"
  "be_word e (to_be_bytes (d :: u128) @ rest) = Inr (d, rest)"
  by (simp_all add: be_word_read)

lemma be_u8_Cons [simp, wire_simps]: "be_u8 e (b # rest) = Inr (b, rest)"
  using be_read(1) [of e b rest] by (simp add: to_be_bytes_u8)

lemma be_u8_Nil [simp, wire_simps]: "be_u8 e [] = Inl e"
  by (simp add: be_word_def)

lemma take_bytes_read [simp, wire_simps]: "length xs = n \<Longrightarrow> take_bytes e n (xs @ rest) = Inr (xs, rest)"
  by (simp add: take_bytes_def)

lemma take_bytes_all [simp, wire_simps]: "take_bytes e (length xs) xs = Inr (xs, [])"
  by (simp add: take_bytes_def)

lemma parse_bind_simps [wire_simps]:
  "p bs = Inl e \<Longrightarrow> parse_bind p f bs = Inl e"
  "p bs = Inr (a, rest) \<Longrightarrow> parse_bind p f bs = f a rest"
  by (simp_all add: parse_bind_def)

lemma map_res_read [wire_simps]: "p bs = Inr (a, rest) \<Longrightarrow> f a = Inr b \<Longrightarrow> map_res p f bs = Inr (b, rest)"
  by (simp add: map_res_def)

lemma unat_of_nat_small:
  "n < 256 \<Longrightarrow> unat (of_nat n :: u8) = n" "n < 65536 \<Longrightarrow> unat (of_nat n :: u16) = n"
  by (simp_all add: unat_of_nat)

lemma length_data8_read [simp, wire_simps]:
  "length xs < 256 \<Longrightarrow> length_data8 e (of_nat (length xs) # xs @ rest) = Inr (xs, rest)"
  by (simp add: length_data8_def parse_bind_def unat_of_nat_small)

lemma length_data8_at [wire_simps]:
  "length xs = n \<Longrightarrow> n < 256 \<Longrightarrow> length_data8 e (of_nat n # xs @ rest) = Inr (xs, rest)"
  using length_data8_read [of xs e rest] by simp

lemma length_data16_read [simp, wire_simps]:
  "length xs < 65536 \<Longrightarrow> length_data16 e (to_be_bytes (of_nat (length xs) :: u16) @ xs @ rest) = Inr (xs, rest)"
  by (simp add: length_data16_def parse_bind_def unat_of_nat_small)

section \<open>Parsers that take bytes\<close>

lemma shrinksD: "shrinks p \<Longrightarrow> p bs = Inr (a, rest) \<Longrightarrow> length rest < length bs"
  by (auto simp: shrinks_def)

lemma grows_notD: "grows_not p \<Longrightarrow> p bs = Inr (a, rest) \<Longrightarrow> length rest \<le> length bs"
  by (auto simp: grows_not_def)

lemma shrinks_grows_not: "shrinks p \<Longrightarrow> grows_not p"
  by (auto simp: shrinks_def grows_not_def less_imp_le)

lemma shrinks_be_word: "8 \<le> LENGTH('w::len) \<Longrightarrow> shrinks (be_word e :: ('e, 'w word) parser)"
  by (auto simp: shrinks_def be_word_def Let_def split: if_splits)

lemma shrinks_be [simp, intro]:
  "shrinks (be_u8 e)" "shrinks (be_u16 e)" "shrinks (be_u32 e)" "shrinks (be_u128 e)"
  by (simp_all add: shrinks_be_word)

lemma grows_not_take [simp, intro]: "grows_not (take_bytes e n)"
  by (auto simp: grows_not_def take_bytes_def split: if_splits)

lemma grows_not_return [simp, intro]: "grows_not (parse_return a)"
  by (simp add: grows_not_def parse_return_def)

lemma shrinks_bind [intro]:
  assumes "shrinks p" "\<And>a. grows_not (f a)"
  shows "shrinks (parse_bind p f)"
  unfolding shrinks_def
proof (intro allI impI)
  fix bs b rest
  assume "parse_bind p f bs = Inr (b, rest)"
  then obtain a mid where "p bs = Inr (a, mid)" "f a mid = Inr (b, rest)" by (auto simp: parse_bind_def split: sum.splits)
  then show "length rest < length bs" using shrinksD [OF assms(1)] grows_notD [OF assms(2)] by (meson le_less_trans)
qed

lemma grows_not_bind [intro]:
  assumes "grows_not p" "\<And>a. grows_not (f a)"
  shows "grows_not (parse_bind p f)"
  unfolding grows_not_def
proof (intro allI impI)
  fix bs b rest
  assume "parse_bind p f bs = Inr (b, rest)"
  then obtain a mid where "p bs = Inr (a, mid)" "f a mid = Inr (b, rest)" by (auto simp: parse_bind_def split: sum.splits)
  then show "length rest \<le> length bs" using grows_notD [OF assms(1)] grows_notD [OF assms(2)] by (meson le_trans)
qed

lemma shrinks_map_res [intro]: "shrinks p \<Longrightarrow> shrinks (map_res p f)"
  by (auto simp: shrinks_def map_res_def split: sum.splits)

lemma shrinks_parse_into [intro]: "shrinks p \<Longrightarrow> shrinks (parse_into f p)"
  by (auto simp: shrinks_def parse_into_def split: sum.splits)

lemma grows_not_parse_into [intro]: "grows_not p \<Longrightarrow> grows_not (parse_into f p)"
  by (auto simp: grows_not_def parse_into_def split: sum.splits)

lemma shrinks_length_data [simp, intro]: "shrinks (length_data8 e)" "shrinks (length_data16 e)"
  unfolding length_data8_def length_data16_def by (rule shrinks_bind; simp)+

text \<open>The loop of the source, without the test of the length.\<close>

lemma parse_till_empty_Nil [simp]: "parse_till_empty p [] = Inr []"
  by (simp add: parse_till_empty.simps)

lemma parse_till_empty_step:
  assumes "shrinks p" "bs \<noteq> []"
  shows "parse_till_empty p bs =
    (case p bs of
       Inl e \<Rightarrow> Inl e
     | Inr (a, rest) \<Rightarrow> (case parse_till_empty p rest of Inl e \<Rightarrow> Inl e | Inr as \<Rightarrow> Inr (a # as)))"
proof (cases "p bs")
  case (Inl e)
  then show ?thesis using assms(2) by (subst parse_till_empty.simps) (simp only: if_False sum.case)
next
  case (Inr r)
  obtain a rest where r: "r = (a, rest)" by (cases r)
  have "length rest < length bs" using shrinksD [OF assms(1)] Inr r by simp
  then show ?thesis using assms(2) by (subst parse_till_empty.simps) (simp only: Inr r if_True if_False sum.case prod.case)
qed

section \<open>Round trips\<close>

locale wire_codec =
  fixes wr :: "'a \<Rightarrow> bytes" and rd :: "('e, 'a) parser" and ok :: "'a \<Rightarrow> bool"
  assumes read_written: "ok a \<Longrightarrow> rd (wr a @ rest) = Inr (a, rest)"
begin

lemma read_alone: "ok a \<Longrightarrow> rd (wr a) = Inr (a, [])"
  using read_written [of a "[]"] by simp

lemma written_inj: "ok a \<Longrightarrow> ok b \<Longrightarrow> wr a @ r = wr b @ s \<Longrightarrow> a = b \<and> r = s"
  using read_written [of a r] read_written [of b s] by (metis Pair_inject sum.inject(2))

end

text \<open>What is written is the whole input of the reader.\<close>

locale body_codec =
  fixes wr :: "'a \<Rightarrow> bytes" and rd :: "('e, 'a) parser" and ok :: "'a \<Rightarrow> bool"
  assumes read_body: "ok a \<Longrightarrow> rd (wr a) = Inr (a, [])"

sublocale wire_codec \<subseteq> body_codec
  by unfold_locales (rule read_alone)

locale element_codec = wire_codec +
  assumes rd_shrinks: "shrinks rd"
begin

lemma written_nonempty: "ok a \<Longrightarrow> wr a \<noteq> []"
  using shrinksD [OF rd_shrinks read_alone] by fastforce

lemma read_list: "list_all ok as \<Longrightarrow> parse_till_empty rd (concat (map wr as)) = Inr as"
proof (induction as)
  case (Cons a as)
  then show ?case by (simp add: parse_till_empty_step [OF rd_shrinks] written_nonempty read_written)
qed simp

end

end
