(* ===== verification/Iana_Codes.thy ===== *)
theory Iana_Codes
  imports Bgp_Types
begin

text \<open>
  The code registries of the wire format (\<open>src/netgauze/bgp-pkt/src/iana.rs\<close>): message types,
  notification codes and subcodes, parameter types, capability codes, roles and route refresh
  operations, with their numeric codes. The locale \<open>code_registry\<close> is what the conversions of every
  registry promise.
\<close>

section \<open>Conversions from a code\<close>

definition code_try_from :: "('a \<Rightarrow> 'w) \<Rightarrow> 'a list \<Rightarrow> 'w \<Rightarrow> 'w + 'a" where
  "code_try_from into variants v = (case find (\<lambda>a. into a = v) variants of Some a \<Rightarrow> Inr a | None \<Rightarrow> Inl v)"

locale code_registry =
  fixes into :: "'a \<Rightarrow> 'w" and variants :: "'a list"
  assumes complete: "a \<in> set variants"
    and codes_distinct: "distinct (map into variants)"
begin

lemma try_roundtrip: "code_try_from into variants (into a) = Inr a"
  using find_code [OF complete distinct_map_inj_on [OF codes_distinct]] by (simp add: code_try_from_def)

lemma try_Inr: "code_try_from into variants v = Inr a \<Longrightarrow> into a = v"
  by (auto simp: code_try_from_def dest: find_code_Some split: option.splits)

lemma try_Inl_iff: "code_try_from into variants v = Inl v' \<longleftrightarrow> v' = v \<and> (\<forall>a. into a \<noteq> v)"
  using complete by (auto simp: code_try_from_def find_None_iff split: option.splits dest!: find_code_Some)

lemma into_inj: "into a = into b \<longleftrightarrow> a = b"
  using inj_onD [OF distinct_map_inj_on [OF codes_distinct] _ complete complete] by blast

end

section \<open>BgpMessageType\<close>

datatype (plugins only: code size) BgpMessageType =
    MT_Open | MT_Update | MT_Notification | MT_KeepAlive | MT_RouteRefresh

fun BgpMessageType_into_u8 :: "BgpMessageType \<Rightarrow> u8" where
  "BgpMessageType_into_u8 MT_Open = 1"
| "BgpMessageType_into_u8 MT_Update = 2"
| "BgpMessageType_into_u8 MT_Notification = 3"
| "BgpMessageType_into_u8 MT_KeepAlive = 4"
| "BgpMessageType_into_u8 MT_RouteRefresh = 5"

definition BgpMessageType_all :: "BgpMessageType list" where
  "BgpMessageType_all =
     [MT_Open, MT_Update, MT_Notification, MT_KeepAlive, MT_RouteRefresh]"

definition BgpMessageType_try_from :: "u8 \<Rightarrow> u8 + BgpMessageType" where
  "BgpMessageType_try_from = code_try_from BgpMessageType_into_u8 BgpMessageType_all"

interpretation msg_type: code_registry BgpMessageType_into_u8 BgpMessageType_all
proof
  show "a \<in> set BgpMessageType_all" for a by (cases a) (simp_all add: BgpMessageType_all_def)
qed (simp add: BgpMessageType_all_def)

lemmas msg_type_codes [simp, wire_simps] = msg_type.try_roundtrip [folded BgpMessageType_try_from_def]

section \<open>BgpErrorNotificationCode\<close>

datatype (plugins only: code size) BgpErrorNotificationCode =
    NC_MessageHeaderError | NC_OpenMessageError | NC_UpdateMessageError | NC_HoldTimerExpired
    | NC_FiniteStateMachineError | NC_Cease | NC_RouteRefreshMessageError

fun BgpErrorNotificationCode_into_u8 :: "BgpErrorNotificationCode \<Rightarrow> u8" where
  "BgpErrorNotificationCode_into_u8 NC_MessageHeaderError = 1"
| "BgpErrorNotificationCode_into_u8 NC_OpenMessageError = 2"
| "BgpErrorNotificationCode_into_u8 NC_UpdateMessageError = 3"
| "BgpErrorNotificationCode_into_u8 NC_HoldTimerExpired = 4"
| "BgpErrorNotificationCode_into_u8 NC_FiniteStateMachineError = 5"
| "BgpErrorNotificationCode_into_u8 NC_Cease = 6"
| "BgpErrorNotificationCode_into_u8 NC_RouteRefreshMessageError = 7"

definition BgpErrorNotificationCode_all :: "BgpErrorNotificationCode list" where
  "BgpErrorNotificationCode_all =
     [NC_MessageHeaderError, NC_OpenMessageError, NC_UpdateMessageError, NC_HoldTimerExpired
     , NC_FiniteStateMachineError, NC_Cease, NC_RouteRefreshMessageError]"

definition BgpErrorNotificationCode_try_from :: "u8 \<Rightarrow> u8 + BgpErrorNotificationCode" where
  "BgpErrorNotificationCode_try_from = code_try_from BgpErrorNotificationCode_into_u8 BgpErrorNotificationCode_all"

interpretation notif_code: code_registry BgpErrorNotificationCode_into_u8 BgpErrorNotificationCode_all
proof
  show "a \<in> set BgpErrorNotificationCode_all" for a by (cases a) (simp_all add: BgpErrorNotificationCode_all_def)
qed (simp add: BgpErrorNotificationCode_all_def)

lemmas notif_code_codes [simp, wire_simps] = notif_code.try_roundtrip [folded BgpErrorNotificationCode_try_from_def]

section \<open>MessageHeaderErrorSubCode\<close>

datatype (plugins only: code size) MessageHeaderErrorSubCode =
    HSC_Unspecific | HSC_ConnectionNotSynchronized | HSC_BadMessageLength | HSC_BadMessageType

fun MessageHeaderErrorSubCode_into_u8 :: "MessageHeaderErrorSubCode \<Rightarrow> u8" where
  "MessageHeaderErrorSubCode_into_u8 HSC_Unspecific = 0"
| "MessageHeaderErrorSubCode_into_u8 HSC_ConnectionNotSynchronized = 1"
| "MessageHeaderErrorSubCode_into_u8 HSC_BadMessageLength = 2"
| "MessageHeaderErrorSubCode_into_u8 HSC_BadMessageType = 3"

definition MessageHeaderErrorSubCode_all :: "MessageHeaderErrorSubCode list" where
  "MessageHeaderErrorSubCode_all =
     [HSC_Unspecific, HSC_ConnectionNotSynchronized, HSC_BadMessageLength, HSC_BadMessageType]"

definition MessageHeaderErrorSubCode_try_from :: "u8 \<Rightarrow> u8 + MessageHeaderErrorSubCode" where
  "MessageHeaderErrorSubCode_try_from = code_try_from MessageHeaderErrorSubCode_into_u8 MessageHeaderErrorSubCode_all"

interpretation header_code: code_registry MessageHeaderErrorSubCode_into_u8 MessageHeaderErrorSubCode_all
proof
  show "a \<in> set MessageHeaderErrorSubCode_all" for a by (cases a) (simp_all add: MessageHeaderErrorSubCode_all_def)
qed (simp add: MessageHeaderErrorSubCode_all_def)

lemmas header_code_codes [simp, wire_simps] = header_code.try_roundtrip [folded MessageHeaderErrorSubCode_try_from_def]

section \<open>OpenMessageErrorSubCode\<close>

datatype (plugins only: code size) OpenMessageErrorSubCode =
    OSC_Unspecific | OSC_UnsupportedVersionNumber | OSC_BadPeerAs | OSC_BadBgpIdentifier
    | OSC_UnsupportedOptionalParameter | OSC_UnacceptableHoldTime | OSC_UnsupportedCapability
    | OSC_RoleMismatch

fun OpenMessageErrorSubCode_into_u8 :: "OpenMessageErrorSubCode \<Rightarrow> u8" where
  "OpenMessageErrorSubCode_into_u8 OSC_Unspecific = 0"
| "OpenMessageErrorSubCode_into_u8 OSC_UnsupportedVersionNumber = 1"
| "OpenMessageErrorSubCode_into_u8 OSC_BadPeerAs = 2"
| "OpenMessageErrorSubCode_into_u8 OSC_BadBgpIdentifier = 3"
| "OpenMessageErrorSubCode_into_u8 OSC_UnsupportedOptionalParameter = 4"
| "OpenMessageErrorSubCode_into_u8 OSC_UnacceptableHoldTime = 6"
| "OpenMessageErrorSubCode_into_u8 OSC_UnsupportedCapability = 7"
| "OpenMessageErrorSubCode_into_u8 OSC_RoleMismatch = 11"

definition OpenMessageErrorSubCode_all :: "OpenMessageErrorSubCode list" where
  "OpenMessageErrorSubCode_all =
     [OSC_Unspecific, OSC_UnsupportedVersionNumber, OSC_BadPeerAs, OSC_BadBgpIdentifier
     , OSC_UnsupportedOptionalParameter, OSC_UnacceptableHoldTime, OSC_UnsupportedCapability
     , OSC_RoleMismatch]"

definition OpenMessageErrorSubCode_try_from :: "u8 \<Rightarrow> u8 + OpenMessageErrorSubCode" where
  "OpenMessageErrorSubCode_try_from = code_try_from OpenMessageErrorSubCode_into_u8 OpenMessageErrorSubCode_all"

interpretation open_code: code_registry OpenMessageErrorSubCode_into_u8 OpenMessageErrorSubCode_all
proof
  show "a \<in> set OpenMessageErrorSubCode_all" for a by (cases a) (simp_all add: OpenMessageErrorSubCode_all_def)
qed (simp add: OpenMessageErrorSubCode_all_def)

lemmas open_code_codes [simp, wire_simps] = open_code.try_roundtrip [folded OpenMessageErrorSubCode_try_from_def]

section \<open>UpdateMessageErrorSubCode\<close>

datatype (plugins only: code size) UpdateMessageErrorSubCode =
    USC_Unspecific | USC_MalformedAttributeList | USC_UnrecognizedWellKnownAttribute
    | USC_MissingWellKnownAttribute | USC_AttributeFlagsError | USC_AttributeLengthError
    | USC_InvalidOriginAttribute | USC_InvalidNextHopAttribute | USC_OptionalAttributeError
    | USC_InvalidNetworkField | USC_MalformedAsPath

fun UpdateMessageErrorSubCode_into_u8 :: "UpdateMessageErrorSubCode \<Rightarrow> u8" where
  "UpdateMessageErrorSubCode_into_u8 USC_Unspecific = 0"
| "UpdateMessageErrorSubCode_into_u8 USC_MalformedAttributeList = 1"
| "UpdateMessageErrorSubCode_into_u8 USC_UnrecognizedWellKnownAttribute = 2"
| "UpdateMessageErrorSubCode_into_u8 USC_MissingWellKnownAttribute = 3"
| "UpdateMessageErrorSubCode_into_u8 USC_AttributeFlagsError = 4"
| "UpdateMessageErrorSubCode_into_u8 USC_AttributeLengthError = 5"
| "UpdateMessageErrorSubCode_into_u8 USC_InvalidOriginAttribute = 6"
| "UpdateMessageErrorSubCode_into_u8 USC_InvalidNextHopAttribute = 8"
| "UpdateMessageErrorSubCode_into_u8 USC_OptionalAttributeError = 9"
| "UpdateMessageErrorSubCode_into_u8 USC_InvalidNetworkField = 10"
| "UpdateMessageErrorSubCode_into_u8 USC_MalformedAsPath = 11"

definition UpdateMessageErrorSubCode_all :: "UpdateMessageErrorSubCode list" where
  "UpdateMessageErrorSubCode_all =
     [USC_Unspecific, USC_MalformedAttributeList, USC_UnrecognizedWellKnownAttribute
     , USC_MissingWellKnownAttribute, USC_AttributeFlagsError, USC_AttributeLengthError
     , USC_InvalidOriginAttribute, USC_InvalidNextHopAttribute, USC_OptionalAttributeError
     , USC_InvalidNetworkField, USC_MalformedAsPath]"

definition UpdateMessageErrorSubCode_try_from :: "u8 \<Rightarrow> u8 + UpdateMessageErrorSubCode" where
  "UpdateMessageErrorSubCode_try_from = code_try_from UpdateMessageErrorSubCode_into_u8 UpdateMessageErrorSubCode_all"

interpretation update_code: code_registry UpdateMessageErrorSubCode_into_u8 UpdateMessageErrorSubCode_all
proof
  show "a \<in> set UpdateMessageErrorSubCode_all" for a by (cases a) (simp_all add: UpdateMessageErrorSubCode_all_def)
qed (simp add: UpdateMessageErrorSubCode_all_def)

lemmas update_code_codes [simp, wire_simps] = update_code.try_roundtrip [folded UpdateMessageErrorSubCode_try_from_def]

section \<open>FiniteStateMachineErrorSubCode\<close>

datatype (plugins only: code size) FiniteStateMachineErrorSubCode =
    FSC_UnspecifiedError | FSC_ReceiveUnexpectedMessageInOpenSentState
    | FSC_ReceiveUnexpectedMessageInOpenConfirmState
    | FSC_ReceiveUnexpectedMessageInEstablishedState

fun FiniteStateMachineErrorSubCode_into_u8 :: "FiniteStateMachineErrorSubCode \<Rightarrow> u8" where
  "FiniteStateMachineErrorSubCode_into_u8 FSC_UnspecifiedError = 0"
| "FiniteStateMachineErrorSubCode_into_u8 FSC_ReceiveUnexpectedMessageInOpenSentState = 1"
| "FiniteStateMachineErrorSubCode_into_u8 FSC_ReceiveUnexpectedMessageInOpenConfirmState = 2"
| "FiniteStateMachineErrorSubCode_into_u8 FSC_ReceiveUnexpectedMessageInEstablishedState = 3"

definition FiniteStateMachineErrorSubCode_all :: "FiniteStateMachineErrorSubCode list" where
  "FiniteStateMachineErrorSubCode_all =
     [FSC_UnspecifiedError, FSC_ReceiveUnexpectedMessageInOpenSentState
     , FSC_ReceiveUnexpectedMessageInOpenConfirmState
     , FSC_ReceiveUnexpectedMessageInEstablishedState]"

definition FiniteStateMachineErrorSubCode_try_from :: "u8 \<Rightarrow> u8 + FiniteStateMachineErrorSubCode" where
  "FiniteStateMachineErrorSubCode_try_from = code_try_from FiniteStateMachineErrorSubCode_into_u8 FiniteStateMachineErrorSubCode_all"

interpretation fsm_code: code_registry FiniteStateMachineErrorSubCode_into_u8 FiniteStateMachineErrorSubCode_all
proof
  show "a \<in> set FiniteStateMachineErrorSubCode_all" for a by (cases a) (simp_all add: FiniteStateMachineErrorSubCode_all_def)
qed (simp add: FiniteStateMachineErrorSubCode_all_def)

lemmas fsm_code_codes [simp, wire_simps] = fsm_code.try_roundtrip [folded FiniteStateMachineErrorSubCode_try_from_def]

section \<open>CeaseErrorSubCode\<close>

datatype (plugins only: code size) CeaseErrorSubCode =
    CSC_MaximumNumberOfPrefixesReached | CSC_AdministrativeShutdown | CSC_PeerDeConfigured
    | CSC_AdministrativeReset | CSC_ConnectionRejected | CSC_OtherConfigurationChange
    | CSC_ConnectionCollisionResolution | CSC_OutOfResources | CSC_HardReset | CSC_BfdDown

fun CeaseErrorSubCode_into_u8 :: "CeaseErrorSubCode \<Rightarrow> u8" where
  "CeaseErrorSubCode_into_u8 CSC_MaximumNumberOfPrefixesReached = 1"
| "CeaseErrorSubCode_into_u8 CSC_AdministrativeShutdown = 2"
| "CeaseErrorSubCode_into_u8 CSC_PeerDeConfigured = 3"
| "CeaseErrorSubCode_into_u8 CSC_AdministrativeReset = 4"
| "CeaseErrorSubCode_into_u8 CSC_ConnectionRejected = 5"
| "CeaseErrorSubCode_into_u8 CSC_OtherConfigurationChange = 6"
| "CeaseErrorSubCode_into_u8 CSC_ConnectionCollisionResolution = 7"
| "CeaseErrorSubCode_into_u8 CSC_OutOfResources = 8"
| "CeaseErrorSubCode_into_u8 CSC_HardReset = 9"
| "CeaseErrorSubCode_into_u8 CSC_BfdDown = 10"

definition CeaseErrorSubCode_all :: "CeaseErrorSubCode list" where
  "CeaseErrorSubCode_all =
     [CSC_MaximumNumberOfPrefixesReached, CSC_AdministrativeShutdown, CSC_PeerDeConfigured
     , CSC_AdministrativeReset, CSC_ConnectionRejected, CSC_OtherConfigurationChange
     , CSC_ConnectionCollisionResolution, CSC_OutOfResources, CSC_HardReset, CSC_BfdDown]"

definition CeaseErrorSubCode_try_from :: "u8 \<Rightarrow> u8 + CeaseErrorSubCode" where
  "CeaseErrorSubCode_try_from = code_try_from CeaseErrorSubCode_into_u8 CeaseErrorSubCode_all"

interpretation cease_code: code_registry CeaseErrorSubCode_into_u8 CeaseErrorSubCode_all
proof
  show "a \<in> set CeaseErrorSubCode_all" for a by (cases a) (simp_all add: CeaseErrorSubCode_all_def)
qed (simp add: CeaseErrorSubCode_all_def)

lemmas cease_code_codes [simp, wire_simps] = cease_code.try_roundtrip [folded CeaseErrorSubCode_try_from_def]

section \<open>RouteRefreshMessageErrorSubCode\<close>

datatype (plugins only: code size) RouteRefreshMessageErrorSubCode =
    RSC_InvalidMessageLength

fun RouteRefreshMessageErrorSubCode_into_u8 :: "RouteRefreshMessageErrorSubCode \<Rightarrow> u8" where
  "RouteRefreshMessageErrorSubCode_into_u8 RSC_InvalidMessageLength = 1"

definition RouteRefreshMessageErrorSubCode_all :: "RouteRefreshMessageErrorSubCode list" where
  "RouteRefreshMessageErrorSubCode_all =
     [RSC_InvalidMessageLength]"

definition RouteRefreshMessageErrorSubCode_try_from :: "u8 \<Rightarrow> u8 + RouteRefreshMessageErrorSubCode" where
  "RouteRefreshMessageErrorSubCode_try_from = code_try_from RouteRefreshMessageErrorSubCode_into_u8 RouteRefreshMessageErrorSubCode_all"

interpretation refresh_code: code_registry RouteRefreshMessageErrorSubCode_into_u8 RouteRefreshMessageErrorSubCode_all
proof
  show "a \<in> set RouteRefreshMessageErrorSubCode_all" for a by (cases a) (simp_all add: RouteRefreshMessageErrorSubCode_all_def)
qed (simp add: RouteRefreshMessageErrorSubCode_all_def)

lemmas refresh_code_codes [simp, wire_simps] = refresh_code.try_roundtrip [folded RouteRefreshMessageErrorSubCode_try_from_def]

section \<open>BgpOpenMessageParameterType\<close>

datatype (plugins only: code size) BgpOpenMessageParameterType =
    PT_Capability | PT_ExtendedLength

fun BgpOpenMessageParameterType_into_u8 :: "BgpOpenMessageParameterType \<Rightarrow> u8" where
  "BgpOpenMessageParameterType_into_u8 PT_Capability = 2"
| "BgpOpenMessageParameterType_into_u8 PT_ExtendedLength = 255"

definition BgpOpenMessageParameterType_all :: "BgpOpenMessageParameterType list" where
  "BgpOpenMessageParameterType_all =
     [PT_Capability, PT_ExtendedLength]"

definition BgpOpenMessageParameterType_try_from :: "u8 \<Rightarrow> u8 + BgpOpenMessageParameterType" where
  "BgpOpenMessageParameterType_try_from = code_try_from BgpOpenMessageParameterType_into_u8 BgpOpenMessageParameterType_all"

interpretation param_type: code_registry BgpOpenMessageParameterType_into_u8 BgpOpenMessageParameterType_all
proof
  show "a \<in> set BgpOpenMessageParameterType_all" for a by (cases a) (simp_all add: BgpOpenMessageParameterType_all_def)
qed (simp add: BgpOpenMessageParameterType_all_def)

lemmas param_type_codes [simp, wire_simps] = param_type.try_roundtrip [folded BgpOpenMessageParameterType_try_from_def]

section \<open>RouteRefreshSubcode\<close>

fun RouteRefreshSubcode_into_u8 :: "RouteRefreshSubcode \<Rightarrow> u8" where
  "RouteRefreshSubcode_into_u8 NormalRequest = 0"
| "RouteRefreshSubcode_into_u8 BeginningOfRouteRefresh = 1"
| "RouteRefreshSubcode_into_u8 EndOfRouteRefresh = 2"

definition RouteRefreshSubcode_all :: "RouteRefreshSubcode list" where
  "RouteRefreshSubcode_all =
     [NormalRequest, BeginningOfRouteRefresh, EndOfRouteRefresh]"

definition RouteRefreshSubcode_try_from :: "u8 \<Rightarrow> u8 + RouteRefreshSubcode" where
  "RouteRefreshSubcode_try_from = code_try_from RouteRefreshSubcode_into_u8 RouteRefreshSubcode_all"

interpretation refresh_op: code_registry RouteRefreshSubcode_into_u8 RouteRefreshSubcode_all
proof
  show "a \<in> set RouteRefreshSubcode_all" for a by (cases a) (simp_all add: RouteRefreshSubcode_all_def)
qed (simp add: RouteRefreshSubcode_all_def)

lemmas refresh_op_codes [simp, wire_simps] = refresh_op.try_roundtrip [folded RouteRefreshSubcode_try_from_def]

section \<open>BgpRoleValue\<close>

fun BgpRoleValue_into_u8 :: "BgpRoleValue \<Rightarrow> u8" where
  "BgpRoleValue_into_u8 RoleProvider = 0"
| "BgpRoleValue_into_u8 RoleCustomer = 1"
| "BgpRoleValue_into_u8 RoleRS = 2"
| "BgpRoleValue_into_u8 RoleRsClient = 3"
| "BgpRoleValue_into_u8 RolePeer = 4"

definition BgpRoleValue_all :: "BgpRoleValue list" where
  "BgpRoleValue_all =
     [RoleProvider, RoleCustomer, RoleRS, RoleRsClient, RolePeer]"

definition BgpRoleValue_try_from :: "u8 \<Rightarrow> u8 + BgpRoleValue" where
  "BgpRoleValue_try_from = code_try_from BgpRoleValue_into_u8 BgpRoleValue_all"

interpretation role: code_registry BgpRoleValue_into_u8 BgpRoleValue_all
proof
  show "a \<in> set BgpRoleValue_all" for a by (cases a) (simp_all add: BgpRoleValue_all_def)
qed (simp add: BgpRoleValue_all_def)

lemmas role_codes [simp, wire_simps] = role.try_roundtrip [folded BgpRoleValue_try_from_def]

section \<open>BgpCapabilityCode\<close>

definition BgpCapabilityCode_all :: "BgpCapabilityCode list" where
  "BgpCapabilityCode_all =
     [CAP_MultiProtocolExtensions, CAP_RouteRefreshCapability, CAP_OutboundRouteFilteringCapability
     , CAP_ExtendedNextHopEncoding, CAP_BgpExtendedMessage, CAP_BgpSecCapability
     , CAP_MultipleLabelsCapability, CAP_BgpRole, CAP_GracefulRestartCapability, CAP_FourOctetAs
     , CAP_SupportForDynamicCapability, CAP_MultiSessionBgpCapability, CAP_AddPathCapability
     , CAP_EnhancedRouteRefresh, CAP_LongLivedGracefulRestartLLGRCapability
     , CAP_RoutingPolicyDistribution, CAP_FQDN, CAP_CiscoRouteRefresh, CAP_Experimental239
     , CAP_Experimental240, CAP_Experimental241, CAP_Experimental242, CAP_Experimental243
     , CAP_Experimental244, CAP_Experimental245, CAP_Experimental246, CAP_Experimental247
     , CAP_Experimental248, CAP_Experimental249, CAP_Experimental250, CAP_Experimental251
     , CAP_Experimental252, CAP_Experimental253, CAP_Experimental254]"

definition BgpCapabilityCode_try_from :: "u8 \<Rightarrow> u8 + BgpCapabilityCode" where
  "BgpCapabilityCode_try_from = code_try_from BgpCapabilityCode_into_u8 BgpCapabilityCode_all"

interpretation cap_code: code_registry BgpCapabilityCode_into_u8 BgpCapabilityCode_all
proof
  show "a \<in> set BgpCapabilityCode_all" for a by (cases a) (simp_all add: BgpCapabilityCode_all_def)
qed (simp add: BgpCapabilityCode_all_def)

lemmas cap_code_codes [simp, wire_simps] = cap_code.try_roundtrip [folded BgpCapabilityCode_try_from_def]

end
