(* ===== verification/Wire_Capabilities.thy ===== *)
theory Wire_Capabilities
  imports Wire_Base Iana_Codes Bgp_Events
begin

text \<open>
  Reading and writing of capabilities (\<open>capabilities.rs\<close> under \<open>src/netgauze/bgp-pkt/src/wire/deserializer\<close>
  and \<open>serializer\<close>). A writer is the list of bytes it writes; writing to a buffer in memory does not
  fail. \<open>as u8\<close> truncates a length.
\<close>

unbundle bit_operations_syntax

section \<open>Readers\<close>

definition read_afi :: "(AddressTypeParsingError, AddressFamily) parser" where
  "read_afi = map_res (be_u16 At_NomError) (\<lambda>v. map_err At_AddressFamilyError (AddressFamily_try_from v))"

definition read_safi :: "(AddressTypeParsingError, SubsequentAddressFamily) parser" where
  "read_safi = map_res (be_u8 At_NomError) (\<lambda>v. map_err At_SubsequentAddressFamilyError (SubsequentAddressFamily_try_from v))"

definition read_address_type :: "AddressFamily \<Rightarrow> SubsequentAddressFamily \<Rightarrow> (AddressTypeParsingError, AddressType) parser" where
  "read_address_type afi safi bs =
     (case from_afi_safi afi safi of Inl (a, s) \<Rightarrow> Inl (At_AddressTypeError a s) | Inr t \<Rightarrow> Inr (t, bs))"

definition check_capability_length :: "'e \<Rightarrow> (u8 \<Rightarrow> 'e) \<Rightarrow> u8 \<Rightarrow> ('e, u8) parser" where
  "check_capability_length nom err expected = map_res (be_u8 nom) (\<lambda>l. if l \<noteq> expected then Inl (err l) else Inr l)"

definition FourOctetAsCapability_from_wire :: "(FourOctetAsCapabilityParsingError, u32) parser" where
  "FourOctetAsCapability_from_wire =
     parse_bind (check_capability_length As4_NomError As4_InvalidLength 4) (\<lambda>_. be_u32 As4_NomError)"

definition MultiProtocolExtensionsCapability_from_wire :: "(AddressTypeParsingError, AddressType) parser" where
  "MultiProtocolExtensionsCapability_from_wire =
     parse_bind (check_capability_length At_NomError At_InvalidLength 4) (\<lambda>_.
     parse_bind read_afi (\<lambda>afi.
     parse_bind (be_u8 At_NomError) (\<lambda>_.
     parse_bind read_safi (\<lambda>safi. read_address_type afi safi))))"

definition GracefulRestartAddressFamily_from_wire :: "(AddressTypeParsingError, GracefulRestartAddressFamily) parser" where
  "GracefulRestartAddressFamily_from_wire =
     parse_bind read_afi (\<lambda>afi.
     parse_bind read_safi (\<lambda>safi.
     parse_bind (read_address_type afi safi) (\<lambda>address_type.
     parse_bind (be_u8 At_NomError) (\<lambda>flags.
     parse_return \<lparr> gr_forwarding_state = (flags AND 0x80 = 0x80), gr_address_type = address_type \<rparr>))))"

text \<open>The element is read from the first four bytes, of which there must be enough.\<close>

definition read_fixed :: "'e \<Rightarrow> nat \<Rightarrow> ('e, 'a) parser \<Rightarrow> ('e, 'a) parser" where
  "read_fixed e n p = parse_bind (take_bytes e n) (\<lambda>chunk bs. case p chunk of Inl err \<Rightarrow> Inl err | Inr (a, _) \<Rightarrow> Inr (a, bs))"

definition read_list8 :: "'e \<Rightarrow> ('e, 'a) parser \<Rightarrow> ('e, 'a list) parser" where
  "read_list8 e p = parse_bind (length_data8 e) (\<lambda>chunk bs. case parse_till_empty p chunk of Inl err \<Rightarrow> Inl err | Inr as \<Rightarrow> Inr (as, bs))"

definition GracefulRestartCapability_from_wire :: "(AddressTypeParsingError, BgpCapability) parser" where
  "GracefulRestartCapability_from_wire =
     parse_bind (length_data8 At_NomError) (\<lambda>params bs.
       case be_u16 At_NomError params of
         Inl e \<Rightarrow> Inl e
       | Inr (header, params) \<Rightarrow>
           (case parse_till_empty (read_fixed At_NomError 4 GracefulRestartAddressFamily_from_wire) params of
              Inl e \<Rightarrow> Inl e
            | Inr address_families \<Rightarrow>
                Inr (Cap_GracefulRestart (header AND 0x8000 = 0x8000) (header AND 0x4000 = 0x4000) (header AND 0x0fff) address_families,
                     bs)))"

definition AddPathAddressFamily_from_wire :: "(AddressTypeParsingError, AddPathAddressFamily) parser" where
  "AddPathAddressFamily_from_wire =
     parse_bind read_afi (\<lambda>afi.
     parse_bind read_safi (\<lambda>safi.
     parse_bind (read_address_type afi safi) (\<lambda>address_type.
     parse_bind
       (map_res (be_u8 At_NomError) (\<lambda>send_receive.
          if send_receive > 3 then Inl (At_InvalidAddPathSendReceiveValue send_receive)
          else Inr (send_receive AND 1 = 1, send_receive AND 2 = 2)))
       (\<lambda>(receive, send). parse_return \<lparr> ap_address_type = address_type, ap_send = send, ap_receive = receive \<rparr>))))"

definition AddPathCapability_from_wire :: "(AddressTypeParsingError, AddPathAddressFamily list) parser" where
  "AddPathCapability_from_wire = read_list8 At_NomError AddPathAddressFamily_from_wire"

definition ExtendedNextHopEncoding_from_wire :: "(AddressTypeParsingError, AddressType \<times> AddressFamily) parser" where
  "ExtendedNextHopEncoding_from_wire =
     parse_bind read_afi (\<lambda>afi.
     parse_bind
       (map_res (be_u16 At_NomError) (\<lambda>v. map_err At_SubsequentAddressFamilyError (SubsequentAddressFamily_try_from (ucast v))))
       (\<lambda>safi.
     parse_bind (read_address_type afi safi) (\<lambda>address_type.
     parse_bind read_afi (\<lambda>next_hop_afi. parse_return (address_type, next_hop_afi)))))"

definition ExtendedNextHopEncodingCapability_from_wire :: "(AddressTypeParsingError, (AddressType \<times> AddressFamily) list) parser" where
  "ExtendedNextHopEncodingCapability_from_wire =
     read_list8 At_NomError (read_fixed At_NomError 6 ExtendedNextHopEncoding_from_wire)"

definition MultipleLabel_from_wire :: "(AddressTypeParsingError, AddressType \<times> u8) parser" where
  "MultipleLabel_from_wire =
     parse_bind read_afi (\<lambda>afi.
     parse_bind read_safi (\<lambda>safi.
     parse_bind (read_address_type afi safi) (\<lambda>address_type.
     parse_bind (be_u8 At_NomError) (\<lambda>cnt. parse_return (address_type, cnt)))))"

definition BgpRoleCapability_from_wire :: "(BgpRoleCapabilityParsingError, BgpRoleValue) parser" where
  "BgpRoleCapability_from_wire =
     parse_bind (check_capability_length Role_NomError Role_InvalidLength 1) (\<lambda>_.
     map_res (be_u8 Role_NomError) (\<lambda>v. map_err Role_UndefinedBgpRoleValue (BgpRoleValue_try_from v)))"

definition parse_experimental_capability :: "ExperimentalCapabilityCode \<Rightarrow> (BgpCapabilityParsingError, BgpCapability) parser" where
  "parse_experimental_capability code =
     parse_bind (length_data8 CapPE_NomError) (\<lambda>val. parse_return (Cap_Experimental code val))"

definition parse_unrecognized_capability :: "u8 \<Rightarrow> (BgpCapabilityParsingError, BgpCapability) parser" where
  "parse_unrecognized_capability code =
     parse_bind (length_data8 CapPE_NomError) (\<lambda>val. parse_return (Cap_Unrecognized code val))"

text \<open>The rest of the buffer of capabilities is read as labels.\<close>

definition parse_multiple_labels :: "(BgpCapabilityParsingError, BgpCapability) parser" where
  "parse_multiple_labels bs =
     (case parse_till_empty MultipleLabel_from_wire bs of
        Inl e \<Rightarrow> Inl (CapPE_MultipleLabelError e)
      | Inr labels \<Rightarrow> Inr (Cap_MultipleLabels labels, []))"

definition empty_capability :: "(u8 \<Rightarrow> BgpCapabilityParsingError) \<Rightarrow> BgpCapability \<Rightarrow> (BgpCapabilityParsingError, BgpCapability) parser" where
  "empty_capability err cap = parse_bind (check_capability_length CapPE_NomError err 0) (\<lambda>_. parse_return cap)"

fun experimental_of :: "BgpCapabilityCode \<Rightarrow> ExperimentalCapabilityCode option" where
  "experimental_of CAP_Experimental239 = Some Experimental239"
| "experimental_of CAP_Experimental240 = Some Experimental240"
| "experimental_of CAP_Experimental241 = Some Experimental241"
| "experimental_of CAP_Experimental242 = Some Experimental242"
| "experimental_of CAP_Experimental243 = Some Experimental243"
| "experimental_of CAP_Experimental244 = Some Experimental244"
| "experimental_of CAP_Experimental245 = Some Experimental245"
| "experimental_of CAP_Experimental246 = Some Experimental246"
| "experimental_of CAP_Experimental247 = Some Experimental247"
| "experimental_of CAP_Experimental248 = Some Experimental248"
| "experimental_of CAP_Experimental249 = Some Experimental249"
| "experimental_of CAP_Experimental250 = Some Experimental250"
| "experimental_of CAP_Experimental251 = Some Experimental251"
| "experimental_of CAP_Experimental252 = Some Experimental252"
| "experimental_of CAP_Experimental253 = Some Experimental253"
| "experimental_of CAP_Experimental254 = Some Experimental254"
| "experimental_of _ = None"

text \<open>The arms of the match on a known code.\<close>

definition capability_value :: "BgpCapabilityCode \<Rightarrow> (BgpCapabilityParsingError, BgpCapability) parser" where
  "capability_value code =
     (case code of
        CAP_MultiProtocolExtensions \<Rightarrow>
          parse_bind (parse_into CapPE_MultiProtocolExtensionsCapabilityError MultiProtocolExtensionsCapability_from_wire)
            (\<lambda>t. parse_return (Cap_MultiProtocolExtensions t))
      | CAP_RouteRefreshCapability \<Rightarrow> empty_capability CapPE_InvalidRouteRefreshLength Cap_RouteRefresh
      | CAP_ExtendedNextHopEncoding \<Rightarrow>
          parse_bind (parse_into CapPE_ExtendedNextHopEncodingCapabilityError ExtendedNextHopEncodingCapability_from_wire)
            (\<lambda>encodings. parse_return (Cap_ExtendedNextHopEncoding encodings))
      | CAP_CiscoRouteRefresh \<Rightarrow> empty_capability CapPE_InvalidRouteRefreshLength Cap_CiscoRouteRefresh
      | CAP_BgpExtendedMessage \<Rightarrow> empty_capability CapPE_InvalidExtendedMessageLength Cap_ExtendedMessage
      | CAP_MultipleLabelsCapability \<Rightarrow> parse_multiple_labels
      | CAP_BgpRole \<Rightarrow>
          parse_bind (parse_into CapPE_BgpRoleCapabilityError BgpRoleCapability_from_wire) (\<lambda>role. parse_return (Cap_BgpRole role))
      | CAP_GracefulRestartCapability \<Rightarrow> parse_into CapPE_GracefulRestartCapabilityError GracefulRestartCapability_from_wire
      | CAP_FourOctetAs \<Rightarrow>
          parse_bind (parse_into CapPE_FourOctetAsCapabilityError FourOctetAsCapability_from_wire)
            (\<lambda>asn4. parse_return (Cap_FourOctetAs asn4))
      | CAP_AddPathCapability \<Rightarrow>
          parse_bind (parse_into CapPE_AddPathCapabilityError AddPathCapability_from_wire)
            (\<lambda>address_families. parse_return (Cap_AddPath address_families))
      | CAP_EnhancedRouteRefresh \<Rightarrow> empty_capability CapPE_InvalidEnhancedRouteRefreshLength Cap_EnhancedRouteRefresh
      | _ \<Rightarrow>
          (case experimental_of code of
             Some experimental \<Rightarrow> parse_experimental_capability experimental
           | None \<Rightarrow> parse_unrecognized_capability (BgpCapabilityCode_into_u8 code)))"

definition BgpCapability_from_wire :: "(BgpCapabilityParsingError, BgpCapability) parser" where
  "BgpCapability_from_wire =
     parse_bind (be_u8 CapPE_NomError) (\<lambda>v.
       case BgpCapabilityCode_try_from v of
         Inr code \<Rightarrow> capability_value code
       | Inl code \<Rightarrow> parse_unrecognized_capability code)"

section \<open>Writers\<close>

definition AddressType_write :: "AddressType \<Rightarrow> bytes" where
  "AddressType_write t =
     to_be_bytes (AddressFamily_into_u16 (address_family t)) @ [SubsequentAddressFamily_into_u8 (subsequent_address_family t)]"

definition GracefulRestartAddressFamily_write :: "GracefulRestartAddressFamily \<Rightarrow> bytes" where
  "GracefulRestartAddressFamily_write f = AddressType_write (gr_address_type f) @ [if gr_forwarding_state f then 0x80 else 0]"

definition AddPathAddressFamily_write :: "AddPathAddressFamily \<Rightarrow> bytes" where
  "AddPathAddressFamily_write f = AddressType_write (ap_address_type f) @ [1]"

definition ExtendedNextHopEncoding_write :: "AddressType \<times> AddressFamily \<Rightarrow> bytes" where
  "ExtendedNextHopEncoding_write = (\<lambda>(t, next_hop_afi).
     to_be_bytes (AddressFamily_into_u16 (address_family t)) @
     to_be_bytes (ucast (SubsequentAddressFamily_into_u8 (subsequent_address_family t)) :: u16) @
     to_be_bytes (AddressFamily_into_u16 next_hop_afi))"

definition MultipleLabel_write :: "AddressType \<times> u8 \<Rightarrow> bytes" where
  "MultipleLabel_write = (\<lambda>(t, cnt). AddressType_write t @ [cnt])"

text \<open>The lengths that \<open>len()\<close> computes, without the two octets of code and length.\<close>

fun capability_value_len :: "BgpCapability \<Rightarrow> nat" where
  "capability_value_len (Cap_MultiProtocolExtensions _) = 4"
| "capability_value_len Cap_RouteRefresh = 0"
| "capability_value_len Cap_EnhancedRouteRefresh = 0"
| "capability_value_len Cap_CiscoRouteRefresh = 0"
| "capability_value_len (Cap_FourOctetAs _) = 4"
| "capability_value_len (Cap_GracefulRestart _ _ _ address_families) = 4 + 4 * length address_families - 2"
| "capability_value_len (Cap_AddPath address_families) = 4 * length address_families"
| "capability_value_len (Cap_ExtendedNextHopEncoding encodings) = 1 + 6 * length encodings - 1"
| "capability_value_len Cap_ExtendedMessage = 0"
| "capability_value_len (Cap_MultipleLabels labels) = 4 * length labels"
| "capability_value_len (Cap_BgpRole _) = 1"
| "capability_value_len (Cap_Experimental _ val) = length val"
| "capability_value_len (Cap_Unrecognized _ val) = length val"

definition BgpCapability_len :: "BgpCapability \<Rightarrow> nat" where
  "BgpCapability_len cap = 2 + capability_value_len cap"

definition graceful_restart_flags :: "bool \<Rightarrow> bool \<Rightarrow> u16 \<Rightarrow> u16" where
  "graceful_restart_flags restart graceful_notification time =
     (if restart then 0x8000 else 0) OR (if graceful_notification then 0x4000 else 0) OR time"

fun BgpCapability_write :: "BgpCapability \<Rightarrow> bytes" where
  "BgpCapability_write (Cap_MultiProtocolExtensions t) =
     [BgpCapabilityCode_into_u8 CAP_MultiProtocolExtensions, 4] @
     to_be_bytes (AddressFamily_into_u16 (address_family t)) @ [0, SubsequentAddressFamily_into_u8 (subsequent_address_family t)]"
| "BgpCapability_write Cap_RouteRefresh = [BgpCapabilityCode_into_u8 CAP_RouteRefreshCapability, 0]"
| "BgpCapability_write Cap_EnhancedRouteRefresh = [BgpCapabilityCode_into_u8 CAP_EnhancedRouteRefresh, 0]"
| "BgpCapability_write Cap_CiscoRouteRefresh = [BgpCapabilityCode_into_u8 CAP_CiscoRouteRefresh, 0]"
| "BgpCapability_write Cap_ExtendedMessage = [BgpCapabilityCode_into_u8 CAP_BgpExtendedMessage, 0]"
| "BgpCapability_write (Cap_MultipleLabels labels) =
     [BgpCapabilityCode_into_u8 CAP_MultipleLabelsCapability] @ concat (map MultipleLabel_write labels)"
| "BgpCapability_write (Cap_BgpRole role) = [BgpCapabilityCode_into_u8 CAP_BgpRole, 1, BgpRoleValue_into_u8 role]"
| "BgpCapability_write (Cap_GracefulRestart restart graceful_notification time address_families) =
     [BgpCapabilityCode_into_u8 CAP_GracefulRestartCapability,
      of_nat (capability_value_len (Cap_GracefulRestart restart graceful_notification time address_families))] @
     to_be_bytes (graceful_restart_flags restart graceful_notification time) @
     concat (map GracefulRestartAddressFamily_write address_families)"
| "BgpCapability_write (Cap_AddPath address_families) =
     [BgpCapabilityCode_into_u8 CAP_AddPathCapability, of_nat (capability_value_len (Cap_AddPath address_families))] @
     concat (map AddPathAddressFamily_write address_families)"
| "BgpCapability_write (Cap_FourOctetAs asn4) = [BgpCapabilityCode_into_u8 CAP_FourOctetAs, 4] @ to_be_bytes asn4"
| "BgpCapability_write (Cap_ExtendedNextHopEncoding encodings) =
     [BgpCapabilityCode_into_u8 CAP_ExtendedNextHopEncoding, of_nat (1 + 6 * length encodings) - 1] @
     concat (map ExtendedNextHopEncoding_write encodings)"
| "BgpCapability_write (Cap_Experimental code val) =
     [BgpCapabilityCode_into_u8 (ExperimentalCapabilityCode_cap code), of_nat (length val)] @ val"
| "BgpCapability_write (Cap_Unrecognized code val) = [code, of_nat (length val)] @ val"

end
