(* ===== verification/Wire_Capabilities_Laws.thy ===== *)
theory Wire_Capabilities_Laws
  imports Wire_Capabilities
begin

text \<open>
  Reading a capability that was written gives it back, for the capabilities that the writer can
  represent (\<open>cap_ok\<close>), and the writer announces the length that it writes, except for multiple labels.
\<close>

section \<open>Elements\<close>

lemma read_afi_written [simp, wire_simps]: "read_afi (to_be_bytes (AddressFamily_into_u16 a) @ rest) = Inr (a, rest)"
  by (simp add: read_afi_def map_res_def map_err_def)

lemma read_safi_written [simp, wire_simps]: "read_safi (SubsequentAddressFamily_into_u8 s # rest) = Inr (s, rest)"
  by (simp add: read_safi_def map_res_def map_err_def)

lemma read_address_type_written [simp, wire_simps]:
  "read_address_type (address_family t) (subsequent_address_family t) bs = Inr (t, bs)"
  by (simp add: read_address_type_def)

lemma check_capability_length_ok [simp, wire_simps]: "check_capability_length e err n (n # rest) = Inr (n, rest)"
  by (simp add: check_capability_length_def map_res_def)

lemma shrinks_readers [simp, intro]: "shrinks read_afi" "shrinks read_safi" "shrinks (check_capability_length e err n)"
  by (auto simp: read_afi_def read_safi_def check_capability_length_def intro!: shrinks_map_res)

lemma grows_not_readers [simp, intro]:
  "grows_not read_afi" "grows_not read_safi" "grows_not (be_u8 e)" "grows_not (be_u16 e)" "grows_not (be_u32 e)"
  "grows_not (map_res (be_u8 e) f)" "grows_not (map_res (be_u16 e) g)"
  by (auto intro!: shrinks_grows_not shrinks_map_res)

lemma grows_not_address_type [simp, intro]: "grows_not (read_address_type afi safi)"
  by (auto simp: grows_not_def read_address_type_def split: sum.splits)

lemma shrinks_read_fixed: "0 < n \<Longrightarrow> shrinks (read_fixed e n p)"
  by (auto simp: shrinks_def read_fixed_def parse_bind_def take_bytes_def split: sum.splits if_splits)

lemma read_fixed_written:
  assumes "p w = Inr (a, r)" "length w = n"
  shows "read_fixed e n p (w @ rest) = Inr (a, rest)"
  using assms by (simp add: read_fixed_def parse_bind_def)

lemma length_elements [simp]:
  "length (AddressType_write t) = 3" "length (GracefulRestartAddressFamily_write f) = 4"
  "length (AddPathAddressFamily_write g) = 4" "length (MultipleLabel_write m) = 4" "length (ExtendedNextHopEncoding_write x) = 6"
  by (simp_all add: AddressType_write_def GracefulRestartAddressFamily_write_def AddPathAddressFamily_write_def
      MultipleLabel_write_def ExtendedNextHopEncoding_write_def case_prod_beta')

lemma length_concat_const: "(\<And>a. length (f a) = n) \<Longrightarrow> length (concat (map f as)) = n * length as"
  by (induction as) simp_all

interpretation graceful_family: element_codec GracefulRestartAddressFamily_write
  "read_fixed At_NomError 4 GracefulRestartAddressFamily_from_wire" "\<lambda>_. True"
proof
  fix a rest
  have "GracefulRestartAddressFamily_from_wire (GracefulRestartAddressFamily_write a) = Inr (a, [])"
    by (cases a) (simp add: GracefulRestartAddressFamily_from_wire_def GracefulRestartAddressFamily_write_def AddressType_write_def
        parse_bind_def parse_return_def)
  then show "read_fixed At_NomError 4 GracefulRestartAddressFamily_from_wire (GracefulRestartAddressFamily_write a @ rest) = Inr (a, rest)"
    by (rule read_fixed_written) simp
qed (simp add: shrinks_read_fixed)

interpretation next_hop_encoding: element_codec ExtendedNextHopEncoding_write
  "read_fixed At_NomError 6 ExtendedNextHopEncoding_from_wire" "\<lambda>_. True"
proof
  fix a :: "AddressType \<times> AddressFamily" and rest :: bytes
  obtain t afi where a: "a = (t, afi)" by (cases a)
  have u: "ucast (ucast (x :: u8) :: u16) = x" for x by (rule bit_word_eqI) (auto simp: bit_simps)
  have "read_afi (to_be_bytes (AddressFamily_into_u16 afi)) = Inr (afi, [])" using read_afi_written [of afi "[]"] by simp
  then have "ExtendedNextHopEncoding_from_wire (ExtendedNextHopEncoding_write a) = Inr (a, [])"
    by (simp add: a ExtendedNextHopEncoding_from_wire_def ExtendedNextHopEncoding_write_def parse_bind_def parse_return_def
        map_res_def map_err_def u)
  then show "read_fixed At_NomError 6 ExtendedNextHopEncoding_from_wire (ExtendedNextHopEncoding_write a @ rest) = Inr (a, rest)"
    by (rule read_fixed_written) simp
qed (simp add: shrinks_read_fixed)

text \<open>The writer of AddPath entries always asks to receive and never to send.\<close>

definition receive_only :: "AddPathAddressFamily \<Rightarrow> bool" where
  "receive_only f \<longleftrightarrow> \<not> ap_send f \<and> ap_receive f"

interpretation add_path_family: element_codec AddPathAddressFamily_write AddPathAddressFamily_from_wire receive_only
proof
  show "AddPathAddressFamily_from_wire (AddPathAddressFamily_write a @ rest) = Inr (a, rest)" if "receive_only a" for a rest
    using that by (cases a) (simp add: AddPathAddressFamily_from_wire_def AddPathAddressFamily_write_def AddressType_write_def
        parse_bind_def parse_return_def map_res_def receive_only_def)
  show "shrinks AddPathAddressFamily_from_wire"
    unfolding AddPathAddressFamily_from_wire_def by (intro shrinks_bind grows_not_bind) (auto split: prod.split)
qed

interpretation multiple_label: element_codec MultipleLabel_write MultipleLabel_from_wire "\<lambda>_. True"
proof
  show "MultipleLabel_from_wire (MultipleLabel_write a @ rest) = Inr (a, rest)" for a rest
    by (cases a) (simp add: MultipleLabel_from_wire_def MultipleLabel_write_def AddressType_write_def parse_bind_def parse_return_def)
  show "shrinks MultipleLabel_from_wire"
    unfolding MultipleLabel_from_wire_def by (intro shrinks_bind grows_not_bind) auto
qed

section \<open>Capabilities\<close>

text \<open>
  The capabilities that can be read back: lists fit the octet of their length, the restart time fits
  its twelve bits, AddPath entries only receive, unrecognized codes have no reader of their own, and
  there are no multiple labels.
\<close>

definition unrecognized_code :: "u8 \<Rightarrow> bool" where
  "unrecognized_code v =
     (case BgpCapabilityCode_try_from v of
        Inl _ \<Rightarrow> True
      | Inr code \<Rightarrow>
          code \<in> {CAP_OutboundRouteFilteringCapability, CAP_BgpSecCapability, CAP_SupportForDynamicCapability,
            CAP_MultiSessionBgpCapability, CAP_LongLivedGracefulRestartLLGRCapability, CAP_RoutingPolicyDistribution, CAP_FQDN})"

fun cap_ok :: "BgpCapability \<Rightarrow> bool" where
  "cap_ok (Cap_GracefulRestart _ _ time fs) = (time < 0x1000 \<and> 2 + 4 * length fs < 256)"
| "cap_ok (Cap_AddPath fs) = (list_all receive_only fs \<and> 4 * length fs < 256)"
| "cap_ok (Cap_ExtendedNextHopEncoding es) = (6 * length es < 256)"
| "cap_ok (Cap_MultipleLabels _) = False"
| "cap_ok (Cap_Experimental _ val) = (length val < 256)"
| "cap_ok (Cap_Unrecognized code val) = (unrecognized_code code \<and> length val < 256)"
| "cap_ok _ = True"

lemma experimental_of_cap [simp]: "experimental_of (ExperimentalCapabilityCode_cap c) = Some c"
  by (cases c) simp_all

lemma capability_value_experimental:
  "capability_value (ExperimentalCapabilityCode_cap c) = parse_experimental_capability c"
  by (cases c) (simp_all add: capability_value_def)

lemma from_wire_code:
  "BgpCapability_from_wire (BgpCapabilityCode_into_u8 code # rest) = capability_value code rest"
  by (simp add: BgpCapability_from_wire_def parse_bind_def)

lemma twelve_bits:
  assumes "(time :: u16) < 0x1000"
  shows "time AND 0x0fff = time" "time AND 0x8000 = 0" "time AND 0x4000 = 0"
proof -
  show t: "time AND 0x0fff = time" using less_mask_eq [of time 12] assms by (simp add: mask_numeral)
  show "time AND 0x8000 = 0" by (subst t [symmetric]) (simp add: and.assoc)
  show "time AND 0x4000 = 0" by (subst t [symmetric]) (simp add: and.assoc)
qed

lemma graceful_flags_bits:
  assumes "time < 0x1000"
  shows "graceful_restart_flags r g time AND 0x8000 = 0x8000 \<longleftrightarrow> r"
    "graceful_restart_flags r g time AND 0x4000 = 0x4000 \<longleftrightarrow> g"
    "graceful_restart_flags r g time AND 0x0fff = time"
  by (simp_all add: graceful_restart_flags_def word_ao_dist twelve_bits [OF assms])

lemma read_list8_written:
  assumes "parse_till_empty p w = Inr as" "length w = n" "n < 256"
  shows "read_list8 e p (of_nat n # w @ rest) = Inr (as, rest)"
  using assms by (simp add: read_list8_def parse_bind_def length_data8_at)

lemma graceful_restart_read_written:
  assumes "time < 0x1000" "2 + 4 * length fs < 256"
  shows "GracefulRestartCapability_from_wire
    (of_nat (2 + 4 * length fs) # to_be_bytes (graceful_restart_flags r g time) @ concat (map GracefulRestartAddressFamily_write fs) @ rest) =
    Inr (Cap_GracefulRestart r g time fs, rest)"
proof -
  let ?w = "to_be_bytes (graceful_restart_flags r g time) @ concat (map GracefulRestartAddressFamily_write fs)"
  have "length_data8 At_NomError (of_nat (2 + 4 * length fs) # ?w @ rest) = Inr (?w, rest)"
    using assms(2) by (intro length_data8_at) (simp_all add: length_concat_const)
  then show ?thesis
    by (simp add: GracefulRestartCapability_from_wire_def parse_bind_def graceful_flags_bits [OF assms(1)]
        graceful_family.read_list list.pred_True)
qed

lemma unrecognized_read_written:
  assumes "unrecognized_code v" "length val < 256"
  shows "BgpCapability_from_wire (v # of_nat (length val) # val @ rest) = Inr (Cap_Unrecognized v val, rest)"
proof -
  have "BgpCapability_from_wire (v # bs) = parse_unrecognized_capability v bs" for bs
  proof (cases "BgpCapabilityCode_try_from v")
    case (Inr code)
    then have "BgpCapabilityCode_into_u8 code = v" by (simp add: BgpCapabilityCode_try_from_def cap_code.try_Inr)
    then show ?thesis using assms(1) Inr
      by (auto simp: BgpCapability_from_wire_def parse_bind_def unrecognized_code_def capability_value_def)
  next
    case (Inl w)
    then have "w = v" by (simp add: BgpCapabilityCode_try_from_def cap_code.try_Inl_iff)
    then show ?thesis using Inl by (simp add: BgpCapability_from_wire_def parse_bind_def)
  qed
  then show ?thesis using assms(2) by (simp add: parse_unrecognized_capability_def parse_bind_def parse_return_def)
qed

lemmas capability_readers = capability_value_def parse_bind_def parse_return_def parse_into_def empty_capability_def
  MultiProtocolExtensionsCapability_from_wire_def FourOctetAsCapability_from_wire_def BgpRoleCapability_from_wire_def
  AddPathCapability_from_wire_def ExtendedNextHopEncodingCapability_from_wire_def parse_experimental_capability_def

lemma capability_read_written:
  assumes "cap_ok cap"
  shows "BgpCapability_from_wire (BgpCapability_write cap @ rest) = Inr (cap, rest)"
  supply BgpCapabilityCode_into_u8.simps [simp del]
proof (cases cap)
  case (Cap_GracefulRestart r g time fs)
  then show ?thesis
    using assms graceful_restart_read_written [of time fs r g rest]
    by (simp add: from_wire_code capability_value_def parse_into_def)
next
  case (Cap_AddPath fs)
  then show ?thesis
    using assms read_list8_written [OF add_path_family.read_list [of fs], of "4 * length fs" At_NomError rest]
    by (simp add: from_wire_code capability_readers length_concat_const)
next
  case (Cap_ExtendedNextHopEncoding es)
  then show ?thesis
    using assms read_list8_written [OF next_hop_encoding.read_list [of es], of "6 * length es" At_NomError rest]
    by (simp add: from_wire_code capability_readers length_concat_const list.pred_True)
next
  case (Cap_Experimental code val)
  then show ?thesis using assms
    by (simp add: from_wire_code capability_value_experimental parse_experimental_capability_def parse_bind_def parse_return_def)
next
  case (Cap_Unrecognized v val)
  then show ?thesis using assms unrecognized_read_written by simp
qed (use assms in \<open>simp_all add: from_wire_code capability_readers map_res_def map_err_def\<close>)

lemma capability_length:
  "length (BgpCapability_write cap) + (case cap of Cap_MultipleLabels _ \<Rightarrow> 1 | _ \<Rightarrow> 0) = BgpCapability_len cap"
  by (cases cap) (simp_all add: BgpCapability_len_def length_concat_const)

section \<open>Readers take bytes\<close>

lemma grows_not_list_readers [simp, intro]:
  "grows_not (read_list8 e p)" "grows_not GracefulRestartCapability_from_wire" "grows_not parse_multiple_labels"
  "grows_not (parse_unrecognized_capability v)" "grows_not (parse_experimental_capability x)" "grows_not (empty_capability err cap)"
proof -
  have len: "length_data8 e bs = Inr (a, rest) \<Longrightarrow> length rest \<le> length bs" for e :: 'e and bs a rest
    using shrinksD [OF shrinks_length_data(1)] by (meson less_imp_le)
  show "grows_not (read_list8 e p)" "grows_not GracefulRestartCapability_from_wire"
    "grows_not (parse_unrecognized_capability v)" "grows_not (parse_experimental_capability x)"
    by (auto simp: grows_not_def read_list8_def GracefulRestartCapability_from_wire_def parse_unrecognized_capability_def
        parse_experimental_capability_def parse_bind_def parse_return_def dest: len split: sum.splits)
  show "grows_not parse_multiple_labels" by (auto simp: grows_not_def parse_multiple_labels_def split: sum.splits)
  show "grows_not (empty_capability err cap)"
    unfolding empty_capability_def by (intro grows_not_bind shrinks_grows_not) auto
qed

lemma grows_not_capability_value [intro]: "grows_not (capability_value code)"
  by (cases code) (auto simp: capability_value_def MultiProtocolExtensionsCapability_from_wire_def FourOctetAsCapability_from_wire_def
      BgpRoleCapability_from_wire_def AddPathCapability_from_wire_def ExtendedNextHopEncodingCapability_from_wire_def
      intro!: grows_not_bind grows_not_parse_into shrinks_grows_not [OF shrinks_readers(3)])

interpretation capability: element_codec BgpCapability_write BgpCapability_from_wire cap_ok
proof
  show "shrinks BgpCapability_from_wire"
    unfolding BgpCapability_from_wire_def by (intro shrinks_bind) (auto split: sum.split)
qed (rule capability_read_written)

end
