(* ===== verification/Wire_Open.thy ===== *)
theory Wire_Open
  imports Wire_Capabilities_Laws
begin

text \<open>
  Reading and writing of OPEN messages (\<open>open.rs\<close> under \<open>src/netgauze/bgp-pkt/src/wire/deserializer\<close> and
  \<open>serializer\<close>), with the parsing context of \<open>deserializer/mod.rs\<close> that says which malformed parts are
  skipped and that collects their errors. A reader with a context returns the context it leaves,
  whether it fails or not.
\<close>

section \<open>The parsing context\<close>

record BgpParsingContext =
  ctx_asn4 :: bool
  ctx_multiple_labels :: "AddressType \<Rightarrow> u8 option"
  ctx_add_path :: "AddressType \<Rightarrow> bool option"
  ctx_fail_on_non_unicast_withdraw_nlri :: bool
  ctx_fail_on_non_unicast_update_nlri :: bool
  ctx_fail_on_capability_error :: bool
  ctx_fail_on_malformed_path_attr :: bool
  ctx_parsing_errors :: BgpParsingIgnoredErrors

definition BgpParsingContext_new :: "bool \<Rightarrow> (AddressType \<Rightarrow> u8 option) \<Rightarrow> (AddressType \<Rightarrow> bool option) \<Rightarrow>
    bool \<Rightarrow> bool \<Rightarrow> bool \<Rightarrow> bool \<Rightarrow> BgpParsingContext" where
  "BgpParsingContext_new asn4 multiple_labels add_path fail_withdraw fail_update fail_capability fail_path_attr =
     \<lparr> ctx_asn4 = asn4, ctx_multiple_labels = multiple_labels, ctx_add_path = add_path,
       ctx_fail_on_non_unicast_withdraw_nlri = fail_withdraw, ctx_fail_on_non_unicast_update_nlri = fail_update,
       ctx_fail_on_capability_error = fail_capability, ctx_fail_on_malformed_path_attr = fail_path_attr,
       ctx_parsing_errors = BgpParsingIgnoredErrors_default \<rparr>"

definition BgpParsingContext_default :: BgpParsingContext where
  "BgpParsingContext_default = BgpParsingContext_new True (\<lambda>_. None) (\<lambda>_. None) True True True True"

definition asn2_default :: BgpParsingContext where
  "asn2_default = BgpParsingContext_new False (\<lambda>_. None) (\<lambda>_. None) True True True True"

fun update_capabilities :: "BgpCapability \<Rightarrow> BgpParsingContext \<Rightarrow> BgpParsingContext" where
  "update_capabilities (Cap_AddPath address_families) ctx =
     fold (\<lambda>f ctx. ctx \<lparr> ctx_add_path := (ctx_add_path ctx)(ap_address_type f \<mapsto> ap_receive f) \<rparr>) address_families ctx"
| "update_capabilities (Cap_MultipleLabels labels) ctx =
     fold (\<lambda>(t, cnt) ctx. ctx \<lparr> ctx_multiple_labels := (ctx_multiple_labels ctx)(t \<mapsto> cnt) \<rparr>) labels ctx"
| "update_capabilities _ ctx = ctx"

definition reset_parsing_errors :: "BgpParsingContext \<Rightarrow> BgpParsingIgnoredErrors \<times> BgpParsingContext" where
  "reset_parsing_errors ctx = (ctx_parsing_errors ctx, ctx \<lparr> ctx_parsing_errors := BgpParsingIgnoredErrors_default \<rparr>)"

definition push_capability_error :: "BgpCapabilityParsingError \<Rightarrow> BgpParsingContext \<Rightarrow> BgpParsingContext" where
  "push_capability_error err ctx =
     ctx \<lparr> ctx_parsing_errors := (ctx_parsing_errors ctx) \<lparr> ie_capability_errors := ie_capability_errors (ctx_parsing_errors ctx) @ [err] \<rparr> \<rparr>"

section \<open>Reader\<close>

text \<open>A malformed capability is passed over by its code and its length.\<close>

definition skip_capability :: "(BgpParameterParsingError, bytes) parser" where
  "skip_capability = parse_bind (be_u8 Prm_NomError) (\<lambda>_. length_data8 Prm_NomError)"

lemma shrinks_skip_capability: "shrinks skip_capability"
  unfolding skip_capability_def by (intro shrinks_bind shrinks_grows_not) auto

function parse_capabilities ::
    "BgpParsingContext \<Rightarrow> bytes \<Rightarrow> BgpParsingContext \<times> (BgpParameterParsingError + BgpCapability list)" where
  "parse_capabilities ctx bs =
     (if bs = [] then (ctx, Inr [])
      else
        (case BgpCapability_from_wire bs of
           Inr (cap, rest) \<Rightarrow>
             (case parse_capabilities ctx rest of
                (ctx', Inl e) \<Rightarrow> (ctx', Inl e)
              | (ctx', Inr caps) \<Rightarrow> (ctx', Inr (cap # caps)))
         | Inl err \<Rightarrow>
             if ctx_fail_on_capability_error ctx then (ctx, Inl (Prm_CapabilityError err))
             else
               (case skip_capability bs of
                  Inl e \<Rightarrow> (ctx, Inl e)
                | Inr (_, rest) \<Rightarrow> parse_capabilities (push_capability_error err ctx) rest)))"
  by pat_completeness auto

termination
  by (relation "measure (\<lambda>(ctx, bs). length bs)")
    (auto intro: shrinksD [OF shrinks_skip_capability] shrinksD [OF capability.rd_shrinks])

declare parse_capabilities.simps [simp del]

definition parse_capability_param ::
    "BgpParsingContext \<Rightarrow> bytes \<Rightarrow> BgpParsingContext \<times> (BgpParameterParsingError + BgpOpenMessageParameter \<times> bytes)" where
  "parse_capability_param ctx bs =
     (case length_data8 Prm_NomError bs of
        Inl e \<Rightarrow> (ctx, Inl e)
      | Inr (capabilities_buf, rest) \<Rightarrow>
          (case parse_capabilities ctx capabilities_buf of
             (ctx', Inl e) \<Rightarrow> (ctx', Inl e)
           | (ctx', Inr capabilities) \<Rightarrow> (ctx', Inr (Param_Capabilities capabilities, rest))))"

definition BgpOpenMessageParameter_from_wire ::
    "BgpParsingContext \<Rightarrow> bytes \<Rightarrow> BgpParsingContext \<times> (BgpParameterParsingError + BgpOpenMessageParameter \<times> bytes)" where
  "BgpOpenMessageParameter_from_wire ctx bs =
     (case map_res (be_u8 Prm_NomError) (\<lambda>v. map_err Prm_UndefinedParameterType (BgpOpenMessageParameterType_try_from v)) bs of
        Inl e \<Rightarrow> (ctx, Inl e)
      | Inr (PT_Capability, rest) \<Rightarrow> parse_capability_param ctx rest
      | Inr (PT_ExtendedLength, _) \<Rightarrow>
          (ctx, Inl (Prm_UndefinedParameterType (BgpOpenMessageParameterType_into_u8 PT_ExtendedLength))))"

lemma param_from_wire_shrinks:
  assumes "BgpOpenMessageParameter_from_wire ctx bs = (ctx', Inr (param, rest))"
  shows "length rest < length bs"
proof -
  from assms obtain mid where 1: "map_res (be_u8 Prm_NomError) (\<lambda>v. map_err Prm_UndefinedParameterType (BgpOpenMessageParameterType_try_from v)) bs = Inr (PT_Capability, mid)"
    and p: "parse_capability_param ctx mid = (ctx', Inr (param, rest))"
    by (auto simp: BgpOpenMessageParameter_from_wire_def split: sum.splits prod.splits BgpOpenMessageParameterType.splits)
  from p obtain cb where "length_data8 Prm_NomError mid = Inr (cb, rest)"
    by (auto simp: parse_capability_param_def split: sum.splits prod.splits)
  then have "length rest < length mid" by (rule shrinksD [OF shrinks_length_data(1)])
  moreover have "length mid < length bs" by (rule shrinksD [OF shrinks_map_res [OF shrinks_be(1)] 1])
  ultimately show ?thesis by simp
qed

function parse_params ::
    "BgpParsingContext \<Rightarrow> bytes \<Rightarrow> BgpParsingContext \<times> (BgpOpenMessageParsingError + BgpOpenMessageParameter list)" where
  "parse_params ctx bs =
     (if bs = [] then (ctx, Inr [])
      else
        (case BgpOpenMessageParameter_from_wire ctx bs of
           (ctx, Inl e) \<Rightarrow> (ctx, Inl (OpenPE_ParameterError e))
         | (ctx, Inr (element, rest)) \<Rightarrow>
             (case parse_params ctx rest of
                (ctx, Inl e) \<Rightarrow> (ctx, Inl e)
              | (ctx, Inr params) \<Rightarrow> (ctx, Inr (element # params)))))"
  by pat_completeness auto

termination
  by (relation "measure (\<lambda>(ctx, bs). length bs)") (auto dest: param_from_wire_shrinks [OF sym])

declare parse_params.simps [simp del]

definition Ipv4Addr_is_broadcast :: "ipv4addr \<Rightarrow> bool" where
  "Ipv4Addr_is_broadcast a \<longleftrightarrow> a = 0xffffffff"

definition Ipv4Addr_is_multicast :: "ipv4addr \<Rightarrow> bool" where
  "Ipv4Addr_is_multicast a \<longleftrightarrow> 0xe0000000 \<le> a \<and> a \<le> 0xefffffff"

definition Ipv4Addr_is_unspecified :: "ipv4addr \<Rightarrow> bool" where
  "Ipv4Addr_is_unspecified a \<longleftrightarrow> a = 0"

definition BgpOpenMessage_from_wire ::
    "BgpParsingContext \<Rightarrow> bytes \<Rightarrow> BgpParsingContext \<times> (BgpOpenMessageParsingError + BgpOpenMessage \<times> bytes)" where
  "BgpOpenMessage_from_wire ctx bs =
     (case parse_bind
        (map_res (be_u8 OpenPE_NomError) (\<lambda>x. if x = 4 then Inr x else Inl (OpenPE_UnsupportedVersionNumber x))) (\<lambda>_.
        parse_bind (be_u16 OpenPE_NomError) (\<lambda>my_as.
        parse_bind
          (map_res (be_u16 OpenPE_NomError)
             (\<lambda>hold_time. if hold_time = 1 \<or> hold_time = 2 then Inl (OpenPE_UnacceptableHoldTime hold_time) else Inr hold_time))
          (\<lambda>hold_time.
        parse_bind
          (map_res (be_u32 OpenPE_NomError)
             (\<lambda>bgp_id. if Ipv4Addr_is_broadcast bgp_id \<or> Ipv4Addr_is_multicast bgp_id \<or> Ipv4Addr_is_unspecified bgp_id
                       then Inl (OpenPE_InvalidBgpId bgp_id) else Inr bgp_id))
          (\<lambda>bgp_id.
        parse_bind (length_data8 OpenPE_NomError) (\<lambda>params_buf. parse_return (my_as, hold_time, bgp_id, params_buf)))))) bs of
        Inl e \<Rightarrow> (ctx, Inl e)
      | Inr ((my_as, hold_time, bgp_id, params_buf), rest) \<Rightarrow>
          (case parse_params ctx params_buf of
             (ctx, Inl e) \<Rightarrow> (ctx, Inl e)
           | (ctx, Inr params) \<Rightarrow> (ctx, Inr (BgpOpenMessage_new my_as hold_time bgp_id params, rest))))"

section \<open>Writer\<close>

fun BgpOpenMessageParameter_len :: "BgpOpenMessageParameter \<Rightarrow> nat" where
  "BgpOpenMessageParameter_len (Param_Capabilities capabilities) = 2 + sum_list (map BgpCapability_len capabilities)"

fun BgpOpenMessageParameter_write :: "BgpOpenMessageParameter \<Rightarrow> bytes" where
  "BgpOpenMessageParameter_write (Param_Capabilities capabilities) =
     [BgpOpenMessageParameterType_into_u8 PT_Capability,
      of_nat (BgpOpenMessageParameter_len (Param_Capabilities capabilities) - 2)] @
     concat (map BgpCapability_write capabilities)"

definition BgpOpenMessage_len :: "BgpOpenMessage \<Rightarrow> nat" where
  "BgpOpenMessage_len m = 10 + sum_list (map BgpOpenMessageParameter_len (op_params m))"

definition BgpOpenMessage_write :: "BgpOpenMessage \<Rightarrow> bytes" where
  "BgpOpenMessage_write m =
     [op_version m] @ to_be_bytes (op_my_as m) @ to_be_bytes (op_hold_time m) @ to_be_bytes (op_bgp_id m) @
     [of_nat (sum_list (map BgpOpenMessageParameter_len (op_params m)))] @
     concat (map BgpOpenMessageParameter_write (op_params m))"

section \<open>Round trip\<close>

fun param_ok :: "BgpOpenMessageParameter \<Rightarrow> bool" where
  "param_ok (Param_Capabilities caps) = (list_all cap_ok caps \<and> sum_list (map BgpCapability_len caps) < 256)"

definition open_ok :: "BgpOpenMessage \<Rightarrow> bool" where
  "open_ok m \<longleftrightarrow>
     op_version m = BGP_VERSION \<and> op_hold_time m \<notin> {1, 2} \<and>
     \<not> (Ipv4Addr_is_broadcast (op_bgp_id m) \<or> Ipv4Addr_is_multicast (op_bgp_id m) \<or> Ipv4Addr_is_unspecified (op_bgp_id m)) \<and>
     list_all param_ok (op_params m) \<and> sum_list (map BgpOpenMessageParameter_len (op_params m)) < 256"

lemma cap_ok_length: "cap_ok cap \<Longrightarrow> length (BgpCapability_write cap) = BgpCapability_len cap"
  using capability_length [of cap] by (cases cap) simp_all

lemma caps_length:
  "list_all cap_ok caps \<Longrightarrow> length (concat (map BgpCapability_write caps)) = sum_list (map BgpCapability_len caps)"
  by (induction caps) (simp_all add: cap_ok_length)

lemma parse_capabilities_written:
  "list_all cap_ok caps \<Longrightarrow> parse_capabilities ctx (concat (map BgpCapability_write caps)) = (ctx, Inr caps)"
proof (induction caps)
  case (Cons cap caps)
  then show ?case
    by (subst parse_capabilities.simps) (simp add: capability.written_nonempty capability.read_written)
qed (simp add: parse_capabilities.simps)

lemma param_length: "param_ok p \<Longrightarrow> length (BgpOpenMessageParameter_write p) = BgpOpenMessageParameter_len p"
  by (cases p) (simp add: caps_length)

lemma param_read_written:
  assumes "param_ok p"
  shows "BgpOpenMessageParameter_from_wire ctx (BgpOpenMessageParameter_write p @ rest) = (ctx, Inr (p, rest))"
proof -
  obtain caps where p: "p = Param_Capabilities caps" by (cases p)
  have "length_data8 Prm_NomError (of_nat (sum_list (map BgpCapability_len caps)) # concat (map BgpCapability_write caps) @ rest) =
      Inr (concat (map BgpCapability_write caps), rest)"
    using assms p by (intro length_data8_at caps_length) simp_all
  then have c: "parse_capability_param ctx (of_nat (sum_list (map BgpCapability_len caps)) # concat (map BgpCapability_write caps) @ rest) =
      (ctx, Inr (p, rest))"
    using assms p by (simp add: parse_capability_param_def parse_capabilities_written)
  show ?thesis
    using c by (simp add: p BgpOpenMessageParameter_from_wire_def map_res_def map_err_def
        del: BgpOpenMessageParameterType_into_u8.simps)
qed

lemma param_written_nonempty: "BgpOpenMessageParameter_write p \<noteq> []"
  by (cases p) simp

lemma parse_params_written:
  "list_all param_ok ps \<Longrightarrow> parse_params ctx (concat (map BgpOpenMessageParameter_write ps)) = (ctx, Inr ps)"
proof (induction ps)
  case (Cons p ps)
  then show ?case
    by (subst parse_params.simps) (simp add: param_written_nonempty param_read_written)
qed (simp add: parse_params.simps)

lemma params_length:
  "list_all param_ok ps \<Longrightarrow> length (concat (map BgpOpenMessageParameter_write ps)) = sum_list (map BgpOpenMessageParameter_len ps)"
  by (induction ps) (simp_all add: param_length)

lemma open_length: "open_ok m \<Longrightarrow> length (BgpOpenMessage_write m) = BgpOpenMessage_len m"
  by (simp add: open_ok_def BgpOpenMessage_write_def BgpOpenMessage_len_def params_length)

lemma open_read_written:
  assumes "open_ok m"
  shows "BgpOpenMessage_from_wire ctx (BgpOpenMessage_write m @ rest) = (ctx, Inr (m, rest))"
proof -
  let ?ps = "concat (map BgpOpenMessageParameter_write (op_params m))"
  have "length_data8 OpenPE_NomError (of_nat (sum_list (map BgpOpenMessageParameter_len (op_params m))) # ?ps @ rest) = Inr (?ps, rest)"
    using assms by (intro length_data8_at params_length) (simp_all add: open_ok_def)
  moreover have "BgpOpenMessage_new (op_my_as m) (op_hold_time m) (op_bgp_id m) (op_params m) = m"
    using assms by (cases m) (simp add: BgpOpenMessage_new_def open_ok_def)
  ultimately show ?thesis
    using assms by (simp add: BgpOpenMessage_from_wire_def BgpOpenMessage_write_def open_ok_def parse_bind_def map_res_def
        parse_return_def parse_params_written BGP_VERSION_def)
qed

section \<open>What reading accepts\<close>

text \<open>An OPEN that was read has a supported version, an acceptable hold time and a host identifier.\<close>

definition open_valid :: "BgpOpenMessage \<Rightarrow> bool" where
  "open_valid m \<longleftrightarrow>
     op_version m = BGP_VERSION \<and> op_hold_time m \<notin> {1, 2} \<and>
     \<not> (Ipv4Addr_is_broadcast (op_bgp_id m) \<or> Ipv4Addr_is_multicast (op_bgp_id m) \<or> Ipv4Addr_is_unspecified (op_bgp_id m))"

lemma parse_bind_Inr: "parse_bind p f bs = Inr r \<longleftrightarrow> (\<exists>a rest. p bs = Inr (a, rest) \<and> f a rest = Inr r)"
  by (auto simp: parse_bind_def split: sum.splits)

lemma map_res_Inr: "map_res p f bs = Inr (b, rest) \<longleftrightarrow> (\<exists>a. p bs = Inr (a, rest) \<and> f a = Inr b)"
  by (auto simp: map_res_def split: sum.splits)

lemma open_from_wire_valid: "BgpOpenMessage_from_wire ctx bs = (ctx', Inr (m, rest)) \<Longrightarrow> open_valid m"
  by (auto simp: BgpOpenMessage_from_wire_def parse_bind_Inr map_res_Inr open_valid_def BgpOpenMessage_new_def parse_return_def
      split: sum.splits prod.splits if_splits)

end
