(* ===== verification/Wire_Nlri.thy ===== *)
theory Wire_Nlri
  imports Wire_Open
begin

text \<open>
  Prefixes, unicast and multicast addresses on the wire: the readers of \<open>Ipv4Net\<close>, \<open>Ipv6Net\<close> and \<open>IpAddr\<close> in
  \<open>src/netgauze/bgp-pkt/src/wire/deserializer/mod.rs\<close>, the addresses of \<open>nlri.rs\<close> under
  \<open>deserializer/nlri\<close> and \<open>serializer/nlri\<close>, and the functions \<open>from_net\<close> of \<open>nlri/nlri.rs\<close>.

  \<open>codec_env\<close> holds what the wire format calls and this development does not define: the network and
  host addresses of the crate \<open>ipnet\<close>.
\<close>

record codec_env =
  env_network4 :: "ipv4addr \<times> u8 \<Rightarrow> ipv4addr"
  env_network6 :: "ipv6addr \<times> u8 \<Rightarrow> ipv6addr"
  env_last_host4 :: "ipv4addr \<times> u8 \<Rightarrow> ipv4addr option"
  env_last_host6 :: "ipv6addr \<times> u8 \<Rightarrow> ipv6addr option"

section \<open>Prefixes\<close>

definition div_ceil8 :: "u8 \<Rightarrow> nat" where
  "div_ceil8 n = (unat n + 7) div 8"

definition prefix_size :: "u8 \<Rightarrow> nat" where
  "prefix_size prefix_len = (if prefix_len \<ge> 255 - 7 then 255 else div_ceil8 prefix_len)"

text \<open>\<open>round_len\<close>, whose \<open>f32\<close> arithmetic is exact on an octet\<close>

definition round_len :: "u8 \<Rightarrow> nat" where
  "round_len n = nat \<lceil>(real (unat n)) / 8\<rceil>"

definition pad_to :: "nat \<Rightarrow> bytes \<Rightarrow> bytes" where
  "pad_to n bs = bs @ replicate (n - length bs) 0"

definition Ipv4Net_from_wire_len :: "u8 \<Rightarrow> (Ipv4PrefixParsingError, ipv4addr \<times> u8) parser" where
  "Ipv4Net_from_wire_len prefix_len =
     map_res (take_bytes (Pfx_NomError Nom_Eof) (min (prefix_size prefix_len) 4)) (\<lambda>prefix.
       if prefix_len \<le> 32 then Inr (from_be_bytes (pad_to 4 prefix), prefix_len)
       else Inl (Pfx_InvalidIpv4PrefixLen prefix_len))"

definition Ipv4Net_from_wire :: "(Ipv4PrefixParsingError, ipv4addr \<times> u8) parser" where
  "Ipv4Net_from_wire = parse_bind (be_u8 (Pfx_NomError Nom_Eof)) Ipv4Net_from_wire_len"

definition Ipv6Net_from_wire_len :: "u8 \<Rightarrow> (Ipv4PrefixParsingError, ipv6addr \<times> u8) parser" where
  "Ipv6Net_from_wire_len prefix_len =
     map_res (take_bytes (Pfx_NomError Nom_Eof) (min (prefix_size prefix_len) 16)) (\<lambda>prefix.
       if prefix_len \<le> 128 then Inr (from_be_bytes (pad_to 16 prefix), prefix_len)
       else Inl (Pfx_InvalidIpv4PrefixLen prefix_len))"

definition Ipv6Net_from_wire :: "(Ipv4PrefixParsingError, ipv6addr \<times> u8) parser" where
  "Ipv6Net_from_wire = parse_bind (be_u8 (Pfx_NomError Nom_Eof)) Ipv6Net_from_wire_len"

datatype IpAddrParsingError = Ip_NomError | Ip_InvalidIpAddressType u8 | Ip_InvalidIpAddressLength u8

definition IpAddr_from_wire :: "(IpAddrParsingError, IpAddr) parser" where
  "IpAddr_from_wire =
     parse_bind (be_u8 Ip_NomError) (\<lambda>ip_len.
       if ip_len = 4 then parse_bind (be_u32 Ip_NomError) (\<lambda>addr. parse_return (IpV4 addr))
       else if ip_len = 16 then parse_bind (be_u128 Ip_NomError) (\<lambda>addr. parse_return (IpV6 addr))
       else (\<lambda>_. Inl (Ip_InvalidIpAddressType ip_len)))"

fun IpAddr_octets :: "IpAddr \<Rightarrow> bytes" where
  "IpAddr_octets (IpV4 addr) = to_be_bytes addr"
| "IpAddr_octets (IpV6 addr) = to_be_bytes addr"

definition IpAddr_write :: "IpAddr \<Rightarrow> bytes" where
  "IpAddr_write addr = of_nat (length (IpAddr_octets addr)) # IpAddr_octets addr"

section \<open>Unicast networks\<close>

text \<open>\<open>Ipv4Unicast::from_net\<close> and \<open>Ipv6Unicast::from_net\<close>\<close>

definition Ipv4Unicast_from_net :: "codec_env \<Rightarrow> ipv4addr \<times> u8 \<Rightarrow> (ipv4addr \<times> u8) + (ipv4addr \<times> u8)" where
  "Ipv4Unicast_from_net env net =
     (if Ipv4Addr_is_broadcast (fst net) \<or> Ipv4Addr_is_multicast (fst net) then Inl net
      else
        (case env_last_host4 env net of
           Some addr \<Rightarrow> if Ipv4Addr_is_broadcast addr \<or> Ipv4Addr_is_multicast addr then Inl net else Inr net
         | None \<Rightarrow> Inr net))"

definition Ipv6Addr_is_multicast :: "ipv6addr \<Rightarrow> bool" where
  "Ipv6Addr_is_multicast a \<longleftrightarrow> hd (to_be_bytes a) = 0xff"

definition Ipv6Unicast_from_net :: "ipv6addr \<times> u8 \<Rightarrow> (ipv6addr \<times> u8) + (ipv6addr \<times> u8)" where
  "Ipv6Unicast_from_net net = (if Ipv6Addr_is_multicast (fst net) then Inl net else Inr net)"

text \<open>Errors of address readers are only wrapped by their callers: \<open>()\<close> stands for them.\<close>

definition read_path_id :: "'e \<Rightarrow> bool \<Rightarrow> ('e, u32 option) parser" where
  "read_path_id e add_path =
     (if add_path then parse_bind (be_u32 e) (\<lambda>path_id. parse_return (Some path_id)) else parse_return None)"

definition Ipv4UnicastAddress_from_wire :: "codec_env \<Rightarrow> bool \<Rightarrow> (unit, Ipv4UnicastAddress) parser" where
  "Ipv4UnicastAddress_from_wire env add_path =
     parse_bind (read_path_id () add_path) (\<lambda>path_id.
     parse_bind (map_res (parse_into (\<lambda>_. ()) Ipv4Net_from_wire) (\<lambda>net. map_err (\<lambda>_. ()) (Ipv4Unicast_from_net env net))) (\<lambda>net.
     parse_return \<lparr> v4_path_id = path_id, v4_network = net \<rparr>))"

definition Ipv6UnicastAddress_from_wire :: "bool \<Rightarrow> (unit, Ipv6UnicastAddress) parser" where
  "Ipv6UnicastAddress_from_wire add_path =
     parse_bind (read_path_id () add_path) (\<lambda>path_id.
     parse_bind (map_res (parse_into (\<lambda>_. ()) Ipv6Net_from_wire) (\<lambda>net. map_err (\<lambda>_. ()) (Ipv6Unicast_from_net net))) (\<lambda>net.
     parse_return \<lparr> v6_path_id = path_id, v6_network = net \<rparr>))"

definition path_id_write :: "u32 option \<Rightarrow> bytes" where
  "path_id_write p = (case p of Some path_id \<Rightarrow> to_be_bytes path_id | None \<Rightarrow> [])"

definition Ipv4Unicast_write :: "codec_env \<Rightarrow> ipv4addr \<times> u8 \<Rightarrow> bytes" where
  "Ipv4Unicast_write env net = snd net # take (round_len (snd net)) (to_be_bytes (env_network4 env net))"

definition Ipv6Unicast_write :: "codec_env \<Rightarrow> ipv6addr \<times> u8 \<Rightarrow> bytes" where
  "Ipv6Unicast_write env net = snd net # take (round_len (snd net)) (to_be_bytes (env_network6 env net))"

definition Ipv4UnicastAddress_write :: "codec_env \<Rightarrow> Ipv4UnicastAddress \<Rightarrow> bytes" where
  "Ipv4UnicastAddress_write env a = path_id_write (v4_path_id a) @ Ipv4Unicast_write env (v4_network a)"

definition Ipv6UnicastAddress_write :: "codec_env \<Rightarrow> Ipv6UnicastAddress \<Rightarrow> bytes" where
  "Ipv6UnicastAddress_write env a = path_id_write (v6_path_id a) @ Ipv6Unicast_write env (v6_network a)"

definition path_id_len :: "u32 option \<Rightarrow> nat" where
  "path_id_len p = (case p of Some _ \<Rightarrow> 4 | None \<Rightarrow> 0)"

definition Ipv4UnicastAddress_len :: "Ipv4UnicastAddress \<Rightarrow> nat" where
  "Ipv4UnicastAddress_len a = path_id_len (v4_path_id a) + (1 + round_len (snd (v4_network a)))"

definition Ipv6UnicastAddress_len :: "Ipv6UnicastAddress \<Rightarrow> nat" where
  "Ipv6UnicastAddress_len a = path_id_len (v6_path_id a) + (1 + round_len (snd (v6_network a)))"

section \<open>Multicast networks\<close>

definition Ipv4Multicast_from_net :: "ipv4addr \<times> u8 \<Rightarrow> (ipv4addr \<times> u8) + (ipv4addr \<times> u8)" where
  "Ipv4Multicast_from_net net = (if \<not> Ipv4Addr_is_multicast (fst net) then Inl net else Inr net)"

definition Ipv6Multicast_from_net :: "codec_env \<Rightarrow> ipv6addr \<times> u8 \<Rightarrow> (ipv6addr \<times> u8) + (ipv6addr \<times> u8)" where
  "Ipv6Multicast_from_net env net =
     (if \<not> Ipv6Addr_is_multicast (fst net) then Inl net
      else
        (case env_last_host6 env net of
           Some addr \<Rightarrow> if \<not> Ipv6Addr_is_multicast addr then Inl net else Inr net
         | None \<Rightarrow> Inr net))"

definition Ipv4MulticastAddress_from_wire :: "bool \<Rightarrow> (unit, Ipv4MulticastAddress) parser" where
  "Ipv4MulticastAddress_from_wire add_path =
     parse_bind (read_path_id () add_path) (\<lambda>path_id.
     parse_bind (map_res (parse_into (\<lambda>_. ()) Ipv4Net_from_wire) (\<lambda>net. map_err (\<lambda>_. ()) (Ipv4Multicast_from_net net))) (\<lambda>net.
     parse_return \<lparr> m4_path_id = path_id, m4_network = net \<rparr>))"

definition Ipv6MulticastAddress_from_wire :: "codec_env \<Rightarrow> bool \<Rightarrow> (unit, Ipv6MulticastAddress) parser" where
  "Ipv6MulticastAddress_from_wire env add_path =
     parse_bind (read_path_id () add_path) (\<lambda>path_id.
     parse_bind (map_res (parse_into (\<lambda>_. ()) Ipv6Net_from_wire) (\<lambda>net. map_err (\<lambda>_. ()) (Ipv6Multicast_from_net env net))) (\<lambda>net.
     parse_return \<lparr> m6_path_id = path_id, m6_network = net \<rparr>))"

definition Ipv4Multicast_write :: "codec_env \<Rightarrow> ipv4addr \<times> u8 \<Rightarrow> bytes" where
  "Ipv4Multicast_write env net = snd net # take (round_len (snd net)) (to_be_bytes (env_network4 env net))"

definition Ipv6Multicast_write :: "codec_env \<Rightarrow> ipv6addr \<times> u8 \<Rightarrow> bytes" where
  "Ipv6Multicast_write env net = snd net # take (round_len (snd net)) (to_be_bytes (env_network6 env net))"

definition Ipv4MulticastAddress_write :: "codec_env \<Rightarrow> Ipv4MulticastAddress \<Rightarrow> bytes" where
  "Ipv4MulticastAddress_write env a = path_id_write (m4_path_id a) @ Ipv4Multicast_write env (m4_network a)"

definition Ipv6MulticastAddress_write :: "codec_env \<Rightarrow> Ipv6MulticastAddress \<Rightarrow> bytes" where
  "Ipv6MulticastAddress_write env a = path_id_write (m6_path_id a) @ Ipv6Multicast_write env (m6_network a)"

definition Ipv4MulticastAddress_len :: "Ipv4MulticastAddress \<Rightarrow> nat" where
  "Ipv4MulticastAddress_len a = path_id_len (m4_path_id a) + (1 + round_len (snd (m4_network a)))"

definition Ipv6MulticastAddress_len :: "Ipv6MulticastAddress \<Rightarrow> nat" where
  "Ipv6MulticastAddress_len a = path_id_len (m6_path_id a) + (1 + round_len (snd (m6_network a)))"

section \<open>Round trips\<close>

text \<open>
  The networks that can be read back: the prefix length fits the family, no bit is set outside the
  octets of the prefix and \<open>ipnet\<close> takes the address as its network.
\<close>

definition prefix4_ok :: "codec_env \<Rightarrow> ipv4addr \<times> u8 \<Rightarrow> bool" where
  "prefix4_ok env net \<longleftrightarrow>
     snd net \<le> 32 \<and> env_network4 env net = fst net \<and>
     drop (round_len (snd net)) (to_be_bytes (fst net)) = replicate (4 - round_len (snd net)) 0"

definition prefix6_ok :: "codec_env \<Rightarrow> ipv6addr \<times> u8 \<Rightarrow> bool" where
  "prefix6_ok env net \<longleftrightarrow>
     snd net \<le> 128 \<and> env_network6 env net = fst net \<and>
     drop (round_len (snd net)) (to_be_bytes (fst net)) = replicate (16 - round_len (snd net)) 0"

definition net4_ok :: "codec_env \<Rightarrow> ipv4addr \<times> u8 \<Rightarrow> bool" where
  "net4_ok env net \<longleftrightarrow> prefix4_ok env net \<and> Ipv4Unicast_from_net env net = Inr net"

definition net6_ok :: "codec_env \<Rightarrow> ipv6addr \<times> u8 \<Rightarrow> bool" where
  "net6_ok env net \<longleftrightarrow> prefix6_ok env net \<and> Ipv6Unicast_from_net net = Inr net"

lemma ceiling_div8: "nat \<lceil>real m / 8\<rceil> = (m + 7) div 8"
proof -
  define q where "q = (m + 7) div 8"
  have "m \<le> 8 * q" "8 * q < m + 8" by (simp_all add: q_def)
  then have "real m \<le> 8 * real q" "8 * real q < real m + 8" by linarith+
  then have "\<lceil>real m / 8\<rceil> = int q" by (intro ceiling_unique) simp_all
  then show ?thesis by (simp add: q_def)
qed

lemma round_len_eq: "round_len n = div_ceil8 n"
  unfolding round_len_def div_ceil8_def by (rule ceiling_div8)

lemma prefix_size_small:
  assumes "n \<le> 128"
  shows "prefix_size n = round_len n"
proof -
  have "\<not> (n \<ge> 255 - 7)" using assms by (simp add: word_le_nat_alt)
  then show ?thesis by (simp add: prefix_size_def round_len_eq)
qed

lemma round_len_bound: "n \<le> 32 \<Longrightarrow> round_len n \<le> 4" "n \<le> 128 \<Longrightarrow> round_len n \<le> 16"
  by (simp_all add: round_len_eq div_ceil8_def word_le_nat_alt)

lemma nat_to_be_zero: "nat_to_be n 0 = replicate n 0"
  by (induction n) (simp_all add: replicate_append_same)

lemma u8_le_trans: "(n :: u8) \<le> 32 \<Longrightarrow> n \<le> 128"
  by (simp add: word_le_nat_alt)

lemma pad_take:
  assumes "drop k bs = replicate (length bs - k) 0" "k \<le> length bs"
  shows "pad_to (length bs) (take k bs) = bs"
  using assms append_take_drop_id [of k bs] by (simp add: pad_to_def min_def)

lemma prefix4_read:
  assumes "prefix4_ok env net"
  shows "Ipv4Net_from_wire_len (snd net) (take (round_len (snd net)) (to_be_bytes (env_network4 env net)) @ rest) = Inr (net, rest)"
proof -
  obtain a l where net: "net = (a, l)" by (cases net)
  have l: "l \<le> 32" "env_network4 env net = a" "drop (round_len l) (to_be_bytes a) = replicate (4 - round_len l) 0"
    using assms net by (auto simp: prefix4_ok_def)
  have k: "min (prefix_size l) 4 = round_len l" "round_len l \<le> 4"
    using l prefix_size_small round_len_bound u8_le_trans by simp_all
  have "pad_to 4 (take (round_len l) (to_be_bytes a)) = to_be_bytes a"
    using pad_take [of "round_len l" "to_be_bytes a"] l k by simp
  then show ?thesis
    using l k by (simp add: net Ipv4Net_from_wire_len_def map_res_def from_to_be_bytes min_def)
qed

lemma prefix6_read:
  assumes "prefix6_ok env net"
  shows "Ipv6Net_from_wire_len (snd net) (take (round_len (snd net)) (to_be_bytes (env_network6 env net)) @ rest) = Inr (net, rest)"
proof -
  obtain a l where net: "net = (a, l)" by (cases net)
  have l: "l \<le> 128" "env_network6 env net = a" "drop (round_len l) (to_be_bytes a) = replicate (16 - round_len l) 0"
    using assms net by (auto simp: prefix6_ok_def)
  have k: "min (prefix_size l) 16 = round_len l" "round_len l \<le> 16"
    using l prefix_size_small round_len_bound by simp_all
  have "pad_to 16 (take (round_len l) (to_be_bytes a)) = to_be_bytes a"
    using pad_take [of "round_len l" "to_be_bytes a"] l k by simp
  then show ?thesis
    using l k by (simp add: net Ipv6Net_from_wire_len_def map_res_def from_to_be_bytes min_def)
qed

lemma net_read_written:
  "prefix4_ok env net4 \<Longrightarrow> Ipv4Net_from_wire (Ipv4Unicast_write env net4 @ rest) = Inr (net4, rest)"
  "prefix4_ok env net4 \<Longrightarrow> Ipv4Net_from_wire (Ipv4Multicast_write env net4 @ rest) = Inr (net4, rest)"
  "prefix6_ok env net6 \<Longrightarrow> Ipv6Net_from_wire (Ipv6Unicast_write env net6 @ rest) = Inr (net6, rest)"
  "prefix6_ok env net6 \<Longrightarrow> Ipv6Net_from_wire (Ipv6Multicast_write env net6 @ rest) = Inr (net6, rest)"
  using prefix4_read [of env net4 rest] prefix6_read [of env net6 rest]
  by (simp_all add: Ipv4Net_from_wire_def Ipv6Net_from_wire_def Ipv4Unicast_write_def Ipv4Multicast_write_def Ipv6Unicast_write_def
      Ipv6Multicast_write_def parse_bind_def)

lemma net4_read_written: "net4_ok env net \<Longrightarrow> Ipv4Net_from_wire (Ipv4Unicast_write env net @ rest) = Inr (net, rest)"
  by (simp add: net4_ok_def net_read_written)

lemma net6_read_written: "net6_ok env net \<Longrightarrow> Ipv6Net_from_wire (Ipv6Unicast_write env net @ rest) = Inr (net, rest)"
  by (simp add: net6_ok_def net_read_written)

lemma shrinks_nets [simp, intro]: "shrinks Ipv4Net_from_wire" "shrinks Ipv6Net_from_wire"
proof -
  have g: "grows_not (map_res (take_bytes e n) f)" for e :: 'e and n and f :: "bytes \<Rightarrow> 'e + 'b"
    by (auto simp: grows_not_def map_res_def take_bytes_def split: sum.splits if_splits)
  show "shrinks Ipv4Net_from_wire" "shrinks Ipv6Net_from_wire"
    unfolding Ipv4Net_from_wire_def Ipv6Net_from_wire_def Ipv4Net_from_wire_len_def Ipv6Net_from_wire_len_def
    by (intro shrinks_bind shrinks_be g)+
qed

lemma grows_not_path_id [simp, intro]: "grows_not (read_path_id e add_path)"
  unfolding read_path_id_def by (auto intro!: grows_not_bind)

lemma shrinks_bind_right [intro]:
  assumes "grows_not p" "\<And>a. shrinks (f a)"
  shows "shrinks (parse_bind p f)"
  unfolding shrinks_def
proof (intro allI impI)
  fix bs b rest
  assume "parse_bind p f bs = Inr (b, rest)"
  then obtain a mid where "p bs = Inr (a, mid)" "f a mid = Inr (b, rest)" by (auto simp: parse_bind_def split: sum.splits)
  then show "length rest < length bs" using grows_notD [OF assms(1)] shrinksD [OF assms(2)] by (meson less_le_trans)
qed

lemma path_id_read_written: "read_path_id e (p \<noteq> None) (path_id_write p @ rest) = Inr (p, rest)"
  by (cases p) (simp_all add: read_path_id_def path_id_write_def parse_bind_def parse_return_def)

text \<open>An address with a path identifier is read with \<open>add_path\<close>, one without it is read without.\<close>

definition addr4_ok :: "codec_env \<Rightarrow> bool \<Rightarrow> Ipv4UnicastAddress \<Rightarrow> bool" where
  "addr4_ok env add_path a \<longleftrightarrow> (v4_path_id a \<noteq> None) = add_path \<and> net4_ok env (v4_network a)"

definition addr6_ok :: "codec_env \<Rightarrow> bool \<Rightarrow> Ipv6UnicastAddress \<Rightarrow> bool" where
  "addr6_ok env add_path a \<longleftrightarrow> (v6_path_id a \<noteq> None) = add_path \<and> net6_ok env (v6_network a)"

interpretation addr4: element_codec "Ipv4UnicastAddress_write env" "Ipv4UnicastAddress_from_wire env add_path" "addr4_ok env add_path"
  for env add_path
proof
  show "Ipv4UnicastAddress_from_wire env add_path (Ipv4UnicastAddress_write env a @ rest) = Inr (a, rest)"
    if "addr4_ok env add_path a" for a rest
    using that path_id_read_written [of "()" "v4_path_id a" "Ipv4Unicast_write env (v4_network a) @ rest"]
      net4_read_written [of env "v4_network a" rest]
    by (cases a) (auto simp: addr4_ok_def Ipv4UnicastAddress_from_wire_def Ipv4UnicastAddress_write_def parse_bind_def parse_into_def
        map_res_def map_err_def parse_return_def net4_ok_def)
  show "shrinks (Ipv4UnicastAddress_from_wire env add_path)"
    unfolding Ipv4UnicastAddress_from_wire_def
    by (intro shrinks_bind_right shrinks_bind shrinks_map_res shrinks_parse_into grows_not_path_id) auto
qed

interpretation addr6: element_codec "Ipv6UnicastAddress_write env" "Ipv6UnicastAddress_from_wire add_path" "addr6_ok env add_path"
  for env add_path
proof
  show "Ipv6UnicastAddress_from_wire add_path (Ipv6UnicastAddress_write env a @ rest) = Inr (a, rest)"
    if "addr6_ok env add_path a" for a rest
    using that path_id_read_written [of "()" "v6_path_id a" "Ipv6Unicast_write env (v6_network a) @ rest"]
      net6_read_written [of env "v6_network a" rest]
    by (cases a) (auto simp: addr6_ok_def Ipv6UnicastAddress_from_wire_def Ipv6UnicastAddress_write_def parse_bind_def parse_into_def
        map_res_def map_err_def parse_return_def net6_ok_def)
  show "shrinks (Ipv6UnicastAddress_from_wire add_path)"
    unfolding Ipv6UnicastAddress_from_wire_def
    by (intro shrinks_bind_right shrinks_bind shrinks_map_res shrinks_parse_into grows_not_path_id) auto
qed

definition maddr4_ok :: "codec_env \<Rightarrow> bool \<Rightarrow> Ipv4MulticastAddress \<Rightarrow> bool" where
  "maddr4_ok env add_path a \<longleftrightarrow>
     (m4_path_id a \<noteq> None) = add_path \<and> prefix4_ok env (m4_network a) \<and> Ipv4Addr_is_multicast (fst (m4_network a))"

definition maddr6_ok :: "codec_env \<Rightarrow> bool \<Rightarrow> Ipv6MulticastAddress \<Rightarrow> bool" where
  "maddr6_ok env add_path a \<longleftrightarrow>
     (m6_path_id a \<noteq> None) = add_path \<and> prefix6_ok env (m6_network a) \<and> Ipv6Multicast_from_net env (m6_network a) = Inr (m6_network a)"

interpretation maddr4: element_codec "Ipv4MulticastAddress_write env" "Ipv4MulticastAddress_from_wire add_path" "maddr4_ok env add_path"
  for env add_path
proof
  show "Ipv4MulticastAddress_from_wire add_path (Ipv4MulticastAddress_write env a @ rest) = Inr (a, rest)"
    if "maddr4_ok env add_path a" for a rest
    using that path_id_read_written [of "()" "m4_path_id a" "Ipv4Multicast_write env (m4_network a) @ rest"]
      net_read_written(2) [of env "m4_network a" rest]
    by (cases a) (auto simp: maddr4_ok_def Ipv4MulticastAddress_from_wire_def Ipv4MulticastAddress_write_def parse_bind_def parse_into_def
        map_res_def map_err_def parse_return_def Ipv4Multicast_from_net_def)
  show "shrinks (Ipv4MulticastAddress_from_wire add_path)"
    unfolding Ipv4MulticastAddress_from_wire_def
    by (intro shrinks_bind_right shrinks_bind shrinks_map_res shrinks_parse_into grows_not_path_id) auto
qed

interpretation maddr6: element_codec "Ipv6MulticastAddress_write env" "Ipv6MulticastAddress_from_wire env add_path" "maddr6_ok env add_path"
  for env add_path
proof
  show "Ipv6MulticastAddress_from_wire env add_path (Ipv6MulticastAddress_write env a @ rest) = Inr (a, rest)"
    if "maddr6_ok env add_path a" for a rest
    using that path_id_read_written [of "()" "m6_path_id a" "Ipv6Multicast_write env (m6_network a) @ rest"]
      net_read_written(4) [of env "m6_network a" rest]
    by (cases a) (auto simp: maddr6_ok_def Ipv6MulticastAddress_from_wire_def Ipv6MulticastAddress_write_def parse_bind_def parse_into_def
        map_res_def map_err_def parse_return_def)
  show "shrinks (Ipv6MulticastAddress_from_wire env add_path)"
    unfolding Ipv6MulticastAddress_from_wire_def
    by (intro shrinks_bind_right shrinks_bind shrinks_map_res shrinks_parse_into grows_not_path_id) auto
qed

lemma prefix_octets_length:
  "prefix4_ok env net4 \<Longrightarrow> length (take (round_len (snd net4)) (to_be_bytes (env_network4 env net4))) = round_len (snd net4)"
  "prefix6_ok env net6 \<Longrightarrow> length (take (round_len (snd net6)) (to_be_bytes (env_network6 env net6))) = round_len (snd net6)"
  using round_len_bound [of "snd net4"] round_len_bound [of "snd net6"] by (simp_all add: prefix4_ok_def prefix6_ok_def)

lemma length_path_id_write: "length (path_id_write p) = path_id_len p"
  by (cases p) (simp_all add: path_id_write_def path_id_len_def)

lemma addr_lengths:
  "addr4_ok env add_path a \<Longrightarrow> length (Ipv4UnicastAddress_write env a) = Ipv4UnicastAddress_len a"
  "addr6_ok env add_path b \<Longrightarrow> length (Ipv6UnicastAddress_write env b) = Ipv6UnicastAddress_len b"
  "maddr4_ok env add_path c \<Longrightarrow> length (Ipv4MulticastAddress_write env c) = Ipv4MulticastAddress_len c"
  "maddr6_ok env add_path d \<Longrightarrow> length (Ipv6MulticastAddress_write env d) = Ipv6MulticastAddress_len d"
  using prefix_octets_length(1) [of env "v4_network a"] prefix_octets_length(2) [of env "v6_network b"]
    prefix_octets_length(1) [of env "m4_network c"] prefix_octets_length(2) [of env "m6_network d"]
  by (simp_all add: addr4_ok_def addr6_ok_def maddr4_ok_def maddr6_ok_def net4_ok_def net6_ok_def Ipv4UnicastAddress_write_def
      Ipv6UnicastAddress_write_def Ipv4MulticastAddress_write_def Ipv6MulticastAddress_write_def Ipv4UnicastAddress_len_def
      Ipv6UnicastAddress_len_def Ipv4MulticastAddress_len_def Ipv6MulticastAddress_len_def Ipv4Unicast_write_def Ipv6Unicast_write_def
      Ipv4Multicast_write_def Ipv6Multicast_write_def length_path_id_write)

end
