(* ===== verification/Iana_Community_Codes.thy ===== *)
theory Iana_Community_Codes
  imports Iana_Codes
begin

text \<open>
  The registries of \<open>src/netgauze/bgp-pkt/src/iana.rs\<close> for communities, route distinguishers and
  Ethernet VPN routes. Each interprets the locale \<open>code_registry\<close>.
\<close>

section \<open>WellKnownCommunity\<close>

datatype (plugins only: code size) WellKnownCommunity =
    WKC_GracefulShutdown | WKC_AcceptOwn | WKC_LlgrStale | WKC_NoLlgr | WKC_StandbyPe
    | WKC_BlackHole | WKC_NoExport | WKC_NoAdvertise | WKC_NoExportSubConfederation | WKC_NoPeer

fun WellKnownCommunity_into_u32 :: "WellKnownCommunity \<Rightarrow> u32" where
  "WellKnownCommunity_into_u32 WKC_GracefulShutdown = 0xFFFF0000"
| "WellKnownCommunity_into_u32 WKC_AcceptOwn = 0xFFFF0001"
| "WellKnownCommunity_into_u32 WKC_LlgrStale = 0xFFFF0006"
| "WellKnownCommunity_into_u32 WKC_NoLlgr = 0xFFFF0007"
| "WellKnownCommunity_into_u32 WKC_StandbyPe = 0xFFFF0009"
| "WellKnownCommunity_into_u32 WKC_BlackHole = 0xFFFF029A"
| "WellKnownCommunity_into_u32 WKC_NoExport = 0xFFFFFF01"
| "WellKnownCommunity_into_u32 WKC_NoAdvertise = 0xFFFFFF02"
| "WellKnownCommunity_into_u32 WKC_NoExportSubConfederation = 0xFFFFFF03"
| "WellKnownCommunity_into_u32 WKC_NoPeer = 0xFFFFFF04"

definition WellKnownCommunity_all :: "WellKnownCommunity list" where
  "WellKnownCommunity_all =
     [WKC_GracefulShutdown, WKC_AcceptOwn, WKC_LlgrStale, WKC_NoLlgr, WKC_StandbyPe, WKC_BlackHole
     , WKC_NoExport, WKC_NoAdvertise, WKC_NoExportSubConfederation, WKC_NoPeer]"

definition into_well_known :: "u32 \<Rightarrow> WellKnownCommunity option" where
  "into_well_known c = find (\<lambda>w. WellKnownCommunity_into_u32 w = c) WellKnownCommunity_all"

interpretation well_known_code: code_registry WellKnownCommunity_into_u32 WellKnownCommunity_all
proof
  show "a \<in> set WellKnownCommunity_all" for a by (cases a) (simp_all add: WellKnownCommunity_all_def)
qed (simp add: WellKnownCommunity_all_def)

section \<open>BgpExtendedCommunityType\<close>

datatype (plugins only: code size) BgpExtendedCommunityType =
    ECT_TransitiveTwoOctet | ECT_NonTransitiveTwoOctet | ECT_TransitiveIpv4 | ECT_NonTransitiveIpv4
    | ECT_TransitiveFourOctet | ECT_NonTransitiveFourOctet | ECT_TransitiveOpaque
    | ECT_NonTransitiveOpaque | ECT_TransitiveQosMarking | ECT_NonTransitiveQosMarking
    | ECT_CosCapability | ECT_Evpn | ECT_FlowSpecNextHop | ECT_FlowSpecIndirectionId
    | ECT_TransitiveTransportClass | ECT_NonTransitiveTransportClass | ECT_ServiceFunctionChain
    | ECT_Srv6MobileUserPlane | ECT_GenericPart1 | ECT_GenericPart2 | ECT_GenericPart3
    | ECT_Experimental83 | ECT_Experimental84 | ECT_Experimental85 | ECT_Experimental86
    | ECT_Experimental87 | ECT_Experimental88 | ECT_Experimental89 | ECT_Experimental8A
    | ECT_Experimental8B | ECT_Experimental8C | ECT_Experimental8D | ECT_Experimental8E
    | ECT_Experimental8F | ECT_ExperimentalC0 | ECT_ExperimentalC1 | ECT_ExperimentalC2
    | ECT_ExperimentalC3 | ECT_ExperimentalC4 | ECT_ExperimentalC5 | ECT_ExperimentalC6
    | ECT_ExperimentalC7 | ECT_ExperimentalC8 | ECT_ExperimentalC9 | ECT_ExperimentalCa
    | ECT_ExperimentalCb | ECT_ExperimentalCc | ECT_ExperimentalCd | ECT_ExperimentalCe
    | ECT_ExperimentalCf

fun BgpExtendedCommunityType_into_u8 :: "BgpExtendedCommunityType \<Rightarrow> u8" where
  "BgpExtendedCommunityType_into_u8 ECT_TransitiveTwoOctet = 0x00"
| "BgpExtendedCommunityType_into_u8 ECT_NonTransitiveTwoOctet = 0x40"
| "BgpExtendedCommunityType_into_u8 ECT_TransitiveIpv4 = 0x01"
| "BgpExtendedCommunityType_into_u8 ECT_NonTransitiveIpv4 = 0x41"
| "BgpExtendedCommunityType_into_u8 ECT_TransitiveFourOctet = 0x02"
| "BgpExtendedCommunityType_into_u8 ECT_NonTransitiveFourOctet = 0x42"
| "BgpExtendedCommunityType_into_u8 ECT_TransitiveOpaque = 0x03"
| "BgpExtendedCommunityType_into_u8 ECT_NonTransitiveOpaque = 0x43"
| "BgpExtendedCommunityType_into_u8 ECT_TransitiveQosMarking = 0x04"
| "BgpExtendedCommunityType_into_u8 ECT_NonTransitiveQosMarking = 0x44"
| "BgpExtendedCommunityType_into_u8 ECT_CosCapability = 0x05"
| "BgpExtendedCommunityType_into_u8 ECT_Evpn = 0x06"
| "BgpExtendedCommunityType_into_u8 ECT_FlowSpecNextHop = 0x08"
| "BgpExtendedCommunityType_into_u8 ECT_FlowSpecIndirectionId = 0x09"
| "BgpExtendedCommunityType_into_u8 ECT_TransitiveTransportClass = 0x0A"
| "BgpExtendedCommunityType_into_u8 ECT_NonTransitiveTransportClass = 0x4A"
| "BgpExtendedCommunityType_into_u8 ECT_ServiceFunctionChain = 0x0B"
| "BgpExtendedCommunityType_into_u8 ECT_Srv6MobileUserPlane = 0x0C"
| "BgpExtendedCommunityType_into_u8 ECT_GenericPart1 = 0x80"
| "BgpExtendedCommunityType_into_u8 ECT_GenericPart2 = 0x81"
| "BgpExtendedCommunityType_into_u8 ECT_GenericPart3 = 0x82"
| "BgpExtendedCommunityType_into_u8 ECT_Experimental83 = 0x83"
| "BgpExtendedCommunityType_into_u8 ECT_Experimental84 = 0x84"
| "BgpExtendedCommunityType_into_u8 ECT_Experimental85 = 0x85"
| "BgpExtendedCommunityType_into_u8 ECT_Experimental86 = 0x86"
| "BgpExtendedCommunityType_into_u8 ECT_Experimental87 = 0x87"
| "BgpExtendedCommunityType_into_u8 ECT_Experimental88 = 0x88"
| "BgpExtendedCommunityType_into_u8 ECT_Experimental89 = 0x89"
| "BgpExtendedCommunityType_into_u8 ECT_Experimental8A = 0x8A"
| "BgpExtendedCommunityType_into_u8 ECT_Experimental8B = 0x8B"
| "BgpExtendedCommunityType_into_u8 ECT_Experimental8C = 0x8C"
| "BgpExtendedCommunityType_into_u8 ECT_Experimental8D = 0x8D"
| "BgpExtendedCommunityType_into_u8 ECT_Experimental8E = 0x8E"
| "BgpExtendedCommunityType_into_u8 ECT_Experimental8F = 0x8F"
| "BgpExtendedCommunityType_into_u8 ECT_ExperimentalC0 = 0xC0"
| "BgpExtendedCommunityType_into_u8 ECT_ExperimentalC1 = 0xC1"
| "BgpExtendedCommunityType_into_u8 ECT_ExperimentalC2 = 0xC2"
| "BgpExtendedCommunityType_into_u8 ECT_ExperimentalC3 = 0xC3"
| "BgpExtendedCommunityType_into_u8 ECT_ExperimentalC4 = 0xC4"
| "BgpExtendedCommunityType_into_u8 ECT_ExperimentalC5 = 0xC5"
| "BgpExtendedCommunityType_into_u8 ECT_ExperimentalC6 = 0xC6"
| "BgpExtendedCommunityType_into_u8 ECT_ExperimentalC7 = 0xC7"
| "BgpExtendedCommunityType_into_u8 ECT_ExperimentalC8 = 0xC8"
| "BgpExtendedCommunityType_into_u8 ECT_ExperimentalC9 = 0xC9"
| "BgpExtendedCommunityType_into_u8 ECT_ExperimentalCa = 0xCA"
| "BgpExtendedCommunityType_into_u8 ECT_ExperimentalCb = 0xCB"
| "BgpExtendedCommunityType_into_u8 ECT_ExperimentalCc = 0xCC"
| "BgpExtendedCommunityType_into_u8 ECT_ExperimentalCd = 0xCD"
| "BgpExtendedCommunityType_into_u8 ECT_ExperimentalCe = 0xCE"
| "BgpExtendedCommunityType_into_u8 ECT_ExperimentalCf = 0xCF"

definition BgpExtendedCommunityType_all :: "BgpExtendedCommunityType list" where
  "BgpExtendedCommunityType_all =
     [ECT_TransitiveTwoOctet, ECT_NonTransitiveTwoOctet, ECT_TransitiveIpv4, ECT_NonTransitiveIpv4
     , ECT_TransitiveFourOctet, ECT_NonTransitiveFourOctet, ECT_TransitiveOpaque
     , ECT_NonTransitiveOpaque, ECT_TransitiveQosMarking, ECT_NonTransitiveQosMarking
     , ECT_CosCapability, ECT_Evpn, ECT_FlowSpecNextHop, ECT_FlowSpecIndirectionId
     , ECT_TransitiveTransportClass, ECT_NonTransitiveTransportClass, ECT_ServiceFunctionChain
     , ECT_Srv6MobileUserPlane, ECT_GenericPart1, ECT_GenericPart2, ECT_GenericPart3
     , ECT_Experimental83, ECT_Experimental84, ECT_Experimental85, ECT_Experimental86
     , ECT_Experimental87, ECT_Experimental88, ECT_Experimental89, ECT_Experimental8A
     , ECT_Experimental8B, ECT_Experimental8C, ECT_Experimental8D, ECT_Experimental8E
     , ECT_Experimental8F, ECT_ExperimentalC0, ECT_ExperimentalC1, ECT_ExperimentalC2
     , ECT_ExperimentalC3, ECT_ExperimentalC4, ECT_ExperimentalC5, ECT_ExperimentalC6
     , ECT_ExperimentalC7, ECT_ExperimentalC8, ECT_ExperimentalC9, ECT_ExperimentalCa
     , ECT_ExperimentalCb, ECT_ExperimentalCc, ECT_ExperimentalCd, ECT_ExperimentalCe
     , ECT_ExperimentalCf]"

definition BgpExtendedCommunityType_try_from :: "u8 \<Rightarrow> u8 + BgpExtendedCommunityType" where
  "BgpExtendedCommunityType_try_from = code_try_from BgpExtendedCommunityType_into_u8 BgpExtendedCommunityType_all"

interpretation ext_type: code_registry BgpExtendedCommunityType_into_u8 BgpExtendedCommunityType_all
proof
  show "a \<in> set BgpExtendedCommunityType_all" for a by (cases a) (simp_all add: BgpExtendedCommunityType_all_def)
qed (simp add: BgpExtendedCommunityType_all_def)

lemmas ext_type_codes [simp, wire_simps] = ext_type.try_roundtrip [folded BgpExtendedCommunityType_try_from_def]

section \<open>BgpExtendedCommunityIpv6Type\<close>

datatype (plugins only: code size) BgpExtendedCommunityIpv6Type =
    EC6T_TransitiveIpv6 | EC6T_NonTransitiveIpv6

fun BgpExtendedCommunityIpv6Type_into_u8 :: "BgpExtendedCommunityIpv6Type \<Rightarrow> u8" where
  "BgpExtendedCommunityIpv6Type_into_u8 EC6T_TransitiveIpv6 = 0x00"
| "BgpExtendedCommunityIpv6Type_into_u8 EC6T_NonTransitiveIpv6 = 0x40"

definition BgpExtendedCommunityIpv6Type_all :: "BgpExtendedCommunityIpv6Type list" where
  "BgpExtendedCommunityIpv6Type_all =
     [EC6T_TransitiveIpv6, EC6T_NonTransitiveIpv6]"

definition BgpExtendedCommunityIpv6Type_try_from :: "u8 \<Rightarrow> u8 + BgpExtendedCommunityIpv6Type" where
  "BgpExtendedCommunityIpv6Type_try_from = code_try_from BgpExtendedCommunityIpv6Type_into_u8 BgpExtendedCommunityIpv6Type_all"

interpretation ext6_type: code_registry BgpExtendedCommunityIpv6Type_into_u8 BgpExtendedCommunityIpv6Type_all
proof
  show "a \<in> set BgpExtendedCommunityIpv6Type_all" for a by (cases a) (simp_all add: BgpExtendedCommunityIpv6Type_all_def)
qed (simp add: BgpExtendedCommunityIpv6Type_all_def)

lemmas ext6_type_codes [simp, wire_simps] = ext6_type.try_roundtrip [folded BgpExtendedCommunityIpv6Type_try_from_def]

section \<open>TransitiveTwoOctetExtendedCommunitySubType\<close>

datatype (plugins only: code size) TransitiveTwoOctetExtendedCommunitySubType =
    T2S_RouteTarget | T2S_RouteOrigin | T2S_OspfDomainIdentifier | T2S_BgpDataCollection
    | T2S_SourceAs | T2S_L2VpnIdentifier | T2S_CiscoVpnDistinguisher | T2S_RouteTargetRecord
    | T2S_RtDerivedEc | T2S_VirtualNetworkIdentifier

fun TransitiveTwoOctetExtendedCommunitySubType_into_u8 :: "TransitiveTwoOctetExtendedCommunitySubType \<Rightarrow> u8" where
  "TransitiveTwoOctetExtendedCommunitySubType_into_u8 T2S_RouteTarget = 0x02"
| "TransitiveTwoOctetExtendedCommunitySubType_into_u8 T2S_RouteOrigin = 0x03"
| "TransitiveTwoOctetExtendedCommunitySubType_into_u8 T2S_OspfDomainIdentifier = 0x05"
| "TransitiveTwoOctetExtendedCommunitySubType_into_u8 T2S_BgpDataCollection = 0x08"
| "TransitiveTwoOctetExtendedCommunitySubType_into_u8 T2S_SourceAs = 0x09"
| "TransitiveTwoOctetExtendedCommunitySubType_into_u8 T2S_L2VpnIdentifier = 0x0A"
| "TransitiveTwoOctetExtendedCommunitySubType_into_u8 T2S_CiscoVpnDistinguisher = 0x10"
| "TransitiveTwoOctetExtendedCommunitySubType_into_u8 T2S_RouteTargetRecord = 0x13"
| "TransitiveTwoOctetExtendedCommunitySubType_into_u8 T2S_RtDerivedEc = 0x15"
| "TransitiveTwoOctetExtendedCommunitySubType_into_u8 T2S_VirtualNetworkIdentifier = 0x80"

definition TransitiveTwoOctetExtendedCommunitySubType_all :: "TransitiveTwoOctetExtendedCommunitySubType list" where
  "TransitiveTwoOctetExtendedCommunitySubType_all =
     [T2S_RouteTarget, T2S_RouteOrigin, T2S_OspfDomainIdentifier, T2S_BgpDataCollection
     , T2S_SourceAs, T2S_L2VpnIdentifier, T2S_CiscoVpnDistinguisher, T2S_RouteTargetRecord
     , T2S_RtDerivedEc, T2S_VirtualNetworkIdentifier]"

definition TransitiveTwoOctetExtendedCommunitySubType_try_from :: "u8 \<Rightarrow> u8 + TransitiveTwoOctetExtendedCommunitySubType" where
  "TransitiveTwoOctetExtendedCommunitySubType_try_from = code_try_from TransitiveTwoOctetExtendedCommunitySubType_into_u8 TransitiveTwoOctetExtendedCommunitySubType_all"

interpretation t2_sub: code_registry TransitiveTwoOctetExtendedCommunitySubType_into_u8 TransitiveTwoOctetExtendedCommunitySubType_all
proof
  show "a \<in> set TransitiveTwoOctetExtendedCommunitySubType_all" for a by (cases a) (simp_all add: TransitiveTwoOctetExtendedCommunitySubType_all_def)
qed (simp add: TransitiveTwoOctetExtendedCommunitySubType_all_def)

lemmas t2_sub_codes [simp, wire_simps] = t2_sub.try_roundtrip [folded TransitiveTwoOctetExtendedCommunitySubType_try_from_def]

section \<open>NonTransitiveTwoOctetExtendedCommunitySubType\<close>

datatype (plugins only: code size) NonTransitiveTwoOctetExtendedCommunitySubType =
    NT2S_LinkBandwidth | NT2S_VirtualNetworkIdentifier

fun NonTransitiveTwoOctetExtendedCommunitySubType_into_u8 :: "NonTransitiveTwoOctetExtendedCommunitySubType \<Rightarrow> u8" where
  "NonTransitiveTwoOctetExtendedCommunitySubType_into_u8 NT2S_LinkBandwidth = 0x04"
| "NonTransitiveTwoOctetExtendedCommunitySubType_into_u8 NT2S_VirtualNetworkIdentifier = 0x80"

definition NonTransitiveTwoOctetExtendedCommunitySubType_all :: "NonTransitiveTwoOctetExtendedCommunitySubType list" where
  "NonTransitiveTwoOctetExtendedCommunitySubType_all =
     [NT2S_LinkBandwidth, NT2S_VirtualNetworkIdentifier]"

definition NonTransitiveTwoOctetExtendedCommunitySubType_try_from :: "u8 \<Rightarrow> u8 + NonTransitiveTwoOctetExtendedCommunitySubType" where
  "NonTransitiveTwoOctetExtendedCommunitySubType_try_from = code_try_from NonTransitiveTwoOctetExtendedCommunitySubType_into_u8 NonTransitiveTwoOctetExtendedCommunitySubType_all"

interpretation nt2_sub: code_registry NonTransitiveTwoOctetExtendedCommunitySubType_into_u8 NonTransitiveTwoOctetExtendedCommunitySubType_all
proof
  show "a \<in> set NonTransitiveTwoOctetExtendedCommunitySubType_all" for a by (cases a) (simp_all add: NonTransitiveTwoOctetExtendedCommunitySubType_all_def)
qed (simp add: NonTransitiveTwoOctetExtendedCommunitySubType_all_def)

lemmas nt2_sub_codes [simp, wire_simps] = nt2_sub.try_roundtrip [folded NonTransitiveTwoOctetExtendedCommunitySubType_try_from_def]

section \<open>TransitiveIpv4ExtendedCommunitySubType\<close>

datatype (plugins only: code size) TransitiveIpv4ExtendedCommunitySubType =
    TI4S_RouteTarget | TI4S_RouteOrigin | TI4S_Ipv4Ifit | TI4S_OspfDomainIdentifier
    | TI4S_OspfRouteID | TI4S_NodeTarget | TI4S_L2VpnIdentifier | TI4S_VrfRouteImport
    | TI4S_FlowSpecRedirectToIpv4 | TI4S_CiscoVpnDistinguisher | TI4S_InterAreaP2MpSegmentedNextHop
    | TI4S_RouteTargetRecord | TI4S_VrfRecursiveNextHop | TI4S_RtDerivedEc
    | TI4S_MulticastVpnRpAddress

fun TransitiveIpv4ExtendedCommunitySubType_into_u8 :: "TransitiveIpv4ExtendedCommunitySubType \<Rightarrow> u8" where
  "TransitiveIpv4ExtendedCommunitySubType_into_u8 TI4S_RouteTarget = 0x02"
| "TransitiveIpv4ExtendedCommunitySubType_into_u8 TI4S_RouteOrigin = 0x03"
| "TransitiveIpv4ExtendedCommunitySubType_into_u8 TI4S_Ipv4Ifit = 0x04"
| "TransitiveIpv4ExtendedCommunitySubType_into_u8 TI4S_OspfDomainIdentifier = 0x05"
| "TransitiveIpv4ExtendedCommunitySubType_into_u8 TI4S_OspfRouteID = 0x08"
| "TransitiveIpv4ExtendedCommunitySubType_into_u8 TI4S_NodeTarget = 0x09"
| "TransitiveIpv4ExtendedCommunitySubType_into_u8 TI4S_L2VpnIdentifier = 0x0A"
| "TransitiveIpv4ExtendedCommunitySubType_into_u8 TI4S_VrfRouteImport = 0x0B"
| "TransitiveIpv4ExtendedCommunitySubType_into_u8 TI4S_FlowSpecRedirectToIpv4 = 0x0C"
| "TransitiveIpv4ExtendedCommunitySubType_into_u8 TI4S_CiscoVpnDistinguisher = 0x10"
| "TransitiveIpv4ExtendedCommunitySubType_into_u8 TI4S_InterAreaP2MpSegmentedNextHop = 0x12"
| "TransitiveIpv4ExtendedCommunitySubType_into_u8 TI4S_RouteTargetRecord = 0x13"
| "TransitiveIpv4ExtendedCommunitySubType_into_u8 TI4S_VrfRecursiveNextHop = 0x14"
| "TransitiveIpv4ExtendedCommunitySubType_into_u8 TI4S_RtDerivedEc = 0x15"
| "TransitiveIpv4ExtendedCommunitySubType_into_u8 TI4S_MulticastVpnRpAddress = 0x80"

definition TransitiveIpv4ExtendedCommunitySubType_all :: "TransitiveIpv4ExtendedCommunitySubType list" where
  "TransitiveIpv4ExtendedCommunitySubType_all =
     [TI4S_RouteTarget, TI4S_RouteOrigin, TI4S_Ipv4Ifit, TI4S_OspfDomainIdentifier, TI4S_OspfRouteID
     , TI4S_NodeTarget, TI4S_L2VpnIdentifier, TI4S_VrfRouteImport, TI4S_FlowSpecRedirectToIpv4
     , TI4S_CiscoVpnDistinguisher, TI4S_InterAreaP2MpSegmentedNextHop, TI4S_RouteTargetRecord
     , TI4S_VrfRecursiveNextHop, TI4S_RtDerivedEc, TI4S_MulticastVpnRpAddress]"

definition TransitiveIpv4ExtendedCommunitySubType_try_from :: "u8 \<Rightarrow> u8 + TransitiveIpv4ExtendedCommunitySubType" where
  "TransitiveIpv4ExtendedCommunitySubType_try_from = code_try_from TransitiveIpv4ExtendedCommunitySubType_into_u8 TransitiveIpv4ExtendedCommunitySubType_all"

interpretation ti4_sub: code_registry TransitiveIpv4ExtendedCommunitySubType_into_u8 TransitiveIpv4ExtendedCommunitySubType_all
proof
  show "a \<in> set TransitiveIpv4ExtendedCommunitySubType_all" for a by (cases a) (simp_all add: TransitiveIpv4ExtendedCommunitySubType_all_def)
qed (simp add: TransitiveIpv4ExtendedCommunitySubType_all_def)

lemmas ti4_sub_codes [simp, wire_simps] = ti4_sub.try_roundtrip [folded TransitiveIpv4ExtendedCommunitySubType_try_from_def]

section \<open>TransitiveFourOctetExtendedCommunitySubType\<close>

datatype (plugins only: code size) TransitiveFourOctetExtendedCommunitySubType =
    T4S_RouteTarget | T4S_RouteOrigin | T4S_OspfDomainIdentifier | T4S_BgpDataCollection
    | T4S_SourceAs | T4S_CiscoVpnDistinguisher | T4S_RouteTargetRecord | T4S_RtDerivedEc

fun TransitiveFourOctetExtendedCommunitySubType_into_u8 :: "TransitiveFourOctetExtendedCommunitySubType \<Rightarrow> u8" where
  "TransitiveFourOctetExtendedCommunitySubType_into_u8 T4S_RouteTarget = 0x02"
| "TransitiveFourOctetExtendedCommunitySubType_into_u8 T4S_RouteOrigin = 0x03"
| "TransitiveFourOctetExtendedCommunitySubType_into_u8 T4S_OspfDomainIdentifier = 0x05"
| "TransitiveFourOctetExtendedCommunitySubType_into_u8 T4S_BgpDataCollection = 0x08"
| "TransitiveFourOctetExtendedCommunitySubType_into_u8 T4S_SourceAs = 0x09"
| "TransitiveFourOctetExtendedCommunitySubType_into_u8 T4S_CiscoVpnDistinguisher = 0x10"
| "TransitiveFourOctetExtendedCommunitySubType_into_u8 T4S_RouteTargetRecord = 0x13"
| "TransitiveFourOctetExtendedCommunitySubType_into_u8 T4S_RtDerivedEc = 0x15"

definition TransitiveFourOctetExtendedCommunitySubType_all :: "TransitiveFourOctetExtendedCommunitySubType list" where
  "TransitiveFourOctetExtendedCommunitySubType_all =
     [T4S_RouteTarget, T4S_RouteOrigin, T4S_OspfDomainIdentifier, T4S_BgpDataCollection
     , T4S_SourceAs, T4S_CiscoVpnDistinguisher, T4S_RouteTargetRecord, T4S_RtDerivedEc]"

definition TransitiveFourOctetExtendedCommunitySubType_try_from :: "u8 \<Rightarrow> u8 + TransitiveFourOctetExtendedCommunitySubType" where
  "TransitiveFourOctetExtendedCommunitySubType_try_from = code_try_from TransitiveFourOctetExtendedCommunitySubType_into_u8 TransitiveFourOctetExtendedCommunitySubType_all"

interpretation t4_sub: code_registry TransitiveFourOctetExtendedCommunitySubType_into_u8 TransitiveFourOctetExtendedCommunitySubType_all
proof
  show "a \<in> set TransitiveFourOctetExtendedCommunitySubType_all" for a by (cases a) (simp_all add: TransitiveFourOctetExtendedCommunitySubType_all_def)
qed (simp add: TransitiveFourOctetExtendedCommunitySubType_all_def)

lemmas t4_sub_codes [simp, wire_simps] = t4_sub.try_roundtrip [folded TransitiveFourOctetExtendedCommunitySubType_try_from_def]

section \<open>TransitiveIpv6ExtendedCommunitySubType\<close>

datatype (plugins only: code size) TransitiveIpv6ExtendedCommunitySubType =
    TI6S_RouteTarget | TI6S_RouteOrigin | TI6S_Ipv6Ifit | TI6S_VrfRouteImport
    | TI6S_FlowSpecRedirectToIpv6 | TI6S_FlowSpecRtRedirectToIpv6 | TI6S_CiscoVpnDistinguisher
    | TI6S_InterAreaP2MpSegmentedNextHop | TI6S_RtDerivedEc

fun TransitiveIpv6ExtendedCommunitySubType_into_u8 :: "TransitiveIpv6ExtendedCommunitySubType \<Rightarrow> u8" where
  "TransitiveIpv6ExtendedCommunitySubType_into_u8 TI6S_RouteTarget = 0x02"
| "TransitiveIpv6ExtendedCommunitySubType_into_u8 TI6S_RouteOrigin = 0x03"
| "TransitiveIpv6ExtendedCommunitySubType_into_u8 TI6S_Ipv6Ifit = 0x05"
| "TransitiveIpv6ExtendedCommunitySubType_into_u8 TI6S_VrfRouteImport = 0x0B"
| "TransitiveIpv6ExtendedCommunitySubType_into_u8 TI6S_FlowSpecRedirectToIpv6 = 0x0C"
| "TransitiveIpv6ExtendedCommunitySubType_into_u8 TI6S_FlowSpecRtRedirectToIpv6 = 0x0D"
| "TransitiveIpv6ExtendedCommunitySubType_into_u8 TI6S_CiscoVpnDistinguisher = 0x10"
| "TransitiveIpv6ExtendedCommunitySubType_into_u8 TI6S_InterAreaP2MpSegmentedNextHop = 0x12"
| "TransitiveIpv6ExtendedCommunitySubType_into_u8 TI6S_RtDerivedEc = 0x15"

definition TransitiveIpv6ExtendedCommunitySubType_all :: "TransitiveIpv6ExtendedCommunitySubType list" where
  "TransitiveIpv6ExtendedCommunitySubType_all =
     [TI6S_RouteTarget, TI6S_RouteOrigin, TI6S_Ipv6Ifit, TI6S_VrfRouteImport
     , TI6S_FlowSpecRedirectToIpv6, TI6S_FlowSpecRtRedirectToIpv6, TI6S_CiscoVpnDistinguisher
     , TI6S_InterAreaP2MpSegmentedNextHop, TI6S_RtDerivedEc]"

definition TransitiveIpv6ExtendedCommunitySubType_try_from :: "u8 \<Rightarrow> u8 + TransitiveIpv6ExtendedCommunitySubType" where
  "TransitiveIpv6ExtendedCommunitySubType_try_from = code_try_from TransitiveIpv6ExtendedCommunitySubType_into_u8 TransitiveIpv6ExtendedCommunitySubType_all"

interpretation ti6_sub: code_registry TransitiveIpv6ExtendedCommunitySubType_into_u8 TransitiveIpv6ExtendedCommunitySubType_all
proof
  show "a \<in> set TransitiveIpv6ExtendedCommunitySubType_all" for a by (cases a) (simp_all add: TransitiveIpv6ExtendedCommunitySubType_all_def)
qed (simp add: TransitiveIpv6ExtendedCommunitySubType_all_def)

lemmas ti6_sub_codes [simp, wire_simps] = ti6_sub.try_roundtrip [folded TransitiveIpv6ExtendedCommunitySubType_try_from_def]

section \<open>EvpnExtendedCommunitySubType\<close>

datatype (plugins only: code size) EvpnExtendedCommunitySubType =
    EVS_MacMobility | EVS_EsiLabel | EVS_EsImportRouteTarget | EVS_EvpnRoutersMac
    | EVS_EvpnL2Attribute | EVS_ETree | EVS_DfSelection | EVS_ArpNd | EVS_MulticastFlags
    | EVS_EviRtType0 | EVS_EviRtType1 | EVS_EviRtType2 | EVS_EviRtType3

fun EvpnExtendedCommunitySubType_into_u8 :: "EvpnExtendedCommunitySubType \<Rightarrow> u8" where
  "EvpnExtendedCommunitySubType_into_u8 EVS_MacMobility = 0x00"
| "EvpnExtendedCommunitySubType_into_u8 EVS_EsiLabel = 0x01"
| "EvpnExtendedCommunitySubType_into_u8 EVS_EsImportRouteTarget = 0x02"
| "EvpnExtendedCommunitySubType_into_u8 EVS_EvpnRoutersMac = 0x03"
| "EvpnExtendedCommunitySubType_into_u8 EVS_EvpnL2Attribute = 0x04"
| "EvpnExtendedCommunitySubType_into_u8 EVS_ETree = 0x05"
| "EvpnExtendedCommunitySubType_into_u8 EVS_DfSelection = 0x06"
| "EvpnExtendedCommunitySubType_into_u8 EVS_ArpNd = 0x08"
| "EvpnExtendedCommunitySubType_into_u8 EVS_MulticastFlags = 0x09"
| "EvpnExtendedCommunitySubType_into_u8 EVS_EviRtType0 = 0x0A"
| "EvpnExtendedCommunitySubType_into_u8 EVS_EviRtType1 = 0x0B"
| "EvpnExtendedCommunitySubType_into_u8 EVS_EviRtType2 = 0x0C"
| "EvpnExtendedCommunitySubType_into_u8 EVS_EviRtType3 = 0x0D"

definition EvpnExtendedCommunitySubType_all :: "EvpnExtendedCommunitySubType list" where
  "EvpnExtendedCommunitySubType_all =
     [EVS_MacMobility, EVS_EsiLabel, EVS_EsImportRouteTarget, EVS_EvpnRoutersMac
     , EVS_EvpnL2Attribute, EVS_ETree, EVS_DfSelection, EVS_ArpNd, EVS_MulticastFlags
     , EVS_EviRtType0, EVS_EviRtType1, EVS_EviRtType2, EVS_EviRtType3]"

definition EvpnExtendedCommunitySubType_try_from :: "u8 \<Rightarrow> u8 + EvpnExtendedCommunitySubType" where
  "EvpnExtendedCommunitySubType_try_from = code_try_from EvpnExtendedCommunitySubType_into_u8 EvpnExtendedCommunitySubType_all"

interpretation evpn_sub: code_registry EvpnExtendedCommunitySubType_into_u8 EvpnExtendedCommunitySubType_all
proof
  show "a \<in> set EvpnExtendedCommunitySubType_all" for a by (cases a) (simp_all add: EvpnExtendedCommunitySubType_all_def)
qed (simp add: EvpnExtendedCommunitySubType_all_def)

lemmas evpn_sub_codes [simp, wire_simps] = evpn_sub.try_roundtrip [folded EvpnExtendedCommunitySubType_try_from_def]

section \<open>TransitiveOpaqueExtendedCommunitySubType\<close>

datatype (plugins only: code size) TransitiveOpaqueExtendedCommunitySubType =
    TOS_DefaultGateway

fun TransitiveOpaqueExtendedCommunitySubType_into_u8 :: "TransitiveOpaqueExtendedCommunitySubType \<Rightarrow> u8" where
  "TransitiveOpaqueExtendedCommunitySubType_into_u8 TOS_DefaultGateway = 0x0D"

definition TransitiveOpaqueExtendedCommunitySubType_all :: "TransitiveOpaqueExtendedCommunitySubType list" where
  "TransitiveOpaqueExtendedCommunitySubType_all =
     [TOS_DefaultGateway]"

definition TransitiveOpaqueExtendedCommunitySubType_try_from :: "u8 \<Rightarrow> u8 + TransitiveOpaqueExtendedCommunitySubType" where
  "TransitiveOpaqueExtendedCommunitySubType_try_from = code_try_from TransitiveOpaqueExtendedCommunitySubType_into_u8 TransitiveOpaqueExtendedCommunitySubType_all"

interpretation opaque_sub: code_registry TransitiveOpaqueExtendedCommunitySubType_into_u8 TransitiveOpaqueExtendedCommunitySubType_all
proof
  show "a \<in> set TransitiveOpaqueExtendedCommunitySubType_all" for a by (cases a) (simp_all add: TransitiveOpaqueExtendedCommunitySubType_all_def)
qed (simp add: TransitiveOpaqueExtendedCommunitySubType_all_def)

lemmas opaque_sub_codes [simp, wire_simps] = opaque_sub.try_roundtrip [folded TransitiveOpaqueExtendedCommunitySubType_try_from_def]

section \<open>RouteDistinguisherTypeCode\<close>

datatype (plugins only: code size) RouteDistinguisherTypeCode =
    RDT_As2Administrator | RDT_Ipv4Administrator | RDT_As4Administrator | RDT_LeafAdRoutes

fun RouteDistinguisherTypeCode_into_u16 :: "RouteDistinguisherTypeCode \<Rightarrow> u16" where
  "RouteDistinguisherTypeCode_into_u16 RDT_As2Administrator = 0x00"
| "RouteDistinguisherTypeCode_into_u16 RDT_Ipv4Administrator = 0x01"
| "RouteDistinguisherTypeCode_into_u16 RDT_As4Administrator = 0x02"
| "RouteDistinguisherTypeCode_into_u16 RDT_LeafAdRoutes = 0xFFFF"

definition RouteDistinguisherTypeCode_all :: "RouteDistinguisherTypeCode list" where
  "RouteDistinguisherTypeCode_all =
     [RDT_As2Administrator, RDT_Ipv4Administrator, RDT_As4Administrator, RDT_LeafAdRoutes]"

definition RouteDistinguisherTypeCode_try_from :: "u16 \<Rightarrow> u16 + RouteDistinguisherTypeCode" where
  "RouteDistinguisherTypeCode_try_from = code_try_from RouteDistinguisherTypeCode_into_u16 RouteDistinguisherTypeCode_all"

interpretation rd_type: code_registry RouteDistinguisherTypeCode_into_u16 RouteDistinguisherTypeCode_all
proof
  show "a \<in> set RouteDistinguisherTypeCode_all" for a by (cases a) (simp_all add: RouteDistinguisherTypeCode_all_def)
qed (simp add: RouteDistinguisherTypeCode_all_def)

lemmas rd_type_codes [simp, wire_simps] = rd_type.try_roundtrip [folded RouteDistinguisherTypeCode_try_from_def]

section \<open>L2EvpnRouteTypeCode\<close>

datatype (plugins only: code size) L2EvpnRouteTypeCode =
    ERT_EthernetAutoDiscovery | ERT_MacIpAdvertisement | ERT_InclusiveMulticastEthernetTagRoute
    | ERT_EthernetSegmentRoute | ERT_IpPrefix | ERT_SelectiveMulticastEthernetTagRoute
    | ERT_MulticastMembershipReportSynchRoute | ERT_MulticastLeaveSynchRoute

fun L2EvpnRouteTypeCode_into_u8 :: "L2EvpnRouteTypeCode \<Rightarrow> u8" where
  "L2EvpnRouteTypeCode_into_u8 ERT_EthernetAutoDiscovery = 0x01"
| "L2EvpnRouteTypeCode_into_u8 ERT_MacIpAdvertisement = 0x02"
| "L2EvpnRouteTypeCode_into_u8 ERT_InclusiveMulticastEthernetTagRoute = 0x03"
| "L2EvpnRouteTypeCode_into_u8 ERT_EthernetSegmentRoute = 0x04"
| "L2EvpnRouteTypeCode_into_u8 ERT_IpPrefix = 0x05"
| "L2EvpnRouteTypeCode_into_u8 ERT_SelectiveMulticastEthernetTagRoute = 0x06"
| "L2EvpnRouteTypeCode_into_u8 ERT_MulticastMembershipReportSynchRoute = 0x07"
| "L2EvpnRouteTypeCode_into_u8 ERT_MulticastLeaveSynchRoute = 0x08"

definition L2EvpnRouteTypeCode_all :: "L2EvpnRouteTypeCode list" where
  "L2EvpnRouteTypeCode_all =
     [ERT_EthernetAutoDiscovery, ERT_MacIpAdvertisement, ERT_InclusiveMulticastEthernetTagRoute
     , ERT_EthernetSegmentRoute, ERT_IpPrefix, ERT_SelectiveMulticastEthernetTagRoute
     , ERT_MulticastMembershipReportSynchRoute, ERT_MulticastLeaveSynchRoute]"

definition L2EvpnRouteTypeCode_try_from :: "u8 \<Rightarrow> u8 + L2EvpnRouteTypeCode" where
  "L2EvpnRouteTypeCode_try_from = code_try_from L2EvpnRouteTypeCode_into_u8 L2EvpnRouteTypeCode_all"

interpretation evpn_type: code_registry L2EvpnRouteTypeCode_into_u8 L2EvpnRouteTypeCode_all
proof
  show "a \<in> set L2EvpnRouteTypeCode_all" for a by (cases a) (simp_all add: L2EvpnRouteTypeCode_all_def)
qed (simp add: L2EvpnRouteTypeCode_all_def)

lemmas evpn_type_codes [simp, wire_simps] = evpn_type.try_roundtrip [folded L2EvpnRouteTypeCode_try_from_def]

end
