(* ===== verification/Wire_Labels.thy ===== *)
theory Wire_Labels
  imports Wire_Nlri Iana_Community_Codes
begin

text \<open>
  Labelled networks on the wire (\<open>nlri.rs\<close> under \<open>src/netgauze/bgp-pkt/src/wire/deserializer/nlri\<close> and
  \<open>serializer/nlri\<close>): route distinguishers, MPLS labels and stacks of them, labelled next hops, VPN
  networks and networks with labels. Errors of these readers are only wrapped by their callers, and
  \<open>()\<close> stands for them. The arithmetic on prefix lengths is that of \<open>u8\<close> and wraps around, as in a
  release build.
\<close>

unbundle bit_operations_syntax

section \<open>Octets of a combined word\<close>

lemma nat_to_be_add:
  "b < 256 ^ n \<Longrightarrow> nat_to_be (m + n) (a * 256 ^ n + b) = nat_to_be m a @ nat_to_be n b"
proof (induction n arbitrary: b)
  case (Suc n)
  have split: "a * 256 ^ Suc n + b = b + (a * 256 ^ n) * 256" by simp
  have "(a * 256 ^ Suc n + b) div 256 = a * 256 ^ n + b div 256" unfolding split by simp
  moreover have "b div 256 < 256 ^ n" using Suc.prems by (simp add: less_mult_imp_div_less mult.commute)
  moreover have "(of_nat (a * 256 ^ Suc n + b) :: u8) = of_nat b"
  proof -
    have "unat (of_nat (a * 256 ^ Suc n + b) :: u8) = unat (of_nat b :: u8)" by (simp only: unat_of_nat_u8 split mod_mult_self1)
    then show ?thesis by (simp only: word_unat_eq_iff)
  qed
  ultimately show ?case using Suc.IH by simp
qed simp

lemma push_or_nat:
  assumes "b < 2 ^ k"
  shows "push_bit k a OR b = a * 2 ^ k + (b :: nat)"
proof -
  have b: "take_bit k b = b" using assms by (simp add: take_bit_nat_eq_self_iff)
  have "push_bit k a AND take_bit k b = 0" by (simp add: bit_eq_iff bit_simps)
  then show ?thesis using disjunctive_add_eq_or [of "push_bit k a" b] by (simp add: b push_bit_eq_mult)
qed

lemma unat_push_or:
  fixes a :: "'a::len word" and b :: "'b::len word"
  assumes "LENGTH('a) + k \<le> LENGTH('w)" "unat b < 2 ^ k" "LENGTH('b) \<le> LENGTH('w)"
  shows "unat (push_bit k (ucast a) OR ucast b :: 'w::len word) = unat a * 2 ^ k + unat b"
proof -
  have "unat a < 2 ^ LENGTH('a)" by (rule unsigned_less)
  then have "unat a * 2 ^ k < 2 ^ LENGTH('a) * 2 ^ k" by simp
  also have "\<dots> \<le> 2 ^ LENGTH('w)" using assms(1) by (simp flip: power_add)
  finally have a: "unat a * 2 ^ k < 2 ^ LENGTH('w)" .
  have u: "unat (ucast a :: 'w word) = unat a" "unat (ucast b :: 'w word) = unat b"
    using assms by (simp_all add: unsigned_ucast_eq take_bit_nat_eq_self_iff)
      (use unsigned_less [of a] unsigned_less [of b] in \<open>fastforce intro: less_le_trans power_increasing\<close>)+
  have "unat (push_bit k (ucast a) :: 'w word) = take_bit LENGTH('w) (push_bit k (unat a))"
    by (simp only: unsigned_push_bit_eq u)
  also have "\<dots> = push_bit k (unat a)" using a by (simp add: push_bit_eq_mult take_bit_nat_eq_self_iff)
  finally show ?thesis
    using push_or_nat [OF assms(2), of "unat a"] by (simp only: unsigned_or_eq u)
qed

lemma octets_bits: "8 dvd n \<Longrightarrow> (2::nat) ^ n = 256 ^ (n div 8)"
  by (auto simp: power_mult elim!: dvdE)

lemma unat_octets_less: "8 dvd LENGTH('a::len) \<Longrightarrow> unat (a :: 'a word) < 256 ^ (LENGTH('a) div 8)"
  using unat_less_power [of a] by (simp add: octets_bits)

lemma to_be_bytes_or:
  fixes a :: "'a::len word" and b :: "'b::len word" and c :: "'c::len word"
  assumes "LENGTH('w) = LENGTH('a) + LENGTH('b) + LENGTH('c)" "8 dvd LENGTH('a)" "8 dvd LENGTH('b)" "8 dvd LENGTH('c)"
    and "k = LENGTH('b) + LENGTH('c)" "l = LENGTH('c)"
  shows "to_be_bytes (push_bit k (ucast a) OR push_bit l (ucast b) OR ucast c :: 'w::len word)
    = to_be_bytes a @ to_be_bytes b @ to_be_bytes c"
proof -
  let ?m = "LENGTH('a) div 8" and ?n = "LENGTH('b) div 8" and ?r = "LENGTH('c) div 8"
  let ?i = "push_bit l (ucast b) OR ucast c :: 'w word"
  have c: "unat c < 256 ^ ?r" and b: "unat b < 256 ^ ?n" using unat_octets_less assms by blast+
  have "unat ?i = unat b * 2 ^ l + unat c"
    using unat_push_or [where a = b and b = c and k = l and 'w = 'w] assms by (simp add: unsigned_less)
  then have i: "unat ?i = unat b * 256 ^ ?r + unat c" using assms by (simp add: octets_bits)
  have ilt: "unat ?i < 256 ^ (?n + ?r)"
  proof -
    have "(unat b + 1) * 256 ^ ?r \<le> 256 ^ ?n * 256 ^ ?r" using b by (intro mult_le_mono1) simp
    then show ?thesis using c by (simp add: i power_add)
  qed
  have kd: "k div 8 = ?n + ?r" using assms by (simp add: div_add)
  have "unat (push_bit k (ucast a) OR ucast ?i :: 'w word) = unat a * 2 ^ k + unat ?i"
    using unat_push_or [where a = a and b = ?i and k = k and 'w = 'w] assms ilt by (simp add: octets_bits div_add)
  then have "unat (push_bit k (ucast a) OR push_bit l (ucast b) OR ucast c :: 'w word)
      = unat a * 256 ^ (?n + ?r) + (unat b * 256 ^ ?r + unat c)"
    using assms i by (simp add: octets_bits div_add)
  moreover have "LENGTH('w) div 8 = ?m + (?n + ?r)" using assms by (simp add: div_add)
  ultimately show ?thesis
    using nat_to_be_add [of "unat ?i" "?n + ?r" ?m "unat a"] nat_to_be_add [of "unat c" ?r ?n "unat b"] c ilt
    by (simp add: to_be_bytes_def i)
qed

section \<open>Route distinguishers and labels\<close>

definition RD_LEN :: u8 where
  "RD_LEN = 8"

definition MPLS_LABEL_LEN_BITS :: u8 where
  "MPLS_LABEL_LEN_BITS = 24"

definition RouteDistinguisher_from_wire :: "(unit, RouteDistinguisher) parser" where
  "RouteDistinguisher_from_wire =
     parse_bind (map_res (be_u16 ()) (\<lambda>v. map_err (\<lambda>_. ()) (RouteDistinguisherTypeCode_try_from v))) (\<lambda>rd_type.
       case rd_type of
         RDT_As2Administrator \<Rightarrow>
           parse_bind (be_u16 ()) (\<lambda>asn2. parse_bind (be_u32 ()) (\<lambda>number. parse_return (As2Administrator asn2 number)))
       | RDT_Ipv4Administrator \<Rightarrow>
           parse_bind (be_u32 ()) (\<lambda>ip. parse_bind (be_u16 ()) (\<lambda>number. parse_return (Ipv4Administrator ip number)))
       | RDT_As4Administrator \<Rightarrow>
           parse_bind (be_u32 ()) (\<lambda>asn4. parse_bind (be_u16 ()) (\<lambda>number. parse_return (As4Administrator asn4 number)))
       | RDT_LeafAdRoutes \<Rightarrow>
           parse_bind (be_u16 ()) (\<lambda>num1. map_res (be_u32 ()) (\<lambda>num2.
             if num1 \<noteq> - 1 \<or> num2 \<noteq> - 1 then Inl () else Inr LeafAdRoutes)))"

definition RouteDistinguisher_write :: "RouteDistinguisher \<Rightarrow> bytes" where
  "RouteDistinguisher_write rd = to_be_bytes (RouteDistinguisher_into_u64 rd)"

definition MplsLabel_from_wire :: "(unit, MplsLabel) parser" where
  "MplsLabel_from_wire =
     parse_bind (be_u8 ()) (\<lambda>p1. parse_bind (be_u8 ()) (\<lambda>p2. parse_bind (be_u8 ()) (\<lambda>p3. parse_return [p1, p2, p3])))"

lemma shrinks_label: "shrinks MplsLabel_from_wire"
  unfolding MplsLabel_from_wire_def by (intro shrinks_bind shrinks_be grows_not_bind shrinks_grows_not grows_not_return)

text \<open>\<open>parse_mpls_label_stack\<close>: labels up to the bottom of the stack or to the limit, where 255 is no limit.\<close>

function parse_mpls_label_stack :: "bool \<Rightarrow> u8 \<Rightarrow> (unit, MplsLabel list) parser" where
  "parse_mpls_label_stack is_unreach multiple_labels_limit buf =
     (if multiple_labels_limit = 0 then Inr ([], buf)
      else
        (case MplsLabel_from_wire buf of
           Inl e \<Rightarrow> Inl e
         | Inr (label, t) \<Rightarrow>
             if is_bottom label \<or> is_unreach \<and> is_unreach_compatibility label then Inr ([label], t)
             else
               (case parse_mpls_label_stack is_unreach
                   (if multiple_labels_limit \<noteq> 255 then multiple_labels_limit - 1 else multiple_labels_limit) t of
                  Inl e \<Rightarrow> Inl e
                | Inr (label_stack, rest) \<Rightarrow> Inr (label # label_stack, rest))))"
  by pat_completeness auto

termination
  by (relation "measure (\<lambda>(_, _, buf). length buf)") (auto dest: shrinksD [OF shrinks_label])

declare parse_mpls_label_stack.simps [simp del]

section \<open>Next hops\<close>

definition LabeledIpv4NextHop_from_wire :: "(unit, LabeledIpv4NextHop) parser" where
  "LabeledIpv4NextHop_from_wire =
     parse_bind RouteDistinguisher_from_wire (\<lambda>rd.
     parse_bind (be_u32 ()) (\<lambda>ip. parse_return \<lparr> l4_rd = rd, l4_next_hop = ip \<rparr>))"

definition LabeledIpv6NextHop_from_wire :: "(unit, LabeledIpv6NextHop) parser" where
  "LabeledIpv6NextHop_from_wire =
     parse_bind RouteDistinguisher_from_wire (\<lambda>rd buf.
       if length buf = 16
       then parse_bind (be_u128 ()) (\<lambda>ip. parse_return \<lparr> l6_rd = rd, l6_next_hop = ip, l6_next_hop_local = None \<rparr>) buf
       else parse_bind (be_u128 ()) (\<lambda>ip. parse_bind (be_u128 ()) (\<lambda>local.
              parse_return \<lparr> l6_rd = rd, l6_next_hop = ip, l6_next_hop_local = Some local \<rparr>)) buf)"

definition LABELED_IPV4_LEN :: u8 where
  "LABELED_IPV4_LEN = RD_LEN + 4"

definition LABELED_IPV6_LEN :: u8 where
  "LABELED_IPV6_LEN = RD_LEN + 16"

definition LabeledNextHop_from_wire :: "(unit, LabeledNextHop) parser" where
  "LabeledNextHop_from_wire =
     parse_bind (be_u8 ()) (\<lambda>prefix_len.
     map_res (take_bytes () (unat prefix_len)) (\<lambda>address_buf.
       if prefix_len = LABELED_IPV4_LEN then
         (case LabeledIpv4NextHop_from_wire address_buf of Inl e \<Rightarrow> Inl e | Inr (nh, _) \<Rightarrow> Inr (Labeled_Ipv4 nh))
       else if prefix_len = LABELED_IPV6_LEN then
         (case LabeledIpv6NextHop_from_wire address_buf of Inl e \<Rightarrow> Inl e | Inr (nh, _) \<Rightarrow> Inr (Labeled_Ipv6 nh))
       else Inl ()))"

definition LabeledIpv4NextHop_write :: "LabeledIpv4NextHop \<Rightarrow> bytes" where
  "LabeledIpv4NextHop_write nh = RouteDistinguisher_write (l4_rd nh) @ to_be_bytes (l4_next_hop nh)"

definition LabeledIpv6NextHop_write :: "LabeledIpv6NextHop \<Rightarrow> bytes" where
  "LabeledIpv6NextHop_write nh = RouteDistinguisher_write (l6_rd nh) @ to_be_bytes (l6_next_hop nh)"

fun LabeledNextHop_len :: "LabeledNextHop \<Rightarrow> nat" where
  "LabeledNextHop_len (Labeled_Ipv4 _) = 1 + 12"
| "LabeledNextHop_len (Labeled_Ipv6 _) = 1 + 24"

fun LabeledNextHop_write :: "LabeledNextHop \<Rightarrow> bytes" where
  "LabeledNextHop_write (Labeled_Ipv4 nh) = of_nat (LabeledNextHop_len (Labeled_Ipv4 nh) - 1) # LabeledIpv4NextHop_write nh"
| "LabeledNextHop_write (Labeled_Ipv6 nh) = of_nat (LabeledNextHop_len (Labeled_Ipv6 nh) - 1) # LabeledIpv6NextHop_write nh"

section \<open>Networks with labels\<close>

text \<open>The octets that the readers take for a prefix length.\<close>

definition labels_prefix_size :: "u8 \<Rightarrow> nat" where
  "labels_prefix_size prefix_len = (if prefix_len > 255 - 7 then 255 else div_ceil8 prefix_len)"

definition Ipv4Unicast_from_wire_len :: "codec_env \<Rightarrow> u8 \<Rightarrow> (unit, ipv4addr \<times> u8) parser" where
  "Ipv4Unicast_from_wire_len env prefix_len =
     map_res (parse_into (\<lambda>_. ()) (Ipv4Net_from_wire_len prefix_len)) (\<lambda>net. map_err (\<lambda>_. ()) (Ipv4Unicast_from_net env net))"

definition Ipv4MplsVpnUnicastAddress_from_wire ::
    "codec_env \<Rightarrow> bool \<Rightarrow> bool \<Rightarrow> u8 \<Rightarrow> (unit, Ipv4MplsVpnUnicastAddress) parser" where
  "Ipv4MplsVpnUnicastAddress_from_wire env add_path is_unreach multiple_labels_limit =
     parse_bind (read_path_id () add_path) (\<lambda>path_id.
     parse_bind (be_u8 ()) (\<lambda>prefix_len.
     map_res (take_bytes () (labels_prefix_size prefix_len)) (\<lambda>prefix_buf.
       (case parse_mpls_label_stack is_unreach multiple_labels_limit prefix_buf of
          Inl e \<Rightarrow> Inl e
        | Inr (label_stack, prefix_buf) \<Rightarrow>
            (case RouteDistinguisher_from_wire prefix_buf of
               Inl e \<Rightarrow> Inl e
             | Inr (rd, prefix_buf) \<Rightarrow>
                 (let read_prefix = RD_LEN * 8 + of_nat (length label_stack) * MPLS_LABEL_LEN_BITS
                  in if prefix_len < read_prefix then Inl ()
                     else
                       (case Ipv4Unicast_from_wire_len env (prefix_len - read_prefix) prefix_buf of
                          Inl e \<Rightarrow> Inl e
                        | Inr (network, remainder) \<Rightarrow>
                            if remainder \<noteq> [] then Inl ()
                            else Inr \<lparr> vpn4_path_id = path_id, vpn4_rd = rd, vpn4_label_stack = label_stack, vpn4_network = network \<rparr>)))))))"

definition Ipv4MplsVpnUnicastAddress_write :: "codec_env \<Rightarrow> Ipv4MplsVpnUnicastAddress \<Rightarrow> bytes" where
  "Ipv4MplsVpnUnicastAddress_write env a =
     path_id_write (vpn4_path_id a) @
     [of_nat (8 * 8 + length (vpn4_label_stack a) * 3 * 8 + unat (snd (vpn4_network a)))] @
     concat (vpn4_label_stack a) @ RouteDistinguisher_write (vpn4_rd a) @
     take (round_len (snd (vpn4_network a))) (to_be_bytes (env_network4 env (vpn4_network a)))"

definition Ipv4MplsVpnUnicastAddress_len :: "Ipv4MplsVpnUnicastAddress \<Rightarrow> nat" where
  "Ipv4MplsVpnUnicastAddress_len a =
     path_id_len (vpn4_path_id a) + 8 + (1 + round_len (snd (vpn4_network a))) + 3 * length (vpn4_label_stack a)"

definition Ipv4NlriMplsLabelsAddress_from_wire :: "bool \<Rightarrow> bool \<Rightarrow> u8 \<Rightarrow> (unit, Ipv4NlriMplsLabelsAddress) parser" where
  "Ipv4NlriMplsLabelsAddress_from_wire add_path is_unreach multiple_labels_limit =
     parse_bind (read_path_id () add_path) (\<lambda>path_id.
     parse_bind (be_u8 ()) (\<lambda>prefix_len.
     map_res (take_bytes () (labels_prefix_size prefix_len)) (\<lambda>nlri_buf.
       (case parse_mpls_label_stack is_unreach multiple_labels_limit nlri_buf of
          Inl e \<Rightarrow> Inl e
        | Inr (label_stack, nlri_buf) \<Rightarrow>
            (let labels_len = MPLS_LABEL_LEN_BITS * of_nat (length label_stack)
             in if prefix_len < labels_len then Inl ()
                else
                  (case Ipv4Net_from_wire_len (prefix_len - labels_len) nlri_buf of
                     Inl _ \<Rightarrow> Inl ()
                   | Inr (prefix, _) \<Rightarrow> map_err (\<lambda>_. ()) (Ipv4NlriMplsLabelsAddress_from path_id label_stack prefix)))))))"

definition Ipv4NlriMplsLabelsAddress_bits :: "Ipv4NlriMplsLabelsAddress \<Rightarrow> nat" where
  "Ipv4NlriMplsLabelsAddress_bits a = length (ml4_labels a) * 24 + unat (snd (ml4_prefix a))"

definition Ipv4NlriMplsLabelsAddress_octets :: "codec_env \<Rightarrow> Ipv4NlriMplsLabelsAddress \<Rightarrow> bytes" where
  "Ipv4NlriMplsLabelsAddress_octets env a =
     [of_nat (Ipv4NlriMplsLabelsAddress_bits a)] @ concat (ml4_labels a) @
     take (round_len (snd (ml4_prefix a))) (to_be_bytes (env_network4 env (ml4_prefix a)))"

definition Ipv4NlriMplsLabelsAddress_write :: "codec_env \<Rightarrow> Ipv4NlriMplsLabelsAddress \<Rightarrow> nat + bytes" where
  "Ipv4NlriMplsLabelsAddress_write env a =
     (if Ipv4NlriMplsLabelsAddress_bits a > 255 then Inl (Ipv4NlriMplsLabelsAddress_bits a)
      else Inr (Ipv4NlriMplsLabelsAddress_octets env a))"

definition Ipv4NlriMplsLabelsAddress_len :: "Ipv4NlriMplsLabelsAddress \<Rightarrow> nat" where
  "Ipv4NlriMplsLabelsAddress_len a = 1 + 3 * length (ml4_labels a) + round_len (snd (ml4_prefix a))"

definition Ipv6Unicast_from_wire_len :: "u8 \<Rightarrow> (unit, ipv6addr \<times> u8) parser" where
  "Ipv6Unicast_from_wire_len prefix_len =
     map_res (parse_into (\<lambda>_. ()) (Ipv6Net_from_wire_len prefix_len)) (\<lambda>net. map_err (\<lambda>_. ()) (Ipv6Unicast_from_net net))"

definition Ipv6MplsVpnUnicastAddress_from_wire ::
    "bool \<Rightarrow> bool \<Rightarrow> u8 \<Rightarrow> (unit, Ipv6MplsVpnUnicastAddress) parser" where
  "Ipv6MplsVpnUnicastAddress_from_wire add_path is_unreach multiple_labels_limit =
     parse_bind (read_path_id () add_path) (\<lambda>path_id.
     parse_bind (be_u8 ()) (\<lambda>prefix_len.
     map_res (take_bytes () (labels_prefix_size prefix_len)) (\<lambda>prefix_buf.
       (case parse_mpls_label_stack is_unreach multiple_labels_limit prefix_buf of
          Inl e \<Rightarrow> Inl e
        | Inr (label_stack, prefix_buf) \<Rightarrow>
            (case RouteDistinguisher_from_wire prefix_buf of
               Inl e \<Rightarrow> Inl e
             | Inr (rd, prefix_buf) \<Rightarrow>
                 (let read_prefix = RD_LEN * 8 + of_nat (length label_stack) * MPLS_LABEL_LEN_BITS
                  in if prefix_len < read_prefix then Inl ()
                     else
                       (case Ipv6Unicast_from_wire_len (prefix_len - read_prefix) prefix_buf of
                          Inl e \<Rightarrow> Inl e
                        | Inr (network, remainder) \<Rightarrow>
                            if remainder \<noteq> [] then Inl ()
                            else Inr \<lparr> vpn6_path_id = path_id, vpn6_rd = rd, vpn6_label_stack = label_stack, vpn6_network = network \<rparr>)))))))"

definition Ipv6MplsVpnUnicastAddress_write :: "codec_env \<Rightarrow> Ipv6MplsVpnUnicastAddress \<Rightarrow> bytes" where
  "Ipv6MplsVpnUnicastAddress_write env a =
     path_id_write (vpn6_path_id a) @
     [of_nat (8 * 8 + length (vpn6_label_stack a) * 3 * 8 + unat (snd (vpn6_network a)))] @
     concat (vpn6_label_stack a) @ RouteDistinguisher_write (vpn6_rd a) @
     take (round_len (snd (vpn6_network a))) (to_be_bytes (env_network6 env (vpn6_network a)))"

definition Ipv6MplsVpnUnicastAddress_len :: "Ipv6MplsVpnUnicastAddress \<Rightarrow> nat" where
  "Ipv6MplsVpnUnicastAddress_len a =
     path_id_len (vpn6_path_id a) + 8 + (1 + round_len (snd (vpn6_network a))) + 3 * length (vpn6_label_stack a)"

definition Ipv6NlriMplsLabelsAddress_from_wire :: "bool \<Rightarrow> bool \<Rightarrow> u8 \<Rightarrow> (unit, Ipv6NlriMplsLabelsAddress) parser" where
  "Ipv6NlriMplsLabelsAddress_from_wire add_path is_unreach multiple_labels_limit =
     parse_bind (read_path_id () add_path) (\<lambda>path_id.
     parse_bind (be_u8 ()) (\<lambda>prefix_len.
     map_res (take_bytes () (labels_prefix_size prefix_len)) (\<lambda>nlri_buf.
       (case parse_mpls_label_stack is_unreach multiple_labels_limit nlri_buf of
          Inl e \<Rightarrow> Inl e
        | Inr (label_stack, nlri_buf) \<Rightarrow>
            (let labels_len = MPLS_LABEL_LEN_BITS * of_nat (length label_stack)
             in if prefix_len < labels_len then Inl ()
                else
                  (case Ipv6Net_from_wire_len (prefix_len - labels_len) nlri_buf of
                     Inl _ \<Rightarrow> Inl ()
                   | Inr (prefix, _) \<Rightarrow> map_err (\<lambda>_. ()) (Ipv6NlriMplsLabelsAddress_from path_id label_stack prefix)))))))"

definition Ipv6NlriMplsLabelsAddress_bits :: "Ipv6NlriMplsLabelsAddress \<Rightarrow> nat" where
  "Ipv6NlriMplsLabelsAddress_bits a = length (ml6_labels a) * 24 + unat (snd (ml6_prefix a))"

definition Ipv6NlriMplsLabelsAddress_octets :: "codec_env \<Rightarrow> Ipv6NlriMplsLabelsAddress \<Rightarrow> bytes" where
  "Ipv6NlriMplsLabelsAddress_octets env a =
     [of_nat (Ipv6NlriMplsLabelsAddress_bits a)] @ concat (ml6_labels a) @
     take (round_len (snd (ml6_prefix a))) (to_be_bytes (env_network6 env (ml6_prefix a)))"

definition Ipv6NlriMplsLabelsAddress_write :: "codec_env \<Rightarrow> Ipv6NlriMplsLabelsAddress \<Rightarrow> nat + bytes" where
  "Ipv6NlriMplsLabelsAddress_write env a =
     (if Ipv6NlriMplsLabelsAddress_bits a > 255 then Inl (Ipv6NlriMplsLabelsAddress_bits a)
      else Inr (Ipv6NlriMplsLabelsAddress_octets env a))"

definition Ipv6NlriMplsLabelsAddress_len :: "Ipv6NlriMplsLabelsAddress \<Rightarrow> nat" where
  "Ipv6NlriMplsLabelsAddress_len a = 1 + 3 * length (ml6_labels a) + round_len (snd (ml6_prefix a))"

section \<open>Round trips\<close>

lemma length_rd_write [simp]: "length (RouteDistinguisher_write rd) = 8"
  by (simp add: RouteDistinguisher_write_def)

lemma leaf_octets: "to_be_bytes (- 1 :: u64) = to_be_bytes (- 1 :: u16) @ to_be_bytes (- 1 :: u16) @ to_be_bytes (- 1 :: u32)"
proof -
  have "push_bit 48 (ucast (- 1 :: u16)) OR push_bit 32 (ucast (- 1 :: u16)) OR ucast (- 1 :: u32) = (- 1 :: u64)"
    by (rule bit_word_eqI) (auto simp: bit_simps)
  then show ?thesis
    using to_be_bytes_or [where a = "- 1 :: u16" and b = "- 1 :: u16" and c = "- 1 :: u32" and 'w = 64] by simp
qed

lemma rd_octets:
  "RouteDistinguisher_write (As2Administrator asn2 n4) = to_be_bytes (0 :: u16) @ to_be_bytes asn2 @ to_be_bytes n4"
  "RouteDistinguisher_write (Ipv4Administrator ip n2) = to_be_bytes (1 :: u16) @ to_be_bytes ip @ to_be_bytes n2"
  "RouteDistinguisher_write (As4Administrator asn4 n2) = to_be_bytes (2 :: u16) @ to_be_bytes asn4 @ to_be_bytes n2"
  "RouteDistinguisher_write LeafAdRoutes = to_be_bytes (- 1 :: u16) @ to_be_bytes (- 1 :: u16) @ to_be_bytes (- 1 :: u32)"
  using to_be_bytes_or [where a = "0 :: u16" and b = asn2 and c = n4 and 'w = 64]
    to_be_bytes_or [where a = "1 :: u16" and b = ip and c = n2 and 'w = 64]
    to_be_bytes_or [where a = "2 :: u16" and b = asn4 and c = n2 and 'w = 64]
  by (simp_all add: RouteDistinguisher_write_def leaf_octets)

lemma word_minus_one_u16: "(- 1 :: u16) = 65535"
  by simp

lemma rd_types: "RouteDistinguisherTypeCode_try_from 0 = Inr RDT_As2Administrator" "RouteDistinguisherTypeCode_try_from 1 = Inr RDT_Ipv4Administrator"
  "RouteDistinguisherTypeCode_try_from 2 = Inr RDT_As4Administrator" "RouteDistinguisherTypeCode_try_from (- 1) = Inr RDT_LeafAdRoutes"
  using rd_type_codes [of RDT_As2Administrator] rd_type_codes [of RDT_Ipv4Administrator] rd_type_codes [of RDT_As4Administrator]
    rd_type_codes [of RDT_LeafAdRoutes] by (simp_all flip: word_minus_one_u16)

interpretation rd: wire_codec RouteDistinguisher_write RouteDistinguisher_from_wire "\<lambda>_. True"
proof
  show "RouteDistinguisher_from_wire (RouteDistinguisher_write rd @ rest) = Inr (rd, rest)" for rd rest
    by (cases rd) (simp_all add: rd_octets RouteDistinguisher_from_wire_def parse_bind_def map_res_def map_err_def parse_return_def rd_types)
qed

lemma label_three: "length label = 3 \<Longrightarrow> \<exists>a b c. label = [a, b, c]"
  by (auto simp: length_Suc_conv numeral_3_eq_3)

interpretation label: wire_codec "\<lambda>label. label" MplsLabel_from_wire "\<lambda>label. length label = 3"
proof
  show "MplsLabel_from_wire (label @ rest) = Inr (label, rest)" if "length label = 3" for label rest
    using label_three [OF that] by (auto simp: MplsLabel_from_wire_def parse_bind_def parse_return_def)
qed

text \<open>The stacks that are read back: only the last label ends the stack, or the limit does.\<close>

fun stack_ok :: "bool \<Rightarrow> u8 \<Rightarrow> MplsLabel list \<Rightarrow> bool" where
  "stack_ok is_unreach limit [] = (limit = 0)"
| "stack_ok is_unreach limit (label # ls) =
     (limit \<noteq> 0 \<and> length label = 3 \<and>
      (if is_bottom label \<or> is_unreach \<and> is_unreach_compatibility label then ls = []
       else stack_ok is_unreach (if limit \<noteq> 255 then limit - 1 else limit) ls))"

lemma parse_mpls_label_stack_written:
  "stack_ok is_unreach limit ls \<Longrightarrow> parse_mpls_label_stack is_unreach limit (concat ls @ rest) = Inr (ls, rest)"
proof (induction ls arbitrary: limit)
  case (Cons label ls)
  then show ?case
    by (subst parse_mpls_label_stack.simps) (auto simp: label.read_written split: if_splits)
qed (simp add: parse_mpls_label_stack.simps)

lemma stack_length: "stack_ok is_unreach limit ls \<Longrightarrow> length (concat ls) = 3 * length ls"
  by (induction ls arbitrary: limit) (auto split: if_splits)

text \<open>A stack with a bottom is read to the bottom, however long it is, if the peer has no limit.\<close>

lemma stack_ok_unlimited:
  assumes "list_all (\<lambda>label. length label = 3 \<and> \<not> is_bottom label) ls" "length label = 3" "is_bottom label"
  shows "stack_ok False 255 (ls @ [label])"
  using assms by (induction ls) auto

lemma labels_prefix_size_of_nat: "n \<le> 248 \<Longrightarrow> labels_prefix_size (of_nat n) = (n + 7) div 8"
  by (simp add: labels_prefix_size_def div_ceil8_def word_less_nat_alt unat_of_nat_small)

lemma of_nat_rest:
  fixes l :: u8
  assumes "k + unat l \<le> 255"
  shows "\<not> (of_nat (k + unat l) :: u8) < of_nat k" "(of_nat (k + unat l) :: u8) - of_nat k = l"
proof -
  have "unat (of_nat (k + unat l) :: u8) = k + unat l" "unat (of_nat k :: u8) = k"
    using assms by (simp_all only: unat_of_nat_small)
  then show "\<not> (of_nat (k + unat l) :: u8) < of_nat k" by (simp only: word_less_nat_alt)
qed simp

lemma grows_not_map_res: "grows_not p \<Longrightarrow> grows_not (map_res p f)"
  by (auto simp: grows_not_def map_res_def split: sum.splits)

fun next_hop_ok :: "LabeledNextHop \<Rightarrow> bool" where
  "next_hop_ok (Labeled_Ipv4 _) = True"
| "next_hop_ok (Labeled_Ipv6 nh) = (l6_next_hop_local nh = None)"

lemma length_next_hop_write: "length (LabeledNextHop_write nh) = LabeledNextHop_len nh"
  by (cases nh) (simp_all add: LabeledIpv4NextHop_write_def LabeledIpv6NextHop_write_def)

interpretation labeled_next_hop: wire_codec LabeledNextHop_write LabeledNextHop_from_wire next_hop_ok
proof
  show "LabeledNextHop_from_wire (LabeledNextHop_write nh @ rest) = Inr (nh, rest)" if "next_hop_ok nh" for nh rest
  proof (cases nh)
    case (Labeled_Ipv4 a)
    have "LabeledIpv4NextHop_from_wire (LabeledIpv4NextHop_write a) = Inr (a, [])"
      using rd.read_written [of "l4_rd a" "to_be_bytes (l4_next_hop a)"] be_read(3) [of "()" "l4_next_hop a" "[]"]
      by (cases a) (simp add: LabeledIpv4NextHop_from_wire_def LabeledIpv4NextHop_write_def parse_bind_def parse_return_def)
    then show ?thesis using Labeled_Ipv4
      by (simp add: LabeledNextHop_from_wire_def parse_bind_def map_res_def LABELED_IPV4_LEN_def RD_LEN_def take_bytes_def
          LabeledIpv4NextHop_write_def)
  next
    case (Labeled_Ipv6 a)
    have "LabeledIpv6NextHop_from_wire (LabeledIpv6NextHop_write a) = Inr (a, [])"
      using rd.read_written [of "l6_rd a" "to_be_bytes (l6_next_hop a)"] be_read(4) [of "()" "l6_next_hop a" "[]"] that Labeled_Ipv6
      by (cases a) (simp add: LabeledIpv6NextHop_from_wire_def LabeledIpv6NextHop_write_def parse_bind_def parse_return_def)
    then show ?thesis using Labeled_Ipv6
      by (simp add: LabeledNextHop_from_wire_def parse_bind_def map_res_def LABELED_IPV4_LEN_def LABELED_IPV6_LEN_def RD_LEN_def take_bytes_def
          LabeledIpv6NextHop_write_def)
  qed
qed

definition vpn4_ok :: "codec_env \<Rightarrow> bool \<Rightarrow> bool \<Rightarrow> u8 \<Rightarrow> Ipv4MplsVpnUnicastAddress \<Rightarrow> bool" where
  "vpn4_ok env add_path is_unreach limit a \<longleftrightarrow>
     (vpn4_path_id a \<noteq> None) = add_path \<and> stack_ok is_unreach limit (vpn4_label_stack a) \<and> net4_ok env (vpn4_network a) \<and>
     64 + 24 * length (vpn4_label_stack a) + unat (snd (vpn4_network a)) \<le> 248"

interpretation vpn4: element_codec "Ipv4MplsVpnUnicastAddress_write env"
  "Ipv4MplsVpnUnicastAddress_from_wire env add_path is_unreach limit" "vpn4_ok env add_path is_unreach limit"
  for env add_path is_unreach limit
proof
  show "Ipv4MplsVpnUnicastAddress_from_wire env add_path is_unreach limit (Ipv4MplsVpnUnicastAddress_write env a @ rest) = Inr (a, rest)"
    if ok: "vpn4_ok env add_path is_unreach limit a" for a rest
  proof -
    obtain p rd ls net where a: "a = \<lparr> vpn4_path_id = p, vpn4_rd = rd, vpn4_label_stack = ls, vpn4_network = net \<rparr>" by (cases a)
    let ?net = "take (round_len (snd net)) (to_be_bytes (env_network4 env net))"
    let ?n = "64 + length ls * 24 + unat (snd net)"
    let ?buf = "concat ls @ RouteDistinguisher_write rd @ ?net"
    have ls: "stack_ok is_unreach limit ls" and net: "net4_ok env net" "prefix4_ok env net" and n: "?n \<le> 248"
      using ok by (simp_all add: vpn4_ok_def a net4_ok_def)
    have len: "length ?buf = labels_prefix_size (of_nat ?n)"
      unfolding labels_prefix_size_of_nat [OF n] length_append stack_length [OF ls] prefix_octets_length(1) [OF net(2)] length_rd_write
      unfolding round_len_eq div_ceil8_def by presburger
    have read: "RD_LEN * 8 + of_nat (length ls) * MPLS_LABEL_LEN_BITS = (of_nat (64 + length ls * 24) :: u8)"
      by (simp add: RD_LEN_def MPLS_LABEL_LEN_BITS_def)
    have r: "\<not> (of_nat ?n :: u8) < of_nat (64 + length ls * 24)" "(of_nat ?n :: u8) - of_nat (64 + length ls * 24) = snd net"
      using of_nat_rest [of "64 + length ls * 24" "snd net"] n by simp_all
    have "Ipv4Unicast_from_wire_len env (snd net) ?net = Inr (net, [])"
      using prefix4_read [OF net(2), of "[]"] net(1) by (simp add: Ipv4Unicast_from_wire_len_def map_res_def parse_into_def map_err_def net4_ok_def)
    moreover have "take_bytes () (labels_prefix_size (of_nat ?n)) (?buf @ rest) = Inr (?buf, rest)" by (rule take_bytes_read [OF len])
    moreover have "(p \<noteq> None) = add_path" using ok by (simp add: vpn4_ok_def a)
    ultimately show ?thesis
      using path_id_read_written [of "()" p "[of_nat ?n] @ ?buf @ rest"] parse_mpls_label_stack_written [OF ls] rd.read_written [of rd ?net] r
      by (auto simp: Ipv4MplsVpnUnicastAddress_from_wire_def Ipv4MplsVpnUnicastAddress_write_def a parse_bind_def map_res_def read mult.assoc)
  qed
  show "shrinks (Ipv4MplsVpnUnicastAddress_from_wire env add_path is_unreach limit)"
    unfolding Ipv4MplsVpnUnicastAddress_from_wire_def
    by (intro shrinks_bind_right shrinks_bind grows_not_path_id shrinks_be grows_not_map_res grows_not_take)
qed

definition labels4_ok :: "codec_env \<Rightarrow> bool \<Rightarrow> bool \<Rightarrow> u8 \<Rightarrow> Ipv4NlriMplsLabelsAddress \<Rightarrow> bool" where
  "labels4_ok env add_path is_unreach limit a \<longleftrightarrow>
     ml4_path_id a = None \<and> \<not> add_path \<and> stack_ok is_unreach limit (ml4_labels a) \<and> prefix4_ok env (ml4_prefix a) \<and>
     Ipv4NlriMplsLabelsAddress_bits a \<le> 248"

interpretation labels4: element_codec "Ipv4NlriMplsLabelsAddress_octets env"
  "Ipv4NlriMplsLabelsAddress_from_wire add_path is_unreach limit" "labels4_ok env add_path is_unreach limit"
  for env add_path is_unreach limit
proof
  show "Ipv4NlriMplsLabelsAddress_from_wire add_path is_unreach limit (Ipv4NlriMplsLabelsAddress_octets env a @ rest) = Inr (a, rest)"
    if ok: "labels4_ok env add_path is_unreach limit a" for a rest
  proof -
    obtain p ls net where a: "a = \<lparr> ml4_path_id = p, ml4_labels = ls, ml4_prefix = net \<rparr>" by (cases a)
    let ?net = "take (round_len (snd net)) (to_be_bytes (env_network4 env net))"
    let ?n = "length ls * 24 + unat (snd net)"
    have ls: "stack_ok is_unreach limit ls" and net: "prefix4_ok env net" and n: "?n \<le> 248" and p: "p = None" "\<not> add_path"
      using ok by (simp_all add: labels4_ok_def a Ipv4NlriMplsLabelsAddress_bits_def)
    have len: "length (concat ls @ ?net) = labels_prefix_size (of_nat ?n)"
      unfolding labels_prefix_size_of_nat [OF n] length_append stack_length [OF ls] prefix_octets_length(1) [OF net]
      unfolding round_len_eq div_ceil8_def by presburger
    have read: "MPLS_LABEL_LEN_BITS * of_nat (length ls) = (of_nat (length ls * 24) :: u8)"
      by (simp add: MPLS_LABEL_LEN_BITS_def)
    have r: "\<not> (of_nat ?n :: u8) < of_nat (length ls * 24)" "(of_nat ?n :: u8) - of_nat (length ls * 24) = snd net"
      using of_nat_rest [of "length ls * 24" "snd net"] n by simp_all
    have "take_bytes () (labels_prefix_size (of_nat ?n)) ((concat ls @ ?net) @ rest) = Inr (concat ls @ ?net, rest)"
      by (rule take_bytes_read [OF len])
    then show ?thesis
      using parse_mpls_label_stack_written [OF ls, of ?net] prefix4_read [OF net, of "[]"] r n p
      by (simp add: Ipv4NlriMplsLabelsAddress_from_wire_def Ipv4NlriMplsLabelsAddress_octets_def Ipv4NlriMplsLabelsAddress_bits_def
          Ipv4NlriMplsLabelsAddress_from_def a parse_bind_def map_res_def map_err_def read_path_id_def parse_return_def read)
  qed
  show "shrinks (Ipv4NlriMplsLabelsAddress_from_wire add_path is_unreach limit)"
    unfolding Ipv4NlriMplsLabelsAddress_from_wire_def
    by (intro shrinks_bind_right shrinks_bind grows_not_path_id shrinks_be grows_not_map_res grows_not_take)
qed

definition vpn6_ok :: "codec_env \<Rightarrow> bool \<Rightarrow> bool \<Rightarrow> u8 \<Rightarrow> Ipv6MplsVpnUnicastAddress \<Rightarrow> bool" where
  "vpn6_ok env add_path is_unreach limit a \<longleftrightarrow>
     (vpn6_path_id a \<noteq> None) = add_path \<and> stack_ok is_unreach limit (vpn6_label_stack a) \<and> net6_ok env (vpn6_network a) \<and>
     64 + 24 * length (vpn6_label_stack a) + unat (snd (vpn6_network a)) \<le> 248"

interpretation vpn6: element_codec "Ipv6MplsVpnUnicastAddress_write env"
  "Ipv6MplsVpnUnicastAddress_from_wire add_path is_unreach limit" "vpn6_ok env add_path is_unreach limit"
  for env add_path is_unreach limit
proof
  show "Ipv6MplsVpnUnicastAddress_from_wire add_path is_unreach limit (Ipv6MplsVpnUnicastAddress_write env a @ rest) = Inr (a, rest)"
    if ok: "vpn6_ok env add_path is_unreach limit a" for a rest
  proof -
    obtain p rd ls net where a: "a = \<lparr> vpn6_path_id = p, vpn6_rd = rd, vpn6_label_stack = ls, vpn6_network = net \<rparr>" by (cases a)
    let ?net = "take (round_len (snd net)) (to_be_bytes (env_network6 env net))"
    let ?n = "64 + length ls * 24 + unat (snd net)"
    let ?buf = "concat ls @ RouteDistinguisher_write rd @ ?net"
    have ls: "stack_ok is_unreach limit ls" and net: "net6_ok env net" "prefix6_ok env net" and n: "?n \<le> 248"
      using ok by (simp_all add: vpn6_ok_def a net6_ok_def)
    have len: "length ?buf = labels_prefix_size (of_nat ?n)"
      unfolding labels_prefix_size_of_nat [OF n] length_append stack_length [OF ls] prefix_octets_length(2) [OF net(2)] length_rd_write
      unfolding round_len_eq div_ceil8_def by presburger
    have read: "RD_LEN * 8 + of_nat (length ls) * MPLS_LABEL_LEN_BITS = (of_nat (64 + length ls * 24) :: u8)"
      by (simp add: RD_LEN_def MPLS_LABEL_LEN_BITS_def)
    have r: "\<not> (of_nat ?n :: u8) < of_nat (64 + length ls * 24)" "(of_nat ?n :: u8) - of_nat (64 + length ls * 24) = snd net"
      using of_nat_rest [of "64 + length ls * 24" "snd net"] n by simp_all
    have "Ipv6Unicast_from_wire_len (snd net) ?net = Inr (net, [])"
      using prefix6_read [OF net(2), of "[]"] net(1) by (simp add: Ipv6Unicast_from_wire_len_def map_res_def parse_into_def map_err_def net6_ok_def)
    moreover have "take_bytes () (labels_prefix_size (of_nat ?n)) (?buf @ rest) = Inr (?buf, rest)" by (rule take_bytes_read [OF len])
    moreover have "(p \<noteq> None) = add_path" using ok by (simp add: vpn6_ok_def a)
    ultimately show ?thesis
      using path_id_read_written [of "()" p "[of_nat ?n] @ ?buf @ rest"] parse_mpls_label_stack_written [OF ls] rd.read_written [of rd ?net] r
      by (auto simp: Ipv6MplsVpnUnicastAddress_from_wire_def Ipv6MplsVpnUnicastAddress_write_def a parse_bind_def map_res_def read mult.assoc)
  qed
  show "shrinks (Ipv6MplsVpnUnicastAddress_from_wire add_path is_unreach limit)"
    unfolding Ipv6MplsVpnUnicastAddress_from_wire_def
    by (intro shrinks_bind_right shrinks_bind grows_not_path_id shrinks_be grows_not_map_res grows_not_take)
qed

definition labels6_ok :: "codec_env \<Rightarrow> bool \<Rightarrow> bool \<Rightarrow> u8 \<Rightarrow> Ipv6NlriMplsLabelsAddress \<Rightarrow> bool" where
  "labels6_ok env add_path is_unreach limit a \<longleftrightarrow>
     ml6_path_id a = None \<and> \<not> add_path \<and> stack_ok is_unreach limit (ml6_labels a) \<and> prefix6_ok env (ml6_prefix a) \<and>
     Ipv6NlriMplsLabelsAddress_bits a \<le> 248"

interpretation labels6: element_codec "Ipv6NlriMplsLabelsAddress_octets env"
  "Ipv6NlriMplsLabelsAddress_from_wire add_path is_unreach limit" "labels6_ok env add_path is_unreach limit"
  for env add_path is_unreach limit
proof
  show "Ipv6NlriMplsLabelsAddress_from_wire add_path is_unreach limit (Ipv6NlriMplsLabelsAddress_octets env a @ rest) = Inr (a, rest)"
    if ok: "labels6_ok env add_path is_unreach limit a" for a rest
  proof -
    obtain p ls net where a: "a = \<lparr> ml6_path_id = p, ml6_labels = ls, ml6_prefix = net \<rparr>" by (cases a)
    let ?net = "take (round_len (snd net)) (to_be_bytes (env_network6 env net))"
    let ?n = "length ls * 24 + unat (snd net)"
    have ls: "stack_ok is_unreach limit ls" and net: "prefix6_ok env net" and n: "?n \<le> 248" and p: "p = None" "\<not> add_path"
      using ok by (simp_all add: labels6_ok_def a Ipv6NlriMplsLabelsAddress_bits_def)
    have len: "length (concat ls @ ?net) = labels_prefix_size (of_nat ?n)"
      unfolding labels_prefix_size_of_nat [OF n] length_append stack_length [OF ls] prefix_octets_length(2) [OF net]
      unfolding round_len_eq div_ceil8_def by presburger
    have read: "MPLS_LABEL_LEN_BITS * of_nat (length ls) = (of_nat (length ls * 24) :: u8)"
      by (simp add: MPLS_LABEL_LEN_BITS_def)
    have r: "\<not> (of_nat ?n :: u8) < of_nat (length ls * 24)" "(of_nat ?n :: u8) - of_nat (length ls * 24) = snd net"
      using of_nat_rest [of "length ls * 24" "snd net"] n by simp_all
    have "take_bytes () (labels_prefix_size (of_nat ?n)) ((concat ls @ ?net) @ rest) = Inr (concat ls @ ?net, rest)"
      by (rule take_bytes_read [OF len])
    then show ?thesis
      using parse_mpls_label_stack_written [OF ls, of ?net] prefix6_read [OF net, of "[]"] r n p
      by (simp add: Ipv6NlriMplsLabelsAddress_from_wire_def Ipv6NlriMplsLabelsAddress_octets_def Ipv6NlriMplsLabelsAddress_bits_def
          Ipv6NlriMplsLabelsAddress_from_def a parse_bind_def map_res_def map_err_def read_path_id_def parse_return_def read)
  qed
  show "shrinks (Ipv6NlriMplsLabelsAddress_from_wire add_path is_unreach limit)"
    unfolding Ipv6NlriMplsLabelsAddress_from_wire_def
    by (intro shrinks_bind_right shrinks_bind grows_not_path_id shrinks_be grows_not_map_res grows_not_take)
qed

lemma labelled_lengths:
  "vpn4_ok env p u l a \<Longrightarrow> length (Ipv4MplsVpnUnicastAddress_write env a) = Ipv4MplsVpnUnicastAddress_len a"
  "vpn6_ok env p u l b \<Longrightarrow> length (Ipv6MplsVpnUnicastAddress_write env b) = Ipv6MplsVpnUnicastAddress_len b"
  "labels4_ok env p u l c \<Longrightarrow> length (Ipv4NlriMplsLabelsAddress_octets env c) = Ipv4NlriMplsLabelsAddress_len c"
  "labels6_ok env p u l d \<Longrightarrow> length (Ipv6NlriMplsLabelsAddress_octets env d) = Ipv6NlriMplsLabelsAddress_len d"
  using prefix_octets_length(1) [of env "vpn4_network a"] prefix_octets_length(2) [of env "vpn6_network b"]
    prefix_octets_length(1) [of env "ml4_prefix c"] prefix_octets_length(2) [of env "ml6_prefix d"]
    stack_length [of u l "vpn4_label_stack a"] stack_length [of u l "vpn6_label_stack b"] stack_length [of u l "ml4_labels c"]
    stack_length [of u l "ml6_labels d"]
  by (simp_all add: vpn4_ok_def vpn6_ok_def labels4_ok_def labels6_ok_def net4_ok_def net6_ok_def length_path_id_write
      Ipv4MplsVpnUnicastAddress_write_def Ipv4MplsVpnUnicastAddress_len_def Ipv6MplsVpnUnicastAddress_write_def Ipv6MplsVpnUnicastAddress_len_def
      Ipv4NlriMplsLabelsAddress_octets_def Ipv4NlriMplsLabelsAddress_len_def Ipv6NlriMplsLabelsAddress_octets_def Ipv6NlriMplsLabelsAddress_len_def
      del: length_concat)

end
