(* ===== verification/Wire_Communities.thy ===== *)
theory Wire_Communities
  imports Wire_Base Iana_Community_Codes Community_Types
begin

text \<open>
  Reading and writing of extended communities (\<open>community.rs\<close> under
  \<open>src/netgauze/bgp-pkt/src/wire/deserializer\<close> and \<open>serializer\<close>): an octet for the type, one for the
  subtype and six octets of value, or eighteen for the IPv6 specific ones. The only error of a reader is
  that the input is too short, and \<open>()\<close> stands for it.
\<close>

section \<open>Readers\<close>

fun TransitiveTwoOctetExtendedCommunity_of_code :: "TransitiveTwoOctetExtendedCommunitySubType \<Rightarrow> u16 \<Rightarrow> u32 \<Rightarrow> TransitiveTwoOctetExtendedCommunity" where
  "TransitiveTwoOctetExtendedCommunity_of_code T2S_RouteTarget = T2_RouteTarget"
| "TransitiveTwoOctetExtendedCommunity_of_code T2S_RouteOrigin = T2_RouteOrigin"
| "TransitiveTwoOctetExtendedCommunity_of_code T2S_OspfDomainIdentifier = T2_OspfDomainIdentifier"
| "TransitiveTwoOctetExtendedCommunity_of_code T2S_BgpDataCollection = T2_BgpDataCollection"
| "TransitiveTwoOctetExtendedCommunity_of_code T2S_SourceAs = T2_SourceAs"
| "TransitiveTwoOctetExtendedCommunity_of_code T2S_L2VpnIdentifier = T2_L2VpnIdentifier"
| "TransitiveTwoOctetExtendedCommunity_of_code T2S_CiscoVpnDistinguisher = T2_CiscoVpnDistinguisher"
| "TransitiveTwoOctetExtendedCommunity_of_code T2S_RouteTargetRecord = T2_RouteTargetRecord"
| "TransitiveTwoOctetExtendedCommunity_of_code T2S_RtDerivedEc = T2_RtDerivedEc"
| "TransitiveTwoOctetExtendedCommunity_of_code T2S_VirtualNetworkIdentifier = T2_VirtualNetworkIdentifier"

definition TransitiveTwoOctetExtendedCommunity_from_wire :: "(unit, TransitiveTwoOctetExtendedCommunity) parser" where
  "TransitiveTwoOctetExtendedCommunity_from_wire =
     parse_bind (be_u8 ()) (\<lambda>sub_type. parse_bind (be_u16 ()) (\<lambda>global_admin. parse_bind (be_u32 ()) (\<lambda>local_admin.
       parse_return
         (case TransitiveTwoOctetExtendedCommunitySubType_try_from sub_type of
            Inr code \<Rightarrow> TransitiveTwoOctetExtendedCommunity_of_code code global_admin local_admin
          | Inl _ \<Rightarrow> T2_Unassigned sub_type global_admin local_admin))))"

fun NonTransitiveTwoOctetExtendedCommunity_of_code :: "NonTransitiveTwoOctetExtendedCommunitySubType \<Rightarrow> u16 \<Rightarrow> u32 \<Rightarrow> NonTransitiveTwoOctetExtendedCommunity" where
  "NonTransitiveTwoOctetExtendedCommunity_of_code NT2S_LinkBandwidth = NT2_LinkBandwidth"
| "NonTransitiveTwoOctetExtendedCommunity_of_code NT2S_VirtualNetworkIdentifier = NT2_VirtualNetworkIdentifier"

definition NonTransitiveTwoOctetExtendedCommunity_from_wire :: "(unit, NonTransitiveTwoOctetExtendedCommunity) parser" where
  "NonTransitiveTwoOctetExtendedCommunity_from_wire =
     parse_bind (be_u8 ()) (\<lambda>sub_type. parse_bind (be_u16 ()) (\<lambda>global_admin. parse_bind (be_u32 ()) (\<lambda>local_admin.
       parse_return
         (case NonTransitiveTwoOctetExtendedCommunitySubType_try_from sub_type of
            Inr code \<Rightarrow> NonTransitiveTwoOctetExtendedCommunity_of_code code global_admin local_admin
          | Inl _ \<Rightarrow> NT2_Unassigned sub_type global_admin local_admin))))"

fun TransitiveIpv4ExtendedCommunity_of_code :: "TransitiveIpv4ExtendedCommunitySubType \<Rightarrow> ipv4addr \<Rightarrow> u16 \<Rightarrow> TransitiveIpv4ExtendedCommunity" where
  "TransitiveIpv4ExtendedCommunity_of_code TI4S_RouteTarget = TI4_RouteTarget"
| "TransitiveIpv4ExtendedCommunity_of_code TI4S_RouteOrigin = TI4_RouteOrigin"
| "TransitiveIpv4ExtendedCommunity_of_code TI4S_Ipv4Ifit = TI4_Ipv4Ifit"
| "TransitiveIpv4ExtendedCommunity_of_code TI4S_OspfDomainIdentifier = TI4_OspfDomainIdentifier"
| "TransitiveIpv4ExtendedCommunity_of_code TI4S_OspfRouteID = TI4_OspfRouteID"
| "TransitiveIpv4ExtendedCommunity_of_code TI4S_NodeTarget = TI4_NodeTarget"
| "TransitiveIpv4ExtendedCommunity_of_code TI4S_L2VpnIdentifier = TI4_L2VpnIdentifier"
| "TransitiveIpv4ExtendedCommunity_of_code TI4S_VrfRouteImport = TI4_VrfRouteImport"
| "TransitiveIpv4ExtendedCommunity_of_code TI4S_FlowSpecRedirectToIpv4 = TI4_FlowSpecRedirectToIpv4"
| "TransitiveIpv4ExtendedCommunity_of_code TI4S_CiscoVpnDistinguisher = TI4_CiscoVpnDistinguisher"
| "TransitiveIpv4ExtendedCommunity_of_code TI4S_InterAreaP2MpSegmentedNextHop = TI4_InterAreaP2MpSegmentedNextHop"
| "TransitiveIpv4ExtendedCommunity_of_code TI4S_RouteTargetRecord = TI4_RouteTargetRecord"
| "TransitiveIpv4ExtendedCommunity_of_code TI4S_VrfRecursiveNextHop = TI4_VrfRecursiveNextHop"
| "TransitiveIpv4ExtendedCommunity_of_code TI4S_RtDerivedEc = TI4_RtDerivedEc"
| "TransitiveIpv4ExtendedCommunity_of_code TI4S_MulticastVpnRpAddress = TI4_MulticastVpnRpAddress"

definition TransitiveIpv4ExtendedCommunity_from_wire :: "(unit, TransitiveIpv4ExtendedCommunity) parser" where
  "TransitiveIpv4ExtendedCommunity_from_wire =
     parse_bind (be_u8 ()) (\<lambda>sub_type. parse_bind (be_u32 ()) (\<lambda>global_admin. parse_bind (be_u16 ()) (\<lambda>local_admin.
       parse_return
         (case TransitiveIpv4ExtendedCommunitySubType_try_from sub_type of
            Inr code \<Rightarrow> TransitiveIpv4ExtendedCommunity_of_code code global_admin local_admin
          | Inl _ \<Rightarrow> TI4_Unassigned sub_type global_admin local_admin))))"

definition NonTransitiveIpv4ExtendedCommunity_from_wire :: "(unit, NonTransitiveIpv4ExtendedCommunity) parser" where
  "NonTransitiveIpv4ExtendedCommunity_from_wire =
     parse_bind (be_u8 ()) (\<lambda>sub_type. parse_bind (be_u32 ()) (\<lambda>global_admin. parse_bind (be_u16 ()) (\<lambda>local_admin.
       parse_return (NTI4_Unassigned sub_type global_admin local_admin))))"

fun TransitiveFourOctetExtendedCommunity_of_code :: "TransitiveFourOctetExtendedCommunitySubType \<Rightarrow> u32 \<Rightarrow> u16 \<Rightarrow> TransitiveFourOctetExtendedCommunity" where
  "TransitiveFourOctetExtendedCommunity_of_code T4S_RouteTarget = T4_RouteTarget"
| "TransitiveFourOctetExtendedCommunity_of_code T4S_RouteOrigin = T4_RouteOrigin"
| "TransitiveFourOctetExtendedCommunity_of_code T4S_OspfDomainIdentifier = T4_OspfDomainIdentifier"
| "TransitiveFourOctetExtendedCommunity_of_code T4S_BgpDataCollection = T4_BgpDataCollection"
| "TransitiveFourOctetExtendedCommunity_of_code T4S_SourceAs = T4_SourceAs"
| "TransitiveFourOctetExtendedCommunity_of_code T4S_CiscoVpnDistinguisher = T4_CiscoVpnDistinguisher"
| "TransitiveFourOctetExtendedCommunity_of_code T4S_RouteTargetRecord = T4_RouteTargetRecord"
| "TransitiveFourOctetExtendedCommunity_of_code T4S_RtDerivedEc = T4_RtDerivedEc"

definition TransitiveFourOctetExtendedCommunity_from_wire :: "(unit, TransitiveFourOctetExtendedCommunity) parser" where
  "TransitiveFourOctetExtendedCommunity_from_wire =
     parse_bind (be_u8 ()) (\<lambda>sub_type. parse_bind (be_u32 ()) (\<lambda>global_admin. parse_bind (be_u16 ()) (\<lambda>local_admin.
       parse_return
         (case TransitiveFourOctetExtendedCommunitySubType_try_from sub_type of
            Inr code \<Rightarrow> TransitiveFourOctetExtendedCommunity_of_code code global_admin local_admin
          | Inl _ \<Rightarrow> T4_Unassigned sub_type global_admin local_admin))))"

definition NonTransitiveFourOctetExtendedCommunity_from_wire :: "(unit, NonTransitiveFourOctetExtendedCommunity) parser" where
  "NonTransitiveFourOctetExtendedCommunity_from_wire =
     parse_bind (be_u8 ()) (\<lambda>sub_type. parse_bind (be_u32 ()) (\<lambda>global_admin. parse_bind (be_u16 ()) (\<lambda>local_admin.
       parse_return (NT4_Unassigned sub_type global_admin local_admin))))"

fun TransitiveIpv6ExtendedCommunity_of_code :: "TransitiveIpv6ExtendedCommunitySubType \<Rightarrow> ipv6addr \<Rightarrow> u16 \<Rightarrow> TransitiveIpv6ExtendedCommunity" where
  "TransitiveIpv6ExtendedCommunity_of_code TI6S_RouteTarget = TI6_RouteTarget"
| "TransitiveIpv6ExtendedCommunity_of_code TI6S_RouteOrigin = TI6_RouteOrigin"
| "TransitiveIpv6ExtendedCommunity_of_code TI6S_Ipv6Ifit = TI6_Ipv6Ifit"
| "TransitiveIpv6ExtendedCommunity_of_code TI6S_VrfRouteImport = TI6_VrfRouteImport"
| "TransitiveIpv6ExtendedCommunity_of_code TI6S_FlowSpecRedirectToIpv6 = TI6_FlowSpecRedirectToIpv6"
| "TransitiveIpv6ExtendedCommunity_of_code TI6S_FlowSpecRtRedirectToIpv6 = TI6_FlowSpecRtRedirectToIpv6"
| "TransitiveIpv6ExtendedCommunity_of_code TI6S_CiscoVpnDistinguisher = TI6_CiscoVpnDistinguisher"
| "TransitiveIpv6ExtendedCommunity_of_code TI6S_InterAreaP2MpSegmentedNextHop = TI6_InterAreaP2MpSegmentedNextHop"
| "TransitiveIpv6ExtendedCommunity_of_code TI6S_RtDerivedEc = TI6_RtDerivedEc"

definition TransitiveIpv6ExtendedCommunity_from_wire :: "(unit, TransitiveIpv6ExtendedCommunity) parser" where
  "TransitiveIpv6ExtendedCommunity_from_wire =
     parse_bind (be_u8 ()) (\<lambda>sub_type. parse_bind (be_u128 ()) (\<lambda>global_admin. parse_bind (be_u16 ()) (\<lambda>local_admin.
       parse_return
         (case TransitiveIpv6ExtendedCommunitySubType_try_from sub_type of
            Inr code \<Rightarrow> TransitiveIpv6ExtendedCommunity_of_code code global_admin local_admin
          | Inl _ \<Rightarrow> TI6_Unassigned sub_type global_admin local_admin))))"

definition NonTransitiveIpv6ExtendedCommunity_from_wire :: "(unit, NonTransitiveIpv6ExtendedCommunity) parser" where
  "NonTransitiveIpv6ExtendedCommunity_from_wire =
     parse_bind (be_u8 ()) (\<lambda>sub_type. parse_bind (be_u128 ()) (\<lambda>global_admin. parse_bind (be_u16 ()) (\<lambda>local_admin.
       parse_return (NTI6_Unassigned sub_type global_admin local_admin))))"

definition TransitiveOpaqueExtendedCommunity_from_wire :: "(unit, TransitiveOpaqueExtendedCommunity) parser" where
  "TransitiveOpaqueExtendedCommunity_from_wire =
     parse_bind (be_u8 ()) (\<lambda>sub_type.
       case TransitiveOpaqueExtendedCommunitySubType_try_from sub_type of
         Inr TOS_DefaultGateway \<Rightarrow>
           parse_bind (be_u16 ()) (\<lambda>_. parse_bind (be_u32 ()) (\<lambda>_. parse_return TO_DefaultGateway))
       | Inl _ \<Rightarrow>
           parse_bind (be_u16 ()) (\<lambda>p1. parse_bind (be_u32 ()) (\<lambda>p2.
             parse_return (TO_Unassigned sub_type (to_be_bytes p1 @ to_be_bytes p2)))))"

definition NonTransitiveOpaqueExtendedCommunity_from_wire :: "(unit, NonTransitiveOpaqueExtendedCommunity) parser" where
  "NonTransitiveOpaqueExtendedCommunity_from_wire =
     parse_bind (be_u8 ()) (\<lambda>sub_type. parse_bind (take_bytes () 6) (\<lambda>val. parse_return (NTO_Unassigned sub_type val)))"

definition MacAddress_from_wire :: "(unit, MacAddress) parser" where
  "MacAddress_from_wire = take_bytes () 6"

text \<open>
  The six octets \<open>[p1[0], p1[1], p1[2], p1[2], p2[0], p2[1]]\<close> that the reader of Ethernet VPN communities
  makes of a word of four and one of two octets: the third one is taken twice and the fourth is lost.
\<close>

definition six_octets :: "u32 \<Rightarrow> u16 \<Rightarrow> bytes" where
  "six_octets p1 p2 =
     [to_be_bytes p1 ! 0, to_be_bytes p1 ! 1, to_be_bytes p1 ! 2, to_be_bytes p1 ! 2, to_be_bytes p2 ! 0, to_be_bytes p2 ! 1]"

definition EvpnExtendedCommunity_from_wire :: "(unit, EvpnExtendedCommunity) parser" where
  "EvpnExtendedCommunity_from_wire =
     parse_bind (be_u8 ()) (\<lambda>sub_type.
       case EvpnExtendedCommunitySubType_try_from sub_type of
         Inr EVS_MacMobility \<Rightarrow>
           parse_bind (be_u8 ()) (\<lambda>flags. parse_bind (be_u8 ()) (\<lambda>_. parse_bind (be_u32 ()) (\<lambda>seq_no.
             parse_return (EV_MacMobility flags seq_no))))
       | Inr EVS_EsiLabel \<Rightarrow>
           parse_bind (be_u8 ()) (\<lambda>flags. parse_bind (be_u16 ()) (\<lambda>_.
           parse_bind (be_u16 ()) (\<lambda>p1. parse_bind (be_u8 ()) (\<lambda>p2.
             parse_return (EV_EsiLabel flags (to_be_bytes p1 @ [p2]))))))
       | Inr EVS_EsImportRouteTarget \<Rightarrow>
           parse_bind (be_u32 ()) (\<lambda>p1. parse_bind (be_u16 ()) (\<lambda>p2. parse_return (EV_EsImportRouteTarget (six_octets p1 p2))))
       | Inr EVS_EvpnRoutersMac \<Rightarrow> parse_bind MacAddress_from_wire (\<lambda>mac. parse_return (EV_EvpnRoutersMac mac))
       | Inr EVS_EvpnL2Attribute \<Rightarrow>
           parse_bind (be_u16 ()) (\<lambda>control_flags. parse_bind (be_u16 ()) (\<lambda>l2_mtu. parse_bind (be_u16 ()) (\<lambda>_.
             parse_return (EV_EvpnL2Attribute control_flags l2_mtu))))
       | _ \<Rightarrow>
           parse_bind (be_u32 ()) (\<lambda>p1. parse_bind (be_u16 ()) (\<lambda>p2. parse_return (EV_Unassigned sub_type (six_octets p1 p2)))))"

definition ExperimentalExtendedCommunity_from_wire :: "u8 \<Rightarrow> (unit, ExperimentalExtendedCommunity) parser" where
  "ExperimentalExtendedCommunity_from_wire code =
     parse_bind (be_u8 ()) (\<lambda>sub_type. parse_bind (take_bytes () 6) (\<lambda>val.
       parse_return \<lparr> uc_code = code, uc_sub_type = sub_type, uc_value = val \<rparr>))"

definition UnknownExtendedCommunity_from_wire :: "u8 \<Rightarrow> (unit, UnknownExtendedCommunity) parser" where
  "UnknownExtendedCommunity_from_wire code =
     parse_bind (be_u8 ()) (\<lambda>sub_type. parse_bind (take_bytes () 6) (\<lambda>val.
       parse_return \<lparr> uc_code = code, uc_sub_type = sub_type, uc_value = val \<rparr>))"

definition UnknownExtendedCommunityIpv6_from_wire :: "u8 \<Rightarrow> (unit, UnknownExtendedCommunityIpv6) parser" where
  "UnknownExtendedCommunityIpv6_from_wire code =
     parse_bind (be_u8 ()) (\<lambda>sub_type. parse_bind (take_bytes () 18) (\<lambda>val.
       parse_return \<lparr> uc_code = code, uc_sub_type = sub_type, uc_value = val \<rparr>))"

definition parsed_as :: "('a \<Rightarrow> 'b) \<Rightarrow> (unit, 'a) parser \<Rightarrow> (unit, 'b) parser" where
  "parsed_as mk p = parse_bind p (\<lambda>a. parse_return (mk a))"

text \<open>The arms of the match on the type; the other defined types are experimental.\<close>

definition ext_community_value :: "u8 \<Rightarrow> BgpExtendedCommunityType \<Rightarrow> (unit, ExtendedCommunity) parser" where
  "ext_community_value code t =
     (case t of
        ECT_TransitiveTwoOctet \<Rightarrow> parsed_as EC_TransitiveTwoOctet TransitiveTwoOctetExtendedCommunity_from_wire
      | ECT_NonTransitiveTwoOctet \<Rightarrow> parsed_as EC_NonTransitiveTwoOctet NonTransitiveTwoOctetExtendedCommunity_from_wire
      | ECT_TransitiveIpv4 \<Rightarrow> parsed_as EC_TransitiveIpv4 TransitiveIpv4ExtendedCommunity_from_wire
      | ECT_NonTransitiveIpv4 \<Rightarrow> parsed_as EC_NonTransitiveIpv4 NonTransitiveIpv4ExtendedCommunity_from_wire
      | ECT_TransitiveFourOctet \<Rightarrow> parsed_as EC_TransitiveFourOctet TransitiveFourOctetExtendedCommunity_from_wire
      | ECT_NonTransitiveFourOctet \<Rightarrow> parsed_as EC_NonTransitiveFourOctet NonTransitiveFourOctetExtendedCommunity_from_wire
      | ECT_TransitiveOpaque \<Rightarrow> parsed_as EC_TransitiveOpaque TransitiveOpaqueExtendedCommunity_from_wire
      | ECT_NonTransitiveOpaque \<Rightarrow> parsed_as EC_NonTransitiveOpaque NonTransitiveOpaqueExtendedCommunity_from_wire
      | ECT_Evpn \<Rightarrow> parsed_as EC_Evpn EvpnExtendedCommunity_from_wire
      | ECT_TransitiveQosMarking \<Rightarrow> parsed_as EC_Unknown (UnknownExtendedCommunity_from_wire code)
      | ECT_NonTransitiveQosMarking \<Rightarrow> parsed_as EC_Unknown (UnknownExtendedCommunity_from_wire code)
      | ECT_CosCapability \<Rightarrow> parsed_as EC_Unknown (UnknownExtendedCommunity_from_wire code)
      | ECT_FlowSpecNextHop \<Rightarrow> parsed_as EC_Unknown (UnknownExtendedCommunity_from_wire code)
      | ECT_FlowSpecIndirectionId \<Rightarrow> parsed_as EC_Unknown (UnknownExtendedCommunity_from_wire code)
      | ECT_TransitiveTransportClass \<Rightarrow> parsed_as EC_Unknown (UnknownExtendedCommunity_from_wire code)
      | ECT_NonTransitiveTransportClass \<Rightarrow> parsed_as EC_Unknown (UnknownExtendedCommunity_from_wire code)
      | ECT_ServiceFunctionChain \<Rightarrow> parsed_as EC_Unknown (UnknownExtendedCommunity_from_wire code)
      | ECT_Srv6MobileUserPlane \<Rightarrow> parsed_as EC_Unknown (UnknownExtendedCommunity_from_wire code)
      | ECT_GenericPart1 \<Rightarrow> parsed_as EC_Unknown (UnknownExtendedCommunity_from_wire code)
      | ECT_GenericPart2 \<Rightarrow> parsed_as EC_Unknown (UnknownExtendedCommunity_from_wire code)
      | ECT_GenericPart3 \<Rightarrow> parsed_as EC_Unknown (UnknownExtendedCommunity_from_wire code)
      | _ \<Rightarrow> parsed_as EC_Experimental (ExperimentalExtendedCommunity_from_wire code))"

definition ExtendedCommunity_from_wire :: "(unit, ExtendedCommunity) parser" where
  "ExtendedCommunity_from_wire =
     parse_bind (be_u8 ()) (\<lambda>code.
       case BgpExtendedCommunityType_try_from code of
         Inr t \<Rightarrow> ext_community_value code t
       | Inl err \<Rightarrow> parsed_as EC_Unknown (UnknownExtendedCommunity_from_wire err))"

definition ExtendedCommunityIpv6_from_wire :: "(unit, ExtendedCommunityIpv6) parser" where
  "ExtendedCommunityIpv6_from_wire =
     parse_bind (be_u8 ()) (\<lambda>code.
       case BgpExtendedCommunityIpv6Type_try_from code of
         Inr EC6T_TransitiveIpv6 \<Rightarrow> parsed_as EC6_TransitiveIpv6 TransitiveIpv6ExtendedCommunity_from_wire
       | Inr EC6T_NonTransitiveIpv6 \<Rightarrow> parsed_as EC6_NonTransitiveIpv6 NonTransitiveIpv6ExtendedCommunity_from_wire
       | Inl err \<Rightarrow> parsed_as EC6_Unknown (UnknownExtendedCommunityIpv6_from_wire err))"

section \<open>Writers\<close>

fun TransitiveTwoOctetExtendedCommunity_write :: "TransitiveTwoOctetExtendedCommunity \<Rightarrow> bytes" where
  "TransitiveTwoOctetExtendedCommunity_write (T2_RouteTarget g l) = [TransitiveTwoOctetExtendedCommunitySubType_into_u8 T2S_RouteTarget] @ to_be_bytes g @ to_be_bytes l"
| "TransitiveTwoOctetExtendedCommunity_write (T2_RouteOrigin g l) = [TransitiveTwoOctetExtendedCommunitySubType_into_u8 T2S_RouteOrigin] @ to_be_bytes g @ to_be_bytes l"
| "TransitiveTwoOctetExtendedCommunity_write (T2_OspfDomainIdentifier g l) = [TransitiveTwoOctetExtendedCommunitySubType_into_u8 T2S_OspfDomainIdentifier] @ to_be_bytes g @ to_be_bytes l"
| "TransitiveTwoOctetExtendedCommunity_write (T2_BgpDataCollection g l) = [TransitiveTwoOctetExtendedCommunitySubType_into_u8 T2S_BgpDataCollection] @ to_be_bytes g @ to_be_bytes l"
| "TransitiveTwoOctetExtendedCommunity_write (T2_SourceAs g l) = [TransitiveTwoOctetExtendedCommunitySubType_into_u8 T2S_RouteTarget] @ to_be_bytes g @ to_be_bytes l"
| "TransitiveTwoOctetExtendedCommunity_write (T2_L2VpnIdentifier g l) = [TransitiveTwoOctetExtendedCommunitySubType_into_u8 T2S_L2VpnIdentifier] @ to_be_bytes g @ to_be_bytes l"
| "TransitiveTwoOctetExtendedCommunity_write (T2_CiscoVpnDistinguisher g l) = [TransitiveTwoOctetExtendedCommunitySubType_into_u8 T2S_CiscoVpnDistinguisher] @ to_be_bytes g @ to_be_bytes l"
| "TransitiveTwoOctetExtendedCommunity_write (T2_RouteTargetRecord g l) = [TransitiveTwoOctetExtendedCommunitySubType_into_u8 T2S_RouteTargetRecord] @ to_be_bytes g @ to_be_bytes l"
| "TransitiveTwoOctetExtendedCommunity_write (T2_RtDerivedEc g l) = [TransitiveTwoOctetExtendedCommunitySubType_into_u8 T2S_RtDerivedEc] @ to_be_bytes g @ to_be_bytes l"
| "TransitiveTwoOctetExtendedCommunity_write (T2_VirtualNetworkIdentifier g l) = [TransitiveTwoOctetExtendedCommunitySubType_into_u8 T2S_VirtualNetworkIdentifier] @ to_be_bytes g @ to_be_bytes l"
| "TransitiveTwoOctetExtendedCommunity_write (T2_Unassigned sub_type g l) = [sub_type] @ to_be_bytes g @ to_be_bytes l"

fun NonTransitiveTwoOctetExtendedCommunity_write :: "NonTransitiveTwoOctetExtendedCommunity \<Rightarrow> bytes" where
  "NonTransitiveTwoOctetExtendedCommunity_write (NT2_LinkBandwidth g l) = [NonTransitiveTwoOctetExtendedCommunitySubType_into_u8 NT2S_LinkBandwidth] @ to_be_bytes g @ to_be_bytes l"
| "NonTransitiveTwoOctetExtendedCommunity_write (NT2_VirtualNetworkIdentifier g l) = [NonTransitiveTwoOctetExtendedCommunitySubType_into_u8 NT2S_VirtualNetworkIdentifier] @ to_be_bytes g @ to_be_bytes l"
| "NonTransitiveTwoOctetExtendedCommunity_write (NT2_Unassigned sub_type g l) = [sub_type] @ to_be_bytes g @ to_be_bytes l"

fun TransitiveIpv4ExtendedCommunity_write :: "TransitiveIpv4ExtendedCommunity \<Rightarrow> bytes" where
  "TransitiveIpv4ExtendedCommunity_write (TI4_RouteTarget g l) = [TransitiveIpv4ExtendedCommunitySubType_into_u8 TI4S_RouteTarget] @ to_be_bytes g @ to_be_bytes l"
| "TransitiveIpv4ExtendedCommunity_write (TI4_RouteOrigin g l) = [TransitiveIpv4ExtendedCommunitySubType_into_u8 TI4S_RouteOrigin] @ to_be_bytes g @ to_be_bytes l"
| "TransitiveIpv4ExtendedCommunity_write (TI4_Ipv4Ifit g l) = [TransitiveIpv4ExtendedCommunitySubType_into_u8 TI4S_Ipv4Ifit] @ to_be_bytes g @ to_be_bytes l"
| "TransitiveIpv4ExtendedCommunity_write (TI4_OspfDomainIdentifier g l) = [TransitiveIpv4ExtendedCommunitySubType_into_u8 TI4S_OspfDomainIdentifier] @ to_be_bytes g @ to_be_bytes l"
| "TransitiveIpv4ExtendedCommunity_write (TI4_OspfRouteID g l) = [TransitiveIpv4ExtendedCommunitySubType_into_u8 TI4S_OspfRouteID] @ to_be_bytes g @ to_be_bytes l"
| "TransitiveIpv4ExtendedCommunity_write (TI4_NodeTarget g l) = [TransitiveIpv4ExtendedCommunitySubType_into_u8 TI4S_NodeTarget] @ to_be_bytes g @ to_be_bytes l"
| "TransitiveIpv4ExtendedCommunity_write (TI4_L2VpnIdentifier g l) = [TransitiveIpv4ExtendedCommunitySubType_into_u8 TI4S_L2VpnIdentifier] @ to_be_bytes g @ to_be_bytes l"
| "TransitiveIpv4ExtendedCommunity_write (TI4_VrfRouteImport g l) = [TransitiveIpv4ExtendedCommunitySubType_into_u8 TI4S_VrfRouteImport] @ to_be_bytes g @ to_be_bytes l"
| "TransitiveIpv4ExtendedCommunity_write (TI4_FlowSpecRedirectToIpv4 g l) = [TransitiveIpv4ExtendedCommunitySubType_into_u8 TI4S_FlowSpecRedirectToIpv4] @ to_be_bytes g @ to_be_bytes l"
| "TransitiveIpv4ExtendedCommunity_write (TI4_CiscoVpnDistinguisher g l) = [TransitiveIpv4ExtendedCommunitySubType_into_u8 TI4S_CiscoVpnDistinguisher] @ to_be_bytes g @ to_be_bytes l"
| "TransitiveIpv4ExtendedCommunity_write (TI4_InterAreaP2MpSegmentedNextHop g l) = [TransitiveIpv4ExtendedCommunitySubType_into_u8 TI4S_InterAreaP2MpSegmentedNextHop] @ to_be_bytes g @ to_be_bytes l"
| "TransitiveIpv4ExtendedCommunity_write (TI4_RouteTargetRecord g l) = [TransitiveIpv4ExtendedCommunitySubType_into_u8 TI4S_RouteTargetRecord] @ to_be_bytes g @ to_be_bytes l"
| "TransitiveIpv4ExtendedCommunity_write (TI4_VrfRecursiveNextHop g l) = [TransitiveIpv4ExtendedCommunitySubType_into_u8 TI4S_VrfRecursiveNextHop] @ to_be_bytes g @ to_be_bytes l"
| "TransitiveIpv4ExtendedCommunity_write (TI4_RtDerivedEc g l) = [TransitiveIpv4ExtendedCommunitySubType_into_u8 TI4S_RtDerivedEc] @ to_be_bytes g @ to_be_bytes l"
| "TransitiveIpv4ExtendedCommunity_write (TI4_MulticastVpnRpAddress g l) = [TransitiveIpv4ExtendedCommunitySubType_into_u8 TI4S_MulticastVpnRpAddress] @ to_be_bytes g @ to_be_bytes l"
| "TransitiveIpv4ExtendedCommunity_write (TI4_Unassigned sub_type g l) = [sub_type] @ to_be_bytes g @ to_be_bytes l"

fun NonTransitiveIpv4ExtendedCommunity_write :: "NonTransitiveIpv4ExtendedCommunity \<Rightarrow> bytes" where
  "NonTransitiveIpv4ExtendedCommunity_write (NTI4_Unassigned sub_type g l) = [sub_type] @ to_be_bytes g @ to_be_bytes l"

fun TransitiveFourOctetExtendedCommunity_write :: "TransitiveFourOctetExtendedCommunity \<Rightarrow> bytes" where
  "TransitiveFourOctetExtendedCommunity_write (T4_RouteTarget g l) = [TransitiveFourOctetExtendedCommunitySubType_into_u8 T4S_RouteTarget] @ to_be_bytes g @ to_be_bytes l"
| "TransitiveFourOctetExtendedCommunity_write (T4_RouteOrigin g l) = [TransitiveFourOctetExtendedCommunitySubType_into_u8 T4S_RouteOrigin] @ to_be_bytes g @ to_be_bytes l"
| "TransitiveFourOctetExtendedCommunity_write (T4_OspfDomainIdentifier g l) = [TransitiveFourOctetExtendedCommunitySubType_into_u8 T4S_OspfDomainIdentifier] @ to_be_bytes g @ to_be_bytes l"
| "TransitiveFourOctetExtendedCommunity_write (T4_BgpDataCollection g l) = [TransitiveFourOctetExtendedCommunitySubType_into_u8 T4S_BgpDataCollection] @ to_be_bytes g @ to_be_bytes l"
| "TransitiveFourOctetExtendedCommunity_write (T4_SourceAs g l) = [TransitiveFourOctetExtendedCommunitySubType_into_u8 T4S_RouteTarget] @ to_be_bytes g @ to_be_bytes l"
| "TransitiveFourOctetExtendedCommunity_write (T4_CiscoVpnDistinguisher g l) = [TransitiveFourOctetExtendedCommunitySubType_into_u8 T4S_CiscoVpnDistinguisher] @ to_be_bytes g @ to_be_bytes l"
| "TransitiveFourOctetExtendedCommunity_write (T4_RouteTargetRecord g l) = [TransitiveFourOctetExtendedCommunitySubType_into_u8 T4S_RouteTargetRecord] @ to_be_bytes g @ to_be_bytes l"
| "TransitiveFourOctetExtendedCommunity_write (T4_RtDerivedEc g l) = [TransitiveTwoOctetExtendedCommunitySubType_into_u8 T2S_RtDerivedEc] @ to_be_bytes g @ to_be_bytes l"
| "TransitiveFourOctetExtendedCommunity_write (T4_Unassigned sub_type g l) = [sub_type] @ to_be_bytes g @ to_be_bytes l"

fun NonTransitiveFourOctetExtendedCommunity_write :: "NonTransitiveFourOctetExtendedCommunity \<Rightarrow> bytes" where
  "NonTransitiveFourOctetExtendedCommunity_write (NT4_Unassigned sub_type g l) = [sub_type] @ to_be_bytes g @ to_be_bytes l"

fun TransitiveIpv6ExtendedCommunity_write :: "TransitiveIpv6ExtendedCommunity \<Rightarrow> bytes" where
  "TransitiveIpv6ExtendedCommunity_write (TI6_RouteTarget g l) = [TransitiveIpv6ExtendedCommunitySubType_into_u8 TI6S_RouteTarget] @ to_be_bytes g @ to_be_bytes l"
| "TransitiveIpv6ExtendedCommunity_write (TI6_RouteOrigin g l) = [TransitiveIpv6ExtendedCommunitySubType_into_u8 TI6S_RouteOrigin] @ to_be_bytes g @ to_be_bytes l"
| "TransitiveIpv6ExtendedCommunity_write (TI6_Ipv6Ifit g l) = [TransitiveIpv6ExtendedCommunitySubType_into_u8 TI6S_Ipv6Ifit] @ to_be_bytes g @ to_be_bytes l"
| "TransitiveIpv6ExtendedCommunity_write (TI6_VrfRouteImport g l) = [TransitiveIpv4ExtendedCommunitySubType_into_u8 TI4S_VrfRouteImport] @ to_be_bytes g @ to_be_bytes l"
| "TransitiveIpv6ExtendedCommunity_write (TI6_FlowSpecRedirectToIpv6 g l) = [TransitiveIpv6ExtendedCommunitySubType_into_u8 TI6S_FlowSpecRedirectToIpv6] @ to_be_bytes g @ to_be_bytes l"
| "TransitiveIpv6ExtendedCommunity_write (TI6_FlowSpecRtRedirectToIpv6 g l) = [TransitiveIpv6ExtendedCommunitySubType_into_u8 TI6S_FlowSpecRtRedirectToIpv6] @ to_be_bytes g @ to_be_bytes l"
| "TransitiveIpv6ExtendedCommunity_write (TI6_CiscoVpnDistinguisher g l) = [TransitiveIpv6ExtendedCommunitySubType_into_u8 TI6S_CiscoVpnDistinguisher] @ to_be_bytes g @ to_be_bytes l"
| "TransitiveIpv6ExtendedCommunity_write (TI6_InterAreaP2MpSegmentedNextHop g l) = [TransitiveIpv6ExtendedCommunitySubType_into_u8 TI6S_InterAreaP2MpSegmentedNextHop] @ to_be_bytes g @ to_be_bytes l"
| "TransitiveIpv6ExtendedCommunity_write (TI6_RtDerivedEc g l) = [TransitiveIpv6ExtendedCommunitySubType_into_u8 TI6S_RtDerivedEc] @ to_be_bytes g @ to_be_bytes l"
| "TransitiveIpv6ExtendedCommunity_write (TI6_Unassigned sub_type g l) = [sub_type] @ to_be_bytes g @ to_be_bytes l"

fun NonTransitiveIpv6ExtendedCommunity_write :: "NonTransitiveIpv6ExtendedCommunity \<Rightarrow> bytes" where
  "NonTransitiveIpv6ExtendedCommunity_write (NTI6_Unassigned sub_type g l) = [sub_type] @ to_be_bytes g @ to_be_bytes l"

fun TransitiveOpaqueExtendedCommunity_write :: "TransitiveOpaqueExtendedCommunity \<Rightarrow> bytes" where
  "TransitiveOpaqueExtendedCommunity_write TO_DefaultGateway =
     [TransitiveOpaqueExtendedCommunitySubType_into_u8 TOS_DefaultGateway] @ to_be_bytes (0 :: u16) @ to_be_bytes (0 :: u32)"
| "TransitiveOpaqueExtendedCommunity_write (TO_Unassigned sub_type val) = [sub_type] @ val"

fun NonTransitiveOpaqueExtendedCommunity_write :: "NonTransitiveOpaqueExtendedCommunity \<Rightarrow> bytes" where
  "NonTransitiveOpaqueExtendedCommunity_write (NTO_Unassigned sub_type val) = [sub_type] @ val"

fun EvpnExtendedCommunity_write :: "EvpnExtendedCommunity \<Rightarrow> bytes" where
  "EvpnExtendedCommunity_write (EV_MacMobility flags seq_no) =
     [EvpnExtendedCommunitySubType_into_u8 EVS_MacMobility, flags, 0] @ to_be_bytes seq_no"
| "EvpnExtendedCommunity_write (EV_EsiLabel flags esi_label) =
     [EvpnExtendedCommunitySubType_into_u8 EVS_EsiLabel, flags] @ to_be_bytes (0 :: u16) @ esi_label"
| "EvpnExtendedCommunity_write (EV_EsImportRouteTarget route_target) =
     [EvpnExtendedCommunitySubType_into_u8 EVS_EsImportRouteTarget] @ route_target"
| "EvpnExtendedCommunity_write (EV_EvpnRoutersMac mac) = [EvpnExtendedCommunitySubType_into_u8 EVS_EvpnRoutersMac] @ mac"
| "EvpnExtendedCommunity_write (EV_EvpnL2Attribute control_flags l2_mtu) =
     [EvpnExtendedCommunitySubType_into_u8 EVS_EvpnL2Attribute] @ to_be_bytes control_flags @ to_be_bytes l2_mtu @ to_be_bytes (0 :: u16)"
| "EvpnExtendedCommunity_write (EV_Unassigned sub_type val) = [sub_type] @ val"

definition UnknownExtendedCommunity_write :: "UnknownExtendedCommunity \<Rightarrow> bytes" where
  "UnknownExtendedCommunity_write c = [uc_sub_type c] @ uc_value c"

fun ExtendedCommunity_write :: "ExtendedCommunity \<Rightarrow> bytes" where
  "ExtendedCommunity_write (EC_TransitiveTwoOctet val) = [BgpExtendedCommunityType_into_u8 ECT_TransitiveTwoOctet] @ TransitiveTwoOctetExtendedCommunity_write val"
| "ExtendedCommunity_write (EC_NonTransitiveTwoOctet val) = [BgpExtendedCommunityType_into_u8 ECT_NonTransitiveTwoOctet] @ NonTransitiveTwoOctetExtendedCommunity_write val"
| "ExtendedCommunity_write (EC_TransitiveIpv4 val) = [BgpExtendedCommunityType_into_u8 ECT_TransitiveIpv4] @ TransitiveIpv4ExtendedCommunity_write val"
| "ExtendedCommunity_write (EC_NonTransitiveIpv4 val) = [BgpExtendedCommunityType_into_u8 ECT_NonTransitiveIpv4] @ NonTransitiveIpv4ExtendedCommunity_write val"
| "ExtendedCommunity_write (EC_TransitiveFourOctet val) = [BgpExtendedCommunityType_into_u8 ECT_TransitiveFourOctet] @ TransitiveFourOctetExtendedCommunity_write val"
| "ExtendedCommunity_write (EC_NonTransitiveFourOctet val) = [BgpExtendedCommunityType_into_u8 ECT_NonTransitiveFourOctet] @ NonTransitiveFourOctetExtendedCommunity_write val"
| "ExtendedCommunity_write (EC_TransitiveOpaque val) = [BgpExtendedCommunityType_into_u8 ECT_TransitiveOpaque] @ TransitiveOpaqueExtendedCommunity_write val"
| "ExtendedCommunity_write (EC_NonTransitiveOpaque val) = [BgpExtendedCommunityType_into_u8 ECT_NonTransitiveOpaque] @ NonTransitiveOpaqueExtendedCommunity_write val"
| "ExtendedCommunity_write (EC_Evpn val) = [BgpExtendedCommunityType_into_u8 ECT_Evpn] @ EvpnExtendedCommunity_write val"
| "ExtendedCommunity_write (EC_Experimental val) = [uc_code val] @ UnknownExtendedCommunity_write val"
| "ExtendedCommunity_write (EC_Unknown val) = [uc_code val] @ UnknownExtendedCommunity_write val"

fun ExtendedCommunityIpv6_write :: "ExtendedCommunityIpv6 \<Rightarrow> bytes" where
  "ExtendedCommunityIpv6_write (EC6_TransitiveIpv6 val) =
     [BgpExtendedCommunityIpv6Type_into_u8 EC6T_TransitiveIpv6] @ TransitiveIpv6ExtendedCommunity_write val"
| "ExtendedCommunityIpv6_write (EC6_NonTransitiveIpv6 val) =
     [BgpExtendedCommunityIpv6Type_into_u8 EC6T_NonTransitiveIpv6] @ NonTransitiveIpv6ExtendedCommunity_write val"
| "ExtendedCommunityIpv6_write (EC6_Unknown val) = [uc_code val] @ UnknownExtendedCommunity_write val"

text \<open>Every kind of value has seven octets with its subtype, or nineteen for IPv6.\<close>

definition ExtendedCommunity_len :: "ExtendedCommunity \<Rightarrow> nat" where
  "ExtendedCommunity_len c = 1 + 7"

definition ExtendedCommunityIpv6_len :: "ExtendedCommunityIpv6 \<Rightarrow> nat" where
  "ExtendedCommunityIpv6_len c = 1 + 19"

end
