(* ===== verification/Wire_Evpn.thy ===== *)
theory Wire_Evpn
  imports Wire_Labels Wire_Communities
begin

text \<open>
  Ethernet VPN routes and route target memberships on the wire (\<open>nlri.rs\<close> under
  \<open>src/netgauze/bgp-pkt/src/wire/deserializer/nlri\<close> and \<open>serializer/nlri\<close>). The source reads the
  identifiers octet by octet, which fails exactly if there are too few. As in \<open>Wire_Labels\<close>, \<open>()\<close>
  stands for the error of a reader.
\<close>

section \<open>Readers\<close>

definition EthernetSegmentIdentifier_from_wire :: "(unit, EthernetSegmentIdentifier) parser" where
  "EthernetSegmentIdentifier_from_wire = take_bytes () 10"

definition EthernetTag_from_wire :: "(unit, EthernetTag) parser" where
  "EthernetTag_from_wire = be_u32 ()"

definition EthernetAutoDiscovery_from_wire :: "(unit, EthernetAutoDiscovery) parser" where
  "EthernetAutoDiscovery_from_wire =
     parse_bind RouteDistinguisher_from_wire (\<lambda>rd.
     parse_bind EthernetSegmentIdentifier_from_wire (\<lambda>segment_id.
     parse_bind EthernetTag_from_wire (\<lambda>tag.
     parse_bind MplsLabel_from_wire (\<lambda>mpls_label.
     parse_return \<lparr> ead_rd = rd, ead_segment_id = segment_id, ead_tag = tag, ead_mpls_label = mpls_label \<rparr>))))"

text \<open>The address of a route, behind its length in bits.\<close>

definition read_ip_bits :: "(unit, IpAddr) parser" where
  "read_ip_bits =
     parse_bind (be_u8 ()) (\<lambda>ip_len.
       if ip_len = 32 then parse_bind (be_u32 ()) (\<lambda>ip. parse_return (IpV4 ip))
       else if ip_len = 128 then parse_bind (be_u128 ()) (\<lambda>ip. parse_return (IpV6 ip))
       else (\<lambda>_. Inl ()))"

definition read_optional_ip_bits :: "(unit, IpAddr option) parser" where
  "read_optional_ip_bits =
     parse_bind (be_u8 ()) (\<lambda>ip_len.
       if ip_len = 0 then parse_return None
       else if ip_len = 32 then parse_bind (be_u32 ()) (\<lambda>ip. parse_return (Some (IpV4 ip)))
       else if ip_len = 128 then parse_bind (be_u128 ()) (\<lambda>ip. parse_return (Some (IpV6 ip)))
       else (\<lambda>_. Inl ()))"

definition read_second_label :: "(unit, MplsLabel option) parser" where
  "read_second_label buf =
     (if length buf > 0 then parse_bind MplsLabel_from_wire (\<lambda>label. parse_return (Some label)) buf else Inr (None, buf))"

definition MacIpAdvertisement_from_wire :: "(unit, MacIpAdvertisement) parser" where
  "MacIpAdvertisement_from_wire =
     parse_bind RouteDistinguisher_from_wire (\<lambda>rd.
     parse_bind EthernetSegmentIdentifier_from_wire (\<lambda>segment_id.
     parse_bind EthernetTag_from_wire (\<lambda>tag.
     parse_bind (map_res (be_u8 ()) (\<lambda>mac_len. if mac_len \<noteq> 48 then Inl () else Inr mac_len)) (\<lambda>_.
     parse_bind MacAddress_from_wire (\<lambda>mac.
     parse_bind read_optional_ip_bits (\<lambda>ip.
     parse_bind MplsLabel_from_wire (\<lambda>mpls_label.
     parse_bind read_second_label (\<lambda>mpls_label2.
     parse_return \<lparr> mia_rd = rd, mia_segment_id = segment_id, mia_tag = tag, mia_mac = mac, mia_ip = ip, mia_mpls_label1 = mpls_label, mia_mpls_label2 = mpls_label2 \<rparr>))))))))"

definition InclusiveMulticastEthernetTagRoute_from_wire :: "(unit, InclusiveMulticastEthernetTagRoute) parser" where
  "InclusiveMulticastEthernetTagRoute_from_wire =
     parse_bind RouteDistinguisher_from_wire (\<lambda>rd.
     parse_bind EthernetTag_from_wire (\<lambda>tag.
     parse_bind read_ip_bits (\<lambda>ip.
     parse_return \<lparr> imr_rd = rd, imr_tag = tag, imr_ip = ip \<rparr>)))"

definition EthernetSegmentRoute_from_wire :: "(unit, EthernetSegmentRoute) parser" where
  "EthernetSegmentRoute_from_wire =
     parse_bind RouteDistinguisher_from_wire (\<lambda>rd.
     parse_bind EthernetSegmentIdentifier_from_wire (\<lambda>segment_id.
     parse_bind read_ip_bits (\<lambda>ip.
     parse_return \<lparr> esr_rd = rd, esr_segment_id = segment_id, esr_ip = ip \<rparr>)))"

definition L2EvpnIpv4PrefixRoute_from_wire :: "(unit, L2EvpnIpv4PrefixRoute) parser" where
  "L2EvpnIpv4PrefixRoute_from_wire =
     parse_bind RouteDistinguisher_from_wire (\<lambda>rd.
     parse_bind EthernetSegmentIdentifier_from_wire (\<lambda>segment_id.
     parse_bind EthernetTag_from_wire (\<lambda>tag.
     parse_bind (be_u8 ()) (\<lambda>prefix_len.
     parse_bind (map_res (be_u32 ()) (\<lambda>network. if prefix_len \<le> 32 then Inr (network, prefix_len) else Inl ())) (\<lambda>prefix.
     parse_bind (be_u32 ()) (\<lambda>gateway.
     parse_bind MplsLabel_from_wire (\<lambda>mpls_label.
     parse_return \<lparr> pr4_rd = rd, pr4_segment_id = segment_id, pr4_tag = tag, pr4_prefix = prefix, pr4_gateway = gateway, pr4_label = mpls_label \<rparr>)))))))"

definition L2EvpnIpv6PrefixRoute_from_wire :: "(unit, L2EvpnIpv6PrefixRoute) parser" where
  "L2EvpnIpv6PrefixRoute_from_wire =
     parse_bind RouteDistinguisher_from_wire (\<lambda>rd.
     parse_bind EthernetSegmentIdentifier_from_wire (\<lambda>segment_id.
     parse_bind EthernetTag_from_wire (\<lambda>tag.
     parse_bind (be_u8 ()) (\<lambda>prefix_len.
     parse_bind (map_res (be_u128 ()) (\<lambda>network. if prefix_len \<le> 128 then Inr (network, prefix_len) else Inl ())) (\<lambda>prefix.
     parse_bind (be_u128 ()) (\<lambda>gateway.
     parse_bind MplsLabel_from_wire (\<lambda>mpls_label.
     parse_return \<lparr> pr6_rd = rd, pr6_segment_id = segment_id, pr6_tag = tag, pr6_prefix = prefix, pr6_gateway = gateway, pr6_label = mpls_label \<rparr>)))))))"

definition L2EvpnIpPrefixRoute_from_wire :: "(unit, L2EvpnIpPrefixRoute) parser" where
  "L2EvpnIpPrefixRoute_from_wire buf =
     (if length buf = 34 then parse_bind L2EvpnIpv4PrefixRoute_from_wire (\<lambda>v. parse_return (Evpn_V4 v)) buf
      else if length buf = 58 then parse_bind L2EvpnIpv6PrefixRoute_from_wire (\<lambda>v. parse_return (Evpn_V6 v)) buf
      else Inl ())"

text \<open>
  A known route is read from the octets that its length gives; the reader of any other route reads a
  length and a value from what follows them, which it leaves for the next route.
\<close>

definition known_route :: "L2EvpnRouteTypeCode \<Rightarrow> bytes \<Rightarrow> (unit + L2EvpnRoute) option" where
  "known_route t route_buf =
     (case t of
        ERT_EthernetAutoDiscovery \<Rightarrow> Some (map_sum id (Evpn_EthernetAutoDiscovery \<circ> fst) (EthernetAutoDiscovery_from_wire route_buf))
      | ERT_MacIpAdvertisement \<Rightarrow> Some (map_sum id (Evpn_MacIpAdvertisement \<circ> fst) (MacIpAdvertisement_from_wire route_buf))
      | ERT_InclusiveMulticastEthernetTagRoute \<Rightarrow>
          Some (map_sum id (Evpn_InclusiveMulticastEthernetTagRoute \<circ> fst) (InclusiveMulticastEthernetTagRoute_from_wire route_buf))
      | ERT_EthernetSegmentRoute \<Rightarrow> Some (map_sum id (Evpn_EthernetSegmentRoute \<circ> fst) (EthernetSegmentRoute_from_wire route_buf))
      | ERT_IpPrefix \<Rightarrow> Some (map_sum id (Evpn_IpPrefixRoute \<circ> fst) (L2EvpnIpPrefixRoute_from_wire route_buf))
      | _ \<Rightarrow> None)"

definition L2EvpnRoute_from_wire :: "(unit, L2EvpnRoute) parser" where
  "L2EvpnRoute_from_wire =
     parse_bind (be_u8 ()) (\<lambda>typ_code.
     parse_bind (be_u8 ()) (\<lambda>len.
     parse_bind (take_bytes () (unat len)) (\<lambda>route_buf buf.
       let unknown =
         (case length_data8 () buf of Inl e \<Rightarrow> Inl e | Inr (val, _) \<Rightarrow> Inr (Evpn_Unknown typ_code val, buf))
       in case L2EvpnRouteTypeCode_try_from typ_code of
            Inr t \<Rightarrow>
              (case known_route t route_buf of
                 Some (Inl e) \<Rightarrow> Inl e
               | Some (Inr route) \<Rightarrow> Inr (route, buf)
               | None \<Rightarrow> unknown)
          | Inl _ \<Rightarrow> unknown)))"

definition L2EvpnAddress_from_wire :: "bool \<Rightarrow> (unit, L2EvpnAddress) parser" where
  "L2EvpnAddress_from_wire add_path =
     parse_bind (read_path_id () add_path) (\<lambda>path_id.
     parse_bind L2EvpnRoute_from_wire (\<lambda>route.
     parse_return \<lparr> evpn_path_id = path_id, evpn_route = route \<rparr>))"

definition RouteTargetMembership_from_wire :: "u8 \<Rightarrow> (unit, RouteTargetMembership) parser" where
  "RouteTargetMembership_from_wire prefix_len =
     parse_bind (be_u32 ()) (\<lambda>origin_as.
     parse_bind (take_bytes () (unat ((prefix_len - 32) div 8))) (\<lambda>route_target.
     parse_return \<lparr> rtm_origin_as = origin_as, rtm_route_target = route_target \<rparr>))"

definition RouteTargetMembershipAddress_from_wire :: "bool \<Rightarrow> (unit, RouteTargetMembershipAddress) parser" where
  "RouteTargetMembershipAddress_from_wire add_path =
     parse_bind (read_path_id () add_path) (\<lambda>path_id.
     parse_bind (be_u8 ()) (\<lambda>prefix_len.
     parse_bind
       (if prefix_len = 0 then parse_return None
        else if \<not> (32 \<le> prefix_len \<and> prefix_len \<le> 96) then (\<lambda>_. Inl ())
        else parse_bind (RouteTargetMembership_from_wire prefix_len) (\<lambda>membership. parse_return (Some membership))) (\<lambda>membership.
     parse_return \<lparr> rta_path_id = path_id, rta_membership = membership \<rparr>)))"

section \<open>Writers\<close>

definition EthernetAutoDiscovery_write :: "EthernetAutoDiscovery \<Rightarrow> bytes" where
  "EthernetAutoDiscovery_write r =
     RouteDistinguisher_write (ead_rd r) @ ead_segment_id r @ to_be_bytes (ead_tag r) @ ead_mpls_label r"

fun ip_bits_write :: "IpAddr \<Rightarrow> bytes" where
  "ip_bits_write (IpV4 addr) = 32 # to_be_bytes addr"
| "ip_bits_write (IpV6 addr) = 128 # to_be_bytes addr"

fun ip_octets_len :: "IpAddr \<Rightarrow> nat" where
  "ip_octets_len (IpV4 _) = 4"
| "ip_octets_len (IpV6 _) = 16"

definition MacIpAdvertisement_write :: "MacIpAdvertisement \<Rightarrow> bytes" where
  "MacIpAdvertisement_write r =
     RouteDistinguisher_write (mia_rd r) @ mia_segment_id r @ to_be_bytes (mia_tag r) @ [48] @ mia_mac r @
     (case mia_ip r of None \<Rightarrow> [0] | Some ip \<Rightarrow> ip_bits_write ip) @ mia_mpls_label1 r @
     (case mia_mpls_label2 r of Some label \<Rightarrow> label | None \<Rightarrow> [])"

definition MacIpAdvertisement_len :: "MacIpAdvertisement \<Rightarrow> nat" where
  "MacIpAdvertisement_len r =
     2 + 8 + 10 + 4 + 6 + (case mia_ip r of None \<Rightarrow> 0 | Some ip \<Rightarrow> ip_octets_len ip) + 3 +
     (case mia_mpls_label2 r of None \<Rightarrow> 0 | Some _ \<Rightarrow> 3)"

definition InclusiveMulticastEthernetTagRoute_write :: "InclusiveMulticastEthernetTagRoute \<Rightarrow> bytes" where
  "InclusiveMulticastEthernetTagRoute_write r =
     RouteDistinguisher_write (imr_rd r) @ to_be_bytes (imr_tag r) @ ip_bits_write (imr_ip r)"

definition EthernetSegmentRoute_write :: "EthernetSegmentRoute \<Rightarrow> bytes" where
  "EthernetSegmentRoute_write r = RouteDistinguisher_write (esr_rd r) @ esr_segment_id r @ ip_bits_write (esr_ip r)"

definition L2EvpnIpv4PrefixRoute_write :: "codec_env \<Rightarrow> L2EvpnIpv4PrefixRoute \<Rightarrow> bytes" where
  "L2EvpnIpv4PrefixRoute_write env r =
     RouteDistinguisher_write (pr4_rd r) @ pr4_segment_id r @ to_be_bytes (pr4_tag r) @ [snd (pr4_prefix r)] @
     to_be_bytes (env_network4 env (pr4_prefix r)) @ to_be_bytes (pr4_gateway r) @ pr4_label r"

definition L2EvpnIpv6PrefixRoute_write :: "codec_env \<Rightarrow> L2EvpnIpv6PrefixRoute \<Rightarrow> bytes" where
  "L2EvpnIpv6PrefixRoute_write env r =
     RouteDistinguisher_write (pr6_rd r) @ pr6_segment_id r @ to_be_bytes (pr6_tag r) @ [snd (pr6_prefix r)] @
     to_be_bytes (env_network6 env (pr6_prefix r)) @ to_be_bytes (pr6_gateway r) @ pr6_label r"

fun L2EvpnIpPrefixRoute_write :: "codec_env \<Rightarrow> L2EvpnIpPrefixRoute \<Rightarrow> bytes" where
  "L2EvpnIpPrefixRoute_write env (Evpn_V4 r) = L2EvpnIpv4PrefixRoute_write env r"
| "L2EvpnIpPrefixRoute_write env (Evpn_V6 r) = L2EvpnIpv6PrefixRoute_write env r"

fun L2EvpnRoute_route_type :: "L2EvpnRoute \<Rightarrow> u8 + L2EvpnRouteTypeCode" where
  "L2EvpnRoute_route_type (Evpn_EthernetAutoDiscovery _) = Inr ERT_EthernetAutoDiscovery"
| "L2EvpnRoute_route_type (Evpn_MacIpAdvertisement _) = Inr ERT_MacIpAdvertisement"
| "L2EvpnRoute_route_type (Evpn_InclusiveMulticastEthernetTagRoute _) = Inr ERT_InclusiveMulticastEthernetTagRoute"
| "L2EvpnRoute_route_type (Evpn_EthernetSegmentRoute _) = Inr ERT_EthernetSegmentRoute"
| "L2EvpnRoute_route_type (Evpn_IpPrefixRoute _) = Inr ERT_IpPrefix"
| "L2EvpnRoute_route_type (Evpn_Unknown code _) = Inl code"

fun L2EvpnRoute_len :: "L2EvpnRoute \<Rightarrow> nat" where
  "L2EvpnRoute_len (Evpn_EthernetAutoDiscovery _) = 2 + (8 + 10 + 4 + 3)"
| "L2EvpnRoute_len (Evpn_MacIpAdvertisement r) = 2 + MacIpAdvertisement_len r"
| "L2EvpnRoute_len (Evpn_InclusiveMulticastEthernetTagRoute r) = 2 + (1 + 8 + 4 + ip_octets_len (imr_ip r))"
| "L2EvpnRoute_len (Evpn_EthernetSegmentRoute r) = 2 + (1 + 8 + 10 + ip_octets_len (esr_ip r))"
| "L2EvpnRoute_len (Evpn_IpPrefixRoute (Evpn_V4 _)) = 2 + (12 + 8 + 10 + 4)"
| "L2EvpnRoute_len (Evpn_IpPrefixRoute (Evpn_V6 _)) = 2 + (36 + 8 + 10 + 4)"
| "L2EvpnRoute_len (Evpn_Unknown _ val) = 2 + length val"

fun L2EvpnRoute_body :: "codec_env \<Rightarrow> L2EvpnRoute \<Rightarrow> bytes" where
  "L2EvpnRoute_body env (Evpn_EthernetAutoDiscovery r) = EthernetAutoDiscovery_write r"
| "L2EvpnRoute_body env (Evpn_MacIpAdvertisement r) = MacIpAdvertisement_write r"
| "L2EvpnRoute_body env (Evpn_InclusiveMulticastEthernetTagRoute r) = InclusiveMulticastEthernetTagRoute_write r"
| "L2EvpnRoute_body env (Evpn_EthernetSegmentRoute r) = EthernetSegmentRoute_write r"
| "L2EvpnRoute_body env (Evpn_IpPrefixRoute r) = L2EvpnIpPrefixRoute_write env r"
| "L2EvpnRoute_body env (Evpn_Unknown _ val) = of_nat (length val + 1) # val"

definition L2EvpnRoute_write :: "codec_env \<Rightarrow> L2EvpnRoute \<Rightarrow> bytes" where
  "L2EvpnRoute_write env route =
     [case L2EvpnRoute_route_type route of Inr code \<Rightarrow> L2EvpnRouteTypeCode_into_u8 code | Inl code \<Rightarrow> code,
      of_nat (L2EvpnRoute_len route - 2)] @ L2EvpnRoute_body env route"

definition L2EvpnAddress_write :: "codec_env \<Rightarrow> L2EvpnAddress \<Rightarrow> bytes" where
  "L2EvpnAddress_write env a = path_id_write (evpn_path_id a) @ L2EvpnRoute_write env (evpn_route a)"

definition L2EvpnAddress_len :: "L2EvpnAddress \<Rightarrow> nat" where
  "L2EvpnAddress_len a = path_id_len (evpn_path_id a) + L2EvpnRoute_len (evpn_route a)"

definition RouteTargetMembership_len :: "RouteTargetMembership \<Rightarrow> nat" where
  "RouteTargetMembership_len m = 4 + length (rtm_route_target m)"

definition RouteTargetMembership_write :: "RouteTargetMembership \<Rightarrow> bytes" where
  "RouteTargetMembership_write m = to_be_bytes (rtm_origin_as m) @ rtm_route_target m"

definition RouteTargetMembershipAddress_write :: "RouteTargetMembershipAddress \<Rightarrow> bytes" where
  "RouteTargetMembershipAddress_write a =
     path_id_write (rta_path_id a) @
     (case rta_membership a of
        Some membership \<Rightarrow> of_nat (RouteTargetMembership_len membership * 8) # RouteTargetMembership_write membership
      | None \<Rightarrow> [0])"

definition RouteTargetMembershipAddress_len :: "RouteTargetMembershipAddress \<Rightarrow> nat" where
  "RouteTargetMembershipAddress_len a =
     1 + path_id_len (rta_path_id a) + (case rta_membership a of Some m \<Rightarrow> RouteTargetMembership_len m | None \<Rightarrow> 0)"

section \<open>Round trips\<close>

fun evpn_ok :: "codec_env \<Rightarrow> L2EvpnRoute \<Rightarrow> bool" where
  "evpn_ok env (Evpn_EthernetAutoDiscovery r) = (length (ead_segment_id r) = 10 \<and> length (ead_mpls_label r) = 3)"
| "evpn_ok env (Evpn_MacIpAdvertisement r) =
     (length (mia_segment_id r) = 10 \<and> length (mia_mac r) = 6 \<and> length (mia_mpls_label1 r) = 3 \<and>
      (case mia_mpls_label2 r of Some label \<Rightarrow> length label = 3 | None \<Rightarrow> True))"
| "evpn_ok env (Evpn_InclusiveMulticastEthernetTagRoute r) = True"
| "evpn_ok env (Evpn_EthernetSegmentRoute r) = (length (esr_segment_id r) = 10)"
| "evpn_ok env (Evpn_IpPrefixRoute (Evpn_V4 r)) =
     (length (pr4_segment_id r) = 10 \<and> length (pr4_label r) = 3 \<and> snd (pr4_prefix r) \<le> 32 \<and> env_network4 env (pr4_prefix r) = fst (pr4_prefix r))"
| "evpn_ok env (Evpn_IpPrefixRoute (Evpn_V6 r)) =
     (length (pr6_segment_id r) = 10 \<and> length (pr6_label r) = 3 \<and> snd (pr6_prefix r) \<le> 128 \<and> env_network6 env (pr6_prefix r) = fst (pr6_prefix r))"
| "evpn_ok env (Evpn_Unknown _ _) = False"

lemma read_ip_bits_written [wire_simps]: "read_ip_bits (ip_bits_write ip @ rest) = Inr (ip, rest)"
  by (cases ip) (simp_all add: read_ip_bits_def parse_bind_def parse_return_def)

lemma read_ip_bits_alone [wire_simps]: "read_ip_bits (ip_bits_write ip) = Inr (ip, [])"
  using read_ip_bits_written [of ip "[]"] by simp

lemma read_optional_ip_bits_written [wire_simps]:
  "read_optional_ip_bits ((case ip of None \<Rightarrow> [0] | Some ip \<Rightarrow> ip_bits_write ip) @ rest) = Inr (ip, rest)"
proof (cases ip)
  case (Some a)
  then show ?thesis by (cases a) (simp_all add: read_optional_ip_bits_def parse_bind_def parse_return_def)
qed (simp add: read_optional_ip_bits_def parse_bind_def parse_return_def)

lemma read_second_label_written [wire_simps]:
  "(case l of Some label \<Rightarrow> length label = 3 | None \<Rightarrow> True) \<Longrightarrow>
     read_second_label (case l of Some label \<Rightarrow> label | None \<Rightarrow> []) = Inr (l, [])"
  by (cases l) (auto simp: read_second_label_def parse_bind_def parse_return_def label.read_alone)

lemmas evpn_readers = EthernetAutoDiscovery_from_wire_def MacIpAdvertisement_from_wire_def
  InclusiveMulticastEthernetTagRoute_from_wire_def EthernetSegmentRoute_from_wire_def L2EvpnIpv4PrefixRoute_from_wire_def
  L2EvpnIpv6PrefixRoute_from_wire_def MacAddress_from_wire_def EthernetSegmentIdentifier_from_wire_def EthernetTag_from_wire_def
  parse_return_def map_res_def

lemmas evpn_writers = EthernetAutoDiscovery_write_def MacIpAdvertisement_write_def InclusiveMulticastEthernetTagRoute_write_def
  EthernetSegmentRoute_write_def L2EvpnIpv4PrefixRoute_write_def L2EvpnIpv6PrefixRoute_write_def

lemma ip_bits_length: "length (ip_bits_write ip) = 1 + ip_octets_len ip"
  by (cases ip) simp_all

lemma evpn_body_length: "evpn_ok env route \<Longrightarrow> L2EvpnRoute_len route = 2 + length (L2EvpnRoute_body env route)"
  by (induction env route rule: evpn_ok.induct)
    (auto simp: evpn_writers ip_bits_length MacIpAdvertisement_len_def split: option.splits)

lemma ip_octets_len_less: "16 < n \<Longrightarrow> ip_octets_len ip < n"
  by (cases ip) simp_all

lemma evpn_body_short: "evpn_ok env route \<Longrightarrow> length (L2EvpnRoute_body env route) < 256"
  by (induction env route rule: evpn_ok.induct) (auto simp: evpn_writers ip_bits_length ip_octets_len_less split: option.splits)

lemma evpn_value_read:
  "evpn_ok env route \<Longrightarrow> \<exists>t. L2EvpnRoute_route_type route = Inr t \<and> known_route t (L2EvpnRoute_body env route) = Some (Inr route)"
proof (induction env route rule: evpn_ok.induct)
  case (5 env r)
  then show ?case
    by (cases r; cases "pr4_prefix r") (auto simp: known_route_def L2EvpnIpPrefixRoute_from_wire_def evpn_readers evpn_writers wire_simps rd.read_written label.read_alone)
next
  case (6 env r)
  then show ?case
    by (cases r; cases "pr6_prefix r") (auto simp: known_route_def L2EvpnIpPrefixRoute_from_wire_def evpn_readers evpn_writers wire_simps rd.read_written label.read_alone)
qed (auto simp: known_route_def evpn_readers evpn_writers wire_simps rd.read_written label.read_written label.read_alone)

interpretation evpn_route: wire_codec "L2EvpnRoute_write env" L2EvpnRoute_from_wire "evpn_ok env" for env
proof
  show "L2EvpnRoute_from_wire (L2EvpnRoute_write env route @ rest) = Inr (route, rest)" if ok: "evpn_ok env route" for route rest
  proof -
    obtain t where t: "L2EvpnRoute_route_type route = Inr t" "known_route t (L2EvpnRoute_body env route) = Some (Inr route)"
      using evpn_value_read [OF ok] by blast
    have "unat (of_nat (length (L2EvpnRoute_body env route)) :: u8) = length (L2EvpnRoute_body env route)"
      using evpn_body_short [OF ok] by (rule unat_of_nat_small)
    then show ?thesis
      using t evpn_body_length [OF ok] by (simp add: L2EvpnRoute_from_wire_def L2EvpnRoute_write_def parse_bind_def)
  qed
qed

lemma shrinks_evpn_route: "shrinks L2EvpnRoute_from_wire"
  unfolding shrinks_def
proof (intro allI impI)
  fix bs route rest
  assume "L2EvpnRoute_from_wire bs = Inr (route, rest)"
  then obtain c l mid mid2 rb where "be_u8 () bs = Inr (c, mid)" "be_u8 () mid = Inr (l, mid2)" "take_bytes () (unat l) mid2 = Inr (rb, rest)"
    by (auto simp: L2EvpnRoute_from_wire_def parse_bind_def Let_def split: sum.splits prod.splits option.splits)
  then show "length rest < length bs"
    using shrinksD [OF shrinks_be(1)] grows_notD [OF grows_not_take] by (meson le_less_trans less_trans)
qed

definition evpn_address_ok :: "codec_env \<Rightarrow> bool \<Rightarrow> L2EvpnAddress \<Rightarrow> bool" where
  "evpn_address_ok env add_path a \<longleftrightarrow> (evpn_path_id a \<noteq> None) = add_path \<and> evpn_ok env (evpn_route a)"

interpretation evpn_address: element_codec "L2EvpnAddress_write env" "L2EvpnAddress_from_wire add_path" "evpn_address_ok env add_path"
  for env add_path
proof
  show "L2EvpnAddress_from_wire add_path (L2EvpnAddress_write env a @ rest) = Inr (a, rest)" if "evpn_address_ok env add_path a" for a rest
    using that path_id_read_written [of "()" "evpn_path_id a" "L2EvpnRoute_write env (evpn_route a) @ rest"]
      evpn_route.read_written [of env "evpn_route a" rest]
    by (cases a) (auto simp: evpn_address_ok_def L2EvpnAddress_from_wire_def L2EvpnAddress_write_def parse_bind_def parse_return_def)
  show "shrinks (L2EvpnAddress_from_wire add_path)"
    unfolding L2EvpnAddress_from_wire_def
    by (intro shrinks_bind_right shrinks_bind grows_not_path_id shrinks_evpn_route grows_not_return)
qed

definition membership_ok :: "bool \<Rightarrow> RouteTargetMembershipAddress \<Rightarrow> bool" where
  "membership_ok add_path a \<longleftrightarrow>
     (rta_path_id a \<noteq> None) = add_path \<and> (case rta_membership a of Some m \<Rightarrow> length (rtm_route_target m) \<le> 8 | None \<Rightarrow> True)"

lemma membership_bits:
  assumes "n \<le> 8"
  shows "(of_nat ((4 + n) * 8) :: u8) \<noteq> 0" "32 \<le> (of_nat ((4 + n) * 8) :: u8)" "(of_nat ((4 + n) * 8) :: u8) \<le> 96"
    "unat ((of_nat ((4 + n) * 8) - 32 :: u8) div 8) = n"
proof -
  have u: "unat (of_nat ((4 + n) * 8) :: u8) = (4 + n) * 8" using assms by (intro unat_of_nat_small) simp
  then show "(of_nat ((4 + n) * 8) :: u8) \<noteq> 0" by (metis add_eq_0_iff_both_eq_0 mult_eq_0_iff unat_0 zero_neq_numeral)
  show "32 \<le> (of_nat ((4 + n) * 8) :: u8)" "(of_nat ((4 + n) * 8) :: u8) \<le> 96"
    unfolding word_le_nat_alt u using assms by simp_all
  have "(of_nat ((4 + n) * 8) - 32 :: u8) = of_nat (n * 8)" by (simp add: algebra_simps)
  then show "unat ((of_nat ((4 + n) * 8) - 32 :: u8) div 8) = n"
    using assms by (simp only: unat_div_distrib unat_of_nat_small) (simp add: unat_div_distrib unat_of_nat)
qed

interpretation membership: element_codec RouteTargetMembershipAddress_write "RouteTargetMembershipAddress_from_wire add_path" "membership_ok add_path"
  for add_path
proof
  show "RouteTargetMembershipAddress_from_wire add_path (RouteTargetMembershipAddress_write a @ rest) = Inr (a, rest)"
    if ok: "membership_ok add_path a" for a rest
  proof -
    obtain p m where a: "a = \<lparr> rta_path_id = p, rta_membership = m \<rparr>" by (cases a)
    have p: "add_path = (p \<noteq> None)" using ok by (simp add: membership_ok_def a)
    show ?thesis
    proof (cases m)
      case None
      then show ?thesis using path_id_read_written [of "()" p "0 # rest"]
        by (simp add: a p RouteTargetMembershipAddress_from_wire_def RouteTargetMembershipAddress_write_def parse_bind_def parse_return_def)
    next
      case (Some r)
      let ?n = "length (rtm_route_target r)"
      have n: "?n \<le> 8" using ok Some by (simp add: membership_ok_def a)
      have "RouteTargetMembership_from_wire (of_nat ((4 + ?n) * 8)) (RouteTargetMembership_write r @ rest) = Inr (r, rest)"
        using membership_bits(4) [OF n]
        by (cases r) (simp add: RouteTargetMembership_from_wire_def RouteTargetMembership_write_def parse_bind_def parse_return_def del: of_nat_mult of_nat_add)
      then show ?thesis
        using path_id_read_written [of "()" p "of_nat ((4 + ?n) * 8) # RouteTargetMembership_write r @ rest"] membership_bits(1-3) [OF n] Some
        by (simp add: a p RouteTargetMembershipAddress_from_wire_def RouteTargetMembershipAddress_write_def RouteTargetMembership_len_def
            parse_bind_def parse_return_def del: of_nat_mult of_nat_add)
    qed
  qed
  show "shrinks (RouteTargetMembershipAddress_from_wire add_path)"
    unfolding RouteTargetMembershipAddress_from_wire_def
  proof (rule shrinks_bind_right [OF grows_not_path_id shrinks_bind [OF shrinks_be(1) grows_not_bind [OF _ grows_not_return]]])
    show "grows_not (if l = 0 then parse_return None else if \<not> (32 \<le> l \<and> l \<le> 96) then \<lambda>_. Inl ()
        else parse_bind (RouteTargetMembership_from_wire l) (\<lambda>membership. parse_return (Some membership)))" for l
      unfolding RouteTargetMembership_from_wire_def
      by (auto simp: grows_not_def parse_return_def parse_bind_def be_word_def take_bytes_def Let_def split: if_splits)
  qed
qed

lemma evpn_lengths:
  "evpn_address_ok env p a \<Longrightarrow> length (L2EvpnAddress_write env a) = L2EvpnAddress_len a"
  "membership_ok p b \<Longrightarrow> length (RouteTargetMembershipAddress_write b) = RouteTargetMembershipAddress_len b"
  using evpn_body_length [of env "evpn_route a"]
  by (auto simp: evpn_address_ok_def L2EvpnAddress_write_def L2EvpnAddress_len_def L2EvpnRoute_write_def length_path_id_write
      RouteTargetMembershipAddress_write_def RouteTargetMembershipAddress_len_def RouteTargetMembership_write_def
      RouteTargetMembership_len_def split: option.splits)

section \<open>Routes of unknown types\<close>

text \<open>
  A route whose type is not known is read with the length and the value of the octets that follow
  it, not with its own ones, and these octets are left for the next route: as the last route of an
  attribute it is an error.
\<close>

theorem unknown_evpn_route_misread:
  assumes "code \<notin> {1, 2, 3, 4, 5}" "length val < 256"
  shows "L2EvpnRoute_from_wire (code # of_nat (length val) # val @ rest) =
      (case length_data8 () rest of Inl e \<Rightarrow> Inl e | Inr (val', _) \<Rightarrow> Inr (Evpn_Unknown code val', rest)) \<and>
    L2EvpnRoute_from_wire (code # of_nat (length val) # val) = Inl ()"
proof -
  have "known_route t buf = None" if "L2EvpnRouteTypeCode_try_from code = Inr t" for t buf
    using evpn_type.try_Inr [of code t] that assms(1) by (cases t) (auto simp: known_route_def L2EvpnRouteTypeCode_try_from_def)
  then have r: "L2EvpnRoute_from_wire (code # of_nat (length val) # val @ rest) =
      (case length_data8 () rest of Inl e \<Rightarrow> Inl e | Inr (val', _) \<Rightarrow> Inr (Evpn_Unknown code val', rest))" for rest
    using assms(2) by (cases "L2EvpnRouteTypeCode_try_from code") (simp_all add: L2EvpnRoute_from_wire_def parse_bind_def unat_of_nat_small)
  moreover have "L2EvpnRoute_from_wire (code # of_nat (length val) # val) = Inl ()"
    using r [of "[]"] by (simp add: length_data8_def parse_bind_def)
  ultimately show ?thesis by simp
qed

theorem unknown_evpn_route_misread_witness:
  "L2EvpnRoute_from_wire (9 # of_nat (length [7 :: u8]) # [7] @ [1, 8]) =
      (case length_data8 () [1, 8] of Inl e \<Rightarrow> Inl e | Inr (val', _) \<Rightarrow> Inr (Evpn_Unknown 9 val', [1, 8])) \<and>
    L2EvpnRoute_from_wire (9 # of_nat (length [7 :: u8]) # [7]) = Inl ()"
  by (rule unknown_evpn_route_misread) simp_all

end
