(* ===== verification/Wire_Tlv.thy ===== *)
theory Wire_Tlv
  imports Wire_Base
begin

text \<open>
  Type-length-value headers with a length of two octets (\<open>read_tlv_header_t16_l16\<close> and
  \<open>read_tlv_header_t8_l16\<close> of \<open>src/netgauze/bgp-pkt/src/wire/deserializer/mod.rs\<close>, and the functions that write
  them in \<open>serializer/mod.rs\<close>). The locale \<open>tlv_codec\<close> is the contract of a family of values behind such a
  header, and every family that keeps it is read back from what was written.
\<close>

section \<open>Headers\<close>

definition read_tlv_header_t16_l16 :: "'e \<Rightarrow> bytes \<Rightarrow> 'e + u16 \<times> u16 \<times> bytes \<times> bytes" where
  "read_tlv_header_t16_l16 e buf =
     (case parse_bind (be_u16 e) (\<lambda>tlv_type. parse_bind (be_u16 e) (\<lambda>tlv_length.
             parse_bind (take_bytes e (unat tlv_length)) (\<lambda>tlv_data. parse_return (tlv_type, tlv_length, tlv_data)))) buf of
        Inl err \<Rightarrow> Inl err
      | Inr ((tlv_type, tlv_length, tlv_data), remainder) \<Rightarrow> Inr (tlv_type, tlv_length, tlv_data, remainder))"

definition read_tlv_header_t8_l16 :: "'e \<Rightarrow> bytes \<Rightarrow> 'e + u8 \<times> u16 \<times> bytes \<times> bytes" where
  "read_tlv_header_t8_l16 e buf =
     (case parse_bind (be_u8 e) (\<lambda>tlv_type. parse_bind (be_u16 e) (\<lambda>tlv_length.
             parse_bind (take_bytes e (unat tlv_length)) (\<lambda>tlv_data. parse_return (tlv_type, tlv_length, tlv_data)))) buf of
        Inl err \<Rightarrow> Inl err
      | Inr ((tlv_type, tlv_length, tlv_data), remainder) \<Rightarrow> Inr (tlv_type, tlv_length, tlv_data, remainder))"

text \<open>The writers take the length of the whole value with its header, at the width of the field.\<close>

definition write_tlv_header_t16_l16 :: "u16 \<Rightarrow> u16 \<Rightarrow> bytes" where
  "write_tlv_header_t16_l16 tlv_type tlv_length = to_be_bytes tlv_type @ to_be_bytes (tlv_length - 4)"

definition write_tlv_header_t8_l16 :: "u8 \<Rightarrow> u16 \<Rightarrow> bytes" where
  "write_tlv_header_t8_l16 tlv_type tlv_length = tlv_type # to_be_bytes (tlv_length - 3)"

text \<open>What a reader of a value behind a header does with the type, the length and the data.\<close>

definition with_tlv :: "(bytes \<Rightarrow> 'e + 't \<times> u16 \<times> bytes \<times> bytes) \<Rightarrow> ('t \<Rightarrow> u16 \<Rightarrow> bytes \<Rightarrow> 'e + 'a) \<Rightarrow> ('e, 'a) parser" where
  "with_tlv hr f buf =
     (case hr buf of
        Inl err \<Rightarrow> Inl err
      | Inr (tlv_type, tlv_length, tlv_data, remainder) \<Rightarrow>
          (case f tlv_type tlv_length tlv_data of Inl err \<Rightarrow> Inl err | Inr a \<Rightarrow> Inr (a, remainder)))"

text \<open>A reader of a part of the data; what it leaves of them is dropped.\<close>

definition first_of :: "'e + 'a \<times> bytes \<Rightarrow> 'e + 'a" where
  "first_of r = (case r of Inl e \<Rightarrow> Inl e | Inr (a, _) \<Rightarrow> Inr a)"

text \<open>The elements up to the end of the input, behind which nothing is left.\<close>

definition till_empty :: "('e, 'a) parser \<Rightarrow> ('e, 'a list) parser" where
  "till_empty p bs = (case parse_till_empty p bs of Inl e \<Rightarrow> Inl e | Inr as \<Rightarrow> Inr (as, []))"

section \<open>Laws\<close>

lemma be_u64_read [simp, wire_simps]: "be_word e (to_be_bytes (w :: u64) @ rest) = Inr (w, rest)"
  by (simp add: be_word_read)

lemma be_alone [simp, wire_simps]:
  "be_word e (to_be_bytes (b :: u16)) = Inr (b, [])" "be_word e (to_be_bytes (c :: u32)) = Inr (c, [])"
  "be_word e (to_be_bytes (w :: u64)) = Inr (w, [])" "be_word e (to_be_bytes (d :: u128)) = Inr (d, [])"
  using be_read(2) [of e b "[]"] be_read(3) [of e c "[]"] be_read(4) [of e d "[]"] be_u64_read [of e w "[]"] by simp_all

lemma shrinks_be_u64 [simp, intro]: "shrinks (be_word e :: ('e, u64) parser)"
  by (simp add: shrinks_be_word)

lemma shrinks_header:
  "shrinks p \<Longrightarrow>
   shrinks (parse_bind p (\<lambda>t. parse_bind (be_u16 e) (\<lambda>l. parse_bind (take_bytes e (unat l)) (\<lambda>d. parse_return (t, l, d)))))"
  by (intro shrinks_bind grows_not_bind shrinks_grows_not shrinks_be grows_not_take grows_not_return)

lemma header_less:
  "read_tlv_header_t16_l16 e bs = Inr (t, l, d, rest) \<Longrightarrow> length rest < length bs"
  "read_tlv_header_t8_l16 e bs = Inr (t', l, d, rest) \<Longrightarrow> length rest < length bs"
  using shrinksD [OF shrinks_header [OF shrinks_be(2)], of e e bs] shrinksD [OF shrinks_header [OF shrinks_be(1)], of e e bs]
  by (auto simp: read_tlv_header_t16_l16_def read_tlv_header_t8_l16_def split: sum.splits prod.splits)

lemma shrinks_with_tlv [simp, intro]:
  "shrinks (with_tlv (read_tlv_header_t16_l16 e) f)" "shrinks (with_tlv (read_tlv_header_t8_l16 e) g)"
  by (auto simp: shrinks_def with_tlv_def split: sum.splits prod.splits dest: header_less)

lemma header_read:
  assumes "length w = n" "n < 65536"
  shows "read_tlv_header_t16_l16 e (write_tlv_header_t16_l16 t (of_nat (4 + n)) @ w @ rest) = Inr (t, of_nat n, w, rest)"
    "read_tlv_header_t8_l16 e (write_tlv_header_t8_l16 t' (of_nat (3 + n)) @ w @ rest) = Inr (t', of_nat n, w, rest)"
  using assms
  by (simp_all add: read_tlv_header_t16_l16_def read_tlv_header_t8_l16_def write_tlv_header_t16_l16_def write_tlv_header_t8_l16_def
      parse_bind_def parse_return_def unat_of_nat_small)

lemma length_header [simp]:
  "length (write_tlv_header_t16_l16 t n) = 4" "length (write_tlv_header_t8_l16 t' n) = 3"
  by (simp_all add: write_tlv_header_t16_l16_def write_tlv_header_t8_l16_def)

lemma grows_not_till_empty [simp, intro]: "grows_not (till_empty p)"
  by (auto simp: grows_not_def till_empty_def split: sum.splits)

lemma length_concat_sum: "list_all ok as \<Longrightarrow> (\<And>a. ok a \<Longrightarrow> length (f a) = g a) \<Longrightarrow> length (concat (map f as)) = sum_list (map g as)"
  by (induction as) simp_all

section \<open>The contract of values behind a header\<close>

text \<open>
  \<open>hr\<close> reads a header and \<open>hw\<close> writes one for a type and a number of octets behind it; \<open>len\<close> is the number
  that the program computes for them, \<open>body\<close> what it writes.
\<close>

locale tlv_codec =
  fixes hr :: "bytes \<Rightarrow> 'e + 't \<times> u16 \<times> bytes \<times> bytes" and hw :: "'t \<Rightarrow> nat \<Rightarrow> bytes"
    and code :: "'a \<Rightarrow> 't" and len :: "'a \<Rightarrow> nat" and body :: "'a \<Rightarrow> bytes"
    and rd :: "'t \<Rightarrow> u16 \<Rightarrow> bytes \<Rightarrow> 'e + 'a" and ok :: "'a \<Rightarrow> bool"
  assumes header_written: "length w = n \<Longrightarrow> n < 65536 \<Longrightarrow> hr (hw t n @ w @ rest) = Inr (t, of_nat n, w, rest)"
    and header_shrinks: "hr bs = Inr (t, l, d, rest) \<Longrightarrow> length rest < length bs"
    and body_length: "ok a \<Longrightarrow> length (body a) = len a"
    and body_small: "ok a \<Longrightarrow> len a < 65536"
    and body_read: "ok a \<Longrightarrow> rd (code a) (of_nat (len a)) (body a) = Inr a"
begin

lemma tlv_read: "ok a \<Longrightarrow> with_tlv hr rd (hw (code a) (len a) @ body a @ rest) = Inr (a, rest)"
  by (simp add: with_tlv_def header_written [OF body_length body_small] body_read)

end

sublocale tlv_codec \<subseteq> element_codec "\<lambda>a. hw (code a) (len a) @ body a" "with_tlv hr rd" ok
proof
  show "with_tlv hr rd ((hw (code a) (len a) @ body a) @ rest) = Inr (a, rest)" if "ok a" for a rest
    using tlv_read [OF that, of rest] by simp
  show "shrinks (with_tlv hr rd)"
    by (auto simp: shrinks_def with_tlv_def split: sum.splits prod.splits dest: header_shrinks)
qed

text \<open>The two kinds of header keep their part of the contract.\<close>

lemma tlv16_codecI:
  assumes "\<And>a. ok a \<Longrightarrow> length (body a) = len a" "\<And>a. ok a \<Longrightarrow> len a < 65536"
    "\<And>a. ok a \<Longrightarrow> rd (code a) (of_nat (len a)) (body a) = Inr a"
  shows "tlv_codec (read_tlv_header_t16_l16 e) (\<lambda>t n. write_tlv_header_t16_l16 t (of_nat (4 + n))) code len body rd ok"
  by unfold_locales (use assms in \<open>blast intro: header_read(1) header_less(1)\<close>)+

lemma tlv8_codecI:
  assumes "\<And>a. ok a \<Longrightarrow> length (body a) = len a" "\<And>a. ok a \<Longrightarrow> len a < 65536"
    "\<And>a. ok a \<Longrightarrow> rd (code a) (of_nat (len a)) (body a) = Inr a"
  shows "tlv_codec (read_tlv_header_t8_l16 e) (\<lambda>t n. write_tlv_header_t8_l16 t (of_nat (3 + n))) code len body rd ok"
  by unfold_locales (use assms in \<open>blast intro: header_read(2) header_less(2)\<close>)+

end
