(* ===== verification/Link_State_Codes.thy ===== *)
theory Link_State_Codes
  imports Link_State_Types Iana_Codes
begin

text \<open>
  The conversions from the codes of BGP-LS and of segment identifiers (\<open>TryFrom\<close> in
  \<open>src/netgauze/bgp-pkt/src/iana.rs\<close> and \<open>nlri/bgp_ls.rs\<close>). Most of these registries say why they refuse a
  code: it is reserved, deprecated or unknown. Each interprets the locale \<open>code_registry\<close>.
\<close>

datatype 'w IanaValueError = IanaReserved 'w | IanaDeprecated 'w | IanaUnknown 'w

definition iana_try_from :: "('w \<Rightarrow> 'w IanaValueError) \<Rightarrow> ('a \<Rightarrow> 'w) \<Rightarrow> 'a list \<Rightarrow> 'w \<Rightarrow> 'w IanaValueError + 'a" where
  "iana_try_from err into variants v = (case code_try_from into variants v of Inl _ \<Rightarrow> Inl (err v) | Inr a \<Rightarrow> Inr a)"

context code_registry
begin

lemma iana_roundtrip: "iana_try_from err into variants (into a) = Inr a"
  by (simp add: iana_try_from_def try_roundtrip)

lemma iana_Inr: "iana_try_from err into variants v = Inr a \<longleftrightarrow> into a = v"
  using try_Inr try_roundtrip by (auto simp: iana_try_from_def split: sum.splits)

end

text \<open>The link-state registries reserve the codes up to 255, the ones of SRv6 services the first and the last.\<close>

definition reserved_to_255 :: "u16 \<Rightarrow> u16 IanaValueError" where
  "reserved_to_255 v = (if v \<le> 255 then IanaReserved v else IanaUnknown v)"

definition reserved_first :: "u8 \<Rightarrow> u8 IanaValueError" where
  "reserved_first v = (if v = 0 then IanaReserved v else IanaUnknown v)"

definition reserved_ends :: "u8 \<Rightarrow> u8 IanaValueError" where
  "reserved_ends v = (if v = 0 \<or> v = 255 then IanaReserved v else IanaUnknown v)"

definition reserved_sid :: "u8 \<Rightarrow> u8 IanaValueError" where
  "reserved_sid v =
     (if v = 0 \<or> v = 255 then IanaReserved v else if v = 2 then IanaDeprecated v else IanaUnknown v)"

section \<open>Registries\<close>

definition BgpLsNlriType_all :: "BgpLsNlriType list" where
  "BgpLsNlriType_all =
     [LNT_Node, LNT_Link, LNT_Ipv4TopologyPrefix, LNT_Ipv6TopologyPrefix, LNT_TePolicy, LNT_Srv6Sid]"

definition BgpLsNlriType_try_from :: "u16 \<Rightarrow> u16 + BgpLsNlriType" where
  "BgpLsNlriType_try_from = code_try_from BgpLsNlriType_into_u16 BgpLsNlriType_all"

interpretation ls_nlri_type: code_registry BgpLsNlriType_into_u16 BgpLsNlriType_all
proof
  show "a \<in> set BgpLsNlriType_all" for a by (cases a) (simp_all add: BgpLsNlriType_all_def)
qed (simp add: BgpLsNlriType_all_def)

definition BgpLsProtocolId_all :: "BgpLsProtocolId list" where
  "BgpLsProtocolId_all =
     [LPI_IsIsLevel1, LPI_IsIsLevel2, LPI_OspfV2, LPI_Direct, LPI_StaticConfiguration, LPI_OspfV3, LPI_Bgp
     , LPI_RsvpTe, LPI_SegmentRouting]"

definition BgpLsProtocolId_try_from :: "u8 \<Rightarrow> u8 IanaValueError + BgpLsProtocolId" where
  "BgpLsProtocolId_try_from = iana_try_from reserved_first BgpLsProtocolId_into_u8 BgpLsProtocolId_all"

interpretation ls_protocol: code_registry BgpLsProtocolId_into_u8 BgpLsProtocolId_all
proof
  show "a \<in> set BgpLsProtocolId_all" for a by (cases a) (simp_all add: BgpLsProtocolId_all_def)
qed (simp add: BgpLsProtocolId_all_def)

definition BgpLsNodeDescriptorType_all :: "BgpLsNodeDescriptorType list" where
  "BgpLsNodeDescriptorType_all =
     [LND_LocalNodeDescriptor, LND_RemoteNodeDescriptor]"

definition BgpLsNodeDescriptorType_try_from :: "u16 \<Rightarrow> u16 IanaValueError + BgpLsNodeDescriptorType" where
  "BgpLsNodeDescriptorType_try_from = iana_try_from reserved_to_255 BgpLsNodeDescriptorType_into_u16 BgpLsNodeDescriptorType_all"

interpretation ls_node_desc: code_registry BgpLsNodeDescriptorType_into_u16 BgpLsNodeDescriptorType_all
proof
  show "a \<in> set BgpLsNodeDescriptorType_all" for a by (cases a) (simp_all add: BgpLsNodeDescriptorType_all_def)
qed (simp add: BgpLsNodeDescriptorType_all_def)

definition BgpLsNodeDescriptorSubType_all :: "BgpLsNodeDescriptorSubType list" where
  "BgpLsNodeDescriptorSubType_all =
     [LNS_AutonomousSystem, LNS_BgpLsIdentifier, LNS_OspfAreaId, LNS_IgpRouterId, LNS_BgpRouterIdentifier
     , LNS_MemberAsNumber]"

definition BgpLsNodeDescriptorSubType_try_from :: "u16 \<Rightarrow> u16 IanaValueError + BgpLsNodeDescriptorSubType" where
  "BgpLsNodeDescriptorSubType_try_from = iana_try_from reserved_to_255 BgpLsNodeDescriptorSubType_into_u16 BgpLsNodeDescriptorSubType_all"

interpretation ls_node_sub: code_registry BgpLsNodeDescriptorSubType_into_u16 BgpLsNodeDescriptorSubType_all
proof
  show "a \<in> set BgpLsNodeDescriptorSubType_all" for a by (cases a) (simp_all add: BgpLsNodeDescriptorSubType_all_def)
qed (simp add: BgpLsNodeDescriptorSubType_all_def)

definition BgpLsPrefixDescriptorType_all :: "BgpLsPrefixDescriptorType list" where
  "BgpLsPrefixDescriptorType_all =
     [LPD_MultiTopologyIdentifier, LPD_OspfRouteType, LPD_IpReachabilityInformation]"

definition BgpLsPrefixDescriptorType_try_from :: "u16 \<Rightarrow> u16 IanaValueError + BgpLsPrefixDescriptorType" where
  "BgpLsPrefixDescriptorType_try_from = iana_try_from reserved_to_255 BgpLsPrefixDescriptorType_into_u16 BgpLsPrefixDescriptorType_all"

interpretation ls_prefix_desc: code_registry BgpLsPrefixDescriptorType_into_u16 BgpLsPrefixDescriptorType_all
proof
  show "a \<in> set BgpLsPrefixDescriptorType_all" for a by (cases a) (simp_all add: BgpLsPrefixDescriptorType_all_def)
qed (simp add: BgpLsPrefixDescriptorType_all_def)

definition BgpLsLinkDescriptorType_all :: "BgpLsLinkDescriptorType list" where
  "BgpLsLinkDescriptorType_all =
     [LLD_LinkLocalRemoteIdentifiers, LLD_IPv4InterfaceAddress, LLD_IPv4NeighborAddress
     , LLD_IPv6InterfaceAddress, LLD_IPv6NeighborAddress, LLD_MultiTopologyIdentifier]"

definition BgpLsLinkDescriptorType_try_from :: "u16 \<Rightarrow> u16 IanaValueError + BgpLsLinkDescriptorType" where
  "BgpLsLinkDescriptorType_try_from = iana_try_from reserved_to_255 BgpLsLinkDescriptorType_into_u16 BgpLsLinkDescriptorType_all"

interpretation ls_link_desc: code_registry BgpLsLinkDescriptorType_into_u16 BgpLsLinkDescriptorType_all
proof
  show "a \<in> set BgpLsLinkDescriptorType_all" for a by (cases a) (simp_all add: BgpLsLinkDescriptorType_all_def)
qed (simp add: BgpLsLinkDescriptorType_all_def)

definition BgpLsDescriptorTlvType_all :: "BgpLsDescriptorTlvType list" where
  "BgpLsDescriptorTlvType_all =
     [LDT_LocalNodeDescriptor, LDT_RemoteNodeDescriptor, LDT_MultiTopologyIdentifier, LDT_OspfRouteType
     , LDT_IpReachabilityInformation, LDT_LinkLocalRemoteIdentifiers, LDT_IPv4InterfaceAddress
     , LDT_IPv4NeighborAddress, LDT_IPv6InterfaceAddress, LDT_IPv6NeighborAddress]"

definition BgpLsDescriptorTlvType_try_from :: "u16 \<Rightarrow> u16 IanaValueError + BgpLsDescriptorTlvType" where
  "BgpLsDescriptorTlvType_try_from = iana_try_from reserved_to_255 BgpLsDescriptorTlvType_into_u16 BgpLsDescriptorTlvType_all"

interpretation ls_desc: code_registry BgpLsDescriptorTlvType_into_u16 BgpLsDescriptorTlvType_all
proof
  show "a \<in> set BgpLsDescriptorTlvType_all" for a by (cases a) (simp_all add: BgpLsDescriptorTlvType_all_def)
qed (simp add: BgpLsDescriptorTlvType_all_def)

definition BgpLsAttributeType_all :: "BgpLsAttributeType list" where
  "BgpLsAttributeType_all =
     [LAT_MultiTopologyIdentifier, LAT_NodeFlagBits, LAT_OpaqueNodeAttribute, LAT_NodeNameTlv, LAT_IsIsArea
     , LAT_LocalNodeIpv4RouterId, LAT_LocalNodeIpv6RouterId, LAT_RemoteNodeIpv4RouterId
     , LAT_RemoteNodeIpv6RouterId, LAT_RemoteNodeAdministrativeGroupColor, LAT_MaximumLinkBandwidth
     , LAT_MaximumReservableLinkBandwidth, LAT_UnreservedBandwidth, LAT_TeDefaultMetric
     , LAT_LinkProtectionType, LAT_MplsProtocolMask, LAT_IgpMetric, LAT_SharedRiskLinkGroup
     , LAT_OpaqueLinkAttribute, LAT_LinkName, LAT_IgpFlags, LAT_IgpRouteTag, LAT_IgpExtendedRouteTag
     , LAT_PrefixMetric, LAT_OspfForwardingAddress, LAT_OpaquePrefixAttribute, LAT_PeerNodeSid, LAT_PeerAdjSid
     , LAT_PeerSetSid]"

definition BgpLsAttributeType_try_from :: "u16 \<Rightarrow> u16 IanaValueError + BgpLsAttributeType" where
  "BgpLsAttributeType_try_from = iana_try_from reserved_to_255 BgpLsAttributeType_into_u16 BgpLsAttributeType_all"

interpretation ls_attr_type: code_registry BgpLsAttributeType_into_u16 BgpLsAttributeType_all
proof
  show "a \<in> set BgpLsAttributeType_all" for a by (cases a) (simp_all add: BgpLsAttributeType_all_def)
qed (simp add: BgpLsAttributeType_all_def)

definition BgpSidAttributeType_all :: "BgpSidAttributeType list" where
  "BgpSidAttributeType_all =
     [SAT_LabelIndex, SAT_Originator, SAT_SRv6ServiceL3, SAT_SRv6ServiceL2]"

definition BgpSidAttributeType_try_from :: "u8 \<Rightarrow> u8 IanaValueError + BgpSidAttributeType" where
  "BgpSidAttributeType_try_from = iana_try_from reserved_sid BgpSidAttributeType_into_u8 BgpSidAttributeType_all"

interpretation sid_type: code_registry BgpSidAttributeType_into_u8 BgpSidAttributeType_all
proof
  show "a \<in> set BgpSidAttributeType_all" for a by (cases a) (simp_all add: BgpSidAttributeType_all_def)
qed (simp add: BgpSidAttributeType_all_def)

definition BgpSrv6ServiceSubTlvType_all :: "BgpSrv6ServiceSubTlvType list" where
  "BgpSrv6ServiceSubTlvType_all =
     [SST_SRv6SIDInformation]"

definition BgpSrv6ServiceSubTlvType_try_from :: "u8 \<Rightarrow> u8 IanaValueError + BgpSrv6ServiceSubTlvType" where
  "BgpSrv6ServiceSubTlvType_try_from = iana_try_from reserved_ends BgpSrv6ServiceSubTlvType_into_u8 BgpSrv6ServiceSubTlvType_all"

interpretation srv6_sub: code_registry BgpSrv6ServiceSubTlvType_into_u8 BgpSrv6ServiceSubTlvType_all
proof
  show "a \<in> set BgpSrv6ServiceSubTlvType_all" for a by (cases a) (simp_all add: BgpSrv6ServiceSubTlvType_all_def)
qed (simp add: BgpSrv6ServiceSubTlvType_all_def)

definition BgpSrv6ServiceSubSubTlvType_all :: "BgpSrv6ServiceSubSubTlvType list" where
  "BgpSrv6ServiceSubSubTlvType_all =
     [SSST_SRv6SIDStructure]"

definition BgpSrv6ServiceSubSubTlvType_try_from :: "u8 \<Rightarrow> u8 IanaValueError + BgpSrv6ServiceSubSubTlvType" where
  "BgpSrv6ServiceSubSubTlvType_try_from = iana_try_from reserved_ends BgpSrv6ServiceSubSubTlvType_into_u8 BgpSrv6ServiceSubSubTlvType_all"

interpretation srv6_sub_sub: code_registry BgpSrv6ServiceSubSubTlvType_into_u8 BgpSrv6ServiceSubSubTlvType_all
proof
  show "a \<in> set BgpSrv6ServiceSubSubTlvType_all" for a by (cases a) (simp_all add: BgpSrv6ServiceSubSubTlvType_all_def)
qed (simp add: BgpSrv6ServiceSubSubTlvType_all_def)

definition OspfRouteType_all :: "OspfRouteType list" where
  "OspfRouteType_all =
     [ORT_IntraArea, ORT_InterArea, ORT_External1, ORT_External2, ORT_Nssa1, ORT_Nssa2]"

definition OspfRouteType_try_from :: "u8 \<Rightarrow> u8 + OspfRouteType" where
  "OspfRouteType_try_from = code_try_from OspfRouteType_into_u8 OspfRouteType_all"

interpretation ospf_route: code_registry OspfRouteType_into_u8 OspfRouteType_all
proof
  show "a \<in> set OspfRouteType_all" for a by (cases a) (simp_all add: OspfRouteType_all_def)
qed (simp add: OspfRouteType_all_def)

lemmas link_state_codes [simp, wire_simps] =
  ls_nlri_type.try_roundtrip [folded BgpLsNlriType_try_from_def]
  ls_protocol.iana_roundtrip [where err = reserved_first, folded BgpLsProtocolId_try_from_def]
  ls_node_desc.iana_roundtrip [where err = reserved_to_255, folded BgpLsNodeDescriptorType_try_from_def]
  ls_node_sub.iana_roundtrip [where err = reserved_to_255, folded BgpLsNodeDescriptorSubType_try_from_def]
  ls_prefix_desc.iana_roundtrip [where err = reserved_to_255, folded BgpLsPrefixDescriptorType_try_from_def]
  ls_link_desc.iana_roundtrip [where err = reserved_to_255, folded BgpLsLinkDescriptorType_try_from_def]
  ls_desc.iana_roundtrip [where err = reserved_to_255, folded BgpLsDescriptorTlvType_try_from_def]
  ls_attr_type.iana_roundtrip [where err = reserved_to_255, folded BgpLsAttributeType_try_from_def]
  sid_type.iana_roundtrip [where err = reserved_sid, folded BgpSidAttributeType_try_from_def]
  srv6_sub.iana_roundtrip [where err = reserved_ends, folded BgpSrv6ServiceSubTlvType_try_from_def]
  srv6_sub_sub.iana_roundtrip [where err = reserved_ends, folded BgpSrv6ServiceSubSubTlvType_try_from_def]
  ospf_route.try_roundtrip [folded OspfRouteType_try_from_def]

lemmas link_state_known =
  ls_protocol.iana_Inr [where err = reserved_first, folded BgpLsProtocolId_try_from_def]
  ls_node_desc.iana_Inr [where err = reserved_to_255, folded BgpLsNodeDescriptorType_try_from_def]
  ls_node_sub.iana_Inr [where err = reserved_to_255, folded BgpLsNodeDescriptorSubType_try_from_def]
  ls_prefix_desc.iana_Inr [where err = reserved_to_255, folded BgpLsPrefixDescriptorType_try_from_def]
  ls_link_desc.iana_Inr [where err = reserved_to_255, folded BgpLsLinkDescriptorType_try_from_def]
  ls_desc.iana_Inr [where err = reserved_to_255, folded BgpLsDescriptorTlvType_try_from_def]
  ls_attr_type.iana_Inr [where err = reserved_to_255, folded BgpLsAttributeType_try_from_def]
  sid_type.iana_Inr [where err = reserved_sid, folded BgpSidAttributeType_try_from_def]
  srv6_sub.iana_Inr [where err = reserved_ends, folded BgpSrv6ServiceSubTlvType_try_from_def]
  srv6_sub_sub.iana_Inr [where err = reserved_ends, folded BgpSrv6ServiceSubSubTlvType_try_from_def]

text \<open>The registry of all descriptors is the union of those of the nodes, the links and the prefixes.\<close>

lemma descriptor_registry_union:
  "(\<exists>t. BgpLsDescriptorTlvType_try_from v = Inr t) \<longleftrightarrow>
     (\<exists>t. BgpLsNodeDescriptorType_try_from v = Inr t) \<or> (\<exists>t. BgpLsLinkDescriptorType_try_from v = Inr t) \<or>
     (\<exists>t. BgpLsPrefixDescriptorType_try_from v = Inr t)"
proof -
  have ex: "(\<exists>t. into t = v) \<longleftrightarrow> v \<in> into ` set xs" if "\<And>t. t \<in> set xs" for into :: "'a \<Rightarrow> u16" and xs
    using that by auto
  show ?thesis
    unfolding link_state_known ex [OF ls_desc.complete] ex [OF ls_node_desc.complete] ex [OF ls_link_desc.complete]
      ex [OF ls_prefix_desc.complete]
    by (auto simp: BgpLsDescriptorTlvType_all_def BgpLsNodeDescriptorType_all_def BgpLsLinkDescriptorType_all_def
        BgpLsPrefixDescriptorType_all_def)
qed

end
