(* ===== verification/Wire_Link_State.thy ===== *)
theory Wire_Link_State
  imports Wire_Tlv Wire_Labels Link_State_Codes
begin

text \<open>
  Link-state networks on the wire: \<open>bgp_ls.rs\<close> under \<open>src/netgauze/bgp-pkt/src/wire/deserializer/nlri\<close> and
  \<open>serializer/nlri\<close>. The payload of the errors of other readers is left out. The writers compute lengths
  that are cut to the width of their field.
\<close>

unbundle bit_operations_syntax

section \<open>Readers\<close>

datatype BgpLsNlriParsingError =
    Ls_NomError
  | Ls_UnknownNlriType u16
  | Ls_RouteDistinguisherParsingError
  | Ls_UnknownProtocolId "u8 IanaValueError"
  | Ls_UnknownDescriptorTlvType "u16 IanaValueError"
  | Ls_UnknownNodeDescriptorSubTlvType "u16 IanaValueError"
  | Ls_UnknownPrefixDescriptorTlvType "u16 IanaValueError"
  | Ls_UnknownOspfRouteType u8
  | Ls_BadNodeDescriptorTlvType BgpLsNodeDescriptorType
  | Ls_UnknownLinkDescriptorTlvType "u16 IanaValueError"
  | Ls_BadTlvTypeInNlri BgpLsNlriType
  | Ls_Ipv4PrefixError Ipv4PrefixParsingError
  | Ls_Ipv6PrefixError Ipv4PrefixParsingError

text \<open>A type that is unknown makes an unknown value, a reserved or deprecated one is an error.\<close>

definition known_tlv ::
    "('w \<Rightarrow> 'w IanaValueError + 't) \<Rightarrow> ('w IanaValueError \<Rightarrow> 'e) \<Rightarrow> ('w \<Rightarrow> 'a) \<Rightarrow> ('t \<Rightarrow> 'e + 'a) \<Rightarrow> 'w \<Rightarrow> 'e + 'a" where
  "known_tlv try_from err unknown f tlv_type =
     (case try_from tlv_type of
        Inr t \<Rightarrow> f t
      | Inl (IanaUnknown v) \<Rightarrow> Inr (unknown v)
      | Inl error \<Rightarrow> Inl (err error))"

definition MultiTopologyId_from_wire :: "'e \<Rightarrow> ('e, MultiTopologyId) parser" where
  "MultiTopologyId_from_wire e = parse_bind (be_u16 e) (\<lambda>v. parse_return (MultiTopologyId_from v))"

definition MultiTopologyIdData_from_wire :: "'e \<Rightarrow> ('e, MultiTopologyIdData) parser" where
  "MultiTopologyIdData_from_wire e = till_empty (MultiTopologyId_from_wire e)"

definition read_in :: "('a \<Rightarrow> 'b) \<Rightarrow> ('e, 'a) parser \<Rightarrow> bytes \<Rightarrow> 'e + 'b" where
  "read_in mk p tlv_data = map_sum id mk (first_of (p tlv_data))"

definition BgpLsNodeDescriptorSubTlv_data :: "u16 \<Rightarrow> u16 \<Rightarrow> bytes \<Rightarrow> BgpLsNlriParsingError + BgpLsNodeDescriptorSubTlv" where
  "BgpLsNodeDescriptorSubTlv_data tlv_type tlv_length tlv_data =
     known_tlv BgpLsNodeDescriptorSubType_try_from Ls_UnknownNodeDescriptorSubTlvType (\<lambda>code. NDS_Unknown code tlv_data) (\<lambda>t.
       case t of
         LNS_AutonomousSystem \<Rightarrow> read_in NDS_AutonomousSystem (be_u32 Ls_NomError) tlv_data
       | LNS_BgpLsIdentifier \<Rightarrow> read_in NDS_BgpLsIdentifier (be_u32 Ls_NomError) tlv_data
       | LNS_OspfAreaId \<Rightarrow> read_in NDS_OspfAreaId (be_u32 Ls_NomError) tlv_data
       | LNS_IgpRouterId \<Rightarrow> Inr (NDS_IgpRouterId tlv_data)
       | LNS_BgpRouterIdentifier \<Rightarrow> read_in NDS_BgpRouterIdentifier (be_u32 Ls_NomError) tlv_data
       | LNS_MemberAsNumber \<Rightarrow> read_in NDS_MemberAsNumber (be_u32 Ls_NomError) tlv_data) tlv_type"

definition BgpLsNodeDescriptorSubTlv_from_wire :: "(BgpLsNlriParsingError, BgpLsNodeDescriptorSubTlv) parser" where
  "BgpLsNodeDescriptorSubTlv_from_wire = with_tlv (read_tlv_header_t16_l16 Ls_NomError) BgpLsNodeDescriptorSubTlv_data"

definition BgpLsNodeDescriptors_from_wire :: "BgpLsNodeDescriptorType \<Rightarrow> (BgpLsNlriParsingError, BgpLsNodeDescriptors) parser" where
  "BgpLsNodeDescriptors_from_wire expected =
     parse_bind
       (map_res (map_res (be_u16 Ls_NomError) (\<lambda>v. map_err Ls_UnknownDescriptorTlvType (BgpLsNodeDescriptorType_try_from v)))
          (\<lambda>t. if t \<noteq> expected then Inl (Ls_BadNodeDescriptorTlvType t) else Inr t))
       (\<lambda>_. parse_bind (be_u16 Ls_NomError) (\<lambda>tlv_length.
        map_res (take_bytes Ls_NomError (unat tlv_length)) (parse_till_empty BgpLsNodeDescriptorSubTlv_from_wire)))"

definition BgpLsLinkDescriptor_data :: "u16 \<Rightarrow> u16 \<Rightarrow> bytes \<Rightarrow> BgpLsNlriParsingError + BgpLsLinkDescriptor" where
  "BgpLsLinkDescriptor_data tlv_type tlv_length tlv_data =
     known_tlv BgpLsLinkDescriptorType_try_from Ls_UnknownLinkDescriptorTlvType (\<lambda>code. LD_Unknown code tlv_data) (\<lambda>t.
       case t of
         LLD_LinkLocalRemoteIdentifiers \<Rightarrow>
           read_in (\<lambda>(link_local_identifier, link_remote_identifier). LD_LinkLocalRemoteIdentifiers link_local_identifier link_remote_identifier)
             (parse_bind (be_u32 Ls_NomError) (\<lambda>local. parse_bind (be_u32 Ls_NomError) (\<lambda>remote. parse_return (local, remote)))) tlv_data
       | LLD_IPv4InterfaceAddress \<Rightarrow> read_in LD_IPv4InterfaceAddress (be_u32 Ls_NomError) tlv_data
       | LLD_IPv4NeighborAddress \<Rightarrow> read_in LD_IPv4NeighborAddress (be_u32 Ls_NomError) tlv_data
       | LLD_IPv6InterfaceAddress \<Rightarrow> read_in LD_IPv6InterfaceAddress (be_u128 Ls_NomError) tlv_data
       | LLD_IPv6NeighborAddress \<Rightarrow> read_in LD_IPv6NeighborAddress (be_u128 Ls_NomError) tlv_data
       | LLD_MultiTopologyIdentifier \<Rightarrow>
           read_in LD_MultiTopologyIdentifier (MultiTopologyIdData_from_wire Ls_NomError) tlv_data) tlv_type"

definition BgpLsLinkDescriptor_from_wire :: "(BgpLsNlriParsingError, BgpLsLinkDescriptor) parser" where
  "BgpLsLinkDescriptor_from_wire = with_tlv (read_tlv_header_t16_l16 Ls_NomError) BgpLsLinkDescriptor_data"

definition OspfRouteType_from_wire :: "(BgpLsNlriParsingError, OspfRouteType) parser" where
  "OspfRouteType_from_wire = map_res (be_u8 Ls_NomError) (\<lambda>v. map_err Ls_UnknownOspfRouteType (OspfRouteType_try_from v))"

definition IpReachabilityInformationData_from_wire :: "BgpLsNlriType \<Rightarrow> (BgpLsNlriParsingError, IpNet) parser" where
  "IpReachabilityInformationData_from_wire nlri_type =
     (case nlri_type of
        LNT_Ipv4TopologyPrefix \<Rightarrow>
          parse_bind (parse_into Ls_Ipv4PrefixError Ipv4Net_from_wire) (\<lambda>(addr, prefix_len). parse_return (NetV4 addr prefix_len))
      | LNT_Ipv6TopologyPrefix \<Rightarrow>
          parse_bind (parse_into Ls_Ipv6PrefixError Ipv6Net_from_wire) (\<lambda>(addr, prefix_len). parse_return (NetV6 addr prefix_len))
      | _ \<Rightarrow> (\<lambda>_. Inl (Ls_BadTlvTypeInNlri nlri_type)))"

definition BgpLsPrefixDescriptor_data ::
    "BgpLsNlriType \<Rightarrow> u16 \<Rightarrow> u16 \<Rightarrow> bytes \<Rightarrow> BgpLsNlriParsingError + BgpLsPrefixDescriptor" where
  "BgpLsPrefixDescriptor_data nlri_type tlv_type tlv_length tlv_data =
     known_tlv BgpLsPrefixDescriptorType_try_from Ls_UnknownPrefixDescriptorTlvType (\<lambda>code. PD_Unknown code tlv_data) (\<lambda>t.
       case t of
         LPD_MultiTopologyIdentifier \<Rightarrow>
           read_in PD_MultiTopologyIdentifier (MultiTopologyIdData_from_wire Ls_NomError) tlv_data
       | LPD_OspfRouteType \<Rightarrow> read_in PD_OspfRouteType OspfRouteType_from_wire tlv_data
       | LPD_IpReachabilityInformation \<Rightarrow>
           read_in PD_IpReachabilityInformation (IpReachabilityInformationData_from_wire nlri_type) tlv_data) tlv_type"

definition BgpLsPrefixDescriptor_from_wire :: "BgpLsNlriType \<Rightarrow> (BgpLsNlriParsingError, BgpLsPrefixDescriptor) parser" where
  "BgpLsPrefixDescriptor_from_wire nlri_type =
     with_tlv (read_tlv_header_t16_l16 Ls_NomError) (BgpLsPrefixDescriptor_data nlri_type)"

definition read_protocol_id :: "(BgpLsNlriParsingError, BgpLsProtocolId) parser" where
  "read_protocol_id = map_res (be_u8 Ls_NomError) (\<lambda>v. map_err Ls_UnknownProtocolId (BgpLsProtocolId_try_from v))"

definition BgpLsNlriNode_from_wire :: "(BgpLsNlriParsingError, BgpLsNlriNode) parser" where
  "BgpLsNlriNode_from_wire =
     parse_bind read_protocol_id (\<lambda>protocol_id. parse_bind (be_word Ls_NomError) (\<lambda>identifier.
     parse_bind (BgpLsNodeDescriptors_from_wire LND_LocalNodeDescriptor) (\<lambda>local_node_descriptors.
     parse_return
       \<lparr> ln_protocol_id = protocol_id, ln_identifier = identifier, ln_local_node_descriptors = local_node_descriptors \<rparr>)))"

definition BgpLsNlriLink_from_wire :: "(BgpLsNlriParsingError, BgpLsNlriLink) parser" where
  "BgpLsNlriLink_from_wire =
     parse_bind read_protocol_id (\<lambda>protocol_id. parse_bind (be_word Ls_NomError) (\<lambda>identifier.
     parse_bind (BgpLsNodeDescriptors_from_wire LND_LocalNodeDescriptor) (\<lambda>local_node_descriptors.
     parse_bind (BgpLsNodeDescriptors_from_wire LND_RemoteNodeDescriptor) (\<lambda>remote_node_descriptors.
     parse_bind (till_empty BgpLsLinkDescriptor_from_wire) (\<lambda>link_descriptors.
     parse_return
       \<lparr> ll_protocol_id = protocol_id, ll_identifier = identifier, ll_local_node_descriptors = local_node_descriptors,
         ll_remote_node_descriptors = remote_node_descriptors, ll_link_descriptors = link_descriptors \<rparr>)))))"

definition BgpLsNlriIpPrefix_from_wire :: "BgpLsNlriType \<Rightarrow> (BgpLsNlriParsingError, BgpLsNlriIpPrefix) parser" where
  "BgpLsNlriIpPrefix_from_wire nlri_type =
     parse_bind read_protocol_id (\<lambda>protocol_id. parse_bind (be_word Ls_NomError) (\<lambda>identifier.
     parse_bind (BgpLsNodeDescriptors_from_wire LND_LocalNodeDescriptor) (\<lambda>local_node_descriptors.
     parse_bind (till_empty (BgpLsPrefixDescriptor_from_wire nlri_type)) (\<lambda>prefix_descriptors.
     parse_return
       \<lparr> lp_protocol_id = protocol_id, lp_identifier = identifier, lp_local_node_descriptors = local_node_descriptors,
         lp_prefix_descriptors = prefix_descriptors \<rparr>))))"

definition BgpLsNlriValue_from_wire :: "BgpLsNlriType \<Rightarrow> bytes \<Rightarrow> BgpLsNlriParsingError + BgpLsNlriValue" where
  "BgpLsNlriValue_from_wire nlri_type buf =
     (case nlri_type of
        LNT_Node \<Rightarrow> read_in LsN_Node BgpLsNlriNode_from_wire buf
      | LNT_Link \<Rightarrow> read_in LsN_Link BgpLsNlriLink_from_wire buf
      | LNT_Ipv4TopologyPrefix \<Rightarrow> read_in LsN_Ipv4Prefix (BgpLsNlriIpPrefix_from_wire LNT_Ipv4TopologyPrefix) buf
      | LNT_Ipv6TopologyPrefix \<Rightarrow> read_in LsN_Ipv6Prefix (BgpLsNlriIpPrefix_from_wire LNT_Ipv6TopologyPrefix) buf
      | _ \<Rightarrow> Inr (LsN_Unknown (BgpLsNlriType_into_u16 nlri_type) buf))"

text \<open>The type and the data of a network, behind its path identifier.\<close>

definition read_nlri_tlv :: "(BgpLsNlriParsingError, BgpLsNlriType \<times> bytes) parser" where
  "read_nlri_tlv =
     parse_bind (map_res (be_u16 Ls_NomError) (\<lambda>v. map_err Ls_UnknownNlriType (BgpLsNlriType_try_from v))) (\<lambda>nlri_type.
     parse_bind (be_u16 Ls_NomError) (\<lambda>nlri_len.
     parse_bind (take_bytes Ls_NomError (unat nlri_len)) (\<lambda>tlv_data. parse_return (nlri_type, tlv_data))))"

definition BgpLsNlri_from_wire :: "bool \<Rightarrow> (BgpLsNlriParsingError, BgpLsNlri) parser" where
  "BgpLsNlri_from_wire add_path =
     parse_bind (read_path_id Ls_NomError add_path) (\<lambda>path_id.
     map_res read_nlri_tlv (\<lambda>(nlri_type, tlv_data).
       map_sum id (\<lambda>v. \<lparr> ls_path_id = path_id, ls_value = v \<rparr>) (BgpLsNlriValue_from_wire nlri_type tlv_data)))"

definition BgpLsVpnNlri_from_wire :: "bool \<Rightarrow> (BgpLsNlriParsingError, BgpLsVpnNlri) parser" where
  "BgpLsVpnNlri_from_wire add_path =
     parse_bind (read_path_id Ls_NomError add_path) (\<lambda>path_id.
     map_res read_nlri_tlv (\<lambda>(nlri_type, tlv_data).
       case parse_into (\<lambda>_. Ls_RouteDistinguisherParsingError) RouteDistinguisher_from_wire tlv_data of
         Inl e \<Rightarrow> Inl e
       | Inr (rd, tlv_data) \<Rightarrow>
           map_sum id (\<lambda>v. \<lparr> lsv_path_id = path_id, lsv_rd = rd, lsv_value = v \<rparr>) (BgpLsNlriValue_from_wire nlri_type tlv_data)))"

section \<open>Lengths\<close>

fun BgpLsNodeDescriptorSubTlv_data_len :: "BgpLsNodeDescriptorSubTlv \<Rightarrow> nat" where
  "BgpLsNodeDescriptorSubTlv_data_len (NDS_IgpRouterId inner) = length inner"
| "BgpLsNodeDescriptorSubTlv_data_len (NDS_Unknown _ val) = length val"
| "BgpLsNodeDescriptorSubTlv_data_len _ = 4"

definition BgpLsNodeDescriptorSubTlv_len :: "BgpLsNodeDescriptorSubTlv \<Rightarrow> nat" where
  "BgpLsNodeDescriptorSubTlv_len tlv = 4 + BgpLsNodeDescriptorSubTlv_data_len tlv"

definition subtlvs_len :: "BgpLsNodeDescriptors \<Rightarrow> nat" where
  "subtlvs_len tlvs = sum_list (map BgpLsNodeDescriptorSubTlv_len tlvs)"

definition BgpLsNodeDescriptors_len :: "BgpLsNodeDescriptors \<Rightarrow> nat" where
  "BgpLsNodeDescriptors_len tlvs = 4 + subtlvs_len tlvs"

fun BgpLsLinkDescriptor_data_len :: "BgpLsLinkDescriptor \<Rightarrow> nat" where
  "BgpLsLinkDescriptor_data_len (LD_LinkLocalRemoteIdentifiers _ _) = 8"
| "BgpLsLinkDescriptor_data_len (LD_IPv4InterfaceAddress _) = 4"
| "BgpLsLinkDescriptor_data_len (LD_IPv4NeighborAddress _) = 4"
| "BgpLsLinkDescriptor_data_len (LD_IPv6InterfaceAddress _) = 16"
| "BgpLsLinkDescriptor_data_len (LD_IPv6NeighborAddress _) = 16"
| "BgpLsLinkDescriptor_data_len (LD_MultiTopologyIdentifier ids) = 2 * length ids"
| "BgpLsLinkDescriptor_data_len (LD_Unknown _ val) = length val"

definition BgpLsLinkDescriptor_len :: "BgpLsLinkDescriptor \<Rightarrow> nat" where
  "BgpLsLinkDescriptor_len tlv = 4 + BgpLsLinkDescriptor_data_len tlv"

fun BgpLsPrefixDescriptor_data_len :: "BgpLsPrefixDescriptor \<Rightarrow> nat" where
  "BgpLsPrefixDescriptor_data_len (PD_MultiTopologyIdentifier ids) = 2 * length ids"
| "BgpLsPrefixDescriptor_data_len (PD_OspfRouteType _) = 1"
| "BgpLsPrefixDescriptor_data_len (PD_IpReachabilityInformation net) = 1 + most_significant_bytes (ipnet_prefix_len net)"
| "BgpLsPrefixDescriptor_data_len (PD_Unknown _ val) = length val"

definition BgpLsPrefixDescriptor_len :: "BgpLsPrefixDescriptor \<Rightarrow> nat" where
  "BgpLsPrefixDescriptor_len tlv = 4 + BgpLsPrefixDescriptor_data_len tlv"

definition BgpLsNlriNode_len :: "BgpLsNlriNode \<Rightarrow> nat" where
  "BgpLsNlriNode_len n = 9 + BgpLsNodeDescriptors_len (ln_local_node_descriptors n)"

definition BgpLsNlriLink_len :: "BgpLsNlriLink \<Rightarrow> nat" where
  "BgpLsNlriLink_len l =
     9 + BgpLsNodeDescriptors_len (ll_local_node_descriptors l) + BgpLsNodeDescriptors_len (ll_remote_node_descriptors l) +
     sum_list (map BgpLsLinkDescriptor_len (ll_link_descriptors l))"

definition BgpLsNlriIpPrefix_len :: "BgpLsNlriIpPrefix \<Rightarrow> nat" where
  "BgpLsNlriIpPrefix_len p =
     9 + BgpLsNodeDescriptors_len (lp_local_node_descriptors p) + sum_list (map BgpLsPrefixDescriptor_len (lp_prefix_descriptors p))"

fun BgpLsNlriValue_len :: "BgpLsNlriValue \<Rightarrow> nat" where
  "BgpLsNlriValue_len (LsN_Node n) = BgpLsNlriNode_len n"
| "BgpLsNlriValue_len (LsN_Link l) = BgpLsNlriLink_len l"
| "BgpLsNlriValue_len (LsN_Ipv4Prefix p) = BgpLsNlriIpPrefix_len p"
| "BgpLsNlriValue_len (LsN_Ipv6Prefix p) = BgpLsNlriIpPrefix_len p"
| "BgpLsNlriValue_len (LsN_Unknown _ val) = length val"

definition BgpLsNlri_len :: "BgpLsNlri \<Rightarrow> nat" where
  "BgpLsNlri_len n = 4 + path_id_len (ls_path_id n) + BgpLsNlriValue_len (ls_value n)"

definition BgpLsVpnNlri_len :: "BgpLsVpnNlri \<Rightarrow> nat" where
  "BgpLsVpnNlri_len n = 12 + path_id_len (lsv_path_id n) + BgpLsNlriValue_len (lsv_value n)"

section \<open>Writers\<close>

definition MultiTopologyIdData_write :: "MultiTopologyIdData \<Rightarrow> bytes" where
  "MultiTopologyIdData_write ids = concat (map to_be_bytes ids)"

fun BgpLsNodeDescriptorSubTlv_body :: "BgpLsNodeDescriptorSubTlv \<Rightarrow> bytes" where
  "BgpLsNodeDescriptorSubTlv_body (NDS_AutonomousSystem v) = to_be_bytes v"
| "BgpLsNodeDescriptorSubTlv_body (NDS_BgpLsIdentifier v) = to_be_bytes v"
| "BgpLsNodeDescriptorSubTlv_body (NDS_OspfAreaId v) = to_be_bytes v"
| "BgpLsNodeDescriptorSubTlv_body (NDS_IgpRouterId val) = val"
| "BgpLsNodeDescriptorSubTlv_body (NDS_BgpRouterIdentifier v) = to_be_bytes v"
| "BgpLsNodeDescriptorSubTlv_body (NDS_MemberAsNumber v) = to_be_bytes v"
| "BgpLsNodeDescriptorSubTlv_body (NDS_Unknown _ val) = val"

definition BgpLsNodeDescriptorSubTlv_write :: "BgpLsNodeDescriptorSubTlv \<Rightarrow> bytes" where
  "BgpLsNodeDescriptorSubTlv_write tlv =
     write_tlv_header_t16_l16 (raw_code BgpLsNodeDescriptorSubType_into_u16 (BgpLsNodeDescriptorSubTlv_code tlv))
       (of_nat (BgpLsNodeDescriptorSubTlv_len tlv)) @ BgpLsNodeDescriptorSubTlv_body tlv"

definition BgpLsNodeDescriptors_write :: "BgpLsNodeDescriptorType \<Rightarrow> BgpLsNodeDescriptors \<Rightarrow> bytes" where
  "BgpLsNodeDescriptors_write t tlvs =
     write_tlv_header_t16_l16 (BgpLsNodeDescriptorType_into_u16 t) (of_nat (BgpLsNodeDescriptors_len tlvs)) @
     concat (map BgpLsNodeDescriptorSubTlv_write tlvs)"

fun BgpLsLinkDescriptor_body :: "BgpLsLinkDescriptor \<Rightarrow> bytes" where
  "BgpLsLinkDescriptor_body (LD_LinkLocalRemoteIdentifiers local remote) = to_be_bytes local @ to_be_bytes remote"
| "BgpLsLinkDescriptor_body (LD_IPv4InterfaceAddress ipv4) = to_be_bytes ipv4"
| "BgpLsLinkDescriptor_body (LD_IPv4NeighborAddress ipv4) = to_be_bytes ipv4"
| "BgpLsLinkDescriptor_body (LD_IPv6InterfaceAddress ipv6) = to_be_bytes ipv6"
| "BgpLsLinkDescriptor_body (LD_IPv6NeighborAddress ipv6) = to_be_bytes ipv6"
| "BgpLsLinkDescriptor_body (LD_MultiTopologyIdentifier ids) = MultiTopologyIdData_write ids"
| "BgpLsLinkDescriptor_body (LD_Unknown _ val) = val"

definition BgpLsLinkDescriptor_write :: "BgpLsLinkDescriptor \<Rightarrow> bytes" where
  "BgpLsLinkDescriptor_write tlv =
     write_tlv_header_t16_l16 (raw_code BgpLsLinkDescriptorType_into_u16 (BgpLsLinkDescriptor_code tlv))
       (of_nat (BgpLsLinkDescriptor_len tlv)) @ BgpLsLinkDescriptor_body tlv"

fun IpReachabilityInformationData_write :: "codec_env \<Rightarrow> IpNet \<Rightarrow> bytes" where
  "IpReachabilityInformationData_write env (NetV4 addr prefix_len) =
     prefix_len # take (most_significant_bytes prefix_len) (to_be_bytes (env_network4 env (addr, prefix_len)))"
| "IpReachabilityInformationData_write env (NetV6 addr prefix_len) =
     prefix_len # take (most_significant_bytes prefix_len) (to_be_bytes (env_network6 env (addr, prefix_len)))"

fun BgpLsPrefixDescriptor_body :: "codec_env \<Rightarrow> BgpLsPrefixDescriptor \<Rightarrow> bytes" where
  "BgpLsPrefixDescriptor_body env (PD_MultiTopologyIdentifier ids) = MultiTopologyIdData_write ids"
| "BgpLsPrefixDescriptor_body env (PD_OspfRouteType t) = [OspfRouteType_into_u8 t]"
| "BgpLsPrefixDescriptor_body env (PD_IpReachabilityInformation net) = IpReachabilityInformationData_write env net"
| "BgpLsPrefixDescriptor_body env (PD_Unknown _ val) = val"

definition BgpLsPrefixDescriptor_write :: "codec_env \<Rightarrow> BgpLsPrefixDescriptor \<Rightarrow> bytes" where
  "BgpLsPrefixDescriptor_write env tlv =
     write_tlv_header_t16_l16 (raw_code BgpLsPrefixDescriptorType_into_u16 (BgpLsPrefixDescriptor_code tlv))
       (of_nat (BgpLsPrefixDescriptor_len tlv)) @ BgpLsPrefixDescriptor_body env tlv"

definition BgpLsNlriNode_write :: "BgpLsNlriNode \<Rightarrow> bytes" where
  "BgpLsNlriNode_write n =
     [BgpLsProtocolId_into_u8 (ln_protocol_id n)] @ to_be_bytes (ln_identifier n) @
     BgpLsNodeDescriptors_write LND_LocalNodeDescriptor (ln_local_node_descriptors n)"

definition BgpLsNlriLink_write :: "BgpLsNlriLink \<Rightarrow> bytes" where
  "BgpLsNlriLink_write l =
     [BgpLsProtocolId_into_u8 (ll_protocol_id l)] @ to_be_bytes (ll_identifier l) @
     BgpLsNodeDescriptors_write LND_LocalNodeDescriptor (ll_local_node_descriptors l) @
     BgpLsNodeDescriptors_write LND_RemoteNodeDescriptor (ll_remote_node_descriptors l) @
     concat (map BgpLsLinkDescriptor_write (ll_link_descriptors l))"

definition BgpLsNlriIpPrefix_write :: "codec_env \<Rightarrow> BgpLsNlriIpPrefix \<Rightarrow> bytes" where
  "BgpLsNlriIpPrefix_write env p =
     [BgpLsProtocolId_into_u8 (lp_protocol_id p)] @ to_be_bytes (lp_identifier p) @
     BgpLsNodeDescriptors_write LND_LocalNodeDescriptor (lp_local_node_descriptors p) @
     concat (map (BgpLsPrefixDescriptor_write env) (lp_prefix_descriptors p))"

fun BgpLsNlriValue_write :: "codec_env \<Rightarrow> BgpLsNlriValue \<Rightarrow> bytes" where
  "BgpLsNlriValue_write env (LsN_Node n) = BgpLsNlriNode_write n"
| "BgpLsNlriValue_write env (LsN_Link l) = BgpLsNlriLink_write l"
| "BgpLsNlriValue_write env (LsN_Ipv4Prefix p) = BgpLsNlriIpPrefix_write env p"
| "BgpLsNlriValue_write env (LsN_Ipv6Prefix p) = BgpLsNlriIpPrefix_write env p"
| "BgpLsNlriValue_write env (LsN_Unknown _ val) = val"

text \<open>The path identifier is in front of the header and does not count.\<close>

definition BgpLsNlri_write :: "codec_env \<Rightarrow> BgpLsNlri \<Rightarrow> bytes" where
  "BgpLsNlri_write env n =
     path_id_write (ls_path_id n) @
     write_tlv_header_t16_l16 (raw_code BgpLsNlriType_into_u16 (BgpLsNlriValue_code (ls_value n)))
       (of_nat (BgpLsNlri_len n) - of_nat (path_id_len (ls_path_id n))) @
     BgpLsNlriValue_write env (ls_value n)"

definition BgpLsVpnNlri_write :: "codec_env \<Rightarrow> BgpLsVpnNlri \<Rightarrow> bytes" where
  "BgpLsVpnNlri_write env n =
     path_id_write (lsv_path_id n) @
     write_tlv_header_t16_l16 (raw_code BgpLsNlriType_into_u16 (BgpLsNlriValue_code (lsv_value n)))
       (of_nat (BgpLsVpnNlri_len n) - of_nat (path_id_len (lsv_path_id n))) @
     RouteDistinguisher_write (lsv_rd n) @ BgpLsNlriValue_write env (lsv_value n)"

end
