(* ===== verification/Wire_Link_State_Laws.thy ===== *)
theory Wire_Link_State_Laws
  imports Wire_Link_State
begin

text \<open>
  A link-state network that was written is read back, for the networks that \<open>ls_nlri_ok\<close> and
  \<open>ls_vpn_ok\<close> describe: topology identifiers without reserved bits, unknown values under a code that the
  reader takes for unknown, prefixes of the family of the network, and lengths that their fields can hold.
\<close>

section \<open>Elements\<close>

lemma known_tlv_known: "try_from v = Inr t \<Longrightarrow> known_tlv try_from err unknown f v = f t"
  by (simp add: known_tlv_def)

lemma known_tlv_unknown: "try_from v = Inl (IanaUnknown v) \<Longrightarrow> known_tlv try_from err unknown f v = Inr (unknown v)"
  by (simp add: known_tlv_def)

lemma read_in_written: "p d = Inr (a, rest) \<Longrightarrow> read_in mk p d = Inr (mk a)"
  by (simp add: read_in_def first_of_def)

lemma raw_code_simps [simp]: "raw_code into (Inr t) = into t" "raw_code into (Inl c) = c"
  by (simp_all add: raw_code_def)

lemmas tlv_reads = known_tlv_known known_tlv_unknown read_in_written

interpretation topology_id: element_codec "to_be_bytes :: u16 \<Rightarrow> bytes" "MultiTopologyId_from_wire e" "\<lambda>v. unat v < 4096" for e
proof
  show "MultiTopologyId_from_wire e (to_be_bytes v @ rest) = Inr (v, rest)" if "unat v < 4096" for v rest
    by (simp add: MultiTopologyId_from_wire_def parse_bind_def parse_return_def topology_id_plain [OF that])
  show "shrinks (MultiTopologyId_from_wire e)"
    unfolding MultiTopologyId_from_wire_def by (intro shrinks_bind shrinks_be grows_not_return)
qed

definition topology_ids_ok :: "MultiTopologyIdData \<Rightarrow> bool" where
  "topology_ids_ok ids \<longleftrightarrow> list_all (\<lambda>v. unat v < 4096) ids \<and> 2 * length ids < 65536"

lemma topology_ids_read: "topology_ids_ok ids \<Longrightarrow> MultiTopologyIdData_from_wire e (MultiTopologyIdData_write ids) = Inr (ids, [])"
  by (simp add: topology_ids_ok_def MultiTopologyIdData_from_wire_def MultiTopologyIdData_write_def till_empty_def topology_id.read_list)

lemma topology_ids_length: "length (MultiTopologyIdData_write ids) = 2 * length ids"
  by (simp add: MultiTopologyIdData_write_def length_concat_const)

fun node_sub_ok :: "BgpLsNodeDescriptorSubTlv \<Rightarrow> bool" where
  "node_sub_ok (NDS_IgpRouterId val) = (length val < 65536)"
| "node_sub_ok (NDS_Unknown code val) = (BgpLsNodeDescriptorSubType_try_from code = Inl (IanaUnknown code) \<and> length val < 65536)"
| "node_sub_ok _ = True"

interpretation node_sub: tlv_codec "read_tlv_header_t16_l16 Ls_NomError" "\<lambda>t n. write_tlv_header_t16_l16 t (of_nat (4 + n))"
  "\<lambda>a. raw_code BgpLsNodeDescriptorSubType_into_u16 (BgpLsNodeDescriptorSubTlv_code a)" BgpLsNodeDescriptorSubTlv_data_len
  BgpLsNodeDescriptorSubTlv_body BgpLsNodeDescriptorSubTlv_data node_sub_ok
proof (rule tlv16_codecI)
  fix a
  assume ok: "node_sub_ok a"
  show "length (BgpLsNodeDescriptorSubTlv_body a) = BgpLsNodeDescriptorSubTlv_data_len a" by (cases a) simp_all
  show "BgpLsNodeDescriptorSubTlv_data_len a < 65536" using ok by (cases a) simp_all
  show "BgpLsNodeDescriptorSubTlv_data (raw_code BgpLsNodeDescriptorSubType_into_u16 (BgpLsNodeDescriptorSubTlv_code a))
      (of_nat (BgpLsNodeDescriptorSubTlv_data_len a)) (BgpLsNodeDescriptorSubTlv_body a) = Inr a"
    unfolding BgpLsNodeDescriptorSubTlv_data_def using ok
    by (cases a) (simp_all add: tlv_reads del: BgpLsNodeDescriptorSubType_into_u16.simps)
qed

lemma node_sub_write:
  "BgpLsNodeDescriptorSubTlv_write =
     (\<lambda>a. write_tlv_header_t16_l16 (raw_code BgpLsNodeDescriptorSubType_into_u16 (BgpLsNodeDescriptorSubTlv_code a))
        (of_nat (4 + BgpLsNodeDescriptorSubTlv_data_len a)) @ BgpLsNodeDescriptorSubTlv_body a)"
  by (simp only: BgpLsNodeDescriptorSubTlv_write_def BgpLsNodeDescriptorSubTlv_len_def fun_eq_iff) simp

lemma node_sub_length: "node_sub_ok a \<Longrightarrow> length (BgpLsNodeDescriptorSubTlv_write a) = BgpLsNodeDescriptorSubTlv_len a"
  by (simp add: BgpLsNodeDescriptorSubTlv_write_def BgpLsNodeDescriptorSubTlv_len_def node_sub.body_length)

definition node_descs_ok :: "BgpLsNodeDescriptors \<Rightarrow> bool" where
  "node_descs_ok tlvs \<longleftrightarrow> list_all node_sub_ok tlvs \<and> subtlvs_len tlvs < 65536"

lemma node_subs_length:
  "list_all node_sub_ok tlvs \<Longrightarrow> length (concat (map BgpLsNodeDescriptorSubTlv_write tlvs)) = subtlvs_len tlvs"
  unfolding subtlvs_len_def by (erule length_concat_sum) (rule node_sub_length)

lemma node_descs_length: "node_descs_ok tlvs \<Longrightarrow> length (BgpLsNodeDescriptors_write t tlvs) = BgpLsNodeDescriptors_len tlvs"
  by (simp add: node_descs_ok_def BgpLsNodeDescriptors_write_def BgpLsNodeDescriptors_len_def node_subs_length del: length_concat)

interpretation node_descs: wire_codec "BgpLsNodeDescriptors_write t" "BgpLsNodeDescriptors_from_wire t" node_descs_ok for t
proof
  show "BgpLsNodeDescriptors_from_wire t (BgpLsNodeDescriptors_write t tlvs @ rest) = Inr (tlvs, rest)" if "node_descs_ok tlvs" for tlvs rest
  proof -
    let ?w = "concat (map BgpLsNodeDescriptorSubTlv_write tlvs)"
    have len: "length ?w = subtlvs_len tlvs" "unat (of_nat (subtlvs_len tlvs) :: u16) = subtlvs_len tlvs"
      using that by (simp_all add: node_descs_ok_def node_subs_length unat_of_nat_small del: length_concat)
    have "parse_till_empty BgpLsNodeDescriptorSubTlv_from_wire ?w = Inr tlvs"
      using that node_sub.read_list unfolding node_descs_ok_def node_sub_write BgpLsNodeDescriptorSubTlv_from_wire_def by blast
    then show ?thesis using len
      by (simp add: BgpLsNodeDescriptors_from_wire_def BgpLsNodeDescriptors_write_def write_tlv_header_t16_l16_def BgpLsNodeDescriptors_len_def
          parse_bind_def map_res_def map_err_def del: length_concat BgpLsNodeDescriptorType_into_u16.simps)
  qed
qed

fun link_desc_ok :: "BgpLsLinkDescriptor \<Rightarrow> bool" where
  "link_desc_ok (LD_MultiTopologyIdentifier ids) = topology_ids_ok ids"
| "link_desc_ok (LD_Unknown code val) = (BgpLsLinkDescriptorType_try_from code = Inl (IanaUnknown code) \<and> length val < 65536)"
| "link_desc_ok _ = True"

interpretation link_desc: tlv_codec "read_tlv_header_t16_l16 Ls_NomError" "\<lambda>t n. write_tlv_header_t16_l16 t (of_nat (4 + n))"
  "\<lambda>a. raw_code BgpLsLinkDescriptorType_into_u16 (BgpLsLinkDescriptor_code a)" BgpLsLinkDescriptor_data_len
  BgpLsLinkDescriptor_body BgpLsLinkDescriptor_data link_desc_ok
proof (rule tlv16_codecI)
  fix a
  assume ok: "link_desc_ok a"
  show "length (BgpLsLinkDescriptor_body a) = BgpLsLinkDescriptor_data_len a" by (cases a) (simp_all add: topology_ids_length)
  show "BgpLsLinkDescriptor_data_len a < 65536" using ok by (cases a) (simp_all add: topology_ids_ok_def)
  show "BgpLsLinkDescriptor_data (raw_code BgpLsLinkDescriptorType_into_u16 (BgpLsLinkDescriptor_code a))
      (of_nat (BgpLsLinkDescriptor_data_len a)) (BgpLsLinkDescriptor_body a) = Inr a"
    unfolding BgpLsLinkDescriptor_data_def using ok
    by (cases a) (simp_all add: tlv_reads topology_ids_read read_in_def first_of_def parse_bind_def parse_return_def
        del: BgpLsLinkDescriptorType_into_u16.simps)
qed

lemma link_desc_write:
  "BgpLsLinkDescriptor_write =
     (\<lambda>a. write_tlv_header_t16_l16 (raw_code BgpLsLinkDescriptorType_into_u16 (BgpLsLinkDescriptor_code a))
        (of_nat (4 + BgpLsLinkDescriptor_data_len a)) @ BgpLsLinkDescriptor_body a)"
  by (simp only: BgpLsLinkDescriptor_write_def BgpLsLinkDescriptor_len_def fun_eq_iff) simp

lemma link_desc_length: "link_desc_ok a \<Longrightarrow> length (BgpLsLinkDescriptor_write a) = BgpLsLinkDescriptor_len a"
  by (simp add: BgpLsLinkDescriptor_write_def BgpLsLinkDescriptor_len_def link_desc.body_length)

text \<open>The octets of a prefix are those of the other networks.\<close>

lemma most_significant_bytes_eq: "most_significant_bytes l = round_len l"
proof (cases "l = 0")
  case False
  then obtain k where k: "unat l = Suc k" by (metis not0_implies_Suc unat_eq_0)
  have "(k + 8) div 8 = Suc (k div 8)" by simp
  then have "1 + (unat l - 1) div 8 = (unat l + 7) div 8" by (simp add: k)
  with False show ?thesis by (simp add: round_len_eq div_ceil8_def most_significant_bytes_def)
qed (simp add: round_len_eq div_ceil8_def most_significant_bytes_def)

fun reachability_ok :: "codec_env \<Rightarrow> BgpLsNlriType \<Rightarrow> IpNet \<Rightarrow> bool" where
  "reachability_ok env t (NetV4 addr l) = (t = LNT_Ipv4TopologyPrefix \<and> prefix4_ok env (addr, l))"
| "reachability_ok env t (NetV6 addr l) = (t = LNT_Ipv6TopologyPrefix \<and> prefix6_ok env (addr, l))"

lemma reachability_read:
  "reachability_ok env t net \<Longrightarrow>
   IpReachabilityInformationData_from_wire t (IpReachabilityInformationData_write env net @ rest) = Inr (net, rest)"
  using prefix4_read [of env _ rest] prefix6_read [of env _ rest]
  by (cases net) (auto simp: IpReachabilityInformationData_from_wire_def Ipv4Net_from_wire_def Ipv6Net_from_wire_def parse_into_def
      parse_bind_def parse_return_def most_significant_bytes_eq)

lemma reachability_length:
  "reachability_ok env t net \<Longrightarrow>
   length (IpReachabilityInformationData_write env net) = 1 + most_significant_bytes (ipnet_prefix_len net) \<and>
   most_significant_bytes (ipnet_prefix_len net) \<le> 16"
  using round_len_bound u8_le_trans
  by (cases net) (auto simp: prefix4_ok_def prefix6_ok_def most_significant_bytes_eq min_def intro: antisym)

fun prefix_desc_ok :: "codec_env \<Rightarrow> BgpLsNlriType \<Rightarrow> BgpLsPrefixDescriptor \<Rightarrow> bool" where
  "prefix_desc_ok env t (PD_MultiTopologyIdentifier ids) = topology_ids_ok ids"
| "prefix_desc_ok env t (PD_IpReachabilityInformation net) = reachability_ok env t net"
| "prefix_desc_ok env t (PD_Unknown code val) =
     (BgpLsPrefixDescriptorType_try_from code = Inl (IanaUnknown code) \<and> length val < 65536)"
| "prefix_desc_ok env t (PD_OspfRouteType _) = True"

interpretation prefix_desc: tlv_codec "read_tlv_header_t16_l16 Ls_NomError" "\<lambda>t n. write_tlv_header_t16_l16 t (of_nat (4 + n))"
  "\<lambda>a. raw_code BgpLsPrefixDescriptorType_into_u16 (BgpLsPrefixDescriptor_code a)" BgpLsPrefixDescriptor_data_len
  "BgpLsPrefixDescriptor_body env" "BgpLsPrefixDescriptor_data t" "prefix_desc_ok env t" for env t
proof (rule tlv16_codecI)
  fix a
  assume ok: "prefix_desc_ok env t a"
  show "length (BgpLsPrefixDescriptor_body env a) = BgpLsPrefixDescriptor_data_len a"
    using ok reachability_length by (cases a) (simp_all add: topology_ids_length)
  show "BgpLsPrefixDescriptor_data_len a < 65536"
    using ok by (cases a) (auto simp: topology_ids_ok_def dest!: reachability_length)
  show "BgpLsPrefixDescriptor_data t (raw_code BgpLsPrefixDescriptorType_into_u16 (BgpLsPrefixDescriptor_code a))
      (of_nat (BgpLsPrefixDescriptor_data_len a)) (BgpLsPrefixDescriptor_body env a) = Inr a"
    unfolding BgpLsPrefixDescriptor_data_def using ok reachability_read [of env t _ "[]"]
    by (cases a) (simp_all add: tlv_reads topology_ids_read OspfRouteType_from_wire_def map_res_def map_err_def read_in_def first_of_def
        del: BgpLsPrefixDescriptorType_into_u16.simps OspfRouteType_into_u8.simps)
qed

lemma prefix_desc_write:
  "BgpLsPrefixDescriptor_write env =
     (\<lambda>a. write_tlv_header_t16_l16 (raw_code BgpLsPrefixDescriptorType_into_u16 (BgpLsPrefixDescriptor_code a))
        (of_nat (4 + BgpLsPrefixDescriptor_data_len a)) @ BgpLsPrefixDescriptor_body env a)"
  by (simp only: BgpLsPrefixDescriptor_write_def BgpLsPrefixDescriptor_len_def fun_eq_iff) simp

lemma prefix_desc_length: "prefix_desc_ok env t a \<Longrightarrow> length (BgpLsPrefixDescriptor_write env a) = BgpLsPrefixDescriptor_len a"
  using prefix_desc.body_length [of env t a] by (simp add: BgpLsPrefixDescriptor_write_def BgpLsPrefixDescriptor_len_def)

lemma descs_read:
  "list_all link_desc_ok ls \<Longrightarrow> till_empty BgpLsLinkDescriptor_from_wire (concat (map BgpLsLinkDescriptor_write ls)) = Inr (ls, [])"
  "list_all (prefix_desc_ok env t) ps \<Longrightarrow>
    till_empty (BgpLsPrefixDescriptor_from_wire t) (concat (map (BgpLsPrefixDescriptor_write env) ps)) = Inr (ps, [])"
  using link_desc.read_list [of ls] prefix_desc.read_list [of env t ps]
  by (simp_all only: till_empty_def link_desc_write prefix_desc_write BgpLsLinkDescriptor_from_wire_def BgpLsPrefixDescriptor_from_wire_def sum.case)

lemma descs_length:
  "list_all link_desc_ok ls \<Longrightarrow> length (concat (map BgpLsLinkDescriptor_write ls)) = sum_list (map BgpLsLinkDescriptor_len ls)"
  "list_all (prefix_desc_ok env t) ps \<Longrightarrow>
    length (concat (map (BgpLsPrefixDescriptor_write env) ps)) = sum_list (map BgpLsPrefixDescriptor_len ps)"
  by (erule length_concat_sum, erule link_desc_length prefix_desc_length)+

section \<open>Networks\<close>

definition ls_prefix_ok :: "codec_env \<Rightarrow> BgpLsNlriType \<Rightarrow> BgpLsNlriIpPrefix \<Rightarrow> bool" where
  "ls_prefix_ok env t p \<longleftrightarrow> node_descs_ok (lp_local_node_descriptors p) \<and> list_all (prefix_desc_ok env t) (lp_prefix_descriptors p)"

fun ls_value_ok :: "codec_env \<Rightarrow> BgpLsNlriValue \<Rightarrow> bool" where
  "ls_value_ok env (LsN_Node n) = node_descs_ok (ln_local_node_descriptors n)"
| "ls_value_ok env (LsN_Link l) =
     (node_descs_ok (ll_local_node_descriptors l) \<and> node_descs_ok (ll_remote_node_descriptors l) \<and>
      list_all link_desc_ok (ll_link_descriptors l))"
| "ls_value_ok env (LsN_Ipv4Prefix p) = ls_prefix_ok env LNT_Ipv4TopologyPrefix p"
| "ls_value_ok env (LsN_Ipv6Prefix p) = ls_prefix_ok env LNT_Ipv6TopologyPrefix p"
| "ls_value_ok env (LsN_Unknown code _) = (code = BgpLsNlriType_into_u16 LNT_TePolicy \<or> code = BgpLsNlriType_into_u16 LNT_Srv6Sid)"

definition ls_value_type :: "BgpLsNlriValue \<Rightarrow> BgpLsNlriType" where
  "ls_value_type v =
     (case BgpLsNlriValue_code v of
        Inr t \<Rightarrow> t
      | Inl code \<Rightarrow> if code = BgpLsNlriType_into_u16 LNT_TePolicy then LNT_TePolicy else LNT_Srv6Sid)"

lemma protocol_read [simp]: "read_protocol_id (BgpLsProtocolId_into_u8 p # rest) = Inr (p, rest)"
  by (simp add: read_protocol_id_def map_res_def map_err_def del: BgpLsProtocolId_into_u8.simps)

lemma ls_value_code: "ls_value_ok env v \<Longrightarrow> raw_code BgpLsNlriType_into_u16 (BgpLsNlriValue_code v) = BgpLsNlriType_into_u16 (ls_value_type v)"
  by (cases v) (auto simp: ls_value_type_def)

lemma ls_value_length: "ls_value_ok env v \<Longrightarrow> length (BgpLsNlriValue_write env v) = BgpLsNlriValue_len v"
  by (cases v) (auto simp: BgpLsNlriNode_write_def BgpLsNlriLink_write_def BgpLsNlriIpPrefix_write_def BgpLsNlriNode_len_def
      BgpLsNlriLink_len_def BgpLsNlriIpPrefix_len_def ls_prefix_ok_def node_descs_length descs_length simp del: length_concat)

lemma ls_value_read: "ls_value_ok env v \<Longrightarrow> BgpLsNlriValue_from_wire (ls_value_type v) (BgpLsNlriValue_write env v) = Inr v"
proof (cases v)
  case (LsN_Node n)
  then show "ls_value_ok env v \<Longrightarrow> ?thesis" using node_descs.read_written [of "ln_local_node_descriptors n" LND_LocalNodeDescriptor "[]"]
    by (cases n) (simp add: ls_value_type_def BgpLsNlriValue_from_wire_def BgpLsNlriNode_from_wire_def BgpLsNlriNode_write_def read_in_def
        first_of_def parse_bind_def parse_return_def del: BgpLsProtocolId_into_u8.simps)
next
  case (LsN_Link l)
  then show "ls_value_ok env v \<Longrightarrow> ?thesis"
    by (cases l) (simp add: ls_value_type_def BgpLsNlriValue_from_wire_def BgpLsNlriLink_from_wire_def BgpLsNlriLink_write_def read_in_def
        first_of_def parse_bind_def parse_return_def node_descs.read_written descs_read del: BgpLsProtocolId_into_u8.simps)
next
  case (LsN_Ipv4Prefix p)
  then show "ls_value_ok env v \<Longrightarrow> ?thesis"
    by (cases p) (simp add: ls_value_type_def BgpLsNlriValue_from_wire_def BgpLsNlriIpPrefix_from_wire_def BgpLsNlriIpPrefix_write_def read_in_def
        first_of_def parse_bind_def parse_return_def node_descs.read_written descs_read ls_prefix_ok_def del: BgpLsProtocolId_into_u8.simps)
next
  case (LsN_Ipv6Prefix p)
  then show "ls_value_ok env v \<Longrightarrow> ?thesis"
    by (cases p) (simp add: ls_value_type_def BgpLsNlriValue_from_wire_def BgpLsNlriIpPrefix_from_wire_def BgpLsNlriIpPrefix_write_def read_in_def
        first_of_def parse_bind_def parse_return_def node_descs.read_written descs_read ls_prefix_ok_def del: BgpLsProtocolId_into_u8.simps)
next
  case (LsN_Unknown code val)
  then show "ls_value_ok env v \<Longrightarrow> ?thesis"
    by (auto simp: ls_value_type_def BgpLsNlriValue_from_wire_def)
qed

definition ls_nlri_ok :: "codec_env \<Rightarrow> bool \<Rightarrow> BgpLsNlri \<Rightarrow> bool" where
  "ls_nlri_ok env add_path n \<longleftrightarrow>
     (ls_path_id n \<noteq> None) = add_path \<and> ls_value_ok env (ls_value n) \<and> BgpLsNlriValue_len (ls_value n) < 65536"

definition ls_vpn_ok :: "codec_env \<Rightarrow> bool \<Rightarrow> BgpLsVpnNlri \<Rightarrow> bool" where
  "ls_vpn_ok env add_path n \<longleftrightarrow>
     (lsv_path_id n \<noteq> None) = add_path \<and> ls_value_ok env (lsv_value n) \<and> 8 + BgpLsNlriValue_len (lsv_value n) < 65536"

lemma nlri_tlv_read:
  assumes "length w = n" "n < 65536"
  shows "read_nlri_tlv (write_tlv_header_t16_l16 (BgpLsNlriType_into_u16 t) (of_nat (4 + n)) @ w @ rest) = Inr ((t, w), rest)"
  using assms
  by (simp add: read_nlri_tlv_def write_tlv_header_t16_l16_def parse_bind_def parse_return_def map_res_def map_err_def unat_of_nat_small
      del: BgpLsNlriType_into_u16.simps)

lemma grows_not_read_nlri_tlv: "shrinks read_nlri_tlv"
  unfolding read_nlri_tlv_def
  by (intro shrinks_bind shrinks_map_res shrinks_be grows_not_bind shrinks_grows_not [OF shrinks_be(2)] grows_not_take grows_not_return)

interpretation ls_nlri: element_codec "BgpLsNlri_write env" "BgpLsNlri_from_wire add_path" "ls_nlri_ok env add_path" for env add_path
proof
  show "BgpLsNlri_from_wire add_path (BgpLsNlri_write env n @ rest) = Inr (n, rest)" if "ls_nlri_ok env add_path n" for n rest
  proof -
    let ?v = "ls_value n"
    have ok: "ls_value_ok env ?v" "BgpLsNlriValue_len ?v < 65536" "add_path = (ls_path_id n \<noteq> None)"
      using that by (auto simp: ls_nlri_ok_def)
    have l: "of_nat (BgpLsNlri_len n) - of_nat (path_id_len (ls_path_id n)) = (of_nat (4 + BgpLsNlriValue_len ?v) :: u16)"
      by (simp add: BgpLsNlri_len_def)
    show ?thesis
      unfolding BgpLsNlri_write_def l BgpLsNlri_from_wire_def ok(3) append_assoc
      by (simp only: parse_bind_def path_id_read_written sum.case prod.case map_res_def ls_value_code [OF ok(1)]
          nlri_tlv_read [OF ls_value_length [OF ok(1)] ok(2)] ls_value_read [OF ok(1)]) simp
  qed
  show "shrinks (BgpLsNlri_from_wire add_path)"
    unfolding BgpLsNlri_from_wire_def by (intro shrinks_bind_right grows_not_path_id shrinks_map_res grows_not_read_nlri_tlv)
qed

interpretation ls_vpn: element_codec "BgpLsVpnNlri_write env" "BgpLsVpnNlri_from_wire add_path" "ls_vpn_ok env add_path" for env add_path
proof
  show "BgpLsVpnNlri_from_wire add_path (BgpLsVpnNlri_write env n @ rest) = Inr (n, rest)" if "ls_vpn_ok env add_path n" for n rest
  proof -
    let ?v = "lsv_value n"
    let ?w = "RouteDistinguisher_write (lsv_rd n) @ BgpLsNlriValue_write env ?v"
    have ok: "ls_value_ok env ?v" "8 + BgpLsNlriValue_len ?v < 65536" "add_path = (lsv_path_id n \<noteq> None)"
      using that by (auto simp: ls_vpn_ok_def)
    have w: "length ?w = 8 + BgpLsNlriValue_len ?v" by (simp add: RouteDistinguisher_write_def ls_value_length [OF ok(1)])
    have l: "of_nat (BgpLsVpnNlri_len n) - of_nat (path_id_len (lsv_path_id n)) = (of_nat (4 + (8 + BgpLsNlriValue_len ?v)) :: u16)"
      by (simp add: BgpLsVpnNlri_len_def)
    have r: "read_nlri_tlv (write_tlv_header_t16_l16 (BgpLsNlriType_into_u16 (ls_value_type ?v)) (of_nat (4 + (8 + BgpLsNlriValue_len ?v))) @
        RouteDistinguisher_write (lsv_rd n) @ BgpLsNlriValue_write env ?v @ rest) = Inr ((ls_value_type ?v, ?w), rest)"
      using nlri_tlv_read [OF w ok(2), of "ls_value_type ?v" rest] by simp
    show ?thesis
      unfolding BgpLsVpnNlri_write_def l BgpLsVpnNlri_from_wire_def ok(3) append_assoc
      by (simp only: parse_bind_def path_id_read_written sum.case prod.case map_res_def ls_value_code [OF ok(1)] r parse_into_def
          rd.read_written ls_value_read [OF ok(1)]) simp
  qed
  show "shrinks (BgpLsVpnNlri_from_wire add_path)"
    unfolding BgpLsVpnNlri_from_wire_def by (intro shrinks_bind_right grows_not_path_id shrinks_map_res grows_not_read_nlri_tlv)
qed

lemma path_id_length: "length (path_id_write p) = path_id_len p"
  by (cases p) (simp_all add: path_id_write_def path_id_len_def)

lemma ls_lengths:
  "ls_nlri_ok env add_path n \<Longrightarrow> length (BgpLsNlri_write env n) = BgpLsNlri_len n"
  "ls_vpn_ok env add_path m \<Longrightarrow> length (BgpLsVpnNlri_write env m) = BgpLsVpnNlri_len m"
  by (simp_all add: ls_nlri_ok_def ls_vpn_ok_def BgpLsNlri_write_def BgpLsVpnNlri_write_def BgpLsNlri_len_def BgpLsVpnNlri_len_def
      RouteDistinguisher_write_def ls_value_length path_id_length)

end
