(* ===== verification/Wire_Link_State_Attribute.thy ===== *)
theory Wire_Link_State_Attribute
  imports Wire_Link_State_Laws
begin

text \<open>
  The values of the link-state attribute on the wire: \<open>bgp_ls.rs\<close> under
  \<open>src/netgauze/bgp-pkt/src/wire/deserializer/path_attribute\<close> and \<open>serializer/path_attribute\<close>, with the check of
  UTF-8 that \<open>String::from_utf8\<close> makes. A value that was written is read back if \<open>ls_attr_ok\<close> holds of it, which
  excludes link protection types and OSPF forwarding addresses: their writers do not write the number of
  octets that they declare.
\<close>

unbundle bit_operations_syntax

section \<open>Strings\<close>

definition utf8_cont :: "u8 \<Rightarrow> bool" where
  "utf8_cont b \<longleftrightarrow> 0x80 \<le> b \<and> b \<le> 0xBF"

definition utf8_second3 :: "u8 \<Rightarrow> u8 \<Rightarrow> bool" where
  "utf8_second3 b c \<longleftrightarrow>
     b = 0xE0 \<and> 0xA0 \<le> c \<and> c \<le> 0xBF \<or> 0xE1 \<le> b \<and> b \<le> 0xEC \<and> utf8_cont c \<or>
     b = 0xED \<and> 0x80 \<le> c \<and> c \<le> 0x9F \<or> 0xEE \<le> b \<and> b \<le> 0xEF \<and> utf8_cont c"

definition utf8_second4 :: "u8 \<Rightarrow> u8 \<Rightarrow> bool" where
  "utf8_second4 b c \<longleftrightarrow>
     b = 0xF0 \<and> 0x90 \<le> c \<and> c \<le> 0xBF \<or> 0xF1 \<le> b \<and> b \<le> 0xF3 \<and> utf8_cont c \<or>
     b = 0xF4 \<and> 0x80 \<le> c \<and> c \<le> 0x8F"

fun utf8_valid :: "bytes \<Rightarrow> bool" where
  "utf8_valid [] = True"
| "utf8_valid (b # bs) =
     (if b < 0x80 then utf8_valid bs
      else
        (case bs of
           [] \<Rightarrow> False
         | c1 # bs1 \<Rightarrow>
             if 0xC2 \<le> b \<and> b \<le> 0xDF then utf8_cont c1 \<and> utf8_valid bs1
             else
               (case bs1 of
                  [] \<Rightarrow> False
                | c2 # bs2 \<Rightarrow>
                    if utf8_second3 b c1 then utf8_cont c2 \<and> utf8_valid bs2
                    else
                      (case bs2 of
                         [] \<Rightarrow> False
                       | c3 # bs3 \<Rightarrow> utf8_second4 b c1 \<and> utf8_cont c2 \<and> utf8_cont c3 \<and> utf8_valid bs3))))"

section \<open>Readers\<close>

datatype BgpLsAttributeParsingError =
    LsA_NomError
  | LsA_UnknownTlvType "u16 IanaValueError"
  | LsA_Utf8Error
  | LsA_WrongIpAddrLength nat
  | LsA_BadUnreservedBandwidthLength nat
  | LsA_MplsLabelParsingError
  | LsA_BadSidValue u8

definition has_flag :: "'w::len word \<Rightarrow> 'w word \<Rightarrow> bool" where
  "has_flag flags m \<longleftrightarrow> flags AND m = m"

fun count_be_f32 :: "nat \<Rightarrow> (BgpLsAttributeParsingError, f32_bits list) parser" where
  "count_be_f32 0 = parse_return []"
| "count_be_f32 (Suc n) = parse_bind (be_u32 LsA_NomError) (\<lambda>w. parse_bind (count_be_f32 n) (\<lambda>ws. parse_return (w # ws)))"

definition string_from_utf8 :: "u16 \<Rightarrow> (BgpLsAttributeParsingError, bytes) parser" where
  "string_from_utf8 tlv_length =
     map_res (take_bytes LsA_NomError (unat tlv_length)) (\<lambda>x. if utf8_valid x then Inr x else Inl LsA_Utf8Error)"

definition BgpLsPeerSid_from_wire :: "u16 \<Rightarrow> (BgpLsAttributeParsingError, BgpLsPeerSid) parser" where
  "BgpLsPeerSid_from_wire tlv_length =
     parse_bind (be_u8 LsA_NomError) (\<lambda>flags. parse_bind (be_u8 LsA_NomError) (\<lambda>weight. parse_bind (be_u16 LsA_NomError) (\<lambda>_.
       if tlv_length = 7 \<and> flags_have LSF_ValueFlag flags
         then parse_bind (parse_into (\<lambda>_. LsA_MplsLabelParsingError) MplsLabel_from_wire) (\<lambda>label. parse_return (LabelValue flags weight label))
       else if tlv_length = 8 \<and> \<not> flags_have LSF_ValueFlag flags
         then parse_bind (be_u32 LsA_NomError) (\<lambda>index. parse_return (IndexValue flags weight index))
       else (\<lambda>_. Inl (LsA_BadSidValue flags)))))"

definition node_flag_bits :: "u8 \<Rightarrow> BgpLsAttributeValue" where
  "node_flag_bits flags =
     LSA_NodeFlagBits (has_flag flags (BgpLsNodeFlagsBits_into_u8 LNF_Overload)) (has_flag flags (BgpLsNodeFlagsBits_into_u8 LNF_Attached))
       (has_flag flags (BgpLsNodeFlagsBits_into_u8 LNF_External)) (has_flag flags (BgpLsNodeFlagsBits_into_u8 LNF_Abr))
       (has_flag flags (BgpLsNodeFlagsBits_into_u8 LNF_Router)) (has_flag flags (BgpLsNodeFlagsBits_into_u8 LNF_V6))"

definition link_protection_type :: "u16 \<Rightarrow> BgpLsAttributeValue" where
  "link_protection_type flags =
     LSA_LinkProtectionType (has_flag flags (ucast (LinkProtectionType_into_u8 LPT_ExtraTraffic)))
       (has_flag flags (ucast (LinkProtectionType_into_u8 LPT_Unprotected))) (has_flag flags (ucast (LinkProtectionType_into_u8 LPT_Shared)))
       (has_flag flags (ucast (LinkProtectionType_into_u8 LPT_Dedicated1c1))) (has_flag flags (ucast (LinkProtectionType_into_u8 LPT_Dedicated1p1)))
       (has_flag flags (ucast (LinkProtectionType_into_u8 LPT_Enhanced)))"

definition mpls_protocol_mask :: "u8 \<Rightarrow> BgpLsAttributeValue" where
  "mpls_protocol_mask flags =
     LSA_MplsProtocolMask (has_flag flags (MplsProtocolMask_into_u8 MPM_LabelDistributionProtocol))
       (has_flag flags (MplsProtocolMask_into_u8 MPM_ExtensionToRsvpForLspTunnels))"

definition igp_flags :: "u8 \<Rightarrow> BgpLsAttributeValue" where
  "igp_flags flags =
     LSA_IgpFlags (has_flag flags (IgpFlags_into_u8 IGF_IsIsUp)) (has_flag flags (IgpFlags_into_u8 IGF_OspfNoUnicast))
       (has_flag flags (IgpFlags_into_u8 IGF_OspfLocalAddress)) (has_flag flags (IgpFlags_into_u8 IGF_OspfPropagateNssa))"

definition BgpLsAttributeValue_data :: "u16 \<Rightarrow> u16 \<Rightarrow> bytes \<Rightarrow> BgpLsAttributeParsingError + BgpLsAttributeValue" where
  "BgpLsAttributeValue_data tlv_type tlv_length tlv_data =
     known_tlv BgpLsAttributeType_try_from LsA_UnknownTlvType (\<lambda>code. LSA_Unknown code tlv_data) (\<lambda>t.
       case t of
         LAT_MultiTopologyIdentifier \<Rightarrow> read_in LSA_MultiTopologyIdentifier (MultiTopologyIdData_from_wire LsA_NomError) tlv_data
       | LAT_NodeFlagBits \<Rightarrow> read_in node_flag_bits (be_u8 LsA_NomError) tlv_data
       | LAT_OpaqueNodeAttribute \<Rightarrow> Inr (LSA_OpaqueNodeAttribute tlv_data)
       | LAT_NodeNameTlv \<Rightarrow> read_in LSA_NodeNameTlv (string_from_utf8 tlv_length) tlv_data
       | LAT_IsIsArea \<Rightarrow> Inr (LSA_IsIsArea tlv_data)
       | LAT_LocalNodeIpv4RouterId \<Rightarrow> read_in LSA_LocalNodeIpv4RouterId (be_u32 LsA_NomError) tlv_data
       | LAT_LocalNodeIpv6RouterId \<Rightarrow> read_in LSA_LocalNodeIpv6RouterId (be_u128 LsA_NomError) tlv_data
       | LAT_RemoteNodeIpv4RouterId \<Rightarrow> read_in LSA_RemoteNodeIpv4RouterId (be_u32 LsA_NomError) tlv_data
       | LAT_RemoteNodeIpv6RouterId \<Rightarrow> read_in LSA_RemoteNodeIpv6RouterId (be_u128 LsA_NomError) tlv_data
       | LAT_RemoteNodeAdministrativeGroupColor \<Rightarrow> read_in LSA_RemoteNodeAdministrativeGroupColor (be_u32 LsA_NomError) tlv_data
       | LAT_MaximumLinkBandwidth \<Rightarrow> read_in LSA_MaximumLinkBandwidth (be_u32 LsA_NomError) tlv_data
       | LAT_MaximumReservableLinkBandwidth \<Rightarrow> read_in LSA_MaximumReservableLinkBandwidth (be_u32 LsA_NomError) tlv_data
       | LAT_UnreservedBandwidth \<Rightarrow>
           read_in LSA_UnreservedBandwidth
             (map_res (count_be_f32 8) (\<lambda>vec. if length vec = 8 then Inr vec else Inl (LsA_BadUnreservedBandwidthLength (length vec)))) tlv_data
       | LAT_TeDefaultMetric \<Rightarrow> read_in LSA_TeDefaultMetric (be_u32 LsA_NomError) tlv_data
       | LAT_LinkProtectionType \<Rightarrow> read_in link_protection_type (be_u16 LsA_NomError) tlv_data
       | LAT_MplsProtocolMask \<Rightarrow> read_in mpls_protocol_mask (be_u8 LsA_NomError) tlv_data
       | LAT_IgpMetric \<Rightarrow> Inr (LSA_IgpMetric tlv_data)
       | LAT_SharedRiskLinkGroup \<Rightarrow> read_in LSA_SharedRiskLinkGroup (till_empty (be_u32 LsA_NomError)) tlv_data
       | LAT_OpaqueLinkAttribute \<Rightarrow> Inr (LSA_OpaqueLinkAttribute tlv_data)
       | LAT_LinkName \<Rightarrow> read_in LSA_LinkName (string_from_utf8 tlv_length) tlv_data
       | LAT_IgpFlags \<Rightarrow> read_in igp_flags (be_u8 LsA_NomError) tlv_data
       | LAT_IgpRouteTag \<Rightarrow> read_in LSA_IgpRouteTag (till_empty (be_u32 LsA_NomError)) tlv_data
       | LAT_IgpExtendedRouteTag \<Rightarrow> read_in LSA_IgpExtendedRouteTag (till_empty (be_word LsA_NomError)) tlv_data
       | LAT_PrefixMetric \<Rightarrow> read_in LSA_PrefixMetric (be_u32 LsA_NomError) tlv_data
       | LAT_OspfForwardingAddress \<Rightarrow>
           (if tlv_length = 4 then read_in (\<lambda>ip. LSA_OspfForwardingAddress (IpV4 ip)) (be_u32 LsA_NomError) tlv_data
            else if tlv_length = 16 then read_in (\<lambda>ip. LSA_OspfForwardingAddress (IpV6 ip)) (be_u128 LsA_NomError) tlv_data
            else Inl (LsA_WrongIpAddrLength (unat tlv_length)))
       | LAT_OpaquePrefixAttribute \<Rightarrow> Inr (LSA_OpaquePrefixAttribute tlv_data)
       | LAT_PeerNodeSid \<Rightarrow> read_in LSA_PeerNodeSid (BgpLsPeerSid_from_wire tlv_length) tlv_data
       | LAT_PeerAdjSid \<Rightarrow> read_in LSA_PeerAdjSid (BgpLsPeerSid_from_wire tlv_length) tlv_data
       | LAT_PeerSetSid \<Rightarrow> read_in LSA_PeerSetSid (BgpLsPeerSid_from_wire tlv_length) tlv_data) tlv_type"

definition BgpLsAttributeValue_from_wire :: "(BgpLsAttributeParsingError, BgpLsAttributeValue) parser" where
  "BgpLsAttributeValue_from_wire = with_tlv (read_tlv_header_t16_l16 LsA_NomError) BgpLsAttributeValue_data"

section \<open>Lengths\<close>

fun BgpLsPeerSid_len :: "BgpLsPeerSid \<Rightarrow> nat" where
  "BgpLsPeerSid_len (LabelValue _ _ _) = 4 + 3"
| "BgpLsPeerSid_len (IndexValue _ _ _) = 4 + 4"

fun IpAddr_len :: "IpAddr \<Rightarrow> nat" where
  "IpAddr_len (IpV4 _) = 4"
| "IpAddr_len (IpV6 _) = 16"

fun BgpLsAttributeValue_data_len :: "BgpLsAttributeValue \<Rightarrow> nat" where
  "BgpLsAttributeValue_data_len (LSA_LocalNodeIpv4RouterId _) = 4"
| "BgpLsAttributeValue_data_len (LSA_LocalNodeIpv6RouterId _) = 16"
| "BgpLsAttributeValue_data_len (LSA_RemoteNodeIpv4RouterId _) = 4"
| "BgpLsAttributeValue_data_len (LSA_RemoteNodeIpv6RouterId _) = 16"
| "BgpLsAttributeValue_data_len (LSA_RemoteNodeAdministrativeGroupColor _) = 4"
| "BgpLsAttributeValue_data_len (LSA_MaximumLinkBandwidth _) = 4"
| "BgpLsAttributeValue_data_len (LSA_MaximumReservableLinkBandwidth _) = 4"
| "BgpLsAttributeValue_data_len (LSA_UnreservedBandwidth _) = 4 * 8"
| "BgpLsAttributeValue_data_len (LSA_TeDefaultMetric _) = 4"
| "BgpLsAttributeValue_data_len (LSA_LinkProtectionType _ _ _ _ _ _) = 2"
| "BgpLsAttributeValue_data_len (LSA_MplsProtocolMask _ _) = 1"
| "BgpLsAttributeValue_data_len (LSA_IgpMetric metric) = length metric"
| "BgpLsAttributeValue_data_len (LSA_SharedRiskLinkGroup groups) = 4 * length groups"
| "BgpLsAttributeValue_data_len (LSA_OpaqueLinkAttribute attr) = length attr"
| "BgpLsAttributeValue_data_len (LSA_LinkName name) = length name"
| "BgpLsAttributeValue_data_len (LSA_IgpFlags _ _ _ _) = 1"
| "BgpLsAttributeValue_data_len (LSA_IgpRouteTag tags) = 4 * length tags"
| "BgpLsAttributeValue_data_len (LSA_IgpExtendedRouteTag tags) = 8 * length tags"
| "BgpLsAttributeValue_data_len (LSA_PrefixMetric _) = 4"
| "BgpLsAttributeValue_data_len (LSA_OspfForwardingAddress addr) = IpAddr_len addr"
| "BgpLsAttributeValue_data_len (LSA_OpaquePrefixAttribute attr) = length attr"
| "BgpLsAttributeValue_data_len (LSA_MultiTopologyIdentifier ids) = 2 * length ids"
| "BgpLsAttributeValue_data_len (LSA_NodeFlagBits _ _ _ _ _ _) = 1"
| "BgpLsAttributeValue_data_len (LSA_OpaqueNodeAttribute val) = length val"
| "BgpLsAttributeValue_data_len (LSA_NodeNameTlv ascii) = length ascii"
| "BgpLsAttributeValue_data_len (LSA_IsIsArea area) = length area"
| "BgpLsAttributeValue_data_len (LSA_PeerNodeSid sid) = BgpLsPeerSid_len sid"
| "BgpLsAttributeValue_data_len (LSA_PeerAdjSid sid) = BgpLsPeerSid_len sid"
| "BgpLsAttributeValue_data_len (LSA_PeerSetSid sid) = BgpLsPeerSid_len sid"
| "BgpLsAttributeValue_data_len (LSA_Unknown _ val) = length val"

definition BgpLsAttributeValue_len :: "BgpLsAttributeValue \<Rightarrow> nat" where
  "BgpLsAttributeValue_len v = 4 + BgpLsAttributeValue_data_len v"

definition BgpLsAttribute_tlvs_len :: "BgpLsAttribute \<Rightarrow> nat" where
  "BgpLsAttribute_tlvs_len a = sum_list (map BgpLsAttributeValue_len (lsa_attributes a))"

section \<open>Writers\<close>

text \<open>The octet of a list of flags and the bits they stand for.\<close>

definition flags_octet :: "(bool \<times> u8) list \<Rightarrow> u8" where
  "flags_octet fs = foldl (\<lambda>flags (b, m). if b then flags OR m else flags) 0 fs"

fun BgpLsPeerSid_write :: "BgpLsPeerSid \<Rightarrow> bytes" where
  "BgpLsPeerSid_write (LabelValue flags weight label) = [flags, weight] @ to_be_bytes (0 :: u16) @ label"
| "BgpLsPeerSid_write (IndexValue flags weight index) = [flags, weight] @ to_be_bytes (0 :: u16) @ to_be_bytes index"

text \<open>
  The octet of a link protection type is the only one of the two that are declared, and \<open>IpAddr_write\<close> puts an octet
  of length in front of the forwarding address.
\<close>

fun BgpLsAttributeValue_body :: "BgpLsAttributeValue \<Rightarrow> bytes" where
  "BgpLsAttributeValue_body (LSA_LocalNodeIpv4RouterId ipv4) = to_be_bytes ipv4"
| "BgpLsAttributeValue_body (LSA_LocalNodeIpv6RouterId ipv6) = to_be_bytes ipv6"
| "BgpLsAttributeValue_body (LSA_RemoteNodeIpv4RouterId ipv4) = to_be_bytes ipv4"
| "BgpLsAttributeValue_body (LSA_RemoteNodeIpv6RouterId ipv6) = to_be_bytes ipv6"
| "BgpLsAttributeValue_body (LSA_RemoteNodeAdministrativeGroupColor color) = to_be_bytes color"
| "BgpLsAttributeValue_body (LSA_MaximumLinkBandwidth bandwidth) = to_be_bytes bandwidth"
| "BgpLsAttributeValue_body (LSA_MaximumReservableLinkBandwidth bandwidth) = to_be_bytes bandwidth"
| "BgpLsAttributeValue_body (LSA_UnreservedBandwidth bandwidths) = concat (map to_be_bytes bandwidths)"
| "BgpLsAttributeValue_body (LSA_TeDefaultMetric metric) = to_be_bytes metric"
| "BgpLsAttributeValue_body (LSA_LinkProtectionType extra_traffic unprotected shared dedicated1c1 dedicated1p1 enhanced) =
     [flags_octet [(extra_traffic, LinkProtectionType_into_u8 LPT_ExtraTraffic), (unprotected, LinkProtectionType_into_u8 LPT_Unprotected),
        (shared, LinkProtectionType_into_u8 LPT_Shared), (dedicated1c1, LinkProtectionType_into_u8 LPT_Dedicated1c1),
        (dedicated1p1, LinkProtectionType_into_u8 LPT_Dedicated1p1), (enhanced, LinkProtectionType_into_u8 LPT_Enhanced)]]"
| "BgpLsAttributeValue_body (LSA_MplsProtocolMask ldp rsvp_te) =
     [flags_octet [(ldp, MplsProtocolMask_into_u8 MPM_LabelDistributionProtocol), (rsvp_te, MplsProtocolMask_into_u8 MPM_ExtensionToRsvpForLspTunnels)]]"
| "BgpLsAttributeValue_body (LSA_IgpMetric metric) = metric"
| "BgpLsAttributeValue_body (LSA_SharedRiskLinkGroup groups) = concat (map to_be_bytes groups)"
| "BgpLsAttributeValue_body (LSA_OpaqueLinkAttribute attr) = attr"
| "BgpLsAttributeValue_body (LSA_LinkName ascii) = ascii"
| "BgpLsAttributeValue_body (LSA_IgpFlags isis_up_down ospf_no_unicast ospf_local_address ospf_propagate_nssa) =
     [flags_octet [(isis_up_down, IgpFlags_into_u8 IGF_IsIsUp), (ospf_no_unicast, IgpFlags_into_u8 IGF_OspfNoUnicast),
        (ospf_local_address, IgpFlags_into_u8 IGF_OspfLocalAddress), (ospf_propagate_nssa, IgpFlags_into_u8 IGF_OspfPropagateNssa)]]"
| "BgpLsAttributeValue_body (LSA_IgpRouteTag tags) = concat (map to_be_bytes tags)"
| "BgpLsAttributeValue_body (LSA_IgpExtendedRouteTag tags) = concat (map to_be_bytes tags)"
| "BgpLsAttributeValue_body (LSA_PrefixMetric metric) = to_be_bytes metric"
| "BgpLsAttributeValue_body (LSA_OspfForwardingAddress addr) = IpAddr_write addr"
| "BgpLsAttributeValue_body (LSA_OpaquePrefixAttribute attr) = attr"
| "BgpLsAttributeValue_body (LSA_MultiTopologyIdentifier ids) = MultiTopologyIdData_write ids"
| "BgpLsAttributeValue_body (LSA_NodeFlagBits overload attached external abr router v6) =
     [flags_octet [(overload, BgpLsNodeFlagsBits_into_u8 LNF_Overload), (attached, BgpLsNodeFlagsBits_into_u8 LNF_Attached),
        (external, BgpLsNodeFlagsBits_into_u8 LNF_External), (abr, BgpLsNodeFlagsBits_into_u8 LNF_Abr),
        (router, BgpLsNodeFlagsBits_into_u8 LNF_Router), (v6, BgpLsNodeFlagsBits_into_u8 LNF_V6)]]"
| "BgpLsAttributeValue_body (LSA_OpaqueNodeAttribute val) = val"
| "BgpLsAttributeValue_body (LSA_NodeNameTlv ascii) = ascii"
| "BgpLsAttributeValue_body (LSA_IsIsArea area) = area"
| "BgpLsAttributeValue_body (LSA_PeerNodeSid sid) = BgpLsPeerSid_write sid"
| "BgpLsAttributeValue_body (LSA_PeerAdjSid sid) = BgpLsPeerSid_write sid"
| "BgpLsAttributeValue_body (LSA_PeerSetSid sid) = BgpLsPeerSid_write sid"
| "BgpLsAttributeValue_body (LSA_Unknown _ val) = val"

definition BgpLsAttributeValue_octets :: "BgpLsAttributeValue \<Rightarrow> bytes" where
  "BgpLsAttributeValue_octets v =
     write_tlv_header_t16_l16 (raw_code BgpLsAttributeType_into_u16 (BgpLsAttributeValue_code v)) (of_nat (BgpLsAttributeValue_len v)) @
     BgpLsAttributeValue_body v"

datatype BgpLsAttributeWritingError = NodeNameTlvStringTooLong nat

definition BgpLsAttributeValue_write :: "BgpLsAttributeValue \<Rightarrow> BgpLsAttributeWritingError + bytes" where
  "BgpLsAttributeValue_write v =
     (case v of
        LSA_NodeNameTlv ascii \<Rightarrow>
          if length ascii > unat NODE_NAME_TLV_MAX_LEN then Inl (NodeNameTlvStringTooLong (length ascii))
          else Inr (BgpLsAttributeValue_octets v)
      | _ \<Rightarrow> Inr (BgpLsAttributeValue_octets v))"

section \<open>Round trips\<close>

fun peer_sid_ok :: "BgpLsPeerSid \<Rightarrow> bool" where
  "peer_sid_ok (LabelValue flags _ label) = (flags_have LSF_ValueFlag flags \<and> length label = 3)"
| "peer_sid_ok (IndexValue flags _ _) = (\<not> flags_have LSF_ValueFlag flags)"

fun ls_attr_ok :: "BgpLsAttributeValue \<Rightarrow> bool" where
  "ls_attr_ok (LSA_UnreservedBandwidth bandwidths) = (length bandwidths = 8)"
| "ls_attr_ok (LSA_LinkProtectionType _ _ _ _ _ _) = False"
| "ls_attr_ok (LSA_OspfForwardingAddress _) = False"
| "ls_attr_ok (LSA_IgpMetric val) = (length val < 65536)"
| "ls_attr_ok (LSA_SharedRiskLinkGroup vals) = (4 * length vals < 65536)"
| "ls_attr_ok (LSA_OpaqueLinkAttribute val) = (length val < 65536)"
| "ls_attr_ok (LSA_LinkName name) = (utf8_valid name \<and> length name < 65536)"
| "ls_attr_ok (LSA_IgpRouteTag vals) = (4 * length vals < 65536)"
| "ls_attr_ok (LSA_IgpExtendedRouteTag vals) = (8 * length vals < 65536)"
| "ls_attr_ok (LSA_OpaquePrefixAttribute val) = (length val < 65536)"
| "ls_attr_ok (LSA_MultiTopologyIdentifier ids) = topology_ids_ok ids"
| "ls_attr_ok (LSA_OpaqueNodeAttribute val) = (length val < 65536)"
| "ls_attr_ok (LSA_NodeNameTlv name) = (utf8_valid name \<and> length name \<le> 255)"
| "ls_attr_ok (LSA_IsIsArea val) = (length val < 65536)"
| "ls_attr_ok (LSA_PeerNodeSid sid) = peer_sid_ok sid"
| "ls_attr_ok (LSA_PeerAdjSid sid) = peer_sid_ok sid"
| "ls_attr_ok (LSA_PeerSetSid sid) = peer_sid_ok sid"
| "ls_attr_ok (LSA_Unknown code val) = (BgpLsAttributeType_try_from code = Inl (IanaUnknown code) \<and> length val < 65536)"
| "ls_attr_ok _ = True"

lemma peer_sid_read:
  "peer_sid_ok sid \<Longrightarrow> BgpLsPeerSid_from_wire (of_nat (BgpLsPeerSid_len sid)) (BgpLsPeerSid_write sid) = Inr (sid, [])"
  using label.read_alone
  by (cases sid) (simp_all add: BgpLsPeerSid_from_wire_def parse_bind_def parse_into_def parse_return_def)

lemma peer_sid_length: "peer_sid_ok sid \<Longrightarrow> length (BgpLsPeerSid_write sid) = BgpLsPeerSid_len sid"
  by (cases sid) simp_all

lemma count_read: "length ws = n \<Longrightarrow> count_be_f32 n (concat (map to_be_bytes ws)) = Inr (ws, [])"
proof (induction ws arbitrary: n)
  case (Cons w ws)
  then show ?case by (cases n) (simp_all add: parse_bind_def parse_return_def)
qed (simp add: parse_return_def)

interpretation tag32: element_codec "to_be_bytes :: u32 \<Rightarrow> bytes" "be_u32 e" "\<lambda>_. True" for e
  by unfold_locales simp_all

interpretation tag64: element_codec "to_be_bytes :: u64 \<Rightarrow> bytes" "be_word e" "\<lambda>_. True" for e
  by unfold_locales simp_all

lemma tags_read:
  "till_empty (be_u32 e) (concat (map to_be_bytes vs)) = Inr (vs, [])"
  "till_empty (be_word e) (concat (map to_be_bytes (ws :: u64 list))) = Inr (ws, [])"
  by (simp_all add: till_empty_def tag32.read_list tag64.read_list list.pred_True)

lemma string_read:
  "utf8_valid name \<Longrightarrow> length name < 65536 \<Longrightarrow> string_from_utf8 (of_nat (length name)) name = Inr (name, [])"
  by (simp add: string_from_utf8_def map_res_def unat_of_nat_small)

lemma flags_octet_step: "flags_octet (fs @ [(b, m)]) = (if b then flags_octet fs OR m else flags_octet fs)"
  by (simp add: flags_octet_def)

lemma flags_read:
  "node_flag_bits (flags_octet [(a, 128), (b, 64), (c, 32), (d, 16), (e, 8), (f, 4)]) = LSA_NodeFlagBits a b c d e f"
  "mpls_protocol_mask (flags_octet [(a, 128), (b, 64)]) = LSA_MplsProtocolMask a b"
  "igp_flags (flags_octet [(a, 128), (b, 64), (c, 32), (d, 16)]) = LSA_IgpFlags a b c d"
  by (cases a; cases b; cases c; cases d; cases e; cases f;
      simp add: node_flag_bits_def mpls_protocol_mask_def igp_flags_def flags_octet_def has_flag_def)+

interpretation ls_attr: tlv_codec "read_tlv_header_t16_l16 LsA_NomError" "\<lambda>t n. write_tlv_header_t16_l16 t (of_nat (4 + n))"
  "\<lambda>a. raw_code BgpLsAttributeType_into_u16 (BgpLsAttributeValue_code a)" BgpLsAttributeValue_data_len
  BgpLsAttributeValue_body BgpLsAttributeValue_data ls_attr_ok
proof (rule tlv16_codecI)
  fix a
  assume ok: "ls_attr_ok a"
  show "length (BgpLsAttributeValue_body a) = BgpLsAttributeValue_data_len a"
    using ok by (cases a) (simp_all add: peer_sid_length topology_ids_length length_concat_const del: length_concat)
  have "BgpLsPeerSid_len sid < 65536" for sid by (cases sid) simp_all
  then show "BgpLsAttributeValue_data_len a < 65536" using ok by (cases a) (simp_all add: topology_ids_ok_def)
  show "BgpLsAttributeValue_data (raw_code BgpLsAttributeType_into_u16 (BgpLsAttributeValue_code a))
      (of_nat (BgpLsAttributeValue_data_len a)) (BgpLsAttributeValue_body a) = Inr a"
    unfolding BgpLsAttributeValue_data_def using ok
    by (cases a) (simp_all add: known_tlv_known known_tlv_unknown read_in_def first_of_def peer_sid_read count_read tags_read string_read
        flags_read topology_ids_read map_res_def del: BgpLsAttributeType_into_u16.simps)
qed

lemma ls_attr_octets:
  "BgpLsAttributeValue_octets =
     (\<lambda>a. write_tlv_header_t16_l16 (raw_code BgpLsAttributeType_into_u16 (BgpLsAttributeValue_code a))
        (of_nat (4 + BgpLsAttributeValue_data_len a)) @ BgpLsAttributeValue_body a)"
  by (simp only: BgpLsAttributeValue_octets_def BgpLsAttributeValue_len_def fun_eq_iff) simp

lemma ls_attrs_read:
  "list_all ls_attr_ok as \<Longrightarrow> parse_till_empty BgpLsAttributeValue_from_wire (concat (map BgpLsAttributeValue_octets as)) = Inr as"
  using ls_attr.read_list unfolding ls_attr_octets BgpLsAttributeValue_from_wire_def by blast

lemma ls_attr_length: "ls_attr_ok a \<Longrightarrow> length (BgpLsAttributeValue_octets a) = BgpLsAttributeValue_len a"
  by (simp add: BgpLsAttributeValue_octets_def BgpLsAttributeValue_len_def ls_attr.body_length)

lemma ls_attrs_length:
  "list_all ls_attr_ok (lsa_attributes a) \<Longrightarrow>
   length (concat (map BgpLsAttributeValue_octets (lsa_attributes a))) = BgpLsAttribute_tlvs_len a"
  unfolding BgpLsAttribute_tlvs_len_def by (erule length_concat_sum) (rule ls_attr_length)

lemma ls_attr_writable: "ls_attr_ok a \<Longrightarrow> BgpLsAttributeValue_write a = Inr (BgpLsAttributeValue_octets a)"
  by (cases a) (simp_all add: BgpLsAttributeValue_write_def NODE_NAME_TLV_MAX_LEN_def)

section \<open>Values that are not read back\<close>

text \<open>The octets of a word are those of its halves.\<close>

lemma from_be_bytes_pair: "from_be_bytes [a, b] = (push_bit 8 (ucast a) OR ucast b :: u16)"
proof -
  have "unat (push_bit 8 (ucast a) OR ucast b :: u16) = unat a * 2 ^ 8 + unat b"
    using unat_u8_less [of b] by (intro unat_push_or) simp_all
  moreover have "nat_of_be [a, b] = unat a * 256 + unat b" by (simp add: nat_of_be_def)
  moreover have "unat a * 256 + unat b < 2 ^ LENGTH(16)" using unat_u8_less [of a] unat_u8_less [of b] by simp
  ultimately show ?thesis by (simp only: word_unat_eq_iff from_be_bytes_def unat_of_nat mod_less) simp
qed

lemma has_flag_low: "has_flag (push_bit 8 (ucast a) OR ucast b :: u16) (ucast m) \<longleftrightarrow> has_flag b (m :: u8)"
proof
  assume h: "has_flag (push_bit 8 (ucast a) OR ucast b :: u16) (ucast m)"
  have "bit (b AND m) n = bit m n" if "n < 8" for n
  proof -
    have "bit ((push_bit 8 (ucast a) OR ucast b) AND ucast m :: u16) n = bit (ucast m :: u16) n" using h by (simp add: has_flag_def)
    then show ?thesis using that by (simp add: bit_simps)
  qed
  then show "has_flag b m" unfolding has_flag_def by (intro bit_word_eqI) simp
next
  assume "has_flag b m"
  then have b: "bit m n \<Longrightarrow> bit b n" for n unfolding has_flag_def by (metis bit_and_iff)
  show "has_flag (push_bit 8 (ucast a) OR ucast b :: u16) (ucast m)"
    unfolding has_flag_def by (intro bit_word_eqI) (auto simp: bit_simps dest: b bit_imp_le_length)
qed

lemma link_protection_low:
  "link_protection_type (push_bit 8 (ucast (a :: u8)) OR ucast (b :: u8)) =
     LSA_LinkProtectionType (has_flag b 1) (has_flag b 2) (has_flag b 4) (has_flag b 8) (has_flag b 16) (has_flag b 32)"
  unfolding link_protection_type_def has_flag_low by simp

lemma tlv_header_read: "unat l = length w \<Longrightarrow> read_tlv_header_t16_l16 e (to_be_bytes t @ to_be_bytes l @ w @ rest) = Inr (t, l, w, rest)"
  by (simp add: read_tlv_header_t16_l16_def parse_bind_def parse_return_def)

lemma from_be_bytes_alone: "be_u16 e [a, b] = Inr (from_be_bytes [a, b], [])" "be_u32 e [a, b, c, d] = Inr (from_be_bytes [a, b, c, d], [])"
  by (simp_all add: be_word_def)

text \<open>
  A link protection type is written with one of the two octets that it declares: the reader takes
  the first octet of what follows as the second one, and reads the flags from that octet alone. An OSPF
  forwarding address is written with an octet of length that its declared length leaves out: an IPv4 address is read
  as four followed by its first three octets, and its last octet is left in front of what follows.
\<close>

theorem link_state_values_misread:
  "BgpLsAttributeValue_from_wire (BgpLsAttributeValue_octets (LSA_LinkProtectionType p q r s t u) @ b # rest) =
     Inr (LSA_LinkProtectionType (has_flag b 1) (has_flag b 2) (has_flag b 4) (has_flag b 8) (has_flag b 16) (has_flag b 32), rest) \<and>
   BgpLsAttributeValue_from_wire (BgpLsAttributeValue_octets (LSA_OspfForwardingAddress (IpV4 (from_be_bytes [w, x, y, z]))) @ rest) =
     Inr (LSA_OspfForwardingAddress (IpV4 (from_be_bytes [4, w, x, y])), z # rest)"
proof (rule conjI, goal_cases)
  case 1
  let ?v = "LSA_LinkProtectionType p q r s t u"
  obtain c where c: "BgpLsAttributeValue_body ?v = [c]" by simp
  have "read_tlv_header_t16_l16 LsA_NomError (BgpLsAttributeValue_octets ?v @ b # rest) =
      Inr (BgpLsAttributeType_into_u16 LAT_LinkProtectionType, 2, [c, b], rest)"
    using tlv_header_read [of 2 "[c, b]" LsA_NomError "BgpLsAttributeType_into_u16 LAT_LinkProtectionType" rest] c
    by (simp add: BgpLsAttributeValue_octets_def BgpLsAttributeValue_len_def write_tlv_header_t16_l16_def
        del: BgpLsAttributeType_into_u16.simps BgpLsAttributeValue_body.simps)
  then show ?case
    by (simp add: BgpLsAttributeValue_from_wire_def with_tlv_def BgpLsAttributeValue_data_def known_tlv_known read_in_def first_of_def
        from_be_bytes_alone from_be_bytes_pair link_protection_low del: BgpLsAttributeType_into_u16.simps)
next
  case 2
  let ?v = "LSA_OspfForwardingAddress (IpV4 (from_be_bytes [w, x, y, z]))"
  have "BgpLsAttributeValue_body ?v = [4, w, x, y] @ [z]"
    using to_from_be_bytes [of "[w, x, y, z]", where 'a = 32] by (simp add: IpAddr_write_def)
  then have "read_tlv_header_t16_l16 LsA_NomError (BgpLsAttributeValue_octets ?v @ rest) =
      Inr (BgpLsAttributeType_into_u16 LAT_OspfForwardingAddress, 4, [4, w, x, y], z # rest)"
    using tlv_header_read [of 4 "[4, w, x, y]" LsA_NomError "BgpLsAttributeType_into_u16 LAT_OspfForwardingAddress" "z # rest"]
    by (simp add: BgpLsAttributeValue_octets_def BgpLsAttributeValue_len_def write_tlv_header_t16_l16_def
        del: BgpLsAttributeType_into_u16.simps BgpLsAttributeValue_body.simps)
  then show ?case
    by (simp add: BgpLsAttributeValue_from_wire_def with_tlv_def BgpLsAttributeValue_data_def known_tlv_known read_in_def first_of_def
        from_be_bytes_alone del: BgpLsAttributeType_into_u16.simps)
qed

end
