(* ===== verification/Wire_Segment_Ids.thy ===== *)
theory Wire_Segment_Ids
  imports Wire_Link_State_Laws
begin

text \<open>
  Prefix segment identifiers on the wire: \<open>bgp_sid.rs\<close> under \<open>src/netgauze/bgp-pkt/src/wire/deserializer/path_attribute\<close>
  and \<open>serializer/path_attribute\<close>. What was written is read back (\<open>sid_ok\<close>), but for values of unknown types,
  whose writer writes the type twice.
\<close>

section \<open>Readers\<close>

datatype BgpPrefixSidSubSubTlvParsingError = SubSubE_NomError | BadBgpPrefixSidSubSubTlvType "u8 IanaValueError"

datatype BgpPrefixSidSubTlvParsingError =
    SubE_NomError
  | BadBgpPrefixSidSubTlvType "u8 IanaValueError"
  | SubE_SRv6ServiceSubTlvError BgpPrefixSidSubSubTlvParsingError

datatype BgpSRv6SRGBParsingError = SrgbE_NomError | SrgbE_MplsLabelParsingError

datatype BgpPrefixSidTlvParsingError =
    SidE_NomError
  | BadBgpPrefixSidTlvType "u8 IanaValueError"
  | BgpSRv6SRGBError BgpSRv6SRGBParsingError
  | SidE_SRv6ServiceSubTlvError BgpPrefixSidSubTlvParsingError

definition SRv6ServiceSubSubTlv_data :: "u8 \<Rightarrow> u16 \<Rightarrow> bytes \<Rightarrow> BgpPrefixSidSubSubTlvParsingError + SRv6ServiceSubSubTlv" where
  "SRv6ServiceSubSubTlv_data tlv_type tlv_length tlv_data =
     known_tlv BgpSrv6ServiceSubSubTlvType_try_from BadBgpPrefixSidSubSubTlvType (\<lambda>code. SubSub_Unknown code tlv_data) (\<lambda>t.
       case t of
         SSST_SRv6SIDStructure \<Rightarrow>
           first_of
             (parse_bind (be_u8 SubSubE_NomError) (\<lambda>locator_block_len. parse_bind (be_u8 SubSubE_NomError) (\<lambda>locator_node_len.
              parse_bind (be_u8 SubSubE_NomError) (\<lambda>function_len. parse_bind (be_u8 SubSubE_NomError) (\<lambda>arg_len.
              parse_bind (be_u8 SubSubE_NomError) (\<lambda>transposition_len. parse_bind (be_u8 SubSubE_NomError) (\<lambda>transposition_offset.
              parse_return
                (SRv6SIDStructure locator_block_len locator_node_len function_len arg_len transposition_len transposition_offset)))))))
              tlv_data)) tlv_type"

definition SRv6ServiceSubSubTlv_from_wire :: "(BgpPrefixSidSubSubTlvParsingError, SRv6ServiceSubSubTlv) parser" where
  "SRv6ServiceSubSubTlv_from_wire = with_tlv (read_tlv_header_t8_l16 SubSubE_NomError) SRv6ServiceSubSubTlv_data"

definition SRv6ServiceSubTlv_data :: "u8 \<Rightarrow> u16 \<Rightarrow> bytes \<Rightarrow> BgpPrefixSidSubTlvParsingError + SRv6ServiceSubTlv" where
  "SRv6ServiceSubTlv_data tlv_type tlv_length tlv_data =
     known_tlv BgpSrv6ServiceSubTlvType_try_from BadBgpPrefixSidSubTlvType (\<lambda>code. Sub_Unknown code tlv_data) (\<lambda>t.
       case t of
         SST_SRv6SIDInformation \<Rightarrow>
           first_of
             (parse_bind (be_u8 SubE_NomError) (\<lambda>reserved1. parse_bind (be_u128 SubE_NomError) (\<lambda>sid.
              parse_bind (be_u8 SubE_NomError) (\<lambda>service_sid_flags. parse_bind (be_u16 SubE_NomError) (\<lambda>endpoint_behaviour.
              parse_bind (be_u8 SubE_NomError) (\<lambda>reserved2.
              parse_bind (till_empty (parse_into SubE_SRv6ServiceSubTlvError SRv6ServiceSubSubTlv_from_wire)) (\<lambda>subsubtlvs.
              parse_return (SRv6SIDInformation reserved1 sid service_sid_flags endpoint_behaviour reserved2 subsubtlvs)))))))
              tlv_data)) tlv_type"

definition SRv6ServiceSubTlv_from_wire :: "(BgpPrefixSidSubTlvParsingError, SRv6ServiceSubTlv) parser" where
  "SRv6ServiceSubTlv_from_wire = with_tlv (read_tlv_header_t8_l16 SubE_NomError) SRv6ServiceSubTlv_data"

definition SegmentRoutingGlobalBlock_from_wire :: "(BgpSRv6SRGBParsingError, SegmentRoutingGlobalBlock) parser" where
  "SegmentRoutingGlobalBlock_from_wire =
     parse_bind (parse_into (\<lambda>_. SrgbE_MplsLabelParsingError) MplsLabel_from_wire) (\<lambda>first_label.
     parse_bind (be_u8 SrgbE_NomError) (\<lambda>range_size_0. parse_bind (be_u8 SrgbE_NomError) (\<lambda>range_size_1.
     parse_bind (be_u8 SrgbE_NomError) (\<lambda>range_size_2.
     parse_return \<lparr> srgb_first_label = first_label, srgb_range_size = [range_size_0, range_size_1, range_size_2] \<rparr>))))"

definition service_subtlvs :: "(BgpPrefixSidTlvParsingError, u8 \<times> SRv6ServiceSubTlv list) parser" where
  "service_subtlvs =
     parse_bind (be_u8 SidE_NomError) (\<lambda>reserved.
     parse_bind (till_empty (parse_into SidE_SRv6ServiceSubTlvError SRv6ServiceSubTlv_from_wire)) (\<lambda>subtlvs. parse_return (reserved, subtlvs)))"

definition BgpSidAttribute_data :: "u8 \<Rightarrow> u16 \<Rightarrow> bytes \<Rightarrow> BgpPrefixSidTlvParsingError + BgpSidAttribute" where
  "BgpSidAttribute_data tlv_type tlv_length tlv_data =
     known_tlv BgpSidAttributeType_try_from BadBgpPrefixSidTlvType (\<lambda>code. Sid_Unknown code tlv_data) (\<lambda>t.
       case t of
         SAT_LabelIndex \<Rightarrow>
           first_of
             (parse_bind (be_u8 SidE_NomError) (\<lambda>_. parse_bind (be_u16 SidE_NomError) (\<lambda>flags.
              parse_bind (be_u32 SidE_NomError) (\<lambda>label_index. parse_return (Sid_LabelIndex flags label_index)))) tlv_data)
       | SAT_Originator \<Rightarrow>
           first_of
             (parse_bind (be_u16 SidE_NomError) (\<lambda>flags.
              parse_bind (till_empty (parse_into BgpSRv6SRGBError SegmentRoutingGlobalBlock_from_wire)) (\<lambda>srgbs.
              parse_return (Sid_Originator flags srgbs))) tlv_data)
       | SAT_SRv6ServiceL3 \<Rightarrow> read_in (\<lambda>(reserved, subtlvs). Sid_SRv6ServiceL3 reserved subtlvs) service_subtlvs tlv_data
       | SAT_SRv6ServiceL2 \<Rightarrow> read_in (\<lambda>(reserved, subtlvs). Sid_SRv6ServiceL2 reserved subtlvs) service_subtlvs tlv_data) tlv_type"

definition BgpSidAttribute_from_wire :: "(BgpPrefixSidTlvParsingError, BgpSidAttribute) parser" where
  "BgpSidAttribute_from_wire = with_tlv (read_tlv_header_t8_l16 SidE_NomError) BgpSidAttribute_data"

section \<open>Lengths\<close>

fun SRv6ServiceSubSubTlv_data_len :: "SRv6ServiceSubSubTlv \<Rightarrow> nat" where
  "SRv6ServiceSubSubTlv_data_len (SRv6SIDStructure _ _ _ _ _ _) = 6"
| "SRv6ServiceSubSubTlv_data_len (SubSub_Unknown _ val) = length val"

definition SRv6ServiceSubSubTlv_len :: "SRv6ServiceSubSubTlv \<Rightarrow> nat" where
  "SRv6ServiceSubSubTlv_len tlv = 3 + SRv6ServiceSubSubTlv_data_len tlv"

fun SRv6ServiceSubTlv_data_len :: "SRv6ServiceSubTlv \<Rightarrow> nat" where
  "SRv6ServiceSubTlv_data_len (SRv6SIDInformation _ _ _ _ _ subsubtlvs) =
     1 + 16 + 1 + 2 + 1 + sum_list (map SRv6ServiceSubSubTlv_len subsubtlvs)"
| "SRv6ServiceSubTlv_data_len (Sub_Unknown _ val) = length val"

definition SRv6ServiceSubTlv_len :: "SRv6ServiceSubTlv \<Rightarrow> nat" where
  "SRv6ServiceSubTlv_len tlv = 3 + SRv6ServiceSubTlv_data_len tlv"

fun BgpSidAttribute_data_len :: "BgpSidAttribute \<Rightarrow> nat" where
  "BgpSidAttribute_data_len (Sid_LabelIndex _ _) = 7"
| "BgpSidAttribute_data_len (Sid_Originator _ srgbs) = 2 + 6 * length srgbs"
| "BgpSidAttribute_data_len (Sid_SRv6ServiceL3 _ subtlvs) = 1 + sum_list (map SRv6ServiceSubTlv_len subtlvs)"
| "BgpSidAttribute_data_len (Sid_SRv6ServiceL2 _ subtlvs) = 1 + sum_list (map SRv6ServiceSubTlv_len subtlvs)"
| "BgpSidAttribute_data_len (Sid_Unknown _ val) = length val"

definition BgpSidAttribute_len :: "BgpSidAttribute \<Rightarrow> nat" where
  "BgpSidAttribute_len tlv = 3 + BgpSidAttribute_data_len tlv"

definition PrefixSegmentIdentifier_tlvs_len :: "PrefixSegmentIdentifier \<Rightarrow> nat" where
  "PrefixSegmentIdentifier_tlvs_len psi = sum_list (map BgpSidAttribute_len (psi_tlvs psi))"

section \<open>Writers\<close>

fun SRv6ServiceSubSubTlv_body :: "SRv6ServiceSubSubTlv \<Rightarrow> bytes" where
  "SRv6ServiceSubSubTlv_body
     (SRv6SIDStructure locator_block_len locator_node_len function_len arg_len transposition_len transposition_offset) =
     [locator_block_len, locator_node_len, function_len, arg_len, transposition_len, transposition_offset]"
| "SRv6ServiceSubSubTlv_body (SubSub_Unknown _ val) = val"

definition SRv6ServiceSubSubTlv_write :: "SRv6ServiceSubSubTlv \<Rightarrow> bytes" where
  "SRv6ServiceSubSubTlv_write tlv =
     write_tlv_header_t8_l16 (raw_code BgpSrv6ServiceSubSubTlvType_into_u8 (SRv6ServiceSubSubTlv_code tlv))
       (of_nat (SRv6ServiceSubSubTlv_len tlv)) @ SRv6ServiceSubSubTlv_body tlv"

fun SRv6ServiceSubTlv_body :: "SRv6ServiceSubTlv \<Rightarrow> bytes" where
  "SRv6ServiceSubTlv_body (SRv6SIDInformation reserved1 sid service_sid_flags endpoint_behaviour reserved2 subsubtlvs) =
     [reserved1] @ to_be_bytes sid @ [service_sid_flags] @ to_be_bytes endpoint_behaviour @ [reserved2] @
     concat (map SRv6ServiceSubSubTlv_write subsubtlvs)"
| "SRv6ServiceSubTlv_body (Sub_Unknown _ val) = val"

definition SRv6ServiceSubTlv_write :: "SRv6ServiceSubTlv \<Rightarrow> bytes" where
  "SRv6ServiceSubTlv_write tlv =
     write_tlv_header_t8_l16 (raw_code BgpSrv6ServiceSubTlvType_into_u8 (SRv6ServiceSubTlv_code tlv))
       (of_nat (SRv6ServiceSubTlv_len tlv)) @ SRv6ServiceSubTlv_body tlv"

definition SegmentRoutingGlobalBlock_write :: "SegmentRoutingGlobalBlock \<Rightarrow> bytes" where
  "SegmentRoutingGlobalBlock_write srgb = srgb_first_label srgb @ srgb_range_size srgb"

fun BgpSidAttribute_body :: "BgpSidAttribute \<Rightarrow> bytes" where
  "BgpSidAttribute_body (Sid_LabelIndex flags label_index) = [0] @ to_be_bytes flags @ to_be_bytes label_index"
| "BgpSidAttribute_body (Sid_Originator flags srgbs) = to_be_bytes flags @ concat (map SegmentRoutingGlobalBlock_write srgbs)"
| "BgpSidAttribute_body (Sid_SRv6ServiceL3 reserved subtlvs) = [reserved] @ concat (map SRv6ServiceSubTlv_write subtlvs)"
| "BgpSidAttribute_body (Sid_SRv6ServiceL2 reserved subtlvs) = [reserved] @ concat (map SRv6ServiceSubTlv_write subtlvs)"
| "BgpSidAttribute_body (Sid_Unknown code val) = [code] @ val"

definition BgpSidAttribute_write :: "BgpSidAttribute \<Rightarrow> bytes" where
  "BgpSidAttribute_write tlv =
     write_tlv_header_t8_l16 (raw_code BgpSidAttributeType_into_u8 (BgpSidAttribute_code tlv)) (of_nat (BgpSidAttribute_len tlv)) @
     BgpSidAttribute_body tlv"

section \<open>Round trips\<close>

text \<open>A codec whose errors are wrapped is one.\<close>

lemma wrapped_list:
  assumes "element_codec wr rd ok" "list_all ok as"
  shows "till_empty (parse_into f rd) (concat (map wr as)) = Inr (as, [])"
proof -
  have "element_codec wr (parse_into f rd) ok"
    using assms(1) shrinks_parse_into [of rd f] unfolding element_codec_def element_codec_axioms_def wire_codec_def
    by (simp add: parse_into_def)
  then show ?thesis using assms(2) by (simp add: till_empty_def element_codec.read_list)
qed

fun subsub_ok :: "SRv6ServiceSubSubTlv \<Rightarrow> bool" where
  "subsub_ok (SRv6SIDStructure _ _ _ _ _ _) = True"
| "subsub_ok (SubSub_Unknown code val) = (BgpSrv6ServiceSubSubTlvType_try_from code = Inl (IanaUnknown code) \<and> length val < 65536)"

interpretation subsub: tlv_codec "read_tlv_header_t8_l16 SubSubE_NomError" "\<lambda>t n. write_tlv_header_t8_l16 t (of_nat (3 + n))"
  "\<lambda>a. raw_code BgpSrv6ServiceSubSubTlvType_into_u8 (SRv6ServiceSubSubTlv_code a)" SRv6ServiceSubSubTlv_data_len
  SRv6ServiceSubSubTlv_body SRv6ServiceSubSubTlv_data subsub_ok
proof (rule tlv8_codecI)
  fix a
  assume ok: "subsub_ok a"
  show "length (SRv6ServiceSubSubTlv_body a) = SRv6ServiceSubSubTlv_data_len a" by (cases a) simp_all
  show "SRv6ServiceSubSubTlv_data_len a < 65536" using ok by (cases a) simp_all
  show "SRv6ServiceSubSubTlv_data (raw_code BgpSrv6ServiceSubSubTlvType_into_u8 (SRv6ServiceSubSubTlv_code a))
      (of_nat (SRv6ServiceSubSubTlv_data_len a)) (SRv6ServiceSubSubTlv_body a) = Inr a"
    unfolding SRv6ServiceSubSubTlv_data_def using ok
    by (cases a) (simp_all add: known_tlv_known known_tlv_unknown first_of_def parse_bind_def parse_return_def
        del: BgpSrv6ServiceSubSubTlvType_into_u8.simps)
qed

lemma subsub_codec: "element_codec SRv6ServiceSubSubTlv_write SRv6ServiceSubSubTlv_from_wire subsub_ok"
proof -
  have "SRv6ServiceSubSubTlv_write =
    (\<lambda>a. write_tlv_header_t8_l16 (raw_code BgpSrv6ServiceSubSubTlvType_into_u8 (SRv6ServiceSubSubTlv_code a))
       (of_nat (3 + SRv6ServiceSubSubTlv_data_len a)) @ SRv6ServiceSubSubTlv_body a)"
    by (simp only: SRv6ServiceSubSubTlv_write_def SRv6ServiceSubSubTlv_len_def fun_eq_iff) simp
  then show ?thesis using subsub.element_codec_axioms by (simp only: SRv6ServiceSubSubTlv_from_wire_def)
qed

lemma subsub_length: "subsub_ok a \<Longrightarrow> length (SRv6ServiceSubSubTlv_write a) = SRv6ServiceSubSubTlv_len a"
  by (simp add: SRv6ServiceSubSubTlv_write_def SRv6ServiceSubSubTlv_len_def subsub.body_length)

lemma subsubs_length: "list_all subsub_ok as \<Longrightarrow> length (concat (map SRv6ServiceSubSubTlv_write as)) = sum_list (map SRv6ServiceSubSubTlv_len as)"
  by (erule length_concat_sum) (rule subsub_length)

fun sub_ok :: "SRv6ServiceSubTlv \<Rightarrow> bool" where
  "sub_ok (SRv6SIDInformation _ _ _ _ _ subsubtlvs) =
     (list_all subsub_ok subsubtlvs \<and> 21 + sum_list (map SRv6ServiceSubSubTlv_len subsubtlvs) < 65536)"
| "sub_ok (Sub_Unknown code val) = (BgpSrv6ServiceSubTlvType_try_from code = Inl (IanaUnknown code) \<and> length val < 65536)"

interpretation sub: tlv_codec "read_tlv_header_t8_l16 SubE_NomError" "\<lambda>t n. write_tlv_header_t8_l16 t (of_nat (3 + n))"
  "\<lambda>a. raw_code BgpSrv6ServiceSubTlvType_into_u8 (SRv6ServiceSubTlv_code a)" SRv6ServiceSubTlv_data_len
  SRv6ServiceSubTlv_body SRv6ServiceSubTlv_data sub_ok
proof (rule tlv8_codecI)
  fix a
  assume ok: "sub_ok a"
  show "length (SRv6ServiceSubTlv_body a) = SRv6ServiceSubTlv_data_len a"
    using ok by (cases a) (simp_all add: subsubs_length del: length_concat)
  show "SRv6ServiceSubTlv_data_len a < 65536" using ok by (cases a) simp_all
  show "SRv6ServiceSubTlv_data (raw_code BgpSrv6ServiceSubTlvType_into_u8 (SRv6ServiceSubTlv_code a))
      (of_nat (SRv6ServiceSubTlv_data_len a)) (SRv6ServiceSubTlv_body a) = Inr a"
    unfolding SRv6ServiceSubTlv_data_def using ok
    by (cases a) (simp_all add: known_tlv_known known_tlv_unknown first_of_def parse_bind_def parse_return_def wrapped_list [OF subsub_codec]
        del: BgpSrv6ServiceSubTlvType_into_u8.simps)
qed

lemma sub_codec: "element_codec SRv6ServiceSubTlv_write SRv6ServiceSubTlv_from_wire sub_ok"
proof -
  have "SRv6ServiceSubTlv_write =
    (\<lambda>a. write_tlv_header_t8_l16 (raw_code BgpSrv6ServiceSubTlvType_into_u8 (SRv6ServiceSubTlv_code a))
       (of_nat (3 + SRv6ServiceSubTlv_data_len a)) @ SRv6ServiceSubTlv_body a)"
    by (simp only: SRv6ServiceSubTlv_write_def SRv6ServiceSubTlv_len_def fun_eq_iff) simp
  then show ?thesis using sub.element_codec_axioms by (simp only: SRv6ServiceSubTlv_from_wire_def)
qed

lemma sub_length: "sub_ok a \<Longrightarrow> length (SRv6ServiceSubTlv_write a) = SRv6ServiceSubTlv_len a"
  by (simp add: SRv6ServiceSubTlv_write_def SRv6ServiceSubTlv_len_def sub.body_length)

lemma subs_length: "list_all sub_ok as \<Longrightarrow> length (concat (map SRv6ServiceSubTlv_write as)) = sum_list (map SRv6ServiceSubTlv_len as)"
  by (erule length_concat_sum) (rule sub_length)

definition srgb_ok :: "SegmentRoutingGlobalBlock \<Rightarrow> bool" where
  "srgb_ok srgb \<longleftrightarrow> length (srgb_first_label srgb) = 3 \<and> length (srgb_range_size srgb) = 3"

interpretation srgb: element_codec SegmentRoutingGlobalBlock_write SegmentRoutingGlobalBlock_from_wire srgb_ok
proof
  show "SegmentRoutingGlobalBlock_from_wire (SegmentRoutingGlobalBlock_write a @ rest) = Inr (a, rest)" if "srgb_ok a" for a rest
    using that label_three [of "srgb_first_label a"] label_three [of "srgb_range_size a"]
    by (cases a) (auto simp: srgb_ok_def SegmentRoutingGlobalBlock_from_wire_def SegmentRoutingGlobalBlock_write_def MplsLabel_from_wire_def
        parse_into_def parse_bind_def parse_return_def)
  show "shrinks SegmentRoutingGlobalBlock_from_wire"
    unfolding SegmentRoutingGlobalBlock_from_wire_def
    by (intro shrinks_bind shrinks_parse_into shrinks_label grows_not_bind shrinks_grows_not [OF shrinks_be(1)] grows_not_return)
qed

fun sid_ok :: "BgpSidAttribute \<Rightarrow> bool" where
  "sid_ok (Sid_LabelIndex _ _) = True"
| "sid_ok (Sid_Originator _ srgbs) = (list_all srgb_ok srgbs \<and> 2 + 6 * length srgbs < 65536)"
| "sid_ok (Sid_SRv6ServiceL3 _ subtlvs) = (list_all sub_ok subtlvs \<and> 1 + sum_list (map SRv6ServiceSubTlv_len subtlvs) < 65536)"
| "sid_ok (Sid_SRv6ServiceL2 _ subtlvs) = (list_all sub_ok subtlvs \<and> 1 + sum_list (map SRv6ServiceSubTlv_len subtlvs) < 65536)"
| "sid_ok (Sid_Unknown _ _) = False"

lemma srgbs_length: "list_all srgb_ok srgbs \<Longrightarrow> length (concat (map SegmentRoutingGlobalBlock_write srgbs)) = 6 * length srgbs"
  by (induction srgbs) (simp_all add: srgb_ok_def SegmentRoutingGlobalBlock_write_def)

interpretation sid: tlv_codec "read_tlv_header_t8_l16 SidE_NomError" "\<lambda>t n. write_tlv_header_t8_l16 t (of_nat (3 + n))"
  "\<lambda>a. raw_code BgpSidAttributeType_into_u8 (BgpSidAttribute_code a)" BgpSidAttribute_data_len
  BgpSidAttribute_body BgpSidAttribute_data sid_ok
proof (rule tlv8_codecI)
  fix a
  assume ok: "sid_ok a"
  show "length (BgpSidAttribute_body a) = BgpSidAttribute_data_len a"
    using ok by (cases a) (simp_all add: subs_length srgbs_length del: length_concat)
  show "BgpSidAttribute_data_len a < 65536" using ok by (cases a) simp_all
  show "BgpSidAttribute_data (raw_code BgpSidAttributeType_into_u8 (BgpSidAttribute_code a))
      (of_nat (BgpSidAttribute_data_len a)) (BgpSidAttribute_body a) = Inr a"
    unfolding BgpSidAttribute_data_def using ok
    by (cases a) (simp_all add: known_tlv_known first_of_def read_in_def service_subtlvs_def parse_bind_def parse_return_def
        wrapped_list [OF sub_codec] wrapped_list [OF srgb.element_codec_axioms] del: BgpSidAttributeType_into_u8.simps)
qed

lemma sid_codec: "element_codec BgpSidAttribute_write BgpSidAttribute_from_wire sid_ok"
proof -
  have "BgpSidAttribute_write =
    (\<lambda>a. write_tlv_header_t8_l16 (raw_code BgpSidAttributeType_into_u8 (BgpSidAttribute_code a))
       (of_nat (3 + BgpSidAttribute_data_len a)) @ BgpSidAttribute_body a)"
    by (simp only: BgpSidAttribute_write_def BgpSidAttribute_len_def fun_eq_iff) simp
  then show ?thesis using sid.element_codec_axioms by (simp only: BgpSidAttribute_from_wire_def)
qed

lemma sid_length: "sid_ok a \<Longrightarrow> length (BgpSidAttribute_write a) = BgpSidAttribute_len a"
  by (simp add: BgpSidAttribute_write_def BgpSidAttribute_len_def sid.body_length)

lemma sids_length:
  "list_all sid_ok (psi_tlvs psi) \<Longrightarrow> length (concat (map BgpSidAttribute_write (psi_tlvs psi))) = PrefixSegmentIdentifier_tlvs_len psi"
  unfolding PrefixSegmentIdentifier_tlvs_len_def by (erule length_concat_sum) (rule sid_length)

lemma sids_read: "list_all sid_ok tlvs \<Longrightarrow> parse_till_empty BgpSidAttribute_from_wire (concat (map BgpSidAttribute_write tlvs)) = Inr tlvs"
  by (rule element_codec.read_list [OF sid_codec])

section \<open>Values of unknown types\<close>

text \<open>
  A segment identifier of an unknown type is read with its type in front of its value, and the
  last octet of what was written is left in front of what follows.
\<close>

theorem unknown_sid_misread:
  assumes "BgpSidAttributeType_try_from code = Inl (IanaUnknown code)" "length val < 65536"
  shows "BgpSidAttribute_from_wire (BgpSidAttribute_write (Sid_Unknown code val) @ rest) =
    Inr (Sid_Unknown code (butlast (code # val)), last (code # val) # rest)"
proof -
  have w: "code # val = butlast (code # val) @ [last (code # val)]" by simp
  have "BgpSidAttribute_write (Sid_Unknown code val) @ rest =
    write_tlv_header_t8_l16 code (of_nat (3 + length val)) @ butlast (code # val) @ last (code # val) # rest"
    using w by (simp only: BgpSidAttribute_write_def BgpSidAttribute_len_def BgpSidAttribute_body.simps BgpSidAttribute_code.simps
        BgpSidAttribute_data_len.simps raw_code_simps append_assoc) simp
  then show ?thesis
    using header_read(2) [of "butlast (code # val)" "length val" SidE_NomError code "last (code # val) # rest"] assms
    by (simp only: BgpSidAttribute_from_wire_def with_tlv_def) (simp add: BgpSidAttribute_data_def known_tlv_unknown del: butlast.simps last.simps)
qed

theorem unknown_sid_misread_witness:
  "BgpSidAttributeType_try_from 7 = Inl (IanaUnknown 7) \<and>
   BgpSidAttribute_from_wire (BgpSidAttribute_write (Sid_Unknown 7 [1, 2]) @ [3]) = Inr (Sid_Unknown 7 [7, 1], [2, 3])"
proof -
  have u: "BgpSidAttributeType_try_from 7 = Inl (IanaUnknown 7)"
    by (simp add: BgpSidAttributeType_try_from_def iana_try_from_def code_try_from_def BgpSidAttributeType_all_def reserved_sid_def)
  from unknown_sid_misread [OF this, of "[1, 2]" "[3]"] u show ?thesis by simp
qed

end
