(* ===== verification/Wire_Attributes.thy ===== *)
theory Wire_Attributes
  imports Wire_Evpn Wire_Link_State_Attribute Wire_Segment_Ids
begin

text \<open>
  Reading and writing of path attributes (\<open>path_attribute.rs\<close> under
  \<open>src/netgauze/bgp-pkt/src/wire/deserializer/path_attribute\<close> and \<open>serializer/path_attribute\<close>). The
  reader of an attribute value fails with one error per attribute, whose payload is left out. Every
  family and attribute is modelled down to its octets.
\<close>

section \<open>Codes\<close>

fun OriginValue_into_u8 :: "OriginValue \<Rightarrow> u8" where
  "OriginValue_into_u8 IGP = 0"
| "OriginValue_into_u8 EGP = 1"
| "OriginValue_into_u8 Incomplete = 2"

definition OriginValue_try_from :: "u8 \<Rightarrow> u8 + OriginValue" where
  "OriginValue_try_from = code_try_from OriginValue_into_u8 [IGP, EGP, Incomplete]"

interpretation origin: code_registry OriginValue_into_u8 "[IGP, EGP, Incomplete]"
proof
  show "a \<in> set [IGP, EGP, Incomplete]" for a by (cases a) simp_all
qed simp

fun AsPathSegmentType_into_u8 :: "AsPathSegmentType \<Rightarrow> u8" where
  "AsPathSegmentType_into_u8 AsSet = 1"
| "AsPathSegmentType_into_u8 AsSequence = 2"

definition AsPathSegmentType_try_from :: "u8 \<Rightarrow> u8 + AsPathSegmentType" where
  "AsPathSegmentType_try_from = code_try_from AsPathSegmentType_into_u8 [AsSet, AsSequence]"

interpretation segment_type: code_registry AsPathSegmentType_into_u8 "[AsSet, AsSequence]"
proof
  show "a \<in> set [AsSet, AsSequence]" for a by (cases a) simp_all
qed simp

definition PathAttributeType_all :: "PathAttributeType list" where
  "PathAttributeType_all =
     [PAT_Origin, PAT_AsPath, PAT_NextHop, PAT_MultiExitDiscriminator, PAT_LocalPreference, PAT_AtomicAggregate, PAT_Aggregator,
      PAT_Communities, PAT_OriginatorId, PAT_ClusterList, PAT_MpReachNlri, PAT_MpUnreachNlri, PAT_ExtendedCommunities,
      PAT_As4Path, PAT_As4Aggregator, PAT_PmsiTunnel, PAT_TunnelEncapsulation, PAT_TrafficEngineering,
      PAT_ExtendedCommunitiesIpv6, PAT_AccumulatedIgp, PAT_PeDistinguisherLabels, PAT_BgpLsAttribute, PAT_LargeCommunities,
      PAT_BgpPSecPath, PAT_OnlyToCustomer, PAT_BgpDomainPath, PAT_SfpAttribute, PAT_BfdDiscriminator, PAT_BgpPrefixSid,
      PAT_AttributesSet, PAT_Development]"

definition PathAttributeType_try_from :: "u8 \<Rightarrow> u8 + PathAttributeType" where
  "PathAttributeType_try_from = code_try_from PathAttributeType_code PathAttributeType_all"

interpretation attribute_type: code_registry PathAttributeType_code PathAttributeType_all
proof
  show "a \<in> set PathAttributeType_all" for a by (cases a) (simp_all add: PathAttributeType_all_def)
qed (simp add: PathAttributeType_all_def)

lemmas attribute_codes [simp, wire_simps] =
  origin.try_roundtrip [folded OriginValue_try_from_def]
  segment_type.try_roundtrip [folded AsPathSegmentType_try_from_def]
  attribute_type.try_roundtrip [folded PathAttributeType_try_from_def]

section \<open>Readers of attribute values\<close>

definition attribute_length :: "bool \<Rightarrow> (unit, u16) parser" where
  "attribute_length extended_length =
     (if extended_length then be_u16 () else parse_bind (be_u8 ()) (\<lambda>raw. parse_return (ucast raw)))"

definition checked_length :: "bool \<Rightarrow> u16 \<Rightarrow> (unit, u16) parser" where
  "checked_length extended_length expected =
     map_res (attribute_length extended_length) (\<lambda>l. if l = expected then Inr l else Inl ())"

definition attribute_data :: "'e \<Rightarrow> bool \<Rightarrow> ('e, bytes) parser" where
  "attribute_data e extended_length = (if extended_length then length_data16 e else length_data8 e)"

text \<open>A reader of the data of the attribute alone; what it leaves of them is dropped.\<close>

definition in_data :: "bool \<Rightarrow> (bytes \<Rightarrow> unit + 'a) \<Rightarrow> (unit, 'a) parser" where
  "in_data extended_length p = map_res (attribute_data () extended_length) p"

definition Origin_from_wire :: "bool \<Rightarrow> (unit, OriginValue) parser" where
  "Origin_from_wire ext =
     parse_bind (checked_length ext 1) (\<lambda>_. map_res (be_u8 ()) (\<lambda>v. map_err (\<lambda>_. ()) (OriginValue_try_from v)))"

fun read_words :: "nat \<Rightarrow> (unit, 'w::len word list) parser" where
  "read_words 0 bs = Inr ([], bs)"
| "read_words (Suc n) bs =
     (case be_word () bs of
        Inl e \<Rightarrow> Inl e
      | Inr (w, rest) \<Rightarrow> (case read_words n rest of Inl e \<Rightarrow> Inl e | Inr (ws, rest) \<Rightarrow> Inr (w # ws, rest)))"

definition segment_header :: "(unit, AsPathSegmentType \<times> nat) parser" where
  "segment_header =
     parse_bind (map_res (be_u8 ()) (\<lambda>v. map_err (\<lambda>_. ()) (AsPathSegmentType_try_from v))) (\<lambda>segment_type.
     map_res (be_u8 ()) (\<lambda>n. if n = 0 then Inl () else Inr (segment_type, unat n)))"

definition As2PathSegment_from_wire :: "(unit, As2PathSegment) parser" where
  "As2PathSegment_from_wire =
     parse_bind segment_header (\<lambda>(segment_type, n) bs.
       if length bs < n * 2 then Inl ()
       else parse_bind (read_words n)
              (\<lambda>as_numbers. parse_return \<lparr> as2_segment_type = segment_type, as2_as_numbers = as_numbers \<rparr>) bs)"

definition As4PathSegment_from_wire :: "(unit, As4PathSegment) parser" where
  "As4PathSegment_from_wire =
     parse_bind segment_header (\<lambda>(segment_type, n) bs.
       if length bs < n * 4 then Inl ()
       else parse_bind (read_words n)
              (\<lambda>as_numbers. parse_return \<lparr> as4_segment_type = segment_type, as4_as_numbers = as_numbers \<rparr>) bs)"

definition AsPath_from_wire :: "bool \<Rightarrow> bool \<Rightarrow> (unit, AsPathValue) parser" where
  "AsPath_from_wire ext asn4 =
     in_data ext (\<lambda>segments_buf.
       if asn4 then map_sum id As4PathSegments (parse_till_empty As4PathSegment_from_wire segments_buf)
       else map_sum id As2PathSegments (parse_till_empty As2PathSegment_from_wire segments_buf))"

definition As4Path_from_wire :: "bool \<Rightarrow> (unit, As4PathSegment list) parser" where
  "As4Path_from_wire ext = in_data ext (parse_till_empty As4PathSegment_from_wire)"

text \<open>\<open>NextHop\<close>, \<open>MultiExitDiscriminator\<close> and \<open>LocalPreference\<close> are four octets.\<close>

definition four_octets :: "bool \<Rightarrow> (unit, u32) parser" where
  "four_octets ext = parse_bind (checked_length ext 4) (\<lambda>_. be_u32 ())"

definition AtomicAggregate_from_wire :: "bool \<Rightarrow> (unit, unit) parser" where
  "AtomicAggregate_from_wire ext = parse_bind (checked_length ext 0) (\<lambda>_. parse_return ())"

definition As2Aggregator_from_wire :: "bool \<Rightarrow> (unit, AggregatorValue) parser" where
  "As2Aggregator_from_wire ext =
     parse_bind (checked_length ext 6) (\<lambda>_.
     parse_bind (be_u16 ()) (\<lambda>asn. parse_bind (be_u32 ()) (\<lambda>origin. parse_return (As2Aggregator asn origin))))"

definition As4Aggregator_from_wire :: "bool \<Rightarrow> (unit, AggregatorValue) parser" where
  "As4Aggregator_from_wire ext =
     parse_bind (checked_length ext 8) (\<lambda>_.
     parse_bind (be_u32 ()) (\<lambda>asn. parse_bind (be_u32 ()) (\<lambda>origin. parse_return (As4Aggregator asn origin))))"

definition Aggregator_from_wire :: "bool \<Rightarrow> bool \<Rightarrow> (unit, AggregatorValue) parser" where
  "Aggregator_from_wire ext asn4 = (if asn4 then As4Aggregator_from_wire ext else As2Aggregator_from_wire ext)"

definition Communities_from_wire :: "bool \<Rightarrow> (unit, u32 list) parser" where
  "Communities_from_wire ext = in_data ext (parse_till_empty (be_u32 ()))"

definition LargeCommunity_from_wire :: "(unit, u32 \<times> u32 \<times> u32) parser" where
  "LargeCommunity_from_wire =
     parse_bind (be_u32 ()) (\<lambda>global_admin. parse_bind (be_u32 ()) (\<lambda>local_data1.
     parse_bind (be_u32 ()) (\<lambda>local_data2. parse_return (global_admin, local_data1, local_data2))))"

definition LargeCommunities_from_wire :: "bool \<Rightarrow> (unit, (u32 \<times> u32 \<times> u32) list) parser" where
  "LargeCommunities_from_wire ext = in_data ext (parse_till_empty LargeCommunity_from_wire)"

definition ExtendedCommunities_from_wire :: "bool \<Rightarrow> (unit, ExtendedCommunity list) parser" where
  "ExtendedCommunities_from_wire ext = in_data ext (parse_till_empty ExtendedCommunity_from_wire)"

definition ExtendedCommunitiesIpv6_from_wire :: "bool \<Rightarrow> (unit, ExtendedCommunityIpv6 list) parser" where
  "ExtendedCommunitiesIpv6_from_wire ext = in_data ext (parse_till_empty ExtendedCommunityIpv6_from_wire)"

text \<open>\<open>Originator\<close> and \<open>OnlyToCustomer\<close> read the first four octets of their data.\<close>

definition first_u32 :: "bool \<Rightarrow> (unit, u32) parser" where
  "first_u32 ext = in_data ext (\<lambda>data_buf. first_of (be_u32 () data_buf))"

definition ClusterList_from_wire :: "bool \<Rightarrow> (unit, ipv4addr list) parser" where
  "ClusterList_from_wire ext = in_data ext (parse_till_empty (be_u32 ()))"

definition Aigp_from_wire :: "bool \<Rightarrow> (unit, u64) parser" where
  "Aigp_from_wire ext =
     in_data ext (\<lambda>data_buf. first_of (
       parse_bind (map_res (be_u8 ()) (\<lambda>v. if v = 1 then Inr v else Inl ())) (\<lambda>_.
       parse_bind (map_res (be_u16 ()) (\<lambda>l. if l = 11 then Inr l else Inl ())) (\<lambda>_. be_word ())) data_buf))"

definition UnknownAttribute_from_wire :: "bool \<Rightarrow> (unit, u8 \<times> bytes) parser" where
  "UnknownAttribute_from_wire ext =
     parse_bind (be_u8 ()) (\<lambda>code.
     parse_bind (attribute_length ext) (\<lambda>l. parse_bind (take_bytes () (unat l)) (\<lambda>val. parse_return (code, val))))"

definition PrefixSegmentIdentifier_from_wire :: "bool \<Rightarrow> (unit, PrefixSegmentIdentifier) parser" where
  "PrefixSegmentIdentifier_from_wire ext =
     in_data ext (\<lambda>segment_id_buf.
       map_sum (\<lambda>_. ()) (\<lambda>tlvs. \<lparr> psi_tlvs = tlvs \<rparr>) (parse_till_empty BgpSidAttribute_from_wire segment_id_buf))"

text \<open>The reader of the link-state attribute returns what is left of its own data, which is nothing.\<close>

definition BgpLsAttribute_from_wire :: "bool \<Rightarrow> (unit, BgpLsAttribute) parser" where
  "BgpLsAttribute_from_wire ext bs =
     (case attribute_data () ext bs of
        Inl e \<Rightarrow> Inl e
      | Inr (ls_buf, _) \<Rightarrow>
          (case parse_till_empty BgpLsAttributeValue_from_wire ls_buf of
             Inl _ \<Rightarrow> Inl ()
           | Inr attributes \<Rightarrow> Inr (\<lparr> lsa_attributes = attributes \<rparr>, [])))"

section \<open>Readers of reachable and unreachable networks\<close>

definition add_path_for :: "BgpParsingContext \<Rightarrow> AddressType \<Rightarrow> bool" where
  "add_path_for ctx t = (case ctx_add_path ctx t of Some x \<Rightarrow> x | None \<Rightarrow> False)"

definition labels_for :: "BgpParsingContext \<Rightarrow> AddressType \<Rightarrow> u8" where
  "labels_for ctx t = (case ctx_multiple_labels ctx t of Some n \<Rightarrow> n | None \<Rightarrow> 1)"

definition parse_ip_next_hop :: "AddressType \<Rightarrow> (MpReachParsingError, IpAddr) parser" where
  "parse_ip_next_hop t = parse_into (\<lambda>_. MpR_IpAddrError t) IpAddr_from_wire"

definition parse_ip4_or_ipv6_next_hop :: "AddressType \<Rightarrow> (MpReachParsingError, IpAddr \<times> ipv6addr option) parser" where
  "parse_ip4_or_ipv6_next_hop t =
     parse_bind (be_u8 MpR_NomError) (\<lambda>next_hop_len.
       if next_hop_len = 4 then parse_bind (be_u32 MpR_NomError) (\<lambda>a. parse_return (IpV4 a, None))
       else if next_hop_len = 16 then parse_bind (be_u128 MpR_NomError) (\<lambda>a. parse_return (IpV6 a, None))
       else if next_hop_len = 32
         then parse_bind (be_u128 MpR_NomError) (\<lambda>a. parse_bind (be_u128 MpR_NomError) (\<lambda>local. parse_return (IpV6 a, Some local)))
       else (\<lambda>_. Inl (MpR_IpAddrError t)))"

definition parse_labeled_next_hop :: "AddressType \<Rightarrow> (MpReachParsingError, LabeledNextHop) parser" where
  "parse_labeled_next_hop t = parse_into (\<lambda>_. MpR_LabeledNextHopError t) LabeledNextHop_from_wire"

definition parse_ipv6_next_hop :: "(MpReachParsingError, ipv6addr \<times> ipv6addr option) parser" where
  "parse_ipv6_next_hop =
     parse_bind (be_u8 MpR_NomError) (\<lambda>next_hop_len.
     parse_bind (be_u128 MpR_NomError) (\<lambda>global.
       if next_hop_len = 32 then parse_bind (be_u128 MpR_NomError) (\<lambda>local. parse_return (global, Some local))
       else parse_return (global, None)))"

text \<open>The next hop, the reserved octet and the networks to the end of the attribute.\<close>

definition after_next_hop ::
    "(MpReachParsingError, 'h) parser \<Rightarrow> ('h \<Rightarrow> bytes \<Rightarrow> MpReachParsingError + MpReach) \<Rightarrow> bytes \<Rightarrow> MpReachParsingError + MpReach" where
  "after_next_hop p f mp_buf =
     (case parse_bind p (\<lambda>next_hop. parse_bind (be_u8 MpR_NomError) (\<lambda>_. parse_return next_hop)) mp_buf of
        Inl e \<Rightarrow> Inl e
      | Inr (next_hop, mp_buf) \<Rightarrow> f next_hop mp_buf)"

definition nlri_with :: "'e \<Rightarrow> ('n list \<Rightarrow> 'm) \<Rightarrow> unit + 'n list \<Rightarrow> 'e + 'm" where
  "nlri_with err mk r = (case r of Inl _ \<Rightarrow> Inl err | Inr nlri \<Rightarrow> Inr (mk nlri))"

definition mp_reach_value ::
    "codec_env \<Rightarrow> BgpParsingContext \<Rightarrow> AddressFamily \<Rightarrow> SubsequentAddressFamily \<Rightarrow> bytes \<Rightarrow> MpReachParsingError + MpReach" where
  "mp_reach_value env ctx afi safi mp_buf =
     (case from_afi_safi afi safi of
        Inr AT_Ipv4Unicast \<Rightarrow>
          after_next_hop (parse_ip4_or_ipv6_next_hop AT_Ipv4Unicast) (\<lambda>(next_hop, local) buf.
            nlri_with MpR_Ipv4UnicastAddressError (MpReach_Ipv4Unicast next_hop local)
              (parse_till_empty (Ipv4UnicastAddress_from_wire env True) buf)) mp_buf
      | Inr AT_Ipv4Multicast \<Rightarrow>
          after_next_hop (parse_ip4_or_ipv6_next_hop AT_Ipv4Multicast) (\<lambda>(next_hop, local) buf.
            nlri_with MpR_Ipv4MulticastAddressError (MpReach_Ipv4Multicast next_hop local)
              (parse_till_empty (Ipv4MulticastAddress_from_wire (add_path_for ctx AT_Ipv4Multicast)) buf)) mp_buf
      | Inr AT_Ipv4NlriMplsLabels \<Rightarrow>
          after_next_hop (parse_ip4_or_ipv6_next_hop AT_Ipv4NlriMplsLabels) (\<lambda>(next_hop, local) buf.
            nlri_with MpR_Ipv4NlriMplsLabelsAddressError (MpReach_Ipv4NlriMplsLabels next_hop local)
              (parse_till_empty (Ipv4NlriMplsLabelsAddress_from_wire (add_path_for ctx AT_Ipv4NlriMplsLabels) False (labels_for ctx AT_Ipv4NlriMplsLabels)) buf)) mp_buf
      | Inr AT_Ipv4MplsLabeledVpn \<Rightarrow>
          after_next_hop (parse_labeled_next_hop AT_Ipv4MplsLabeledVpn) (\<lambda>next_hop buf.
            nlri_with MpR_Ipv4MplsVpnUnicastAddressError (MpReach_Ipv4MplsVpnUnicast next_hop)
              (parse_till_empty (Ipv4MplsVpnUnicastAddress_from_wire env (add_path_for ctx AT_Ipv4MplsLabeledVpn) False (labels_for ctx AT_Ipv4MplsLabeledVpn)) buf)) mp_buf
      | Inr AT_Ipv6Unicast \<Rightarrow>
          after_next_hop parse_ipv6_next_hop (\<lambda>(global, local) buf.
            nlri_with MpR_Ipv6UnicastAddressError (MpReach_Ipv6Unicast global local)
              (parse_till_empty (Ipv6UnicastAddress_from_wire True) buf)) mp_buf
      | Inr AT_Ipv6Multicast \<Rightarrow>
          after_next_hop parse_ipv6_next_hop (\<lambda>(global, local) buf.
            nlri_with MpR_Ipv6MulticastAddressError (MpReach_Ipv6Multicast global local)
              (parse_till_empty (Ipv6MulticastAddress_from_wire env (add_path_for ctx AT_Ipv6Multicast)) buf)) mp_buf
      | Inr AT_Ipv6NlriMplsLabels \<Rightarrow>
          after_next_hop (parse_ip4_or_ipv6_next_hop AT_Ipv6NlriMplsLabels) (\<lambda>(next_hop, local) buf.
            nlri_with MpR_Ipv6NlriMplsLabelsAddressError (MpReach_Ipv6NlriMplsLabels next_hop local)
              (parse_till_empty (Ipv6NlriMplsLabelsAddress_from_wire (add_path_for ctx AT_Ipv6NlriMplsLabels) False (labels_for ctx AT_Ipv6NlriMplsLabels)) buf)) mp_buf
      | Inr AT_Ipv6MplsLabeledVpn \<Rightarrow>
          after_next_hop (parse_labeled_next_hop AT_Ipv6MplsLabeledVpn) (\<lambda>next_hop buf.
            nlri_with MpR_Ipv6MplsVpnUnicastAddressError (MpReach_Ipv6MplsVpnUnicast next_hop)
              (parse_till_empty (Ipv6MplsVpnUnicastAddress_from_wire (add_path_for ctx AT_Ipv6MplsLabeledVpn) False (labels_for ctx AT_Ipv6MplsLabeledVpn)) buf)) mp_buf
      | Inr AT_L2VpnBgpEvpn \<Rightarrow>
          after_next_hop (parse_ip_next_hop AT_L2VpnBgpEvpn) (\<lambda>next_hop buf.
            nlri_with MpR_L2EvpnAddressError (MpReach_L2Evpn next_hop) (parse_till_empty (L2EvpnAddress_from_wire (add_path_for ctx AT_L2VpnBgpEvpn)) buf)) mp_buf
      | Inr AT_RouteTargetConstrains \<Rightarrow>
          after_next_hop (parse_ip_next_hop AT_RouteTargetConstrains) (\<lambda>next_hop buf.
            nlri_with MpR_RouteTargetMembershipAddressError (MpReach_RouteTargetMembership next_hop)
              (parse_till_empty (RouteTargetMembershipAddress_from_wire (add_path_for ctx AT_RouteTargetConstrains)) buf)) mp_buf
      | Inr AT_BgpLs \<Rightarrow>
          after_next_hop (parse_ip_next_hop AT_BgpLs) (\<lambda>next_hop buf.
            nlri_with MpR_BgpLsNlriParsingError (MpReach_BgpLs next_hop)
              (map_err (\<lambda>_. ()) (parse_till_empty (BgpLsNlri_from_wire (add_path_for ctx AT_BgpLs)) buf))) mp_buf
      | Inr AT_BgpLsVpn \<Rightarrow>
          after_next_hop (parse_labeled_next_hop AT_BgpLsVpn) (\<lambda>next_hop buf.
            nlri_with MpR_BgpLsNlriParsingError (MpReach_BgpLsVpn next_hop)
              (map_err (\<lambda>_. ()) (parse_till_empty (BgpLsVpnNlri_from_wire (add_path_for ctx AT_BgpLsVpn)) buf))) mp_buf
      | _ \<Rightarrow> Inr (MpReach_Unknown afi safi mp_buf))"

definition MpReach_from_wire :: "codec_env \<Rightarrow> BgpParsingContext \<Rightarrow> bool \<Rightarrow> (MpReachParsingError, MpReach) parser" where
  "MpReach_from_wire env ctx ext =
     map_res (attribute_data MpR_NomError ext) (\<lambda>mp_buf.
       case parse_bind (map_res (be_u16 MpR_NomError) (\<lambda>v. map_err (\<lambda>_. MpR_UndefinedAddressFamily) (AddressFamily_try_from v))) (\<lambda>afi.
            parse_bind
              (map_res (be_u8 MpR_NomError) (\<lambda>v. map_err (\<lambda>_. MpR_UndefinedSubsequentAddressFamily) (SubsequentAddressFamily_try_from v)))
              (\<lambda>safi. parse_return (afi, safi))) mp_buf of
         Inl e \<Rightarrow> Inl e
       | Inr ((afi, safi), mp_buf) \<Rightarrow> mp_reach_value env ctx afi safi mp_buf)"

text \<open>
  Unreachable IPv6 unicast networks are read with a path identifier only when the context says so,
  reachable ones always; route target memberships become Ethernet VPN routes.
\<close>

definition mp_unreach_value ::
    "codec_env \<Rightarrow> BgpParsingContext \<Rightarrow> AddressFamily \<Rightarrow> SubsequentAddressFamily \<Rightarrow> bytes \<Rightarrow> MpUnreachParsingError + MpUnreach" where
  "mp_unreach_value env ctx afi safi mp_buf =
     (case from_afi_safi afi safi of
        Inr AT_Ipv4Unicast \<Rightarrow>
          nlri_with MpU_Ipv4UnicastAddressError MpUnreach_Ipv4Unicast (parse_till_empty (Ipv4UnicastAddress_from_wire env True) mp_buf)
      | Inr AT_Ipv4Multicast \<Rightarrow>
          nlri_with MpU_Ipv4MulticastAddressError MpUnreach_Ipv4Multicast (parse_till_empty (Ipv4MulticastAddress_from_wire (add_path_for ctx AT_Ipv4Multicast)) mp_buf)
      | Inr AT_Ipv4NlriMplsLabels \<Rightarrow>
          nlri_with MpU_Ipv4NlriMplsLabelsAddressError MpUnreach_Ipv4NlriMplsLabels
            (parse_till_empty (Ipv4NlriMplsLabelsAddress_from_wire (add_path_for ctx AT_Ipv4NlriMplsLabels) True (labels_for ctx AT_Ipv4NlriMplsLabels)) mp_buf)
      | Inr AT_Ipv4MplsLabeledVpn \<Rightarrow>
          nlri_with MpU_Ipv4MplsVpnUnicastAddressError MpUnreach_Ipv4MplsVpnUnicast
            (parse_till_empty (Ipv4MplsVpnUnicastAddress_from_wire env (add_path_for ctx AT_Ipv4MplsLabeledVpn) True (labels_for ctx AT_Ipv4MplsLabeledVpn)) mp_buf)
      | Inr AT_Ipv6Unicast \<Rightarrow>
          nlri_with MpU_Ipv6UnicastAddressError MpUnreach_Ipv6Unicast
            (parse_till_empty (Ipv6UnicastAddress_from_wire (add_path_for ctx AT_Ipv6Unicast)) mp_buf)
      | Inr AT_Ipv6Multicast \<Rightarrow>
          nlri_with MpU_Ipv6MulticastAddressError MpUnreach_Ipv6Multicast (parse_till_empty (Ipv6MulticastAddress_from_wire env (add_path_for ctx AT_Ipv6Multicast)) mp_buf)
      | Inr AT_Ipv6NlriMplsLabels \<Rightarrow>
          nlri_with MpU_Ipv6NlriMplsLabelsAddressError MpUnreach_Ipv6NlriMplsLabels
            (parse_till_empty (Ipv6NlriMplsLabelsAddress_from_wire (add_path_for ctx AT_Ipv6NlriMplsLabels) True (labels_for ctx AT_Ipv6NlriMplsLabels)) mp_buf)
      | Inr AT_Ipv6MplsLabeledVpn \<Rightarrow>
          nlri_with MpU_Ipv6MplsVpnUnicastAddressError MpUnreach_Ipv6MplsVpnUnicast
            (parse_till_empty (Ipv6MplsVpnUnicastAddress_from_wire (add_path_for ctx AT_Ipv6MplsLabeledVpn) True (labels_for ctx AT_Ipv6MplsLabeledVpn)) mp_buf)
      | Inr AT_L2VpnBgpEvpn \<Rightarrow>
          nlri_with MpU_L2EvpnAddressError MpUnreach_L2Evpn (parse_till_empty (L2EvpnAddress_from_wire (add_path_for ctx AT_L2VpnBgpEvpn)) mp_buf)
      | Inr AT_RouteTargetConstrains \<Rightarrow>
          nlri_with MpU_L2EvpnAddressError MpUnreach_L2Evpn
            (parse_till_empty (L2EvpnAddress_from_wire (add_path_for ctx AT_RouteTargetConstrains)) mp_buf)
      | Inr AT_BgpLs \<Rightarrow> nlri_with MpU_BgpLsError MpUnreach_BgpLs
          (map_err (\<lambda>_. ()) (parse_till_empty (BgpLsNlri_from_wire (add_path_for ctx AT_BgpLs)) mp_buf))
      | Inr AT_BgpLsVpn \<Rightarrow> nlri_with MpU_BgpLsError MpUnreach_BgpLsVpn
          (map_err (\<lambda>_. ()) (parse_till_empty (BgpLsVpnNlri_from_wire (add_path_for ctx AT_BgpLsVpn)) mp_buf))
      | _ \<Rightarrow> Inr (MpUnreach_Unknown afi safi mp_buf))"

definition MpUnreach_from_wire :: "codec_env \<Rightarrow> BgpParsingContext \<Rightarrow> bool \<Rightarrow> (MpUnreachParsingError, MpUnreach) parser" where
  "MpUnreach_from_wire env ctx ext =
     map_res (attribute_data MpU_NomError ext) (\<lambda>mp_buf.
       case parse_bind (map_res (be_u16 MpU_NomError) (\<lambda>v. map_err (\<lambda>_. MpU_UndefinedAddressFamily) (AddressFamily_try_from v))) (\<lambda>afi.
            parse_bind
              (map_res (be_u8 MpU_NomError) (\<lambda>v. map_err (\<lambda>_. MpU_UndefinedSubsequentAddressFamily) (SubsequentAddressFamily_try_from v)))
              (\<lambda>safi. parse_return (afi, safi))) mp_buf of
         Inl e \<Rightarrow> Inl e
       | Inr ((afi, safi), mp_buf) \<Rightarrow> mp_unreach_value env ctx afi safi mp_buf)"

section \<open>The reader of an attribute\<close>

definition value_with ::
    "('e \<Rightarrow> PathAttributeParsingError) \<Rightarrow> ('a \<Rightarrow> PathAttributeValue) \<Rightarrow> ('e, 'a) parser \<Rightarrow>
     (PathAttributeParsingError, PathAttributeValue) parser" where
  "value_with err mk p = parse_bind (parse_into err p) (\<lambda>a. parse_return (mk a))"

text \<open>The arms of the match on the type; \<open>None\<close> stands for the arms that read an unknown attribute.\<close>

definition attribute_value ::
    "codec_env \<Rightarrow> BgpParsingContext \<Rightarrow> bool \<Rightarrow> PathAttributeType \<Rightarrow> (PathAttributeParsingError, PathAttributeValue) parser option" where
  "attribute_value env ctx ext t =
     (case t of
        PAT_Origin \<Rightarrow> Some (value_with (\<lambda>_. PAE_OriginError) PA_Origin (Origin_from_wire ext))
      | PAT_AsPath \<Rightarrow> Some (value_with (\<lambda>_. PAE_AsPathError) PA_AsPath (AsPath_from_wire ext (ctx_asn4 ctx)))
      | PAT_As4Path \<Rightarrow> Some (value_with (\<lambda>_. PAE_AsPathError) PA_As4Path (As4Path_from_wire ext))
      | PAT_NextHop \<Rightarrow> Some (value_with (\<lambda>_. PAE_NextHopError) PA_NextHop (four_octets ext))
      | PAT_MultiExitDiscriminator \<Rightarrow>
          Some (value_with (\<lambda>_. PAE_MultiExitDiscriminatorError) PA_MultiExitDiscriminator (four_octets ext))
      | PAT_LocalPreference \<Rightarrow> Some (value_with (\<lambda>_. PAE_LocalPreferenceError) PA_LocalPreference (four_octets ext))
      | PAT_AtomicAggregate \<Rightarrow>
          Some (value_with (\<lambda>_. PAE_AtomicAggregateError) (\<lambda>_. PA_AtomicAggregate) (AtomicAggregate_from_wire ext))
      | PAT_Aggregator \<Rightarrow> Some (value_with (\<lambda>_. PAE_AggregatorError) PA_Aggregator (Aggregator_from_wire ext (ctx_asn4 ctx)))
      | PAT_Communities \<Rightarrow> Some (value_with (\<lambda>_. PAE_CommunitiesError) PA_Communities (Communities_from_wire ext))
      | PAT_ExtendedCommunities \<Rightarrow>
          Some (value_with (\<lambda>_. PAE_ExtendedCommunitiesError) PA_ExtendedCommunities (ExtendedCommunities_from_wire ext))
      | PAT_ExtendedCommunitiesIpv6 \<Rightarrow>
          Some (value_with (\<lambda>_. PAE_ExtendedCommunitiesErrorIpv6) PA_ExtendedCommunitiesIpv6
            (ExtendedCommunitiesIpv6_from_wire ext))
      | PAT_LargeCommunities \<Rightarrow>
          Some (value_with (\<lambda>_. PAE_LargeCommunitiesError) PA_LargeCommunities (LargeCommunities_from_wire ext))
      | PAT_OriginatorId \<Rightarrow> Some (value_with (\<lambda>_. PAE_OriginatorError) PA_Originator (first_u32 ext))
      | PAT_ClusterList \<Rightarrow> Some (value_with (\<lambda>_. PAE_ClusterListError) PA_ClusterList (ClusterList_from_wire ext))
      | PAT_MpReachNlri \<Rightarrow> Some (value_with PAE_MpReachErrorError PA_MpReach (MpReach_from_wire env ctx ext))
      | PAT_MpUnreachNlri \<Rightarrow> Some (value_with PAE_MpUnreachErrorError PA_MpUnreach (MpUnreach_from_wire env ctx ext))
      | PAT_OnlyToCustomer \<Rightarrow> Some (value_with (\<lambda>_. PAE_OnlyToCustomerError) PA_OnlyToCustomer (first_u32 ext))
      | PAT_AccumulatedIgp \<Rightarrow> Some (value_with (\<lambda>_. PAE_AigpError) PA_Aigp (Aigp_from_wire ext))
      | PAT_BgpLsAttribute \<Rightarrow> Some (value_with (\<lambda>_. PAE_BgpLsError) PA_BgpLs (BgpLsAttribute_from_wire ext))
      | PAT_BgpPrefixSid \<Rightarrow>
          Some (value_with (\<lambda>_. PAE_SegmentIdentifierParsingError) PA_PrefixSegmentIdentifier (PrefixSegmentIdentifier_from_wire ext))
      | _ \<Rightarrow> None)"

definition flag_set :: "u8 \<Rightarrow> u8 \<Rightarrow> bool" where
  "flag_set attributes m \<longleftrightarrow> attributes AND m = m"

definition unknown_value :: "bool \<Rightarrow> (PathAttributeParsingError, PathAttributeValue) parser" where
  "unknown_value ext = value_with (\<lambda>_. PAE_UnknownAttributeError) (\<lambda>(code, val). PA_UnknownAttribute code val) (UnknownAttribute_from_wire ext)"

text \<open>An unknown attribute is read from its code on, the others from behind it.\<close>

definition typed_value ::
    "codec_env \<Rightarrow> BgpParsingContext \<Rightarrow> bool \<Rightarrow> (PathAttributeParsingError, PathAttributeValue) parser" where
  "typed_value env ctx ext buf_before_code =
     (case be_u8 PAE_NomError buf_before_code of
        Inl e \<Rightarrow> Inl e
      | Inr (code, buf) \<Rightarrow>
          (case PathAttributeType_try_from code of
             Inl _ \<Rightarrow> unknown_value ext buf_before_code
           | Inr t \<Rightarrow>
               (case attribute_value env ctx ext t of
                  Some p \<Rightarrow> p buf
                | None \<Rightarrow> unknown_value ext buf_before_code)))"

definition PathAttribute_from_wire :: "codec_env \<Rightarrow> BgpParsingContext \<Rightarrow> (PathAttributeParsingError, PathAttribute) parser" where
  "PathAttribute_from_wire env ctx =
     parse_bind (be_u8 PAE_NomError) (\<lambda>attributes.
     map_res (typed_value env ctx (flag_set attributes 0x10)) (\<lambda>val.
       map_err (\<lambda>(val, err). PAE_InvalidPathAttribute err val)
         (PathAttribute_from (flag_set attributes 0x80) (flag_set attributes 0x40) (flag_set attributes 0x20)
            (flag_set attributes 0x10) val)))"

end
