(* ===== verification/Wire_Attribute_Writers.thy ===== *)
theory Wire_Attribute_Writers
  imports Wire_Attributes
begin

text \<open>
  Writing of path attributes (\<open>path_attribute.rs\<close> under
  \<open>src/netgauze/bgp-pkt/src/wire/serializer/path_attribute\<close>). The lengths are those that \<open>len()\<close>
  computes and not those of what is written: that they agree is proved in \<open>Wire_Update\<close>.
\<close>

section \<open>Lengths\<close>

definition As2PathSegment_len :: "As2PathSegment \<Rightarrow> nat" where
  "As2PathSegment_len s = 2 + length (as2_as_numbers s) * 2"

definition As4PathSegment_len :: "As4PathSegment \<Rightarrow> nat" where
  "As4PathSegment_len s = 2 + length (as4_as_numbers s) * 4"

fun AsPath_segments_len :: "AsPathValue \<Rightarrow> nat" where
  "AsPath_segments_len (As2PathSegments segments) = sum_list (map As2PathSegment_len segments)"
| "AsPath_segments_len (As4PathSegments segments) = sum_list (map As4PathSegment_len segments)"

fun ip_next_hop_len :: "IpAddr \<Rightarrow> nat" where
  "ip_next_hop_len (IpV4 _) = 4"
| "ip_next_hop_len (IpV6 _) = 16"

definition local_len :: "ipv6addr option \<Rightarrow> nat" where
  "local_len local = (case local of Some _ \<Rightarrow> 16 | None \<Rightarrow> 0)"

definition nlris_len :: "('n \<Rightarrow> nat) \<Rightarrow> 'n list \<Rightarrow> nat" where
  "nlris_len f nlri = sum_list (map f nlri)"

fun MpReach_payload_len :: "codec_env \<Rightarrow> MpReach \<Rightarrow> nat" where
  "MpReach_payload_len env (MpReach_Ipv4Unicast h l nlri) = 1 + ip_next_hop_len h + local_len l + nlris_len Ipv4UnicastAddress_len nlri"
| "MpReach_payload_len env (MpReach_Ipv4Multicast h l nlri) = ip_next_hop_len h + local_len l + 1 + nlris_len Ipv4MulticastAddress_len nlri"
| "MpReach_payload_len env (MpReach_Ipv4NlriMplsLabels h l nlri) = 1 + ip_next_hop_len h + local_len l + nlris_len Ipv4NlriMplsLabelsAddress_len nlri"
| "MpReach_payload_len env (MpReach_Ipv4MplsVpnUnicast h nlri) = LabeledNextHop_len h + nlris_len Ipv4MplsVpnUnicastAddress_len nlri"
| "MpReach_payload_len env (MpReach_Ipv6Unicast g l nlri) = 16 + 1 + local_len l + nlris_len Ipv6UnicastAddress_len nlri"
| "MpReach_payload_len env (MpReach_Ipv6Multicast g l nlri) = 16 + 1 + local_len l + nlris_len Ipv6MulticastAddress_len nlri"
| "MpReach_payload_len env (MpReach_Ipv6NlriMplsLabels h l nlri) = 1 + ip_next_hop_len h + local_len l + nlris_len Ipv6NlriMplsLabelsAddress_len nlri"
| "MpReach_payload_len env (MpReach_Ipv6MplsVpnUnicast h nlri) = LabeledNextHop_len h + nlris_len Ipv6MplsVpnUnicastAddress_len nlri"
| "MpReach_payload_len env (MpReach_L2Evpn h nlri) = ip_next_hop_len h + 1 + nlris_len L2EvpnAddress_len nlri"
| "MpReach_payload_len env (MpReach_RouteTargetMembership h nlri) = ip_next_hop_len h + 1 + nlris_len RouteTargetMembershipAddress_len nlri"
| "MpReach_payload_len env (MpReach_BgpLs h nlri) = ip_next_hop_len h + 1 + nlris_len BgpLsNlri_len nlri"
| "MpReach_payload_len env (MpReach_BgpLsVpn h nlri) = LabeledNextHop_len h + nlris_len BgpLsVpnNlri_len nlri"
| "MpReach_payload_len env (MpReach_Unknown _ _ val) = length val"

fun MpUnreach_payload_len :: "codec_env \<Rightarrow> MpUnreach \<Rightarrow> nat" where
  "MpUnreach_payload_len env (MpUnreach_Ipv4Unicast nlri) = nlris_len Ipv4UnicastAddress_len nlri"
| "MpUnreach_payload_len env (MpUnreach_Ipv4Multicast nlri) = nlris_len Ipv4MulticastAddress_len nlri"
| "MpUnreach_payload_len env (MpUnreach_Ipv4NlriMplsLabels nlri) = nlris_len Ipv4NlriMplsLabelsAddress_len nlri"
| "MpUnreach_payload_len env (MpUnreach_Ipv4MplsVpnUnicast nlri) = nlris_len Ipv4MplsVpnUnicastAddress_len nlri"
| "MpUnreach_payload_len env (MpUnreach_Ipv6Unicast nlri) = nlris_len Ipv6UnicastAddress_len nlri"
| "MpUnreach_payload_len env (MpUnreach_Ipv6Multicast nlri) = nlris_len Ipv6MulticastAddress_len nlri"
| "MpUnreach_payload_len env (MpUnreach_Ipv6NlriMplsLabels nlri) = nlris_len Ipv6NlriMplsLabelsAddress_len nlri"
| "MpUnreach_payload_len env (MpUnreach_Ipv6MplsVpnUnicast nlri) = nlris_len Ipv6MplsVpnUnicastAddress_len nlri"
| "MpUnreach_payload_len env (MpUnreach_L2Evpn nlri) = nlris_len L2EvpnAddress_len nlri"
| "MpUnreach_payload_len env (MpUnreach_RouteTargetMembership nlri) = nlris_len RouteTargetMembershipAddress_len nlri"
| "MpUnreach_payload_len env (MpUnreach_BgpLs nlri) = nlris_len BgpLsNlri_len nlri"
| "MpUnreach_payload_len env (MpUnreach_BgpLsVpn nlri) = nlris_len BgpLsVpnNlri_len nlri"
| "MpUnreach_payload_len env (MpUnreach_Unknown _ _ nlri) = length nlri"

fun AggregatorValue_len :: "AggregatorValue \<Rightarrow> nat" where
  "AggregatorValue_len (As2Aggregator _ _) = 7"
| "AggregatorValue_len (As4Aggregator _ _) = 9"

text \<open>
  \<open>value.len(extended_length)\<close>, with the octet of the length and without the second one that an
  extended length adds.
\<close>

fun value_base_len :: "codec_env \<Rightarrow> PathAttributeValue \<Rightarrow> nat" where
  "value_base_len env (PA_Origin _) = 2"
| "value_base_len env (PA_AsPath path) = 1 + AsPath_segments_len path"
| "value_base_len env (PA_As4Path segments) = 1 + sum_list (map As4PathSegment_len segments)"
| "value_base_len env (PA_NextHop _) = 5"
| "value_base_len env (PA_MultiExitDiscriminator _) = 5"
| "value_base_len env (PA_LocalPreference _) = 5"
| "value_base_len env PA_AtomicAggregate = 1"
| "value_base_len env (PA_Aggregator agg) = AggregatorValue_len agg"
| "value_base_len env (PA_Communities communities) = 1 + 4 * length communities"
| "value_base_len env (PA_ExtendedCommunities communities) = 1 + sum_list (map ExtendedCommunity_len communities)"
| "value_base_len env (PA_ExtendedCommunitiesIpv6 communities) = 1 + sum_list (map ExtendedCommunityIpv6_len communities)"
| "value_base_len env (PA_LargeCommunities communities) = 1 + 12 * length communities"
| "value_base_len env (PA_Originator _) = 5"
| "value_base_len env (PA_ClusterList ids) = 4 * length ids + 1"
| "value_base_len env (PA_MpReach m) = 5 + MpReach_payload_len env m"
| "value_base_len env (PA_MpUnreach m) = 4 + MpUnreach_payload_len env m"
| "value_base_len env (PA_BgpLs a) = 1 + BgpLsAttribute_tlvs_len a"
| "value_base_len env (PA_OnlyToCustomer _) = 5"
| "value_base_len env (PA_Aigp _) = 4 + 8"
| "value_base_len env (PA_PrefixSegmentIdentifier psi) = 1 + PrefixSegmentIdentifier_tlvs_len psi"
| "value_base_len env (PA_UnknownAttribute _ val) = 2 + length val - 1"

definition value_len :: "codec_env \<Rightarrow> bool \<Rightarrow> PathAttributeValue \<Rightarrow> nat" where
  "value_len env ext v = value_base_len env v + (if ext then 1 else 0)"

definition PathAttribute_len :: "codec_env \<Rightarrow> PathAttribute \<Rightarrow> nat" where
  "PathAttribute_len env attr = 2 + value_len env (pa_extended_length attr) (pa_value attr)"

section \<open>Writers\<close>

text \<open>
  The writers of networks with labels fail if the labels and the prefix have more than 255 bits, and the
  writer of a link-state attribute fails on the name of a node with more than 255 octets; no other writer of a
  network or an attribute fails.
\<close>

fun MpReach_writable :: "codec_env \<Rightarrow> MpReach \<Rightarrow> bool" where
  "MpReach_writable env (MpReach_Ipv4NlriMplsLabels _ _ nlri) = list_all (\<lambda>a. \<not> isl (Ipv4NlriMplsLabelsAddress_write env a)) nlri"
| "MpReach_writable env (MpReach_Ipv6NlriMplsLabels _ _ nlri) = list_all (\<lambda>a. \<not> isl (Ipv6NlriMplsLabelsAddress_write env a)) nlri"
| "MpReach_writable env _ = True"

fun MpUnreach_writable :: "codec_env \<Rightarrow> MpUnreach \<Rightarrow> bool" where
  "MpUnreach_writable env (MpUnreach_Ipv4NlriMplsLabels nlri) = list_all (\<lambda>a. \<not> isl (Ipv4NlriMplsLabelsAddress_write env a)) nlri"
| "MpUnreach_writable env (MpUnreach_Ipv6NlriMplsLabels nlri) = list_all (\<lambda>a. \<not> isl (Ipv6NlriMplsLabelsAddress_write env a)) nlri"
| "MpUnreach_writable env _ = True"

fun value_writable :: "codec_env \<Rightarrow> PathAttributeValue \<Rightarrow> bool" where
  "value_writable env (PA_MpReach m) = MpReach_writable env m"
| "value_writable env (PA_MpUnreach m) = MpUnreach_writable env m"
| "value_writable env (PA_BgpLs a) = list_all (\<lambda>v. \<not> isl (BgpLsAttributeValue_write v)) (lsa_attributes a)"
| "value_writable env _ = True"

definition write_length :: "nat \<Rightarrow> bool \<Rightarrow> bytes" where
  "write_length attribute_len ext =
     (let l = attribute_len - 1
      in if ext \<or> l > 255 then to_be_bytes (of_nat (l - 1) :: u16) else [of_nat l])"

definition As2PathSegment_write :: "As2PathSegment \<Rightarrow> bytes" where
  "As2PathSegment_write s =
     [AsPathSegmentType_into_u8 (as2_segment_type s), of_nat (length (as2_as_numbers s))] @ concat (map to_be_bytes (as2_as_numbers s))"

definition As4PathSegment_write :: "As4PathSegment \<Rightarrow> bytes" where
  "As4PathSegment_write s =
     [AsPathSegmentType_into_u8 (as4_segment_type s), of_nat (length (as4_as_numbers s))] @ concat (map to_be_bytes (as4_as_numbers s))"

fun AsPath_segments_write :: "AsPathValue \<Rightarrow> bytes" where
  "AsPath_segments_write (As2PathSegments segments) = concat (map As2PathSegment_write segments)"
| "AsPath_segments_write (As4PathSegments segments) = concat (map As4PathSegment_write segments)"

fun AggregatorValue_body :: "AggregatorValue \<Rightarrow> bytes" where
  "AggregatorValue_body (As2Aggregator asn origin) = to_be_bytes asn @ to_be_bytes origin"
| "AggregatorValue_body (As4Aggregator asn origin) = to_be_bytes asn @ to_be_bytes origin"

definition LargeCommunity_write :: "u32 \<times> u32 \<times> u32 \<Rightarrow> bytes" where
  "LargeCommunity_write = (\<lambda>(g, l1, l2). to_be_bytes g @ to_be_bytes l1 @ to_be_bytes l2)"

definition family_write :: "AddressFamily \<Rightarrow> SubsequentAddressFamily \<Rightarrow> bytes" where
  "family_write afi safi = to_be_bytes (AddressFamily_into_u16 afi) @ [SubsequentAddressFamily_into_u8 safi]"

definition family_of :: "AddressType \<Rightarrow> bytes" where
  "family_of t = family_write (address_family t) (subsequent_address_family t)"

definition local_octets :: "ipv6addr option \<Rightarrow> bytes" where
  "local_octets local = (case local of Some addr \<Rightarrow> to_be_bytes addr | None \<Rightarrow> [])"

definition ip_next_hop_write :: "IpAddr \<Rightarrow> ipv6addr option \<Rightarrow> bytes" where
  "ip_next_hop_write h l = [of_nat (ip_next_hop_len h + local_len l)] @ IpAddr_octets h @ local_octets l"

definition ipv6_next_hop_write :: "ipv6addr \<Rightarrow> ipv6addr option \<Rightarrow> bytes" where
  "ipv6_next_hop_write g l =
     (case l of Some local \<Rightarrow> [32] @ to_be_bytes g @ to_be_bytes local | None \<Rightarrow> [16] @ to_be_bytes g)"

text \<open>The networks behind the next hop and the reserved octet.\<close>

definition reach :: "AddressType \<Rightarrow> bytes \<Rightarrow> ('n \<Rightarrow> bytes) \<Rightarrow> 'n list \<Rightarrow> bytes" where
  "reach t next_hop f nlri = family_of t @ next_hop @ [0] @ concat (map f nlri)"

definition unreach :: "AddressType \<Rightarrow> ('n \<Rightarrow> bytes) \<Rightarrow> 'n list \<Rightarrow> bytes" where
  "unreach t f nlri = family_of t @ concat (map f nlri)"

fun MpReach_body :: "codec_env \<Rightarrow> MpReach \<Rightarrow> bytes" where
  "MpReach_body env (MpReach_Ipv4Unicast h l nlri) = reach AT_Ipv4Unicast (ip_next_hop_write h l) (Ipv4UnicastAddress_write env) nlri"
| "MpReach_body env (MpReach_Ipv4Multicast h l nlri) = reach AT_Ipv4Multicast (ip_next_hop_write h l) (Ipv4MulticastAddress_write env) nlri"
| "MpReach_body env (MpReach_Ipv4NlriMplsLabels h l nlri) = reach AT_Ipv4NlriMplsLabels (ip_next_hop_write h l) (Ipv4NlriMplsLabelsAddress_octets env) nlri"
| "MpReach_body env (MpReach_Ipv4MplsVpnUnicast h nlri) = reach AT_Ipv4MplsLabeledVpn (LabeledNextHop_write h) (Ipv4MplsVpnUnicastAddress_write env) nlri"
| "MpReach_body env (MpReach_Ipv6Unicast g l nlri) = reach AT_Ipv6Unicast (ipv6_next_hop_write g l) (Ipv6UnicastAddress_write env) nlri"
| "MpReach_body env (MpReach_Ipv6Multicast g l nlri) = reach AT_Ipv6Multicast (ipv6_next_hop_write g l) (Ipv6MulticastAddress_write env) nlri"
| "MpReach_body env (MpReach_Ipv6NlriMplsLabels h l nlri) = reach AT_Ipv6NlriMplsLabels (ip_next_hop_write h l) (Ipv6NlriMplsLabelsAddress_octets env) nlri"
| "MpReach_body env (MpReach_Ipv6MplsVpnUnicast h nlri) = reach AT_Ipv6MplsLabeledVpn (LabeledNextHop_write h) (Ipv6MplsVpnUnicastAddress_write env) nlri"
| "MpReach_body env (MpReach_L2Evpn h nlri) = reach AT_L2VpnBgpEvpn (IpAddr_write h) (L2EvpnAddress_write env) nlri"
| "MpReach_body env (MpReach_RouteTargetMembership h nlri) = reach AT_RouteTargetConstrains (IpAddr_write h) RouteTargetMembershipAddress_write nlri"
| "MpReach_body env (MpReach_BgpLs h nlri) = reach AT_BgpLs (IpAddr_write h) (BgpLsNlri_write env) nlri"
| "MpReach_body env (MpReach_BgpLsVpn h nlri) =
     reach AT_BgpLsVpn ([of_nat (LabeledNextHop_len h - 1)] @ replicate 8 0 @ IpAddr_octets (labeled_next_hop h)) (BgpLsVpnNlri_write env) nlri"
| "MpReach_body env (MpReach_Unknown afi safi val) = family_write afi safi @ val"

fun MpUnreach_body :: "codec_env \<Rightarrow> MpUnreach \<Rightarrow> bytes" where
  "MpUnreach_body env (MpUnreach_Ipv4Unicast nlri) = unreach AT_Ipv4Unicast (Ipv4UnicastAddress_write env) nlri"
| "MpUnreach_body env (MpUnreach_Ipv4Multicast nlri) = unreach AT_Ipv4Multicast (Ipv4MulticastAddress_write env) nlri"
| "MpUnreach_body env (MpUnreach_Ipv4NlriMplsLabels nlri) = unreach AT_Ipv4NlriMplsLabels (Ipv4NlriMplsLabelsAddress_octets env) nlri"
| "MpUnreach_body env (MpUnreach_Ipv4MplsVpnUnicast nlri) = unreach AT_Ipv4MplsLabeledVpn (Ipv4MplsVpnUnicastAddress_write env) nlri"
| "MpUnreach_body env (MpUnreach_Ipv6Unicast nlri) = unreach AT_Ipv6Unicast (Ipv6UnicastAddress_write env) nlri"
| "MpUnreach_body env (MpUnreach_Ipv6Multicast nlri) = unreach AT_Ipv6Multicast (Ipv6MulticastAddress_write env) nlri"
| "MpUnreach_body env (MpUnreach_Ipv6NlriMplsLabels nlri) = unreach AT_Ipv6NlriMplsLabels (Ipv6NlriMplsLabelsAddress_octets env) nlri"
| "MpUnreach_body env (MpUnreach_Ipv6MplsVpnUnicast nlri) = unreach AT_Ipv6MplsLabeledVpn (Ipv6MplsVpnUnicastAddress_write env) nlri"
| "MpUnreach_body env (MpUnreach_L2Evpn nlri) = unreach AT_L2VpnBgpEvpn (L2EvpnAddress_write env) nlri"
| "MpUnreach_body env (MpUnreach_RouteTargetMembership nlri) = unreach AT_RouteTargetConstrains RouteTargetMembershipAddress_write nlri"
| "MpUnreach_body env (MpUnreach_BgpLs nlri) = unreach AT_BgpLs (BgpLsNlri_write env) nlri"
| "MpUnreach_body env (MpUnreach_BgpLsVpn nlri) = unreach AT_BgpLsVpn (BgpLsVpnNlri_write env) nlri"
| "MpUnreach_body env (MpUnreach_Unknown afi safi nlri) = family_write afi safi @ nlri"

text \<open>What follows the length of the attribute.\<close>

fun value_body :: "codec_env \<Rightarrow> PathAttributeValue \<Rightarrow> bytes" where
  "value_body env (PA_Origin origin) = [OriginValue_into_u8 origin]"
| "value_body env (PA_AsPath path) = AsPath_segments_write path"
| "value_body env (PA_As4Path segments) = concat (map As4PathSegment_write segments)"
| "value_body env (PA_NextHop addr) = to_be_bytes addr"
| "value_body env (PA_MultiExitDiscriminator metric) = to_be_bytes metric"
| "value_body env (PA_LocalPreference metric) = to_be_bytes metric"
| "value_body env PA_AtomicAggregate = []"
| "value_body env (PA_Aggregator agg) = AggregatorValue_body agg"
| "value_body env (PA_Communities communities) = concat (map to_be_bytes communities)"
| "value_body env (PA_ExtendedCommunities communities) = concat (map ExtendedCommunity_write communities)"
| "value_body env (PA_ExtendedCommunitiesIpv6 communities) = concat (map ExtendedCommunityIpv6_write communities)"
| "value_body env (PA_LargeCommunities communities) = concat (map LargeCommunity_write communities)"
| "value_body env (PA_Originator addr) = to_be_bytes addr"
| "value_body env (PA_ClusterList ids) = concat (map to_be_bytes ids)"
| "value_body env (PA_MpReach m) = MpReach_body env m"
| "value_body env (PA_MpUnreach m) = MpUnreach_body env m"
| "value_body env (PA_BgpLs a) = concat (map BgpLsAttributeValue_octets (lsa_attributes a))"
| "value_body env (PA_OnlyToCustomer asn) = to_be_bytes asn"
| "value_body env (PA_Aigp metric) = [1] @ to_be_bytes (11 :: u16) @ to_be_bytes metric"
| "value_body env (PA_PrefixSegmentIdentifier psi) = concat (map BgpSidAttribute_write (psi_tlvs psi))"
| "value_body env (PA_UnknownAttribute code val) = val"

definition UnknownAttribute_write :: "bool \<Rightarrow> u8 \<Rightarrow> bytes \<Rightarrow> bytes" where
  "UnknownAttribute_write ext code val =
     (let l = (2 + length val + (if ext then 1 else 0)) - 2
      in [code] @ (if ext \<or> l > 255 then to_be_bytes (of_nat (l - 1) :: u16) else [of_nat l]) @ val)"

definition value_write :: "codec_env \<Rightarrow> bool \<Rightarrow> PathAttributeValue \<Rightarrow> bytes" where
  "value_write env ext v =
     (case v of
        PA_UnknownAttribute code val \<Rightarrow> UnknownAttribute_write ext code val
      | _ \<Rightarrow> write_length (value_len env ext v) ext @ value_body env v)"

definition attribute_flags :: "PathAttribute \<Rightarrow> u8" where
  "attribute_flags attr =
     (if pa_optional attr then 0x80 else 0) OR (if pa_transitive attr then 0x40 else 0) OR
     (if pa_partial attr then 0x20 else 0) OR (if pa_extended_length attr then 0x10 else 0)"

definition PathAttribute_write :: "codec_env \<Rightarrow> PathAttribute \<Rightarrow> bytes" where
  "PathAttribute_write env attr =
     [attribute_flags attr] @
     (case path_attribute_type (pa_value attr) of Inr t \<Rightarrow> [PathAttributeType_code t] | Inl _ \<Rightarrow> []) @
     value_write env (pa_extended_length attr) (pa_value attr)"

end
