(* ===== verification/Wire_Community_Laws.thy ===== *)
theory Wire_Community_Laws
  imports Wire_Communities
begin

text \<open>
  Extended communities on the wire: what is written is read back, except for the values that the
  readers and writers confuse, and every community has eight octets (twenty for IPv6). The predicates
  \<open>_ok\<close> say which values survive; the others are the subject of \<open>source_as_becomes_route_target\<close>,
  \<open>evpn_octet_lost\<close> and \<open>transitive_follows_type\<close>.
\<close>

section \<open>Values that survive\<close>

fun TransitiveTwoOctetExtendedCommunity_ok :: "TransitiveTwoOctetExtendedCommunity \<Rightarrow> bool" where
  "TransitiveTwoOctetExtendedCommunity_ok (T2_SourceAs _ _) = False"
| "TransitiveTwoOctetExtendedCommunity_ok (T2_Unassigned sub_type _ _) = (TransitiveTwoOctetExtendedCommunitySubType_try_from sub_type = Inl sub_type)"
| "TransitiveTwoOctetExtendedCommunity_ok _ = True"

fun NonTransitiveTwoOctetExtendedCommunity_ok :: "NonTransitiveTwoOctetExtendedCommunity \<Rightarrow> bool" where
  "NonTransitiveTwoOctetExtendedCommunity_ok (NT2_Unassigned sub_type _ _) = (NonTransitiveTwoOctetExtendedCommunitySubType_try_from sub_type = Inl sub_type)"
| "NonTransitiveTwoOctetExtendedCommunity_ok _ = True"

fun TransitiveIpv4ExtendedCommunity_ok :: "TransitiveIpv4ExtendedCommunity \<Rightarrow> bool" where
  "TransitiveIpv4ExtendedCommunity_ok (TI4_Unassigned sub_type _ _) = (TransitiveIpv4ExtendedCommunitySubType_try_from sub_type = Inl sub_type)"
| "TransitiveIpv4ExtendedCommunity_ok _ = True"

fun TransitiveFourOctetExtendedCommunity_ok :: "TransitiveFourOctetExtendedCommunity \<Rightarrow> bool" where
  "TransitiveFourOctetExtendedCommunity_ok (T4_SourceAs _ _) = False"
| "TransitiveFourOctetExtendedCommunity_ok (T4_Unassigned sub_type _ _) = (TransitiveFourOctetExtendedCommunitySubType_try_from sub_type = Inl sub_type)"
| "TransitiveFourOctetExtendedCommunity_ok _ = True"

fun TransitiveIpv6ExtendedCommunity_ok :: "TransitiveIpv6ExtendedCommunity \<Rightarrow> bool" where
  "TransitiveIpv6ExtendedCommunity_ok (TI6_Unassigned sub_type _ _) = (TransitiveIpv6ExtendedCommunitySubType_try_from sub_type = Inl sub_type)"
| "TransitiveIpv6ExtendedCommunity_ok _ = True"

fun TransitiveOpaqueExtendedCommunity_ok :: "TransitiveOpaqueExtendedCommunity \<Rightarrow> bool" where
  "TransitiveOpaqueExtendedCommunity_ok TO_DefaultGateway = True"
| "TransitiveOpaqueExtendedCommunity_ok (TO_Unassigned sub_type val) =
     (TransitiveOpaqueExtendedCommunitySubType_try_from sub_type = Inl sub_type \<and> length val = 6)"

fun NonTransitiveOpaqueExtendedCommunity_ok :: "NonTransitiveOpaqueExtendedCommunity \<Rightarrow> bool" where
  "NonTransitiveOpaqueExtendedCommunity_ok (NTO_Unassigned _ val) = (length val = 6)"

definition evpn_handled :: "u8 \<Rightarrow> bool" where
  "evpn_handled sub_type \<longleftrightarrow>
     EvpnExtendedCommunitySubType_try_from sub_type
       \<in> Inr ` {EVS_MacMobility, EVS_EsiLabel, EVS_EsImportRouteTarget, EVS_EvpnRoutersMac, EVS_EvpnL2Attribute}"

fun EvpnExtendedCommunity_ok :: "EvpnExtendedCommunity \<Rightarrow> bool" where
  "EvpnExtendedCommunity_ok (EV_MacMobility _ _) = True"
| "EvpnExtendedCommunity_ok (EV_EsiLabel _ esi_label) = (length esi_label = 3)"
| "EvpnExtendedCommunity_ok (EV_EsImportRouteTarget route_target) = (length route_target = 6 \<and> route_target ! 3 = route_target ! 2)"
| "EvpnExtendedCommunity_ok (EV_EvpnRoutersMac mac) = (length mac = 6)"
| "EvpnExtendedCommunity_ok (EV_EvpnL2Attribute _ _) = True"
| "EvpnExtendedCommunity_ok (EV_Unassigned sub_type val) = (\<not> evpn_handled sub_type \<and> length val = 6 \<and> val ! 3 = val ! 2)"

text \<open>The types whose communities are read as experimental ones, and as unknown ones.\<close>

definition experimental_code :: "u8 \<Rightarrow> bool" where
  "experimental_code code \<longleftrightarrow>
     BgpExtendedCommunityType_try_from code
       \<in> Inr ` {ECT_Experimental83, ECT_Experimental84, ECT_Experimental85, ECT_Experimental86
              , ECT_Experimental87, ECT_Experimental88, ECT_Experimental89, ECT_Experimental8A
              , ECT_Experimental8B, ECT_Experimental8C, ECT_Experimental8D, ECT_Experimental8E
              , ECT_Experimental8F, ECT_ExperimentalC0, ECT_ExperimentalC1, ECT_ExperimentalC2
              , ECT_ExperimentalC3, ECT_ExperimentalC4, ECT_ExperimentalC5, ECT_ExperimentalC6
              , ECT_ExperimentalC7, ECT_ExperimentalC8, ECT_ExperimentalC9, ECT_ExperimentalCa
              , ECT_ExperimentalCb, ECT_ExperimentalCc, ECT_ExperimentalCd, ECT_ExperimentalCe
              , ECT_ExperimentalCf}"

definition unknown_community_code :: "u8 \<Rightarrow> bool" where
  "unknown_community_code code \<longleftrightarrow>
     BgpExtendedCommunityType_try_from code
       \<in> {Inl code} \<union> Inr ` {ECT_TransitiveQosMarking, ECT_NonTransitiveQosMarking, ECT_CosCapability
              , ECT_FlowSpecNextHop, ECT_FlowSpecIndirectionId, ECT_TransitiveTransportClass
              , ECT_NonTransitiveTransportClass, ECT_ServiceFunctionChain, ECT_Srv6MobileUserPlane
              , ECT_GenericPart1, ECT_GenericPart2, ECT_GenericPart3}"

fun ExtendedCommunity_ok :: "ExtendedCommunity \<Rightarrow> bool" where
  "ExtendedCommunity_ok (EC_TransitiveTwoOctet c) = TransitiveTwoOctetExtendedCommunity_ok c"
| "ExtendedCommunity_ok (EC_NonTransitiveTwoOctet c) = NonTransitiveTwoOctetExtendedCommunity_ok c"
| "ExtendedCommunity_ok (EC_TransitiveIpv4 c) = TransitiveIpv4ExtendedCommunity_ok c"
| "ExtendedCommunity_ok (EC_NonTransitiveIpv4 c) = True"
| "ExtendedCommunity_ok (EC_TransitiveFourOctet c) = TransitiveFourOctetExtendedCommunity_ok c"
| "ExtendedCommunity_ok (EC_NonTransitiveFourOctet c) = True"
| "ExtendedCommunity_ok (EC_TransitiveOpaque c) = TransitiveOpaqueExtendedCommunity_ok c"
| "ExtendedCommunity_ok (EC_NonTransitiveOpaque c) = NonTransitiveOpaqueExtendedCommunity_ok c"
| "ExtendedCommunity_ok (EC_Evpn c) = EvpnExtendedCommunity_ok c"
| "ExtendedCommunity_ok (EC_Experimental c) = (experimental_code (uc_code c) \<and> length (uc_value c) = 6)"
| "ExtendedCommunity_ok (EC_Unknown c) = (unknown_community_code (uc_code c) \<and> length (uc_value c) = 6)"

fun ExtendedCommunityIpv6_ok :: "ExtendedCommunityIpv6 \<Rightarrow> bool" where
  "ExtendedCommunityIpv6_ok (EC6_TransitiveIpv6 c) = TransitiveIpv6ExtendedCommunity_ok c"
| "ExtendedCommunityIpv6_ok (EC6_NonTransitiveIpv6 c) = True"
| "ExtendedCommunityIpv6_ok (EC6_Unknown c) =
     (BgpExtendedCommunityIpv6Type_try_from (uc_code c) = Inl (uc_code c) \<and> length (uc_value c) = 18)"

section \<open>Round trips of the kinds\<close>

text \<open>The codes are rewritten as a whole, never computed.\<close>

lemmas community_codes =
  TransitiveTwoOctetExtendedCommunitySubType_into_u8.simps NonTransitiveTwoOctetExtendedCommunitySubType_into_u8.simps
  TransitiveIpv4ExtendedCommunitySubType_into_u8.simps TransitiveFourOctetExtendedCommunitySubType_into_u8.simps
  TransitiveIpv6ExtendedCommunitySubType_into_u8.simps EvpnExtendedCommunitySubType_into_u8.simps
  TransitiveOpaqueExtendedCommunitySubType_into_u8.simps BgpExtendedCommunityType_into_u8.simps
  BgpExtendedCommunityIpv6Type_into_u8.simps

lemma shared_codes:
  "TransitiveTwoOctetExtendedCommunitySubType_into_u8 T2S_RtDerivedEc = TransitiveFourOctetExtendedCommunitySubType_into_u8 T4S_RtDerivedEc"
  "TransitiveIpv4ExtendedCommunitySubType_into_u8 TI4S_VrfRouteImport = TransitiveIpv6ExtendedCommunitySubType_into_u8 TI6S_VrfRouteImport"
  by simp_all

lemmas community_read = parse_bind_def parse_return_def parsed_as_def

interpretation t2: wire_codec TransitiveTwoOctetExtendedCommunity_write TransitiveTwoOctetExtendedCommunity_from_wire TransitiveTwoOctetExtendedCommunity_ok
proof
  show "TransitiveTwoOctetExtendedCommunity_from_wire (TransitiveTwoOctetExtendedCommunity_write c @ rest) = Inr (c, rest)" if "TransitiveTwoOctetExtendedCommunity_ok c" for c rest
    supply community_codes [simp del]
    using that by (cases c) (simp_all add: TransitiveTwoOctetExtendedCommunity_from_wire_def community_read)
qed

interpretation nt2: wire_codec NonTransitiveTwoOctetExtendedCommunity_write NonTransitiveTwoOctetExtendedCommunity_from_wire NonTransitiveTwoOctetExtendedCommunity_ok
proof
  show "NonTransitiveTwoOctetExtendedCommunity_from_wire (NonTransitiveTwoOctetExtendedCommunity_write c @ rest) = Inr (c, rest)" if "NonTransitiveTwoOctetExtendedCommunity_ok c" for c rest
    supply community_codes [simp del]
    using that by (cases c) (simp_all add: NonTransitiveTwoOctetExtendedCommunity_from_wire_def community_read)
qed

interpretation ti4: wire_codec TransitiveIpv4ExtendedCommunity_write TransitiveIpv4ExtendedCommunity_from_wire TransitiveIpv4ExtendedCommunity_ok
proof
  show "TransitiveIpv4ExtendedCommunity_from_wire (TransitiveIpv4ExtendedCommunity_write c @ rest) = Inr (c, rest)" if "TransitiveIpv4ExtendedCommunity_ok c" for c rest
    supply community_codes [simp del]
    using that by (cases c) (simp_all add: TransitiveIpv4ExtendedCommunity_from_wire_def community_read)
qed

interpretation nti4: wire_codec NonTransitiveIpv4ExtendedCommunity_write NonTransitiveIpv4ExtendedCommunity_from_wire "\<lambda>_. True"
proof
  show "NonTransitiveIpv4ExtendedCommunity_from_wire (NonTransitiveIpv4ExtendedCommunity_write c @ rest) = Inr (c, rest)" for c rest
    by (cases c) (simp_all add: NonTransitiveIpv4ExtendedCommunity_from_wire_def community_read)
qed

interpretation t4: wire_codec TransitiveFourOctetExtendedCommunity_write TransitiveFourOctetExtendedCommunity_from_wire TransitiveFourOctetExtendedCommunity_ok
proof
  show "TransitiveFourOctetExtendedCommunity_from_wire (TransitiveFourOctetExtendedCommunity_write c @ rest) = Inr (c, rest)" if "TransitiveFourOctetExtendedCommunity_ok c" for c rest
    supply community_codes [simp del] shared_codes(1) [simp]
    using that by (cases c) (simp_all add: TransitiveFourOctetExtendedCommunity_from_wire_def community_read)
qed

interpretation nt4: wire_codec NonTransitiveFourOctetExtendedCommunity_write NonTransitiveFourOctetExtendedCommunity_from_wire "\<lambda>_. True"
proof
  show "NonTransitiveFourOctetExtendedCommunity_from_wire (NonTransitiveFourOctetExtendedCommunity_write c @ rest) = Inr (c, rest)" for c rest
    by (cases c) (simp_all add: NonTransitiveFourOctetExtendedCommunity_from_wire_def community_read)
qed

interpretation ti6: wire_codec TransitiveIpv6ExtendedCommunity_write TransitiveIpv6ExtendedCommunity_from_wire TransitiveIpv6ExtendedCommunity_ok
proof
  show "TransitiveIpv6ExtendedCommunity_from_wire (TransitiveIpv6ExtendedCommunity_write c @ rest) = Inr (c, rest)" if "TransitiveIpv6ExtendedCommunity_ok c" for c rest
    supply community_codes [simp del] shared_codes(2) [simp]
    using that by (cases c) (simp_all add: TransitiveIpv6ExtendedCommunity_from_wire_def community_read)
qed

interpretation nti6: wire_codec NonTransitiveIpv6ExtendedCommunity_write NonTransitiveIpv6ExtendedCommunity_from_wire "\<lambda>_. True"
proof
  show "NonTransitiveIpv6ExtendedCommunity_from_wire (NonTransitiveIpv6ExtendedCommunity_write c @ rest) = Inr (c, rest)" for c rest
    by (cases c) (simp_all add: NonTransitiveIpv6ExtendedCommunity_from_wire_def community_read)
qed

lemma length_6: "length (v :: bytes) = 6 \<Longrightarrow> \<exists>a b c d e f. v = [a, b, c, d, e, f]"
  by (auto simp: eval_nat_numeral length_Suc_conv)

lemma word_of_octets:
  "be_u16 err ([a, b] @ rest) = Inr (from_be_bytes [a, b], rest)"
  "be_u32 err ([a, b, c, d] @ rest) = Inr (from_be_bytes [a, b, c, d], rest)"
  "be_u16 err (a # b # rest) = Inr (from_be_bytes [a, b], rest)"
  "be_u32 err (a # b # c # d # rest) = Inr (from_be_bytes [a, b, c, d], rest)"
  by (simp_all add: be_word_def Let_def)

lemma octets_of_word:
  "to_be_bytes (from_be_bytes [a, b] :: u16) = [a, b]"
  "to_be_bytes (from_be_bytes [a, b, c, d] :: u32) = [a, b, c, d]"
  by (simp_all add: to_from_be_bytes)

lemma six_octets_of: "six_octets (from_be_bytes [a, b, c, d]) (from_be_bytes [e, f]) = [a, b, c, c, e, f]"
  by (simp add: six_octets_def octets_of_word)

interpretation opaque_community: wire_codec TransitiveOpaqueExtendedCommunity_write TransitiveOpaqueExtendedCommunity_from_wire
    TransitiveOpaqueExtendedCommunity_ok
proof
  show "TransitiveOpaqueExtendedCommunity_from_wire (TransitiveOpaqueExtendedCommunity_write c @ rest) = Inr (c, rest)"
    if ok: "TransitiveOpaqueExtendedCommunity_ok c" for c rest
  proof (cases c)
    case TO_DefaultGateway
    then show ?thesis
      supply community_codes [simp del]
      by (simp add: TransitiveOpaqueExtendedCommunity_from_wire_def community_read)
  next
    case (TO_Unassigned s v)
    then obtain a b c d e f where "v = [a, b, c, d, e, f]" using ok length_6 by fastforce
    then show ?thesis
      using ok TO_Unassigned
      by (simp add: TransitiveOpaqueExtendedCommunity_from_wire_def community_read word_of_octets octets_of_word)
  qed
qed

interpretation non_transitive_opaque: wire_codec NonTransitiveOpaqueExtendedCommunity_write NonTransitiveOpaqueExtendedCommunity_from_wire
    NonTransitiveOpaqueExtendedCommunity_ok
proof
  show "NonTransitiveOpaqueExtendedCommunity_from_wire (NonTransitiveOpaqueExtendedCommunity_write c @ rest) = Inr (c, rest)"
    if "NonTransitiveOpaqueExtendedCommunity_ok c" for c rest
    using that by (cases c) (simp add: NonTransitiveOpaqueExtendedCommunity_from_wire_def community_read)
qed

interpretation evpn_community: wire_codec EvpnExtendedCommunity_write EvpnExtendedCommunity_from_wire EvpnExtendedCommunity_ok
proof
  have unassigned: "EvpnExtendedCommunity_from_wire (s # a # b # c # c # e # f # rest) = Inr (EV_Unassigned s [a, b, c, c, e, f], rest)"
    if "\<not> evpn_handled s" for s a b c e f rest
    using that
    by (auto simp: EvpnExtendedCommunity_from_wire_def community_read evpn_handled_def word_of_octets six_octets_of
        split: sum.splits EvpnExtendedCommunitySubType.splits)
  show "EvpnExtendedCommunity_from_wire (EvpnExtendedCommunity_write c @ rest) = Inr (c, rest)"
    if ok: "EvpnExtendedCommunity_ok c" for c rest
  proof (cases c)
    case (EV_EsiLabel flags l)
    then obtain x y z where "l = [x, y, z]" using ok by (auto simp: eval_nat_numeral length_Suc_conv)
    then show ?thesis
      supply community_codes [simp del]
      using EV_EsiLabel by (simp add: EvpnExtendedCommunity_from_wire_def community_read word_of_octets octets_of_word)
  next
    case (EV_EsImportRouteTarget v)
    then obtain a b c d e f where "v = [a, b, c, d, e, f]" "d = c" using ok length_6 [of v] by fastforce
    then show ?thesis
      supply community_codes [simp del]
      using EV_EsImportRouteTarget by (simp add: EvpnExtendedCommunity_from_wire_def community_read word_of_octets six_octets_of)
  next
    case (EV_Unassigned s v)
    then obtain a b c d e f where "v = [a, b, c, d, e, f]" "d = c" using ok length_6 [of v] by fastforce
    then show ?thesis using ok EV_Unassigned by (simp add: unassigned)
  qed (use ok in \<open>simp_all add: EvpnExtendedCommunity_from_wire_def MacAddress_from_wire_def community_read del: community_codes\<close>)
qed

lemma unknown_read_written:
  "length (uc_value c) = 6 \<Longrightarrow> UnknownExtendedCommunity_from_wire (uc_code c) (UnknownExtendedCommunity_write c @ rest) = Inr (c, rest)"
  "length (uc_value c) = 6 \<Longrightarrow> ExperimentalExtendedCommunity_from_wire (uc_code c) (UnknownExtendedCommunity_write c @ rest) = Inr (c, rest)"
  "length (uc_value c) = 18 \<Longrightarrow> UnknownExtendedCommunityIpv6_from_wire (uc_code c) (UnknownExtendedCommunity_write c @ rest) = Inr (c, rest)"
  by (simp_all add: UnknownExtendedCommunity_from_wire_def ExperimentalExtendedCommunity_from_wire_def
      UnknownExtendedCommunityIpv6_from_wire_def UnknownExtendedCommunity_write_def community_read)

section \<open>Round trips of extended communities\<close>

lemma parsed_as_Inr: "p bs = Inr (a, rest) \<Longrightarrow> parsed_as mk p bs = Inr (mk a, rest)"
  by (simp add: community_read)

lemma grows_not_parsed_as [intro]: "grows_not p \<Longrightarrow> grows_not (parsed_as mk p)"
  by (auto simp: parsed_as_def intro!: grows_not_bind)

lemmas grows_not_be [simp, intro] = shrinks_be [THEN shrinks_grows_not]

lemma grows_not_kinds [simp, intro]:
  "grows_not TransitiveTwoOctetExtendedCommunity_from_wire" "grows_not NonTransitiveTwoOctetExtendedCommunity_from_wire"
  "grows_not TransitiveIpv4ExtendedCommunity_from_wire" "grows_not NonTransitiveIpv4ExtendedCommunity_from_wire"
  "grows_not TransitiveFourOctetExtendedCommunity_from_wire" "grows_not NonTransitiveFourOctetExtendedCommunity_from_wire"
  "grows_not TransitiveIpv6ExtendedCommunity_from_wire" "grows_not NonTransitiveIpv6ExtendedCommunity_from_wire"
  "grows_not TransitiveOpaqueExtendedCommunity_from_wire" "grows_not NonTransitiveOpaqueExtendedCommunity_from_wire"
  "grows_not EvpnExtendedCommunity_from_wire"
  "grows_not (ExperimentalExtendedCommunity_from_wire code)" "grows_not (UnknownExtendedCommunity_from_wire code)"
  "grows_not (UnknownExtendedCommunityIpv6_from_wire code)"
  unfolding TransitiveTwoOctetExtendedCommunity_from_wire_def
    NonTransitiveTwoOctetExtendedCommunity_from_wire_def
    TransitiveIpv4ExtendedCommunity_from_wire_def NonTransitiveIpv4ExtendedCommunity_from_wire_def
    TransitiveFourOctetExtendedCommunity_from_wire_def
    NonTransitiveFourOctetExtendedCommunity_from_wire_def
    TransitiveIpv6ExtendedCommunity_from_wire_def NonTransitiveIpv6ExtendedCommunity_from_wire_def
    TransitiveOpaqueExtendedCommunity_from_wire_def NonTransitiveOpaqueExtendedCommunity_from_wire_def EvpnExtendedCommunity_from_wire_def
    ExperimentalExtendedCommunity_from_wire_def UnknownExtendedCommunity_from_wire_def UnknownExtendedCommunityIpv6_from_wire_def
    MacAddress_from_wire_def
  by (auto intro!: grows_not_bind split: sum.splits EvpnExtendedCommunitySubType.splits TransitiveOpaqueExtendedCommunitySubType.splits)

lemma grows_not_value [intro]: "grows_not (ext_community_value code t)"
  by (cases t) (auto simp: ext_community_value_def)

interpretation ext_community: element_codec ExtendedCommunity_write ExtendedCommunity_from_wire ExtendedCommunity_ok
proof
  show "ExtendedCommunity_from_wire (ExtendedCommunity_write c @ rest) = Inr (c, rest)" if ok: "ExtendedCommunity_ok c" for c rest
  proof (cases c)
    case (EC_Experimental x)
    then show ?thesis
      using ok by (auto simp: ExtendedCommunity_from_wire_def community_read experimental_code_def ext_community_value_def unknown_read_written)
  next
    case (EC_Unknown x)
    then show ?thesis
      using ok
      by (auto simp: ExtendedCommunity_from_wire_def community_read unknown_community_code_def ext_community_value_def unknown_read_written)
  qed (use ok in \<open>simp_all add: ExtendedCommunity_from_wire_def parse_bind_def ext_community_value_def parsed_as_Inr
        t2.read_written nt2.read_written ti4.read_written nti4.read_written t4.read_written nt4.read_written
        opaque_community.read_written non_transitive_opaque.read_written evpn_community.read_written del: community_codes\<close>)
  show "shrinks ExtendedCommunity_from_wire"
    unfolding ExtendedCommunity_from_wire_def by (auto intro!: shrinks_bind grows_not_value grows_not_parsed_as split: sum.splits)
qed

interpretation ext_community6: element_codec ExtendedCommunityIpv6_write ExtendedCommunityIpv6_from_wire ExtendedCommunityIpv6_ok
proof
  show "ExtendedCommunityIpv6_from_wire (ExtendedCommunityIpv6_write c @ rest) = Inr (c, rest)"
    if "ExtendedCommunityIpv6_ok c" for c rest
    using that
    by (cases c) (simp_all add: ExtendedCommunityIpv6_from_wire_def parse_bind_def parsed_as_Inr ti6.read_written nti6.read_written
        unknown_read_written del: community_codes)
  show "shrinks ExtendedCommunityIpv6_from_wire"
    unfolding ExtendedCommunityIpv6_from_wire_def
    by (auto intro!: shrinks_bind grows_not_parsed_as split: sum.splits BgpExtendedCommunityIpv6Type.splits)
qed

section \<open>Lengths\<close>

lemma kind_lengths:
  "length (TransitiveTwoOctetExtendedCommunity_write a) = 7" "length (NonTransitiveTwoOctetExtendedCommunity_write b) = 7"
  "length (TransitiveIpv4ExtendedCommunity_write c) = 7" "length (NonTransitiveIpv4ExtendedCommunity_write d) = 7"
  "length (TransitiveFourOctetExtendedCommunity_write e) = 7" "length (NonTransitiveFourOctetExtendedCommunity_write f) = 7"
  "length (TransitiveIpv6ExtendedCommunity_write g) = 19" "length (NonTransitiveIpv6ExtendedCommunity_write h) = 19"
  "TransitiveOpaqueExtendedCommunity_ok i \<Longrightarrow> length (TransitiveOpaqueExtendedCommunity_write i) = 7"
  "NonTransitiveOpaqueExtendedCommunity_ok j \<Longrightarrow> length (NonTransitiveOpaqueExtendedCommunity_write j) = 7"
  "EvpnExtendedCommunity_ok k \<Longrightarrow> length (EvpnExtendedCommunity_write k) = 7"
            apply (cases a; simp)
           apply (cases b; simp)
          apply (cases c; simp)
         apply (cases d; simp)
        apply (cases e; simp)
       apply (cases f; simp)
      apply (cases g; simp)
     apply (cases h; simp)
    apply (cases i; simp)
   apply (cases j; simp)
  apply (cases k; simp)
  done

lemma ext_community_length: "ExtendedCommunity_ok c \<Longrightarrow> length (ExtendedCommunity_write c) = ExtendedCommunity_len c"
  by (cases c) (simp_all add: ExtendedCommunity_len_def kind_lengths UnknownExtendedCommunity_write_def)

lemma ext_community6_length: "ExtendedCommunityIpv6_ok c \<Longrightarrow> length (ExtendedCommunityIpv6_write c) = ExtendedCommunityIpv6_len c"
  by (cases c) (simp_all add: ExtendedCommunityIpv6_len_def kind_lengths UnknownExtendedCommunity_write_def)

section \<open>Values that do not survive\<close>

text \<open>
  A source AS community is written with the subtype of a route target, so a peer that receives it
  takes it for a route target of the same value, and an Ethernet VPN community that carries six octets
  loses the fourth one when it is read.
\<close>

theorem communities_confused:
  "ExtendedCommunity_from_wire (ExtendedCommunity_write (EC_TransitiveTwoOctet (T2_SourceAs asn2 n)) @ rest)
     = Inr (EC_TransitiveTwoOctet (T2_RouteTarget asn2 n), rest) \<and>
   ExtendedCommunity_from_wire (ExtendedCommunity_write (EC_TransitiveFourOctet (T4_SourceAs asn4 m)) @ rest)
     = Inr (EC_TransitiveFourOctet (T4_RouteTarget asn4 m), rest) \<and>
   ExtendedCommunity_from_wire (ExtendedCommunity_write (EC_Evpn (EV_EsImportRouteTarget [a, b, c, d, e, f])) @ rest)
     = Inr (EC_Evpn (EV_EsImportRouteTarget [a, b, c, c, e, f]), rest)"
proof -
  have "ExtendedCommunity_write (EC_TransitiveTwoOctet (T2_SourceAs asn2 n)) = ExtendedCommunity_write (EC_TransitiveTwoOctet (T2_RouteTarget asn2 n))"
    "ExtendedCommunity_write (EC_TransitiveFourOctet (T4_SourceAs asn4 m)) = ExtendedCommunity_write (EC_TransitiveFourOctet (T4_RouteTarget asn4 m))"
    by simp_all
  then have "ExtendedCommunity_from_wire (ExtendedCommunity_write (EC_TransitiveTwoOctet (T2_SourceAs asn2 n)) @ rest)
       = Inr (EC_TransitiveTwoOctet (T2_RouteTarget asn2 n), rest)"
    "ExtendedCommunity_from_wire (ExtendedCommunity_write (EC_TransitiveFourOctet (T4_SourceAs asn4 m)) @ rest)
       = Inr (EC_TransitiveFourOctet (T4_RouteTarget asn4 m), rest)"
    by (simp_all only: ext_community.read_written [of "EC_TransitiveTwoOctet (T2_RouteTarget asn2 n)"]
        ext_community.read_written [of "EC_TransitiveFourOctet (T4_RouteTarget asn4 m)"] ExtendedCommunity_ok.simps
        TransitiveTwoOctetExtendedCommunity_ok.simps TransitiveFourOctetExtendedCommunity_ok.simps)
  moreover have "ExtendedCommunity_from_wire (ExtendedCommunity_write (EC_Evpn (EV_EsImportRouteTarget [a, b, c, d, e, f])) @ rest)
       = Inr (EC_Evpn (EV_EsImportRouteTarget [a, b, c, c, e, f]), rest)"
    supply community_codes [simp del]
    by (simp add: ExtendedCommunity_from_wire_def EvpnExtendedCommunity_from_wire_def community_read ext_community_value_def
        word_of_octets six_octets_of)
  ultimately show ?thesis by simp
qed

text \<open>
  \<open>transitive\<close> of an extended community is bit \<open>0x40\<close> of its type octet being clear, as RFC 4360
  defines it, except that it is inverted for opaque transitive and for non-transitive four-octet
  communities.
\<close>

theorem transitive_follows_type:
  "ExtendedCommunity_transitive c \<longleftrightarrow>
     (hd (ExtendedCommunity_write c) AND 0x40 = 0) \<noteq>
     (case c of EC_TransitiveOpaque _ \<Rightarrow> True | EC_NonTransitiveFourOctet _ \<Rightarrow> True | _ \<Rightarrow> False)"
  by (cases c) (simp_all add: unknown_transitive_def)

end
