(* ===== verification/Wire_Attribute_Laws.thy ===== *)
theory Wire_Attribute_Laws
  imports Wire_Attribute_Writers Wire_Community_Laws
begin

text \<open>
  Reading a path attribute that was written gives it back, for the attributes that \<open>attr_ok\<close>
  describes; every reader of an attribute takes at least an octet.
\<close>

section \<open>Lengths\<close>

definition fits :: "bool \<Rightarrow> nat \<Rightarrow> bool" where
  "fits ext n \<longleftrightarrow> n < (if ext then 65536 else 256)"

definition length_octets :: "bool \<Rightarrow> nat \<Rightarrow> bytes" where
  "length_octets ext n = (if ext then to_be_bytes (of_nat n :: u16) else [of_nat n])"

lemma write_length_fits: "fits ext n \<Longrightarrow> write_length (Suc n + (if ext then 1 else 0)) ext = length_octets ext n"
  by (cases ext) (simp_all add: write_length_def fits_def length_octets_def)

lemma length_length_octets: "length (length_octets ext n) = 1 + (if ext then 1 else 0)"
  by (simp add: length_octets_def)

lemma attribute_data_written:
  "length w = n \<Longrightarrow> fits ext n \<Longrightarrow> attribute_data e ext (length_octets ext n @ w @ rest) = Inr (w, rest)"
  using length_data16_read [of w e rest]
  by (cases ext) (auto simp: length_octets_def attribute_data_def fits_def length_data8_at)

lemma in_data_written:
  assumes "p w = Inr a" "length w = n" "fits ext n"
  shows "in_data ext p (length_octets ext n @ w @ rest) = Inr (a, rest)"
  using attribute_data_written [OF assms(2,3), of "()" rest] assms(1) by (simp add: in_data_def map_res_def)

lemma ucast_of_nat_small: "n < 256 \<Longrightarrow> ucast (of_nat n :: u8) = (of_nat n :: u16)"
  by (simp add: word_unat_eq_iff unsigned_ucast_eq unat_of_nat take_bit_eq_mod)

lemma attribute_length_written: "fits ext n \<Longrightarrow> attribute_length ext (length_octets ext n @ bs) = Inr (of_nat n, bs)"
  by (cases ext) (simp_all add: attribute_length_def length_octets_def fits_def parse_bind_def parse_return_def ucast_of_nat_small)

lemma checked_length_written: "n < 256 \<Longrightarrow> checked_length ext (of_nat n) (length_octets ext n @ bs) = Inr (of_nat n, bs)"
  by (simp add: checked_length_def map_res_def attribute_length_written fits_def)

section \<open>Elements of attributes\<close>

lemma read_words_written:
  assumes "8 dvd LENGTH('w::len)"
  shows "read_words (length ws) (concat (map to_be_bytes (ws :: 'w word list)) @ rest) = Inr (ws, rest)"
  by (induction ws) (simp_all add: be_word_read [OF assms])

lemma length_words: "length (concat (map to_be_bytes (ws :: 'w::len word list))) = LENGTH('w) div 8 * length ws"
  by (induction ws) simp_all

definition seg2_ok :: "As2PathSegment \<Rightarrow> bool" where
  "seg2_ok s \<longleftrightarrow> as2_as_numbers s \<noteq> [] \<and> length (as2_as_numbers s) < 256"

definition seg4_ok :: "As4PathSegment \<Rightarrow> bool" where
  "seg4_ok s \<longleftrightarrow> as4_as_numbers s \<noteq> [] \<and> length (as4_as_numbers s) < 256"

lemma segment_header_written:
  assumes "0 < n" "n < 256"
  shows "segment_header (AsPathSegmentType_into_u8 t # of_nat n # bs) = Inr ((t, n), bs)"
proof -
  have "(of_nat n :: u8) \<noteq> 0" using assms by (simp add: word_unat_eq_iff unat_of_nat_small)
  then show ?thesis
    using assms by (simp add: segment_header_def parse_bind_def map_res_def map_err_def unat_of_nat_small)
qed

lemma grows_not_read_words: "grows_not (read_words n :: (unit, 'w::len word list) parser)"
proof (induction n)
  case (Suc n)
  show ?case unfolding grows_not_def
  proof (intro allI impI)
    fix bs and ws :: "'w word list" and rest
    assume "read_words (Suc n) bs = Inr (ws, rest)"
    then obtain w :: "'w word" and mid ws' where
        "be_word () bs = Inr (w, mid)" "read_words n mid = Inr (ws' :: 'w word list, rest)"
      by (auto split: sum.splits prod.splits)
    then show "length rest \<le> length bs"
      using grows_notD [OF Suc] by (fastforce simp: be_word_def Let_def split: if_splits)
  qed
qed (simp add: grows_not_def)

lemma grows_not_if [intro]:
  "grows_not p \<Longrightarrow> grows_not (\<lambda>bs. if P bs then Inl e else p bs)"
  by (auto simp: grows_not_def)

lemma shrinks_segment_header: "shrinks segment_header"
  unfolding segment_header_def by (intro shrinks_bind shrinks_map_res shrinks_be shrinks_grows_not)

interpretation segment2: element_codec As2PathSegment_write As2PathSegment_from_wire seg2_ok
proof
  show "As2PathSegment_from_wire (As2PathSegment_write s @ rest) = Inr (s, rest)" if "seg2_ok s" for s rest
    using that read_words_written [of "as2_as_numbers s" rest]
    by (cases s) (simp add: seg2_ok_def As2PathSegment_from_wire_def As2PathSegment_write_def parse_bind_def segment_header_written
        length_words parse_return_def)
  show "shrinks As2PathSegment_from_wire"
    unfolding As2PathSegment_from_wire_def
    by (intro shrinks_bind shrinks_segment_header)
      (auto split: prod.split intro!: grows_not_if grows_not_bind grows_not_read_words)
qed

interpretation segment4: element_codec As4PathSegment_write As4PathSegment_from_wire seg4_ok
proof
  show "As4PathSegment_from_wire (As4PathSegment_write s @ rest) = Inr (s, rest)" if "seg4_ok s" for s rest
    using that read_words_written [of "as4_as_numbers s" rest]
    by (cases s) (simp add: seg4_ok_def As4PathSegment_from_wire_def As4PathSegment_write_def parse_bind_def segment_header_written
        length_words parse_return_def)
  show "shrinks As4PathSegment_from_wire"
    unfolding As4PathSegment_from_wire_def
    by (intro shrinks_bind shrinks_segment_header)
      (auto split: prod.split intro!: grows_not_if grows_not_bind grows_not_read_words)
qed

interpretation large_community: element_codec LargeCommunity_write LargeCommunity_from_wire "\<lambda>_. True"
proof
  show "LargeCommunity_from_wire (LargeCommunity_write c @ rest) = Inr (c, rest)" for c rest
    by (cases c) (simp add: LargeCommunity_from_wire_def LargeCommunity_write_def parse_bind_def parse_return_def)
  show "shrinks LargeCommunity_from_wire"
    unfolding LargeCommunity_from_wire_def by (intro shrinks_bind [OF shrinks_be(3)] grows_not_bind [OF shrinks_grows_not [OF shrinks_be(3)]] grows_not_return)
qed

lemma element_lengths:
  "length (As2PathSegment_write s) = As2PathSegment_len s" "length (As4PathSegment_write t) = As4PathSegment_len t"
  "length (LargeCommunity_write c) = 12"
  by (simp_all add: As2PathSegment_write_def As4PathSegment_write_def As2PathSegment_len_def As4PathSegment_len_def
      LargeCommunity_write_def length_words case_prod_beta')

section \<open>Attributes that can be read back\<close>

text \<open>
  Networks of the unicast families carry a path identifier, those of the other families if the context
  says so. Memberships of route targets are withdrawn as Ethernet VPN routes and are not read back. The
  next hop of link-state VPN networks is written with a route distinguisher of zeros. A link-state attribute is
  read back only at the end of the attributes (\<open>Wire_Codec_Runs\<close>).
\<close>

definition next_hop_fits :: "IpAddr \<Rightarrow> ipv6addr option \<Rightarrow> bool" where
  "next_hop_fits h l \<longleftrightarrow> l = None \<or> (case h of IpV6 _ \<Rightarrow> True | IpV4 _ \<Rightarrow> False)"

fun reach_ok :: "codec_env \<Rightarrow> BgpParsingContext \<Rightarrow> MpReach \<Rightarrow> bool" where
  "reach_ok env ctx (MpReach_Ipv4Unicast h l nlri) = (next_hop_fits h l \<and> list_all (addr4_ok env True) nlri)"
| "reach_ok env ctx (MpReach_Ipv4Multicast h l nlri) =
     (next_hop_fits h l \<and> list_all (maddr4_ok env (add_path_for ctx AT_Ipv4Multicast)) nlri)"
| "reach_ok env ctx (MpReach_Ipv4NlriMplsLabels h l nlri) =
     (next_hop_fits h l \<and>
      list_all (labels4_ok env (add_path_for ctx AT_Ipv4NlriMplsLabels) False (labels_for ctx AT_Ipv4NlriMplsLabels)) nlri)"
| "reach_ok env ctx (MpReach_Ipv4MplsVpnUnicast h nlri) =
     (next_hop_ok h \<and> list_all (vpn4_ok env (add_path_for ctx AT_Ipv4MplsLabeledVpn) False (labels_for ctx AT_Ipv4MplsLabeledVpn)) nlri)"
| "reach_ok env ctx (MpReach_Ipv6Unicast g l nlri) = list_all (addr6_ok env True) nlri"
| "reach_ok env ctx (MpReach_Ipv6Multicast g l nlri) = list_all (maddr6_ok env (add_path_for ctx AT_Ipv6Multicast)) nlri"
| "reach_ok env ctx (MpReach_Ipv6NlriMplsLabels h l nlri) =
     (next_hop_fits h l \<and>
      list_all (labels6_ok env (add_path_for ctx AT_Ipv6NlriMplsLabels) False (labels_for ctx AT_Ipv6NlriMplsLabels)) nlri)"
| "reach_ok env ctx (MpReach_Ipv6MplsVpnUnicast h nlri) =
     (next_hop_ok h \<and> list_all (vpn6_ok env (add_path_for ctx AT_Ipv6MplsLabeledVpn) False (labels_for ctx AT_Ipv6MplsLabeledVpn)) nlri)"
| "reach_ok env ctx (MpReach_L2Evpn h nlri) = list_all (evpn_address_ok env (add_path_for ctx AT_L2VpnBgpEvpn)) nlri"
| "reach_ok env ctx (MpReach_RouteTargetMembership h nlri) = list_all (membership_ok (add_path_for ctx AT_RouteTargetConstrains)) nlri"
| "reach_ok env ctx (MpReach_BgpLs h nlri) = list_all (ls_nlri_ok env (add_path_for ctx AT_BgpLs)) nlri"
| "reach_ok env ctx (MpReach_BgpLsVpn h nlri) =
     (next_hop_ok h \<and> labeled_rd h = As2Administrator 0 0 \<and> list_all (ls_vpn_ok env (add_path_for ctx AT_BgpLsVpn)) nlri)"
| "reach_ok env ctx _ = False"

fun unreach_ok :: "codec_env \<Rightarrow> BgpParsingContext \<Rightarrow> MpUnreach \<Rightarrow> bool" where
  "unreach_ok env ctx (MpUnreach_Ipv4Unicast nlri) = list_all (addr4_ok env True) nlri"
| "unreach_ok env ctx (MpUnreach_Ipv4Multicast nlri) = list_all (maddr4_ok env (add_path_for ctx AT_Ipv4Multicast)) nlri"
| "unreach_ok env ctx (MpUnreach_Ipv4NlriMplsLabels nlri) =
     list_all (labels4_ok env (add_path_for ctx AT_Ipv4NlriMplsLabels) True (labels_for ctx AT_Ipv4NlriMplsLabels)) nlri"
| "unreach_ok env ctx (MpUnreach_Ipv4MplsVpnUnicast nlri) =
     list_all (vpn4_ok env (add_path_for ctx AT_Ipv4MplsLabeledVpn) True (labels_for ctx AT_Ipv4MplsLabeledVpn)) nlri"
| "unreach_ok env ctx (MpUnreach_Ipv6Unicast nlri) = list_all (addr6_ok env (add_path_for ctx AT_Ipv6Unicast)) nlri"
| "unreach_ok env ctx (MpUnreach_Ipv6Multicast nlri) = list_all (maddr6_ok env (add_path_for ctx AT_Ipv6Multicast)) nlri"
| "unreach_ok env ctx (MpUnreach_Ipv6NlriMplsLabels nlri) =
     list_all (labels6_ok env (add_path_for ctx AT_Ipv6NlriMplsLabels) True (labels_for ctx AT_Ipv6NlriMplsLabels)) nlri"
| "unreach_ok env ctx (MpUnreach_Ipv6MplsVpnUnicast nlri) =
     list_all (vpn6_ok env (add_path_for ctx AT_Ipv6MplsLabeledVpn) True (labels_for ctx AT_Ipv6MplsLabeledVpn)) nlri"
| "unreach_ok env ctx (MpUnreach_L2Evpn nlri) = list_all (evpn_address_ok env (add_path_for ctx AT_L2VpnBgpEvpn)) nlri"
| "unreach_ok env ctx (MpUnreach_BgpLs nlri) = list_all (ls_nlri_ok env (add_path_for ctx AT_BgpLs)) nlri"
| "unreach_ok env ctx (MpUnreach_BgpLsVpn nlri) = list_all (ls_vpn_ok env (add_path_for ctx AT_BgpLsVpn)) nlri"
| "unreach_ok env ctx _ = False"

definition unknown_code :: "u8 \<Rightarrow> bool" where
  "unknown_code code =
     (case PathAttributeType_try_from code of
        Inl _ \<Rightarrow> True
      | Inr t \<Rightarrow>
          t \<in> {PAT_As4Aggregator, PAT_PmsiTunnel, PAT_TunnelEncapsulation, PAT_TrafficEngineering, PAT_PeDistinguisherLabels,
            PAT_BgpPSecPath, PAT_BgpDomainPath, PAT_SfpAttribute, PAT_BfdDiscriminator, PAT_AttributesSet, PAT_Development})"

fun value_ok :: "codec_env \<Rightarrow> BgpParsingContext \<Rightarrow> PathAttributeValue \<Rightarrow> bool" where
  "value_ok env ctx (PA_AsPath (As2PathSegments segs)) = (\<not> ctx_asn4 ctx \<and> list_all seg2_ok segs)"
| "value_ok env ctx (PA_AsPath (As4PathSegments segs)) = (ctx_asn4 ctx \<and> list_all seg4_ok segs)"
| "value_ok env ctx (PA_As4Path segs) = list_all seg4_ok segs"
| "value_ok env ctx (PA_Aggregator (As2Aggregator _ _)) = (\<not> ctx_asn4 ctx)"
| "value_ok env ctx (PA_Aggregator (As4Aggregator _ _)) = ctx_asn4 ctx"
| "value_ok env ctx (PA_MpReach m) = reach_ok env ctx m"
| "value_ok env ctx (PA_MpUnreach m) = unreach_ok env ctx m"
| "value_ok env ctx (PA_ExtendedCommunities cs) = list_all ExtendedCommunity_ok cs"
| "value_ok env ctx (PA_ExtendedCommunitiesIpv6 cs) = list_all ExtendedCommunityIpv6_ok cs"
| "value_ok env ctx (PA_BgpLs _) = False"
| "value_ok env ctx (PA_PrefixSegmentIdentifier psi) = list_all sid_ok (psi_tlvs psi)"
| "value_ok env ctx (PA_UnknownAttribute code _) = unknown_code code"
| "value_ok env ctx _ = True"

definition attr_ok :: "codec_env \<Rightarrow> BgpParsingContext \<Rightarrow> PathAttribute \<Rightarrow> bool" where
  "attr_ok env ctx attr \<longleftrightarrow>
     value_ok env ctx (pa_value attr) \<and> fits (pa_extended_length attr) (length (value_body env (pa_value attr))) \<and>
     PathAttribute_from (pa_optional attr) (pa_transitive attr) (pa_partial attr) (pa_extended_length attr) (pa_value attr) = Inr attr"

section \<open>Networks\<close>

lemma length_family_of [simp]: "length (family_of t) = 3"
  by (simp add: family_of_def family_write_def)

lemma addrs_length:
  "list_all (addr4_ok env p) as \<Longrightarrow> length (concat (map (Ipv4UnicastAddress_write env) as)) = nlris_len Ipv4UnicastAddress_len as"
  "list_all (addr6_ok env p) bs \<Longrightarrow> length (concat (map (Ipv6UnicastAddress_write env) bs)) = nlris_len Ipv6UnicastAddress_len bs"
  "list_all (maddr4_ok env p) cs \<Longrightarrow> length (concat (map (Ipv4MulticastAddress_write env) cs)) = nlris_len Ipv4MulticastAddress_len cs"
  "list_all (maddr6_ok env p) ds \<Longrightarrow> length (concat (map (Ipv6MulticastAddress_write env) ds)) = nlris_len Ipv6MulticastAddress_len ds"
  "list_all (vpn4_ok env p u n) es \<Longrightarrow> length (concat (map (Ipv4MplsVpnUnicastAddress_write env) es)) = nlris_len Ipv4MplsVpnUnicastAddress_len es"
  "list_all (vpn6_ok env p u n) fs \<Longrightarrow> length (concat (map (Ipv6MplsVpnUnicastAddress_write env) fs)) = nlris_len Ipv6MplsVpnUnicastAddress_len fs"
  "list_all (labels4_ok env p u n) gs \<Longrightarrow> length (concat (map (Ipv4NlriMplsLabelsAddress_octets env) gs)) = nlris_len Ipv4NlriMplsLabelsAddress_len gs"
  "list_all (labels6_ok env p u n) hs \<Longrightarrow> length (concat (map (Ipv6NlriMplsLabelsAddress_octets env) hs)) = nlris_len Ipv6NlriMplsLabelsAddress_len hs"
  "list_all (evpn_address_ok env p) is \<Longrightarrow> length (concat (map (L2EvpnAddress_write env) is)) = nlris_len L2EvpnAddress_len is"
  "list_all (membership_ok p) js \<Longrightarrow> length (concat (map RouteTargetMembershipAddress_write js)) = nlris_len RouteTargetMembershipAddress_len js"
  "list_all (ls_nlri_ok env p) ks \<Longrightarrow> length (concat (map (BgpLsNlri_write env) ks)) = nlris_len BgpLsNlri_len ks"
  "list_all (ls_vpn_ok env p) ls \<Longrightarrow> length (concat (map (BgpLsVpnNlri_write env) ls)) = nlris_len BgpLsVpnNlri_len ls"
  unfolding nlris_len_def by (erule length_concat_sum, erule addr_lengths labelled_lengths evpn_lengths ls_lengths)+

lemma zero_rd_next_hop:
  assumes "labeled_rd h = As2Administrator 0 0"
  shows "of_nat (LabeledNextHop_len h - Suc 0) # replicate 8 0 @ IpAddr_octets (labeled_next_hop h) @ rest = LabeledNextHop_write h @ rest"
    "9 + length (IpAddr_octets (labeled_next_hop h)) = LabeledNextHop_len h"
proof -
  have "RouteDistinguisher_write (As2Administrator 0 0) = replicate 8 0"
    by (simp add: RouteDistinguisher_write_def to_be_bytes_def nat_to_be_zero)
  then show "of_nat (LabeledNextHop_len h - Suc 0) # replicate 8 0 @ IpAddr_octets (labeled_next_hop h) @ rest = LabeledNextHop_write h @ rest"
    using assms by (cases h) (simp_all add: LabeledIpv4NextHop_write_def LabeledIpv6NextHop_write_def)
  show "9 + length (IpAddr_octets (labeled_next_hop h)) = LabeledNextHop_len h" by (cases h) simp_all
qed

lemma IpAddr_write_length: "length (IpAddr_write h) = 1 + ip_next_hop_len h"
  by (cases h) (simp_all add: IpAddr_write_def)

lemma ip_next_hop_length: "length (ip_next_hop_write h l) = 1 + ip_next_hop_len h + local_len l"
  by (cases h; cases l) (simp_all add: ip_next_hop_write_def local_len_def local_octets_def)

lemma ipv6_next_hop_length: "length (ipv6_next_hop_write g l) = 17 + local_len l"
  by (cases l) (simp_all add: ipv6_next_hop_write_def local_len_def)

lemma reach_length:
  assumes "reach_ok env ctx m"
  shows "length (MpReach_body env m) = 4 + MpReach_payload_len env m"
  using assms
  by (cases m) (auto simp: reach_def zero_rd_next_hop addrs_length length_next_hop_write IpAddr_write_length ip_next_hop_length ipv6_next_hop_length
      del: length_concat)

lemma unreach_length:
  assumes "unreach_ok env ctx m"
  shows "length (MpUnreach_body env m) = 3 + MpUnreach_payload_len env m"
  using assms by (cases m) (simp_all add: unreach_def addrs_length del: length_concat)

lemma ip_next_hop_read_written:
  assumes "next_hop_fits h l"
  shows "parse_ip4_or_ipv6_next_hop t (ip_next_hop_write h l @ rest) = Inr ((h, l), rest)"
  using assms by (cases h; cases l) (simp_all add: next_hop_fits_def parse_ip4_or_ipv6_next_hop_def ip_next_hop_write_def local_len_def
      local_octets_def parse_bind_def parse_return_def)

lemma ipv6_next_hop_read_written: "parse_ipv6_next_hop (ipv6_next_hop_write g l @ rest) = Inr ((g, l), rest)"
  by (cases l) (simp_all add: parse_ipv6_next_hop_def ipv6_next_hop_write_def parse_bind_def parse_return_def)

lemma IpAddr_read_written: "parse_ip_next_hop t (IpAddr_write h @ rest) = Inr (h, rest)"
  by (cases h) (simp_all add: parse_ip_next_hop_def IpAddr_from_wire_def IpAddr_write_def parse_into_def parse_bind_def parse_return_def)

lemma labeled_next_hop_read_written: "next_hop_ok h \<Longrightarrow> parse_labeled_next_hop t (LabeledNextHop_write h @ rest) = Inr (h, rest)"
  by (simp add: parse_labeled_next_hop_def parse_into_def labeled_next_hop.read_written)

lemma after_next_hop_written: "p bs = Inr (h, 0 # rest) \<Longrightarrow> after_next_hop p f bs = f h rest"
  by (simp add: after_next_hop_def parse_bind_def parse_return_def)

lemmas next_hop_reads = ip_next_hop_read_written ipv6_next_hop_read_written IpAddr_read_written labeled_next_hop_read_written

lemmas nlri_reads = addr4.read_list addr6.read_list maddr4.read_list maddr6.read_list vpn4.read_list vpn6.read_list labels4.read_list
  labels6.read_list evpn_address.read_list membership.read_list ls_nlri.read_list ls_vpn.read_list

lemma mp_reach_value_written:
  "reach_ok env ctx m \<Longrightarrow> \<exists>t bs. MpReach_body env m = family_of t @ bs \<and>
    mp_reach_value env ctx (address_family t) (subsequent_address_family t) bs = Inr m"
  by (induct m; (rule exI, rule exI, rule conjI, unfold MpReach_body.simps reach_def, rule refl)?)
    (simp_all add: mp_reach_value_def after_next_hop_written next_hop_reads zero_rd_next_hop nlri_with_def nlri_reads map_err_def
      del: address_family.simps subsequent_address_family.simps)

lemma mp_unreach_value_written:
  "unreach_ok env ctx m \<Longrightarrow> \<exists>t bs. MpUnreach_body env m = family_of t @ bs \<and>
    mp_unreach_value env ctx (address_family t) (subsequent_address_family t) bs = Inr m"
  by (induct m; (rule exI, rule exI, rule conjI, unfold MpUnreach_body.simps unreach_def, rule refl)?)
    (simp_all add: mp_unreach_value_def nlri_with_def nlri_reads map_err_def del: address_family.simps subsequent_address_family.simps)

lemma MpReach_read_written:
  assumes "reach_ok env ctx m" "length (MpReach_body env m) = n" "fits ext n"
  shows "MpReach_from_wire env ctx ext (length_octets ext n @ MpReach_body env m @ rest) = Inr (m, rest)"
proof -
  obtain t bs where m: "MpReach_body env m = family_of t @ bs" "mp_reach_value env ctx (address_family t) (subsequent_address_family t) bs = Inr m"
    using mp_reach_value_written [OF assms(1)] by blast
  show ?thesis
    using attribute_data_written [OF assms(2,3), of MpR_NomError rest] m
    by (simp add: MpReach_from_wire_def map_res_def map_err_def family_of_def family_write_def parse_bind_def parse_return_def)
qed

lemma MpUnreach_read_written:
  assumes "unreach_ok env ctx m" "length (MpUnreach_body env m) = n" "fits ext n"
  shows "MpUnreach_from_wire env ctx ext (length_octets ext n @ MpUnreach_body env m @ rest) = Inr (m, rest)"
proof -
  obtain t bs where m: "MpUnreach_body env m = family_of t @ bs" "mp_unreach_value env ctx (address_family t) (subsequent_address_family t) bs = Inr m"
    using mp_unreach_value_written [OF assms(1)] by blast
  show ?thesis
    using attribute_data_written [OF assms(2,3), of MpU_NomError rest] m
    by (simp add: MpUnreach_from_wire_def map_res_def map_err_def family_of_def family_write_def parse_bind_def parse_return_def)
qed

section \<open>Attribute values\<close>

lemma labels_writable:
  "list_all (labels4_ok env p u n) as \<Longrightarrow> list_all (\<lambda>a. \<not> isl (Ipv4NlriMplsLabelsAddress_write env a)) as"
  "list_all (labels6_ok env p u n) bs \<Longrightarrow> list_all (\<lambda>a. \<not> isl (Ipv6NlriMplsLabelsAddress_write env a)) bs"
  by (auto elim!: list.pred_mono_strong simp: labels4_ok_def labels6_ok_def Ipv4NlriMplsLabelsAddress_write_def Ipv6NlriMplsLabelsAddress_write_def)

lemma value_ok_writable: "value_ok env ctx v \<Longrightarrow> value_writable env v"
proof (cases v)
  case (PA_MpReach m)
  then show "value_ok env ctx v \<Longrightarrow> ?thesis" by (cases m) (auto simp: labels_writable)
next
  case (PA_MpUnreach m)
  then show "value_ok env ctx v \<Longrightarrow> ?thesis" by (cases m) (auto simp: labels_writable)
qed simp_all

lemma segments_length:
  "length (concat (map As2PathSegment_write s)) = sum_list (map As2PathSegment_len s)"
  "length (concat (map As4PathSegment_write t)) = sum_list (map As4PathSegment_len t)"
  by (simp_all add: length_concat element_lengths comp_def)

lemma communities_length:
  "list_all ExtendedCommunity_ok cs \<Longrightarrow> length (concat (map ExtendedCommunity_write cs)) = sum_list (map ExtendedCommunity_len cs)"
  "list_all ExtendedCommunityIpv6_ok cs6 \<Longrightarrow>
    length (concat (map ExtendedCommunityIpv6_write cs6)) = sum_list (map ExtendedCommunityIpv6_len cs6)"
  by (erule length_concat_sum, erule ext_community_length ext_community6_length)+

lemma value_body_length: "value_ok env ctx v \<Longrightarrow> value_base_len env v = Suc (length (value_body env v))"
  by (induction env ctx v rule: value_ok.induct)
    (simp_all add: reach_length unreach_length length_words length_concat_const element_lengths segments_length communities_length
      sids_length)

lemma value_write_known:
  assumes "value_ok env ctx v" "fits ext (length (value_body env v))" "\<And>code val. v \<noteq> PA_UnknownAttribute code val"
  shows "value_write env ext v = length_octets ext (length (value_body env v)) @ value_body env v"
proof -
  have "value_write env ext v = write_length (value_len env ext v) ext @ value_body env v"
    using assms(3) by (cases v) (auto simp: value_write_def)
  then show ?thesis
    using value_body_length [OF assms(1)] write_length_fits [OF assms(2)] by (simp only: value_len_def)
qed

lemma value_write_unknown:
  "fits ext (length val) \<Longrightarrow> value_write env ext (PA_UnknownAttribute code val) = code # length_octets ext (length val) @ val"
  by (cases ext) (simp_all add: value_write_def UnknownAttribute_write_def length_octets_def fits_def)

lemma value_with_written: "p bs = Inr (a, rest) \<Longrightarrow> value_with err mk p bs = Inr (mk a, rest)"
  by (simp add: value_with_def parse_bind_def parse_into_def parse_return_def)

lemmas fixed_readers = Origin_from_wire_def four_octets_def AtomicAggregate_from_wire_def Aggregator_from_wire_def
  As2Aggregator_from_wire_def As4Aggregator_from_wire_def parse_bind_def parse_return_def map_res_def map_err_def

lemma fixed_read_written:
  "Origin_from_wire ext (length_octets ext (Suc 0) @ OriginValue_into_u8 origin # rest) = Inr (origin, rest)"
  "four_octets ext (length_octets ext 4 @ to_be_bytes w @ rest) = Inr (w, rest)"
  "AtomicAggregate_from_wire ext (length_octets ext 0 @ rest) = Inr ((), rest)"
  "As2Aggregator_from_wire ext (length_octets ext 6 @ to_be_bytes asn2 @ to_be_bytes w @ rest) = Inr (As2Aggregator asn2 w, rest)"
  "As4Aggregator_from_wire ext (length_octets ext 8 @ to_be_bytes asn4 @ to_be_bytes w @ rest) = Inr (As4Aggregator asn4 w, rest)"
  using checked_length_written [of 1 ext] checked_length_written [of 4 ext] checked_length_written [of 0 ext]
    checked_length_written [of 6 ext] checked_length_written [of 8 ext]
  by (simp_all add: fixed_readers)

lemma list_read_written:
  assumes "fits ext n"
  shows "length (concat (map As2PathSegment_write s2)) = n \<Longrightarrow> list_all seg2_ok s2 \<Longrightarrow>
      AsPath_from_wire ext False (length_octets ext n @ concat (map As2PathSegment_write s2) @ rest) = Inr (As2PathSegments s2, rest)"
    "length (concat (map As4PathSegment_write s4)) = n \<Longrightarrow> list_all seg4_ok s4 \<Longrightarrow>
      AsPath_from_wire ext True (length_octets ext n @ concat (map As4PathSegment_write s4) @ rest) = Inr (As4PathSegments s4, rest)"
    "length (concat (map As4PathSegment_write s4)) = n \<Longrightarrow> list_all seg4_ok s4 \<Longrightarrow>
      As4Path_from_wire ext (length_octets ext n @ concat (map As4PathSegment_write s4) @ rest) = Inr (s4, rest)"
    "length (concat (map to_be_bytes ws)) = n \<Longrightarrow>
      Communities_from_wire ext (length_octets ext n @ concat (map to_be_bytes ws) @ rest) = Inr (ws, rest)"
    "length (concat (map to_be_bytes ws)) = n \<Longrightarrow>
      ClusterList_from_wire ext (length_octets ext n @ concat (map to_be_bytes ws) @ rest) = Inr (ws, rest)"
    "length (concat (map LargeCommunity_write cs)) = n \<Longrightarrow>
      LargeCommunities_from_wire ext (length_octets ext n @ concat (map LargeCommunity_write cs) @ rest) = Inr (cs, rest)"
    "length (concat (map ExtendedCommunity_write es)) = n \<Longrightarrow> list_all ExtendedCommunity_ok es \<Longrightarrow>
      ExtendedCommunities_from_wire ext (length_octets ext n @ concat (map ExtendedCommunity_write es) @ rest) = Inr (es, rest)"
    "length (concat (map ExtendedCommunityIpv6_write e6s)) = n \<Longrightarrow> list_all ExtendedCommunityIpv6_ok e6s \<Longrightarrow>
      ExtendedCommunitiesIpv6_from_wire ext (length_octets ext n @ concat (map ExtendedCommunityIpv6_write e6s) @ rest) = Inr (e6s, rest)"
    "length (concat (map BgpSidAttribute_write tlvs)) = n \<Longrightarrow> list_all sid_ok tlvs \<Longrightarrow>
      PrefixSegmentIdentifier_from_wire ext (length_octets ext n @ concat (map BgpSidAttribute_write tlvs) @ rest) = Inr (\<lparr> psi_tlvs = tlvs \<rparr>, rest)"
  unfolding AsPath_from_wire_def As4Path_from_wire_def Communities_from_wire_def ClusterList_from_wire_def LargeCommunities_from_wire_def
    ExtendedCommunities_from_wire_def ExtendedCommunitiesIpv6_from_wire_def PrefixSegmentIdentifier_from_wire_def
  using assms by (intro in_data_written; simp add: segment2.read_list segment4.read_list ext_community.read_list ext_community6.read_list tag32.read_list large_community.read_list
      list.pred_True sids_read)+

lemma first_u32_written: "first_u32 ext (length_octets ext 4 @ to_be_bytes w @ rest) = Inr (w, rest)"
  unfolding first_u32_def using be_read(3) [of "()" w "[]"]
  by (intro in_data_written) (simp_all add: first_of_def fits_def)

lemma Aigp_written:
  "Aigp_from_wire ext (length_octets ext 11 @ (1 # to_be_bytes (11 :: u16) @ to_be_bytes (metric :: u64)) @ rest) = Inr (metric, rest)"
  unfolding Aigp_from_wire_def using be_word_read [of "()" metric "[]"]
  by (intro in_data_written) (simp_all add: first_of_def fits_def parse_bind_def map_res_def)

lemma known_value_read:
  assumes "value_ok env ctx v" "fits ext (length (value_body env v))" "\<And>code val. v \<noteq> PA_UnknownAttribute code val"
  shows "\<exists>t p. path_attribute_type v = Inr t \<and> attribute_value env ctx ext t = Some p \<and>
    p (length_octets ext (length (value_body env v)) @ value_body env v @ rest) = Inr (v, rest)"
  using assms
proof (cases v)
  case (PA_AsPath path)
  then show ?thesis using assms
    by (cases path) (auto simp: attribute_value_def intro!: value_with_written list_read_written)
next
  case (PA_Aggregator agg)
  then show ?thesis using assms
    by (cases agg) (auto simp: attribute_value_def Aggregator_from_wire_def fixed_read_written intro!: value_with_written)
next
  case (PA_Aigp metric)
  then show ?thesis using Aigp_written [of ext metric rest]
    by (auto simp: attribute_value_def intro!: value_with_written)
next
  case (PA_PrefixSegmentIdentifier psi)
  then have ok: "list_all sid_ok (psi_tlvs psi)" "fits ext (length (concat (map BgpSidAttribute_write (psi_tlvs psi))))" using assms by simp_all
  have "PrefixSegmentIdentifier_from_wire ext (length_octets ext (length (value_body env v)) @ value_body env v @ rest) = Inr (psi, rest)"
    using list_read_written(9) [OF ok(2) refl ok(1), of rest] PA_PrefixSegmentIdentifier by (simp del: length_concat)
  from value_with_written [where p = "PrefixSegmentIdentifier_from_wire ext", OF this] PA_PrefixSegmentIdentifier
  show ?thesis by (simp add: attribute_value_def del: value_body.simps)
next
  case PA_AtomicAggregate
  then show ?thesis
    by (auto simp: attribute_value_def value_with_def parse_bind_def parse_into_def parse_return_def fixed_read_written)
qed (auto simp: attribute_value_def fixed_read_written list_read_written first_u32_written MpReach_read_written MpUnreach_read_written
    intro!: value_with_written)

lemma unknown_value_read:
  assumes "fits ext (length val)"
  shows "unknown_value ext (code # length_octets ext (length val) @ val @ rest) = Inr (PA_UnknownAttribute code val, rest)"
proof -
  have "unat (of_nat (length val) :: u16) = length val" using assms by (auto simp: fits_def unat_of_nat_small split: if_splits)
  then show ?thesis using attribute_length_written [OF assms]
    by (simp add: unknown_value_def UnknownAttribute_from_wire_def value_with_def parse_into_def parse_bind_def parse_return_def)
qed

lemma unknown_code_value:
  assumes "unknown_code code"
  shows "typed_value env ctx ext (code # bs) = unknown_value ext (code # bs)"
  using assms by (auto simp: typed_value_def unknown_code_def attribute_value_def split: sum.splits)

lemma typed_value_written:
  assumes "value_ok env ctx v" "fits ext (length (value_body env v))"
  shows "typed_value env ctx ext
    ((case path_attribute_type v of Inr t \<Rightarrow> [PathAttributeType_code t] | Inl _ \<Rightarrow> []) @ value_write env ext v @ rest) = Inr (v, rest)"
proof (cases "\<exists>code val. v = PA_UnknownAttribute code val")
  case True
  then obtain code val where v: "v = PA_UnknownAttribute code val" by blast
  then show ?thesis using assms value_write_unknown [of ext val env code] unknown_value_read [of ext val code rest]
    by (simp add: unknown_code_value)
next
  case False
  then have known: "\<And>code val. v \<noteq> PA_UnknownAttribute code val" by blast
  from known_value_read [OF assms this, of rest] obtain t p where t: "path_attribute_type v = Inr t" "attribute_value env ctx ext t = Some p"
    "p (length_octets ext (length (value_body env v)) @ value_body env v @ rest) = Inr (v, rest)" by blast
  then show ?thesis by (simp add: typed_value_def value_write_known [OF assms known])
qed

section \<open>Attributes\<close>

lemma attribute_flags_set:
  "flag_set (attribute_flags attr) 0x80 = pa_optional attr" "flag_set (attribute_flags attr) 0x40 = pa_transitive attr"
  "flag_set (attribute_flags attr) 0x20 = pa_partial attr" "flag_set (attribute_flags attr) 0x10 = pa_extended_length attr"
  by (simp_all add: flag_set_def attribute_flags_def)

lemma attribute_read_written:
  assumes "attr_ok env ctx attr"
  shows "PathAttribute_from_wire env ctx (PathAttribute_write env attr @ rest) = Inr (attr, rest)"
  using assms typed_value_written [of env ctx "pa_value attr" "pa_extended_length attr" rest]
  by (simp add: PathAttribute_from_wire_def PathAttribute_write_def attr_ok_def parse_bind_def map_res_def map_err_def attribute_flags_set)

lemma attribute_length_ok:
  assumes "attr_ok env ctx attr"
  shows "length (PathAttribute_write env attr) = PathAttribute_len env attr"
proof -
  let ?v = "pa_value attr"
  have ok: "value_ok env ctx ?v" "fits (pa_extended_length attr) (length (value_body env ?v))" using assms by (simp_all add: attr_ok_def)
  show ?thesis
  proof (cases "\<exists>code val. ?v = PA_UnknownAttribute code val")
    case True
    then show ?thesis using ok
      by (auto simp: PathAttribute_write_def PathAttribute_len_def value_len_def value_write_unknown length_length_octets)
  next
    case False
    then have known: "\<And>code val. ?v \<noteq> PA_UnknownAttribute code val" by blast
    obtain t where "path_attribute_type ?v = Inr t" using known_value_read [OF ok known] by blast
    then show ?thesis using value_write_known [OF ok known] value_body_length [OF ok(1)]
      by (simp add: PathAttribute_write_def PathAttribute_len_def value_len_def length_length_octets)
  qed
qed

section \<open>Readers take bytes\<close>

lemma grows_not_lengths: "grows_not (attribute_length ext)" "grows_not (checked_length ext n)" "grows_not (attribute_data e ext)"
proof -
  show *: "grows_not (attribute_length ext)"
    unfolding attribute_length_def by (cases ext) (auto intro!: grows_not_bind)
  show "grows_not (checked_length ext n)" unfolding checked_length_def by (intro grows_not_map_res *)
  show "grows_not (attribute_data e ext)" unfolding attribute_data_def by (auto intro!: shrinks_grows_not)
qed

lemma grows_not_values:
  "grows_not (in_data ext p)" "grows_not (Origin_from_wire ext)" "grows_not (four_octets ext)" "grows_not (AtomicAggregate_from_wire ext)"
  "grows_not (Aggregator_from_wire ext asn4)" "grows_not (UnknownAttribute_from_wire ext)" "grows_not (PrefixSegmentIdentifier_from_wire ext)"
  "grows_not (MpReach_from_wire env ctx ext)" "grows_not (MpUnreach_from_wire env ctx ext)" "grows_not (BgpLsAttribute_from_wire ext)"
  "grows_not (AsPath_from_wire ext asn4)" "grows_not (As4Path_from_wire ext)" "grows_not (Communities_from_wire ext)"
  "grows_not (LargeCommunities_from_wire ext)" "grows_not (ClusterList_from_wire ext)" "grows_not (first_u32 ext)" "grows_not (Aigp_from_wire ext)"
  "grows_not (ExtendedCommunities_from_wire ext)" "grows_not (ExtendedCommunitiesIpv6_from_wire ext)"
proof -
  show "grows_not (BgpLsAttribute_from_wire ext)"
    by (auto simp: grows_not_def BgpLsAttribute_from_wire_def split: sum.splits)
qed (unfold in_data_def Origin_from_wire_def four_octets_def AtomicAggregate_from_wire_def Aggregator_from_wire_def
    As2Aggregator_from_wire_def As4Aggregator_from_wire_def UnknownAttribute_from_wire_def PrefixSegmentIdentifier_from_wire_def MpReach_from_wire_def
    MpUnreach_from_wire_def AsPath_from_wire_def As4Path_from_wire_def Communities_from_wire_def LargeCommunities_from_wire_def
    ExtendedCommunities_from_wire_def ExtendedCommunitiesIpv6_from_wire_def ClusterList_from_wire_def first_u32_def Aigp_from_wire_def,
    auto intro!: grows_not_map_res grows_not_bind grows_not_lengths)

lemma grows_not_value_with: "grows_not p \<Longrightarrow> grows_not (value_with err mk p)"
  unfolding value_with_def by (intro grows_not_bind grows_not_parse_into grows_not_return)

lemma attribute_value_grows_not: "attribute_value env ctx ext t = Some p \<Longrightarrow> grows_not p"
  by (cases t) (auto simp: attribute_value_def intro!: grows_not_value_with grows_not_values)

lemma typed_value_grows_not: "grows_not (typed_value env ctx ext)"
  unfolding grows_not_def
proof (intro allI impI)
  fix bs v rest
  assume r: "typed_value env ctx ext bs = Inr (v, rest)"
  have u: "grows_not (unknown_value ext)" unfolding unknown_value_def by (intro grows_not_value_with grows_not_values)
  from r obtain code buf where b: "be_u8 PAE_NomError bs = Inr (code, buf)" by (auto simp: typed_value_def split: sum.splits)
  then have "length buf \<le> length bs" by (auto simp: be_word_def split: if_splits)
  with r b show "length rest \<le> length bs"
    by (auto simp: typed_value_def split: sum.splits option.splits dest: grows_notD [OF u] grows_notD [OF attribute_value_grows_not] intro: le_trans)
qed

interpretation attribute: element_codec "PathAttribute_write env" "PathAttribute_from_wire env ctx" "attr_ok env ctx" for env ctx
proof
  show "shrinks (PathAttribute_from_wire env ctx)"
    unfolding PathAttribute_from_wire_def by (intro shrinks_bind shrinks_be grows_not_map_res typed_value_grows_not)
qed (rule attribute_read_written)

end
