(* ===== verification/Wire_Update.thy ===== *)
theory Wire_Update
  imports Wire_Attribute_Laws
begin

text \<open>
  Reading and writing of UPDATE messages (\<open>update.rs\<close> under
  \<open>src/netgauze/bgp-pkt/src/wire/deserializer\<close> and \<open>serializer\<close>): withdrawn networks, path attributes
  and reachable networks, where a malformed attribute is passed over and its error collected unless
  the context asks to fail.
\<close>

section \<open>Networks\<close>

definition push_withdraw_nlri :: "ipv4addr \<times> u8 \<Rightarrow> BgpParsingContext \<Rightarrow> BgpParsingContext" where
  "push_withdraw_nlri net ctx =
     ctx \<lparr> ctx_parsing_errors := (ctx_parsing_errors ctx)
       \<lparr> ie_non_unicast_withdraw_nlri := ie_non_unicast_withdraw_nlri (ctx_parsing_errors ctx) @ [net] \<rparr> \<rparr>"

definition push_update_nlri :: "ipv4addr \<times> u8 \<Rightarrow> BgpParsingContext \<Rightarrow> BgpParsingContext" where
  "push_update_nlri net ctx =
     ctx \<lparr> ctx_parsing_errors := (ctx_parsing_errors ctx)
       \<lparr> ie_non_unicast_update_nlri := ie_non_unicast_update_nlri (ctx_parsing_errors ctx) @ [net] \<rparr> \<rparr>"

definition read_net :: "bool \<Rightarrow> (BgpUpdateMessageParsingError, u32 option \<times> ipv4addr \<times> u8) parser" where
  "read_net add_path =
     parse_bind (read_path_id (UpdPE_NomError Nom_Eof) add_path) (\<lambda>path_id.
     parse_bind (parse_into UpdPE_Ipv4PrefixError Ipv4Net_from_wire) (\<lambda>net. parse_return (path_id, net)))"

lemma shrinks_read_net: "shrinks (read_net add_path)"
  unfolding read_net_def by (intro shrinks_bind_right grows_not_path_id shrinks_bind shrinks_parse_into shrinks_nets grows_not_return)

text \<open>The treatment of a network that is not unicast: the context and whether the message is refused.\<close>

definition non_unicast :: "bool \<Rightarrow> ipv4addr \<times> u8 \<Rightarrow> BgpParsingContext \<Rightarrow> BgpParsingContext \<times> bool" where
  "non_unicast is_update net ctx =
     (let ctx1 = (if is_update \<and> ctx_fail_on_non_unicast_update_nlri ctx then push_update_nlri net ctx else ctx)
      in if \<not> is_update \<and> \<not> ctx_fail_on_non_unicast_withdraw_nlri ctx1 then (push_withdraw_nlri net ctx1, False)
         else if is_update \<and> \<not> ctx_fail_on_non_unicast_update_nlri ctx1 then (push_update_nlri net ctx1, False)
         else (ctx1, True))"

function parse_nlri :: "codec_env \<Rightarrow> bool \<Rightarrow> bool \<Rightarrow> BgpParsingContext \<Rightarrow> bytes \<Rightarrow>
    BgpParsingContext \<times> (BgpUpdateMessageParsingError + Ipv4UnicastAddress list)" where
  "parse_nlri env add_path is_update ctx bs =
     (if bs = [] then (ctx, Inr [])
      else
        (case read_net add_path bs of
           Inl e \<Rightarrow> (ctx, Inl e)
         | Inr ((path_id, net), rest) \<Rightarrow>
             (case Ipv4Unicast_from_net env net of
                Inr unicast \<Rightarrow>
                  (case parse_nlri env add_path is_update ctx rest of
                     (ctx, Inl e) \<Rightarrow> (ctx, Inl e)
                   | (ctx, Inr nlri) \<Rightarrow> (ctx, Inr (\<lparr> v4_path_id = path_id, v4_network = unicast \<rparr> # nlri)))
              | Inl err \<Rightarrow>
                  (case non_unicast is_update net ctx of
                     (ctx, True) \<Rightarrow> (ctx, Inl (UpdPE_InvalidIpv4UnicastNetwork err))
                   | (ctx, False) \<Rightarrow> parse_nlri env add_path is_update ctx rest))))"
  by pat_completeness auto

termination
  by (relation "measure (\<lambda>(env, add_path, is_update, ctx, bs). length bs)") (auto dest: shrinksD [OF shrinks_read_net])

declare parse_nlri.simps [simp del]

section \<open>Malformed attributes\<close>

definition advance_attr_buffer :: "(BgpUpdateMessageParsingError, bytes) parser" where
  "advance_attr_buffer =
     parse_bind (be_u8 (UpdPE_NomError Nom_Eof)) (\<lambda>attributes.
     parse_bind (be_u8 (UpdPE_NomError Nom_Eof)) (\<lambda>_.
       attribute_data (UpdPE_NomError Nom_Eof) (flag_set attributes 0x10)))"

definition advance_attr_buffer_fixed :: "nat \<Rightarrow> (BgpUpdateMessageParsingError, bytes) parser" where
  "advance_attr_buffer_fixed n =
     parse_bind (be_u8 (UpdPE_NomError Nom_Eof)) (\<lambda>attributes.
       take_bytes (UpdPE_NomError Nom_Eof) (if flag_set attributes 0x10 then n + 3 else n + 2))"

fun attr_error_skip :: "BgpParsingContext \<Rightarrow> PathAttributeParsingError \<Rightarrow> (BgpUpdateMessageParsingError, bytes) parser" where
  "attr_error_skip ctx PAE_NomError = (\<lambda>_. Inl (UpdPE_PathAttributeError PAE_NomError))"
| "attr_error_skip ctx PAE_OriginError = advance_attr_buffer_fixed 1"
| "attr_error_skip ctx PAE_NextHopError = advance_attr_buffer_fixed 4"
| "attr_error_skip ctx PAE_MultiExitDiscriminatorError = advance_attr_buffer_fixed 4"
| "attr_error_skip ctx PAE_LocalPreferenceError = advance_attr_buffer_fixed 4"
| "attr_error_skip ctx PAE_AtomicAggregateError = advance_attr_buffer_fixed 0"
| "attr_error_skip ctx PAE_AggregatorError = advance_attr_buffer_fixed (if ctx_asn4 ctx then 8 else 6)"
| "attr_error_skip ctx PAE_OriginatorError = advance_attr_buffer_fixed 4"
| "attr_error_skip ctx _ = advance_attr_buffer"

definition handle_path_error ::
    "BgpParsingContext \<Rightarrow> PathAttributeParsingError \<Rightarrow> bytes \<Rightarrow> BgpUpdateMessageParsingError + bytes" where
  "handle_path_error ctx err bs = (case attr_error_skip ctx err bs of Inl e \<Rightarrow> Inl e | Inr (_, rest) \<Rightarrow> Inr rest)"

definition push_path_attr_error :: "PathAttributeParsingError \<Rightarrow> BgpParsingContext \<Rightarrow> BgpParsingContext" where
  "push_path_attr_error err ctx =
     ctx \<lparr> ctx_parsing_errors := (ctx_parsing_errors ctx) \<lparr> ie_path_attr_errors := ie_path_attr_errors (ctx_parsing_errors ctx) @ [err] \<rparr> \<rparr>"

lemma shrinks_advance: "shrinks advance_attr_buffer" "shrinks (advance_attr_buffer_fixed n)"
  unfolding advance_attr_buffer_def advance_attr_buffer_fixed_def
  by (intro shrinks_bind shrinks_be grows_not_bind shrinks_grows_not [OF shrinks_be(1)] grows_not_lengths grows_not_take)+

lemma handle_path_error_shrinks: "handle_path_error ctx err bs = Inr rest \<Longrightarrow> length rest < length bs"
  by (cases err) (auto simp: handle_path_error_def dest: shrinksD [OF shrinks_advance(1)] shrinksD [OF shrinks_advance(2)]
      split: sum.splits if_splits)

section \<open>The message\<close>

function parse_attributes :: "codec_env \<Rightarrow> BgpParsingContext \<Rightarrow> bytes \<Rightarrow>
    BgpParsingContext \<times> (BgpUpdateMessageParsingError + PathAttribute list)" where
  "parse_attributes env ctx bs =
     (if bs = [] then (ctx, Inr [])
      else
        (case PathAttribute_from_wire env ctx bs of
           Inr (element, rest) \<Rightarrow>
             (case parse_attributes env ctx rest of
                (ctx, Inl e) \<Rightarrow> (ctx, Inl e)
              | (ctx, Inr attrs) \<Rightarrow> (ctx, Inr (element # attrs)))
         | Inl err \<Rightarrow>
             if ctx_fail_on_malformed_path_attr ctx then (ctx, Inl (UpdPE_PathAttributeError err))
             else
               (case handle_path_error ctx err bs of
                  Inl e \<Rightarrow> (ctx, Inl e)
                | Inr rest \<Rightarrow> parse_attributes env (push_path_attr_error err ctx) rest)))"
  by pat_completeness auto

termination
  by (relation "measure (\<lambda>(env, ctx, bs). length bs)")
    (auto dest: handle_path_error_shrinks intro: shrinksD [OF attribute.rd_shrinks])

declare parse_attributes.simps [simp del]

text \<open>The path identifiers of the withdrawn and reachable networks are always expected.\<close>

definition BgpUpdateMessage_from_wire :: "codec_env \<Rightarrow> BgpParsingContext \<Rightarrow> bytes \<Rightarrow>
    BgpParsingContext \<times> (BgpUpdateMessageParsingError + BgpUpdateMessage \<times> bytes)" where
  "BgpUpdateMessage_from_wire env ctx bs =
     (case length_data16 (UpdPE_NomError Nom_Eof) bs of
        Inl e \<Rightarrow> (ctx, Inl e)
      | Inr (withdrawn_buf, bs) \<Rightarrow>
     (case parse_nlri env True False ctx withdrawn_buf of
        (ctx, Inl e) \<Rightarrow> (ctx, Inl e)
      | (ctx, Inr withdrawn_routes) \<Rightarrow>
     (case length_data16 (UpdPE_NomError Nom_Eof) bs of
        Inl e \<Rightarrow> (ctx, Inl e)
      | Inr (path_attributes_buf, bs) \<Rightarrow>
     (case parse_attributes env ctx path_attributes_buf of
        (ctx, Inl e) \<Rightarrow> (ctx, Inl e)
      | (ctx, Inr path_attributes) \<Rightarrow>
     (case parse_nlri env True True ctx bs of
        (ctx, Inl e) \<Rightarrow> (ctx, Inl e)
      | (ctx, Inr nlri_vec) \<Rightarrow>
          (ctx, Inr (\<lparr> um_withdrawn_routes = withdrawn_routes, um_path_attributes = path_attributes, um_nlri = nlri_vec \<rparr>, [])))))))"

definition withdrawn_len :: "BgpUpdateMessage \<Rightarrow> nat" where
  "withdrawn_len m = sum_list (map Ipv4UnicastAddress_len (um_withdrawn_routes m))"

definition attrs_len :: "codec_env \<Rightarrow> BgpUpdateMessage \<Rightarrow> nat" where
  "attrs_len env m = sum_list (map (PathAttribute_len env) (um_path_attributes m))"

definition BgpUpdateMessage_len :: "codec_env \<Rightarrow> BgpUpdateMessage \<Rightarrow> nat" where
  "BgpUpdateMessage_len env m = 4 + withdrawn_len m + attrs_len env m + sum_list (map Ipv4UnicastAddress_len (um_nlri m))"

definition BgpUpdateMessage_write :: "codec_env \<Rightarrow> BgpUpdateMessage \<Rightarrow> bytes" where
  "BgpUpdateMessage_write env m =
     to_be_bytes (of_nat (withdrawn_len m) :: u16) @ concat (map (Ipv4UnicastAddress_write env) (um_withdrawn_routes m)) @
     to_be_bytes (of_nat (attrs_len env m) :: u16) @ concat (map (PathAttribute_write env) (um_path_attributes m)) @
     concat (map (Ipv4UnicastAddress_write env) (um_nlri m))"

section \<open>Round trip\<close>

definition update_ok :: "codec_env \<Rightarrow> BgpParsingContext \<Rightarrow> BgpUpdateMessage \<Rightarrow> bool" where
  "update_ok env ctx m \<longleftrightarrow>
     list_all (addr4_ok env True) (um_withdrawn_routes m) \<and> list_all (attr_ok env ctx) (um_path_attributes m) \<and>
     list_all (addr4_ok env True) (um_nlri m) \<and> withdrawn_len m < 65536 \<and> attrs_len env m < 65536"

lemma read_net_written:
  assumes "addr4_ok env True a"
  shows "read_net True (Ipv4UnicastAddress_write env a @ rest) = Inr ((v4_path_id a, v4_network a), rest)"
  using assms path_id_read_written [of "UpdPE_NomError Nom_Eof" "v4_path_id a" "Ipv4Unicast_write env (v4_network a) @ rest"]
    net4_read_written [of env "v4_network a" rest]
  by (simp add: addr4_ok_def read_net_def Ipv4UnicastAddress_write_def parse_bind_def parse_into_def parse_return_def)

lemma parse_nlri_written:
  "list_all (addr4_ok env True) as \<Longrightarrow>
    parse_nlri env True is_update ctx (concat (map (Ipv4UnicastAddress_write env) as)) = (ctx, Inr as)"
proof (induction as)
  case (Cons a as)
  have "Ipv4Unicast_from_net env (v4_network a) = Inr (v4_network a)" using Cons.prems by (simp add: addr4_ok_def net4_ok_def)
  then show ?case using Cons
    by (subst parse_nlri.simps) (simp add: addr4.written_nonempty [where add_path = True] read_net_written)
qed (simp add: parse_nlri.simps)

lemma parse_attributes_written:
  "list_all (attr_ok env ctx) as \<Longrightarrow>
    parse_attributes env ctx (concat (map (PathAttribute_write env) as)) = (ctx, Inr as)"
proof (induction as)
  case (Cons a as)
  then show ?case
    by (subst parse_attributes.simps) (simp add: attribute.written_nonempty [where ctx = ctx] attribute.read_written)
qed (simp add: parse_attributes.simps)

lemma update_lengths:
  assumes "update_ok env ctx m"
  shows "length (concat (map (Ipv4UnicastAddress_write env) (um_withdrawn_routes m))) = withdrawn_len m"
    "length (concat (map (PathAttribute_write env) (um_path_attributes m))) = attrs_len env m"
    "length (BgpUpdateMessage_write env m) = BgpUpdateMessage_len env m"
proof -
  show w: "length (concat (map (Ipv4UnicastAddress_write env) (um_withdrawn_routes m))) = withdrawn_len m"
    and a: "length (concat (map (PathAttribute_write env) (um_path_attributes m))) = attrs_len env m"
    using assms length_concat_sum [OF _ addr_lengths(1)] length_concat_sum [OF _ attribute_length_ok]
    by (auto simp: update_ok_def withdrawn_len_def attrs_len_def)
  show "length (BgpUpdateMessage_write env m) = BgpUpdateMessage_len env m"
    using assms w a addrs_length(1) [of env True "um_nlri m", unfolded nlris_len_def]
    by (simp add: BgpUpdateMessage_write_def BgpUpdateMessage_len_def update_ok_def)
qed

lemma length_data16_at: "length xs = n \<Longrightarrow> n < 65536 \<Longrightarrow> length_data16 e (to_be_bytes (of_nat n :: u16) @ xs @ rest) = Inr (xs, rest)"
  using length_data16_read [of xs e rest] by simp

lemma update_read_written:
  assumes "update_ok env ctx m"
  shows "BgpUpdateMessage_from_wire env ctx (BgpUpdateMessage_write env m) = (ctx, Inr (m, []))"
proof -
  let ?w = "concat (map (Ipv4UnicastAddress_write env) (um_withdrawn_routes m))"
    and ?a = "concat (map (PathAttribute_write env) (um_path_attributes m))"
  have w: "length_data16 (UpdPE_NomError Nom_Eof) (to_be_bytes (of_nat (withdrawn_len m) :: u16) @ ?w @ rest) = Inr (?w, rest)"
    and a: "length_data16 (UpdPE_NomError Nom_Eof) (to_be_bytes (of_nat (attrs_len env m) :: u16) @ ?a @ rest) = Inr (?a, rest)" for rest
    using assms update_lengths [OF assms] by (auto intro!: length_data16_at simp: update_ok_def simp del: length_concat)
  have "\<lparr> um_withdrawn_routes = um_withdrawn_routes m, um_path_attributes = um_path_attributes m, um_nlri = um_nlri m \<rparr> = m" by simp
  then show ?thesis
    using assms unfolding BgpUpdateMessage_from_wire_def BgpUpdateMessage_write_def
    by (simp add: w a update_ok_def parse_nlri_written parse_attributes_written)
qed

end
