(* ===== verification/Wire_Notification.thy ===== *)
theory Wire_Notification
  imports Wire_Base Iana_Codes Bgp_Events
begin

text \<open>
  Reading and writing of NOTIFICATION messages (\<open>notification.rs\<close> under
  \<open>src/netgauze/bgp-pkt/src/wire/deserializer\<close> and \<open>serializer\<close>): an octet for the error, an octet for
  the subcode and the rest as data. Reading takes the whole rest of the buffer.
\<close>

text \<open>\<open>take(buf.len())\<close> after the subcode\<close>

definition read_subcode :: "(u8 \<Rightarrow> u8 + 'c) \<Rightarrow> ('c \<Rightarrow> bytes \<Rightarrow> 'a) \<Rightarrow> (SubcodeParsingError, 'a) parser" where
  "read_subcode try mk =
     parse_bind (map_res (be_u8 Sub_NomError) (\<lambda>v. map_err Sub_Undefined (try v))) (\<lambda>sub_code.
     parse_bind (\<lambda>bs. take_bytes Sub_NomError (length bs) bs) (\<lambda>val. parse_return (mk sub_code val)))"

section \<open>MessageHeaderError\<close>

fun MessageHeaderError_of_code :: "MessageHeaderErrorSubCode \<Rightarrow> bytes \<Rightarrow> MessageHeaderError" where
  "MessageHeaderError_of_code HSC_Unspecific = Hdr_Unspecific"
| "MessageHeaderError_of_code HSC_ConnectionNotSynchronized = Hdr_ConnectionNotSynchronized"
| "MessageHeaderError_of_code HSC_BadMessageLength = Hdr_BadMessageLength"
| "MessageHeaderError_of_code HSC_BadMessageType = Hdr_BadMessageType"

definition MessageHeaderError_from_wire :: "(SubcodeParsingError, MessageHeaderError) parser" where
  "MessageHeaderError_from_wire = read_subcode MessageHeaderErrorSubCode_try_from MessageHeaderError_of_code"

fun MessageHeaderError_len :: "MessageHeaderError \<Rightarrow> nat" where
  "MessageHeaderError_len (Hdr_Unspecific val) = 1 + length val"
| "MessageHeaderError_len (Hdr_ConnectionNotSynchronized val) = 1 + length val"
| "MessageHeaderError_len (Hdr_BadMessageLength val) = 1 + length val"
| "MessageHeaderError_len (Hdr_BadMessageType val) = 1 + length val"

fun MessageHeaderError_write :: "MessageHeaderError \<Rightarrow> bytes" where
  "MessageHeaderError_write (Hdr_Unspecific val) = MessageHeaderErrorSubCode_into_u8 HSC_Unspecific # val"
| "MessageHeaderError_write (Hdr_ConnectionNotSynchronized val) = MessageHeaderErrorSubCode_into_u8 HSC_ConnectionNotSynchronized # val"
| "MessageHeaderError_write (Hdr_BadMessageLength val) = MessageHeaderErrorSubCode_into_u8 HSC_BadMessageLength # val"
| "MessageHeaderError_write (Hdr_BadMessageType val) = MessageHeaderErrorSubCode_into_u8 HSC_BadMessageType # val"

section \<open>OpenMessageError\<close>

fun OpenMessageError_of_code :: "OpenMessageErrorSubCode \<Rightarrow> bytes \<Rightarrow> OpenMessageError" where
  "OpenMessageError_of_code OSC_Unspecific = Opn_Unspecific"
| "OpenMessageError_of_code OSC_UnsupportedVersionNumber = Opn_UnsupportedVersionNumber"
| "OpenMessageError_of_code OSC_BadPeerAs = Opn_BadPeerAs"
| "OpenMessageError_of_code OSC_BadBgpIdentifier = Opn_BadBgpIdentifier"
| "OpenMessageError_of_code OSC_UnsupportedOptionalParameter = Opn_UnsupportedOptionalParameter"
| "OpenMessageError_of_code OSC_UnacceptableHoldTime = Opn_UnacceptableHoldTime"
| "OpenMessageError_of_code OSC_UnsupportedCapability = Opn_UnsupportedCapability"
| "OpenMessageError_of_code OSC_RoleMismatch = Opn_RoleMismatch"

definition OpenMessageError_from_wire :: "(SubcodeParsingError, OpenMessageError) parser" where
  "OpenMessageError_from_wire = read_subcode OpenMessageErrorSubCode_try_from OpenMessageError_of_code"

fun OpenMessageError_len :: "OpenMessageError \<Rightarrow> nat" where
  "OpenMessageError_len (Opn_Unspecific val) = 1 + length val"
| "OpenMessageError_len (Opn_UnsupportedVersionNumber val) = 1 + length val"
| "OpenMessageError_len (Opn_BadPeerAs val) = 1 + length val"
| "OpenMessageError_len (Opn_BadBgpIdentifier val) = 1 + length val"
| "OpenMessageError_len (Opn_UnsupportedOptionalParameter val) = 1 + length val"
| "OpenMessageError_len (Opn_UnacceptableHoldTime val) = 1 + length val"
| "OpenMessageError_len (Opn_UnsupportedCapability val) = 1 + length val"
| "OpenMessageError_len (Opn_RoleMismatch val) = 1 + length val"

fun OpenMessageError_write :: "OpenMessageError \<Rightarrow> bytes" where
  "OpenMessageError_write (Opn_Unspecific val) = OpenMessageErrorSubCode_into_u8 OSC_Unspecific # val"
| "OpenMessageError_write (Opn_UnsupportedVersionNumber val) = OpenMessageErrorSubCode_into_u8 OSC_UnsupportedVersionNumber # val"
| "OpenMessageError_write (Opn_BadPeerAs val) = OpenMessageErrorSubCode_into_u8 OSC_BadPeerAs # val"
| "OpenMessageError_write (Opn_BadBgpIdentifier val) = OpenMessageErrorSubCode_into_u8 OSC_BadBgpIdentifier # val"
| "OpenMessageError_write (Opn_UnsupportedOptionalParameter val) = OpenMessageErrorSubCode_into_u8 OSC_UnsupportedOptionalParameter # val"
| "OpenMessageError_write (Opn_UnacceptableHoldTime val) = OpenMessageErrorSubCode_into_u8 OSC_UnacceptableHoldTime # val"
| "OpenMessageError_write (Opn_UnsupportedCapability val) = OpenMessageErrorSubCode_into_u8 OSC_UnsupportedCapability # val"
| "OpenMessageError_write (Opn_RoleMismatch val) = OpenMessageErrorSubCode_into_u8 OSC_RoleMismatch # val"

section \<open>UpdateMessageError\<close>

fun UpdateMessageError_of_code :: "UpdateMessageErrorSubCode \<Rightarrow> bytes \<Rightarrow> UpdateMessageError" where
  "UpdateMessageError_of_code USC_Unspecific = Upd_Unspecific"
| "UpdateMessageError_of_code USC_MalformedAttributeList = Upd_MalformedAttributeList"
| "UpdateMessageError_of_code USC_UnrecognizedWellKnownAttribute = Upd_UnrecognizedWellKnownAttribute"
| "UpdateMessageError_of_code USC_MissingWellKnownAttribute = Upd_MissingWellKnownAttribute"
| "UpdateMessageError_of_code USC_AttributeFlagsError = Upd_AttributeFlagsError"
| "UpdateMessageError_of_code USC_AttributeLengthError = Upd_AttributeLengthError"
| "UpdateMessageError_of_code USC_InvalidOriginAttribute = Upd_InvalidOriginAttribute"
| "UpdateMessageError_of_code USC_InvalidNextHopAttribute = Upd_InvalidNextHopAttribute"
| "UpdateMessageError_of_code USC_OptionalAttributeError = Upd_OptionalAttributeError"
| "UpdateMessageError_of_code USC_InvalidNetworkField = Upd_InvalidNetworkField"
| "UpdateMessageError_of_code USC_MalformedAsPath = Upd_MalformedAsPath"

definition UpdateMessageError_from_wire :: "(SubcodeParsingError, UpdateMessageError) parser" where
  "UpdateMessageError_from_wire = read_subcode UpdateMessageErrorSubCode_try_from UpdateMessageError_of_code"

fun UpdateMessageError_len :: "UpdateMessageError \<Rightarrow> nat" where
  "UpdateMessageError_len (Upd_Unspecific val) = 1 + length val"
| "UpdateMessageError_len (Upd_MalformedAttributeList val) = 1 + length val"
| "UpdateMessageError_len (Upd_UnrecognizedWellKnownAttribute val) = 1 + length val"
| "UpdateMessageError_len (Upd_MissingWellKnownAttribute val) = 1 + length val"
| "UpdateMessageError_len (Upd_AttributeFlagsError val) = 1 + length val"
| "UpdateMessageError_len (Upd_AttributeLengthError val) = 1 + length val"
| "UpdateMessageError_len (Upd_InvalidOriginAttribute val) = 1 + length val"
| "UpdateMessageError_len (Upd_InvalidNextHopAttribute val) = 1 + length val"
| "UpdateMessageError_len (Upd_OptionalAttributeError val) = 1 + length val"
| "UpdateMessageError_len (Upd_InvalidNetworkField val) = 1 + length val"
| "UpdateMessageError_len (Upd_MalformedAsPath val) = 1 + length val"

fun UpdateMessageError_write :: "UpdateMessageError \<Rightarrow> bytes" where
  "UpdateMessageError_write (Upd_Unspecific val) = UpdateMessageErrorSubCode_into_u8 USC_Unspecific # val"
| "UpdateMessageError_write (Upd_MalformedAttributeList val) = UpdateMessageErrorSubCode_into_u8 USC_MalformedAttributeList # val"
| "UpdateMessageError_write (Upd_UnrecognizedWellKnownAttribute val) = UpdateMessageErrorSubCode_into_u8 USC_UnrecognizedWellKnownAttribute # val"
| "UpdateMessageError_write (Upd_MissingWellKnownAttribute val) = UpdateMessageErrorSubCode_into_u8 USC_MissingWellKnownAttribute # val"
| "UpdateMessageError_write (Upd_AttributeFlagsError val) = UpdateMessageErrorSubCode_into_u8 USC_AttributeFlagsError # val"
| "UpdateMessageError_write (Upd_AttributeLengthError val) = UpdateMessageErrorSubCode_into_u8 USC_AttributeLengthError # val"
| "UpdateMessageError_write (Upd_InvalidOriginAttribute val) = UpdateMessageErrorSubCode_into_u8 USC_InvalidOriginAttribute # val"
| "UpdateMessageError_write (Upd_InvalidNextHopAttribute val) = UpdateMessageErrorSubCode_into_u8 USC_InvalidNextHopAttribute # val"
| "UpdateMessageError_write (Upd_OptionalAttributeError val) = UpdateMessageErrorSubCode_into_u8 USC_OptionalAttributeError # val"
| "UpdateMessageError_write (Upd_InvalidNetworkField val) = UpdateMessageErrorSubCode_into_u8 USC_InvalidNetworkField # val"
| "UpdateMessageError_write (Upd_MalformedAsPath val) = UpdateMessageErrorSubCode_into_u8 USC_MalformedAsPath # val"

section \<open>FiniteStateMachineError\<close>

fun FiniteStateMachineError_of_code :: "FiniteStateMachineErrorSubCode \<Rightarrow> bytes \<Rightarrow> FiniteStateMachineError" where
  "FiniteStateMachineError_of_code FSC_UnspecifiedError = Fsm_Unspecific"
| "FiniteStateMachineError_of_code FSC_ReceiveUnexpectedMessageInOpenSentState = Fsm_ReceiveUnexpectedMessageInOpenSentState"
| "FiniteStateMachineError_of_code FSC_ReceiveUnexpectedMessageInOpenConfirmState = Fsm_ReceiveUnexpectedMessageInOpenConfirmState"
| "FiniteStateMachineError_of_code FSC_ReceiveUnexpectedMessageInEstablishedState = Fsm_ReceiveUnexpectedMessageInEstablishedState"

definition FiniteStateMachineError_from_wire :: "(SubcodeParsingError, FiniteStateMachineError) parser" where
  "FiniteStateMachineError_from_wire = read_subcode FiniteStateMachineErrorSubCode_try_from FiniteStateMachineError_of_code"

fun FiniteStateMachineError_len :: "FiniteStateMachineError \<Rightarrow> nat" where
  "FiniteStateMachineError_len (Fsm_Unspecific val) = 1 + length val"
| "FiniteStateMachineError_len (Fsm_ReceiveUnexpectedMessageInOpenSentState val) = 1 + length val"
| "FiniteStateMachineError_len (Fsm_ReceiveUnexpectedMessageInOpenConfirmState val) = 1 + length val"
| "FiniteStateMachineError_len (Fsm_ReceiveUnexpectedMessageInEstablishedState val) = 1 + length val"

fun FiniteStateMachineError_write :: "FiniteStateMachineError \<Rightarrow> bytes" where
  "FiniteStateMachineError_write (Fsm_Unspecific val) = FiniteStateMachineErrorSubCode_into_u8 FSC_UnspecifiedError # val"
| "FiniteStateMachineError_write (Fsm_ReceiveUnexpectedMessageInOpenSentState val) = FiniteStateMachineErrorSubCode_into_u8 FSC_ReceiveUnexpectedMessageInOpenSentState # val"
| "FiniteStateMachineError_write (Fsm_ReceiveUnexpectedMessageInOpenConfirmState val) = FiniteStateMachineErrorSubCode_into_u8 FSC_ReceiveUnexpectedMessageInOpenConfirmState # val"
| "FiniteStateMachineError_write (Fsm_ReceiveUnexpectedMessageInEstablishedState val) = FiniteStateMachineErrorSubCode_into_u8 FSC_ReceiveUnexpectedMessageInEstablishedState # val"

section \<open>CeaseError\<close>

fun CeaseError_of_code :: "CeaseErrorSubCode \<Rightarrow> bytes \<Rightarrow> CeaseError" where
  "CeaseError_of_code CSC_MaximumNumberOfPrefixesReached = Cease_MaximumNumberOfPrefixesReached"
| "CeaseError_of_code CSC_AdministrativeShutdown = Cease_AdministrativeShutdown"
| "CeaseError_of_code CSC_PeerDeConfigured = Cease_PeerDeConfigured"
| "CeaseError_of_code CSC_AdministrativeReset = Cease_AdministrativeReset"
| "CeaseError_of_code CSC_ConnectionRejected = Cease_ConnectionRejected"
| "CeaseError_of_code CSC_OtherConfigurationChange = Cease_OtherConfigurationChange"
| "CeaseError_of_code CSC_ConnectionCollisionResolution = Cease_ConnectionCollisionResolution"
| "CeaseError_of_code CSC_OutOfResources = Cease_OutOfResources"
| "CeaseError_of_code CSC_HardReset = Cease_HardReset"
| "CeaseError_of_code CSC_BfdDown = Cease_BfdDown"

definition CeaseError_from_wire :: "(SubcodeParsingError, CeaseError) parser" where
  "CeaseError_from_wire = read_subcode CeaseErrorSubCode_try_from CeaseError_of_code"

fun CeaseError_len :: "CeaseError \<Rightarrow> nat" where
  "CeaseError_len (Cease_MaximumNumberOfPrefixesReached val) = 1 + length val"
| "CeaseError_len (Cease_AdministrativeShutdown val) = 1 + length val"
| "CeaseError_len (Cease_PeerDeConfigured val) = 1 + length val"
| "CeaseError_len (Cease_AdministrativeReset val) = 1 + length val"
| "CeaseError_len (Cease_ConnectionRejected val) = 1 + length val"
| "CeaseError_len (Cease_OtherConfigurationChange val) = 1 + length val"
| "CeaseError_len (Cease_ConnectionCollisionResolution val) = 1 + length val"
| "CeaseError_len (Cease_OutOfResources val) = 1 + length val"
| "CeaseError_len (Cease_HardReset val) = 1 + length val"
| "CeaseError_len (Cease_BfdDown val) = 1 + length val"

fun CeaseError_write :: "CeaseError \<Rightarrow> bytes" where
  "CeaseError_write (Cease_MaximumNumberOfPrefixesReached val) = CeaseErrorSubCode_into_u8 CSC_MaximumNumberOfPrefixesReached # val"
| "CeaseError_write (Cease_AdministrativeShutdown val) = CeaseErrorSubCode_into_u8 CSC_AdministrativeShutdown # val"
| "CeaseError_write (Cease_PeerDeConfigured val) = CeaseErrorSubCode_into_u8 CSC_PeerDeConfigured # val"
| "CeaseError_write (Cease_AdministrativeReset val) = CeaseErrorSubCode_into_u8 CSC_AdministrativeReset # val"
| "CeaseError_write (Cease_ConnectionRejected val) = CeaseErrorSubCode_into_u8 CSC_ConnectionRejected # val"
| "CeaseError_write (Cease_OtherConfigurationChange val) = CeaseErrorSubCode_into_u8 CSC_OtherConfigurationChange # val"
| "CeaseError_write (Cease_ConnectionCollisionResolution val) = CeaseErrorSubCode_into_u8 CSC_ConnectionCollisionResolution # val"
| "CeaseError_write (Cease_OutOfResources val) = CeaseErrorSubCode_into_u8 CSC_OutOfResources # val"
| "CeaseError_write (Cease_HardReset val) = CeaseErrorSubCode_into_u8 CSC_HardReset # val"
| "CeaseError_write (Cease_BfdDown val) = CeaseErrorSubCode_into_u8 CSC_BfdDown # val"

section \<open>RouteRefreshError\<close>

fun RouteRefreshError_of_code :: "RouteRefreshMessageErrorSubCode \<Rightarrow> bytes \<Rightarrow> RouteRefreshError" where
  "RouteRefreshError_of_code RSC_InvalidMessageLength = Rr_InvalidMessageLength"

definition RouteRefreshError_from_wire :: "(SubcodeParsingError, RouteRefreshError) parser" where
  "RouteRefreshError_from_wire = read_subcode RouteRefreshMessageErrorSubCode_try_from RouteRefreshError_of_code"

fun RouteRefreshError_len :: "RouteRefreshError \<Rightarrow> nat" where
  "RouteRefreshError_len (Rr_InvalidMessageLength val) = 1 + length val"

fun RouteRefreshError_write :: "RouteRefreshError \<Rightarrow> bytes" where
  "RouteRefreshError_write (Rr_InvalidMessageLength val) = RouteRefreshMessageErrorSubCode_into_u8 RSC_InvalidMessageLength # val"

section \<open>HoldTimerExpiredError\<close>

definition HoldTimerExpiredError_from_wire :: "(SubcodeParsingError, HoldTimerExpiredError) parser" where
  "HoldTimerExpiredError_from_wire = read_subcode Inr Hold_Unspecific"

fun HoldTimerExpiredError_len :: "HoldTimerExpiredError \<Rightarrow> nat" where
  "HoldTimerExpiredError_len (Hold_Unspecific sub_code val) = 1 + length val"

fun HoldTimerExpiredError_write :: "HoldTimerExpiredError \<Rightarrow> bytes" where
  "HoldTimerExpiredError_write (Hold_Unspecific sub_code val) = sub_code # val"

section \<open>The message\<close>

definition read_notification :: "(SubcodeParsingError \<Rightarrow> BgpNotificationMessageParsingError) \<Rightarrow>
    (SubcodeParsingError, 'a) parser \<Rightarrow> ('a \<Rightarrow> BgpNotificationMessage) \<Rightarrow>
    (BgpNotificationMessageParsingError, BgpNotificationMessage) parser" where
  "read_notification err p mk = parse_bind (parse_into err p) (\<lambda>val. parse_return (mk val))"

fun notification_value :: "BgpErrorNotificationCode \<Rightarrow> (BgpNotificationMessageParsingError, BgpNotificationMessage) parser" where
  "notification_value NC_MessageHeaderError = read_notification NotPE_MessageHeaderError MessageHeaderError_from_wire Notif_MessageHeaderError"
| "notification_value NC_OpenMessageError = read_notification NotPE_OpenMessageError OpenMessageError_from_wire Notif_OpenMessageError"
| "notification_value NC_UpdateMessageError = read_notification NotPE_UpdateMessageError UpdateMessageError_from_wire Notif_UpdateMessageError"
| "notification_value NC_HoldTimerExpired = read_notification NotPE_HoldTimerExpiredError HoldTimerExpiredError_from_wire Notif_HoldTimerExpiredError"
| "notification_value NC_FiniteStateMachineError = read_notification NotPE_FiniteStateMachineError FiniteStateMachineError_from_wire Notif_FiniteStateMachineError"
| "notification_value NC_Cease = read_notification NotPE_CeaseError CeaseError_from_wire Notif_CeaseError"
| "notification_value NC_RouteRefreshMessageError = read_notification NotPE_RouteRefreshError RouteRefreshError_from_wire Notif_RouteRefreshError"

definition BgpNotificationMessage_from_wire :: "(BgpNotificationMessageParsingError, BgpNotificationMessage) parser" where
  "BgpNotificationMessage_from_wire =
     parse_bind
       (map_res (be_u8 NotPE_NomError) (\<lambda>v. map_err NotPE_UndefinedBgpErrorNotificationCode (BgpErrorNotificationCode_try_from v)))
       notification_value"

fun BgpNotificationMessage_len :: "BgpNotificationMessage \<Rightarrow> nat" where
  "BgpNotificationMessage_len (Notif_MessageHeaderError e) = 1 + MessageHeaderError_len e"
| "BgpNotificationMessage_len (Notif_OpenMessageError e) = 1 + OpenMessageError_len e"
| "BgpNotificationMessage_len (Notif_UpdateMessageError e) = 1 + UpdateMessageError_len e"
| "BgpNotificationMessage_len (Notif_HoldTimerExpiredError e) = 1 + HoldTimerExpiredError_len e"
| "BgpNotificationMessage_len (Notif_FiniteStateMachineError e) = 1 + FiniteStateMachineError_len e"
| "BgpNotificationMessage_len (Notif_CeaseError e) = 1 + CeaseError_len e"
| "BgpNotificationMessage_len (Notif_RouteRefreshError e) = 1 + RouteRefreshError_len e"

fun BgpNotificationMessage_write :: "BgpNotificationMessage \<Rightarrow> bytes" where
  "BgpNotificationMessage_write (Notif_MessageHeaderError e) = BgpErrorNotificationCode_into_u8 NC_MessageHeaderError # MessageHeaderError_write e"
| "BgpNotificationMessage_write (Notif_OpenMessageError e) = BgpErrorNotificationCode_into_u8 NC_OpenMessageError # OpenMessageError_write e"
| "BgpNotificationMessage_write (Notif_UpdateMessageError e) = BgpErrorNotificationCode_into_u8 NC_UpdateMessageError # UpdateMessageError_write e"
| "BgpNotificationMessage_write (Notif_HoldTimerExpiredError e) = BgpErrorNotificationCode_into_u8 NC_HoldTimerExpired # HoldTimerExpiredError_write e"
| "BgpNotificationMessage_write (Notif_FiniteStateMachineError e) = BgpErrorNotificationCode_into_u8 NC_FiniteStateMachineError # FiniteStateMachineError_write e"
| "BgpNotificationMessage_write (Notif_CeaseError e) = BgpErrorNotificationCode_into_u8 NC_Cease # CeaseError_write e"
| "BgpNotificationMessage_write (Notif_RouteRefreshError e) = BgpErrorNotificationCode_into_u8 NC_RouteRefreshMessageError # RouteRefreshError_write e"

section \<open>Round trips\<close>

lemma read_subcode_written:
  "try v = Inr c \<Longrightarrow> read_subcode try mk (v # val) = Inr (mk c val, [])"
  by (simp add: read_subcode_def parse_bind_def map_res_def map_err_def parse_return_def)

interpretation MessageHeaderError: body_codec MessageHeaderError_write MessageHeaderError_from_wire "\<lambda>_. True"
proof
  show "MessageHeaderError_from_wire (MessageHeaderError_write e) = Inr (e, [])" for e
    supply MessageHeaderErrorSubCode_into_u8.simps [simp del]
    by (cases e) (simp_all add: MessageHeaderError_from_wire_def read_subcode_written)
qed

interpretation OpenMessageError: body_codec OpenMessageError_write OpenMessageError_from_wire "\<lambda>_. True"
proof
  show "OpenMessageError_from_wire (OpenMessageError_write e) = Inr (e, [])" for e
    supply OpenMessageErrorSubCode_into_u8.simps [simp del]
    by (cases e) (simp_all add: OpenMessageError_from_wire_def read_subcode_written)
qed

interpretation UpdateMessageError: body_codec UpdateMessageError_write UpdateMessageError_from_wire "\<lambda>_. True"
proof
  show "UpdateMessageError_from_wire (UpdateMessageError_write e) = Inr (e, [])" for e
    supply UpdateMessageErrorSubCode_into_u8.simps [simp del]
    by (cases e) (simp_all add: UpdateMessageError_from_wire_def read_subcode_written)
qed

interpretation FiniteStateMachineError: body_codec FiniteStateMachineError_write FiniteStateMachineError_from_wire "\<lambda>_. True"
proof
  show "FiniteStateMachineError_from_wire (FiniteStateMachineError_write e) = Inr (e, [])" for e
    supply FiniteStateMachineErrorSubCode_into_u8.simps [simp del]
    by (cases e) (simp_all add: FiniteStateMachineError_from_wire_def read_subcode_written)
qed

interpretation CeaseError: body_codec CeaseError_write CeaseError_from_wire "\<lambda>_. True"
proof
  show "CeaseError_from_wire (CeaseError_write e) = Inr (e, [])" for e
    supply CeaseErrorSubCode_into_u8.simps [simp del]
    by (cases e) (simp_all add: CeaseError_from_wire_def read_subcode_written)
qed

interpretation RouteRefreshError: body_codec RouteRefreshError_write RouteRefreshError_from_wire "\<lambda>_. True"
proof
  show "RouteRefreshError_from_wire (RouteRefreshError_write e) = Inr (e, [])" for e
    supply RouteRefreshMessageErrorSubCode_into_u8.simps [simp del]
    by (cases e) (simp_all add: RouteRefreshError_from_wire_def read_subcode_written)
qed

interpretation HoldTimerExpiredError: body_codec HoldTimerExpiredError_write HoldTimerExpiredError_from_wire "\<lambda>_. True"
proof
  show "HoldTimerExpiredError_from_wire (HoldTimerExpiredError_write e) = Inr (e, [])" for e
    by (cases e) (simp add: HoldTimerExpiredError_from_wire_def read_subcode_written)
qed

lemma read_notification_written:
  "p bs = Inr (e, []) \<Longrightarrow> read_notification err p mk bs = Inr (mk e, [])"
  by (simp add: read_notification_def parse_bind_def parse_into_def parse_return_def)

interpretation notification: body_codec BgpNotificationMessage_write BgpNotificationMessage_from_wire "\<lambda>_. True"
proof
  show "BgpNotificationMessage_from_wire (BgpNotificationMessage_write m) = Inr (m, [])" for m
    supply BgpErrorNotificationCode_into_u8.simps [simp del]
    by (cases m) (simp_all add: BgpNotificationMessage_from_wire_def parse_bind_def map_res_def map_err_def read_notification_written
        MessageHeaderError.read_body OpenMessageError.read_body UpdateMessageError.read_body HoldTimerExpiredError.read_body
        FiniteStateMachineError.read_body CeaseError.read_body RouteRefreshError.read_body)
qed

lemma notification_length: "length (BgpNotificationMessage_write m) = BgpNotificationMessage_len m"
proof (cases m)
  case (Notif_MessageHeaderError e)
  then show ?thesis by (cases e) simp_all
next
  case (Notif_OpenMessageError e)
  then show ?thesis by (cases e) simp_all
next
  case (Notif_UpdateMessageError e)
  then show ?thesis by (cases e) simp_all
next
  case (Notif_HoldTimerExpiredError e)
  then show ?thesis by (cases e) simp_all
next
  case (Notif_FiniteStateMachineError e)
  then show ?thesis by (cases e) simp_all
next
  case (Notif_CeaseError e)
  then show ?thesis by (cases e) simp_all
next
  case (Notif_RouteRefreshError e)
  then show ?thesis by (cases e) simp_all
qed

end
