(* ===== verification/Wire_Message.thy ===== *)
theory Wire_Message
  imports Wire_Update Wire_Notification
begin

text \<open>
  Messages on the wire (\<open>deserializer/mod.rs\<close> and \<open>serializer/mod.rs\<close> of
  \<open>src/netgauze/bgp-pkt/src/wire\<close>, \<open>route_refresh.rs\<close> below them) and the codec of a connection
  (\<open>src/netgauze/bgp-pkt/src/codec.rs\<close>), which cuts the stream into messages and follows whether both
  peers have announced four-octet AS numbers.
\<close>

section \<open>ROUTE-REFRESH\<close>

definition BgpRouteRefreshMessage_from_wire :: "(BgpRouteRefreshMessageParsingError, BgpRouteRefreshMessage) parser" where
  "BgpRouteRefreshMessage_from_wire =
     parse_bind (map_res (be_u16 RrPE_NomError) (\<lambda>v. map_err RrPE_UndefinedAddressFamily (AddressFamily_try_from v))) (\<lambda>afi.
     parse_bind (map_res (be_u8 RrPE_NomError) (\<lambda>v. map_err RrPE_UndefinedOperation (RouteRefreshSubcode_try_from v))) (\<lambda>operation.
     parse_bind (map_res (be_u8 RrPE_NomError) (\<lambda>v. map_err RrPE_UndefinedSubsequentAddressFamily (SubsequentAddressFamily_try_from v))) (\<lambda>safi bs.
       case from_afi_safi afi safi of
         Inr address_type \<Rightarrow> Inr (\<lparr> rr_address_type = address_type, rr_operation_type = operation \<rparr>, bs)
       | Inl (a, s) \<Rightarrow> Inl (RrPE_InvalidAddressType a s))))"

definition BgpRouteRefreshMessage_write :: "BgpRouteRefreshMessage \<Rightarrow> bytes" where
  "BgpRouteRefreshMessage_write m =
     to_be_bytes (AddressFamily_into_u16 (address_family (rr_address_type m))) @
     [RouteRefreshSubcode_into_u8 (rr_operation_type m), SubsequentAddressFamily_into_u8 (subsequent_address_family (rr_address_type m))]"

interpretation route_refresh: wire_codec BgpRouteRefreshMessage_write BgpRouteRefreshMessage_from_wire "\<lambda>_. True"
proof
  show "BgpRouteRefreshMessage_from_wire (BgpRouteRefreshMessage_write m @ rest) = Inr (m, rest)" for m rest
    by (cases m) (simp add: BgpRouteRefreshMessage_from_wire_def BgpRouteRefreshMessage_write_def parse_bind_def map_res_def map_err_def)
qed

section \<open>Messages\<close>

definition BGP_MIN_MESSAGE_LENGTH :: u16 where
  "BGP_MIN_MESSAGE_LENGTH = 19"

definition BGP_MAX_MESSAGE_LENGTH :: u16 where
  "BGP_MAX_MESSAGE_LENGTH = 4096"

text \<open>The length, the type, the rest of the message and what follows it.\<close>

definition parse_bgp_message_length_and_type :: "bytes \<Rightarrow> BgpMessageParsingError + (u16 \<times> BgpMessageType \<times> bytes) \<times> bytes" where
  "parse_bgp_message_length_and_type bs =
     (case be_u16 MsgPE_NomError bs of
        Inl e \<Rightarrow> Inl e
      | Inr (l, bs) \<Rightarrow>
          if l < BGP_MIN_MESSAGE_LENGTH then Inl (MsgPE_BadMessageLength l)
          else
            (case take_bytes (MsgPE_BadMessageLength l) (unat (l - 18)) bs of
               Inl e \<Rightarrow> Inl e
             | Inr (buf, remainder_buf) \<Rightarrow>
                 (case map_res (be_u8 MsgPE_NomError) (\<lambda>v. map_err MsgPE_UndefinedBgpMessageType (BgpMessageType_try_from v)) buf of
                    Inl e \<Rightarrow> Inl e
                  | Inr (message_type, buf) \<Rightarrow>
                      if message_type \<in> {MT_Open, MT_KeepAlive} \<and> \<not> (BGP_MIN_MESSAGE_LENGTH \<le> l \<and> l \<le> BGP_MAX_MESSAGE_LENGTH)
                      then Inl (MsgPE_BadMessageLength l)
                      else Inr ((l, message_type, remainder_buf), buf))))"

definition body_from_wire :: "codec_env \<Rightarrow> BgpMessageType \<Rightarrow> BgpParsingContext \<Rightarrow> bytes \<Rightarrow>
    BgpParsingContext \<times> (BgpMessageParsingError + BgpMessage \<times> bytes)" where
  "body_from_wire env message_type ctx bs =
     (case message_type of
        MT_Open \<Rightarrow>
          (case BgpOpenMessage_from_wire ctx bs of
             (ctx, Inl e) \<Rightarrow> (ctx, Inl (MsgPE_Open e)) | (ctx, Inr (opn, bs)) \<Rightarrow> (ctx, Inr (MsgOpen opn, bs)))
      | MT_Update \<Rightarrow>
          (case BgpUpdateMessage_from_wire env ctx bs of
             (ctx, Inl e) \<Rightarrow> (ctx, Inl (MsgPE_Update e)) | (ctx, Inr (upd, bs)) \<Rightarrow> (ctx, Inr (MsgUpdate upd, bs)))
      | MT_Notification \<Rightarrow>
          (case BgpNotificationMessage_from_wire bs of
             Inl e \<Rightarrow> (ctx, Inl (MsgPE_Notification e)) | Inr (notif, bs) \<Rightarrow> (ctx, Inr (MsgNotification notif, bs)))
      | MT_KeepAlive \<Rightarrow> (ctx, Inr (MsgKeepAlive, bs))
      | MT_RouteRefresh \<Rightarrow>
          (case BgpRouteRefreshMessage_from_wire bs of
             Inl e \<Rightarrow> (ctx, Inl (MsgPE_RouteRefresh e)) | Inr (refresh, bs) \<Rightarrow> (ctx, Inr (MsgRouteRefresh refresh, bs))))"

definition BgpMessage_from_wire :: "codec_env \<Rightarrow> BgpParsingContext \<Rightarrow> bytes \<Rightarrow>
    BgpParsingContext \<times> (BgpMessageParsingError + BgpMessage \<times> bytes)" where
  "BgpMessage_from_wire env ctx bs =
     (case map_res (be_u128 MsgPE_NomError) (\<lambda>x. if x = - 1 then Inr x else Inl (MsgPE_ConnectionNotSynchronized x)) bs of
        Inl e \<Rightarrow> (ctx, Inl e)
      | Inr (_, bs) \<Rightarrow>
          (case parse_bgp_message_length_and_type bs of
             Inl e \<Rightarrow> (ctx, Inl e)
           | Inr ((_, message_type, remainder_buf), bs) \<Rightarrow>
               (case body_from_wire env message_type ctx bs of
                  (ctx, Inl e) \<Rightarrow> (ctx, Inl e)
                | (ctx, Inr (msg, bs)) \<Rightarrow> if bs \<noteq> [] then (ctx, Inl MsgPE_NomError) else (ctx, Inr (msg, remainder_buf)))))"

fun BgpMessage_type :: "BgpMessage \<Rightarrow> BgpMessageType" where
  "BgpMessage_type (MsgOpen _) = MT_Open"
| "BgpMessage_type (MsgUpdate _) = MT_Update"
| "BgpMessage_type (MsgNotification _) = MT_Notification"
| "BgpMessage_type MsgKeepAlive = MT_KeepAlive"
| "BgpMessage_type (MsgRouteRefresh _) = MT_RouteRefresh"

fun body_len :: "codec_env \<Rightarrow> BgpMessage \<Rightarrow> nat" where
  "body_len env (MsgOpen opn) = BgpOpenMessage_len opn"
| "body_len env (MsgUpdate upd) = BgpUpdateMessage_len env upd"
| "body_len env (MsgNotification notif) = BgpNotificationMessage_len notif"
| "body_len env MsgKeepAlive = 0"
| "body_len env (MsgRouteRefresh _) = 4"

definition BgpMessage_len :: "codec_env \<Rightarrow> BgpMessage \<Rightarrow> nat" where
  "BgpMessage_len env msg = 19 + body_len env msg"

fun body_write :: "codec_env \<Rightarrow> BgpMessage \<Rightarrow> bytes" where
  "body_write env (MsgOpen opn) = BgpOpenMessage_write opn"
| "body_write env (MsgUpdate upd) = BgpUpdateMessage_write env upd"
| "body_write env (MsgNotification notif) = BgpNotificationMessage_write notif"
| "body_write env MsgKeepAlive = []"
| "body_write env (MsgRouteRefresh refresh) = BgpRouteRefreshMessage_write refresh"

text \<open>
  A writer fails if a message that has to be short is too long, or in an UPDATE if a network carries too
  many labels. What was written before such an error is not modelled.
\<close>

datatype BgpMessageWritingError = BgpMessageLengthOverflow nat | UpdateWritingError

fun body_writable :: "codec_env \<Rightarrow> BgpMessage \<Rightarrow> bool" where
  "body_writable env (MsgUpdate upd) = list_all (\<lambda>attr. value_writable env (pa_value attr)) (um_path_attributes upd)"
| "body_writable env _ = True"

definition BgpMessage_write :: "codec_env \<Rightarrow> BgpMessage \<Rightarrow> BgpMessageWritingError + bytes" where
  "BgpMessage_write env msg =
     (let l = BgpMessage_len env msg
      in if BgpMessage_type msg \<in> {MT_Open, MT_KeepAlive} \<and> l > unat BGP_MAX_MESSAGE_LENGTH
         then Inl (BgpMessageLengthOverflow l)
         else if \<not> body_writable env msg then Inl UpdateWritingError
         else Inr (to_be_bytes (- 1 :: u128) @ to_be_bytes (of_nat l :: u16) @
                   [BgpMessageType_into_u8 (BgpMessage_type msg)] @ body_write env msg))"

section \<open>The codec\<close>

record BgpCodec =
  codec_asn4_sent :: "bool option"
  codec_asn4_received :: "bool option"
  codec_ctx :: BgpParsingContext

definition BgpCodec_default :: BgpCodec where
  "BgpCodec_default = \<lparr> codec_asn4_sent = None, codec_asn4_received = None, codec_ctx = BgpParsingContext_default \<rparr>"

definition BgpCodec_new :: "bool \<Rightarrow> BgpCodec" where
  "BgpCodec_new asn4 =
     \<lparr> codec_asn4_sent = Some asn4, codec_asn4_received = Some asn4,
       codec_ctx = BgpParsingContext_new True (\<lambda>_. None) (\<lambda>_. None) False False False False \<rparr>"

definition has_four_octet_as :: "BgpOpenMessage \<Rightarrow> bool" where
  "has_four_octet_as opn = list_ex (\<lambda>cap. case cap of Cap_FourOctetAs _ \<Rightarrow> True | _ \<Rightarrow> False) (open_capabilities opn)"

definition codec_asn4 :: "BgpCodec \<Rightarrow> bool" where
  "codec_asn4 c \<longleftrightarrow> codec_asn4_received c = Some True \<and> codec_asn4_sent c = Some True"

text \<open>The context that a message is read with.\<close>

definition decode_ctx :: "BgpCodec \<Rightarrow> BgpParsingContext" where
  "decode_ctx c = (codec_ctx c) \<lparr> ctx_asn4 := codec_asn4 c \<rparr>"

definition declared_length :: "bytes \<Rightarrow> nat" where
  "declared_length buf = unat (from_be_bytes (take 2 (drop 16 buf)) :: u16)"

definition BgpCodec_decode :: "codec_env \<Rightarrow> BgpCodec \<Rightarrow> bytes \<Rightarrow>
    BgpCodec \<times> bytes \<times> (BgpCodecDecoderError + (BgpMessage \<times> BgpParsingIgnoredErrors) option)" where
  "BgpCodec_decode env c buf =
     (if length buf \<ge> 19 then
        (if length buf < declared_length buf then (c, buf, Inr None)
         else
           (case BgpMessage_from_wire env (decode_ctx c) buf of
              (ctx, Inl error) \<Rightarrow> (c \<lparr> codec_ctx := ctx \<rparr>, buf, Inl (Dec_BgpMessageParsingError error))
            | (ctx, Inr (msg, _)) \<Rightarrow>
                (let (errors, ctx) = reset_parsing_errors ctx;
                     c = c \<lparr> codec_ctx := ctx \<rparr>;
                     c = (case msg of MsgOpen opn \<Rightarrow> c \<lparr> codec_asn4_received := Some (has_four_octet_as opn) \<rparr> | _ \<Rightarrow> c)
                 in (c, drop (declared_length buf) buf, Inr (Some (msg, errors))))))
      else (c, buf, Inr None))"

definition BgpCodec_encode :: "codec_env \<Rightarrow> BgpCodec \<Rightarrow> BgpMessage \<Rightarrow> bytes \<Rightarrow> BgpCodec \<times> (BgpMessageWritingError + bytes)" where
  "BgpCodec_encode env c msg dst =
     ((case msg of MsgOpen opn \<Rightarrow> c \<lparr> codec_asn4_sent := Some (has_four_octet_as opn) \<rparr> | _ \<Rightarrow> c),
      (case BgpMessage_write env msg of Inl e \<Rightarrow> Inl e | Inr w \<Rightarrow> Inr (dst @ w)))"

end
