(* ===== verification/Wire_Message_Laws.thy ===== *)
theory Wire_Message_Laws
  imports Wire_Message
begin

text \<open>
  The codec gives back the messages that it wrote, waits for whole messages and takes exactly the
  length that a message declares; the codec that the speaker uses never passes on a malformed
  message; and the messages for which reading and writing disagree.
\<close>

section \<open>Framing\<close>

lemma length_message_header: "length (to_be_bytes (- 1 :: u128) @ to_be_bytes (w :: u16) @ [b]) = 19"
  by simp

lemma declared_length_header:
  assumes "n < 65536"
  shows "declared_length (to_be_bytes (x :: u128) @ to_be_bytes (of_nat n :: u16) @ bs) = n"
proof -
  have "take 2 (drop 16 (to_be_bytes x @ to_be_bytes (of_nat n :: u16) @ bs)) = to_be_bytes (of_nat n :: u16)" by simp
  then show ?thesis using assms by (simp add: declared_length_def from_to_be_bytes unat_of_nat_small)
qed

lemma declared_length_prefix: "18 \<le> length p \<Longrightarrow> declared_length (p @ s) = declared_length p"
  by (simp add: declared_length_def)

lemma declared_length_u16: "declared_length buf < 65536"
  using unat_less_power [of "from_be_bytes (take 2 (drop 16 buf)) :: u16"] by (simp add: declared_length_def)

section \<open>Round trip\<close>

fun body_ok :: "codec_env \<Rightarrow> BgpParsingContext \<Rightarrow> BgpMessage \<Rightarrow> bool" where
  "body_ok env ctx (MsgOpen opn) = open_ok opn"
| "body_ok env ctx (MsgUpdate upd) = update_ok env ctx upd"
| "body_ok env ctx _ = True"

definition msg_ok :: "codec_env \<Rightarrow> BgpParsingContext \<Rightarrow> BgpMessage \<Rightarrow> bool" where
  "msg_ok env ctx msg \<longleftrightarrow> body_ok env ctx msg \<and> BgpMessage_len env msg < 65536"

lemma body_read_written:
  assumes "body_ok env ctx msg"
  shows "body_from_wire env (BgpMessage_type msg) ctx (body_write env msg) = (ctx, Inr (msg, []))"
proof (cases msg)
  case (MsgOpen opn)
  then show ?thesis using assms open_read_written [of opn ctx "[]"] by (simp add: body_from_wire_def)
qed (use assms in \<open>simp_all add: body_from_wire_def update_read_written notification.read_body route_refresh.read_alone\<close>)

lemma body_length: "body_ok env ctx msg \<Longrightarrow> length (body_write env msg) = body_len env msg"
  by (cases msg) (simp_all add: open_length update_lengths(3) notification_length BgpRouteRefreshMessage_write_def)

lemma open_small: "open_ok opn \<Longrightarrow> BgpOpenMessage_len opn < 266"
  by (simp add: open_ok_def BgpOpenMessage_len_def)

lemma short_types: "body_ok env ctx msg \<Longrightarrow> BgpMessage_type msg \<in> {MT_Open, MT_KeepAlive} \<Longrightarrow> BgpMessage_len env msg \<le> 4096"
  using open_small by (cases msg) (fastforce simp: BgpMessage_len_def)+

lemma header_read_written:
  assumes "19 \<le> n" "n < 65536" "length body = n - 19" "t \<in> {MT_Open, MT_KeepAlive} \<longrightarrow> n \<le> 4096"
  shows "parse_bgp_message_length_and_type (to_be_bytes (of_nat n :: u16) @ BgpMessageType_into_u8 t # body @ rest) =
    Inr ((of_nat n, t, rest), body)"
proof -
  have u: "unat (of_nat n :: u16) = n" using assms(2) by (simp add: unat_of_nat_small)
  have min: "\<not> (of_nat n :: u16) < BGP_MIN_MESSAGE_LENGTH" using assms(1) by (simp add: BGP_MIN_MESSAGE_LENGTH_def word_less_nat_alt u)
  have max: "t \<in> {MT_Open, MT_KeepAlive} \<longrightarrow> (of_nat n :: u16) \<le> BGP_MAX_MESSAGE_LENGTH"
    using assms(4) by (simp add: BGP_MAX_MESSAGE_LENGTH_def word_le_nat_alt u)
  have m: "unat (of_nat n - 18 :: u16) = n - 18"
    using assms(1) by (subst unat_sub) (simp_all add: word_le_nat_alt u)
  have "take_bytes e (n - 18) ((BgpMessageType_into_u8 t # body) @ rest) = Inr (BgpMessageType_into_u8 t # body, rest)" for e :: BgpMessageParsingError
    using assms(1,3) by (intro take_bytes_read) simp
  then show ?thesis
    using min max by (auto simp: parse_bgp_message_length_and_type_def m map_res_def map_err_def simp del: BgpMessageType_into_u8.simps)
qed

lemma body_ok_writable: "body_ok env ctx msg \<Longrightarrow> body_writable env msg"
  by (cases msg) (auto simp: update_ok_def attr_ok_def elim!: list.pred_mono_strong intro: value_ok_writable)

lemma message_written:
  assumes "msg_ok env ctx msg"
  shows "BgpMessage_write env msg =
    Inr (to_be_bytes (- 1 :: u128) @ to_be_bytes (of_nat (BgpMessage_len env msg) :: u16) @
      BgpMessageType_into_u8 (BgpMessage_type msg) # body_write env msg)"
  using assms short_types [of env ctx msg] body_ok_writable [of env ctx msg] by (auto simp: msg_ok_def BgpMessage_write_def Let_def BGP_MAX_MESSAGE_LENGTH_def)

lemma message_read_written:
  assumes "msg_ok env ctx msg" "BgpMessage_write env msg = Inr w"
  shows "BgpMessage_from_wire env ctx (w @ rest) = (ctx, Inr (msg, rest))"
proof -
  have ok: "body_ok env ctx msg" "BgpMessage_len env msg < 65536" using assms(1) by (simp_all add: msg_ok_def)
  have "parse_bgp_message_length_and_type (to_be_bytes (of_nat (BgpMessage_len env msg) :: u16) @
      BgpMessageType_into_u8 (BgpMessage_type msg) # body_write env msg @ rest) =
      Inr ((of_nat (BgpMessage_len env msg), BgpMessage_type msg, rest), body_write env msg)"
    using ok short_types [OF ok(1)] body_length [OF ok(1)] by (intro header_read_written) (auto simp: BgpMessage_len_def)
  then show ?thesis
    using assms(2) message_written [OF assms(1)] body_read_written [OF ok(1)]
    by (auto simp: BgpMessage_from_wire_def map_res_def simp del: BgpMessageType_into_u8.simps)
qed

lemma message_length:
  assumes "msg_ok env ctx msg" "BgpMessage_write env msg = Inr w"
  shows "length w = BgpMessage_len env msg" "declared_length (w @ rest) = length w" "19 \<le> length w"
proof -
  have ok: "body_ok env ctx msg" "BgpMessage_len env msg < 65536" using assms(1) by (simp_all add: msg_ok_def)
  show l: "length w = BgpMessage_len env msg" "19 \<le> length w"
    using assms(2) message_written [OF assms(1)] body_length [OF ok(1)] by (auto simp: BgpMessage_len_def)
  show "declared_length (w @ rest) = length w"
    using assms(2) message_written [OF assms(1)] declared_length_header [OF ok(2)] l by auto
qed

text \<open>The codec after it has read a message.\<close>

definition received :: "BgpMessage \<Rightarrow> BgpCodec \<Rightarrow> BgpCodec" where
  "received msg c =
     (let c = c \<lparr> codec_ctx := (decode_ctx c) \<lparr> ctx_parsing_errors := BgpParsingIgnoredErrors_default \<rparr> \<rparr>
      in case msg of MsgOpen opn \<Rightarrow> c \<lparr> codec_asn4_received := Some (has_four_octet_as opn) \<rparr> | _ \<Rightarrow> c)"

lemma decode_prefix_waits:
  assumes "declared_length w = length w" "w = p @ s" "s \<noteq> []"
  shows "BgpCodec_decode env c p = (c, p, Inr None)"
proof (cases "19 \<le> length p")
  case True
  then have "declared_length p = length w" using assms declared_length_prefix [of p s] by simp
  then show ?thesis using assms by (simp add: BgpCodec_decode_def)
qed (simp add: BgpCodec_decode_def)

lemma decode_written:
  assumes "msg_ok env (decode_ctx d) msg" "BgpMessage_write env msg = Inr w"
  shows "BgpCodec_decode env d (w @ rest) = (received msg d, rest, Inr (Some (msg, ctx_parsing_errors (codec_ctx d))))"
  using message_length [OF assms] message_read_written [OF assms, of rest]
  by (simp add: BgpCodec_decode_def reset_parsing_errors_def received_def decode_ctx_def Let_def)

text \<open>
  C14. A message for which \<open>msg_ok\<close> holds in the context of the decoder is encoded, is read back by the
  decoder of the other side, whatever follows it on the stream, and the decoder takes exactly its octets;
  on a part of it the decoder waits and changes nothing. Reading it ignores no error: what the decoder
  hands out beside the message are the errors it held back before, none if it held none, and it
  holds none afterwards. \<open>msg_ok\<close> holds for every KEEPALIVE, NOTIFICATION and ROUTE-REFRESH whose length fits
  sixteen bits. It asks of an OPEN a valid header and lengths that fit, and leaves out capabilities that
  are not read back as written: multiple labels, add-path families that send, and restart times over
  twelve bits. It asks of an UPDATE that each attribute has flags of its type and a length that fits,
  that AS paths and aggregators have the width of AS numbers the decoder expects, and that networks are
  in the form the readers expect: IPv4 unicast ones and reachable IPv6 unicast ones with a path
  identifier, the others with one if the context of the decoder says so. It leaves out link-state
  attributes, withdrawn memberships of route targets, families without an address type, and the
  communities, labelled and Ethernet VPN networks that the writers and readers confuse.
\<close>

theorem codec_round_trip:
  assumes "msg_ok env (decode_ctx d) msg"
  shows "\<exists>w. snd (BgpCodec_encode env e msg dst) = Inr (dst @ w) \<and>
    BgpCodec_decode env d (w @ rest) = (received msg d, rest, Inr (Some (msg, ctx_parsing_errors (codec_ctx d)))) \<and>
    (ctx_parsing_errors (codec_ctx d) = BgpParsingIgnoredErrors_default \<longrightarrow>
      BgpCodec_decode env d (w @ rest) = (received msg d, rest, Inr (Some (msg, BgpParsingIgnoredErrors_default)))) \<and>
    ctx_parsing_errors (codec_ctx (received msg d)) = BgpParsingIgnoredErrors_default \<and>
    (\<forall>p s. w = p @ s \<and> s \<noteq> [] \<longrightarrow> BgpCodec_decode env d p = (d, p, Inr None))"
proof -
  obtain w where w: "BgpMessage_write env msg = Inr w" using message_written [OF assms] by blast
  moreover have "\<forall>p s. w = p @ s \<and> s \<noteq> [] \<longrightarrow> BgpCodec_decode env d p = (d, p, Inr None)"
    using decode_prefix_waits [of w] message_length(2) [OF assms w, of "[]"] by auto
  moreover have "ctx_parsing_errors (codec_ctx (received msg d)) = BgpParsingIgnoredErrors_default"
    by (simp add: received_def Let_def split: BgpMessage.split)
  ultimately show ?thesis using decode_written [OF assms w] by (auto simp: BgpCodec_encode_def)
qed

text \<open>
  Concrete instances: networks by their masks, and an UPDATE that
  announces 10.0.0.0/8 under path identifier 7.
\<close>

definition demo_codec_env :: codec_env where
  "demo_codec_env =
     \<lparr> env_network4 = (\<lambda>(a, l). push_bit (32 - unat l) (drop_bit (32 - unat l) a)),
       env_network6 = (\<lambda>(a, l). push_bit (128 - unat l) (drop_bit (128 - unat l) a)),
       env_last_host4 = (\<lambda>(a, l). if l < 31 then Some (a + 2 ^ (32 - unat l) - 2) else Some (a + 2 ^ (32 - unat l) - 1)),
       env_last_host6 = (\<lambda>(a, l). Some (a + 2 ^ (128 - unat l) - 1)) \<rparr>"

definition well_known :: "PathAttributeValue \<Rightarrow> PathAttribute" where
  "well_known v = \<lparr> pa_optional = False, pa_transitive = True, pa_partial = False, pa_extended_length = False, pa_value = v \<rparr>"

definition demo_wire_update :: BgpUpdateMessage where
  "demo_wire_update =
     \<lparr> um_withdrawn_routes = [],
       um_path_attributes =
         [well_known (PA_Origin IGP),
          well_known (PA_AsPath (As2PathSegments [\<lparr> as2_segment_type = AsSequence, as2_as_numbers = [65001] \<rparr>])),
          well_known (PA_NextHop 0xC0000201)],
       um_nlri = [\<lparr> v4_path_id = Some 7, v4_network = (0x0A000000, 8) \<rparr>] \<rparr>"

lemma u32_octets:
  "to_be_bytes (w :: u32) =
    [of_nat (unat w div 256 div 256 div 256), of_nat (unat w div 256 div 256), of_nat (unat w div 256), of_nat (unat w)]"
proof -
  have "to_be_bytes w = nat_to_be (Suc (Suc (Suc (Suc 0)))) (unat w)"
    unfolding to_be_bytes_def by (rule arg_cong [where f = "\<lambda>n. nat_to_be n (unat w)"]) simp
  then show ?thesis by simp
qed

lemma demo_wire_update_ok: "msg_ok demo_codec_env (decode_ctx BgpCodec_default) (MsgUpdate demo_wire_update)"
proof -
  have "to_be_bytes (0x0A000000 :: u32) = [10, 0, 0, 0]" by (simp add: u32_octets)
  then have n: "net4_ok demo_codec_env (0x0A000000, 8)"
    by (simp add: net4_ok_def prefix4_ok_def demo_codec_env_def round_len_eq div_ceil8_def numeral_3_eq_3 Ipv4Unicast_from_net_def
        Ipv4Addr_is_broadcast_def Ipv4Addr_is_multicast_def)
  have "list_all (attr_ok demo_codec_env (decode_ctx BgpCodec_default)) (um_path_attributes demo_wire_update)"
    by (simp add: demo_wire_update_def attr_ok_def well_known_def PathAttribute_from_def fits_def seg2_ok_def decode_ctx_def
        codec_asn4_def BgpCodec_default_def As2PathSegment_write_def)
  then show ?thesis using n
    by (simp add: msg_ok_def update_ok_def demo_wire_update_def addr4_ok_def BgpMessage_len_def BgpUpdateMessage_len_def withdrawn_len_def
        attrs_len_def PathAttribute_len_def value_len_def well_known_def Ipv4UnicastAddress_len_def path_id_len_def
        round_len_eq div_ceil8_def As2PathSegment_len_def)
qed

theorem codec_round_trip_witness:
  "\<exists>w. snd (BgpCodec_encode demo_codec_env BgpCodec_default (MsgUpdate demo_wire_update) []) = Inr w \<and>
    BgpCodec_decode demo_codec_env BgpCodec_default (w @ [1, 2, 3]) =
      (received (MsgUpdate demo_wire_update) BgpCodec_default, [1, 2, 3],
       Inr (Some (MsgUpdate demo_wire_update, BgpParsingIgnoredErrors_default)))"
proof -
  have "ctx_parsing_errors (codec_ctx BgpCodec_default) = BgpParsingIgnoredErrors_default"
    by (simp add: BgpCodec_default_def BgpParsingContext_default_def BgpParsingContext_new_def)
  then show ?thesis using codec_round_trip [OF demo_wire_update_ok, of BgpCodec_default "[]" "[1, 2, 3]"] by auto
qed

section \<open>What the decoder accepts\<close>

lemma be_word_Inr:
  assumes "be_word e bs = Inr (w :: 'w::len word, rest)" "8 dvd LENGTH('w)"
  shows "bs = to_be_bytes w @ rest"
proof -
  let ?n = "LENGTH('w) div 8"
  have n: "?n \<le> length bs" "w = from_be_bytes (take ?n bs)" "rest = drop ?n bs"
    using assms(1) by (auto simp: be_word_def Let_def split: if_splits)
  then have "to_be_bytes w = take ?n bs" using assms(2) by (simp add: to_from_be_bytes)
  with n show ?thesis by simp
qed

lemma take_bytes_Inr: "take_bytes e n bs = Inr (xs, rest) \<longleftrightarrow> bs = xs @ rest \<and> length xs = n"
  by (auto simp: take_bytes_def)

lemma header_frame:
  assumes "parse_bgp_message_length_and_type bs = Inr ((l, t, remainder), buf)"
  shows "\<exists>code. bs = to_be_bytes l @ (code # buf) @ remainder \<and> 19 \<le> unat l \<and> length (code # buf) = unat l - 18 \<and>
    (t \<in> {MT_Open, MT_KeepAlive} \<longrightarrow> unat l \<le> 4096) \<and>
    (\<forall>r. parse_bgp_message_length_and_type (to_be_bytes l @ (code # buf) @ r) = Inr ((l, t, r), buf))"
proof -
  obtain bs1 slice where l: "be_u16 MsgPE_NomError bs = Inr (l, bs1)" "\<not> l < BGP_MIN_MESSAGE_LENGTH"
    and s: "take_bytes (MsgPE_BadMessageLength l) (unat (l - 18)) bs1 = Inr (slice, remainder)"
    and t: "map_res (be_u8 MsgPE_NomError) (\<lambda>v. map_err MsgPE_UndefinedBgpMessageType (BgpMessageType_try_from v)) slice = Inr (t, buf)"
    and m: "t \<in> {MT_Open, MT_KeepAlive} \<longrightarrow> l \<le> BGP_MAX_MESSAGE_LENGTH"
    using assms by (auto simp: parse_bgp_message_length_and_type_def split: sum.splits if_splits)
  have bs: "bs = to_be_bytes l @ bs1" "bs1 = slice @ remainder" "length slice = unat (l - 18)"
    using be_word_Inr [OF l(1)] s by (simp_all add: take_bytes_Inr)
  have 19: "19 \<le> unat l" using l(2) by (simp add: BGP_MIN_MESSAGE_LENGTH_def word_less_nat_alt)
  then have 18: "unat (l - 18) = unat l - 18" by (subst unat_sub) (simp_all add: word_le_nat_alt)
  obtain code where c: "slice = code # buf" using t by (cases slice) (auto simp: map_res_def split: sum.splits)
  have "take_bytes (MsgPE_BadMessageLength l) (unat (l - 18)) (slice @ r) = Inr (slice, r)" for r
    using bs(3) by (intro take_bytes_read) simp
  then have "parse_bgp_message_length_and_type (to_be_bytes l @ slice @ r) = Inr ((l, t, r), buf)" for r
    using l t m by (auto simp: parse_bgp_message_length_and_type_def)
  moreover have "t \<in> {MT_Open, MT_KeepAlive} \<longrightarrow> unat l \<le> 4096" using m by (auto simp: BGP_MAX_MESSAGE_LENGTH_def word_le_nat_alt)
  ultimately show ?thesis using bs 19 18 c by auto
qed

lemma body_type: "body_from_wire env t ctx bs = (ctx', Inr (msg, rest)) \<Longrightarrow> BgpMessage_type msg = t"
  by (auto simp: body_from_wire_def split: BgpMessageType.splits prod.splits sum.splits)

lemma body_open_valid:
  "body_from_wire env t ctx bs = (ctx', Inr (MsgOpen opn, rest)) \<Longrightarrow> open_valid opn"
  by (auto simp: body_from_wire_def dest: open_from_wire_valid split: BgpMessageType.splits prod.splits sum.splits)

lemma message_frame:
  assumes "BgpMessage_from_wire env ctx bs = (ctx', Inr (msg, remainder))"
  shows "\<exists>l slice. bs = to_be_bytes (- 1 :: u128) @ to_be_bytes (l :: u16) @ slice @ remainder \<and> 19 \<le> unat l \<and>
    length slice = unat l - 18 \<and> (BgpMessage_type msg \<in> {MT_Open, MT_KeepAlive} \<longrightarrow> unat l \<le> 4096) \<and>
    (\<forall>opn. msg = MsgOpen opn \<longrightarrow> open_valid opn) \<and>
    (\<forall>r. BgpMessage_from_wire env ctx (to_be_bytes (- 1 :: u128) @ to_be_bytes l @ slice @ r) = (ctx', Inr (msg, r)))"
proof -
  obtain bs1 l t buf where m: "be_u128 MsgPE_NomError bs = Inr (- 1, bs1)"
    and h: "parse_bgp_message_length_and_type bs1 = Inr ((l, t, remainder), buf)"
    and b: "body_from_wire env t ctx buf = (ctx', Inr (msg, []))"
    using assms by (auto simp: BgpMessage_from_wire_def map_res_def split: sum.splits prod.splits if_splits)
  have bs: "bs = to_be_bytes (- 1 :: u128) @ bs1" using be_word_Inr [OF m] by simp
  obtain code where c: "bs1 = to_be_bytes l @ (code # buf) @ remainder" "19 \<le> unat l" "length (code # buf) = unat l - 18"
    "t \<in> {MT_Open, MT_KeepAlive} \<longrightarrow> unat l \<le> 4096"
    "\<And>r. parse_bgp_message_length_and_type (to_be_bytes l @ (code # buf) @ r) = Inr ((l, t, r), buf)"
    using header_frame [OF h] by blast
  have "BgpMessage_from_wire env ctx (to_be_bytes (- 1 :: u128) @ to_be_bytes l @ (code # buf) @ r) = (ctx', Inr (msg, r))" for r
    using c(5) [of r] b by (simp add: BgpMessage_from_wire_def map_res_def)
  moreover have "\<forall>opn. msg = MsgOpen opn \<longrightarrow> open_valid opn" using body_open_valid b by blast
  ultimately show ?thesis using bs c body_type [OF b]
    by (intro exI [of _ l] exI [of _ "code # buf"]) simp
qed

text \<open>
  C17. The decoder takes exactly the length that the message declares: at least the nineteen octets of
  a header, at most the buffer, and at most 4096 for OPEN and KEEPALIVE. What follows the message
  has no influence on it, and an OPEN that it accepts has version 4, a hold time other than one and two
  seconds and a host address as identifier. When there is no message yet, or an error, the buffer
  stays as it is.
\<close>

theorem decode_takes_declared_length:
  assumes "BgpCodec_decode env c buf = (c', buf', r)"
  shows "(case r of
      Inr (Some (msg, errors)) \<Rightarrow>
        19 \<le> declared_length buf \<and> declared_length buf \<le> length buf \<and> buf' = drop (declared_length buf) buf \<and>
        (BgpMessage_type msg \<in> {MT_Open, MT_KeepAlive} \<longrightarrow> declared_length buf \<le> 4096) \<and>
        (\<forall>opn. msg = MsgOpen opn \<longrightarrow> open_valid opn) \<and>
        (\<forall>follow. BgpCodec_decode env c (take (declared_length buf) buf @ follow) = (c', follow, r))
    | _ \<Rightarrow> buf' = buf)"
proof (cases "\<exists>msg errors. r = Inr (Some (msg, errors))")
  case True
  then obtain msg errors where r: "r = Inr (Some (msg, errors))" by blast
  let ?n = "declared_length buf"
  obtain ctx' remainder where n: "19 \<le> length buf" "?n \<le> length buf" "buf' = drop ?n buf"
    and f: "BgpMessage_from_wire env (decode_ctx c) buf = (ctx', Inr (msg, remainder))"
    using assms r by (auto simp: BgpCodec_decode_def Let_def split: if_splits prod.splits sum.splits)
  obtain l slice where s: "buf = to_be_bytes (- 1 :: u128) @ to_be_bytes (l :: u16) @ slice @ remainder" "19 \<le> unat l"
    "length slice = unat l - 18" "BgpMessage_type msg \<in> {MT_Open, MT_KeepAlive} \<longrightarrow> unat l \<le> 4096" "\<forall>opn. msg = MsgOpen opn \<longrightarrow> open_valid opn"
    "\<And>r. BgpMessage_from_wire env (decode_ctx c) (to_be_bytes (- 1 :: u128) @ to_be_bytes l @ slice @ r) = (ctx', Inr (msg, r))"
    using message_frame [OF f] by blast
  have l: "declared_length (to_be_bytes (- 1 :: u128) @ to_be_bytes l @ bs) = unat l" for bs
    by (simp add: declared_length_def from_to_be_bytes)
  have t: "take ?n buf = to_be_bytes (- 1 :: u128) @ to_be_bytes l @ slice"
    using s(2,3) by (simp add: s(1) l)
  have "BgpCodec_decode env c (take ?n buf @ follow) = (c', follow, r)" for follow
    using assms n f s(2,3,6) l r unfolding t
    by (auto simp: BgpCodec_decode_def Let_def split: if_splits prod.splits)
  with r n s(2,4,5) l s(1) show ?thesis by simp
next
  case False
  then show ?thesis using assms
    by (auto simp: BgpCodec_decode_def Let_def split: if_splits prod.splits sum.splits option.splits)
qed


theorem decode_takes_declared_length_witness:
  "\<exists>w. 19 \<le> declared_length w \<and> declared_length w \<le> length w \<and>
    BgpCodec_decode demo_codec_env BgpCodec_default (take (declared_length w) w @ [9]) =
      (received (MsgUpdate demo_wire_update) BgpCodec_default, [9],
       Inr (Some (MsgUpdate demo_wire_update, ctx_parsing_errors (codec_ctx BgpCodec_default))))"
proof -
  obtain w where "BgpMessage_write demo_codec_env (MsgUpdate demo_wire_update) = Inr w" using message_written [OF demo_wire_update_ok] by blast
  from decode_takes_declared_length [OF decode_written [OF demo_wire_update_ok this, of "[]"]]
  have "19 \<le> declared_length w \<and> declared_length w \<le> length w \<and>
    (\<forall>follow. BgpCodec_decode demo_codec_env BgpCodec_default (take (declared_length w) w @ follow) =
      (received (MsgUpdate demo_wire_update) BgpCodec_default, follow,
       Inr (Some (MsgUpdate demo_wire_update, ctx_parsing_errors (codec_ctx BgpCodec_default)))))"
    by (simp only: append_Nil2 sum.case option.case prod.case) blast
  then show ?thesis by blast
qed

section \<open>A capability whose length is wrong\<close>

fun is_multiple_labels :: "BgpCapability \<Rightarrow> bool" where
  "is_multiple_labels (Cap_MultipleLabels _) = True"
| "is_multiple_labels _ = False"

lemma caps_length_labels:
  "length (concat (map BgpCapability_write caps)) + length (filter is_multiple_labels caps) = sum_list (map BgpCapability_len caps)"
proof (induction caps)
  case (Cons cap caps)
  then show ?case using capability_length [of cap] by (cases cap) simp_all
qed simp

lemma params_length_labels:
  "length (concat (map BgpOpenMessageParameter_write ps)) +
    length (filter is_multiple_labels (concat (map (\<lambda>x. case x of Param_Capabilities caps \<Rightarrow> caps) ps))) =
    sum_list (map BgpOpenMessageParameter_len ps)"
proof (induction ps)
  case (Cons p ps)
  obtain caps where "p = Param_Capabilities caps" by (cases p)
  then show ?case using Cons caps_length_labels [of caps] by simp
qed simp

text \<open>
  An OPEN with a capability for multiple labels is written with fewer octets than it declares,
  because the writer leaves out the octet of the capability's length: the receiver waits for more and
  does not get the message.
\<close>

theorem multiple_labels_short:
  assumes "Cap_MultipleLabels labels \<in> set (open_capabilities opn)" "BgpMessage_write env (MsgOpen opn) = Inr w"
  shows "length w < declared_length w \<and> BgpCodec_decode env c w = (c, w, Inr None)"
proof -
  let ?l = "BgpMessage_len env (MsgOpen opn)"
  have l: "?l \<le> 4096" and w: "w = to_be_bytes (- 1 :: u128) @ to_be_bytes (of_nat ?l :: u16) @ 1 # BgpOpenMessage_write opn"
    using assms(2) by (auto simp: BgpMessage_write_def Let_def BGP_MAX_MESSAGE_LENGTH_def split: if_splits)
  have d: "declared_length w = ?l" unfolding w using l by (intro declared_length_header) simp
  have "Cap_MultipleLabels labels \<in> set (filter is_multiple_labels (open_capabilities opn))" using assms(1) by simp
  then have "0 < length (filter is_multiple_labels (open_capabilities opn))" by (metis length_pos_if_in_set)
  then have "length (BgpOpenMessage_write opn) < BgpOpenMessage_len opn"
    using params_length_labels [of "op_params opn"]
    by (simp add: BgpOpenMessage_write_def BgpOpenMessage_len_def flip: open_capabilities_def length_greater_0_conv)
  then have "length w < declared_length w" using d by (simp add: w BgpMessage_len_def)
  then show ?thesis by (simp add: BgpCodec_decode_def)
qed

theorem multiple_labels_short_witness:
  "let opn = BgpOpenMessage_new 65001 180 0xC0000201 [Param_Capabilities [Cap_MultipleLabels [(AT_Ipv4NlriMplsLabels, 2)]]]
   in \<exists>w. BgpMessage_write demo_codec_env (MsgOpen opn) = Inr w \<and> length w < declared_length w \<and>
        BgpCodec_decode demo_codec_env BgpCodec_default w = (BgpCodec_default, w, Inr None)"
proof -
  let ?opn = "BgpOpenMessage_new 65001 180 0xC0000201 [Param_Capabilities [Cap_MultipleLabels [(AT_Ipv4NlriMplsLabels, 2)]]]"
  obtain w where w: "BgpMessage_write demo_codec_env (MsgOpen ?opn) = Inr w"
    by (simp add: BgpMessage_write_def BgpMessage_len_def BgpOpenMessage_len_def BgpOpenMessage_new_def BgpCapability_len_def
        BGP_MAX_MESSAGE_LENGTH_def)
  have "Cap_MultipleLabels [(AT_Ipv4NlriMplsLabels, 2)] \<in> set (open_capabilities ?opn)"
    by (simp add: open_capabilities_def BgpOpenMessage_new_def)
  from multiple_labels_short [OF this w] w show ?thesis by (auto simp: Let_def)
qed

end
