(* ===== verification/Wire_Codec_Runs.thy ===== *)
theory Wire_Codec_Runs
  imports Wire_Message_Laws
begin

text \<open>
  The codec of a session over its life (\<open>codec.rs\<close>): it starts as \<open>BgpCodec::default\<close>, as
  \<open>BgpCodecInitializer::new\<close> makes it, and every decoding and encoding steps it. It stays strict, and it never
  learns which families carry path identifiers.
\<close>

section \<open>Steps\<close>

inductive codec_reachable :: "codec_env \<Rightarrow> BgpCodec \<Rightarrow> bool" for env where
  initial: "codec_reachable env BgpCodec_default"
| decoded: "codec_reachable env c \<Longrightarrow> BgpCodec_decode env c buf = (c', buf', r) \<Longrightarrow> codec_reachable env c'"
| encoded: "codec_reachable env c \<Longrightarrow> BgpCodec_encode env c msg dst = (c', w) \<Longrightarrow> codec_reachable env c'"

section \<open>The strict context\<close>

definition ctx_strict :: "BgpParsingContext \<Rightarrow> bool" where
  "ctx_strict ctx \<longleftrightarrow>
     ctx_fail_on_capability_error ctx \<and> ctx_fail_on_malformed_path_attr ctx \<and>
     ctx_fail_on_non_unicast_withdraw_nlri ctx \<and> ctx_fail_on_non_unicast_update_nlri ctx \<and>
     ctx_add_path ctx = (\<lambda>_. None) \<and> ctx_multiple_labels ctx = (\<lambda>_. None) \<and>
     ie_path_attr_errors (ctx_parsing_errors ctx) = [] \<and> ie_capability_errors (ctx_parsing_errors ctx) = [] \<and>
     ie_non_unicast_withdraw_nlri (ctx_parsing_errors ctx) = []"

lemma strict_default [simp]: "ctx_strict BgpParsingContext_default"
  by (simp add: ctx_strict_def BgpParsingContext_default_def BgpParsingContext_new_def BgpParsingIgnoredErrors_default_def)

lemma strict_asn4 [simp]: "ctx_strict (ctx \<lparr> ctx_asn4 := b \<rparr>) = ctx_strict ctx"
  by (simp add: ctx_strict_def)

lemma strict_push_update [simp]: "ctx_strict (push_update_nlri net ctx) = ctx_strict ctx"
  by (simp add: ctx_strict_def push_update_nlri_def)

lemma strict_reset [simp]: "ctx_strict ctx \<Longrightarrow> ctx_strict (ctx \<lparr> ctx_parsing_errors := BgpParsingIgnoredErrors_default \<rparr>)"
  by (simp add: ctx_strict_def BgpParsingIgnoredErrors_default_def)

lemma parse_capabilities_strict:
  "parse_capabilities ctx bs = (ctx', r) \<Longrightarrow> ctx_fail_on_capability_error ctx \<Longrightarrow> ctx' = ctx"
proof (induction ctx bs arbitrary: r rule: parse_capabilities.induct)
  case (1 ctx bs)
  from 1(3,4) show ?case
    by (subst (asm) parse_capabilities.simps) (auto split: sum.splits prod.splits if_splits dest: 1(2))
qed

lemma param_strict:
  "BgpOpenMessageParameter_from_wire ctx bs = (ctx', r) \<Longrightarrow> ctx_fail_on_capability_error ctx \<Longrightarrow> ctx' = ctx"
  by (auto simp: BgpOpenMessageParameter_from_wire_def parse_capability_param_def dest: parse_capabilities_strict
      split: sum.splits prod.splits BgpOpenMessageParameterType.splits)

lemma parse_params_strict: "parse_params ctx bs = (ctx', r) \<Longrightarrow> ctx_fail_on_capability_error ctx \<Longrightarrow> ctx' = ctx"
proof (induction ctx bs arbitrary: r rule: parse_params.induct)
  case (1 ctx bs)
  from 1(2,3) show ?case
    by (subst (asm) parse_params.simps) (auto split: sum.splits prod.splits if_splits dest: param_strict 1(1))
qed

lemma open_strict: "BgpOpenMessage_from_wire ctx bs = (ctx', r) \<Longrightarrow> ctx_fail_on_capability_error ctx \<Longrightarrow> ctx' = ctx"
  by (auto simp: BgpOpenMessage_from_wire_def dest: parse_params_strict split: sum.splits prod.splits)

lemma non_unicast_strict: "ctx_strict ctx \<Longrightarrow> non_unicast is_update net ctx = (ctx', go) \<Longrightarrow> go \<and> ctx_strict ctx'"
  by (auto simp: non_unicast_def ctx_strict_def push_update_nlri_def Let_def split: if_splits)

lemma parse_nlri_strict: "parse_nlri env add_path is_update ctx bs = (ctx', r) \<Longrightarrow> ctx_strict ctx \<Longrightarrow> ctx_strict ctx'"
proof (induction env add_path is_update ctx bs arbitrary: r rule: parse_nlri.induct)
  case (1 env add_path is_update ctx bs)
  from 1(3,4) show ?case
    by (subst (asm) parse_nlri.simps) (auto split: sum.splits prod.splits if_splits bool.splits dest: 1(2) non_unicast_strict)
qed

lemma parse_attributes_strict:
  "parse_attributes env ctx bs = (ctx', r) \<Longrightarrow> ctx_fail_on_malformed_path_attr ctx \<Longrightarrow> ctx' = ctx"
proof (induction env ctx bs arbitrary: r rule: parse_attributes.induct)
  case (1 env ctx bs)
  from 1(3,4) show ?case
    by (subst (asm) parse_attributes.simps) (auto split: sum.splits prod.splits if_splits dest: 1(2))
qed

lemma strict_flags: "ctx_strict ctx \<Longrightarrow> ctx_fail_on_capability_error ctx \<and> ctx_fail_on_malformed_path_attr ctx"
  by (simp add: ctx_strict_def)

lemma update_strict: "BgpUpdateMessage_from_wire env ctx bs = (ctx', r) \<Longrightarrow> ctx_strict ctx \<Longrightarrow> ctx_strict ctx'"
  by (auto simp: BgpUpdateMessage_from_wire_def split: sum.splits prod.splits
      dest!: parse_nlri_strict parse_attributes_strict dest: strict_flags)

lemma body_strict: "body_from_wire env t ctx bs = (ctx', r) \<Longrightarrow> ctx_strict ctx \<Longrightarrow> ctx_strict ctx'"
  by (auto simp: body_from_wire_def split: BgpMessageType.splits sum.splits prod.splits
      dest: update_strict open_strict strict_flags)

lemma message_strict: "BgpMessage_from_wire env ctx bs = (ctx', r) \<Longrightarrow> ctx_strict ctx \<Longrightarrow> ctx_strict ctx'"
  by (auto simp: BgpMessage_from_wire_def split: sum.splits prod.splits if_splits dest: body_strict)

lemma codec_strict: "codec_reachable env c \<Longrightarrow> ctx_strict (codec_ctx c)"
proof (induction rule: codec_reachable.induct)
  case (decoded c buf c' buf' r)
  have "BgpMessage_from_wire env (decode_ctx c) buf = (ctx, x) \<Longrightarrow> ctx_strict ctx" for ctx x
    using decoded(3) by (auto simp: decode_ctx_def dest: message_strict)
  with decoded(2,3) show ?case
    by (auto simp: BgpCodec_decode_def Let_def reset_parsing_errors_def split: if_splits prod.splits sum.splits BgpMessage.splits)
qed (auto simp: BgpCodec_default_def BgpCodec_encode_def split: BgpMessage.splits)

section \<open>Strict readers\<close>

text \<open>
  The readers that refuse everything their elements refuse: a network that is not unicast, and an
  UPDATE with such a network or with an attribute that its reader refuses.
\<close>

definition unicast_from_wire :: "codec_env \<Rightarrow> bool \<Rightarrow> (BgpUpdateMessageParsingError, Ipv4UnicastAddress) parser" where
  "unicast_from_wire env add_path bs =
     (case read_net add_path bs of
        Inl e \<Rightarrow> Inl e
      | Inr ((path_id, net), rest) \<Rightarrow>
          (case Ipv4Unicast_from_net env net of
             Inl err \<Rightarrow> Inl (UpdPE_InvalidIpv4UnicastNetwork err)
           | Inr unicast \<Rightarrow> Inr (\<lparr> v4_path_id = path_id, v4_network = unicast \<rparr>, rest)))"

definition strict_update :: "codec_env \<Rightarrow> BgpParsingContext \<Rightarrow> (BgpUpdateMessageParsingError, BgpUpdateMessage) parser" where
  "strict_update env ctx =
     parse_bind (map_res (length_data16 (UpdPE_NomError Nom_Eof)) (parse_till_empty (unicast_from_wire env True))) (\<lambda>withdrawn.
     parse_bind (map_res (length_data16 (UpdPE_NomError Nom_Eof))
       (\<lambda>buf. map_err UpdPE_PathAttributeError (parse_till_empty (PathAttribute_from_wire env ctx) buf))) (\<lambda>attrs bs.
       map_sum id (\<lambda>nlri. (\<lparr> um_withdrawn_routes = withdrawn, um_path_attributes = attrs, um_nlri = nlri \<rparr>, []))
         (parse_till_empty (unicast_from_wire env True) bs)))"

lemma unicast_shrinks: "unicast_from_wire env add_path bs = Inr (a, rest) \<Longrightarrow> length rest < length bs"
  by (auto simp: unicast_from_wire_def dest: shrinksD [OF shrinks_read_net] split: sum.splits prod.splits)

lemma attributes_strict:
  "ctx_fail_on_malformed_path_attr ctx \<Longrightarrow>
    parse_attributes env ctx bs = (ctx, map_err UpdPE_PathAttributeError (parse_till_empty (PathAttribute_from_wire env ctx) bs))"
proof (induction bs rule: length_induct)
  case (1 bs)
  have IH: "parse_attributes env ctx rest = (ctx, map_err UpdPE_PathAttributeError (parse_till_empty (PathAttribute_from_wire env ctx) rest))"
    "length rest < length bs" if "PathAttribute_from_wire env ctx bs = Inr (a, rest)" for a rest
    using 1 shrinksD [OF attribute.rd_shrinks that] by blast+
  show ?case
    using 1(2) IH
    by (subst parse_attributes.simps, subst parse_till_empty.simps) (auto simp: map_err_def split: sum.splits)
qed

lemma capabilities_strict:
  "ctx_fail_on_capability_error ctx \<Longrightarrow>
    parse_capabilities ctx bs = (ctx, map_err Prm_CapabilityError (parse_till_empty BgpCapability_from_wire bs))"
proof (induction bs rule: length_induct)
  case (1 bs)
  have IH: "parse_capabilities ctx rest = (ctx, map_err Prm_CapabilityError (parse_till_empty BgpCapability_from_wire rest))"
    "length rest < length bs" if "BgpCapability_from_wire bs = Inr (a, rest)" for a rest
    using 1 shrinksD [OF capability.rd_shrinks that] by blast+
  show ?case
    using 1(2) IH
    by (subst parse_capabilities.simps, subst parse_till_empty.simps) (auto simp: map_err_def split: sum.splits)
qed

lemma nlri_strict:
  assumes "ctx_strict ctx"
  shows "snd (parse_nlri env add_path is_update ctx bs) = parse_till_empty (unicast_from_wire env add_path) bs \<and>
    (\<forall>as. parse_till_empty (unicast_from_wire env add_path) bs = Inr as \<longrightarrow> fst (parse_nlri env add_path is_update ctx bs) = ctx)"
  using assms
proof (induction bs rule: length_induct)
  case (1 bs)
  show ?case
  proof (cases "read_net add_path bs")
    case (Inl e)
    then show ?thesis by (subst (1 2) parse_nlri.simps, subst (1 2) parse_till_empty.simps) (simp add: unicast_from_wire_def)
  next
    case (Inr r)
    obtain path_id net rest where r: "r = ((path_id, net), rest)" by (cases r) auto
    have rest: "length rest < length bs" using shrinksD [OF shrinks_read_net] Inr r by blast
    note IH = 1(1) [rule_format, OF rest 1(2)]
    show ?thesis
      using IH Inr rest non_unicast_strict [OF 1(2), of is_update net]
      by (subst (1 2) parse_nlri.simps, subst (1 2) parse_till_empty.simps)
         (auto simp: unicast_from_wire_def r split: sum.splits prod.splits bool.splits)
  qed
qed

lemma update_from_wire_strict:
  assumes "ctx_strict ctx"
  shows "snd (BgpUpdateMessage_from_wire env ctx bs) = strict_update env ctx bs"
proof -
  let ?nets = "parse_till_empty (unicast_from_wire env True)"
  have attr: "ctx_fail_on_malformed_path_attr ctx" using strict_flags [OF assms] by simp
  have ok: "parse_nlri env True u ctx b = (ctx, Inr as)" if "?nets b = Inr as" for u b as
    using nlri_strict [OF assms, of env True u b] that by (cases "parse_nlri env True u ctx b") auto
  have err: "\<exists>ctx'. parse_nlri env True u ctx b = (ctx', Inl e)" if "?nets b = Inl e" for u b e
    using nlri_strict [OF assms, of env True u b] that by (cases "parse_nlri env True u ctx b") auto
  have tail: "snd (case parse_attributes env ctx attrs of (ctx, Inl e) \<Rightarrow> (ctx, Inl e)
      | (ctx, Inr path_attributes) \<Rightarrow> (case parse_nlri env True True ctx n of (ctx, Inl e) \<Rightarrow> (ctx, Inl e)
      | (ctx, Inr nlri_vec) \<Rightarrow>
          (ctx, Inr (\<lparr> um_withdrawn_routes = w, um_path_attributes = path_attributes, um_nlri = nlri_vec \<rparr>, [] :: bytes)))) =
    (case map_err UpdPE_PathAttributeError (parse_till_empty (PathAttribute_from_wire env ctx) attrs) of Inl e \<Rightarrow> Inl e
     | Inr as \<Rightarrow> map_sum id (\<lambda>nlri. (\<lparr> um_withdrawn_routes = w, um_path_attributes = as, um_nlri = nlri \<rparr>, [])) (?nets n))" for attrs n w
    using ok [of n _ True] err [of n _ True] unfolding attributes_strict [OF attr]
    by (cases "parse_till_empty (PathAttribute_from_wire env ctx) attrs"; cases "?nets n") (auto simp: map_err_def)
  show ?thesis
  proof (cases "length_data16 (UpdPE_NomError Nom_Eof) bs")
    case (Inl e)
    then show ?thesis by (simp add: BgpUpdateMessage_from_wire_def strict_update_def parse_bind_def map_res_def)
  next
    case (Inr r)
    obtain wbuf rest where r: "r = (wbuf, rest)" by (cases r)
    show ?thesis
    proof (cases "?nets wbuf")
      case (Inl e)
      with err [of wbuf e False] Inr show ?thesis
        by (auto simp: BgpUpdateMessage_from_wire_def strict_update_def parse_bind_def map_res_def r)
    next
      case w: (Inr w)
      show ?thesis
        using Inr w ok [OF w, of False] tail [where w = w]
        by (cases "length_data16 (UpdPE_NomError Nom_Eof) rest")
           (auto simp: BgpUpdateMessage_from_wire_def strict_update_def parse_bind_def map_res_def r split: sum.split prod.split)
    qed
  qed
qed

text \<open>
  C18. The codec of a session is strict throughout its life: whatever it has decoded and encoded, it reads
  the attributes of an UPDATE and the capabilities of an OPEN as the plain sequence of their elements,
  with the first element that its reader refuses refusing the message, and so it does for the withdrawn
  and announced IPv4 networks, where a network that is not unicast is refused too; nothing is skipped.
  The UPDATE messages it yields are therefore those of \<open>strict_update\<close>, no attribute, capability or
  withdrawn network is ever recorded as ignored, and every UPDATE is treated normally. What an element
  is, is up to its own reader: the one of the link-state attribute accepts what follows it unread.
\<close>

theorem session_codec_is_strict:
  assumes "codec_reachable env c"
  shows "parse_attributes env (decode_ctx c) bs =
      (decode_ctx c, map_err UpdPE_PathAttributeError (parse_till_empty (PathAttribute_from_wire env (decode_ctx c)) bs)) \<and>
    parse_capabilities (decode_ctx c) bs = (decode_ctx c, map_err Prm_CapabilityError (parse_till_empty BgpCapability_from_wire bs)) \<and>
    snd (parse_nlri env add_path is_update (decode_ctx c) bs) = parse_till_empty (unicast_from_wire env add_path) bs \<and>
    snd (BgpUpdateMessage_from_wire env (decode_ctx c) bs) = strict_update env (decode_ctx c) bs \<and>
    (BgpCodec_decode env c buf = (c', buf', Inr (Some (msg, errors))) \<longrightarrow>
      ie_path_attr_errors errors = [] \<and> ie_capability_errors errors = [] \<and> ie_non_unicast_withdraw_nlri errors = [] \<and>
      update_treatment errors = Normal)"
proof -
  have strict: "ctx_strict (decode_ctx c)" using codec_strict [OF assms] by (simp add: decode_ctx_def)
  have "ie_path_attr_errors errors = [] \<and> ie_capability_errors errors = [] \<and> ie_non_unicast_withdraw_nlri errors = [] \<and>
      update_treatment errors = Normal" if d: "BgpCodec_decode env c buf = (c', buf', Inr (Some (msg, errors)))"
  proof -
    obtain ctx remainder where m: "BgpMessage_from_wire env (decode_ctx c) buf = (ctx, Inr (msg, remainder))"
      and e: "errors = ctx_parsing_errors ctx"
      using d by (auto simp: BgpCodec_decode_def Let_def reset_parsing_errors_def split: if_splits prod.splits sum.splits)
    from message_strict [OF m strict] show ?thesis by (simp add: e ctx_strict_def update_treatment_def)
  qed
  then show ?thesis
    using attributes_strict capabilities_strict strict_flags [OF strict] nlri_strict [OF strict] update_from_wire_strict [OF strict] by blast
qed

theorem session_codec_is_strict_witness:
  "\<exists>w c' errors. BgpCodec_decode demo_codec_env BgpCodec_default w = (c', [], Inr (Some (MsgUpdate demo_wire_update, errors))) \<and>
    update_treatment errors = Normal"
proof -
  obtain w where w: "BgpMessage_write demo_codec_env (MsgUpdate demo_wire_update) = Inr w" using message_written [OF demo_wire_update_ok] by blast
  have d: "BgpCodec_decode demo_codec_env BgpCodec_default w = (received (MsgUpdate demo_wire_update) BgpCodec_default, [],
      Inr (Some (MsgUpdate demo_wire_update, ctx_parsing_errors (codec_ctx BgpCodec_default))))"
    using decode_written [OF demo_wire_update_ok w, of "[]"] by simp
  from session_codec_is_strict [OF initial] d show ?thesis by blast
qed

section \<open>Link-state attributes\<close>

definition link_state_attr :: "bool \<Rightarrow> BgpLsAttributeValue list \<Rightarrow> PathAttribute" where
  "link_state_attr ext vs =
     \<lparr> pa_optional = True, pa_transitive = False, pa_partial = False, pa_extended_length = ext,
       pa_value = PA_BgpLs \<lparr> lsa_attributes = vs \<rparr> \<rparr>"

lemma link_state_attr_read:
  assumes "list_all ls_attr_ok vs" "fits ext (length (concat (map BgpLsAttributeValue_octets vs)))"
  shows "PathAttribute_from_wire env ctx (PathAttribute_write env (link_state_attr ext vs) @ tail) = Inr (link_state_attr ext vs, [])"
proof -
  let ?a = "\<lparr> lsa_attributes = vs \<rparr>" and ?w = "concat (map BgpLsAttributeValue_octets vs)"
  have n: "value_base_len env (PA_BgpLs ?a) = Suc (length ?w)" using ls_attrs_length [of ?a] assms(1) by simp
  have w: "value_write env ext (PA_BgpLs ?a) = length_octets ext (length ?w) @ ?w"
    using write_length_fits [OF assms(2)] n by (simp add: value_write_def value_len_def)
  have "BgpLsAttribute_from_wire ext (length_octets ext (length ?w) @ ?w @ tail) = Inr (?a, [])"
    using attribute_data_written [OF refl assms(2), of "()" tail] ls_attrs_read [OF assms(1)] by (simp add: BgpLsAttribute_from_wire_def)
  then have "typed_value env ctx ext (PathAttributeType_code PAT_BgpLsAttribute # value_write env ext (PA_BgpLs ?a) @ tail) = Inr (PA_BgpLs ?a, [])"
    by (simp add: typed_value_def attribute_value_def value_with_def parse_bind_def parse_into_def parse_return_def w
        del: PathAttributeType_code.simps)
  then show ?thesis
    using attribute_flags_set [of "link_state_attr ext vs"]
    by (simp add: PathAttribute_from_wire_def PathAttribute_write_def link_state_attr_def parse_bind_def map_res_def map_err_def
        PathAttribute_from_def del: PathAttributeType_code.simps)
qed

text \<open>
  C40. A link-state attribute is read back, but the reader of attributes then goes on with what is left of that
  attribute's own data instead of what follows it, so every later attribute of the UPDATE is dropped
  without an error, whatever it is.
\<close>

theorem link_state_drops_the_rest:
  assumes "list_all ls_attr_ok vs" "fits ext (length (concat (map BgpLsAttributeValue_octets vs)))"
  shows "parse_attributes env ctx (PathAttribute_write env (link_state_attr ext vs) @ tail) = (ctx, Inr [link_state_attr ext vs])"
proof -
  have "PathAttribute_write env (link_state_attr ext vs) @ tail \<noteq> []" by (simp add: PathAttribute_write_def)
  then show ?thesis
    using link_state_attr_read [OF assms, of env ctx tail]
    by (subst parse_attributes.simps) (simp add: parse_attributes.simps [of env ctx "[]"])
qed

theorem link_state_drops_the_rest_witness:
  "let attr = link_state_attr False [LSA_NodeNameTlv [0x72, 0x31], LSA_IgpFlags True False False True]
   in parse_attributes demo_codec_env BgpParsingContext_default
        (PathAttribute_write demo_codec_env attr @ PathAttribute_write demo_codec_env (well_known (PA_NextHop 1))) =
      (BgpParsingContext_default, Inr [attr])"
  unfolding Let_def
proof (rule link_state_drops_the_rest)
  show ok: "list_all ls_attr_ok [LSA_NodeNameTlv [0x72, 0x31], LSA_IgpFlags True False False True]" by simp
  show "fits False (length (concat (map BgpLsAttributeValue_octets [LSA_NodeNameTlv [0x72, 0x31], LSA_IgpFlags True False False True])))"
    using ls_attrs_length [of "\<lparr> lsa_attributes = [LSA_NodeNameTlv [0x72, 0x31], LSA_IgpFlags True False False True] \<rparr>"]
    by (simp add: fits_def BgpLsAttribute_tlvs_len_def BgpLsAttributeValue_len_def del: length_concat)
qed

end
