(* ===== verification/Erez_Wire_Laws.thy ===== *)
theory Erez_Wire_Laws
  imports Wire_Codec_Runs Erez_Bgp_Laws
begin

text \<open>
  From the octets of a session to the routes of the daemon: which path identifiers the routes of an
  UPDATE have, and what that means for withdrawals.
\<close>

section \<open>Path identifiers of what is read\<close>

lemma sum_bind_Inr: "(case r of Inl e \<Rightarrow> Inl e | Inr x \<Rightarrow> f x) = Inr y \<longleftrightarrow> (\<exists>x. r = Inr x \<and> f x = Inr y)"
  by (simp split: sum.split)

lemma map_err_Inr: "map_err f r = Inr a \<longleftrightarrow> r = Inr a"
  by (simp add: map_err_def split: sum.split)

lemma parse_till_empty_all:
  assumes p: "\<And>bs a rest. p bs = Inr (a, rest) \<Longrightarrow> P a"
  shows "parse_till_empty p bs = Inr as \<Longrightarrow> list_all P as"
proof (induction "length bs" arbitrary: bs as rule: less_induct)
  case less
  show ?case
  proof (cases "bs = []")
    case False
    from less.prems False have "as = [] \<or> (\<exists>a rest as'. p bs = Inr (a, rest) \<and> length rest < length bs \<and>
        parse_till_empty p rest = Inr as' \<and> as = a # as')"
      by (subst (asm) parse_till_empty.simps) (auto split: if_splits sum.splits prod.splits)
    then show ?thesis using less.hyps p by auto
  qed (use less.prems in simp)
qed

lemma read_addr6_path_id:
  "Ipv6UnicastAddress_from_wire add_path bs = Inr (a, rest) \<Longrightarrow> (v6_path_id a \<noteq> None) = add_path"
  by (auto simp: Ipv6UnicastAddress_from_wire_def read_path_id_def parse_bind_Inr map_res_Inr parse_return_def split: if_splits)

lemma value_with_Inr: "value_with err mk p bs = Inr (v, rest) \<longleftrightarrow> (\<exists>a. p bs = Inr (a, rest) \<and> v = mk a)"
  by (auto simp: value_with_def parse_bind_Inr parse_into_def parse_return_def split: sum.splits)

lemma unknown_value_Inr: "unknown_value ext bs = Inr (v, rest) \<longleftrightarrow>
    (\<exists>code val. v = PA_UnknownAttribute code val \<and> UnknownAttribute_from_wire ext bs = Inr ((code, val), rest))"
  by (auto simp: unknown_value_def value_with_Inr)

lemma typed_mp:
  "typed_value env ctx ext bs = Inr (PA_MpReach m, rest) \<Longrightarrow> \<exists>bs'. MpReach_from_wire env ctx ext bs' = Inr (m, rest)"
  "typed_value env ctx ext bs = Inr (PA_MpUnreach u, rest) \<Longrightarrow> \<exists>bs'. MpUnreach_from_wire env ctx ext bs' = Inr (u, rest)"
  by (auto simp: typed_value_def attribute_value_def value_with_Inr unknown_value_Inr
      split: sum.splits option.splits PathAttributeType.splits) blast+

lemma MpReach_v6_path_ids:
  assumes "MpReach_from_wire env ctx ext bs = Inr (MpReach_Ipv6Unicast g l nlri, rest)"
  shows "list_all (\<lambda>a. v6_path_id a \<noteq> None) nlri"
proof -
  obtain afi safi mp_buf where "mp_reach_value env ctx afi safi mp_buf = Inr (MpReach_Ipv6Unicast g l nlri)"
    using assms by (auto simp: MpReach_from_wire_def map_res_Inr sum_bind_Inr)
  then obtain buf where "parse_till_empty (Ipv6UnicastAddress_from_wire True) buf = Inr nlri"
    by (auto simp: mp_reach_value_def after_next_hop_def nlri_with_def split: sum.splits AddressType.splits)
  then show ?thesis by (rule parse_till_empty_all [rotated]) (use read_addr6_path_id [of True] in blast)
qed

lemma MpUnreach_v6_path_ids:
  assumes "MpUnreach_from_wire env ctx ext bs = Inr (MpUnreach_Ipv6Unicast nlri, rest)" "ctx_add_path ctx AT_Ipv6Unicast = None"
  shows "list_all (\<lambda>a. v6_path_id a = None) nlri"
proof -
  obtain afi safi mp_buf where "mp_unreach_value env ctx afi safi mp_buf = Inr (MpUnreach_Ipv6Unicast nlri)"
    using assms by (auto simp: MpUnreach_from_wire_def map_res_Inr sum_bind_Inr)
  then obtain buf where "parse_till_empty (Ipv6UnicastAddress_from_wire False) buf = Inr nlri"
    using assms(2) by (auto simp: mp_unreach_value_def nlri_with_def add_path_for_def split: sum.splits AddressType.splits option.splits)
  then show ?thesis by (rule parse_till_empty_all [rotated]) (use read_addr6_path_id [of False] in blast)
qed

lemma attribute_values:
  assumes "PathAttribute_from_wire env ctx bs = Inr (attr, rest)"
  shows "\<exists>ext bs'. typed_value env ctx ext bs' = Inr (pa_value attr, rest)"
proof -
  obtain f1 f2 f3 e v where "PathAttribute_from f1 f2 f3 e v = Inr attr" "\<exists>bs'. typed_value env ctx e bs' = Inr (v, rest)"
    using assms by (simp add: PathAttribute_from_wire_def parse_bind_Inr map_res_Inr map_err_Inr) blast
  moreover from this have "pa_value attr = v" by (auto simp: PathAttribute_from_def split: if_splits)
  ultimately show ?thesis by auto
qed

lemma parse_attributes_elem:
  assumes "ctx_fail_on_malformed_path_attr ctx"
  shows "parse_attributes env ctx bs = (ctx', Inr attrs) \<Longrightarrow>
    list_all (\<lambda>attr. \<exists>bs rest. PathAttribute_from_wire env ctx bs = Inr (attr, rest)) attrs"
proof (induction "length bs" arbitrary: bs attrs rule: less_induct)
  case less
  show ?case
  proof (cases "bs = []")
    case False
    from less.prems False assms obtain a rest as where a: "PathAttribute_from_wire env ctx bs = Inr (a, rest)"
      "parse_attributes env ctx rest = (ctx', Inr as)" "attrs = a # as"
      by (subst (asm) parse_attributes.simps) (auto split: if_splits sum.splits prod.splits)
    then show ?thesis using less.hyps [OF shrinksD [OF attribute.rd_shrinks a(1)] a(2)] by auto
  qed (use less.prems in \<open>simp add: parse_attributes.simps\<close>)
qed

text \<open>The path identifiers of the attributes of an UPDATE that the codec of a session yields.\<close>

lemma decoded_attributes:
  assumes "codec_reachable env c" "BgpCodec_decode env c buf = (c', buf', Inr (Some (MsgUpdate m, errors)))" "attr \<in> set (um_path_attributes m)"
  shows "pa_value attr = PA_MpReach (MpReach_Ipv6Unicast g l nlri) \<Longrightarrow> list_all (\<lambda>a. v6_path_id a \<noteq> None) nlri"
    "pa_value attr = PA_MpUnreach (MpUnreach_Ipv6Unicast nlri) \<Longrightarrow> list_all (\<lambda>a. v6_path_id a = None) nlri"
proof -
  obtain ctx0 remainder where m: "BgpMessage_from_wire env (decode_ctx c) buf = (ctx0, Inr (MsgUpdate m, remainder))"
    using assms(2) by (auto simp: BgpCodec_decode_def Let_def split: if_splits prod.splits sum.splits)
  then obtain t bs ctx1 where "body_from_wire env t (decode_ctx c) bs = (ctx1, Inr (MsgUpdate m, []))"
    by (auto simp: BgpMessage_from_wire_def split: sum.splits prod.splits if_splits)
  then obtain bs2 ctx2 ctx3 where u: "BgpUpdateMessage_from_wire env (decode_ctx c) bs = (ctx2, Inr (m, []))"
    by (auto simp: body_from_wire_def split: BgpMessageType.splits sum.splits prod.splits)
  then obtain ws ctx3 as ctx4 where w: "parse_nlri env True False (decode_ctx c) ws = (ctx3, Inr (um_withdrawn_routes m))"
    and a: "parse_attributes env ctx3 as = (ctx4, Inr (um_path_attributes m))"
    by (auto simp: BgpUpdateMessage_from_wire_def split: sum.splits prod.splits)
  have s: "ctx_strict ctx3"
    using parse_nlri_strict [OF w] codec_strict [OF assms(1)] by (simp add: decode_ctx_def)
  then have n: "ctx_add_path ctx3 AT_Ipv6Unicast = None" by (simp add: ctx_strict_def)
  obtain bs' rest where "PathAttribute_from_wire env ctx3 bs' = Inr (attr, rest)"
    using parse_attributes_elem [OF _ a] strict_flags [OF s] assms(3) by (auto simp: list_all_iff)
  then obtain ext bs'' where v: "typed_value env ctx3 ext bs'' = Inr (pa_value attr, rest)" using attribute_values by blast
  show "pa_value attr = PA_MpReach (MpReach_Ipv6Unicast g l nlri) \<Longrightarrow> list_all (\<lambda>a. v6_path_id a \<noteq> None) nlri"
    using typed_mp(1) v MpReach_v6_path_ids by metis
  show "pa_value attr = PA_MpUnreach (MpUnreach_Ipv6Unicast nlri) \<Longrightarrow> list_all (\<lambda>a. v6_path_id a = None) nlri"
    using typed_mp(2) v MpUnreach_v6_path_ids n by metis
qed

section \<open>Withdrawals\<close>

lemma find_map_elem: "find_map f xs = Some y \<Longrightarrow> \<exists>x\<in>set xs. f x = Some y"
  by (induction xs) (auto split: option.splits)

lemma first_mp_elem:
  "first_mp_reach attrs = Some m \<Longrightarrow> \<exists>attr\<in>set attrs. pa_value attr = PA_MpReach m"
  "first_mp_unreach attrs = Some u \<Longrightarrow> \<exists>attr\<in>set attrs. pa_value attr = PA_MpUnreach u"
  unfolding first_mp_reach_def first_mp_unreach_def
  by (fastforce dest!: find_map_elem split: PathAttributeValue.splits)+

definition announced_routes :: "Update \<Rightarrow> Route list" where
  "announced_routes u = concat (map an_routes (up_announcements u))"

lemma announced_v6:
  assumes "Update_try_from m = Inr u" "r \<in> set (announced_routes u)" "rt_nlri r = NetV6 a l"
  shows "\<exists>attr g loc nlri x. attr \<in> set (um_path_attributes m) \<and> pa_value attr = PA_MpReach (MpReach_Ipv6Unicast g loc nlri) \<and>
    x \<in> set nlri \<and> r = Route_from_v6 x"
  using assms first_mp_elem(1)
  by (fastforce simp: Update_try_from_def announced_routes_def legacy_announcements_def mp_v4_announcements_def mp_v6_announcements_def
      Route_from_v4_def split: sum.splits if_splits option.splits MpReach.splits)

lemma withdrawn_v6:
  assumes "Update_try_from m = Inr u" "r \<in> set (up_withdrawals u)" "rt_nlri r = NetV6 a l"
  shows "\<exists>attr nlri x. attr \<in> set (um_path_attributes m) \<and> pa_value attr = PA_MpUnreach (MpUnreach_Ipv6Unicast nlri) \<and>
    x \<in> set nlri \<and> r = Route_from_v6 x"
  using assms first_mp_elem(2)
  by (fastforce simp: Update_try_from_def mp_v4_withdrawals_def mp_v6_withdrawals_def Route_from_v4_def
      split: sum.splits option.splits MpUnreach.splits)

text \<open>
  C38. No IPv6 route that a peer announces is ever withdrawn by an UPDATE of a peer: the codec of a
  session reads announced IPv6 networks with a path identifier and withdrawn ones without, so that
  the withdrawn routes never name an announced one.
\<close>

theorem ipv6_routes_never_withdrawn:
  assumes "codec_reachable env c1" "BgpCodec_decode env c1 buf1 = (c1', buf1', Inr (Some (MsgUpdate m1, errors1)))"
    and "codec_reachable env c2" "BgpCodec_decode env c2 buf2 = (c2', buf2', Inr (Some (MsgUpdate m2, errors2)))"
    and "Update_try_from m1 = Inr u1" "Update_try_from m2 = Inr u2"
    and "route \<in> set (announced_routes u1)" "rt_nlri route = NetV6 a l"
  shows "route \<notin> set (up_withdrawals u2)"
proof
  assume w: "route \<in> set (up_withdrawals u2)"
  obtain attr g loc nlri x where 1: "attr \<in> set (um_path_attributes m1)" "pa_value attr = PA_MpReach (MpReach_Ipv6Unicast g loc nlri)"
    "x \<in> set nlri" "route = Route_from_v6 x"
    using announced_v6 [OF assms(5,7,8)] by blast
  obtain attr' nlri' y where 2: "attr' \<in> set (um_path_attributes m2)" "pa_value attr' = PA_MpUnreach (MpUnreach_Ipv6Unicast nlri')"
    "y \<in> set nlri'" "route = Route_from_v6 y"
    using withdrawn_v6 [OF assms(6) w assms(8)] by blast
  have "v6_path_id x \<noteq> None" using decoded_attributes(1) [OF assms(1,2) 1(1,2)] 1(3) by (auto simp: list_all_iff)
  moreover have "v6_path_id y = None" using decoded_attributes(2) [OF assms(3,4) 2(1,2)] 2(3) by (auto simp: list_all_iff)
  moreover have "v6_path_id x = v6_path_id y" using 1(4) 2(4) by (simp add: Route_from_v6_def)
  ultimately show False by simp
qed

text \<open>A peer announces ::/0 under path identifier 7 and withdraws it in a message without one.\<close>

definition optional_attr :: "PathAttributeValue \<Rightarrow> PathAttribute" where
  "optional_attr v = \<lparr> pa_optional = True, pa_transitive = False, pa_partial = False, pa_extended_length = False, pa_value = v \<rparr>"

definition demo_net6 :: "ipv6addr \<times> u8" where
  "demo_net6 = (0, 0)"

definition demo_announce_v6 :: BgpUpdateMessage where
  "demo_announce_v6 =
     \<lparr> um_withdrawn_routes = [],
       um_path_attributes = [optional_attr (PA_MpReach (MpReach_Ipv6Unicast 1 None [\<lparr> v6_path_id = Some 7, v6_network = demo_net6 \<rparr>]))],
       um_nlri = [] \<rparr>"

definition demo_withdraw :: BgpUpdateMessage where
  "demo_withdraw =
     \<lparr> um_withdrawn_routes = [],
       um_path_attributes = [optional_attr (PA_MpUnreach (MpUnreach_Ipv6Unicast [\<lparr> v6_path_id = None, v6_network = demo_net6 \<rparr>]))],
       um_nlri = [] \<rparr>"

lemma demo_net6_ok: "net6_ok demo_codec_env demo_net6"
proof -
  have "to_be_bytes (0 :: u128) = replicate 16 0" by (simp add: to_be_bytes_def nat_to_be_zero)
  then show ?thesis
    by (simp add: net6_ok_def prefix6_ok_def demo_codec_env_def demo_net6_def round_len_eq div_ceil8_def Ipv6Unicast_from_net_def Ipv6Addr_is_multicast_def)
qed

lemma demo_v6_messages_ok:
  "msg_ok demo_codec_env (decode_ctx BgpCodec_default) (MsgUpdate demo_announce_v6)"
  "msg_ok demo_codec_env (decode_ctx BgpCodec_default) (MsgUpdate demo_withdraw)"
proof -
  have n: "add_path_for (decode_ctx BgpCodec_default) AT_Ipv6Unicast = False"
    by (simp add: add_path_for_def decode_ctx_def BgpCodec_default_def BgpParsingContext_default_def BgpParsingContext_new_def)
  have a: "addr6_ok demo_codec_env True \<lparr> v6_path_id = Some 7, v6_network = demo_net6 \<rparr>"
    "addr6_ok demo_codec_env False \<lparr> v6_path_id = None, v6_network = demo_net6 \<rparr>"
    using demo_net6_ok by (simp_all add: addr6_ok_def)
  note sizes = msg_ok_def update_ok_def attr_ok_def optional_attr_def PathAttribute_from_def fits_def BgpMessage_len_def
    BgpUpdateMessage_len_def withdrawn_len_def attrs_len_def PathAttribute_len_def value_len_def nlris_len_def
    Ipv6UnicastAddress_len_def path_id_len_def local_len_def demo_net6_def round_len_eq div_ceil8_def
  show "msg_ok demo_codec_env (decode_ctx BgpCodec_default) (MsgUpdate demo_announce_v6)"
    using a(1) reach_length [of demo_codec_env "decode_ctx BgpCodec_default" "MpReach_Ipv6Unicast 1 None [\<lparr> v6_path_id = Some 7, v6_network = demo_net6 \<rparr>]"]
    by (simp add: demo_announce_v6_def sizes del: MpReach_body.simps)
  show "msg_ok demo_codec_env (decode_ctx BgpCodec_default) (MsgUpdate demo_withdraw)"
    using a(2) n unreach_length [of demo_codec_env "decode_ctx BgpCodec_default" "MpUnreach_Ipv6Unicast [\<lparr> v6_path_id = None, v6_network = demo_net6 \<rparr>]"]
    by (simp add: demo_withdraw_def sizes del: MpUnreach_body.simps)
qed

theorem ipv6_routes_never_withdrawn_witness:
  "\<exists>buf1 buf2 c1' c2' e1 e2 u1 u2 route.
    BgpCodec_decode demo_codec_env BgpCodec_default buf1 = (c1', [], Inr (Some (MsgUpdate demo_announce_v6, e1))) \<and>
    BgpCodec_decode demo_codec_env BgpCodec_default buf2 = (c2', [], Inr (Some (MsgUpdate demo_withdraw, e2))) \<and>
    Update_try_from demo_announce_v6 = Inr u1 \<and> Update_try_from demo_withdraw = Inr u2 \<and>
    route \<in> set (announced_routes u1) \<and> map rt_nlri (up_withdrawals u2) = [rt_nlri route] \<and> route \<notin> set (up_withdrawals u2)"
proof -
  obtain w1 w2 where w: "BgpMessage_write demo_codec_env (MsgUpdate demo_announce_v6) = Inr w1" "BgpMessage_write demo_codec_env (MsgUpdate demo_withdraw) = Inr w2"
    using message_written [OF demo_v6_messages_ok(1)] message_written [OF demo_v6_messages_ok(2)] by blast
  obtain c1 e1 c2 e2 where d: "BgpCodec_decode demo_codec_env BgpCodec_default w1 = (c1, [], Inr (Some (MsgUpdate demo_announce_v6, e1)))"
    "BgpCodec_decode demo_codec_env BgpCodec_default w2 = (c2, [], Inr (Some (MsgUpdate demo_withdraw, e2)))"
    using decode_written [OF demo_v6_messages_ok(1) w(1), of "[]"] decode_written [OF demo_v6_messages_ok(2) w(2), of "[]"] by auto
  let ?r = "Route_from_v6 \<lparr> v6_path_id = Some 7, v6_network = demo_net6 \<rparr>"
  obtain u1 where u1: "Update_try_from demo_announce_v6 = Inr u1" "?r \<in> set (announced_routes u1)"
    by (simp add: Update_try_from_def demo_announce_v6_def optional_attr_def legacy_announcements_def mp_v4_announcements_def
        mp_v6_announcements_def announced_routes_def first_mp_reach_def)
  obtain u2 where u2: "Update_try_from demo_withdraw = Inr u2" "map rt_nlri (up_withdrawals u2) = [rt_nlri ?r]"
    by (simp add: Update_try_from_def demo_withdraw_def optional_attr_def legacy_announcements_def mp_v4_withdrawals_def
        mp_v6_withdrawals_def first_mp_unreach_def Route_from_v6_def)
  have "rt_nlri ?r = NetV6 (fst demo_net6) (snd demo_net6)" by (simp add: Route_from_v6_def)
  from ipv6_routes_never_withdrawn [OF initial d(1) initial d(2) u1(1) u2(1) u1(2) this] d u1 u2
  show ?thesis by (intro exI [of _ w1] exI [of _ w2] exI [of _ c1] exI [of _ c2] exI [of _ e1] exI [of _ e2] exI [of _ u1]
        exI [of _ u2] exI [of _ ?r] conjI)
qed

end
