(* ===== verification/Wire_Streams.thy ===== *)
theory Wire_Streams
  imports Wire_Codec_Runs
begin

text \<open>
  The decoder of \<open>src/netgauze/bgp-pkt/src/codec.rs\<close> on a whole stream. A framed connection appends what
  arrives to a buffer and calls \<open>decode\<close> until it asks for more octets or fails (\<open>drain\<close>), for every
  piece of the stream that arrives (\<open>feed\<close>). Draining ends, and the pieces make no difference: the
  messages come out one by one and in the order in which they were written.
\<close>

section \<open>Draining the buffer\<close>

lemma decode_shrinks:
  assumes "BgpCodec_decode env c buf = (c', buf', Inr (Some (msg, errors)))"
  shows "19 + length buf' \<le> length buf"
proof -
  obtain ctx' remainder where n: "declared_length buf \<le> length buf" "buf' = drop (declared_length buf) buf"
    and f: "BgpMessage_from_wire env (decode_ctx c) buf = (ctx', Inr (msg, remainder))"
    using assms by (auto simp: BgpCodec_decode_def Let_def split: if_splits prod.splits sum.splits)
  obtain l slice where "buf = to_be_bytes (- 1 :: u128) @ to_be_bytes (l :: u16) @ slice @ remainder" "19 \<le> unat l"
    using message_frame [OF f] by blast
  then have "19 \<le> declared_length buf" by (simp add: declared_length_def from_to_be_bytes)
  then show ?thesis using n by simp
qed

function drain :: "codec_env \<Rightarrow> BgpCodec \<Rightarrow> bytes \<Rightarrow> BgpMessage list \<times> BgpCodec \<times> bytes \<times> BgpCodecDecoderError option" where
  "drain env c buf =
     (case BgpCodec_decode env c buf of
        (c', buf', Inl e) \<Rightarrow> ([], c', buf', Some e)
      | (c', buf', Inr None) \<Rightarrow> ([], c', buf', None)
      | (c', buf', Inr (Some (msg, _))) \<Rightarrow>
          (case drain env c' buf' of (msgs, rest) \<Rightarrow> (msg # msgs, rest)))"
  by pat_completeness auto

termination
  by (relation "measure (\<lambda>(_, _, buf). length buf)") (auto dest!: sym [of "(_, _)" "BgpCodec_decode _ _ _"] dest: decode_shrinks)

declare drain.simps [simp del]

lemma drain_step:
  "BgpCodec_decode env c buf = (c', buf', Inr (Some (msg, errors))) \<Longrightarrow>
     drain env c buf = (case drain env c' buf' of (msgs, rest) \<Rightarrow> (msg # msgs, rest))"
  by (subst drain.simps) simp

lemma drain_waits: "BgpCodec_decode env c buf = (c', buf', Inr None) \<Longrightarrow> drain env c buf = ([], c', buf', None)"
  by (subst drain.simps) simp

text \<open>
  C16. Draining the buffer ends, with a message for at most every nineteen octets that it takes, and it
  ends because the decoder asks for more octets, where it leaves the codec and the buffer alone, or
  because it has failed.
\<close>

theorem drain_ends:
  "case drain env c buf of
     (msgs, c', rest, e) \<Rightarrow>
       19 * length msgs + length rest \<le> length buf \<and>
       (case e of
          None \<Rightarrow> BgpCodec_decode env c' rest = (c', rest, Inr None)
        | Some err \<Rightarrow> \<exists>c1. BgpCodec_decode env c1 rest = (c', rest, Inl err))"
proof (induction env c buf rule: drain.induct)
  case (1 env c buf)
  obtain c' buf' r where d: "BgpCodec_decode env c buf = (c', buf', r)" by (cases "BgpCodec_decode env c buf")
  show ?case
  proof (cases r)
    case (Inl e)
    then have "buf' = buf" using d by (auto simp: BgpCodec_decode_def Let_def split: if_splits prod.splits sum.splits)
    then show ?thesis using d Inl by (subst drain.simps) auto
  next
    case (Inr opt)
    show ?thesis
    proof (cases opt)
      case None
      then have "buf' = buf" "c' = c"
        using d Inr by (auto simp: BgpCodec_decode_def Let_def split: if_splits prod.splits sum.splits)
      then show ?thesis using d Inr None by (subst drain.simps) simp
    next
      case (Some p)
      obtain msg errors where p: "p = (msg, errors)" by (cases p)
      have d': "BgpCodec_decode env c buf = (c', buf', Inr (Some (msg, errors)))" using d Inr Some p by simp
      then show ?thesis
        using 1 [OF d' [symmetric] refl refl refl refl] decode_shrinks [OF d'] drain_step [OF d']
        by (auto split: prod.splits)
    qed
  qed
qed

section \<open>Streams in pieces\<close>

text \<open>What arrives is appended to the buffer, and the buffer is drained; an error ends the stream.\<close>

fun feed :: "codec_env \<Rightarrow> BgpCodec \<Rightarrow> bytes \<Rightarrow> bytes list \<Rightarrow> BgpMessage list \<times> BgpCodec \<times> bytes \<times> BgpCodecDecoderError option" where
  "feed env c buf [] = ([], c, buf, None)"
| "feed env c buf (chunk # chunks) =
     (case drain env c (buf @ chunk) of
        (msgs, c', rest, Some e) \<Rightarrow> (msgs, c', rest, Some e)
      | (msgs, c', rest, None) \<Rightarrow> (case feed env c' rest chunks of (msgs', r) \<Rightarrow> (msgs @ msgs', r)))"

text \<open>Messages that each can be read back by the codec that has read the ones before.\<close>

fun stream_ok :: "codec_env \<Rightarrow> BgpCodec \<Rightarrow> BgpMessage list \<Rightarrow> bool" where
  "stream_ok env c [] = True"
| "stream_ok env c (msg # msgs) = (msg_ok env (decode_ctx c) msg \<and> stream_ok env (received msg c) msgs)"

definition written :: "codec_env \<Rightarrow> BgpMessage \<Rightarrow> bytes" where
  "written env msg = (case BgpMessage_write env msg of Inl _ \<Rightarrow> [] | Inr w \<Rightarrow> w)"

definition incomplete :: "codec_env \<Rightarrow> BgpMessage list \<Rightarrow> bytes \<Rightarrow> bool" where
  "incomplete env msgs rest = (case msgs of [] \<Rightarrow> rest = [] | msg # _ \<Rightarrow> length rest < length (written env msg))"

lemma written_frame:
  assumes "msg_ok env (decode_ctx c) msg"
  shows "BgpMessage_write env msg = Inr (written env msg)" "declared_length (written env msg) = length (written env msg)" "19 \<le> length (written env msg)"
proof -
  obtain w where w: "BgpMessage_write env msg = Inr w" using message_written [OF assms] by blast
  then show "BgpMessage_write env msg = Inr (written env msg)" by (simp add: written_def)
  show "declared_length (written env msg) = length (written env msg)" "19 \<le> length (written env msg)"
    using message_length [OF assms w] message_length(2) [OF assms w, of "[]"] w by (simp_all add: written_def)
qed

lemma drain_prefix:
  assumes "stream_ok env c msgs" "p @ s = concat (map (written env) msgs)"
  shows "\<exists>front todo rest. msgs = front @ todo \<and> drain env c p = (front, fold received front c, rest, None) \<and>
    rest @ s = concat (map (written env) todo) \<and> incomplete env todo rest \<and> stream_ok env (fold received front c) todo"
  using assms
proof (induction msgs arbitrary: c p)
  case Nil
  then have "drain env c p = ([], c, [], None)" by (intro drain_waits) (simp add: BgpCodec_decode_def)
  then show ?case using Nil by (intro exI [of _ "[]"]) (simp add: incomplete_def)
next
  case (Cons msg msgs)
  have ok: "msg_ok env (decode_ctx c) msg" "stream_ok env (received msg c) msgs" using Cons.prems(1) by simp_all
  note w = written_frame [OF ok(1)]
  show ?case
  proof (cases "length p < length (written env msg)")
    case True
    then obtain q where q: "written env msg = p @ q" using Cons.prems(2) by (auto simp: append_eq_append_conv2 dest: sym)
    moreover have "q \<noteq> []" using True q by auto
    ultimately have q: "written env msg = p @ q" "q \<noteq> []" by simp_all
    have "drain env c p = ([], c, p, None)" by (intro drain_waits decode_prefix_waits [OF w(2) q])
    then show ?thesis
      using Cons.prems True by (intro exI [of _ "[]"] exI [of _ "msg # msgs"] exI [of _ p]) (simp add: incomplete_def)
  next
    case False
    let ?w = "written env msg" and ?p' = "drop (length (written env msg)) p"
    have e: "p @ s = ?w @ concat (map (written env) msgs)" using Cons.prems(2) by simp
    have "p = ?w @ ?p'" using False arg_cong [OF e, of "take (length ?w)"] append_take_drop_id [of "length ?w" p] by simp
    moreover have "?p' @ s = concat (map (written env) msgs)" using False arg_cong [OF e, of "drop (length ?w)"] by simp
    ultimately obtain p' where p: "p = ?w @ p'" "p' @ s = concat (map (written env) msgs)" by blast
    obtain front todo rest where r: "msgs = front @ todo" "drain env (received msg c) p' = (front, fold received front (received msg c), rest, None)"
      "rest @ s = concat (map (written env) todo)" "incomplete env todo rest" "stream_ok env (fold received front (received msg c)) todo"
      using Cons.IH [OF ok(2) p(2)] by blast
    have "drain env c p = (msg # front, fold received (msg # front) c, rest, None)"
      using drain_step [OF decode_written [OF ok(1) w(1), of p']] r(2) by (simp add: p(1))
    then show ?thesis using r by (intro exI [of _ "msg # front"] exI [of _ todo] exI [of _ rest]) simp
  qed
qed

lemma feed_complete:
  assumes "stream_ok env c msgs" "incomplete env msgs buf" "buf @ concat chunks = concat (map (written env) msgs)"
  shows "feed env c buf chunks = (msgs, fold received msgs c, [], None)"
  using assms
proof (induction chunks arbitrary: c msgs buf)
  case Nil
  then show ?case by (cases msgs) (auto simp: incomplete_def)
next
  case (Cons chunk chunks)
  then have "(buf @ chunk) @ concat chunks = concat (map (written env) msgs)" by simp
  then obtain front todo rest where r: "msgs = front @ todo" "drain env c (buf @ chunk) = (front, fold received front c, rest, None)"
    "rest @ concat chunks = concat (map (written env) todo)" "incomplete env todo rest" "stream_ok env (fold received front c) todo"
    using drain_prefix [OF Cons.prems(1)] by blast
  then show ?case using Cons.IH [OF r(5,4,3)] by simp
qed

text \<open>
  C15. When every message written to a stream satisfies the side condition of the round trip (\<open>msg_ok\<close>) in
  the context of the codec that has read the messages before it (\<open>stream_ok\<close>), then however the stream is
  cut into pieces on its way, every message is decoded, once and in the order of writing, and nothing
  is left in the buffer. So the messages after an exchange of OPENs must have AS numbers of the width
  that was agreed. Messages outside of the condition may be lost or misread: a multiple labels
  capability, for example, or a labelled network of more than 248 bits.
\<close>

theorem stream_delivered:
  assumes "stream_ok env c msgs" "concat chunks = concat (map (written env) msgs)"
  shows "feed env c [] chunks = (msgs, fold received msgs c, [], None)"
proof (rule feed_complete [OF assms(1)])
  show "incomplete env msgs []"
  proof (cases msgs)
    case (Cons msg rest)
    then have "msg_ok env (decode_ctx c) msg" using assms(1) by simp
    from written_frame(3) [OF this] show ?thesis using Cons by (auto simp: incomplete_def)
  qed (simp add: incomplete_def)
  show "[] @ concat chunks = concat (map (written env) msgs)" using assms(2) by simp
qed

lemma demo_stream_ok: "stream_ok demo_codec_env BgpCodec_default [MsgKeepAlive, MsgUpdate demo_wire_update]"
proof -
  have "msg_ok demo_codec_env (decode_ctx BgpCodec_default) MsgKeepAlive" by (simp add: msg_ok_def BgpMessage_len_def)
  moreover have "decode_ctx (received MsgKeepAlive BgpCodec_default) = decode_ctx BgpCodec_default"
    by (simp add: received_def decode_ctx_def BgpCodec_default_def codec_asn4_def BgpParsingContext_default_def BgpParsingContext_new_def)
  ultimately show ?thesis using demo_wire_update_ok by simp
qed

theorem stream_delivered_witness:
  "feed demo_codec_env BgpCodec_default []
     (map (\<lambda>b. [b]) (written demo_codec_env MsgKeepAlive @ written demo_codec_env (MsgUpdate demo_wire_update))) =
   ([MsgKeepAlive, MsgUpdate demo_wire_update],
    fold received [MsgKeepAlive, MsgUpdate demo_wire_update] BgpCodec_default, [], None)"
  by (rule stream_delivered [OF demo_stream_ok]) simp

section \<open>Networks with many labels\<close>

text \<open>
  A labelled IPv6 network of 249 to 255 bits can be made and written, but not read back: the reader
  takes 255 octets for it instead of thirty-two and fails unless that much of the attribute follows.
\<close>

theorem long_label_stack_rejected:
  assumes "Ipv6NlriMplsLabelsAddress_from None labels prefix = Inr a" "248 < Ipv6NlriMplsLabelsAddress_bits a"
    "list_all (\<lambda>label. length label = 3) labels" "prefix6_ok env prefix" "length rest \<le> 222"
  shows "\<exists>w. Ipv6NlriMplsLabelsAddress_write env a = Inr w \<and>
    Ipv6NlriMplsLabelsAddress_from_wire False is_unreach limit (w @ rest) = Inl ()"
proof -
  have a: "a = \<lparr> ml6_path_id = None, ml6_labels = labels, ml6_prefix = prefix \<rparr>" and n: "length labels * 24 + unat (snd prefix) \<le> 255"
    using assms(1) by (auto simp: Ipv6NlriMplsLabelsAddress_from_def split: if_splits)
  let ?n = "length labels * 24 + unat (snd prefix)"
  let ?body = "concat labels @ take (round_len (snd prefix)) (to_be_bytes (env_network6 env prefix))"
  have "length (concat labels) = 3 * length labels" using assms(3) by (induction labels) simp_all
  moreover have "3 * length labels + round_len (snd prefix) \<le> 32" unfolding round_len_eq div_ceil8_def using n by presburger
  ultimately have "length (?body @ rest) < 255" using assms(5) prefix_octets_length(2) [OF assms(4)] by simp
  moreover have "labels_prefix_size (of_nat ?n) = 255"
  proof -
    have "unat (of_nat ?n :: u8) = ?n" using n by (intro unat_of_nat_small) simp
    then have "(of_nat ?n :: u8) > 255 - 7" using assms(2) by (simp add: word_less_nat_alt a Ipv6NlriMplsLabelsAddress_bits_def)
    then show ?thesis by (simp add: labels_prefix_size_def)
  qed
  ultimately have "take_bytes () (labels_prefix_size (of_nat ?n)) (?body @ rest) = Inl ()" by (simp add: take_bytes_def)
  then show ?thesis
    using n by (simp add: a Ipv6NlriMplsLabelsAddress_write_def Ipv6NlriMplsLabelsAddress_octets_def Ipv6NlriMplsLabelsAddress_bits_def
        Ipv6NlriMplsLabelsAddress_from_wire_def parse_bind_def map_res_def read_path_id_def parse_return_def)
qed

theorem long_label_stack_rejected_witness:
  "\<exists>w. Ipv6NlriMplsLabelsAddress_write demo_codec_env
      \<lparr> ml6_path_id = None, ml6_labels = replicate 6 [0, 0, 1], ml6_prefix = (0, 106) \<rparr> = Inr w \<and>
    Ipv6NlriMplsLabelsAddress_from_wire False False 255 (w @ []) = Inl ()"
proof (rule long_label_stack_rejected [where labels = "replicate 6 [0, 0, 1]"])
  have "to_be_bytes (0 :: u128) = replicate 16 0" by (simp add: to_be_bytes_def nat_to_be_zero)
  then show "prefix6_ok demo_codec_env (0, 106)" by (simp add: prefix6_ok_def demo_codec_env_def round_len_eq div_ceil8_def)
qed (simp_all add: Ipv6NlriMplsLabelsAddress_from_def Ipv6NlriMplsLabelsAddress_bits_def list_all_iff)

end
