(* ===== verification/Wire_Families.thy ===== *)
theory Wire_Families
  imports Wire_Message_Laws
begin

text \<open>
  What messages and errors say of themselves (\<open>path_attribute/path_attribute.rs\<close> and \<open>wire/deserializer/mod.rs\<close> of
  \<open>src/netgauze/bgp-pkt/src\<close>): the address family of reachable and unreachable networks, the AS numbers of a
  path and the NOTIFICATION for an error of the decoder. The writers start with the family, and the readers yield
  a value of the family that they read; an attribute that is read has the flags of its type.
\<close>

section \<open>Address families\<close>

fun MpReach_address_type :: "MpReach \<Rightarrow> (AddressFamily \<times> SubsequentAddressFamily) + AddressType" where
  "MpReach_address_type (MpReach_Ipv4Unicast _ _ _) = Inr AT_Ipv4Unicast"
| "MpReach_address_type (MpReach_Ipv4Multicast _ _ _) = Inr AT_Ipv4Multicast"
| "MpReach_address_type (MpReach_Ipv4NlriMplsLabels _ _ _) = Inr AT_Ipv4NlriMplsLabels"
| "MpReach_address_type (MpReach_Ipv4MplsVpnUnicast _ _) = Inr AT_Ipv4MplsLabeledVpn"
| "MpReach_address_type (MpReach_Ipv6Unicast _ _ _) = Inr AT_Ipv6Unicast"
| "MpReach_address_type (MpReach_Ipv6Multicast _ _ _) = Inr AT_Ipv6Multicast"
| "MpReach_address_type (MpReach_Ipv6NlriMplsLabels _ _ _) = Inr AT_Ipv6NlriMplsLabels"
| "MpReach_address_type (MpReach_Ipv6MplsVpnUnicast _ _) = Inr AT_Ipv6MplsLabeledVpn"
| "MpReach_address_type (MpReach_L2Evpn _ _) = Inr AT_L2VpnBgpEvpn"
| "MpReach_address_type (MpReach_RouteTargetMembership _ _) = Inr AT_RouteTargetConstrains"
| "MpReach_address_type (MpReach_BgpLs _ _) = Inr AT_BgpLs"
| "MpReach_address_type (MpReach_BgpLsVpn _ _) = Inr AT_BgpLsVpn"
| "MpReach_address_type (MpReach_Unknown afi safi _) = Inl (afi, safi)"

fun MpReach_afi :: "MpReach \<Rightarrow> AddressFamily" where
  "MpReach_afi (MpReach_Ipv4Unicast _ _ _) = address_family AT_Ipv4Unicast"
| "MpReach_afi (MpReach_Ipv4Multicast _ _ _) = address_family AT_Ipv4Multicast"
| "MpReach_afi (MpReach_Ipv4NlriMplsLabels _ _ _) = address_family AT_Ipv4NlriMplsLabels"
| "MpReach_afi (MpReach_Ipv4MplsVpnUnicast _ _) = address_family AT_Ipv4MplsLabeledVpn"
| "MpReach_afi (MpReach_Ipv6Unicast _ _ _) = address_family AT_Ipv6Unicast"
| "MpReach_afi (MpReach_Ipv6Multicast _ _ _) = address_family AT_Ipv6Multicast"
| "MpReach_afi (MpReach_Ipv6NlriMplsLabels _ _ _) = address_family AT_Ipv6NlriMplsLabels"
| "MpReach_afi (MpReach_Ipv6MplsVpnUnicast _ _) = address_family AT_Ipv6MplsLabeledVpn"
| "MpReach_afi (MpReach_L2Evpn _ _) = address_family AT_L2VpnBgpEvpn"
| "MpReach_afi (MpReach_RouteTargetMembership _ _) = address_family AT_RouteTargetConstrains"
| "MpReach_afi (MpReach_BgpLs _ _) = address_family AT_BgpLs"
| "MpReach_afi (MpReach_BgpLsVpn _ _) = address_family AT_BgpLsVpn"
| "MpReach_afi (MpReach_Unknown afi safi _) = afi"

fun MpReach_safi :: "MpReach \<Rightarrow> SubsequentAddressFamily" where
  "MpReach_safi (MpReach_Ipv4Unicast _ _ _) = subsequent_address_family AT_Ipv4Unicast"
| "MpReach_safi (MpReach_Ipv4Multicast _ _ _) = subsequent_address_family AT_Ipv4Multicast"
| "MpReach_safi (MpReach_Ipv4NlriMplsLabels _ _ _) = subsequent_address_family AT_Ipv4NlriMplsLabels"
| "MpReach_safi (MpReach_Ipv4MplsVpnUnicast _ _) = subsequent_address_family AT_Ipv4MplsLabeledVpn"
| "MpReach_safi (MpReach_Ipv6Unicast _ _ _) = subsequent_address_family AT_Ipv6Unicast"
| "MpReach_safi (MpReach_Ipv6Multicast _ _ _) = subsequent_address_family AT_Ipv6Multicast"
| "MpReach_safi (MpReach_Ipv6NlriMplsLabels _ _ _) = subsequent_address_family AT_Ipv6NlriMplsLabels"
| "MpReach_safi (MpReach_Ipv6MplsVpnUnicast _ _) = subsequent_address_family AT_Ipv6MplsLabeledVpn"
| "MpReach_safi (MpReach_L2Evpn _ _) = subsequent_address_family AT_L2VpnBgpEvpn"
| "MpReach_safi (MpReach_RouteTargetMembership _ _) = subsequent_address_family AT_RouteTargetConstrains"
| "MpReach_safi (MpReach_BgpLs _ _) = subsequent_address_family AT_BgpLs"
| "MpReach_safi (MpReach_BgpLsVpn _ _) = subsequent_address_family AT_BgpLsVpn"
| "MpReach_safi (MpReach_Unknown afi safi _) = safi"

fun MpUnreach_afi :: "MpUnreach \<Rightarrow> AddressFamily" where
  "MpUnreach_afi (MpUnreach_Ipv4Unicast _) = address_family AT_Ipv4Unicast"
| "MpUnreach_afi (MpUnreach_Ipv4Multicast _) = address_family AT_Ipv4Multicast"
| "MpUnreach_afi (MpUnreach_Ipv4NlriMplsLabels _) = address_family AT_Ipv4NlriMplsLabels"
| "MpUnreach_afi (MpUnreach_Ipv4MplsVpnUnicast _) = address_family AT_Ipv4MplsLabeledVpn"
| "MpUnreach_afi (MpUnreach_Ipv6Unicast _) = address_family AT_Ipv6Unicast"
| "MpUnreach_afi (MpUnreach_Ipv6Multicast _) = address_family AT_Ipv6Multicast"
| "MpUnreach_afi (MpUnreach_Ipv6NlriMplsLabels _) = address_family AT_Ipv6NlriMplsLabels"
| "MpUnreach_afi (MpUnreach_Ipv6MplsVpnUnicast _) = address_family AT_Ipv6MplsLabeledVpn"
| "MpUnreach_afi (MpUnreach_L2Evpn _) = address_family AT_L2VpnBgpEvpn"
| "MpUnreach_afi (MpUnreach_RouteTargetMembership _) = address_family AT_RouteTargetConstrains"
| "MpUnreach_afi (MpUnreach_BgpLs _) = address_family AT_BgpLs"
| "MpUnreach_afi (MpUnreach_BgpLsVpn _) = address_family AT_BgpLsVpn"
| "MpUnreach_afi (MpUnreach_Unknown afi safi _) = afi"

fun MpUnreach_safi :: "MpUnreach \<Rightarrow> SubsequentAddressFamily" where
  "MpUnreach_safi (MpUnreach_Ipv4Unicast _) = subsequent_address_family AT_Ipv4Unicast"
| "MpUnreach_safi (MpUnreach_Ipv4Multicast _) = subsequent_address_family AT_Ipv4Multicast"
| "MpUnreach_safi (MpUnreach_Ipv4NlriMplsLabels _) = subsequent_address_family AT_Ipv4NlriMplsLabels"
| "MpUnreach_safi (MpUnreach_Ipv4MplsVpnUnicast _) = subsequent_address_family AT_Ipv4MplsLabeledVpn"
| "MpUnreach_safi (MpUnreach_Ipv6Unicast _) = subsequent_address_family AT_Ipv6Unicast"
| "MpUnreach_safi (MpUnreach_Ipv6Multicast _) = subsequent_address_family AT_Ipv6Multicast"
| "MpUnreach_safi (MpUnreach_Ipv6NlriMplsLabels _) = subsequent_address_family AT_Ipv6NlriMplsLabels"
| "MpUnreach_safi (MpUnreach_Ipv6MplsVpnUnicast _) = subsequent_address_family AT_Ipv6MplsLabeledVpn"
| "MpUnreach_safi (MpUnreach_L2Evpn _) = subsequent_address_family AT_L2VpnBgpEvpn"
| "MpUnreach_safi (MpUnreach_RouteTargetMembership _) = subsequent_address_family AT_RouteTargetConstrains"
| "MpUnreach_safi (MpUnreach_BgpLs _) = subsequent_address_family AT_BgpLs"
| "MpUnreach_safi (MpUnreach_BgpLsVpn _) = subsequent_address_family AT_BgpLsVpn"
| "MpUnreach_safi (MpUnreach_Unknown afi safi _) = safi"

lemma address_type_families:
  "MpReach_address_type r = Inr t \<Longrightarrow> MpReach_afi r = address_family t \<and> MpReach_safi r = subsequent_address_family t"
  "MpUnreach_address_type u = Inr t \<Longrightarrow> MpUnreach_afi u = address_family t \<and> MpUnreach_safi u = subsequent_address_family t"
  by (cases r; fastforce) (cases u; fastforce)

lemma families_of_unknown:
  "MpReach_address_type r = Inl (afi, safi) \<Longrightarrow> MpReach_afi r = afi \<and> MpReach_safi r = safi"
  "MpUnreach_address_type u = Inl (afi, safi) \<Longrightarrow> MpUnreach_afi u = afi \<and> MpUnreach_safi u = safi"
  by (cases r; fastforce) (cases u; fastforce)

text \<open>The writers start with \<open>afi\<close> and \<open>safi\<close>.\<close>

lemma family_written:
  "take 3 (MpReach_body env r) = family_write (MpReach_afi r) (MpReach_safi r)"
  "take 3 (MpUnreach_body env u) = family_write (MpUnreach_afi u) (MpUnreach_safi u)"
proof -
  have l: "length (family_write a b) = 3" for a b by (simp add: family_write_def)
  show "take 3 (MpReach_body env r) = family_write (MpReach_afi r) (MpReach_safi r)"
    using l by (cases r) (simp_all add: reach_def family_of_def)
  show "take 3 (MpUnreach_body env u) = family_write (MpUnreach_afi u) (MpUnreach_safi u)"
    using l by (cases u) (simp_all add: unreach_def family_of_def)
qed

lemma nlri_with_Inr [simp]: "nlri_with e mk r = Inr m \<longleftrightarrow> (\<exists>ns. r = Inr ns \<and> m = mk ns)"
  by (auto simp: nlri_with_def split: sum.splits)

lemma after_next_hop_Inr: "after_next_hop p f buf = Inr m \<Longrightarrow> \<exists>h buf'. f h buf' = Inr m"
  by (auto simp: after_next_hop_def split: sum.splits prod.splits)

lemma mp_reach_address_type:
  assumes "mp_reach_value env ctx afi safi buf = Inr r" "from_afi_safi afi safi = Inr t"
  shows "MpReach_address_type r = Inr t \<or> r = MpReach_Unknown afi safi buf"
  using assms by (cases t) (auto simp: mp_reach_value_def dest!: after_next_hop_Inr)

lemma mp_unreach_address_type:
  assumes "mp_unreach_value env ctx afi safi buf = Inr u" "from_afi_safi afi safi = Inr t" "t \<noteq> AT_RouteTargetConstrains"
  shows "MpUnreach_address_type u = Inr t \<or> u = MpUnreach_Unknown afi safi buf"
  using assms by (cases t) (auto simp: mp_unreach_value_def)

text \<open>
  C39. Reachable networks are read as networks of the address family in front of them, whatever the octets
  behind it, and so are unreachable ones, with one exception: withdrawn route target memberships are read
  as Ethernet VPN routes.
\<close>

theorem family_read:
  "(mp_reach_value env ctx afi safi buf = Inr r \<longrightarrow> MpReach_afi r = afi \<and> MpReach_safi r = safi) \<and>
   (mp_unreach_value env ctx afi safi buf = Inr u \<longrightarrow>
      (if from_afi_safi afi safi = Inr AT_RouteTargetConstrains then MpUnreach_address_type u = Inr AT_L2VpnBgpEvpn
       else MpUnreach_afi u = afi \<and> MpUnreach_safi u = safi))"
proof (cases "from_afi_safi afi safi")
  case (Inl e)
  then show ?thesis by (auto simp: mp_reach_value_def mp_unreach_value_def)
next
  case (Inr t)
  note t = from_afi_safi_Inr [OF Inr]
  have "MpReach_afi r = afi \<and> MpReach_safi r = safi" if "mp_reach_value env ctx afi safi buf = Inr r"
    using mp_reach_address_type [OF that Inr] t address_type_families(1) by auto
  moreover have "MpUnreach_afi u = afi \<and> MpUnreach_safi u = safi"
    if "mp_unreach_value env ctx afi safi buf = Inr u" "t \<noteq> AT_RouteTargetConstrains"
    using mp_unreach_address_type [OF that(1) Inr that(2)] t address_type_families(2) by auto
  moreover have "MpUnreach_address_type u = Inr AT_L2VpnBgpEvpn"
    if "mp_unreach_value env ctx afi safi buf = Inr u" "t = AT_RouteTargetConstrains"
    using that Inr by (auto simp: mp_unreach_value_def)
  ultimately show ?thesis using Inr by auto
qed

theorem family_read_witness:
  "let r = MpReach_Ipv6Unicast 1 None []; u = MpUnreach_L2Evpn []
   in mp_reach_value demo_codec_env BgpParsingContext_default AFI_IPv6 SAFI_Unicast (16 # to_be_bytes (1 :: ipv6addr) @ [0]) = Inr r \<and>
      MpReach_afi r = AFI_IPv6 \<and> MpReach_safi r = SAFI_Unicast \<and>
      mp_unreach_value demo_codec_env BgpParsingContext_default AFI_IPv4 SAFI_RouteTargetConstrains [] = Inr u \<and>
      MpUnreach_address_type u = Inr AT_L2VpnBgpEvpn"
proof -
  have f: "from_afi_safi AFI_IPv6 SAFI_Unicast = Inr AT_Ipv6Unicast"
    "from_afi_safi AFI_IPv4 SAFI_RouteTargetConstrains = Inr AT_RouteTargetConstrains"
    using from_afi_safi_roundtrip [of AT_Ipv6Unicast] from_afi_safi_roundtrip [of AT_RouteTargetConstrains] by simp_all
  have r: "mp_reach_value demo_codec_env BgpParsingContext_default AFI_IPv6 SAFI_Unicast (16 # to_be_bytes (1 :: ipv6addr) @ [0]) =
      Inr (MpReach_Ipv6Unicast 1 None [])"
    by (simp add: mp_reach_value_def f after_next_hop_def parse_ipv6_next_hop_def nlri_with_def parse_bind_def parse_return_def)
  have u: "mp_unreach_value demo_codec_env BgpParsingContext_default AFI_IPv4 SAFI_RouteTargetConstrains [] = Inr (MpUnreach_L2Evpn [])"
    by (simp add: mp_unreach_value_def f nlri_with_def)
  show ?thesis
    using family_read [of demo_codec_env BgpParsingContext_default AFI_IPv6 SAFI_Unicast "16 # to_be_bytes (1 :: ipv6addr) @ [0]" "MpReach_Ipv6Unicast 1 None []"]
      family_read [of demo_codec_env BgpParsingContext_default AFI_IPv4 SAFI_RouteTargetConstrains "[]" _ "MpUnreach_L2Evpn []"] r u f
    by (simp add: Let_def)
qed

section \<open>Flags of attributes\<close>

lemma flag_set_bit: "flag_set flags 0x80 = bit flags 7" "flag_set flags 0x40 = bit flags 6" "flag_set flags 0x20 = bit flags 5"
proof -
  have "flag_set flags (2 ^ n) = bit flags n" if "n < 8" for n
  proof
    assume "flag_set flags (2 ^ n)"
    then have "flags AND 2 ^ n \<noteq> 0" using that by (simp add: flag_set_def)
    then show "bit flags n" by (simp add: and_exp_eq_0_iff_not_bit)
  next
    assume b: "bit flags n"
    show "flag_set flags (2 ^ n)" unfolding flag_set_def
      by (rule bit_word_eqI) (use b in \<open>auto simp: bit_and_iff bit_exp_iff\<close>)
  qed
  from this [of 7] this [of 6] this [of 5]
  show "flag_set flags 0x80 = bit flags 7" "flag_set flags 0x40 = bit flags 6" "flag_set flags 0x20 = bit flags 5" by simp_all
qed

lemma value_with_read: "value_with err mk p bs = Inr (val, rest) \<Longrightarrow> \<exists>a. val = mk a"
  by (auto simp: value_with_def parse_bind_def parse_return_def split: sum.splits)

lemma attribute_value_type:
  assumes "attribute_value env ctx ext t = Some p" "p bs = Inr (val, rest)"
  shows "path_attribute_type val = Inr t"
  using assms by (cases t) (auto simp: attribute_value_def dest!: value_with_read)

text \<open>The code of an attribute as its value names it.\<close>

definition attribute_code :: "PathAttributeValue \<Rightarrow> u8" where
  "attribute_code val = (case path_attribute_type val of Inr t \<Rightarrow> PathAttributeType_code t | Inl code \<Rightarrow> code)"

lemma unknown_value_code:
  assumes "unknown_value ext (code # bs) = Inr (val, rest)"
  shows "\<exists>v. val = PA_UnknownAttribute code v"
  using assms
  by (auto simp: unknown_value_def value_with_def UnknownAttribute_from_wire_def parse_into_def parse_bind_def parse_return_def
      split: sum.splits)

text \<open>The types that the reader knows; every other attribute is read as an unknown one.\<close>

definition known_codes :: "u8 set" where
  "known_codes = {1, 2, 3, 4, 5, 6, 7, 8, 9, 10, 14, 15, 16, 17, 25, 26, 29, 32, 35, 40}"

lemma known_code_type:
  assumes "code \<in> known_codes"
  shows "\<exists>t p. PathAttributeType_try_from code = Inr t \<and> attribute_value env ctx ext t = Some p"
proof -
  let ?known = "{PAT_Origin, PAT_AsPath, PAT_NextHop, PAT_MultiExitDiscriminator, PAT_LocalPreference, PAT_AtomicAggregate,
    PAT_Aggregator, PAT_Communities, PAT_OriginatorId, PAT_ClusterList, PAT_MpReachNlri, PAT_MpUnreachNlri, PAT_ExtendedCommunities,
    PAT_As4Path, PAT_ExtendedCommunitiesIpv6, PAT_AccumulatedIgp, PAT_BgpLsAttribute, PAT_LargeCommunities, PAT_OnlyToCustomer,
    PAT_BgpPrefixSid}"
  have "code \<in> PathAttributeType_code ` ?known" using assms by (simp add: known_codes_def)
  then obtain t where t: "code = PathAttributeType_code t" "t \<in> ?known" by (rule imageE)
  have "attribute_value env ctx ext t \<noteq> None" using t(2) by (elim insertE emptyE) (simp_all add: attribute_value_def)
  then show ?thesis
    using attribute_type.try_roundtrip [of t] t(1) by (auto simp: PathAttributeType_try_from_def)
qed

lemma typed_value_code:
  assumes "typed_value env ctx ext (code # bs) = Inr (val, rest)"
  shows "attribute_code val = code" "code \<in> known_codes \<Longrightarrow> \<exists>t. path_attribute_type val = Inr t"
proof -
  have "(\<exists>t p. PathAttributeType_try_from code = Inr t \<and> attribute_value env ctx ext t = Some p \<and> p bs = Inr (val, rest)) \<or>
      (\<nexists>t p. PathAttributeType_try_from code = Inr t \<and> attribute_value env ctx ext t = Some p) \<and> unknown_value ext (code # bs) = Inr (val, rest)"
    using assms by (auto simp: typed_value_def split: sum.splits option.splits)
  then consider (known) t where "PathAttributeType_try_from code = Inr t" "path_attribute_type val = Inr t"
    | (unknown) v where "\<nexists>t p. PathAttributeType_try_from code = Inr t \<and> attribute_value env ctx ext t = Some p" "val = PA_UnknownAttribute code v"
    using attribute_value_type unknown_value_code by metis
  then show "attribute_code val = code" "code \<in> known_codes \<Longrightarrow> \<exists>t. path_attribute_type val = Inr t"
    by (cases; use known_code_type [of code env ctx ext] attribute_type.try_Inr [of code, folded PathAttributeType_try_from_def]
        in \<open>auto simp: attribute_code_def\<close>)+
qed

lemma accepted_flags:
  assumes "PathAttribute_from optional tran partial ext val = Inr attr" "path_attribute_type val = Inr t"
  shows "(attribute_code val \<in> {1, 2, 3, 5, 6} \<longrightarrow> \<not> optional \<and> tran \<and> \<not> partial) \<and>
    (attribute_code val \<in> {4, 9, 10, 14, 15, 26, 29} \<longrightarrow> optional \<and> \<not> tran \<and> \<not> partial) \<and>
    (attribute_code val \<in> {7, 8, 16, 17, 25, 32, 40} \<longrightarrow> optional \<and> tran) \<and>
    (attribute_code val = 35 \<longrightarrow> optional \<and> tran \<and> \<not> partial)"
  using assms by (cases val) (auto simp: PathAttribute_from_def attribute_code_def split: if_splits)

text \<open>
  C30. An attribute that is read has the type its second octet names and the flags of its first octet,
  and these are the ones that the RFCs give to each type: the well-known ones ORIGIN, AS_PATH, NEXT_HOP,
  LOCAL_PREF and ATOMIC_AGGREGATE (1, 2, 3, 5, 6) are transitive, not optional and not partial; MED,
  ORIGINATOR_ID, CLUSTER_LIST, MP_REACH, MP_UNREACH, AIGP and BGP-LS (4, 9, 10, 14, 15, 26, 29) are
  optional, not transitive and not partial; AGGREGATOR, AS4_PATH, the communities and the prefix segment
  identifier (7, 8, 16, 17, 25, 32, 40) are optional and transitive, partial or not; and ONLY_TO_CUSTOMER
  (35) is optional and transitive and, in this code, never partial. Attributes of other types are kept
  as unknown ones, with any flags.
\<close>

theorem attribute_flags_read:
  assumes "PathAttribute_from_wire env ctx bs = Inr (attr, rest)"
  shows "\<exists>flags code body. bs = flags # code # body \<and> attribute_code (pa_value attr) = code \<and>
    (pa_optional attr \<longleftrightarrow> bit flags 7) \<and> (pa_transitive attr \<longleftrightarrow> bit flags 6) \<and> (pa_partial attr \<longleftrightarrow> bit flags 5) \<and>
    (code \<in> {1, 2, 3, 5, 6} \<longrightarrow> \<not> bit flags 7 \<and> bit flags 6 \<and> \<not> bit flags 5) \<and>
    (code \<in> {4, 9, 10, 14, 15, 26, 29} \<longrightarrow> bit flags 7 \<and> \<not> bit flags 6 \<and> \<not> bit flags 5) \<and>
    (code \<in> {7, 8, 16, 17, 25, 32, 40} \<longrightarrow> bit flags 7 \<and> bit flags 6) \<and>
    (code = 35 \<longrightarrow> bit flags 7 \<and> bit flags 6 \<and> \<not> bit flags 5)"
proof -
  obtain flags tl where bs: "bs = flags # tl" using assms by (cases bs) (simp_all add: PathAttribute_from_wire_def parse_bind_def)
  obtain val where v: "typed_value env ctx (flag_set flags 0x10) tl = Inr (val, rest)"
      and f: "PathAttribute_from (bit flags 7) (bit flags 6) (bit flags 5) (flag_set flags 0x10) val = Inr attr"
    using assms by (auto simp: PathAttribute_from_wire_def bs parse_bind_def map_res_def flag_set_bit map_err_def
        split: sum.splits prod.splits)
  obtain code body where tl: "tl = code # body" using v by (cases tl) (simp_all add: typed_value_def)
  note c = typed_value_code [OF v [unfolded tl]]
  have a: "pa_value attr = val" "pa_optional attr = bit flags 7" "pa_transitive attr = bit flags 6" "pa_partial attr = bit flags 5"
    using f by (auto simp: PathAttribute_from_def split: if_splits)
  have k: "code \<in> known_codes \<Longrightarrow> \<exists>t. path_attribute_type val = Inr t" by (rule c(2))
  have "(code \<in> {1, 2, 3, 5, 6} \<longrightarrow> \<not> bit flags 7 \<and> bit flags 6 \<and> \<not> bit flags 5) \<and>
    (code \<in> {4, 9, 10, 14, 15, 26, 29} \<longrightarrow> bit flags 7 \<and> \<not> bit flags 6 \<and> \<not> bit flags 5) \<and>
    (code \<in> {7, 8, 16, 17, 25, 32, 40} \<longrightarrow> bit flags 7 \<and> bit flags 6) \<and>
    (code = 35 \<longrightarrow> bit flags 7 \<and> bit flags 6 \<and> \<not> bit flags 5)"
  proof (cases "code \<in> known_codes")
    case True
    then show ?thesis using k accepted_flags [OF f] unfolding c(1) by blast
  next
    case False
    then show ?thesis by (auto simp: known_codes_def)
  qed
  then show ?thesis using bs tl a c(1) by blast
qed

theorem attribute_flags_read_witness:
  "\<exists>attr rest. PathAttribute_from_wire demo_codec_env BgpParsingContext_default [0x40, 1, 1, 0] = Inr (attr, rest) \<and>
     pa_transitive attr \<and> \<not> pa_optional attr"
proof -
  have t: "PathAttributeType_try_from 1 = Inr PAT_Origin" "OriginValue_try_from 0 = Inr IGP"
    using attribute_type.try_roundtrip [of PAT_Origin] origin.try_roundtrip [of IGP] by (simp_all add: PathAttributeType_try_from_def OriginValue_try_from_def)
  obtain attr rest where r: "PathAttribute_from_wire demo_codec_env BgpParsingContext_default [0x40, 1, 1, 0] = Inr (attr, rest)"
    by (simp add: PathAttribute_from_wire_def typed_value_def attribute_value_def value_with_def Origin_from_wire_def checked_length_def
        attribute_length_def parse_into_def parse_bind_def parse_return_def map_res_def map_err_def flag_set_def PathAttribute_from_def t)
  from attribute_flags_read [OF r] r show ?thesis by auto
qed

section \<open>AS numbers of a path\<close>

fun AsPath_into_vec :: "AsPathValue \<Rightarrow> u32 list" where
  "AsPath_into_vec (As2PathSegments segments) = concat (map (\<lambda>seg. map ucast (as2_as_numbers seg)) segments)"
| "AsPath_into_vec (As4PathSegments segments) = concat (map as4_as_numbers segments)"

definition widen_segment :: "As2PathSegment \<Rightarrow> As4PathSegment" where
  "widen_segment seg = \<lparr> as4_segment_type = as2_segment_type seg, as4_as_numbers = map ucast (as2_as_numbers seg) \<rparr>"

text \<open>The numbers of a two-octet path are those of the four-octet path that it stands for.\<close>

lemma AsPath_into_vec_widen: "AsPath_into_vec (As2PathSegments segs) = AsPath_into_vec (As4PathSegments (map widen_segment segs))"
  by (simp add: widen_segment_def comp_def)

section \<open>The notification for an error\<close>

fun BgpNotificationMessage_from :: "BgpMessageParsingError \<Rightarrow> BgpNotificationMessage" where
  "BgpNotificationMessage_from MsgPE_NomError = Notif_MessageHeaderError (Hdr_Unspecific [])"
| "BgpNotificationMessage_from (MsgPE_ConnectionNotSynchronized header) =
     Notif_MessageHeaderError (Hdr_ConnectionNotSynchronized (to_be_bytes header))"
| "BgpNotificationMessage_from (MsgPE_UndefinedBgpMessageType msg_type) = Notif_MessageHeaderError (Hdr_BadMessageType [msg_type])"
| "BgpNotificationMessage_from (MsgPE_BadMessageLength bad_length) =
     Notif_MessageHeaderError (Hdr_BadMessageLength (to_be_bytes bad_length))"
| "BgpNotificationMessage_from (MsgPE_Open open_err) = Notif_OpenMessageError (OpenMessageError_from open_err)"
| "BgpNotificationMessage_from (MsgPE_Update update_err) = Notif_UpdateMessageError (UpdateMessageError_from update_err)"
| "BgpNotificationMessage_from (MsgPE_Notification _) = Notif_FiniteStateMachineError (Fsm_Unspecific [])"
| "BgpNotificationMessage_from (MsgPE_RouteRefresh route_refresh_error) =
     Notif_RouteRefreshError (RouteRefreshError_from route_refresh_error)"

lemma open_error_len: "OpenMessageError_len (OpenMessageError_from e) \<le> 5"
proof (cases e)
  case (OpenPE_ParameterError p)
  then show ?thesis by (cases p) simp_all
qed simp_all

lemma attr_error_len: "UpdateMessageError_len (UpdateMessageError_from_attr e) = 1"
  by (cases e) simp_all

lemma update_error_len: "UpdateMessageError_len (UpdateMessageError_from e) = 1"
  by (cases e) (simp_all add: attr_error_len)

text \<open>Every error of the decoder can be reported: its notification is short and read back by the other side.\<close>

lemma notification_from_len: "BgpNotificationMessage_len (BgpNotificationMessage_from e) \<le> 18"
proof (cases e)
  case (MsgPE_Open err)
  then show ?thesis using open_error_len [of err] by simp
qed (simp_all add: update_error_len RouteRefreshError_from_def)

lemma notification_from_ok: "msg_ok env ctx (MsgNotification (BgpNotificationMessage_from e))"
  using notification_from_len [of e] by (simp add: msg_ok_def BgpMessage_len_def)

lemma decode_error_reported:
  "\<exists>w. BgpMessage_write env (MsgNotification (BgpNotificationMessage_from e)) = Inr w \<and> length w \<le> 37 \<and>
     BgpMessage_from_wire env ctx (w @ rest) = (ctx, Inr (MsgNotification (BgpNotificationMessage_from e), rest))"
proof -
  note ok = notification_from_ok [of env ctx e]
  then obtain w where w: "BgpMessage_write env (MsgNotification (BgpNotificationMessage_from e)) = Inr w"
    using message_written by blast
  then show ?thesis
    using message_read_written [OF ok w] message_length(1) [OF ok w] notification_from_len [of e] by (auto simp: BgpMessage_len_def)
qed

end
