(* ===== verification/Iana_Tcp.thy ===== *)
theory Iana_Tcp
  imports Prelude
begin

text \<open>
  The flags of a TCP header (\<open>src/netgauze/iana/src/tcp.rs\<close>): the octet that holds them, their union and how
  they are shown. The octet and the flags determine each other, and the union is the bitwise one.
\<close>

unbundle bit_operations_syntax

section \<open>Model\<close>

record TCPHeaderFlags =
  FIN :: bool
  SYN :: bool
  RST :: bool
  PSH :: bool
  ACK :: bool
  URG :: bool
  ECE :: bool
  CWR :: bool

definition TCPHeaderFlags_to_vec :: "TCPHeaderFlags \<Rightarrow> string list" where
  "TCPHeaderFlags_to_vec f =
     (if FIN f then [''FIN''] else []) @ (if SYN f then [''SYN''] else []) @ (if RST f then [''RST''] else []) @
     (if PSH f then [''PSH''] else []) @ (if ACK f then [''ACK''] else []) @ (if URG f then [''URG''] else []) @
     (if ECE f then [''ECE''] else []) @ (if CWR f then [''CWR''] else [])"

fun join :: "string \<Rightarrow> string list \<Rightarrow> string" where
  "join sep [] = []"
| "join sep [s] = s"
| "join sep (s # ss) = s @ sep @ join sep ss"

definition TCPHeaderFlags_fmt :: "TCPHeaderFlags \<Rightarrow> string" where
  "TCPHeaderFlags_fmt f = ''['' @ join '', '' (TCPHeaderFlags_to_vec f) @ '']''"

definition TCPHeaderFlags_bitor :: "TCPHeaderFlags \<Rightarrow> TCPHeaderFlags \<Rightarrow> TCPHeaderFlags" where
  "TCPHeaderFlags_bitor f g =
     \<lparr> FIN = FIN f \<or> FIN g, SYN = SYN f \<or> SYN g, RST = RST f \<or> RST g, PSH = PSH f \<or> PSH g,
       ACK = ACK f \<or> ACK g, URG = URG f \<or> URG g, ECE = ECE f \<or> ECE g, CWR = CWR f \<or> CWR g \<rparr>"

definition TCPHeaderFlags_bitor_assign :: "TCPHeaderFlags \<Rightarrow> TCPHeaderFlags \<Rightarrow> TCPHeaderFlags" where
  "TCPHeaderFlags_bitor_assign f rhs =
     f \<lparr> FIN := FIN f \<or> FIN rhs, SYN := SYN f \<or> SYN rhs, RST := RST f \<or> RST rhs, PSH := PSH f \<or> PSH rhs,
         ACK := ACK f \<or> ACK rhs, URG := URG f \<or> URG rhs, ECE := ECE f \<or> ECE rhs, CWR := CWR f \<or> CWR rhs \<rparr>"

definition TCPHeaderFlags_from_u8 :: "u8 \<Rightarrow> TCPHeaderFlags" where
  "TCPHeaderFlags_from_u8 v =
     \<lparr> FIN = v AND 0x01 \<noteq> 0, SYN = v AND 0x02 \<noteq> 0, RST = v AND 0x04 \<noteq> 0, PSH = v AND 0x08 \<noteq> 0,
       ACK = v AND 0x10 \<noteq> 0, URG = v AND 0x20 \<noteq> 0, ECE = v AND 0x40 \<noteq> 0, CWR = v AND 0x80 \<noteq> 0 \<rparr>"

definition TCPHeaderFlags_from_u16 :: "u16 \<Rightarrow> TCPHeaderFlags" where
  "TCPHeaderFlags_from_u16 v = TCPHeaderFlags_from_u8 (ucast v)"

definition TCPHeaderFlags_into_u8 :: "TCPHeaderFlags \<Rightarrow> u8" where
  "TCPHeaderFlags_into_u8 f =
     (let v = 0;
          v = (if FIN f then v OR 0x01 else v);
          v = (if SYN f then v OR 0x02 else v);
          v = (if RST f then v OR 0x04 else v);
          v = (if PSH f then v OR 0x08 else v);
          v = (if ACK f then v OR 0x10 else v);
          v = (if URG f then v OR 0x20 else v);
          v = (if ECE f then v OR 0x40 else v);
          v = (if CWR f then v OR 0x80 else v)
      in v)"

definition TCPHeaderFlags_into_u16 :: "TCPHeaderFlags \<Rightarrow> u16" where
  "TCPHeaderFlags_into_u16 f = ucast (TCPHeaderFlags_into_u8 f)"

section \<open>Laws\<close>

text \<open>The flags of an octet are its bits, from the lowest one on.\<close>

definition tcp_bits :: "TCPHeaderFlags \<Rightarrow> bool list" where
  "tcp_bits f = [FIN f, SYN f, RST f, PSH f, ACK f, URG f, ECE f, CWR f]"

lemma tcp_bits_inj: "tcp_bits f = tcp_bits g \<Longrightarrow> f = g"
  by (cases f; cases g) (simp add: tcp_bits_def)

lemma length_tcp_bits [simp]: "length (tcp_bits f) = 8"
  by (simp add: tcp_bits_def)

lemma less_8_cases: "n < 8 \<longleftrightarrow> n \<in> {0, 1, 2, 3, 4, 5, 6, 7}" for n :: nat
  by auto

lemma mask_bit: "(v :: u8) AND 2 ^ n \<noteq> 0 \<longleftrightarrow> bit v n"
  by (simp add: and_exp_eq_0_iff_not_bit)

lemma tcp_bits_from_u8: "tcp_bits (TCPHeaderFlags_from_u8 v) = map (bit v) [0..<8]"
  using mask_bit [of v 0] mask_bit [of v 1] mask_bit [of v 2] mask_bit [of v 3]
    mask_bit [of v 4] mask_bit [of v 5] mask_bit [of v 6] mask_bit [of v 7]
  by (simp add: tcp_bits_def TCPHeaderFlags_from_u8_def upt_rec numeral_eq_Suc)

lemma bit_into_u8: "n < 8 \<Longrightarrow> bit (TCPHeaderFlags_into_u8 f) n = tcp_bits f ! n"
  unfolding less_8_cases TCPHeaderFlags_into_u8_def Let_def tcp_bits_def
  by (elim insertE emptyE; hypsubst) (simp_all add: bit_or_iff)

lemma into_from_u8 [simp]: "TCPHeaderFlags_into_u8 (TCPHeaderFlags_from_u8 v) = v"
  by (rule bit_word_eqI) (simp add: bit_into_u8 tcp_bits_from_u8)

lemma from_into_u8 [simp]: "TCPHeaderFlags_from_u8 (TCPHeaderFlags_into_u8 f) = f"
  by (rule tcp_bits_inj) (rule nth_equalityI, simp_all add: tcp_bits_from_u8 bit_into_u8)

lemma ucast_u16_u8: "ucast (ucast w :: u16) = w" for w :: u8
  by (rule bit_word_eqI) (simp add: bit_ucast_iff)

lemma from_into_u16: "TCPHeaderFlags_from_u16 (TCPHeaderFlags_into_u16 f) = f"
  by (simp add: TCPHeaderFlags_from_u16_def TCPHeaderFlags_into_u16_def ucast_u16_u8)

text \<open>The upper eight bits, which a header has for the data offset and reserved bits, are dropped.\<close>

lemma into_from_u16: "TCPHeaderFlags_into_u16 (TCPHeaderFlags_from_u16 v) = v AND mask 8"
  by (rule bit_word_eqI) (auto simp: TCPHeaderFlags_from_u16_def TCPHeaderFlags_into_u16_def bit_ucast_iff bit_and_iff bit_mask_iff)

lemma bitor_is_or: "TCPHeaderFlags_into_u8 (TCPHeaderFlags_bitor f g) = TCPHeaderFlags_into_u8 f OR TCPHeaderFlags_into_u8 g"
proof (rule bit_word_eqI)
  fix n assume "n < LENGTH(8)"
  then have n: "n < 8" by simp
  moreover have "tcp_bits (TCPHeaderFlags_bitor f g) ! n \<longleftrightarrow> tcp_bits f ! n \<or> tcp_bits g ! n"
    using n unfolding less_8_cases by (elim insertE emptyE; hypsubst) (simp_all add: tcp_bits_def TCPHeaderFlags_bitor_def)
  ultimately show "bit (TCPHeaderFlags_into_u8 (TCPHeaderFlags_bitor f g)) n =
      bit (TCPHeaderFlags_into_u8 f OR TCPHeaderFlags_into_u8 g) n"
    by (simp add: bit_into_u8 bit_or_iff)
qed

lemma bitor_assign_is_bitor: "TCPHeaderFlags_bitor_assign f g = TCPHeaderFlags_bitor f g"
  by (cases f) (simp add: TCPHeaderFlags_bitor_assign_def TCPHeaderFlags_bitor_def)

text \<open>What is shown determines the flags, and the flags are shown without repetition.\<close>

lemma to_vec_names:
  "TCPHeaderFlags_to_vec f =
     map snd (filter fst (zip (tcp_bits f) [''FIN'', ''SYN'', ''RST'', ''PSH'', ''ACK'', ''URG'', ''ECE'', ''CWR'']))"
  by (simp add: TCPHeaderFlags_to_vec_def tcp_bits_def)

lemma to_vec_mem:
  "''FIN'' \<in> set (TCPHeaderFlags_to_vec f) \<longleftrightarrow> FIN f" "''SYN'' \<in> set (TCPHeaderFlags_to_vec f) \<longleftrightarrow> SYN f"
  "''RST'' \<in> set (TCPHeaderFlags_to_vec f) \<longleftrightarrow> RST f" "''PSH'' \<in> set (TCPHeaderFlags_to_vec f) \<longleftrightarrow> PSH f"
  "''ACK'' \<in> set (TCPHeaderFlags_to_vec f) \<longleftrightarrow> ACK f" "''URG'' \<in> set (TCPHeaderFlags_to_vec f) \<longleftrightarrow> URG f"
  "''ECE'' \<in> set (TCPHeaderFlags_to_vec f) \<longleftrightarrow> ECE f" "''CWR'' \<in> set (TCPHeaderFlags_to_vec f) \<longleftrightarrow> CWR f"
  by (simp_all add: TCPHeaderFlags_to_vec_def)

lemma to_vec_inj: "TCPHeaderFlags_to_vec f = TCPHeaderFlags_to_vec g \<Longrightarrow> f = g"
  by (rule tcp_bits_inj) (simp add: tcp_bits_def flip: to_vec_mem)

end
