(* ===== verification/Erez_Daemon.thy ===== *)
theory Erez_Daemon
  imports Erez_Bgp
begin

text \<open>
  The life of the daemon (\<open>main.rs\<close>, \<open>config.rs\<close>, \<open>interface.rs\<close> and the attaching and detaching of programs in \<open>bpf.rs\<close> of
  \<open>src/erezd/src\<close>): loading the configuration, looking the interface up, attaching the eBPF programs, and
  shutting down. The state is which programs the kernel has attached. The results of libbpf, of the kernel, of
  the crates \<open>toml\<close>, \<open>tracing\<close>, \<open>network_interface\<close> and \<open>nix\<close>, and what ends the daemon, are the record \<open>daemon_env\<close>.
  A program that is attached to an interface stays attached until it is detached there, also when the
  process ends; the link of the socket program is detached when its handle is dropped.
\<close>

section \<open>Configuration\<close>

record EbpfConfig =
  eb_interface :: string

record LoggingConfig =
  lg_level :: string

record MetricsConfig =
  mt_listen_addr :: "IpAddr \<times> u16"

record EncapConfig =
  ec_bgp :: BgpConfig
  ec_ebpf :: EbpfConfig
  ec_logging :: LoggingConfig
  ec_metrics :: MetricsConfig

record DecapConfig =
  dc_ebpf :: EbpfConfig
  dc_logging :: LoggingConfig
  dc_metrics :: MetricsConfig

definition default_bgp_port :: u16 where
  "default_bgp_port = 179"

definition default_log_level :: string where
  "default_log_level = ''INFO''"

definition default_metrics_listen_addr :: "IpAddr \<times> u16" where
  "default_metrics_listen_addr = (IpV4 0x7F000001, 9100)"

section \<open>Interfaces\<close>

text \<open>An interface as the crate \<open>network_interface\<close> lists it, and the one that the daemon keeps, with its index as an \<open>i32\<close>.\<close>

record NetworkInterface =
  ni_name :: string
  ni_index :: u32

record Interface =
  if_name :: string
  if_index :: int

datatype InterfaceError = ListingFailed | NotFound string | BadIndex u32 | ZeroIndex string

definition Interface_lookup :: "NetworkInterface list option \<Rightarrow> string \<Rightarrow> InterfaceError + Interface" where
  "Interface_lookup listed name =
     (case listed of
        None \<Rightarrow> Inl ListingFailed
      | Some ifaces \<Rightarrow>
          (case find (\<lambda>iface. ni_name iface = name) ifaces of
             None \<Rightarrow> Inl (NotFound name)
           | Some iface \<Rightarrow>
               if 2 ^ 31 \<le> uint (ni_index iface) then Inl (BadIndex (ni_index iface))
               else if uint (ni_index iface) = 0 then Inl (ZeroIndex name)
               else Inr \<lparr> if_name = ni_name iface, if_index = uint (ni_index iface) \<rparr>))"

text \<open>The scope of the addresses of peers, in \<open>Speaker::run\<close>.\<close>

definition scope_id :: "NetworkInterface list option \<Rightarrow> string option \<Rightarrow> InterfaceError + u32" where
  "scope_id listed interface =
     (case interface of
        Some name \<Rightarrow> map_sum id (\<lambda>iface. of_int (if_index iface)) (Interface_lookup listed name)
      | None \<Rightarrow> Inr 0)"

section \<open>Programs\<close>

record kernel =
  k_tc :: bool
  k_xdp :: bool
  k_sockops :: bool

text \<open>What \<open>Errno::from_raw\<close> yields, as far as the code tells its values apart.\<close>

datatype Errno = EINVAL | ENOENT | OtherErrno

datatype map_handle = FibMap | FibCollector | MetricsHandle | RttEvents

datatype AttachError = LoadFailed | HookCreateFailed | HookAttachFailed | CgroupOpenFailed | SockopsFailed | MapFailed map_handle | XdpFailed

datatype DetachError = TcDetachFailed int | XdpDetachFailed int

text \<open>What ends the daemon: a signal, or a task whose result is an error or not.\<close>

datatype shutdown_cause = ShutdownSignal | TaskEnded "unit + unit"

record daemon_env =
  de_encap_config :: "string \<Rightarrow> EncapConfig option"
  de_decap_config :: "string \<Rightarrow> DecapConfig option"
  de_valid_level :: "string \<Rightarrow> bool"
  de_interfaces :: "NetworkInterface list option"
  de_load :: bool
  de_hook_create :: "Interface \<Rightarrow> bool"
  de_hook_attach :: "Interface \<Rightarrow> bool"
  de_cgroup_open :: bool
  de_attach_cgroup :: bool
  de_map_handle :: "map_handle \<Rightarrow> bool"
  de_xdp_attach :: "Interface \<Rightarrow> bool"
  de_tc_detach :: "bool \<Rightarrow> int"
  de_xdp_detach :: "bool \<Rightarrow> int"
  de_from_raw :: "int \<Rightarrow> Errno"
  de_cause :: shutdown_cause
  de_drained :: bool

text \<open>The handles of the maps in their order; the first that fails ends \<open>attach_encap\<close>.\<close>

fun map_handles :: "daemon_env \<Rightarrow> map_handle list \<Rightarrow> AttachError + unit" where
  "map_handles env [] = Inr ()"
| "map_handles env (h # hs) = (if de_map_handle env h then map_handles env hs else Inl (MapFailed h))"

definition attach_encap :: "daemon_env \<Rightarrow> Interface \<Rightarrow> kernel \<Rightarrow> kernel \<times> (AttachError + unit)" where
  "attach_encap env iface k =
     (if \<not> de_load env then (k, Inl LoadFailed)
      else if \<not> de_hook_create env iface then (k, Inl HookCreateFailed)
      else if \<not> de_hook_attach env iface then (k, Inl HookAttachFailed)
      else
        let k = k \<lparr> k_tc := True \<rparr>
        in if \<not> de_cgroup_open env then (k, Inl CgroupOpenFailed)
           else if \<not> de_attach_cgroup env then (k, Inl SockopsFailed)
           else
             (case map_handles env [FibMap, FibCollector, MetricsHandle, RttEvents] of
                Inl e \<Rightarrow> (k, Inl e)
              | Inr _ \<Rightarrow> (k \<lparr> k_sockops := True \<rparr>, Inr ())))"

definition attach_decap :: "daemon_env \<Rightarrow> Interface \<Rightarrow> kernel \<Rightarrow> kernel \<times> (AttachError + unit)" where
  "attach_decap env iface k =
     (if \<not> de_load env then (k, Inl LoadFailed)
      else if \<not> de_xdp_attach env iface then (k, Inl XdpFailed)
      else
        let k = k \<lparr> k_xdp := True \<rparr>
        in if de_map_handle env MetricsHandle then (k, Inr ()) else (k, Inl (MapFailed MetricsHandle)))"

definition is_not_attached :: "daemon_env \<Rightarrow> int \<Rightarrow> bool" where
  "is_not_attached env ret \<longleftrightarrow> de_from_raw env ret \<in> {EINVAL, ENOENT}"

definition detach_tc :: "daemon_env \<Rightarrow> kernel \<Rightarrow> kernel \<times> (DetachError + unit)" where
  "detach_tc env k =
     (let ret = de_tc_detach env (k_tc k); k = (if ret = 0 then k \<lparr> k_tc := False \<rparr> else k)
      in (k, if ret \<noteq> 0 \<and> \<not> is_not_attached env ret then Inl (TcDetachFailed ret) else Inr ()))"

definition detach_xdp :: "daemon_env \<Rightarrow> kernel \<Rightarrow> kernel \<times> (DetachError + unit)" where
  "detach_xdp env k =
     (let ret = de_xdp_detach env (k_xdp k); k = (if ret = 0 then k \<lparr> k_xdp := False \<rparr> else k)
      in (k, if ret \<noteq> 0 \<and> \<not> is_not_attached env ret then Inl (XdpDetachFailed ret) else Inr ()))"

definition detach :: "daemon_env \<Rightarrow> kernel \<Rightarrow> kernel \<times> (DetachError + unit)" where
  "detach env k =
     (let (k, tc_result) = detach_tc env k;
          (k, xdp_result) = detach_xdp env k
      in (k, case tc_result of Inl e \<Rightarrow> Inl e | Inr _ \<Rightarrow> xdp_result))"

section \<open>The daemon\<close>

datatype DaemonError = ConfigFailed | InvalidLogLevel | InterfaceFailed InterfaceError | AttachFailed AttachError | DetachFailed DetachError

datatype shutdown_log = ReceivedSignal | TaskFailed | Detached | DrainingTasks | AllTasksFinished | ShutdownTimedOut | ShutDown

datatype daemon_task = ServeMetrics | AggregateRtt | RunSpeaker | RunController

record daemon_run =
  r_kernel :: kernel
  r_tasks :: "daemon_task list"
  r_cancelled :: bool
  r_log :: "shutdown_log list"
  r_result :: "DaemonError + unit"

definition early :: "kernel \<Rightarrow> DaemonError \<Rightarrow> daemon_run" where
  "early k e = \<lparr> r_kernel = k, r_tasks = [], r_cancelled = False, r_log = [], r_result = Inl e \<rparr>"

definition cause_log :: "shutdown_cause \<Rightarrow> shutdown_log list" where
  "cause_log c = (case c of ShutdownSignal \<Rightarrow> [ReceivedSignal] | TaskEnded (Inl _) \<Rightarrow> [TaskFailed] | TaskEnded (Inr _) \<Rightarrow> [])"

definition graceful_shutdown :: "daemon_env \<Rightarrow> daemon_task list \<Rightarrow> kernel \<Rightarrow> daemon_run" where
  "graceful_shutdown env tasks k =
     (case detach env k of
        (k, Inl e) \<Rightarrow>
          \<lparr> r_kernel = k, r_tasks = tasks, r_cancelled = False, r_log = cause_log (de_cause env), r_result = Inl (DetachFailed e) \<rparr>
      | (k, Inr _) \<Rightarrow>
          \<lparr> r_kernel = k, r_tasks = tasks, r_cancelled = True,
            r_log = cause_log (de_cause env) @
              [Detached, DrainingTasks, if de_drained env then AllTasksFinished else ShutdownTimedOut, ShutDown],
            r_result = Inr () \<rparr>)"

text \<open>The link of the socket program is dropped when the daemon ends.\<close>

definition drop_links :: "daemon_run \<Rightarrow> daemon_run" where
  "drop_links r = r \<lparr> r_kernel := (r_kernel r) \<lparr> k_sockops := False \<rparr> \<rparr>"

definition encap_daemon :: "daemon_env \<Rightarrow> string \<Rightarrow> kernel \<Rightarrow> daemon_run" where
  "encap_daemon env path k =
     (case de_encap_config env path of
        None \<Rightarrow> early k ConfigFailed
      | Some config \<Rightarrow>
          if \<not> de_valid_level env (lg_level (ec_logging config)) then early k InvalidLogLevel
          else
            (case Interface_lookup (de_interfaces env) (eb_interface (ec_ebpf config)) of
               Inl e \<Rightarrow> early k (InterfaceFailed e)
             | Inr iface \<Rightarrow>
                 (case attach_encap env iface k of
                    (k, Inl e) \<Rightarrow> early k (AttachFailed e)
                  | (k, Inr _) \<Rightarrow> drop_links (graceful_shutdown env [ServeMetrics, AggregateRtt, RunSpeaker, RunController] k))))"

definition decap_daemon :: "daemon_env \<Rightarrow> string \<Rightarrow> kernel \<Rightarrow> daemon_run" where
  "decap_daemon env path k =
     (case de_decap_config env path of
        None \<Rightarrow> early k ConfigFailed
      | Some config \<Rightarrow>
          if \<not> de_valid_level env (lg_level (dc_logging config)) then early k InvalidLogLevel
          else
            (case Interface_lookup (de_interfaces env) (eb_interface (dc_ebpf config)) of
               Inl e \<Rightarrow> early k (InterfaceFailed e)
             | Inr iface \<Rightarrow>
                 (case attach_decap env iface k of
                    (k, Inl e) \<Rightarrow> early k (AttachFailed e)
                  | (k, Inr _) \<Rightarrow> graceful_shutdown env [ServeMetrics] k)))"

section \<open>Laws\<close>

lemma find_mem: "find P xs = Some x \<Longrightarrow> P x \<and> x \<in> set xs"
  by (induction xs) (auto split: if_splits)

lemma Interface_lookup_Inr:
  assumes "Interface_lookup listed name = Inr iface"
  shows "if_name iface = name" "0 < if_index iface" "if_index iface < 2 ^ 31"
    "\<exists>ifaces. listed = Some ifaces \<and> (\<exists>i\<in>set ifaces. ni_name i = name \<and> uint (ni_index i) = if_index iface)"
  using assms by (auto simp: Interface_lookup_def order_less_le split: option.splits if_splits dest!: find_mem)

text \<open>A scope is the index of the interface, and zero only when none is configured.\<close>

lemma scope_id_Inr:
  assumes "scope_id listed interface = Inr s"
  shows "s = 0 \<longleftrightarrow> interface = None"
proof (cases interface)
  case (Some name)
  with assms obtain iface where l: "Interface_lookup listed name = Inr iface" "s = of_int (if_index iface)"
    by (auto simp: scope_id_def map_sum_def split: sum.splits)
  then have "uint s = if_index iface"
    using Interface_lookup_Inr(2,3) [OF l(1)] by (simp add: uint_word_of_int_eq take_bit_int_eq_self)
  then show ?thesis using Some Interface_lookup_Inr(2) [OF l(1)] by auto
qed (use assms in \<open>simp add: scope_id_def\<close>)

text \<open>Both kinds of programs are detached, whatever the result for the other kind.\<close>

lemma detach_kernel:
  "fst (detach env k) =
     k \<lparr> k_tc := k_tc k \<and> de_tc_detach env (k_tc k) \<noteq> 0, k_xdp := k_xdp k \<and> de_xdp_detach env (k_xdp k) \<noteq> 0 \<rparr>"
  by (cases k) (auto simp: detach_def detach_tc_def detach_xdp_def Let_def)

lemma graceful_shutdown_kernel: "r_kernel (graceful_shutdown env tasks k) = fst (detach env k)"
  by (auto simp: graceful_shutdown_def split: prod.splits sum.splits)

text \<open>The errors of attaching that come after the program is on the interface.\<close>

definition none_attached :: kernel where
  "none_attached = \<lparr> k_tc = False, k_xdp = False, k_sockops = False \<rparr>"

fun late :: "AttachError \<Rightarrow> bool" where
  "late CgroupOpenFailed = True"
| "late SockopsFailed = True"
| "late (MapFailed _) = True"
| "late _ = False"

lemma map_handles_late: "map_handles env hs = Inl e \<Longrightarrow> late e"
  by (induction hs) (auto split: if_splits)

lemma attach_encap_failed: "attach_encap env iface none_attached = (k, Inl e) \<Longrightarrow> k = none_attached \<lparr> k_tc := late e \<rparr>"
  by (auto simp: attach_encap_def none_attached_def Let_def simp del: map_handles.simps dest: map_handles_late split: if_splits sum.splits)

lemma attach_encap_done: "attach_encap env iface none_attached = (k, Inr u) \<Longrightarrow> k = none_attached \<lparr> k_tc := True, k_sockops := True \<rparr>"
  by (auto simp: attach_encap_def none_attached_def Let_def simp del: map_handles.simps split: if_splits sum.splits)

lemma attach_decap_failed: "attach_decap env iface none_attached = (k, Inl e) \<Longrightarrow> k = none_attached \<lparr> k_xdp := late e \<rparr>"
  by (auto simp: attach_decap_def none_attached_def Let_def split: if_splits)

lemma attach_decap_done: "attach_decap env iface none_attached = (k, Inr u) \<Longrightarrow> k = none_attached \<lparr> k_xdp := True \<rparr>"
  by (auto simp: attach_decap_def none_attached_def Let_def split: if_splits)

text \<open>Whether a daemon failed to start after its program was on the interface.\<close>

definition left_behind :: "daemon_run \<Rightarrow> bool" where
  "left_behind r = (case r_result r of Inl (AttachFailed e) \<Rightarrow> late e | _ \<Rightarrow> False)"

lemma left_behind_simps [simp]:
  "left_behind (early k (AttachFailed e)) = late e" "\<not> left_behind (early k ConfigFailed)" "\<not> left_behind (early k InvalidLogLevel)"
  "\<not> left_behind (early k (InterfaceFailed i))" "left_behind (drop_links r) = left_behind r"
  "\<not> left_behind (graceful_shutdown env tasks k)"
  by (auto simp: left_behind_def early_def drop_links_def graceful_shutdown_def split: prod.splits sum.splits)

lemma run_kernel_simps [simp]:
  "r_kernel (early k e) = k" "r_kernel (drop_links r) = (r_kernel r) \<lparr> k_sockops := False \<rparr>"
  by (simp_all add: early_def drop_links_def)

lemma encap_outcome:
  "(\<exists>e. encap_daemon env path k = early k e \<and> \<not> left_behind (early k e)) \<or>
   (\<exists>iface k' e. attach_encap env iface k = (k', Inl e) \<and> encap_daemon env path k = early k' (AttachFailed e)) \<or>
   (\<exists>iface k'. attach_encap env iface k = (k', Inr ()) \<and> encap_daemon env path k = drop_links (graceful_shutdown env [ServeMetrics, AggregateRtt, RunSpeaker, RunController] k'))"
proof (cases "de_encap_config env path")
  case (Some config)
  show ?thesis
  proof (cases "de_valid_level env (lg_level (ec_logging config))")
    case True
    show ?thesis
    proof (cases "Interface_lookup (de_interfaces env) (eb_interface (ec_ebpf config))")
      case (Inr iface)
      obtain k' r where a: "attach_encap env iface k = (k', r)" by fastforce
      then have "encap_daemon env path k = (case r of Inl e \<Rightarrow> early k' (AttachFailed e) | Inr _ \<Rightarrow> drop_links (graceful_shutdown env [ServeMetrics, AggregateRtt, RunSpeaker, RunController] k'))"
        using Some True Inr by (simp add: encap_daemon_def)
      then show ?thesis using a by (cases r) (simp_all, blast+)
    qed (use Some True in \<open>auto simp: encap_daemon_def\<close>)
  qed (use Some in \<open>auto simp: encap_daemon_def\<close>)
qed (auto simp: encap_daemon_def)

lemma decap_outcome:
  "(\<exists>e. decap_daemon env path k = early k e \<and> \<not> left_behind (early k e)) \<or>
   (\<exists>iface k' e. attach_decap env iface k = (k', Inl e) \<and> decap_daemon env path k = early k' (AttachFailed e)) \<or>
   (\<exists>iface k'. attach_decap env iface k = (k', Inr ()) \<and> decap_daemon env path k = graceful_shutdown env [ServeMetrics] k')"
proof (cases "de_decap_config env path")
  case (Some config)
  show ?thesis
  proof (cases "de_valid_level env (lg_level (dc_logging config))")
    case True
    show ?thesis
    proof (cases "Interface_lookup (de_interfaces env) (eb_interface (dc_ebpf config))")
      case (Inr iface)
      obtain k' r where a: "attach_decap env iface k = (k', r)" by fastforce
      then have "decap_daemon env path k = (case r of Inl e \<Rightarrow> early k' (AttachFailed e) | Inr _ \<Rightarrow> graceful_shutdown env [ServeMetrics] k')"
        using Some True Inr by (simp add: decap_daemon_def)
      then show ?thesis using a by (cases r) (simp_all, blast+)
    qed (use Some True in \<open>auto simp: decap_daemon_def\<close>)
  qed (use Some in \<open>auto simp: decap_daemon_def\<close>)
qed (auto simp: decap_daemon_def)

text \<open>
  C31. A daemon that starts with no program attached ends with none, if the kernel detaches what is attached, unless it
  fails to start after it has attached the program to the interface: then that program is left attached.
  This holds whatever fails, and whether a signal or a task ends the daemon.
\<close>

theorem programs_detached:
  assumes "de_tc_detach env True = 0" "de_xdp_detach env True = 0"
  shows "r_kernel (encap_daemon env path none_attached) = none_attached \<lparr> k_tc := left_behind (encap_daemon env path none_attached) \<rparr> \<and>
    r_kernel (decap_daemon env path none_attached) = none_attached \<lparr> k_xdp := left_behind (decap_daemon env path none_attached) \<rparr>"
proof
  have n: "none_attached \<lparr> k_tc := False \<rparr> = none_attached" "none_attached \<lparr> k_xdp := False \<rparr> = none_attached"
    "none_attached \<lparr> k_tc := True, k_sockops := True \<rparr> = \<lparr> k_tc = True, k_xdp = False, k_sockops = True \<rparr>"
    "none_attached \<lparr> k_xdp := True \<rparr> = \<lparr> k_tc = False, k_xdp = True, k_sockops = False \<rparr>"
    "none_attached = \<lparr> k_tc = False, k_xdp = False, k_sockops = False \<rparr>"
    by (simp_all add: none_attached_def)
  show "r_kernel (encap_daemon env path none_attached) = none_attached \<lparr> k_tc := left_behind (encap_daemon env path none_attached) \<rparr>"
    using encap_outcome [of env path none_attached] assms
    by (elim disjE exE conjE) (auto dest!: attach_encap_done attach_encap_failed simp: n(1-4) graceful_shutdown_kernel detach_kernel simp flip: n(5))
  show "r_kernel (decap_daemon env path none_attached) = none_attached \<lparr> k_xdp := left_behind (decap_daemon env path none_attached) \<rparr>"
    using decap_outcome [of env path none_attached] assms
    by (elim disjE exE conjE) (auto dest!: attach_decap_done attach_decap_failed simp: n(1-4) graceful_shutdown_kernel detach_kernel simp flip: n(5))
qed

text \<open>
  Concrete instances: a router and a host whose interface \<open>eth0\<close> has index 2, a kernel that detaches what is attached and
  answers with the negative code 22 for a hook that does not exist, and codes that are known when they are positive.
\<close>

definition demo_encap_config :: EncapConfig where
  "demo_encap_config =
     \<lparr> ec_bgp = \<lparr> bc_asn = 65000, bc_bgp_id = 1, bc_peer_ips = [], bc_port = default_bgp_port \<rparr>, ec_ebpf = \<lparr> eb_interface = ''eth0'' \<rparr>,
       ec_logging = \<lparr> lg_level = default_log_level \<rparr>, ec_metrics = \<lparr> mt_listen_addr = default_metrics_listen_addr \<rparr> \<rparr>"

definition demo_decap_config :: DecapConfig where
  "demo_decap_config =
     \<lparr> dc_ebpf = \<lparr> eb_interface = ''eth0'' \<rparr>, dc_logging = \<lparr> lg_level = default_log_level \<rparr>,
       dc_metrics = \<lparr> mt_listen_addr = default_metrics_listen_addr \<rparr> \<rparr>"

definition demo_daemon_env :: "bool \<Rightarrow> daemon_env" where
  "demo_daemon_env cgroup =
     \<lparr> de_encap_config = (\<lambda>_. Some demo_encap_config), de_decap_config = (\<lambda>_. Some demo_decap_config),
       de_valid_level = (\<lambda>l. l \<in> {''OFF'', ''ERROR'', ''WARN'', ''INFO'', ''DEBUG'', ''TRACE''}),
       de_interfaces = Some [\<lparr> ni_name = ''lo'', ni_index = 1 \<rparr>, \<lparr> ni_name = ''eth0'', ni_index = 2 \<rparr>],
       de_load = True, de_hook_create = (\<lambda>_. True), de_hook_attach = (\<lambda>_. True), de_cgroup_open = cgroup, de_attach_cgroup = True,
       de_map_handle = (\<lambda>_. True), de_xdp_attach = (\<lambda>_. True), de_tc_detach = (\<lambda>attached. if attached then 0 else - 22),
       de_xdp_detach = (\<lambda>_. 0), de_from_raw = (\<lambda>r. if r = 22 then EINVAL else if r = 2 then ENOENT else OtherErrno),
       de_cause = ShutdownSignal, de_drained = True \<rparr>"

lemmas demo_daemon_defs = demo_daemon_env_def demo_encap_config_def demo_decap_config_def default_log_level_def Interface_lookup_def

theorem programs_detached_witness:
  "r_kernel (encap_daemon (demo_daemon_env True) ''config.toml'' none_attached) = none_attached \<and>
   r_kernel (encap_daemon (demo_daemon_env False) ''config.toml'' none_attached) = none_attached \<lparr> k_tc := True \<rparr>"
proof -
  have "\<not> left_behind (encap_daemon (demo_daemon_env True) ''config.toml'' none_attached)"
    "left_behind (encap_daemon (demo_daemon_env False) ''config.toml'' none_attached)"
    by (simp_all add: encap_daemon_def demo_daemon_defs attach_encap_def)
  then show ?thesis
    using programs_detached [of "demo_daemon_env True" "''config.toml''"] programs_detached [of "demo_daemon_env False" "''config.toml''"]
    by (simp add: demo_daemon_env_def none_attached_def)
qed

text \<open>
  C32. The kernel answers a request to detach a traffic control program that is not there with a negative code, as the
  comment in \<open>is_not_attached\<close> says, but the code looks the negative number up, which is no error number. So a
  decapsulation daemon, which has none, always ends with an error: its own program is detached, but its tasks
  are neither told to stop nor waited for.
\<close>

theorem decap_shutdown_fails:
  assumes "de_xdp_detach env True = 0" "de_tc_detach env False < 0" "\<forall>r < 0. de_from_raw env r = OtherErrno"
    and "r_tasks (decap_daemon env path none_attached) \<noteq> []"
  shows "r_result (decap_daemon env path none_attached) = Inl (DetachFailed (TcDetachFailed (de_tc_detach env False))) \<and>
    \<not> r_cancelled (decap_daemon env path none_attached) \<and> r_kernel (decap_daemon env path none_attached) = none_attached"
proof -
  have t: "r_tasks (early k e) = []" for k e by (simp add: early_def)
  obtain iface k where a: "attach_decap env iface none_attached = (k, Inr ())"
    and d: "decap_daemon env path none_attached = graceful_shutdown env [ServeMetrics] k"
    using decap_outcome [of env path none_attached] assms(4) t by metis
  have k: "\<not> k_tc k" "k_xdp k" "k \<lparr> k_xdp := False \<rparr> = none_attached"
    using attach_decap_done [OF a] by (simp_all add: none_attached_def)
  have "detach env k = (none_attached, Inl (TcDetachFailed (de_tc_detach env False)))"
    using k assms(1-3) by (simp add: detach_def detach_tc_def detach_xdp_def is_not_attached_def)
  then show ?thesis using d by (simp add: graceful_shutdown_def)
qed

theorem decap_shutdown_fails_witness:
  "r_result (decap_daemon (demo_daemon_env True) ''config.toml'' none_attached) = Inl (DetachFailed (TcDetachFailed (- 22))) \<and>
   \<not> r_cancelled (decap_daemon (demo_daemon_env True) ''config.toml'' none_attached)"
proof -
  have "r_tasks (decap_daemon (demo_daemon_env True) ''config.toml'' none_attached) \<noteq> []"
    by (simp add: decap_daemon_def demo_daemon_defs attach_decap_def graceful_shutdown_def split: prod.split sum.split)
  then show ?thesis
    using decap_shutdown_fails [of "demo_daemon_env True" "''config.toml''"] by (simp add: demo_daemon_env_def)
qed

end
