(* ===== verification/Spec2Isabelle.thy ===== *)
theory Spec2Isabelle
  imports Bpf_Dataplane_Laws Bpf_Metrics Steering_Agreement Bgp_Connection_Messages Erez_Bgp_Laws
    Erez_Wire_Laws Wire_Streams Wire_Families Iana_Tcp Erez_Daemon
begin

text \<open>
  Erez steers the traffic of a network by the round trip times that its hosts measure. This development
  models the daemon \<open>erezd\<close> with its eBPF programs, and the BGP speaker of the vendored \<open>netgauze\<close>
  crates that it learns routes from, and proves the properties that make them correct.

  \<^bold>\<open>Parts and how they interact.\<close> A BGP speaker keeps sessions with the configured routers. A peer task
  owns each session; it reports events, and the UPDATE messages of established sessions become updates
  for the steering controller. The controller keeps a routing table and writes weighted forwarding
  entries to a kernel map: equal weights when routes change, and weights from online gradient descent on
  every tick, over a window of RTT samples that a kernel program collects. On hosts an eBPF program looks
  a packet up in the map, picks a nexthop by weight once per socket and encapsulates the packet; on
  routers another one decapsulates it and forwards it to that nexthop.

  \<^bold>\<open>Theories and sources.\<close>
  \<^item> \<open>Prelude\<close>: words, byte order, results, hash maps as association lists (an operation whose result
    can show the iteration order takes the order as an argument), and the lemmas that all others share.
  \<^item> \<open>Bpf_Abi\<close>, \<open>Bpf_Fib\<close>, \<open>Bpf_Metrics\<close> (\<open>src/erezd/src/bpf_abi.rs\<close>, \<open>bpf.rs\<close>): the layout shared with the
    kernel, forwarding entries and the map (locale \<open>bpf_map\<close> is what the kernel promises), the counters
    and their export.
  \<^item> \<open>Bpf_Dataplane\<close>, \<open>Bpf_Dataplane_Laws\<close> (\<open>src/erezd/src/bpf/erez.bpf.h\<close>, \<open>erez.bpf.c\<close>): the kernel programs
    over packets as byte lists. The helpers of the kernel (random numbers, fib lookup, redirect, headroom)
    are arguments.
  \<^item> \<open>Rtt_Aggregation\<close> (\<open>rtt_aggregation.rs\<close>): the sliding windows.
  \<^item> \<open>F64_Rounding\<close>: what the proofs need of IEEE arithmetic, as locales (\<open>f64_rounding\<close>, \<open>f32_rounding\<close>)
    interpreted on round-to-nearest.
  \<^item> \<open>Steering_Rib\<close>, \<open>Steering_Descent\<close>, \<open>Steering_Step\<close>, \<open>Steering\<close>, \<open>Steering_Agreement\<close> (\<open>steering.rs\<close>): the
    routing table (locale \<open>route_table\<close>), gradient descent and projection, the controller loop (locale
    \<open>controller\<close>), and the agreement of table and map (locale \<open>controller_room\<close>).
  \<^item> \<open>Iana_Address_Family\<close>, \<open>Iana_Codes\<close>, \<open>Iana_Community_Codes\<close>, \<open>Link_State_Codes\<close> (\<open>netgauze/iana\<close>,
    \<open>netgauze/bgp-pkt/src/iana.rs\<close>): the registries, each an enumeration with its codes (locale \<open>code_registry\<close>).
    \<open>Iana_Tcp\<close> (\<open>netgauze/iana/src/tcp.rs\<close>): the flags of a TCP header.
  \<^item> \<open>Nlri_Types\<close>, \<open>Community_Types\<close>, \<open>Link_State_Types\<close>, \<open>Bgp_Types\<close> (\<open>nlri/nlri.rs\<close>, \<open>community.rs\<close>, \<open>nlri/bgp_ls.rs\<close>,
    \<open>path_attribute/bgp_ls.rs\<close>, \<open>path_attribute/bgp_sid.rs\<close> and the modules of the messages in
    \<open>netgauze/bgp-pkt/src\<close>): networks, communities, link-state values, segment identifiers, path attributes and
    messages. A float is its bit pattern and a string its octets.
  \<^item> \<open>Wire_Base\<close> (\<open>netgauze/parse-utils\<close>): parsers and the contracts of a reader and its writer, the locales
    \<open>wire_codec\<close>, \<open>body_codec\<close> and \<open>element_codec\<close>, which every codec below interprets.
  \<^item> \<open>Wire_Tlv\<close> (\<open>wire/deserializer/mod.rs\<close>, \<open>wire/serializer/mod.rs\<close>): values behind a header of type and length; the
    locale \<open>tlv_codec\<close> is the contract of a list of them.
  \<^item> \<open>Wire_Link_State\<close>, \<open>Wire_Link_State_Laws\<close>, \<open>Wire_Link_State_Attribute\<close>, \<open>Wire_Segment_Ids\<close> (the modules \<open>bgp_ls\<close> and
    \<open>bgp_sid\<close> of \<open>netgauze/bgp-pkt/src/wire\<close>): link-state networks, the link-state attribute and prefix segment
    identifiers.
  \<^item> \<open>Wire_Capabilities\<close>, \<open>Wire_Capabilities_Laws\<close>, \<open>Wire_Open\<close>, \<open>Wire_Notification\<close>, \<open>Wire_Nlri\<close>, \<open>Wire_Labels\<close>,
    \<open>Wire_Evpn\<close>, \<open>Wire_Communities\<close>, \<open>Wire_Community_Laws\<close>, \<open>Wire_Attributes\<close>, \<open>Wire_Attribute_Writers\<close>,
    \<open>Wire_Attribute_Laws\<close>, \<open>Wire_Update\<close>, \<open>Wire_Message\<close>, \<open>Wire_Message_Laws\<close> (\<open>netgauze/bgp-pkt/src/wire\<close>,
    \<open>codec.rs\<close>): readers and writers from octets to messages, and the codec of a connection. The record
    \<open>codec_env\<close> holds the functions of the crate \<open>ipnet\<close>.
  \<^item> \<open>Wire_Families\<close> (\<open>path_attribute/path_attribute.rs\<close>, \<open>wire/deserializer/mod.rs\<close>): the address families of networks, and
    the notification for an error of the decoder, and the flags of the attributes that are read.
  \<^item> \<open>Wire_Codec_Runs\<close>, \<open>Wire_Streams\<close>: the codec over the life of a session and over a stream in pieces.
  \<^item> \<open>Bgp_Events\<close> (\<open>netgauze/bgp-speaker/src/events.rs\<close>, \<open>fsm.rs\<close>): errors and events of the speaker.
  \<^item> \<open>Bgp_Connection\<close>, \<open>Bgp_Connection_Laws\<close>, \<open>Bgp_Connection_Messages\<close> (\<open>connection.rs\<close>): one TCP connection with
    its state machine, timers, counters and the classification of UPDATE messages. Writes and the clock
    are the environment of a step.
  \<^item> \<open>Bgp_Peer\<close>, \<open>Bgp_Peer_Laws\<close>, \<open>Bgp_Peer_Behaviour\<close> (\<open>peer.rs\<close>): a peer with its main and tracked
    connections (locale \<open>connection_contract\<close> is what it relies on), collisions, the retry timer and
    administrative events.
  \<^item> \<open>Bgp_Supervisor\<close>, \<open>Bgp_Supervisor_Laws\<close> (\<open>peer_controller.rs\<close>, \<open>supervisor.rs\<close>, \<open>listener.rs\<close>): the tasks that
    run peers, the registry of peers (locale \<open>registry\<close>), and the listener.
  \<^item> \<open>Erez_Bgp\<close>, \<open>Erez_Bgp_Laws\<close> (\<open>src/erezd/src/bgp.rs\<close>): the speaker of the daemon, the conversion of UPDATE
    messages, and the composition with the controller. \<open>Erez_Wire_Laws\<close> follows routes from the octets of
    a session to the table.
  \<^item> \<open>Erez_Daemon\<close> (\<open>src/erezd/src/main.rs\<close>, \<open>config.rs\<close>, \<open>interface.rs\<close>, \<open>bpf.rs\<close>): starting and stopping the daemon, over the
    programs that the kernel has attached. The record \<open>daemon_env\<close> holds the results of libbpf, of the kernel and of the
    crates.

  \<^bold>\<open>What is shown.\<close> The controller never panics, its forwarding entries are valid, and the map has an entry
  with the first nexthops of a prefix exactly when the table has routes for it, and no other nexthops unless two
  paths of the prefix share one (\<open>controller_run_safe\<close>, \<open>fib_implements_rib\<close>); the table is what the UPDATE
  messages make of it (\<open>rib_follows_updates\<close>); a descent step yields valid weights under every rounding,
  and the projection is the Euclidean one in exact arithmetic (\<open>descent_step_valid\<close>, \<open>project_optimal\<close>). The
  data plane picks nexthops in proportion to their weights, keeps the choice of a socket, and
  decapsulation undoes encapsulation (\<open>select_nexthop_proportional\<close>, \<open>sticky_nexthop_stable\<close>,
  \<open>encap_decap_roundtrip\<close>). A daemon that stops leaves no program behind
  (\<open>programs_detached\<close>). A BGP connection refines an abstract state machine and is established only after
  the handshake (\<open>handle_event_refines_fsm\<close>, \<open>established_after_handshake\<close>); a peer with any number of connections
  follows its main connection as long as no start event finds it idle with a connection
  (\<open>peer_fsm_follows_connection\<close>; \<open>start_while_connected_loses_session\<close> shows what happens otherwise), its only
  errors are a failed write and a collision lost to a connection without a session
  (\<open>peer_no_invalid_transition\<close>), a resolved collision leaves one connection (\<open>collision_leaves_one_connection\<close>),
  and a task reports an error once and ends with one or for want of a receiver (\<open>peer_task_reports\<close>). The
  codec takes exactly the declared length of a message and ends on every buffer (\<open>decode_takes_declared_length\<close>,
  \<open>drain_ends\<close>). Messages within \<open>msg_ok\<close> are read back as they were written, and a stream of them is delivered in
  order however it is cut (\<open>codec_round_trip\<close>, \<open>stream_delivered\<close>); \<open>msg_ok\<close> and the predicates \<open>_ok\<close> under it
  say which values survive, and leave out those that the writers and readers do not agree on. The codec of a
  session skips nothing that its readers refuse (\<open>session_codec_is_strict\<close>). Properties of kind error state where the code departs from what it
  means to do, for example that a lost session leaves its routes behind (\<open>session_loss_keeps_routes\<close>) or
  that IPv6 routes are never withdrawn (\<open>ipv6_routes_never_withdrawn\<close>), or that a decapsulation daemon cannot
  shut down without an error (\<open>decap_shutdown_fails\<close>).

  \<^bold>\<open>Bounds and fuel.\<close> No definition has fuel: loops are structural or have a measure. The sums of RTT samples
  need fewer than \<open>2 ^ 32\<close> events in a run, which keeps a 64-bit sum of 32-bit samples from overflowing.
  The agreement of table and map needs a map with room for the prefixes in use. An operation of the
  listener that awaits runs over a schedule of task steps, and says when the schedule ended before it
  was done.

  \<^bold>\<open>Not modelled.\<close> Reading and writing of sockets, netlink, libbpf and the ring buffer, the command line,
  the syntax of configuration files, the metrics server and logging are I/O. A future that is cancelled while it awaits
  a write is not modelled: a step either waits or completes. Of the wire format, positions in errors, and the
  octets that a writer leaves behind when it fails, are left out. The arithmetic of the parsers wraps
  around, as in a release build. Durations divided or multiplied by an \<open>f32\<close> are rounded once where the standard
  library rounds at each step. The interface of the BGP configuration, which only gives link-local addresses their
  scope, is left out, and the kernel keeps one set of attached programs, that of the interface of the daemon. The lab
  test harness \<open>erez_test\<close> and the derive macros are left out.
\<close>

end
